(* ===== verification/Prelude.thy ===== *)
theory Prelude
  imports Complex_Main "HOL-Library.AList" "HOL-Library.Char_ord" "HOL-Library.List_Lexorder"
begin

text \<open>
  Shared vocabulary of the development.

  \<^item> Exceptions: a function of the source that may throw returns \<open>'e + 'a\<close>, \<open>Inl\<close> for the
    exception. \<open>res_bind\<close> is sequencing (an exception skips the rest), \<open>for_each\<close> a
    \<open>for\<close> loop whose body may throw and which threads its local variables.
  \<^item> \<open>Map\<close> objects of the source keep insertion order. They are association lists with distinct
    keys: \<open>map_of m k\<close> is \<open>m.get(k)\<close> and \<open>AList.update k v m\<close> is \<open>m.set(k, v)\<close>, which
    overwrites in place or appends.
  \<^item> \<open>undefined\<close> and \<open>null\<close> results are \<open>None\<close>.
  \<^item> \<open>json\<close> is the type \<open>JsonValue\<close> of packages/protocol/src/json.ts.
\<close>

section \<open>Results\<close>

named_theorems result_simps \<open>case analysis of computations that may throw\<close>

definition res_bind :: "'e + 'a \<Rightarrow> ('a \<Rightarrow> 'e + 'b) \<Rightarrow> 'e + 'b" where
  "res_bind m f = (case m of Inl e \<Rightarrow> Inl e | Inr x \<Rightarrow> f x)"

lemma res_bind_simps [simp]:
  "res_bind (Inl e) f = Inl e"
  "res_bind (Inr x) f = f x"
  by (simp_all add: res_bind_def)

lemma res_bind_eq_Inr [result_simps]:
  "res_bind m f = Inr y \<longleftrightarrow> (\<exists>x. m = Inr x \<and> f x = Inr y)"
  by (cases m) simp_all

lemma res_bind_eq_Inl [result_simps]:
  "res_bind m f = Inl e \<longleftrightarrow> m = Inl e \<or> (\<exists>x. m = Inr x \<and> f x = Inl e)"
  by (cases m) simp_all

lemma res_bind_cong [fundef_cong]:
  "m = m' \<Longrightarrow> (\<And>x. m' = Inr x \<Longrightarrow> f x = g x) \<Longrightarrow> res_bind m f = res_bind m' g"
  by (cases m') simp_all

definition guard :: "bool \<Rightarrow> 'e \<Rightarrow> 'e + unit" where
  "guard b e = (if b then Inr () else Inl e)"

lemma guard_simps [simp]:
  "guard True e = Inr ()" "guard False e = Inl e"
  by (simp_all add: guard_def)

lemma guard_eq_Inr [result_simps]: "guard b e = Inr u \<longleftrightarrow> b"
  by (cases u) (simp add: guard_def)

lemma guard_eq_Inl [result_simps]: "guard b e = Inl e' \<longleftrightarrow> \<not> b \<and> e = e'"
  by (auto simp: guard_def)

fun for_each :: "('s \<Rightarrow> 'a \<Rightarrow> 'e + 's) \<Rightarrow> 's \<Rightarrow> 'a list \<Rightarrow> 'e + 's" where
  "for_each body s [] = Inr s"
| "for_each body s (x # xs) = res_bind (body s x) (\<lambda>s'. for_each body s' xs)"

lemma for_each_append:
  "for_each body s (xs @ ys) = res_bind (for_each body s xs) (\<lambda>s'. for_each body s' ys)"
proof (induction xs arbitrary: s)
  case (Cons x xs)
  then show ?case by (cases "body s x") simp_all
qed simp

lemma for_each_cong [fundef_cong]:
  "s = s' \<Longrightarrow> xs = ys \<Longrightarrow> (\<And>x t. x \<in> set ys \<Longrightarrow> f t x = g t x) \<Longrightarrow> for_each f s xs = for_each g s' ys"
proof (induction xs arbitrary: s s' ys)
  case (Cons x xs)
  have "for_each f t xs = for_each g t xs" for t
    using Cons.IH [of t t xs] Cons.prems(2,3) by fastforce
  with Cons.prems show ?case by (auto intro: res_bind_cong)
qed simp

text \<open>The loop invariant rule: what the body keeps, a completed loop keeps.\<close>

lemma for_each_invariant:
  assumes "for_each body s xs = Inr s'" and "I s"
    and "\<And>t x t'. x \<in> set xs \<Longrightarrow> I t \<Longrightarrow> body t x = Inr t' \<Longrightarrow> I t'"
  shows "I s'"
  using assms
proof (induction xs arbitrary: s)
  case (Cons x xs)
  then obtain t where "body s x = Inr t" "for_each body t xs = Inr s'"
    by (auto simp: res_bind_eq_Inr)
  with Cons show ?case by (meson list.set_intros)
qed simp

lemma for_each_Inl:
  "for_each body s xs = Inl e \<Longrightarrow> \<exists>t x. x \<in> set xs \<and> body t x = Inl e"
proof (induction xs arbitrary: s)
  case (Cons x xs)
  then show ?case by (auto simp: res_bind_eq_Inl) blast+
qed simp

fun map_result :: "('a \<Rightarrow> 'e + 'b) \<Rightarrow> 'a list \<Rightarrow> 'e + 'b list" where
  "map_result f [] = Inr []"
| "map_result f (x # xs) = res_bind (f x) (\<lambda>y. res_bind (map_result f xs) (\<lambda>ys. Inr (y # ys)))"

lemma map_result_eq_Inr [result_simps]:
  "map_result f xs = Inr ys \<longleftrightarrow> list_all2 (\<lambda>x y. f x = Inr y) xs ys"
proof (induction xs arbitrary: ys)
  case (Cons x xs)
  then show ?case by (auto simp: res_bind_eq_Inr list_all2_Cons1)
qed auto

lemma map_result_cong [fundef_cong]:
  "xs = ys \<Longrightarrow> (\<And>x. x \<in> set ys \<Longrightarrow> f x = g x) \<Longrightarrow> map_result f xs = map_result g ys"
proof (induction xs arbitrary: ys)
  case (Cons x xs)
  have "map_result f xs = map_result g xs"
    using Cons.IH [of xs] Cons.prems by fastforce
  with Cons.prems show ?case by auto
qed simp

section \<open>Effects\<close>

text \<open>
  An asynchronous function of the source that reads and changes the world takes the state of the
  world and returns its outcome with the new state; \<open>Inl\<close> is a rejected promise. State changes
  made before an exception stay. \<open>eff_try\<close> is \<open>try/catch\<close>; \<open>eff_finally\<close> is \<open>try/finally\<close>, where
  an exception of the \<open>finally\<close> block replaces the outcome.
\<close>

type_synonym ('s, 'e, 'a) eff = "'s \<Rightarrow> ('e + 'a) \<times> 's"

named_theorems eff_simps \<open>unfolding of effectful computations\<close>

definition eff_return :: "'a \<Rightarrow> ('s, 'e, 'a) eff" where
  "eff_return x s = (Inr x, s)"

definition eff_throw :: "'e \<Rightarrow> ('s, 'e, 'a) eff" where
  "eff_throw e s = (Inl e, s)"

definition eff_bind :: "('s, 'e, 'a) eff \<Rightarrow> ('a \<Rightarrow> ('s, 'e, 'b) eff) \<Rightarrow> ('s, 'e, 'b) eff" where
  "eff_bind m f s = (case m s of (Inl e, t) \<Rightarrow> (Inl e, t) | (Inr x, t) \<Rightarrow> f x t)"

definition eff_try :: "('s, 'e, 'a) eff \<Rightarrow> ('e \<Rightarrow> ('s, 'e, 'a) eff) \<Rightarrow> ('s, 'e, 'a) eff" where
  "eff_try m h s = (case m s of (Inl e, t) \<Rightarrow> h e t | (Inr x, t) \<Rightarrow> (Inr x, t))"

definition eff_finally :: "('s, 'e, 'a) eff \<Rightarrow> ('s, 'e, unit) eff \<Rightarrow> ('s, 'e, 'a) eff" where
  "eff_finally m f s =
     (case m s of (r, t) \<Rightarrow> (case f t of (Inl e, u) \<Rightarrow> (Inl e, u) | (Inr _, u) \<Rightarrow> (r, u)))"

definition eff_guard :: "bool \<Rightarrow> 'e \<Rightarrow> ('s, 'e, unit) eff" where
  "eff_guard b e = (if b then eff_return () else eff_throw e)"

definition eff_result :: "'e + 'a \<Rightarrow> ('s, 'e, 'a) eff" where
  "eff_result r s = (r, s)"

fun eff_for_each :: "('a \<Rightarrow> ('s, 'e, unit) eff) \<Rightarrow> 'a list \<Rightarrow> ('s, 'e, unit) eff" where
  "eff_for_each body [] = eff_return ()"
| "eff_for_each body (x # xs) = eff_bind (body x) (\<lambda>_. eff_for_each body xs)"

fun eff_map :: "('a \<Rightarrow> ('s, 'e, 'b) eff) \<Rightarrow> 'a list \<Rightarrow> ('s, 'e, 'b list) eff" where
  "eff_map body [] = eff_return []"
| "eff_map body (x # xs) =
     eff_bind (body x) (\<lambda>y. eff_bind (eff_map body xs) (\<lambda>ys. eff_return (y # ys)))"

text \<open>
  A block with mutable local variables that outlive an exception (a \<open>let\<close> declared before
  \<open>try\<close> and read in \<open>catch\<close> or \<open>finally\<close>) runs on the world paired with a record of them.
\<close>

definition eff_lift :: "('s, 'e, 'a) eff \<Rightarrow> ('s \<times> 'l, 'e, 'a) eff" where
  "eff_lift m sl = (case m (fst sl) of (r, t) \<Rightarrow> (r, (t, snd sl)))"

definition eff_set :: "('l \<Rightarrow> 'l) \<Rightarrow> ('s \<times> 'l, 'e, unit) eff" where
  "eff_set f sl = (Inr (), (fst sl, f (snd sl)))"

definition eff_locals :: "('l \<Rightarrow> ('s \<times> 'l, 'e, 'a) eff) \<Rightarrow> ('s \<times> 'l, 'e, 'a) eff" where
  "eff_locals f sl = f (snd sl) sl"

definition eff_block :: "'l \<Rightarrow> ('s \<times> 'l, 'e, 'a) eff \<Rightarrow> ('s, 'e, 'a) eff" where
  "eff_block l m s = (case m (s, l) of (r, (t, _)) \<Rightarrow> (r, t))"

text \<open>\<open>xs.sort(compare)\<close>, which is stable.\<close>

fun insert_by :: "('a \<Rightarrow> 'a \<Rightarrow> int) \<Rightarrow> 'a \<Rightarrow> 'a list \<Rightarrow> 'a list" where
  "insert_by compare x [] = [x]"
| "insert_by compare x (y # ys) =
     (if compare x y \<le> 0 then x # y # ys else y # insert_by compare x ys)"

definition sort_by :: "('a \<Rightarrow> 'a \<Rightarrow> int) \<Rightarrow> 'a list \<Rightarrow> 'a list" where
  "sort_by compare xs = foldr (insert_by compare) xs []"

lemma set_insert_by [simp]: "set (insert_by compare x ys) = insert x (set ys)"
  by (induction ys) auto

lemma set_sort_by [simp]: "set (sort_by compare xs) = set xs"
  by (induction xs) (simp_all add: sort_by_def)

lemma length_insert_by [simp]: "length (insert_by compare x ys) = Suc (length ys)"
  by (induction ys) auto

lemma length_sort_by [simp]: "length (sort_by compare xs) = length xs"
  by (induction xs) (simp_all add: sort_by_def)

lemmas eff_defs [eff_simps] =
  eff_return_def eff_throw_def eff_bind_def eff_try_def eff_finally_def eff_guard_def eff_result_def

lemma eff_bind_cases:
  assumes "eff_bind m f s = (r, u)"
  obtains (throw) e where "m s = (Inl e, u)" "r = Inl e"
    | (go_on) x t where "m s = (Inr x, t)" "f x t = (r, u)"
  using assms by (auto simp: eff_bind_def split: prod.splits sum.splits)

lemma eff_try_cases:
  assumes "eff_try m h s = (r, u)"
  obtains (return) x where "m s = (Inr x, u)" "r = Inr x"
    | (catch) e t where "m s = (Inl e, t)" "h e t = (r, u)"
  using assms by (auto simp: eff_try_def split: prod.splits sum.splits)

lemma eff_bind_Inr [result_simps]:
  "eff_bind m f s = (Inr y, u) \<longleftrightarrow> (\<exists>x t. m s = (Inr x, t) \<and> f x t = (Inr y, u))"
  by (auto simp: eff_bind_def split: prod.splits sum.splits)

lemma eff_bind_Inl [result_simps]:
  "eff_bind m f s = (Inl e, u) \<longleftrightarrow> m s = (Inl e, u) \<or> (\<exists>x t. m s = (Inr x, t) \<and> f x t = (Inl e, u))"
  by (auto simp: eff_bind_def split: prod.splits sum.splits)

lemma eff_run [simp]:
  "eff_return x s = (Inr x, s)"
  "eff_throw e s = (Inl e, s)"
  "eff_result r s = (r, s)"
  "m s = (Inr x, t) \<Longrightarrow> eff_bind m f s = f x t"
  "m s = (Inl e, t) \<Longrightarrow> eff_bind m f s = (Inl e, t)"
  "m s = (Inr x, t) \<Longrightarrow> eff_try m h s = (Inr x, t)"
  "m s = (Inl e, t) \<Longrightarrow> eff_try m h s = h e t"
  by (simp_all add: eff_defs)

lemma eff_guard_run [simp]:
  "eff_guard True e s = (Inr (), s)" "eff_guard False e s = (Inl e, s)"
  by (simp_all add: eff_defs)

lemma eff_guard_Inr [result_simps]: "eff_guard b e s = (Inr u, t) \<longleftrightarrow> b \<and> t = s"
  by (cases u) (auto simp: eff_defs)

lemma eff_guard_Inl [result_simps]: "eff_guard b e s = (Inl e', t) \<longleftrightarrow> \<not> b \<and> e' = e \<and> t = s"
  by (auto simp: eff_defs)

section \<open>Insertion-ordered maps\<close>

lemma map_of_update [simp]: "map_of (AList.update k v m) = (map_of m)(k \<mapsto> v)"
  by (rule update_conv')

lemma map_of_update_None [simp]:
  "map_of (AList.update k v m) k' = None \<longleftrightarrow> k' \<noteq> k \<and> map_of m k' = None"
  by simp

lemma update_fresh: "k \<notin> fst ` set m \<Longrightarrow> AList.update k v m = m @ [(k, v)]"
  by (induction m) auto

lemma keys_update: "k \<in> fst ` set m \<Longrightarrow> map fst (AList.update k v m) = map fst m"
  by (simp add: update_keys)

section \<open>Lists\<close>

text \<open>\<open>before xs a b\<close>: some occurrence of \<open>a\<close> is strictly before some occurrence of \<open>b\<close>.\<close>

definition before :: "'a list \<Rightarrow> 'a \<Rightarrow> 'a \<Rightarrow> bool" where
  "before xs a b \<longleftrightarrow> (\<exists>us vs ws. xs = us @ a # vs @ b # ws)"

lemma before_Nil [simp]: "\<not> before [] a b"
  by (simp add: before_def)

lemma before_Cons [simp]: "before (x # xs) a b \<longleftrightarrow> x = a \<and> b \<in> set xs \<or> before xs a b"
proof
  assume "before (x # xs) a b"
  then obtain us vs ws where eq: "x # xs = us @ a # vs @ b # ws"
    by (auto simp: before_def)
  show "x = a \<and> b \<in> set xs \<or> before xs a b"
  proof (cases us)
    case Nil
    with eq show ?thesis by auto
  next
    case (Cons u us')
    with eq show ?thesis by (auto simp: before_def)
  qed
next
  assume "x = a \<and> b \<in> set xs \<or> before xs a b"
  then show "before (x # xs) a b"
  proof
    assume "x = a \<and> b \<in> set xs"
    then obtain vs ws where "x # xs = [] @ a # vs @ b # ws" by (auto dest: split_list)
    then show ?thesis unfolding before_def by blast
  next
    assume "before xs a b"
    then obtain us vs ws where "xs = us @ a # vs @ b # ws" by (auto simp: before_def)
    then have "x # xs = (x # us) @ a # vs @ b # ws" by simp
    then show ?thesis unfolding before_def by blast
  qed
qed

lemma before_append [simp]:
  "before (xs @ ys) a b \<longleftrightarrow> before xs a b \<or> before ys a b \<or> a \<in> set xs \<and> b \<in> set ys"
  by (induction xs) auto

lemma before_in_set: "before xs a b \<Longrightarrow> a \<in> set xs \<and> b \<in> set xs"
  by (auto simp: before_def)

lemma before_asym: "distinct xs \<Longrightarrow> before xs a b \<Longrightarrow> \<not> before xs b a"
  by (induction xs) (auto dest: before_in_set)

section \<open>Strings\<close>

text \<open>
  \<open>s.split(c)\<close> with a one-character separator, \<open>xs.join(c)\<close> and \<open>s.startsWith(p)\<close>. A \<open>char\<close> stands
  for one code unit of the source's strings.
\<close>

fun js_split :: "char \<Rightarrow> string \<Rightarrow> string list" where
  "js_split c [] = [[]]"
| "js_split c (x # xs) =
     (if x = c then [] # js_split c xs
      else (case js_split c xs of [] \<Rightarrow> [[x]] | s # ss \<Rightarrow> (x # s) # ss))"

fun js_join :: "string \<Rightarrow> string list \<Rightarrow> string" where
  "js_join sep [] = []"
| "js_join sep [s] = s"
| "js_join sep (s # t # ss) = s @ sep @ js_join sep (t # ss)"

definition starts_with :: "string \<Rightarrow> string \<Rightarrow> bool" where
  "starts_with p s \<longleftrightarrow> take (length p) s = p"

lemma starts_with_simps [simp]:
  "starts_with [] s"
  "starts_with (x # p) [] \<longleftrightarrow> False"
  "starts_with (x # p) (y # s) \<longleftrightarrow> x = y \<and> starts_with p s"
  by (auto simp: starts_with_def)

lemma js_split_nonempty [simp]: "js_split c s \<noteq> []"
  by (induction s) (auto split: list.splits)

lemma js_join_Cons: "ss \<noteq> [] \<Longrightarrow> js_join sep (s # ss) = s @ sep @ js_join sep ss"
  by (cases ss) auto

lemma js_join_split [simp]: "js_join [c] (js_split c s) = s"
proof (induction s)
  case (Cons x xs)
  then show ?case
    by (cases "js_split c xs"; cases "tl (js_split c xs)") (auto simp: js_join_Cons)
qed simp

lemma js_split_no_sep: "t \<in> set (js_split c s) \<Longrightarrow> c \<notin> set t"
proof (induction s arbitrary: t)
  case (Cons x xs)
  then show ?case
    by (cases "js_split c xs") (auto split: if_splits)
qed simp

lemma js_split_chars: "t \<in> set (js_split c s) \<Longrightarrow> set t \<subseteq> set s"
proof (induction s arbitrary: t)
  case (Cons x xs)
  then show ?case
    by (cases "js_split c xs") (fastforce split: if_splits)+
qed simp

lemma js_split_fresh: "c \<notin> set s \<Longrightarrow> js_split c s = [s]"
  by (induction s) auto

lemma js_split_append: "c \<notin> set s \<Longrightarrow> js_split c (s @ c # t) = s # js_split c t"
  by (induction s) auto

lemma js_split_join:
  "ss \<noteq> [] \<Longrightarrow> \<forall>s \<in> set ss. c \<notin> set s \<Longrightarrow> js_split c (js_join [c] ss) = ss"
proof (induction ss rule: induct_list012)
  case (3 s t ss)
  then show ?case by (simp add: js_split_append)
qed (simp_all add: js_split_fresh)

section \<open>JSON values\<close>

datatype json =
    JNull
  | JBool bool
  | JNum rat
  | JStr string
  | JArr "json list"
  | JObj "(string \<times> json) list"

text \<open>An object literal entry that is spread only when its value is defined.\<close>

fun opt_field :: "string \<Rightarrow> json option \<Rightarrow> (string \<times> json) list" where
  "opt_field k None = []"
| "opt_field k (Some v) = [(k, v)]"

end
