(* ===== verification/Changesets.thy ===== *)
theory Changesets
  imports Prelude
begin

text \<open>
  The optimistic changeset planner of packages/workspace/src/changesets: validation
  (validate.ts), planning one file change against the current file (planner.ts), planning a
  whole changeset and its undo (plan.ts), and the records they build (types.ts, records.ts).

  \<open>createHash\<close> of node:crypto is the parameter \<open>sha\<close>. \<open>WorkspaceReader.readText\<close> is the
  parameter \<open>readText\<close>: it throws (\<open>Inl\<close>), or returns the text or \<open>null\<close> (\<open>None\<close>).
  The abstract specification is a workspace as a map from paths to texts; \<open>apply_files\<close>
  is what writing a receipt's files does to it.
\<close>

section \<open>Data\<close>

datatype FileChangeKind = FC_create | FC_update | FC_delete

datatype ChangeApplyStatus = CA_applied | CA_already_applied | CA_conflicted

record FileChange =
  fc_path :: string
  fc_kind :: FileChangeKind
  fc_baseText :: "string option"
  fc_baseSha256 :: "string option"
  fc_targetText :: "string option"

record ChangeSet =
  cs_id :: string
  cs_title :: "string option"
  cs_baseRevision :: "string option"
  cs_changes :: "FileChange list"

datatype FileConflictReason =
    missing_base
  | base_hash_mismatch
  | already_exists
  | missing_file
  | undo_target_changed

record FileConflict =
  fx_path :: string
  fx_reason :: FileConflictReason
  fx_currentSha256 :: "string option"
  fx_expectedSha256 :: "string option"

record AppliedFileChange =
  af_path :: string
  af_kind :: FileChangeKind
  af_beforeText :: "string option"
  af_afterText :: "string option"
  af_beforeSha256 :: "string option"
  af_afterSha256 :: "string option"

record ChangeSetReceipt =
  rc_changeSetId :: string
  rc_status :: ChangeApplyStatus
  rc_files :: "AppliedFileChange list"
  rc_conflicts :: "FileConflict list"

datatype PlannedFileChange = PlannedFile AppliedFileChange | PlannedConflict FileConflict

type_synonym 'e reader = "string \<Rightarrow> 'e + string option"

datatype 'e changeset_error =
    ChangeSetIdEmpty
  | ChangeSetNoChanges
  | FileChangePathEmpty
  | DuplicatePath string
  | TargetTextRequired string
  | ConflictedReceiptCannotBeUndone
  | ReadFailed 'e

section \<open>Operations\<close>

definition sha256Optional :: "(string \<Rightarrow> string) \<Rightarrow> string option \<Rightarrow> string option" where
  "sha256Optional sha text = (case text of None \<Rightarrow> None | Some t \<Rightarrow> Some (sha t))"

definition appliedFileRecord ::
  "string \<Rightarrow> FileChangeKind \<Rightarrow> string option \<Rightarrow> string option \<Rightarrow> string option \<Rightarrow>
   string option \<Rightarrow> AppliedFileChange" where
  "appliedFileRecord path kind beforeText afterText beforeSha256 afterSha256 =
     \<lparr>af_path = path, af_kind = kind, af_beforeText = beforeText, af_afterText = afterText,
      af_beforeSha256 = beforeSha256, af_afterSha256 = afterSha256\<rparr>"

definition conflictRecord ::
  "string \<Rightarrow> FileConflictReason \<Rightarrow> string option \<Rightarrow> string option \<Rightarrow> FileConflict" where
  "conflictRecord path reason currentSha256 expectedSha256 =
     \<lparr>fx_path = path, fx_reason = reason, fx_currentSha256 = currentSha256,
      fx_expectedSha256 = expectedSha256\<rparr>"

definition validateFileChange ::
  "string list \<Rightarrow> FileChange \<Rightarrow> 'e changeset_error + string list" where
  "validateFileChange paths change =
     res_bind (guard (fc_path change \<noteq> []) FileChangePathEmpty) (\<lambda>_.
     res_bind (guard (fc_path change \<notin> set paths) (DuplicatePath (fc_path change))) (\<lambda>_.
     res_bind (guard (\<not> (fc_kind change \<noteq> FC_delete \<and> fc_targetText change = None))
         (TargetTextRequired (fc_path change))) (\<lambda>_.
     Inr (paths @ [fc_path change]))))"

definition validateChangeSet :: "ChangeSet \<Rightarrow> 'e changeset_error + unit" where
  "validateChangeSet changeSet =
     res_bind (guard (cs_id changeSet \<noteq> []) ChangeSetIdEmpty) (\<lambda>_.
     res_bind (guard (cs_changes changeSet \<noteq> []) ChangeSetNoChanges) (\<lambda>_.
     res_bind (for_each validateFileChange [] (cs_changes changeSet)) (\<lambda>_. Inr ())))"

text \<open>\<open>planFileChange\<close> after \<open>readText\<close> has returned \<open>current\<close>.\<close>

definition planFileChangeAt ::
  "(string \<Rightarrow> string) \<Rightarrow> string option \<Rightarrow> FileChange \<Rightarrow> PlannedFileChange" where
  "planFileChangeAt sha current change =
     (let currentSha256 = sha256Optional sha current;
          baseText = fc_baseText change;
          baseSha256 = (case fc_baseSha256 change of Some h \<Rightarrow> Some h
                        | None \<Rightarrow> sha256Optional sha baseText);
          targetSha256 = sha256Optional sha (fc_targetText change)
      in if fc_kind change = FC_create then
           (if current \<noteq> None \<and> currentSha256 \<noteq> targetSha256
            then PlannedConflict
                   (conflictRecord (fc_path change) already_exists currentSha256 None)
            else PlannedFile (appliedFileRecord (fc_path change) (fc_kind change)
                   current (fc_targetText change) currentSha256 targetSha256))
         else if baseText = None \<or> baseSha256 = None then
           PlannedConflict (conflictRecord (fc_path change) missing_base currentSha256 None)
         else
           (let targetText = (if fc_kind change = FC_delete then None
                              else Some (case fc_targetText change of None \<Rightarrow> [] | Some t \<Rightarrow> t))
            in if current = targetText then
                 PlannedFile (appliedFileRecord (fc_path change) (fc_kind change)
                   current current currentSha256 currentSha256)
               else if current = None then
                 PlannedConflict (conflictRecord (fc_path change) missing_file None baseSha256)
               else if current = baseText then
                 PlannedFile (appliedFileRecord (fc_path change) (fc_kind change)
                   current
                   (if fc_kind change = FC_delete then None else fc_targetText change)
                   currentSha256
                   (if fc_kind change = FC_delete then None else targetSha256))
               else PlannedConflict (conflictRecord (fc_path change) base_hash_mismatch
                      currentSha256 baseSha256)))"

definition planFileChange ::
  "(string \<Rightarrow> string) \<Rightarrow> 'e reader \<Rightarrow> FileChange \<Rightarrow> 'e changeset_error + PlannedFileChange" where
  "planFileChange sha readText change =
     (case readText (fc_path change) of
        Inl e \<Rightarrow> Inl (ReadFailed e)
      | Inr current \<Rightarrow> Inr (planFileChangeAt sha current change))"

definition planStep ::
  "(string \<Rightarrow> string) \<Rightarrow> 'e reader \<Rightarrow> AppliedFileChange list \<times> FileConflict list \<Rightarrow> FileChange \<Rightarrow>
   'e changeset_error + AppliedFileChange list \<times> FileConflict list" where
  "planStep sha readText acc change =
     res_bind (planFileChange sha readText change) (\<lambda>plan.
     Inr (case plan of
            PlannedConflict conflict \<Rightarrow> (fst acc, snd acc @ [conflict])
          | PlannedFile file \<Rightarrow> (fst acc @ [file], snd acc)))"

definition planChangeSetApply ::
  "(string \<Rightarrow> string) \<Rightarrow> 'e reader \<Rightarrow> ChangeSet \<Rightarrow> 'e changeset_error + ChangeSetReceipt" where
  "planChangeSetApply sha readText changeSet =
     res_bind (validateChangeSet changeSet) (\<lambda>_.
     res_bind (for_each (planStep sha readText) ([], []) (cs_changes changeSet)) (\<lambda>(files, conflicts).
     if length conflicts > 0 then
       Inr \<lparr>rc_changeSetId = cs_id changeSet, rc_status = CA_conflicted,
            rc_files = [], rc_conflicts = conflicts\<rparr>
     else
       Inr \<lparr>rc_changeSetId = cs_id changeSet,
            rc_status = (if list_all (\<lambda>file. af_beforeText file = af_afterText file) files
                         then CA_already_applied else CA_applied),
            rc_files = files, rc_conflicts = []\<rparr>))"

definition undoStep ::
  "(string \<Rightarrow> string) \<Rightarrow> 'e reader \<Rightarrow> FileConflict list \<Rightarrow> AppliedFileChange \<Rightarrow>
   'e changeset_error + FileConflict list" where
  "undoStep sha readText conflicts file =
     (case readText (af_path file) of
        Inl e \<Rightarrow> Inl (ReadFailed e)
      | Inr current \<Rightarrow>
          Inr (if sha256Optional sha current \<noteq> af_afterSha256 file
               then conflicts @ [conflictRecord (af_path file) undo_target_changed
                      (sha256Optional sha current) (af_afterSha256 file)]
               else conflicts))"

definition undoFile :: "AppliedFileChange \<Rightarrow> AppliedFileChange" where
  "undoFile file = appliedFileRecord (af_path file) (af_kind file)
     (af_afterText file) (af_beforeText file) (af_afterSha256 file) (af_beforeSha256 file)"

definition planChangeSetUndo ::
  "(string \<Rightarrow> string) \<Rightarrow> 'e reader \<Rightarrow> ChangeSetReceipt \<Rightarrow> 'e changeset_error + ChangeSetReceipt" where
  "planChangeSetUndo sha readText source =
     res_bind (guard (rc_status source \<noteq> CA_conflicted) ConflictedReceiptCannotBeUndone) (\<lambda>_.
     res_bind (for_each (undoStep sha readText) [] (rc_files source)) (\<lambda>conflicts.
     if length conflicts > 0 then
       Inr \<lparr>rc_changeSetId = rc_changeSetId source, rc_status = CA_conflicted,
            rc_files = [], rc_conflicts = conflicts\<rparr>
     else
       Inr \<lparr>rc_changeSetId = rc_changeSetId source, rc_status = CA_applied,
            rc_files = map undoFile (rc_files source),
            rc_conflicts = []\<rparr>))"

section \<open>Specification: workspaces as maps\<close>

type_synonym workspace = "string \<rightharpoonup> string"

definition reader_of :: "workspace \<Rightarrow> 'e reader" where
  "reader_of w = (\<lambda>path. Inr (w path))"

definition write_file :: "AppliedFileChange \<Rightarrow> workspace \<Rightarrow> workspace" where
  "write_file f w = w(af_path f := af_afterText f)"

definition apply_files :: "AppliedFileChange list \<Rightarrow> workspace \<Rightarrow> workspace" where
  "apply_files fs w = fold write_file fs w"

definition desired_text :: "FileChange \<Rightarrow> string option" where
  "desired_text c = (if fc_kind c = FC_delete then None else fc_targetText c)"

definition wf_change_set :: "ChangeSet \<Rightarrow> bool" where
  "wf_change_set cs \<longleftrightarrow> cs_id cs \<noteq> [] \<and> cs_changes cs \<noteq> [] \<and>
     distinct (map fc_path (cs_changes cs)) \<and> [] \<notin> set (map fc_path (cs_changes cs)) \<and>
     (\<forall>c \<in> set (cs_changes cs). fc_kind c \<noteq> FC_delete \<longrightarrow> fc_targetText c \<noteq> None)"

text \<open>When one change can be planned against the current text of its file.\<close>

definition change_applicable :: "(string \<Rightarrow> string) \<Rightarrow> string option \<Rightarrow> FileChange \<Rightarrow> bool" where
  "change_applicable sha current c \<longleftrightarrow>
     (if fc_kind c = FC_create
      then current = None \<or> sha256Optional sha current = sha256Optional sha (fc_targetText c)
      else fc_baseText c \<noteq> None \<and> (current = desired_text c \<or> current = fc_baseText c))"

section \<open>Lemmas\<close>

lemmas record_builders = appliedFileRecord_def conflictRecord_def

lemma sha256Optional_simps [simp]:
  "sha256Optional sha None = None"
  "sha256Optional sha (Some t) = Some (sha t)"
  "sha256Optional sha x = None \<longleftrightarrow> x = None"
  by (simp_all add: sha256Optional_def split: option.splits)

text \<open>The validation loop accumulates the distinct, non-empty paths it has seen.\<close>

lemma validate_loop [result_simps]:
  "for_each validateFileChange seen cs = Inr out \<longleftrightarrow>
   out = seen @ map fc_path cs \<and> distinct (map fc_path cs) \<and>
   set seen \<inter> set (map fc_path cs) = {} \<and> [] \<notin> set (map fc_path cs) \<and>
   (\<forall>c \<in> set cs. fc_kind c \<noteq> FC_delete \<longrightarrow> fc_targetText c \<noteq> None)"
  by (induction cs arbitrary: seen) (auto simp: result_simps validateFileChange_def)

lemma validateChangeSet_ok: "validateChangeSet cs = Inr () \<longleftrightarrow> wf_change_set cs"
  by (auto simp: validateChangeSet_def wf_change_set_def result_simps)

text \<open>The planning loop splits the plans into files and conflicts, in order.\<close>

definition planned_files :: "PlannedFileChange list \<Rightarrow> AppliedFileChange list" where
  "planned_files ps = List.map_filter (\<lambda>p. case p of PlannedFile f \<Rightarrow> Some f | _ \<Rightarrow> None) ps"

definition planned_conflicts :: "PlannedFileChange list \<Rightarrow> FileConflict list" where
  "planned_conflicts ps = List.map_filter (\<lambda>p. case p of PlannedConflict c \<Rightarrow> Some c | _ \<Rightarrow> None) ps"

lemma planned_simps [simp]:
  "planned_files [] = []" "planned_conflicts [] = []"
  "planned_files (PlannedFile f # ps) = f # planned_files ps"
  "planned_files (PlannedConflict c # ps) = planned_files ps"
  "planned_conflicts (PlannedFile f # ps) = planned_conflicts ps"
  "planned_conflicts (PlannedConflict c # ps) = c # planned_conflicts ps"
  by (simp_all add: planned_files_def planned_conflicts_def map_filter_simps)

lemma planned_conflicts_Nil:
  "planned_conflicts ps = [] \<Longrightarrow> ps = map PlannedFile (planned_files ps)"
proof (induction ps)
  case (Cons p ps)
  then show ?case by (cases p) auto
qed simp

lemma planning_loop:
  "for_each (planStep sha readText) acc cs =
   res_bind (map_result (planFileChange sha readText) cs)
     (\<lambda>ps. Inr (fst acc @ planned_files ps, snd acc @ planned_conflicts ps))"
proof (induction cs arbitrary: acc)
  case (Cons c cs)
  show ?case
  proof (cases "planFileChange sha readText c")
    case (Inr p)
    with Cons.IH show ?thesis
      by (cases p; cases "map_result (planFileChange sha readText) cs") (auto simp: planStep_def)
  qed (simp add: planStep_def)
qed simp

text \<open>What a planned file says about its change and the text it was planned against.\<close>

definition plan_matches :: "(string \<Rightarrow> string) \<Rightarrow> string option \<Rightarrow> FileChange \<Rightarrow> AppliedFileChange \<Rightarrow> bool" where
  "plan_matches sha current c f \<longleftrightarrow>
     af_path f = fc_path c \<and> af_kind f = fc_kind c \<and>
     af_beforeText f = current \<and> af_afterText f = desired_text c \<and>
     af_beforeSha256 f = sha256Optional sha current \<and>
     af_afterSha256 f = sha256Optional sha (desired_text c)"

lemma planFileChangeAt_file:
  assumes "planFileChangeAt sha current c = PlannedFile f"
    and "fc_kind c \<noteq> FC_delete \<longrightarrow> fc_targetText c \<noteq> None"
  shows "plan_matches sha current c f"
  using assms
  by (cases "fc_kind c")
     (auto simp: planFileChangeAt_def plan_matches_def desired_text_def record_builders Let_def
       split: if_splits option.splits)

lemma planFileChangeAt_conflict_iff:
  assumes "fc_kind c \<noteq> FC_delete \<longrightarrow> fc_targetText c \<noteq> None"
  shows "(\<exists>x. planFileChangeAt sha current c = PlannedConflict x) \<longleftrightarrow>
    \<not> change_applicable sha current c"
  using assms
  by (cases "fc_kind c"; cases current; cases "fc_baseText c"; cases "fc_baseSha256 c")
     (auto simp: planFileChangeAt_def change_applicable_def desired_text_def Let_def
       split: if_splits option.splits)

lemma plan_of_applied:
  assumes "change_applicable sha current c" "fc_kind c \<noteq> FC_delete \<longrightarrow> fc_targetText c \<noteq> None"
  obtains f where "planFileChangeAt sha current c = PlannedFile f" "plan_matches sha current c f"
proof (cases "planFileChangeAt sha current c")
  case (PlannedFile f)
  from that [OF PlannedFile planFileChangeAt_file [OF PlannedFile assms(2)]] show thesis .
next
  case (PlannedConflict x)
  with assms planFileChangeAt_conflict_iff [OF assms(2), of sha current] show thesis by blast
qed

text \<open>Writing files with distinct paths.\<close>

lemma apply_files_Nil [simp]: "apply_files [] w = w"
  by (simp add: apply_files_def)

lemma apply_files_notin: "p \<notin> set (map af_path fs) \<Longrightarrow> apply_files fs w p = w p"
  by (induction fs arbitrary: w) (auto simp: apply_files_def write_file_def)

lemma apply_files_in:
  "distinct (map af_path fs) \<Longrightarrow> f \<in> set fs \<Longrightarrow> apply_files fs w (af_path f) = af_afterText f"
proof (induction fs arbitrary: w)
  case (Cons g fs)
  have step: "apply_files (g # fs) w = apply_files fs (write_file g w)"
    by (simp add: apply_files_def)
  from Cons show ?case
    by (auto simp: step apply_files_notin write_file_def)
qed simp

text \<open>The plans of a changeset against a workspace, change by change.\<close>

lemma plans_of_changes:
  "map_result (planFileChange sha (reader_of w)) cs =
     Inr (map (\<lambda>c. planFileChangeAt sha (w (fc_path c)) c) cs)"
  by (induction cs) (simp_all add: planFileChange_def reader_of_def)

lemma planned_files_matches:
  assumes "\<forall>c \<in> set cs. fc_kind c \<noteq> FC_delete \<longrightarrow> fc_targetText c \<noteq> None"
    and "planned_conflicts (map (\<lambda>c. planFileChangeAt sha (w (fc_path c)) c) cs) = []"
  shows "list_all2 (\<lambda>c f. plan_matches sha (w (fc_path c)) c f) cs
    (planned_files (map (\<lambda>c. planFileChangeAt sha (w (fc_path c)) c) cs))"
  using assms
proof (induction cs)
  case (Cons c cs)
  then show ?case
    by (cases "planFileChangeAt sha (w (fc_path c)) c") (auto intro: planFileChangeAt_file)
qed simp

lemma planned_conflicts_paths:
  assumes "\<forall>c \<in> set cs. fc_kind c \<noteq> FC_delete \<longrightarrow> fc_targetText c \<noteq> None"
  shows "map fx_path (planned_conflicts (map (\<lambda>c. planFileChangeAt sha (w (fc_path c)) c) cs)) =
    map fc_path (filter (\<lambda>c. \<not> change_applicable sha (w (fc_path c)) c) cs)"
  using assms
proof (induction cs)
  case (Cons c cs)
  have path: "planFileChangeAt sha (w (fc_path c)) c = PlannedConflict x \<Longrightarrow> fx_path x = fc_path c" for x
    by (auto simp: planFileChangeAt_def record_builders Let_def split: if_splits)
  from Cons show ?case
    using planFileChangeAt_conflict_iff [of c sha "w (fc_path c)"]
    by (cases "planFileChangeAt sha (w (fc_path c)) c") (auto simp: path)
qed simp

text \<open>The receipt of a valid changeset, in closed form.\<close>

definition apply_receipt :: "(string \<Rightarrow> string) \<Rightarrow> workspace \<Rightarrow> ChangeSet \<Rightarrow> ChangeSetReceipt" where
  "apply_receipt sha w cs =
     (let ps = map (\<lambda>c. planFileChangeAt sha (w (fc_path c)) c) (cs_changes cs)
      in if planned_conflicts ps \<noteq> []
         then \<lparr>rc_changeSetId = cs_id cs, rc_status = CA_conflicted, rc_files = [],
               rc_conflicts = planned_conflicts ps\<rparr>
         else \<lparr>rc_changeSetId = cs_id cs,
               rc_status = (if list_all (\<lambda>f. af_beforeText f = af_afterText f) (planned_files ps)
                            then CA_already_applied else CA_applied),
               rc_files = planned_files ps, rc_conflicts = []\<rparr>)"

lemma planChangeSetApply_reader:
  "planChangeSetApply sha (reader_of w) cs = Inr r \<longleftrightarrow> wf_change_set cs \<and> r = apply_receipt sha w cs"
proof (cases "wf_change_set cs")
  case True
  then show ?thesis
    by (auto simp: planChangeSetApply_def planning_loop plans_of_changes apply_receipt_def
        validateChangeSet_ok [THEN iffD2])
next
  case False
  then show ?thesis by (simp add: planChangeSetApply_def res_bind_eq_Inr validateChangeSet_ok)
qed

lemma apply_receipt_conflicts:
  assumes "wf_change_set cs"
  shows "rc_status (apply_receipt sha w cs) = CA_conflicted \<longleftrightarrow>
      (\<exists>c \<in> set (cs_changes cs). \<not> change_applicable sha (w (fc_path c)) c)"
    and "rc_status (apply_receipt sha w cs) = CA_conflicted \<Longrightarrow> rc_files (apply_receipt sha w cs) = []"
    and "map fx_path (rc_conflicts (apply_receipt sha w cs)) =
      map fc_path (filter (\<lambda>c. \<not> change_applicable sha (w (fc_path c)) c) (cs_changes cs))"
proof -
  let ?xs = "planned_conflicts (map (\<lambda>c. planFileChangeAt sha (w (fc_path c)) c) (cs_changes cs))"
  have paths: "map fx_path ?xs =
      map fc_path (filter (\<lambda>c. \<not> change_applicable sha (w (fc_path c)) c) (cs_changes cs))"
    using assms planned_conflicts_paths [of "cs_changes cs" sha w] by (simp add: wf_change_set_def)
  have "?xs = [] \<longleftrightarrow> map fx_path ?xs = []" by simp
  also have "\<dots> \<longleftrightarrow> filter (\<lambda>c. \<not> change_applicable sha (w (fc_path c)) c) (cs_changes cs) = []"
    unfolding paths by simp
  finally have "?xs = [] \<longleftrightarrow> \<dots>" .
  then show "rc_status (apply_receipt sha w cs) = CA_conflicted \<longleftrightarrow>
      (\<exists>c \<in> set (cs_changes cs). \<not> change_applicable sha (w (fc_path c)) c)"
    by (auto simp: apply_receipt_def Let_def filter_empty_conv)
  show "rc_status (apply_receipt sha w cs) = CA_conflicted \<Longrightarrow> rc_files (apply_receipt sha w cs) = []"
    by (simp add: apply_receipt_def Let_def split: if_splits)
  have "rc_conflicts (apply_receipt sha w cs) = ?xs" by (simp add: apply_receipt_def Let_def)
  with paths show "map fx_path (rc_conflicts (apply_receipt sha w cs)) =
      map fc_path (filter (\<lambda>c. \<not> change_applicable sha (w (fc_path c)) c) (cs_changes cs))" by simp
qed

lemma apply_receipt_files:
  assumes "wf_change_set cs" "rc_status (apply_receipt sha w cs) \<noteq> CA_conflicted"
  shows "list_all2 (\<lambda>c f. plan_matches sha (w (fc_path c)) c f) (cs_changes cs)
    (rc_files (apply_receipt sha w cs))"
  using assms planned_files_matches [of "cs_changes cs" sha w]
  by (simp add: apply_receipt_def Let_def wf_change_set_def split: if_splits)

lemma apply_receipt_status:
  assumes "rc_status (apply_receipt sha w cs) \<noteq> CA_conflicted"
  shows "rc_status (apply_receipt sha w cs) = CA_already_applied \<longleftrightarrow>
      (\<forall>f \<in> set (rc_files (apply_receipt sha w cs)). af_beforeText f = af_afterText f)"
    and "rc_conflicts (apply_receipt sha w cs) = []"
  using assms by (auto simp: apply_receipt_def Let_def list_all_iff split: if_splits)

lemma matches_paths:
  "list_all2 (\<lambda>c f. plan_matches sha (w (fc_path c)) c f) cs fs \<Longrightarrow> map af_path fs = map fc_path cs"
  by (induction rule: list_all2_induct) (auto simp: plan_matches_def)

lemma matches_memb:
  assumes "list_all2 (\<lambda>c f. plan_matches sha (w (fc_path c)) c f) cs fs"
  shows "c \<in> set cs \<Longrightarrow> \<exists>f \<in> set fs. plan_matches sha (w (fc_path c)) c f"
    and "f \<in> set fs \<Longrightarrow> \<exists>c \<in> set cs. plan_matches sha (w (fc_path c)) c f"
  using assms by (induction rule: list_all2_induct) auto

lemma apply_matches:
  assumes "list_all2 (\<lambda>c f. plan_matches sha (w (fc_path c)) c f) cs fs"
    and "distinct (map fc_path cs)" and "c \<in> set cs"
  shows "apply_files fs w (fc_path c) = desired_text c"
proof -
  obtain f where "f \<in> set fs" "plan_matches sha (w (fc_path c)) c f"
    using matches_memb(1) [OF assms(1,3)] by blast
  moreover have "distinct (map af_path fs)" using assms(2) matches_paths [OF assms(1)] by simp
  ultimately show ?thesis using apply_files_in [of fs f w] by (simp add: plan_matches_def)
qed

lemma applied_is_applicable:
  "change_applicable sha current c \<Longrightarrow> change_applicable sha (desired_text c) c"
  by (auto simp: change_applicable_def desired_text_def)

text \<open>The undo loop records a conflict for each file whose text has another hash.\<close>

lemma undo_loop:
  "for_each (undoStep sha (reader_of w)) xs fs = Inr (xs @ map (\<lambda>f. conflictRecord (af_path f)
     undo_target_changed (sha256Optional sha (w (af_path f))) (af_afterSha256 f))
     (filter (\<lambda>f. sha256Optional sha (w (af_path f)) \<noteq> af_afterSha256 f) fs))"
  by (induction fs arbitrary: xs) (simp_all add: undoStep_def reader_of_def)

lemma undoFile_simps [simp]:
  "af_path (undoFile f) = af_path f" "af_beforeText (undoFile f) = af_afterText f"
  "af_afterText (undoFile f) = af_beforeText f"
  by (simp_all add: undoFile_def record_builders)

lemma undo_restores:
  assumes "distinct (map af_path fs)" and "\<forall>f \<in> set fs. af_beforeText f = w (af_path f)"
  shows "apply_files (map undoFile fs) (apply_files fs w) = w"
proof
  fix p
  have paths: "map af_path (map undoFile fs) = map af_path fs" by simp
  show "apply_files (map undoFile fs) (apply_files fs w) p = w p"
  proof (cases "p \<in> set (map af_path fs)")
    case True
    then obtain f where f: "f \<in> set fs" "p = af_path f" by auto
    have "distinct (map af_path (map undoFile fs))" using assms(1) paths by metis
    with f assms(2) apply_files_in [of "map undoFile fs" "undoFile f" "apply_files fs w"]
    show ?thesis by simp
  next
    case False
    then show ?thesis using paths by (metis apply_files_notin)
  qed
qed

section \<open>A concrete changeset\<close>

text \<open>One change of each kind, planned with \<open>rev\<close> in the place of the hash function.\<close>

definition demo_workspace :: workspace where
  "demo_workspace = [''b'' \<mapsto> ''old'', ''c'' \<mapsto> ''bye'', ''d'' \<mapsto> ''kept'']"

definition demo_change_set :: ChangeSet where
  "demo_change_set = \<lparr>cs_id = ''cs1'', cs_title = None, cs_baseRevision = None, cs_changes =
     [\<lparr>fc_path = ''a'', fc_kind = FC_create, fc_baseText = None, fc_baseSha256 = None,
       fc_targetText = Some ''hi''\<rparr>,
      \<lparr>fc_path = ''b'', fc_kind = FC_update, fc_baseText = Some ''old'', fc_baseSha256 = None,
       fc_targetText = Some ''new''\<rparr>,
      \<lparr>fc_path = ''c'', fc_kind = FC_delete, fc_baseText = Some ''bye'', fc_baseSha256 = None,
       fc_targetText = None\<rparr>]\<rparr>"

definition demo_receipt :: ChangeSetReceipt where
  "demo_receipt = \<lparr>rc_changeSetId = ''cs1'', rc_status = CA_applied, rc_files =
     [appliedFileRecord ''a'' FC_create None (Some ''hi'') None (Some ''ih''),
      appliedFileRecord ''b'' FC_update (Some ''old'') (Some ''new'') (Some ''dlo'') (Some ''wen''),
      appliedFileRecord ''c'' FC_delete (Some ''bye'') None (Some ''eyb'') None],
     rc_conflicts = []\<rparr>"

lemma demo_plan:
  "planChangeSetApply rev (reader_of demo_workspace) demo_change_set =
     (Inr demo_receipt :: unit changeset_error + _)"
  by (simp add: planChangeSetApply_def validateChangeSet_def validateFileChange_def planStep_def
      planFileChange_def planFileChangeAt_def reader_of_def record_builders
      demo_workspace_def demo_change_set_def demo_receipt_def)

lemma demo_receipt_status: "rc_status demo_receipt \<noteq> CA_conflicted"
  by (simp add: demo_receipt_def)

section \<open>Properties\<close>

text \<open>
  C19. A changeset that is planned without conflict does what it says. Writing the receipt's files
  leaves every changed path with the text its change asks for (no file for a deletion), and
  leaves every other path alone. The receipt has exactly one entry per change, in order, and each
  entry records the text the file had when it was planned.
\<close>

theorem apply_plan_reaches_target:
  assumes "planChangeSetApply sha (reader_of w) cs = Inr r" and "rc_status r \<noteq> CA_conflicted"
  shows "(\<forall>c \<in> set (cs_changes cs). apply_files (rc_files r) w (fc_path c) = desired_text c) \<and>
    (\<forall>p. p \<notin> set (map fc_path (cs_changes cs)) \<longrightarrow> apply_files (rc_files r) w p = w p) \<and>
    map af_path (rc_files r) = map fc_path (cs_changes cs) \<and>
    (\<forall>f \<in> set (rc_files r). af_beforeText f = w (af_path f))"
proof -
  have r: "wf_change_set cs" "r = apply_receipt sha w cs"
    using assms(1) by (simp_all add: planChangeSetApply_reader)
  then have m: "list_all2 (\<lambda>c f. plan_matches sha (w (fc_path c)) c f) (cs_changes cs) (rc_files r)"
    using apply_receipt_files assms(2) by simp
  have d: "distinct (map fc_path (cs_changes cs))" using r(1) by (simp add: wf_change_set_def)
  have "af_beforeText f = w (af_path f)" if "f \<in> set (rc_files r)" for f
    using matches_memb(2) [OF m that] by (auto simp: plan_matches_def)
  then show ?thesis
    using apply_matches [OF m d] apply_files_notin [of _ "rc_files r" w]
    by (simp only: matches_paths [OF m]) blast
qed

theorem apply_plan_reaches_target_witness:
  "map (apply_files (rc_files demo_receipt) demo_workspace) [''a'', ''b'', ''c'', ''d''] =
     [Some ''hi'', Some ''new'', None, Some ''kept'']"
  using apply_plan_reaches_target [OF demo_plan demo_receipt_status]
  by (simp add: demo_change_set_def desired_text_def demo_workspace_def)

text \<open>
  C25. Planning is all or nothing. For a valid changeset the planner always returns a receipt; the
  receipt is conflicted exactly when some change is not applicable to the current text of its
  file; a conflicted receipt has no file to write and names exactly the paths of the changes
  that are not applicable, in order.
\<close>

theorem apply_plan_conflict_iff:
  assumes "wf_change_set cs"
  shows "\<exists>r. planChangeSetApply sha (reader_of w) cs = Inr r \<and>
    (rc_status r = CA_conflicted \<longleftrightarrow>
       (\<exists>c \<in> set (cs_changes cs). \<not> change_applicable sha (w (fc_path c)) c)) \<and>
    (rc_status r = CA_conflicted \<longrightarrow> rc_files r = []) \<and>
    map fx_path (rc_conflicts r) =
      map fc_path (filter (\<lambda>c. \<not> change_applicable sha (w (fc_path c)) c) (cs_changes cs))"
  using assms apply_receipt_conflicts [OF assms, of sha w] by (simp add: planChangeSetApply_reader)

theorem apply_plan_conflict_iff_witness:
  "\<exists>r. planChangeSetApply (\<lambda>t. t) (reader_of [''a'' \<mapsto> ''old''])
      \<lparr>cs_id = ''c'', cs_title = None, cs_baseRevision = None,
       cs_changes = [\<lparr>fc_path = ''a'', fc_kind = FC_update, fc_baseText = Some ''base'',
         fc_baseSha256 = None, fc_targetText = Some ''new''\<rparr>]\<rparr> =
      (Inr r :: unit changeset_error + _) \<and>
    rc_status r = CA_conflicted \<and> rc_files r = [] \<and> map fx_path (rc_conflicts r) = [''a'']"
proof -
  let ?cs = "\<lparr>cs_id = ''c'', cs_title = None, cs_baseRevision = None,
       cs_changes = [\<lparr>fc_path = ''a'', fc_kind = FC_update, fc_baseText = Some ''base'',
         fc_baseSha256 = None, fc_targetText = Some ''new''\<rparr>]\<rparr>"
  have wf: "wf_change_set ?cs" by (simp add: wf_change_set_def)
  have "\<not> change_applicable (\<lambda>t. t) (Some ''old'') (hd (cs_changes ?cs))"
    by (simp add: change_applicable_def desired_text_def)
  then show ?thesis
    using apply_plan_conflict_iff [OF wf, of "\<lambda>t. t" "[''a'' \<mapsto> ''old'']"] by auto
qed

text \<open>
  Planning is idempotent: once a receipt's files are written, planning the same changeset again
  reports \<open>already_applied\<close>, without a conflict and without a file to change.
\<close>

theorem apply_plan_idempotent:
  assumes "planChangeSetApply sha (reader_of w) cs = Inr r" and "rc_status r \<noteq> CA_conflicted"
  shows "\<exists>r'. planChangeSetApply sha (reader_of (apply_files (rc_files r) w)) cs = Inr r' \<and>
    rc_status r' = CA_already_applied \<and> rc_conflicts r' = [] \<and>
    (\<forall>f \<in> set (rc_files r'). af_beforeText f = af_afterText f)"
proof -
  let ?w = "apply_files (rc_files r) w" and ?r = "apply_receipt sha (apply_files (rc_files r) w) cs"
  have r: "wf_change_set cs" "r = apply_receipt sha w cs"
    using assms(1) by (simp_all add: planChangeSetApply_reader)
  then have m: "list_all2 (\<lambda>c f. plan_matches sha (w (fc_path c)) c f) (cs_changes cs) (rc_files r)"
    using apply_receipt_files assms(2) by simp
  have d: "distinct (map fc_path (cs_changes cs))" using r(1) by (simp add: wf_change_set_def)
  have "change_applicable sha (w (fc_path c)) c" if "c \<in> set (cs_changes cs)" for c
    using apply_receipt_conflicts(1) [OF r(1), of sha w] assms(2) r(2) that by blast
  then have ok: "change_applicable sha (?w (fc_path c)) c" if "c \<in> set (cs_changes cs)" for c
    using that applied_is_applicable apply_matches [OF m d that] by metis
  then have st: "rc_status ?r \<noteq> CA_conflicted"
    using apply_receipt_conflicts(1) [OF r(1)] by blast
  have "af_beforeText f = af_afterText f" if "f \<in> set (rc_files ?r)" for f
    using matches_memb(2) [OF apply_receipt_files [OF r(1) st] that] apply_matches [OF m d]
    by (auto simp: plan_matches_def)
  with apply_receipt_status [OF st] r(1) show ?thesis by (simp add: planChangeSetApply_reader)
qed

theorem apply_plan_idempotent_witness:
  "\<exists>r'. planChangeSetApply rev (reader_of (apply_files (rc_files demo_receipt) demo_workspace))
     demo_change_set = (Inr r' :: unit changeset_error + _) \<and> rc_status r' = CA_already_applied"
  using apply_plan_idempotent [OF demo_plan demo_receipt_status] by blast

text \<open>
  C20. Undo is the inverse of apply: in the workspace a receipt's files lead to, the undo plan has
  no conflict, and writing its files gives back the workspace the receipt was planned against.
\<close>

theorem undo_plan_restores:
  assumes "planChangeSetApply sha (reader_of w) cs = Inr r" and "rc_status r \<noteq> CA_conflicted"
  shows "\<exists>u. planChangeSetUndo sha (reader_of (apply_files (rc_files r) w)) r = Inr u \<and>
    rc_status u = CA_applied \<and>
    apply_files (rc_files u) (apply_files (rc_files r) w) = w"
proof -
  let ?w = "apply_files (rc_files r) w"
  have r: "wf_change_set cs" "r = apply_receipt sha w cs"
    using assms(1) by (simp_all add: planChangeSetApply_reader)
  then have m: "list_all2 (\<lambda>c f. plan_matches sha (w (fc_path c)) c f) (cs_changes cs) (rc_files r)"
    using apply_receipt_files assms(2) by simp
  have d: "distinct (map fc_path (cs_changes cs))" using r(1) by (simp add: wf_change_set_def)
  then have d': "distinct (map af_path (rc_files r))" using matches_paths [OF m] by simp
  have f: "af_beforeText f = w (af_path f)" "sha256Optional sha (?w (af_path f)) = af_afterSha256 f"
    if "f \<in> set (rc_files r)" for f
    using matches_memb(2) [OF m that] apply_matches [OF m d] by (auto simp: plan_matches_def)
  have "filter (\<lambda>f. sha256Optional sha (?w (af_path f)) \<noteq> af_afterSha256 f) (rc_files r) = []"
    using f(2) by (simp add: filter_empty_conv)
  then show ?thesis
    using assms(2) undo_restores [OF d'] f(1) by (simp add: planChangeSetUndo_def undo_loop)
qed

theorem undo_plan_restores_witness:
  "\<exists>u. planChangeSetUndo rev (reader_of (apply_files (rc_files demo_receipt) demo_workspace))
       demo_receipt = (Inr u :: unit changeset_error + _) \<and>
     apply_files (rc_files u) (apply_files (rc_files demo_receipt) demo_workspace) = demo_workspace"
  using undo_plan_restores [OF demo_plan demo_receipt_status] by blast

text \<open>
  C26. Undo never overwrites a later edit that the hash shows. For a receipt that is not conflicted,
  whose recorded hashes are those of its recorded texts, and a hash that tells the present text of
  each of its files from the text recorded after the change (where they differ), the undo always
  gets a receipt; it is conflicted, with no file to write, exactly when some file no longer has
  its recorded text, and it names exactly those files.
\<close>

theorem undo_plan_detects_edits:
  assumes "rc_status r \<noteq> CA_conflicted"
    and "\<forall>f \<in> set (rc_files r). af_afterSha256 f = sha256Optional sha (af_afterText f)"
    and "\<forall>f \<in> set (rc_files r). inj_on sha (set_option (w (af_path f)) \<union> set_option (af_afterText f))"
  shows "\<exists>u. planChangeSetUndo sha (reader_of w) r = Inr u \<and>
    (rc_status u = CA_conflicted \<longleftrightarrow> (\<exists>f \<in> set (rc_files r). w (af_path f) \<noteq> af_afterText f)) \<and>
    (rc_status u = CA_conflicted \<longrightarrow> rc_files u = []) \<and>
    map fx_path (rc_conflicts u) =
      map af_path (filter (\<lambda>f. w (af_path f) \<noteq> af_afterText f) (rc_files r))"
proof -
  have inj: "sha256Optional sha x = sha256Optional sha y \<longleftrightarrow> x = y" if "inj_on sha (set_option x \<union> set_option y)" for x y
    using that by (cases x; cases y) (auto simp: inj_on_def)
  have "filter (\<lambda>f. sha256Optional sha (w (af_path f)) \<noteq> af_afterSha256 f) (rc_files r) =
      filter (\<lambda>f. w (af_path f) \<noteq> af_afterText f) (rc_files r)"
    using assms(2,3) by (intro filter_cong) (auto simp: inj)
  then show ?thesis
    using assms(1)
    by (auto simp: planChangeSetUndo_def undo_loop record_builders comp_def filter_empty_conv)
qed

text \<open>A hash of fixed length, which collides on most texts and not on those of the demonstration.\<close>

definition short_hash :: "string \<Rightarrow> string" where
  "short_hash s = take 8 (rev s @ replicate 8 CHR ''0'')"

definition hashed_receipt :: ChangeSetReceipt where
  "hashed_receipt = demo_receipt\<lparr>rc_files := map (\<lambda>f. f\<lparr>af_afterSha256 := sha256Optional short_hash (af_afterText f)\<rparr>) (rc_files demo_receipt)\<rparr>"

theorem undo_plan_detects_edits_witness:
  "short_hash ''abcdefghi'' = short_hash ''xbcdefghi'' \<and>
   (\<exists>u. planChangeSetUndo short_hash (reader_of [''a'' \<mapsto> ''hi'', ''b'' \<mapsto> ''edited'']) hashed_receipt =
       (Inr u :: unit changeset_error + _) \<and>
     rc_status u = CA_conflicted \<and> rc_files u = [] \<and> map fx_path (rc_conflicts u) = [''b''])"
proof
  show "short_hash ''abcdefghi'' = short_hash ''xbcdefghi''" by (simp add: short_hash_def)
  have s: "rc_status hashed_receipt \<noteq> CA_conflicted" using demo_receipt_status by (simp add: hashed_receipt_def)
  have h: "\<forall>f \<in> set (rc_files hashed_receipt). af_afterSha256 f = sha256Optional short_hash (af_afterText f)"
    by (simp add: hashed_receipt_def)
  have inj: "\<forall>f \<in> set (rc_files hashed_receipt). inj_on short_hash
      (set_option ([''a'' \<mapsto> ''hi'', ''b'' \<mapsto> ''edited''] (af_path f)) \<union> set_option (af_afterText f))"
    by (simp add: hashed_receipt_def demo_receipt_def record_builders short_hash_def)
  have edited: "filter (\<lambda>f. [''a'' \<mapsto> ''hi'', ''b'' \<mapsto> ''edited''] (af_path f) \<noteq> af_afterText f)
      (rc_files hashed_receipt) = [rc_files hashed_receipt ! 1]"
    by (simp add: hashed_receipt_def demo_receipt_def record_builders)
  show "\<exists>u. planChangeSetUndo short_hash (reader_of [''a'' \<mapsto> ''hi'', ''b'' \<mapsto> ''edited'']) hashed_receipt =
       (Inr u :: unit changeset_error + _) \<and>
     rc_status u = CA_conflicted \<and> rc_files u = [] \<and> map fx_path (rc_conflicts u) = [''b'']"
  proof -
    let ?w = "[''a'' \<mapsto> ''hi'', ''b'' \<mapsto> ''edited'']"
    obtain u where u: "planChangeSetUndo short_hash (reader_of ?w) hashed_receipt = (Inr u :: unit changeset_error + _)"
      "rc_status u = CA_conflicted \<longleftrightarrow> (\<exists>f \<in> set (rc_files hashed_receipt). ?w (af_path f) \<noteq> af_afterText f)"
      "rc_status u = CA_conflicted \<longrightarrow> rc_files u = []" "map fx_path (rc_conflicts u) = map af_path [rc_files hashed_receipt ! 1]"
      using undo_plan_detects_edits [OF s h inj] unfolding edited by blast
    have "rc_files hashed_receipt ! 1 \<in> set (filter (\<lambda>f. ?w (af_path f) \<noteq> af_afterText f) (rc_files hashed_receipt))"
      unfolding edited by simp
    then have "rc_status u = CA_conflicted" unfolding u(2) set_filter by blast
    moreover have "af_path (rc_files hashed_receipt ! 1) = ''b''"
      by (simp add: hashed_receipt_def demo_receipt_def record_builders)
    ultimately show ?thesis using u by auto
  qed
qed

end
