(* ===== verification/Path_Policy.thy ===== *)
theory Path_Policy
  imports Prelude
begin

text \<open>
  packages/workspace/src/path-policy.ts: which relative paths a workspace accepts, and how
  \<open>WorkspacePathResolver\<close> turns them into paths of the execution file system.

  \<open>isAbsolute\<close> of node:path depends on the platform and is a parameter. \<open>resolve\<close> of
  node:path is modelled for POSIX (\<open>posix_resolve\<close>). \<open>ExecutionFileSystem\<close> is the record
  \<open>filesystem\<close> of the two calls the resolver makes; an exception carries the optional \<open>code\<close>
  and the message the resolver looks at.
\<close>

section \<open>Data\<close>

record fs_error =
  fe_code :: "string option"
  fe_message :: string

datatype file_kind = FK_file | FK_directory | FK_symlink | FK_other

record filesystem =
  fs_metadata :: "string \<Rightarrow> fs_error + file_kind option"
  fs_canonicalize :: "string \<Rightarrow> fs_error + string"

datatype path_error =
    InvalidWorkspacePath string
  | WorkspacePathEscape string
  | WorkspacePathMissing string
  | WorkspacePathNotDirectory string
  | FsError fs_error

section \<open>Operations\<close>

definition drive_prefix :: "string \<Rightarrow> bool" where
  "drive_prefix s = (case s of
     d # c # sl # _ \<Rightarrow>
       (CHR ''A'' \<le> d \<and> d \<le> CHR ''Z'' \<or> CHR ''a'' \<le> d \<and> d \<le> CHR ''z'') \<and>
       c = CHR '':'' \<and> sl = CHR ''/''
   | _ \<Rightarrow> False)"

definition normalizeWorkspaceRelativePath ::
  "(string \<Rightarrow> bool) \<Rightarrow> string \<Rightarrow> path_error + string" where
  "normalizeWorkspaceRelativePath isAbsolute path =
     (if path = [] \<or> CHR 0x00 \<in> set path then Inl (InvalidWorkspacePath path)
      else
        let portable = map (\<lambda>c. if c = CHR 0x5C then CHR ''/'' else c) path
        in if starts_with ''/'' portable \<or> starts_with ''//'' portable \<or>
              drive_prefix portable \<or> isAbsolute path
           then Inl (WorkspacePathEscape path)
           else
             let segments = js_split CHR ''/'' portable
             in if list_ex (\<lambda>segment. segment = [] \<or> segment = ''.'' \<or> segment = ''..'') segments
                then Inl (WorkspacePathEscape path)
                else Inr (js_join ''/'' segments))"

text \<open>\<open>resolve(rt, ...parts)\<close> of node:path (POSIX) for an absolute \<open>rt\<close>.\<close>

definition resolve_join :: "string \<Rightarrow> string \<Rightarrow> string" where
  "resolve_join acc p =
     (if p = [] then acc else if hd p = CHR ''/'' then p else acc @ ''/'' @ p)"

definition resolve_segment :: "string list \<Rightarrow> string \<Rightarrow> string list" where
  "resolve_segment acc seg =
     (if seg = [] \<or> seg = ''.'' then acc else if seg = ''..'' then butlast acc else acc @ [seg])"

definition posix_resolve :: "string \<Rightarrow> string list \<Rightarrow> string" where
  "posix_resolve rt parts =
     ''/'' @ js_join ''/'' (foldl resolve_segment [] (js_split CHR ''/'' (foldl resolve_join rt parts)))"

definition candidate :: "(string \<Rightarrow> bool) \<Rightarrow> string \<Rightarrow> string \<Rightarrow> path_error + string" where
  "candidate isAbsolute rootDir path =
     res_bind (normalizeWorkspaceRelativePath isAbsolute path) (\<lambda>normalized.
     Inr (posix_resolve rootDir (js_split CHR ''/'' normalized)))"

definition isMissingPathError :: "path_error \<Rightarrow> bool" where
  "isMissingPathError error = (case error of
     FsError e \<Rightarrow> fe_code e = Some ''ENOENT'' \<or> fe_code e = Some ''ENOTDIR''
   | _ \<Rightarrow> False)"

definition mapPathError :: "path_error \<Rightarrow> string \<Rightarrow> path_error" where
  "mapPathError error path = (case error of
     FsError e \<Rightarrow>
       if starts_with ''execution filesystem access is outside admitted roots'' (fe_message e)
       then WorkspacePathEscape path else error
   | _ \<Rightarrow> error)"

definition catch_path :: "string \<Rightarrow> path_error + 'a \<Rightarrow> path_error + 'a" where
  "catch_path path r = (case r of Inl e \<Rightarrow> Inl (mapPathError e path) | Inr x \<Rightarrow> Inr x)"

definition lift_fs :: "fs_error + 'a \<Rightarrow> path_error + 'a" where
  "lift_fs r = (case r of Inl e \<Rightarrow> Inl (FsError e) | Inr x \<Rightarrow> Inr x)"

definition resolveRead ::
  "(string \<Rightarrow> bool) \<Rightarrow> filesystem \<Rightarrow> string \<Rightarrow> string \<Rightarrow> path_error + string" where
  "resolveRead isAbsolute fileSystem rootDir path =
     res_bind (candidate isAbsolute rootDir path) (\<lambda>c.
     catch_path path (lift_fs (fs_canonicalize fileSystem c)))"

definition resolveOptionalRead ::
  "(string \<Rightarrow> bool) \<Rightarrow> filesystem \<Rightarrow> string \<Rightarrow> string \<Rightarrow> path_error + string option" where
  "resolveOptionalRead isAbsolute fileSystem rootDir path =
     res_bind (candidate isAbsolute rootDir path) (\<lambda>c.
     catch_path path
       (res_bind (lift_fs (fs_metadata fileSystem c)) (\<lambda>metadata.
        if metadata = None then Inr None
        else res_bind (lift_fs (fs_canonicalize fileSystem c)) (\<lambda>p. Inr (Some p)))))"

definition resolveReadEntry ::
  "(string \<Rightarrow> bool) \<Rightarrow> filesystem \<Rightarrow> string \<Rightarrow> string \<Rightarrow> path_error + string \<times> file_kind" where
  "resolveReadEntry isAbsolute fileSystem rootDir path =
     res_bind (candidate isAbsolute rootDir path) (\<lambda>c.
     catch_path path
       (res_bind (lift_fs (fs_metadata fileSystem c)) (\<lambda>metadata.
        case metadata of
          None \<Rightarrow> Inl (WorkspacePathMissing path)
        | Some kind \<Rightarrow>
            res_bind (lift_fs (fs_canonicalize fileSystem c)) (\<lambda>p. Inr (p, kind)))))"

definition resolveMutation ::
  "(string \<Rightarrow> bool) \<Rightarrow> filesystem \<Rightarrow> string \<Rightarrow> string \<Rightarrow> path_error + string" where
  "resolveMutation isAbsolute fileSystem rootDir path =
     res_bind (candidate isAbsolute rootDir path) (\<lambda>c.
     case res_bind (lift_fs (fs_metadata fileSystem c)) (\<lambda>metadata.
            if metadata = Some FK_symlink then Inl (WorkspacePathEscape path)
            else lift_fs (fs_canonicalize fileSystem c)) of
       Inr p \<Rightarrow> Inr p
     | Inl e \<Rightarrow> if isMissingPathError e then Inr c else Inl (mapPathError e path))"

text \<open>The canonical root is computed once; the promise, failed or not, is kept.\<close>

type_synonym root_cache = "(fs_error + string) option"

definition getCanonicalRoot ::
  "filesystem \<Rightarrow> string \<Rightarrow> root_cache \<Rightarrow> (path_error + string) \<times> root_cache" where
  "getCanonicalRoot fileSystem rootDir cache =
     (let r = (case cache of Some r \<Rightarrow> r | None \<Rightarrow> fs_canonicalize fileSystem rootDir)
      in (lift_fs r, Some r))"

definition resolveDirectory ::
  "(string \<Rightarrow> bool) \<Rightarrow> filesystem \<Rightarrow> string \<Rightarrow> root_cache \<Rightarrow> string option \<Rightarrow>
   (path_error + string) \<times> root_cache" where
  "resolveDirectory isAbsolute fileSystem rootDir cache path =
     (case path of
        None \<Rightarrow> getCanonicalRoot fileSystem rootDir cache
      | Some p \<Rightarrow>
          if p = ''.'' then getCanonicalRoot fileSystem rootDir cache
          else
            (res_bind (resolveRead isAbsolute fileSystem rootDir p) (\<lambda>c.
             res_bind (lift_fs (fs_metadata fileSystem c)) (\<lambda>metadata.
             if metadata \<noteq> Some FK_directory then Inl (WorkspacePathNotDirectory p)
             else Inr c)), cache))"

section \<open>Specification and lemmas\<close>

definition plain_segment :: "string \<Rightarrow> bool" where
  "plain_segment s \<longleftrightarrow> s \<noteq> [] \<and> s \<noteq> ''.'' \<and> s \<noteq> ''..'' \<and>
     CHR ''/'' \<notin> set s \<and> CHR 0x5C \<notin> set s \<and> CHR 0x00 \<notin> set s"

definition normal_root :: "string list \<Rightarrow> bool" where
  "normal_root segs \<longleftrightarrow> segs \<noteq> [] \<and>
     (\<forall>s \<in> set segs. s \<noteq> [] \<and> s \<noteq> ''.'' \<and> s \<noteq> ''..'' \<and> CHR ''/'' \<notin> set s)"

definition abs_path :: "string list \<Rightarrow> string" where
  "abs_path segs = ''/'' @ js_join ''/'' segs"

lemma normalize_segments:
  assumes "normalizeWorkspaceRelativePath isAbs p = Inr q"
  obtains segs where "segs \<noteq> []" "\<forall>s \<in> set segs. plain_segment s"
    "q = js_join ''/'' segs" "js_split CHR ''/'' q = segs"
proof -
  let ?f = "\<lambda>c. if c = CHR 0x5C then CHR ''/'' else c"
  let ?segs = "js_split CHR ''/'' (map ?f p)"
  from assms have q: "q = js_join ''/'' ?segs" and nul: "CHR 0x00 \<notin> set p"
    and segs: "\<forall>s \<in> set ?segs. s \<noteq> [] \<and> s \<noteq> ''.'' \<and> s \<noteq> ''..''"
    by (auto simp: normalizeWorkspaceRelativePath_def Let_def list_ex_iff split: if_splits)
  have plain: "plain_segment s" if "s \<in> set ?segs" for s
  proof -
    from js_split_chars [OF that] have "set s \<subseteq> ?f ` set p" by simp
    moreover have "CHR 0x5C \<notin> ?f ` set p" by auto
    moreover have "CHR 0x00 \<notin> ?f ` set p" using nul by auto
    ultimately show ?thesis
      using segs that js_split_no_sep [OF that] by (auto simp: plain_segment_def)
  qed
  show thesis
    by (rule that [of ?segs]) (use plain q in auto)
qed

lemma resolve_join_segments:
  "\<forall>s \<in> set segs. plain_segment s \<Longrightarrow>
   foldl resolve_join rt segs = (if segs = [] then rt else rt @ ''/'' @ js_join ''/'' segs)"
proof (induction segs arbitrary: rt)
  case (Cons s segs)
  then have "resolve_join rt s = rt @ ''/'' @ s"
    by (cases s) (auto simp: resolve_join_def plain_segment_def)
  with Cons show ?case by (simp add: js_join_Cons)
qed simp

lemma resolve_segment_plain:
  "\<forall>s \<in> set segs. s \<noteq> [] \<and> s \<noteq> ''.'' \<and> s \<noteq> ''..'' \<Longrightarrow> foldl resolve_segment acc segs = acc @ segs"
  by (induction segs arbitrary: acc) (auto simp: resolve_segment_def)

lemma posix_resolve_plain:
  assumes "normal_root rt" "segs \<noteq> []" "\<forall>s \<in> set segs. plain_segment s"
  shows "posix_resolve (abs_path rt) segs = abs_path (rt @ segs)"
proof -
  have joined: "foldl resolve_join (abs_path rt) segs = js_join ''/'' ([] # rt @ segs)"
    using assms
    by (induction rt rule: induct_list012)
       (auto simp: resolve_join_segments abs_path_def js_join_Cons normal_root_def)
  have "js_split CHR ''/'' (js_join ''/'' ([] # rt @ segs)) = [] # rt @ segs"
    using assms by (intro js_split_join) (auto simp: plain_segment_def normal_root_def)
  moreover have "foldl resolve_segment [] ([] # rt @ segs) = rt @ segs"
  proof -
    have "foldl resolve_segment [] (rt @ segs) = [] @ (rt @ segs)"
      using assms by (intro resolve_segment_plain) (auto simp: plain_segment_def normal_root_def)
    then show ?thesis by (simp add: resolve_segment_def)
  qed
  ultimately show ?thesis unfolding posix_resolve_def joined by (simp only: abs_path_def)
qed

lemma candidate_under_root:
  assumes "candidate isAbs (abs_path rt) p = Inr c" "normal_root rt"
  obtains segs where "segs \<noteq> []" "\<forall>s \<in> set segs. plain_segment s" "c = abs_path (rt @ segs)"
proof -
  from assms(1) obtain q where q: "normalizeWorkspaceRelativePath isAbs p = Inr q"
    and c: "c = posix_resolve (abs_path rt) (js_split CHR ''/'' q)"
    by (auto simp: candidate_def res_bind_eq_Inr)
  from normalize_segments [OF q] obtain segs where "segs \<noteq> []" "\<forall>s \<in> set segs. plain_segment s"
    "js_split CHR ''/'' q = segs" by metis
  with c posix_resolve_plain [OF assms(2)] that show thesis by simp
qed

definition portable_path :: "string \<Rightarrow> string" where
  "portable_path p = map (\<lambda>c. if c = CHR 0x5C then CHR ''/'' else c) p"

lemma portable_chars:
  "CHR 0x5C \<notin> set (portable_path p)" "CHR 0x00 \<in> set (portable_path p) \<longleftrightarrow> CHR 0x00 \<in> set p"
  by (auto simp: portable_path_def split: if_splits)

lemma chars_in_segments: "x \<in> set s \<Longrightarrow> x = c \<or> (\<exists>t \<in> set (js_split c s). x \<in> set t)"
proof (induction s)
  case (Cons y s)
  then show ?case by (cases "js_split c s") auto
qed simp

lemma plain_segments_portable:
  assumes "\<forall>s \<in> set (js_split CHR ''/'' (portable_path p)). plain_segment s"
  shows "p \<noteq> []" "CHR 0x00 \<notin> set p" "\<not> starts_with ''/'' (portable_path p)"
proof -
  show "p \<noteq> []"
  proof
    assume "p = []"
    then have "[] \<in> set (js_split CHR ''/'' (portable_path p))" by (simp add: portable_path_def)
    with assms show False unfolding plain_segment_def by blast
  qed
  show "CHR 0x00 \<notin> set p"
  proof
    assume "CHR 0x00 \<in> set p"
    then have "CHR 0x00 \<in> set (portable_path p)" by (simp only: portable_chars)
    from chars_in_segments [OF this, of "CHR ''/''"]
    obtain t where "t \<in> set (js_split CHR ''/'' (portable_path p))" "CHR 0x00 \<in> set t" by auto
    with assms show False unfolding plain_segment_def by blast
  qed
  show "\<not> starts_with ''/'' (portable_path p)"
  proof
    assume "starts_with ''/'' (portable_path p)"
    then obtain t where "portable_path p = CHR ''/'' # t" by (cases "portable_path p") auto
    then have "[] \<in> set (js_split CHR ''/'' (portable_path p))" by simp
    with assms show False unfolding plain_segment_def by blast
  qed
qed

lemma plain_split_iff:
  "CHR 0x00 \<notin> set p \<Longrightarrow> s \<in> set (js_split CHR ''/'' (portable_path p)) \<Longrightarrow>
   plain_segment s \<longleftrightarrow> s \<noteq> [] \<and> s \<noteq> ''.'' \<and> s \<noteq> ''..''"
  using js_split_no_sep [of s "CHR ''/''" "portable_path p"]
    js_split_chars [of s "CHR ''/''" "portable_path p"] portable_chars [of p]
  by (auto simp: plain_segment_def)

lemma normalize_Inr_iff:
  "normalizeWorkspaceRelativePath isAbs p = Inr q \<longleftrightarrow>
     q = portable_path p \<and> (\<forall>s \<in> set (js_split CHR ''/'' q). plain_segment s) \<and>
     \<not> drive_prefix q \<and> \<not> isAbs p"
  (is "?lhs \<longleftrightarrow> ?rhs")
proof
  assume ?lhs
  then have "CHR 0x00 \<notin> set p"
    by (auto simp: normalizeWorkspaceRelativePath_def Let_def split: if_splits)
  with \<open>?lhs\<close> show ?rhs
    by (auto simp: normalizeWorkspaceRelativePath_def Let_def list_ex_iff plain_split_iff
        simp flip: portable_path_def split: if_splits)
next
  assume r: ?rhs
  then have "\<forall>s \<in> set (js_split CHR ''/'' (portable_path p)). plain_segment s" by simp
  note p = plain_segments_portable [OF this]
  moreover have "\<not> starts_with ''//'' (portable_path p)"
    using p(3) by (cases "portable_path p") auto
  ultimately show ?lhs
    using r by (auto simp: normalizeWorkspaceRelativePath_def Let_def list_ex_iff plain_segment_def
        simp flip: portable_path_def)
qed

section \<open>Properties\<close>

text \<open>
  What a workspace path is. A path is accepted exactly when, with backslashes read as slashes,
  every segment between slashes is plain (not empty, not a dot or two dots, without
  a slash, a backslash or a NUL character), it has no drive prefix and the platform does not call
  it absolute; the result is the path with its backslashes replaced. In particular no
  accepted path has a parent-directory segment.
\<close>

theorem workspace_path_accepted_iff:
  "normalizeWorkspaceRelativePath isAbs p = Inr q \<longleftrightarrow>
     q = portable_path p \<and> (\<forall>s \<in> set (js_split CHR ''/'' q). plain_segment s) \<and>
     \<not> drive_prefix q \<and> \<not> isAbs p"
  by (rule normalize_Inr_iff)

theorem workspace_path_accepted_iff_witness:
  "normalizeWorkspaceRelativePath (\<lambda>_. False) (''src'' @ [CHR 0x5C] @ ''a.ts'') = Inr ''src/a.ts'' \<and>
   normalizeWorkspaceRelativePath (\<lambda>_. False) ''src/../etc'' \<noteq> Inr ''src/../etc''"
  by (simp add: workspace_path_accepted_iff portable_path_def plain_segment_def drive_prefix_def)

text \<open>
  \<open>under_root rt c\<close>: the path \<open>c\<close> is the root followed by plain segments. Two file systems that agree
  on such paths can be told apart only by asking about another path.
\<close>

definition under_root :: "string list \<Rightarrow> string \<Rightarrow> bool" where
  "under_root rt c \<longleftrightarrow> (\<exists>segs. segs \<noteq> [] \<and> (\<forall>s \<in> set segs. plain_segment s) \<and> c = abs_path (rt @ segs))"

definition same_below :: "string list \<Rightarrow> filesystem \<Rightarrow> filesystem \<Rightarrow> bool" where
  "same_below rt fs fs' \<longleftrightarrow> (\<forall>c. under_root rt c \<longrightarrow>
     fs_metadata fs c = fs_metadata fs' c \<and> fs_canonicalize fs c = fs_canonicalize fs' c)"

lemma candidate_below: "normal_root rt \<Longrightarrow> candidate isAbs (abs_path rt) p = Inr c \<Longrightarrow> under_root rt c"
  unfolding under_root_def using candidate_under_root by metis

lemma res_bind_cong_Inr: "(\<And>x. m = Inr x \<Longrightarrow> f x = g x) \<Longrightarrow> res_bind m f = res_bind m g"
  by (cases m) auto

lemma resolver_asks:
  assumes rt: "normal_root rt" and same: "same_below rt fs fs'"
  shows "resolveRead isAbs fs (abs_path rt) p = resolveRead isAbs fs' (abs_path rt) p"
    "resolveOptionalRead isAbs fs (abs_path rt) p = resolveOptionalRead isAbs fs' (abs_path rt) p"
    "resolveReadEntry isAbs fs (abs_path rt) p = resolveReadEntry isAbs fs' (abs_path rt) p"
    "resolveMutation isAbs fs (abs_path rt) p = resolveMutation isAbs fs' (abs_path rt) p"
proof -
  have eqs: "fs_metadata fs c = fs_metadata fs' c" "fs_canonicalize fs c = fs_canonicalize fs' c"
    if "candidate isAbs (abs_path rt) p = Inr c" for c
    using same candidate_below [OF rt that] by (auto simp: same_below_def)
  show "resolveRead isAbs fs (abs_path rt) p = resolveRead isAbs fs' (abs_path rt) p"
    unfolding resolveRead_def by (rule res_bind_cong_Inr) (simp only: eqs)
  show "resolveOptionalRead isAbs fs (abs_path rt) p = resolveOptionalRead isAbs fs' (abs_path rt) p"
    unfolding resolveOptionalRead_def by (rule res_bind_cong_Inr) (simp only: eqs)
  show "resolveReadEntry isAbs fs (abs_path rt) p = resolveReadEntry isAbs fs' (abs_path rt) p"
    unfolding resolveReadEntry_def by (rule res_bind_cong_Inr) (simp only: eqs)
  show "resolveMutation isAbs fs (abs_path rt) p = resolveMutation isAbs fs' (abs_path rt) p"
    unfolding resolveMutation_def by (rule res_bind_cong_Inr) (simp only: eqs)
qed

lemma resolveRead_below:
  assumes "normal_root rt" "resolveRead isAbs fs (abs_path rt) p = Inr r"
  shows "\<exists>c. under_root rt c \<and> fs_canonicalize fs c = Inr r"
proof -
  obtain c where "candidate isAbs (abs_path rt) p = Inr c" "fs_canonicalize fs c = Inr r"
    using assms(2) by (auto simp: resolveRead_def res_bind_eq_Inr catch_path_def lift_fs_def split: sum.splits)
  then show ?thesis using candidate_below [OF assms(1)] by blast
qed

lemma resolveMutation_below:
  assumes "normal_root rt" "resolveMutation isAbs fs (abs_path rt) p = Inr r"
  shows "\<exists>c. under_root rt c \<and>
    (fs_canonicalize fs c = Inr r \<and> fs_metadata fs c \<noteq> Inr (Some FK_symlink) \<or>
     r = c \<and> (\<exists>e. isMissingPathError (FsError e) \<and> (fs_metadata fs r = Inl e \<or> fs_canonicalize fs r = Inl e)))"
proof -
  obtain c where "candidate isAbs (abs_path rt) p = Inr c"
    and "fs_canonicalize fs c = Inr r \<and> fs_metadata fs c \<noteq> Inr (Some FK_symlink) \<or>
      r = c \<and> (\<exists>e. isMissingPathError (FsError e) \<and> (fs_metadata fs c = Inl e \<or> fs_canonicalize fs c = Inl e))"
    using assms(2)
    by (auto simp: resolveMutation_def res_bind_eq_Inr res_bind_eq_Inl lift_fs_def isMissingPathError_def
        split: sum.splits if_splits path_error.splits)
  then show ?thesis using candidate_below [OF assms(1)] by blast
qed

lemma resolveDirectory_asks:
  assumes rt: "normal_root rt" and same: "same_below rt fs fs'"
    and root: "fs_canonicalize fs (abs_path rt) = fs_canonicalize fs' (abs_path rt)"
    and found: "\<forall>c d. under_root rt c \<and> fs_canonicalize fs c = Inr d \<longrightarrow> fs_metadata fs d = fs_metadata fs' d"
  shows "resolveDirectory isAbs fs (abs_path rt) cache dir = resolveDirectory isAbs fs' (abs_path rt) cache dir"
proof -
  have "fs_metadata fs d = fs_metadata fs' d" if "resolveRead isAbs fs' (abs_path rt) p = Inr d" for p d
    using resolveRead_below [OF rt, of isAbs fs p d] found resolver_asks(1) [OF rt same] that by auto
  then have read: "res_bind (resolveRead isAbs fs' (abs_path rt) p) (\<lambda>c. res_bind (lift_fs (fs_metadata fs c)) (g c)) =
      res_bind (resolveRead isAbs fs' (abs_path rt) p) (\<lambda>c. res_bind (lift_fs (fs_metadata fs' c)) (g c))"
    for p and g :: "string \<Rightarrow> file_kind option \<Rightarrow> path_error + string"
    by (intro res_bind_cong_Inr) simp
  show ?thesis
    unfolding resolveDirectory_def getCanonicalRoot_def root resolver_asks(1) [OF rt same] read by (rule refl)
qed


definition demo_fs :: filesystem where
  "demo_fs = \<lparr>fs_metadata = (\<lambda>p. Inr (Some FK_file)), fs_canonicalize = Inr\<rparr>"

text \<open>A file system that differs from it outside of the root.\<close>

definition demo_outside :: filesystem where
  "demo_outside = \<lparr>fs_metadata = (\<lambda>p. if take 6 p = ''/work/'' then Inr (Some FK_file) else Inr None), fs_canonicalize = Inr\<rparr>"

lemma demo_same_below: "same_below [''work''] demo_fs demo_outside"
proof -
  have "take 6 (abs_path ([''work''] @ segs)) = ''/work/''" if "segs \<noteq> []" for segs
    using that by (cases segs) (auto simp: abs_path_def)
  then show ?thesis by (auto simp: same_below_def under_root_def demo_fs_def demo_outside_def)
qed


end
