(* ===== verification/Batch_Order.thy ===== *)
theory Batch_Order
  imports Prelude
begin

text \<open>
  packages/workspace/src/review/apply/batch-order.ts: \<open>planProposalBatch\<close> validates a batch of
  proposals and orders it so that every proposal comes after the proposals it depends on
  (Kahn's algorithm; among the proposals that are free the one that came first in the
  request goes first). The phases of the function are separate definitions, in the order of
  the source; the \<open>while\<close> loop is \<open>kahnLoop\<close>, which terminates for every input.
\<close>

section \<open>Data\<close>

record ApplyProposalBatchItem =
  bi_proposalId :: string
  bi_dependsOn :: "string list option"
  bi_actorId :: "string option"
  bi_metadata :: "json option"

record PlannedBatchItem =
  pb_proposalId :: string
  pb_dependsOn :: "string list"
  pb_actorId :: "string option"
  pb_metadata :: "json option"

datatype batch_order_error =
    BatchItemsEmpty
  | BatchProposalIdEmpty
  | BatchActorIdEmpty
  | DuplicateBatchItem string
  | DependencyIdEmpty string
  | DependsOnItself string
  | DuplicateDependency string string
  | DependencyNotFound string string
  | BatchItemDisappeared string
  | DependencyCycleDetected

section \<open>Operations\<close>

definition validateBatchItem :: "ApplyProposalBatchItem \<Rightarrow> batch_order_error + unit" where
  "validateBatchItem item =
     res_bind (guard (bi_proposalId item \<noteq> []) BatchProposalIdEmpty) (\<lambda>_.
     guard (bi_actorId item \<noteq> Some []) BatchActorIdEmpty)"

definition plannedItem :: "ApplyProposalBatchItem \<Rightarrow> PlannedBatchItem" where
  "plannedItem item =
     \<lparr>pb_proposalId = bi_proposalId item,
      pb_dependsOn = (case bi_dependsOn item of None \<Rightarrow> [] | Some ds \<Rightarrow> ds),
      pb_actorId = bi_actorId item, pb_metadata = bi_metadata item\<rparr>"

type_synonym item_map = "(string \<times> PlannedBatchItem) list"
type_synonym index_map = "(string \<times> nat) list"

definition collectItem ::
  "item_map \<times> index_map \<Rightarrow> nat \<times> ApplyProposalBatchItem \<Rightarrow> batch_order_error + item_map \<times> index_map" where
  "collectItem acc entry =
     (case acc of (byProposalId, originalIndex) \<Rightarrow> case entry of (index, item) \<Rightarrow>
      res_bind (validateBatchItem item) (\<lambda>_.
      res_bind (guard (map_of byProposalId (bi_proposalId item) = None)
          (DuplicateBatchItem (bi_proposalId item))) (\<lambda>_.
      Inr (AList.update (bi_proposalId item) (plannedItem item) byProposalId,
           AList.update (bi_proposalId item) index originalIndex))))"

definition checkDependency ::
  "item_map \<Rightarrow> PlannedBatchItem \<Rightarrow> string list \<Rightarrow> string \<Rightarrow> batch_order_error + string list" where
  "checkDependency byProposalId item seenDependencies dependencyId =
     res_bind (guard (dependencyId \<noteq> []) (DependencyIdEmpty (pb_proposalId item))) (\<lambda>_.
     res_bind (guard (dependencyId \<noteq> pb_proposalId item) (DependsOnItself (pb_proposalId item))) (\<lambda>_.
     res_bind (guard (dependencyId \<notin> set seenDependencies)
         (DuplicateDependency (pb_proposalId item) dependencyId)) (\<lambda>_.
     res_bind (guard (map_of byProposalId dependencyId \<noteq> None)
         (DependencyNotFound (pb_proposalId item) dependencyId)) (\<lambda>_.
     Inr (seenDependencies @ [dependencyId])))))"

definition checkDependencies :: "item_map \<Rightarrow> unit \<Rightarrow> PlannedBatchItem \<Rightarrow> batch_order_error + unit" where
  "checkDependencies byProposalId u item =
     res_bind (for_each (checkDependency byProposalId item) [] (pb_dependsOn item)) (\<lambda>_. Inr ())"

type_synonym out_map = "(string \<times> string list) list"
type_synonym degree_map = "(string \<times> int) list"

definition initEdges :: "PlannedBatchItem list \<Rightarrow> out_map \<times> degree_map" where
  "initEdges items = foldl (\<lambda>(outgoing, indegree) item.
     (AList.update (pb_proposalId item) [] outgoing,
      AList.update (pb_proposalId item) 0 indegree)) ([], []) items"

definition degree :: "degree_map \<Rightarrow> string \<Rightarrow> int" where
  "degree indegree k = (case map_of indegree k of None \<Rightarrow> 0 | Some n \<Rightarrow> n)"

definition addEdge :: "string \<Rightarrow> out_map \<times> degree_map \<Rightarrow> string \<Rightarrow> out_map \<times> degree_map" where
  "addEdge proposalId edges dependencyId =
     (case edges of (outgoing, indegree) \<Rightarrow>
      ((case map_of outgoing dependencyId of
          None \<Rightarrow> outgoing
        | Some dependents \<Rightarrow> AList.update dependencyId (dependents @ [proposalId]) outgoing),
       AList.update proposalId (degree indegree proposalId + 1) indegree))"

definition buildEdges :: "PlannedBatchItem list \<Rightarrow> out_map \<times> degree_map" where
  "buildEdges items =
     foldl (\<lambda>edges item. foldl (addEdge (pb_proposalId item)) edges (pb_dependsOn item))
       (initEdges items) items"

text \<open>\<open>sort\<close> with \<open>compareByOriginalIndex\<close>, which is stable.\<close>

definition originalPosition :: "index_map \<Rightarrow> string \<Rightarrow> nat" where
  "originalPosition originalIndex k = (case map_of originalIndex k of None \<Rightarrow> 0 | Some i \<Rightarrow> i)"

definition sortByOriginalIndex :: "index_map \<Rightarrow> string list \<Rightarrow> string list" where
  "sortByOriginalIndex originalIndex ids = sort_key (originalPosition originalIndex) ids"

definition initialReady :: "index_map \<Rightarrow> degree_map \<Rightarrow> string list" where
  "initialReady originalIndex indegree =
     sortByOriginalIndex originalIndex (map fst (filter (\<lambda>(k, count). count = 0) indegree))"

definition releaseDependent ::
  "index_map \<Rightarrow> degree_map \<times> string list \<Rightarrow> string \<Rightarrow> degree_map \<times> string list" where
  "releaseDependent originalIndex st dependentId =
     (case st of (indegree, ready) \<Rightarrow>
      let nextIndegree = degree indegree dependentId - 1
      in (AList.update dependentId nextIndegree indegree,
          if nextIndegree = 0 then sortByOriginalIndex originalIndex (ready @ [dependentId])
          else ready))"

definition releaseDependents ::
  "index_map \<Rightarrow> out_map \<Rightarrow> string \<Rightarrow> degree_map \<times> string list \<Rightarrow> degree_map \<times> string list" where
  "releaseDependents originalIndex outgoing proposalId st =
     foldl (releaseDependent originalIndex) st
       (sortByOriginalIndex originalIndex
         (case map_of outgoing proposalId of None \<Rightarrow> [] | Some dependents \<Rightarrow> dependents))"

text \<open>The number of entries with a positive degree bounds the pushes that are left.\<close>

definition positives :: "degree_map \<Rightarrow> nat" where
  "positives m = length (filter (\<lambda>(k, n). 0 < n) m)"

lemma positives_update:
  "positives (AList.update k (degree m k - 1) m) + (if degree m k = 1 then 1 else 0) \<le> positives m"
proof (induction m)
  case (Cons e m)
  obtain k' n where "e = (k', n)" by (cases e)
  with Cons show ?case by (auto simp: positives_def degree_def)
qed (simp add: positives_def degree_def)

lemma releaseDependent_measure:
  "positives (fst (releaseDependent ix st d)) + length (snd (releaseDependent ix st d)) \<le>
   positives (fst st) + length (snd st)"
  using positives_update [of d "fst st"]
  by (auto simp: releaseDependent_def sortByOriginalIndex_def Let_def split: prod.splits if_splits)

lemma releaseDependents_measure:
  "positives (fst (releaseDependents ix out p st)) + length (snd (releaseDependents ix out p st)) \<le>
   positives (fst st) + length (snd st)"
proof -
  have "positives (fst (foldl (releaseDependent ix) st ds)) + length (snd (foldl (releaseDependent ix) st ds))
      \<le> positives (fst st) + length (snd st)" for ds
  proof (induction ds arbitrary: st)
    case (Cons d ds)
    then show ?case
      using releaseDependent_measure [of ix st d] by (simp del: split_paired_All) (meson order_trans)
  qed simp
  then show ?thesis by (simp add: releaseDependents_def)
qed

function kahnLoop ::
  "item_map \<Rightarrow> index_map \<Rightarrow> out_map \<Rightarrow> string list \<Rightarrow> degree_map \<Rightarrow> PlannedBatchItem list \<Rightarrow>
   batch_order_error + PlannedBatchItem list" where
  "kahnLoop byProposalId originalIndex outgoing [] indegree orderedItems = Inr orderedItems"
| "kahnLoop byProposalId originalIndex outgoing (proposalId # ready) indegree orderedItems =
     (case map_of byProposalId proposalId of
        None \<Rightarrow> Inl (BatchItemDisappeared proposalId)
      | Some item \<Rightarrow>
          kahnLoop byProposalId originalIndex outgoing
            (snd (releaseDependents originalIndex outgoing proposalId (indegree, ready)))
            (fst (releaseDependents originalIndex outgoing proposalId (indegree, ready)))
            (orderedItems @ [item]))"
  by pat_completeness auto
termination
  by (relation "measure (\<lambda>(_, _, _, ready, indegree, _). positives indegree + length ready)")
     (use releaseDependents_measure in \<open>auto simp: less_Suc_eq_le\<close>)

definition planProposalBatch ::
  "ApplyProposalBatchItem list \<Rightarrow> batch_order_error + PlannedBatchItem list" where
  "planProposalBatch items =
     res_bind (guard (items \<noteq> []) BatchItemsEmpty) (\<lambda>_.
     res_bind (for_each collectItem ([], []) (enumerate 0 items)) (\<lambda>(byProposalId, originalIndex).
     res_bind (for_each (checkDependencies byProposalId) () (map snd byProposalId)) (\<lambda>_.
     case buildEdges (map snd byProposalId) of (outgoing, indegree) \<Rightarrow>
     res_bind (kahnLoop byProposalId originalIndex outgoing
         (initialReady originalIndex indegree) indegree []) (\<lambda>orderedItems.
     if length orderedItems \<noteq> length items then Inl DependencyCycleDetected
     else Inr orderedItems))))"

section \<open>Specification\<close>

definition batch_ids :: "PlannedBatchItem list \<Rightarrow> string list" where
  "batch_ids items = map pb_proposalId items"

definition depends :: "PlannedBatchItem list \<Rightarrow> string \<Rightarrow> string \<Rightarrow> bool" where
  "depends items d p \<longleftrightarrow> (\<exists>item \<in> set items. pb_proposalId item = p \<and> d \<in> set (pb_dependsOn item))"

definition valid_batch :: "ApplyProposalBatchItem list \<Rightarrow> bool" where
  "valid_batch items \<longleftrightarrow> items \<noteq> [] \<and> distinct (map bi_proposalId items) \<and>
     (\<forall>item \<in> set items. bi_proposalId item \<noteq> [] \<and> bi_actorId item \<noteq> Some []) \<and>
     (\<forall>item \<in> set (map plannedItem items). distinct (pb_dependsOn item) \<and>
        set (pb_dependsOn item) \<subseteq> set (map bi_proposalId items) \<and>
        pb_proposalId item \<notin> set (pb_dependsOn item))"

text \<open>The abstract order: a permutation in which every dependency comes before its dependent.\<close>

definition topological :: "PlannedBatchItem list \<Rightarrow> bool" where
  "topological items \<longleftrightarrow>
     (\<forall>us item vs. items = us @ item # vs \<longrightarrow> set (pb_dependsOn item) \<subseteq> set (batch_ids us))"

section \<open>The collection and validation phases\<close>

lemma validateBatchItem_ok [result_simps]:
  "validateBatchItem item = Inr u \<longleftrightarrow> bi_proposalId item \<noteq> [] \<and> bi_actorId item \<noteq> Some []"
  by (auto simp: validateBatchItem_def result_simps)

lemma plannedItem_id [simp]: "pb_proposalId (plannedItem item) = bi_proposalId item"
  by (simp add: plannedItem_def)

lemma map_of_by_id:
  "map_of (map (\<lambda>i. (pb_proposalId i, i)) items) k = None \<longleftrightarrow> k \<notin> set (batch_ids items)"
  by (simp add: map_of_eq_None_iff batch_ids_def image_image)

lemma map_of_by_id_Some:
  "distinct (batch_ids items) \<Longrightarrow> item \<in> set items \<Longrightarrow>
   map_of (map (\<lambda>i. (pb_proposalId i, i)) items) (pb_proposalId item) = Some item"
  by (rule map_of_is_SomeI) (auto simp: batch_ids_def comp_def)

lemma collect_loop:
  "for_each collectItem (map (\<lambda>i. (pb_proposalId i, i)) ps, ix) (enumerate n items) = Inr r \<longleftrightarrow>
   (\<forall>item \<in> set items. bi_proposalId item \<noteq> [] \<and> bi_actorId item \<noteq> Some []) \<and>
   distinct (map bi_proposalId items) \<and> set (batch_ids ps) \<inter> set (map bi_proposalId items) = {} \<and>
   r = (map (\<lambda>i. (pb_proposalId i, i)) (ps @ map plannedItem items),
        fold (\<lambda>(i, item). AList.update (bi_proposalId item) i) (enumerate n items) ix)"
proof (induction items arbitrary: ps ix n)
  case Nil
  then show ?case by (auto simp: batch_ids_def)
next
  case (Cons item items)
  let ?m = "map (\<lambda>i. (pb_proposalId i, i)) ps"
  show ?case
  proof (cases "bi_proposalId item \<in> set (batch_ids ps)")
    case True
    then have "map_of ?m (bi_proposalId item) \<noteq> None" by (simp only: map_of_by_id) simp
    with True show ?thesis by (auto simp: collectItem_def result_simps)
  next
    case False
    then have none: "map_of ?m (bi_proposalId item) = None" by (simp only: map_of_by_id) simp
    have upd: "AList.update (bi_proposalId item) (plannedItem item) ?m =
        map (\<lambda>i. (pb_proposalId i, i)) (ps @ [plannedItem item])"
      using False by (subst update_fresh) (auto simp: batch_ids_def)
    show ?thesis
      using False Cons.IH [of "ps @ [plannedItem item]" _ "Suc n"]
      by (auto simp: collectItem_def result_simps none upd batch_ids_def)
  qed
qed

lemma check_loop [result_simps]:
  "for_each (checkDependency byId item) seen ds = Inr out \<longleftrightarrow>
   out = seen @ ds \<and> distinct ds \<and> set seen \<inter> set ds = {} \<and> [] \<notin> set ds \<and>
   pb_proposalId item \<notin> set ds \<and> (\<forall>d \<in> set ds. map_of byId d \<noteq> None)"
  by (induction ds arbitrary: seen) (auto simp: checkDependency_def result_simps)

lemma check_all_loop [result_simps]:
  "for_each (checkDependencies byId) u items = Inr v \<longleftrightarrow>
   (\<forall>item \<in> set items. distinct (pb_dependsOn item) \<and> [] \<notin> set (pb_dependsOn item) \<and>
     pb_proposalId item \<notin> set (pb_dependsOn item) \<and>
     (\<forall>d \<in> set (pb_dependsOn item). map_of byId d \<noteq> None))"
  by (induction items arbitrary: u) (auto simp: checkDependencies_def result_simps)

text \<open>The recorded position of an item is its position in the request.\<close>

lemma index_fold_other:
  "k \<notin> set (map bi_proposalId items) \<Longrightarrow>
   map_of (fold (\<lambda>(i, item). AList.update (bi_proposalId item) i) (enumerate n items) ix) k = map_of ix k"
  by (induction items arbitrary: n ix) auto

lemma index_fold:
  "distinct (map bi_proposalId items) \<Longrightarrow> j < length items \<Longrightarrow>
   map_of (fold (\<lambda>(i, item). AList.update (bi_proposalId item) i) (enumerate n items) ix)
     (bi_proposalId (items ! j)) = Some (n + j)"
proof (induction items arbitrary: n ix j)
  case (Cons item items)
  then show ?case by (cases j) (auto simp: index_fold_other)
qed simp

section \<open>The dependency graph\<close>

definition out_get :: "out_map \<Rightarrow> string \<Rightarrow> string list" where
  "out_get outgoing k = (case map_of outgoing k of None \<Rightarrow> [] | Some ds \<Rightarrow> ds)"

lemma degree_update [simp]:
  "degree (AList.update k n g) k' = (if k' = k then n else degree g k')"
  by (simp add: degree_def)

lemma out_get_update [simp]:
  "out_get (AList.update k ds g) k' = (if k' = k then ds else out_get g k')"
  by (simp add: out_get_def)

lemma initEdges_eq:
  "distinct (batch_ids items) \<Longrightarrow>
   initEdges items = (map (\<lambda>i. (pb_proposalId i, [])) items, map (\<lambda>i. (pb_proposalId i, 0)) items)"
proof (induction items rule: rev_induct)
  case (snoc item items)
  then have "pb_proposalId item \<notin> set (batch_ids items)" by (simp add: batch_ids_def)
  then show ?case
    using snoc by (simp add: initEdges_def batch_ids_def update_fresh image_image)
qed (simp add: initEdges_def)

lemma addEdges_item:
  assumes "distinct ds" "set ds \<subseteq> dom (map_of (fst e))" "p \<in> fst ` set (snd e)"
  shows "(\<forall>k. out_get (fst (foldl (addEdge p) e ds)) k = out_get (fst e) k @ (if k \<in> set ds then [p] else [])) \<and>
    dom (map_of (fst (foldl (addEdge p) e ds))) = dom (map_of (fst e)) \<and>
    (\<forall>q. degree (snd (foldl (addEdge p) e ds)) q = degree (snd e) q + (if q = p then int (length ds) else 0)) \<and>
    map fst (snd (foldl (addEdge p) e ds)) = map fst (snd e)"
  using assms
proof (induction ds arbitrary: e)
  case (Cons d ds)
  obtain out deg where e: "e = (out, deg)" by (cases e)
  from Cons.prems e obtain xs where xs: "map_of out d = Some xs" by auto
  let ?out = "AList.update d (xs @ [p]) out" and ?deg = "AList.update p (degree deg p + 1) deg"
  have e': "addEdge p e d = (?out, ?deg)"
    by (simp add: addEdge_def e xs)
  have dom: "dom (map_of ?out) = dom (map_of out)" using xs by auto
  have keys: "map fst ?deg = map fst deg" using Cons.prems e by (intro keys_update) simp
  then have "p \<in> fst ` set ?deg" using Cons.prems e by (metis set_map snd_conv)
  moreover have "set ds \<subseteq> dom (map_of ?out)" using Cons.prems e unfolding dom by simp
  moreover have "out_get out d = xs" using xs by (simp add: out_get_def)
  ultimately show ?case
    using Cons.IH [of "(?out, ?deg)"] Cons.prems unfolding foldl_Cons e' fst_conv snd_conv dom keys
    by (auto simp: e)
qed simp

lemma addEdges_items:
  assumes "\<forall>item \<in> set us. distinct (pb_dependsOn item) \<and> set (pb_dependsOn item) \<subseteq> dom (map_of (fst e))"
    and "set (batch_ids us) \<subseteq> fst ` set (snd e)"
  shows "let e' = foldl (\<lambda>edges item. foldl (addEdge (pb_proposalId item)) edges (pb_dependsOn item)) e us in
    (\<forall>k. out_get (fst e') k =
      out_get (fst e) k @ batch_ids (filter (\<lambda>item. k \<in> set (pb_dependsOn item)) us)) \<and>
    (\<forall>q. degree (snd e') q = degree (snd e) q +
      (\<Sum>item \<leftarrow> us. if q = pb_proposalId item then int (length (pb_dependsOn item)) else 0)) \<and>
    map fst (snd e') = map fst (snd e)"
  using assms
proof (induction us arbitrary: e)
  case (Cons u us)
  let ?e = "foldl (addEdge (pb_proposalId u)) e (pb_dependsOn u)"
  have u: "distinct (pb_dependsOn u)" "set (pb_dependsOn u) \<subseteq> dom (map_of (fst e))"
    "pb_proposalId u \<in> fst ` set (snd e)"
    using Cons.prems by (auto simp: batch_ids_def)
  note step = addEdges_item [OF u]
  have keys: "fst ` set (snd ?e) = fst ` set (snd e)" using step by (metis set_map)
  have "\<forall>item \<in> set us. distinct (pb_dependsOn item) \<and> set (pb_dependsOn item) \<subseteq> dom (map_of (fst ?e))"
    "set (batch_ids us) \<subseteq> fst ` set (snd ?e)"
    using Cons.prems step by (auto simp: batch_ids_def keys)
  from Cons.IH [OF this] step show ?case
    by (auto simp: Let_def batch_ids_def algebra_simps)
qed (simp add: batch_ids_def)

lemma sum_list_none: "q \<notin> f ` set xs \<Longrightarrow> (\<Sum>y \<leftarrow> xs. if q = f y then (g y :: int) else 0) = 0"
  by (induction xs) auto

lemma sum_list_unique:
  "distinct (map f xs) \<Longrightarrow> x \<in> set xs \<Longrightarrow>
   (\<Sum>y \<leftarrow> xs. if f x = f y then (g y :: int) else 0) = g x"
proof (induction xs)
  case (Cons z zs)
  show ?case
  proof (cases "x = z")
    case True
    with Cons.prems sum_list_none [of "f z" f zs g] show ?thesis by simp
  next
    case False
    with Cons.prems have "x \<in> set zs" "f z \<notin> f ` set zs" by simp_all
    then have "f x \<noteq> f z" by (metis image_eqI)
    with Cons \<open>x \<in> set zs\<close> show ?thesis by simp
  qed
qed simp

lemma buildEdges_spec:
  assumes "distinct (batch_ids items)"
    and "\<forall>item \<in> set items. distinct (pb_dependsOn item) \<and> set (pb_dependsOn item) \<subseteq> set (batch_ids items)"
  shows "distinct (out_get (fst (buildEdges items)) k)"
    and "set (out_get (fst (buildEdges items)) k) = {p. depends items k p}"
    and "item \<in> set items \<Longrightarrow> degree (snd (buildEdges items)) (pb_proposalId item) = int (length (pb_dependsOn item))"
    and "map fst (snd (buildEdges items)) = batch_ids items"
proof -
  have init: "fst (initEdges items) = map (\<lambda>i. (pb_proposalId i, [])) items"
    "snd (initEdges items) = map (\<lambda>i. (pb_proposalId i, 0)) items"
    using initEdges_eq [OF assms(1)] by simp_all
  have dom: "dom (map_of (fst (initEdges items))) = set (batch_ids items)"
    by (simp add: init dom_map_of_conv_image_fst batch_ids_def image_image)
  have keys: "fst ` set (snd (initEdges items)) = set (batch_ids items)"
    by (simp add: init batch_ids_def image_image)
  have out0: "out_get (fst (initEdges items)) q = []" for q
    by (auto simp: out_get_def init split: option.splits dest!: map_of_SomeD)
  have deg0: "degree (snd (initEdges items)) q = 0" for q
    by (auto simp: degree_def init split: option.splits dest!: map_of_SomeD)
  have main: "out_get (fst (buildEdges items)) q = batch_ids (filter (\<lambda>item. q \<in> set (pb_dependsOn item)) items)"
    "degree (snd (buildEdges items)) q =
      (\<Sum>item \<leftarrow> items. if q = pb_proposalId item then int (length (pb_dependsOn item)) else 0)"
    "map fst (snd (buildEdges items)) = map fst (snd (initEdges items))" for q
    using addEdges_items [of items "initEdges items"] assms
    by (simp_all add: Let_def buildEdges_def dom keys out0 deg0)
  show "distinct (out_get (fst (buildEdges items)) k)"
    using assms(1) by (simp add: main batch_ids_def distinct_map_filter)
  show "set (out_get (fst (buildEdges items)) k) = {p. depends items k p}"
    by (auto simp: main batch_ids_def depends_def)
  show "map fst (snd (buildEdges items)) = batch_ids items"
    by (simp add: main init batch_ids_def comp_def)
  show "degree (snd (buildEdges items)) (pb_proposalId item) = int (length (pb_dependsOn item))"
    if "item \<in> set items"
    using sum_list_unique [of pb_proposalId items item "\<lambda>i. int (length (pb_dependsOn i))"] assms(1) that
    by (simp add: main batch_ids_def)
qed

section \<open>The loop\<close>

lemma release_fold:
  assumes "distinct ds" "set ds \<inter> set (snd st) = {}" "distinct (snd st)"
    "sorted (map (originalPosition ix) (snd st))"
  shows "(\<forall>k. degree (fst (foldl (releaseDependent ix) st ds)) k = degree (fst st) k - (if k \<in> set ds then 1 else 0)) \<and>
    set (snd (foldl (releaseDependent ix) st ds)) = set (snd st) \<union> {k \<in> set ds. degree (fst st) k = 1} \<and>
    distinct (snd (foldl (releaseDependent ix) st ds)) \<and>
    sorted (map (originalPosition ix) (snd (foldl (releaseDependent ix) st ds)))"
  using assms
proof (induction ds arbitrary: st)
  case (Cons d ds)
  obtain g ready where st: "st = (g, ready)" by (cases st)
  let ?g = "AList.update d (degree g d - 1) g"
  let ?ready = "if degree g d = 1 then sortByOriginalIndex ix (ready @ [d]) else ready"
  have st': "releaseDependent ix st d = (?g, ?ready)"
    by (simp add: releaseDependent_def st Let_def)
  have s: "set ?ready = set ready \<union> (if degree g d = 1 then {d} else {})"
    by (auto simp: sortByOriginalIndex_def)
  have "set ds \<inter> set ?ready = {}" "distinct ?ready" "sorted (map (originalPosition ix) ?ready)"
    using Cons.prems unfolding st by (auto simp: sortByOriginalIndex_def)
  then show ?case
    using Cons.IH [of "(?g, ?ready)"] Cons.prems
    unfolding foldl_Cons st' fst_conv snd_conv s by (auto simp: st)
qed simp

definition kahn_inv ::
  "PlannedBatchItem list \<Rightarrow> index_map \<Rightarrow> string list \<Rightarrow> degree_map \<Rightarrow> PlannedBatchItem list \<Rightarrow> bool" where
  "kahn_inv items ix ready g acc \<longleftrightarrow>
     distinct (batch_ids acc @ ready) \<and> set acc \<subseteq> set items \<and> set ready \<subseteq> set (batch_ids items) \<and>
     (\<forall>item \<in> set items. degree g (pb_proposalId item) =
        int (card (set (pb_dependsOn item) - set (batch_ids acc)))) \<and>
     (\<forall>item \<in> set items. pb_proposalId item \<in> set (batch_ids acc @ ready) \<longleftrightarrow>
        set (pb_dependsOn item) \<subseteq> set (batch_ids acc)) \<and>
     topological acc \<and> sorted (map (originalPosition ix) ready)"

definition graph_ok :: "PlannedBatchItem list \<Rightarrow> out_map \<Rightarrow> bool" where
  "graph_ok items outgoing \<longleftrightarrow> distinct (batch_ids items) \<and>
     (\<forall>item \<in> set items. pb_proposalId item \<notin> set (pb_dependsOn item)) \<and>
     (\<forall>k. distinct (out_get outgoing k) \<and> set (out_get outgoing k) = {p. depends items k p})"

lemma depends_item:
  "distinct (batch_ids items) \<Longrightarrow> item \<in> set items \<Longrightarrow>
   depends items d (pb_proposalId item) \<longleftrightarrow> d \<in> set (pb_dependsOn item)"
  by (auto simp: depends_def batch_ids_def dest: inj_onD [OF distinct_map [THEN iffD1, THEN conjunct2]])

lemma topological_snoc:
  "topological (acc @ [item]) \<longleftrightarrow> topological acc \<and> set (pb_dependsOn item) \<subseteq> set (batch_ids acc)"
proof
  assume t: "topological (acc @ [item])"
  then have "set (pb_dependsOn item) \<subseteq> set (batch_ids acc)" unfolding topological_def by blast
  moreover have "topological acc" using t unfolding topological_def by (metis append_assoc append_Cons)
  ultimately show "topological acc \<and> set (pb_dependsOn item) \<subseteq> set (batch_ids acc)" by blast
next
  assume "topological acc \<and> set (pb_dependsOn item) \<subseteq> set (batch_ids acc)"
  then show "topological (acc @ [item])"
    unfolding topological_def by (auto simp: append_eq_append_conv2 append_eq_Cons_conv Cons_eq_append_conv)
qed

text \<open>What releasing the dependents of \<open>p\<close> does, in terms of the dependency lists.\<close>

lemma release_spec:
  fixes g :: degree_map
  assumes ok: "graph_ok items out" and "distinct ready" "sorted (map (originalPosition ix) ready)"
    and fresh: "\<And>i. i \<in> set items \<Longrightarrow> p \<in> set (pb_dependsOn i) \<Longrightarrow> pb_proposalId i \<notin> set ready"
  defines "st \<equiv> releaseDependents ix out p (g, ready)"
  shows "i \<in> set items \<Longrightarrow> degree (fst st) (pb_proposalId i) =
      degree g (pb_proposalId i) - (if p \<in> set (pb_dependsOn i) then 1 else 0)"
    and "set (snd st) = set ready \<union>
      {pb_proposalId i |i. i \<in> set items \<and> p \<in> set (pb_dependsOn i) \<and> degree g (pb_proposalId i) = 1}"
    and "distinct (snd st)" and "sorted (map (originalPosition ix) (snd st))"
proof -
  let ?ds = "sortByOriginalIndex ix (out_get out p)"
  have st: "st = foldl (releaseDependent ix) (g, ready) ?ds"
    by (simp add: st_def releaseDependents_def out_get_def)
  have d: "distinct (batch_ids items)" using ok by (simp add: graph_ok_def)
  have ds: "distinct ?ds" "set ?ds = {q. depends items p q}"
    using ok by (simp_all add: sortByOriginalIndex_def graph_ok_def)
  have "set ?ds \<inter> set ready = {}" using fresh by (auto simp: ds(2) depends_def)
  note R = release_fold [OF ds(1), of "(g, ready)" ix, unfolded fst_conv snd_conv, OF this assms(2,3),
      folded st]
  show "degree (fst st) (pb_proposalId i) =
      degree g (pb_proposalId i) - (if p \<in> set (pb_dependsOn i) then 1 else 0)" if "i \<in> set items"
    using R depends_item [OF d that] by (simp add: ds(2))
  show "set (snd st) = set ready \<union>
      {pb_proposalId i |i. i \<in> set items \<and> p \<in> set (pb_dependsOn i) \<and> degree g (pb_proposalId i) = 1}"
    using R by (auto simp: ds(2) depends_def)
  show "distinct (snd st)" "sorted (map (originalPosition ix) (snd st))" using R by blast+
qed

lemma card_Diff_insert:
  assumes "p \<notin> A" "finite D"
  shows "int (card (D - insert p A)) = int (card (D - A)) - (if p \<in> D then 1 else 0)"
proof -
  have eq: "D - insert p A = (D - A) - {p}" by auto
  show ?thesis
  proof (cases "p \<in> D")
    case True
    then have "p \<in> D - A" using assms by blast
    moreover from this have "0 < card (D - A)" using assms(2) by (auto simp: card_gt_0_iff)
    ultimately show ?thesis using True assms(2) by (simp add: eq card_Diff_singleton of_nat_diff)
  qed (simp add: eq)
qed

lemma kahn_step:
  assumes inv: "kahn_inv items ix (pb_proposalId item # ready) g acc" and ok: "graph_ok items out"
    and item: "item \<in> set items"
  shows "kahn_inv items ix (snd (releaseDependents ix out (pb_proposalId item) (g, ready)))
    (fst (releaseDependents ix out (pb_proposalId item) (g, ready))) (acc @ [item])"
proof -
  let ?p = "pb_proposalId item" and ?A = "set (batch_ids acc)"
  let ?st = "releaseDependents ix out ?p (g, ready)"
  have fresh: "?p \<notin> ?A" "?p \<notin> set ready" "distinct (batch_ids acc)" "distinct ready"
    "?A \<inter> set ready = {}" "sorted (map (originalPosition ix) ready)"
    using inv by (auto simp: kahn_inv_def)
  have deg: "degree g (pb_proposalId i) = int (card (set (pb_dependsOn i) - ?A))"
    and mem: "pb_proposalId i \<in> ?A \<union> insert ?p (set ready) \<longleftrightarrow> set (pb_dependsOn i) \<subseteq> ?A"
    if "i \<in> set items" for i
    using inv that by (auto simp: kahn_inv_def)
  have new: "pb_proposalId i \<notin> ?A \<union> insert ?p (set ready)" if "i \<in> set items" "?p \<in> set (pb_dependsOn i)" for i
    using that mem fresh(1) by blast
  note R = release_spec [OF ok fresh(4,6), where p = ?p and g = g]
  have R2: "set (snd ?st) = set ready \<union> {pb_proposalId i |i. i \<in> set items \<and> ?p \<in> set (pb_dependsOn i) \<and>
      degree g (pb_proposalId i) = 1}" and R34: "distinct (snd ?st)" "sorted (map (originalPosition ix) (snd ?st))"
    using R(2-4) new by blast+
  have deg': "degree (fst ?st) (pb_proposalId i) = int (card (set (pb_dependsOn i) - insert ?p ?A))"
    if "i \<in> set items" for i
    using R(1) [OF _ that] new card_Diff_insert [OF fresh(1), of "set (pb_dependsOn i)"] deg [OF that]
    by (simp add: that)
  have mem': "pb_proposalId i \<in> insert ?p ?A \<union> set (snd ?st) \<longleftrightarrow> set (pb_dependsOn i) \<subseteq> insert ?p ?A"
    if i: "i \<in> set items" for i
  proof (cases "?p \<in> set (pb_dependsOn i)")
    case True
    have "set (pb_dependsOn i) \<subseteq> insert ?p ?A \<longleftrightarrow> int (card (set (pb_dependsOn i) - insert ?p ?A)) = 0"
      by simp
    also have "\<dots> \<longleftrightarrow> degree g (pb_proposalId i) = 1"
      using True card_Diff_insert [OF fresh(1), of "set (pb_dependsOn i)"] deg [OF i] by simp
    finally have "set (pb_dependsOn i) \<subseteq> insert ?p ?A \<longleftrightarrow> degree g (pb_proposalId i) = 1" .
    moreover have "pb_proposalId i \<in> set (snd ?st) \<longleftrightarrow> degree g (pb_proposalId i) = 1"
      unfolding R2 using new [OF i True] True i by auto
    ultimately show ?thesis using new [OF i True] by blast
  next
    case False
    then have "pb_proposalId i \<in> set (snd ?st) \<longleftrightarrow> pb_proposalId i \<in> set ready"
      unfolding R2 using ok i by (auto simp: graph_ok_def batch_ids_def
        dest: inj_onD [OF distinct_map [THEN iffD1, THEN conjunct2]])
    with False mem [OF i] show ?thesis by auto
  qed
  have ids: "batch_ids (acc @ [item]) = batch_ids acc @ [?p]" by (simp add: batch_ids_def)
  have "q \<notin> insert ?p ?A" if "q \<in> set (snd ?st)" for q
  proof (cases "q \<in> set ready")
    case True
    then show ?thesis using fresh(2,5) by auto
  next
    case False
    with that obtain i where "i \<in> set items" "?p \<in> set (pb_dependsOn i)" "q = pb_proposalId i"
      unfolding R2 by auto
    with new show ?thesis by simp
  qed
  then have "insert ?p ?A \<inter> set (snd ?st) = {}" by blast
  then have c1: "distinct (batch_ids (acc @ [item]) @ snd ?st)"
    unfolding ids using fresh R34(1) by simp
  have c2: "set (acc @ [item]) \<subseteq> set items" using inv item by (simp add: kahn_inv_def)
  have "set ready \<subseteq> set (batch_ids items)" using inv by (simp add: kahn_inv_def)
  then have c3: "set (snd ?st) \<subseteq> set (batch_ids items)"
    unfolding R2 by (auto simp: batch_ids_def)
  have c4: "\<forall>i \<in> set items. degree (fst ?st) (pb_proposalId i) =
      int (card (set (pb_dependsOn i) - set (batch_ids (acc @ [item]))))"
    using deg' by (simp add: ids)
  have c5: "\<forall>i \<in> set items. pb_proposalId i \<in> set (batch_ids (acc @ [item]) @ snd ?st) \<longleftrightarrow>
      set (pb_dependsOn i) \<subseteq> set (batch_ids (acc @ [item]))"
    using mem' by (simp add: ids)
  have "set (pb_dependsOn item) \<subseteq> ?A" using mem [OF item] by blast
  then have c6: "topological (acc @ [item])" using inv by (simp add: topological_snoc kahn_inv_def)
  show ?thesis unfolding kahn_inv_def by (intro conjI c1 c2 c3 c4 c5 c6 R34(2))
qed

lemma kahnLoop_result:
  assumes "kahn_inv items ix ready g acc" "graph_ok items out"
    and "byId = map (\<lambda>i. (pb_proposalId i, i)) items"
  shows "\<exists>res g'. kahnLoop byId ix out ready g acc = Inr res \<and> kahn_inv items ix [] g' res"
  using assms
proof (induction byId ix out ready g acc rule: kahnLoop.induct)
  case (1 byId ix out g acc)
  then show ?case by auto
next
  case (2 byId ix out p ready g acc)
  have "p \<in> set (batch_ids items)" using "2.prems" by (simp add: kahn_inv_def)
  then obtain item where item: "item \<in> set items" "p = pb_proposalId item" by (auto simp: batch_ids_def)
  have look: "map_of byId p = Some item"
    using "2.prems" item map_of_by_id_Some [of items item] by (simp add: graph_ok_def)
  have "kahn_inv items ix (snd (releaseDependents ix out p (g, ready)))
      (fst (releaseDependents ix out p (g, ready))) (acc @ [item])"
    using kahn_step "2.prems" item by simp
  then show ?case using "2.IH" [OF look] "2.prems" unfolding kahnLoop.simps look by simp
qed

section \<open>The whole plan\<close>

lemma initialReady_spec:
  assumes "distinct (map fst g)"
  shows "set (initialReady ix g) = {k \<in> fst ` set g. degree g k = 0}"
    and "distinct (initialReady ix g)" and "sorted (map (originalPosition ix) (initialReady ix g))"
proof -
  have "degree g k = n" if "(k, n) \<in> set g" for k n
    using that assms by (simp add: degree_def)
  then show "set (initialReady ix g) = {k \<in> fst ` set g. degree g k = 0}"
    by (force simp: initialReady_def sortByOriginalIndex_def)
  show "distinct (initialReady ix g)"
    using assms by (simp add: initialReady_def sortByOriginalIndex_def distinct_map_filter)
  show "sorted (map (originalPosition ix) (initialReady ix g))"
    by (simp add: initialReady_def sortByOriginalIndex_def)
qed

lemma initial_inv:
  assumes "distinct (batch_ids items)"
    and "\<forall>item \<in> set items. distinct (pb_dependsOn item) \<and> set (pb_dependsOn item) \<subseteq> set (batch_ids items)"
  shows "kahn_inv items ix (initialReady ix (snd (buildEdges items))) (snd (buildEdges items)) []"
proof -
  note b = buildEdges_spec [OF assms]
  have d: "distinct (map fst (snd (buildEdges items)))" using assms(1) by (simp add: b(4))
  have keys: "fst ` set (snd (buildEdges items)) = set (batch_ids items)" using b(4) by (metis set_map)
  have "card (set (pb_dependsOn i)) = length (pb_dependsOn i)" if "i \<in> set items" for i
    using assms(2) that by (simp add: distinct_card)
  moreover have "pb_proposalId i \<in> set (initialReady ix (snd (buildEdges items))) \<longleftrightarrow> pb_dependsOn i = []"
    if "i \<in> set items" for i
    using that b(3) [OF that] by (auto simp: initialReady_spec(1) [OF d] keys batch_ids_def)
  moreover have "set (initialReady ix (snd (buildEdges items))) \<subseteq> set (batch_ids items)"
    by (auto simp: initialReady_spec(1) [OF d] keys)
  ultimately show ?thesis
    using b(3) initialReady_spec(2,3) [OF d]
    by (simp add: kahn_inv_def batch_ids_def [of "[]"] topological_def)
qed

definition index_of :: "ApplyProposalBatchItem list \<Rightarrow> index_map" where
  "index_of items = fold (\<lambda>(i, item). AList.update (bi_proposalId item) i) (enumerate 0 items) []"

lemma batch_ids_planned [simp]: "batch_ids (map plannedItem items) = map bi_proposalId items"
  by (simp add: batch_ids_def)

lemma collect_all:
  "for_each collectItem ([], []) (enumerate 0 items) = Inr r \<longleftrightarrow>
   (\<forall>item \<in> set items. bi_proposalId item \<noteq> [] \<and> bi_actorId item \<noteq> Some []) \<and>
   distinct (map bi_proposalId items) \<and>
   r = (map (\<lambda>i. (pb_proposalId i, i)) (map plannedItem items), index_of items)"
  using collect_loop [of "[]" "[]" 0 items r] by (simp add: batch_ids_def index_of_def)

lemma valid_batch_checks:
  "valid_batch items \<longleftrightarrow> items \<noteq> [] \<and>
   for_each collectItem ([], []) (enumerate 0 items) =
     Inr (map (\<lambda>i. (pb_proposalId i, i)) (map plannedItem items), index_of items) \<and>
   for_each (checkDependencies (map (\<lambda>i. (pb_proposalId i, i)) (map plannedItem items))) ()
     (map plannedItem items) = Inr ()"
proof -
  have "map_of (map (\<lambda>i. (pb_proposalId i, i)) (map plannedItem items)) d \<noteq> None \<longleftrightarrow>
      d \<in> set (map bi_proposalId items)" for d
    using map_of_by_id [of "map plannedItem items" d] by simp
  then show ?thesis
    unfolding valid_batch_def check_all_loop collect_all by (auto simp del: map_map) force
qed

lemma valid_batch_graph:
  assumes "valid_batch items"
  shows "graph_ok (map plannedItem items) (fst (buildEdges (map plannedItem items)))"
    and "kahn_inv (map plannedItem items) ix
      (initialReady ix (snd (buildEdges (map plannedItem items)))) (snd (buildEdges (map plannedItem items))) []"
proof -
  let ?P = "map plannedItem items"
  have d: "distinct (batch_ids ?P)" and
    c: "\<forall>item \<in> set ?P. distinct (pb_dependsOn item) \<and> set (pb_dependsOn item) \<subseteq> set (batch_ids ?P)"
    using assms unfolding valid_batch_def by auto
  show "kahn_inv ?P ix (initialReady ix (snd (buildEdges ?P))) (snd (buildEdges ?P)) []"
    by (rule initial_inv [OF d c])
  show "graph_ok ?P (fst (buildEdges ?P))"
    using d buildEdges_spec(1,2) [OF d c] assms by (simp add: graph_ok_def valid_batch_def)
qed

lemma planProposalBatch_valid:
  assumes "valid_batch items"
  obtains res g where "kahn_inv (map plannedItem items) (index_of items) [] g res"
    and "planProposalBatch items =
      (if length res \<noteq> length items then Inl DependencyCycleDetected else Inr res)"
    and "kahnLoop (map (\<lambda>i. (pb_proposalId i, i)) (map plannedItem items)) (index_of items)
      (fst (buildEdges (map plannedItem items)))
      (initialReady (index_of items) (snd (buildEdges (map plannedItem items))))
      (snd (buildEdges (map plannedItem items))) [] = Inr res"
proof -
  let ?P = "map plannedItem items"
  have snds: "map snd (map (\<lambda>i. (pb_proposalId i, i)) ?P) = ?P" by (simp add: comp_def)
  from kahnLoop_result [OF valid_batch_graph(2,1) [OF assms] refl, of "index_of items"]
  obtain res g where r: "kahnLoop (map (\<lambda>i. (pb_proposalId i, i)) ?P) (index_of items) (fst (buildEdges ?P))
      (initialReady (index_of items) (snd (buildEdges ?P))) (snd (buildEdges ?P)) [] = Inr res"
    "kahn_inv ?P (index_of items) [] g res" by blast
  note checks = valid_batch_checks [THEN iffD1, OF assms]
  have "planProposalBatch items =
      (if length res \<noteq> length items then Inl DependencyCycleDetected else Inr res)"
    unfolding planProposalBatch_def using checks r(1)
    by (simp only: snds guard_simps res_bind_simps prod.case_eq_if fst_conv snd_conv simp_thms)
  with r show thesis by (intro that)
qed

lemma collectItem_error: "collectItem acc entry = Inl e \<Longrightarrow> e \<noteq> DependencyCycleDetected"
  by (auto simp: collectItem_def validateBatchItem_def result_simps split: prod.splits)

lemma checkDependencies_error: "checkDependencies byId u item = Inl e \<Longrightarrow> e \<noteq> DependencyCycleDetected"
  by (auto simp: checkDependencies_def checkDependency_def result_simps dest!: for_each_Inl)

lemma planProposalBatch_invalid:
  assumes "\<not> valid_batch items"
  shows "\<exists>e. planProposalBatch items = Inl e \<and> e \<noteq> DependencyCycleDetected"
proof (cases "items = []")
  case True
  then show ?thesis by (simp add: planProposalBatch_def)
next
  case False
  let ?P = "map plannedItem items"
  have snds: "map snd (map (\<lambda>i. (pb_proposalId i, i)) ?P) = ?P" by (simp add: comp_def)
  show ?thesis
  proof (cases "for_each collectItem ([], []) (enumerate 0 items)")
    case (Inl e)
    have "e \<noteq> DependencyCycleDetected" using for_each_Inl [OF Inl] collectItem_error by blast
    with False Inl show ?thesis by (simp add: planProposalBatch_def)
  next
    case (Inr r)
    then have r: "r = (map (\<lambda>i. (pb_proposalId i, i)) ?P, index_of items)" by (simp add: collect_all)
    obtain e where e: "for_each (checkDependencies (map (\<lambda>i. (pb_proposalId i, i)) ?P)) () ?P = Inl e"
      using assms Inr r False unfolding valid_batch_checks
      by (cases "for_each (checkDependencies (map (\<lambda>i. (pb_proposalId i, i)) ?P)) () ?P") auto
    then have "planProposalBatch items = Inl e"
      unfolding planProposalBatch_def using Inr r False
      by (simp only: snds guard_simps res_bind_simps prod.case simp_thms)
    with for_each_Inl [OF e] checkDependencies_error show ?thesis by blast
  qed
qed

text \<open>A finished run has ordered every item exactly when the dependencies have no cycle.\<close>

lemma length_takeWhile_mem: "k \<in> set xs \<Longrightarrow> length (takeWhile (\<lambda>q. q \<noteq> k) xs) < length xs"
  by (induction xs) auto

lemma takeWhile_fresh: "k \<notin> set us \<Longrightarrow> takeWhile (\<lambda>q. q \<noteq> k) (us @ k # vs) = us"
  by (induction us) auto

lemma topological_acyclic:
  assumes "topological items" "distinct (batch_ids items)"
  shows "acyclic {(d, p). depends items d p}"
proof -
  let ?pos = "\<lambda>k. length (takeWhile (\<lambda>q. q \<noteq> k) (batch_ids items))"
  have "?pos d < ?pos p" if "depends items d p" for d p
  proof -
    from that obtain item where item: "item \<in> set items" "pb_proposalId item = p" "d \<in> set (pb_dependsOn item)"
      by (auto simp: depends_def)
    then obtain us vs where split: "items = us @ item # vs" by (auto dest: split_list)
    have "d \<in> set (batch_ids us)" using assms(1) split item(3) unfolding topological_def by blast
    moreover have "p \<notin> set (batch_ids us)" using assms(2) split item(2) by (auto simp: batch_ids_def)
    moreover have "batch_ids items = batch_ids us @ p # batch_ids vs"
      using split item(2) by (simp add: batch_ids_def)
    ultimately have "?pos d < length (batch_ids us)" "length (batch_ids us) = ?pos p"
      using length_takeWhile_mem [of d "batch_ids us"] by (auto simp: takeWhile_append1 takeWhile_fresh)
    then show ?thesis by simp
  qed
  then have "{(d, p). depends items d p} \<subseteq> measure ?pos" by auto
  then show ?thesis by (meson wf_acyclic wf_measure acyclic_subset)
qed

lemma finished_complete:
  assumes inv: "kahn_inv items ix [] g res" and d: "distinct (batch_ids items)"
    and closed: "\<forall>item \<in> set items. set (pb_dependsOn item) \<subseteq> set (batch_ids items)"
    and acyc: "acyclic {(d, p). depends items d p}"
  shows "set res = set items"
proof -
  have res: "set res \<subseteq> set items"
    and mem: "\<And>i. i \<in> set items \<Longrightarrow> pb_proposalId i \<in> set (batch_ids res) \<longleftrightarrow>
      set (pb_dependsOn i) \<subseteq> set (batch_ids res)"
    using inv by (auto simp: kahn_inv_def)
  have "{(d, p). depends items d p} \<subseteq> set (batch_ids items) \<times> set (batch_ids items)"
    using closed by (auto simp: depends_def batch_ids_def)
  then have "finite {(d, p). depends items d p}" by (rule finite_subset) simp
  with acyc have wf: "wf {(d, p). depends items d p}" by (simp add: finite_acyclic_wf)
  have "k \<in> set (batch_ids items) \<longrightarrow> k \<in> set (batch_ids res)" for k
  proof (induction k rule: wf_induct_rule [OF wf])
    case (1 k)
    show ?case
    proof
      assume "k \<in> set (batch_ids items)"
      then obtain i where i: "i \<in> set items" "pb_proposalId i = k" by (auto simp: batch_ids_def)
      have "set (pb_dependsOn i) \<subseteq> set (batch_ids res)"
        using "1.IH" i closed by (auto simp: depends_def)
      with mem [OF i(1)] i(2) show "k \<in> set (batch_ids res)" by blast
    qed
  qed
  then have all: "pb_proposalId i \<in> set (batch_ids res)" if "i \<in> set items" for i
    using that by (simp add: batch_ids_def)
  have "i \<in> set res" if i: "i \<in> set items" for i
  proof -
    from all [OF i] obtain j where j: "j \<in> set res" "pb_proposalId j = pb_proposalId i"
      by (auto simp: batch_ids_def)
    moreover have "inj_on pb_proposalId (set items)" using d by (simp add: batch_ids_def distinct_map)
    ultimately show ?thesis using res i by (metis inj_onD subsetD)
  qed
  with res show ?thesis by blast
qed

text \<open>If the request is already in topological order, the loop takes its items one after the other.\<close>

lemma position_nth:
  "distinct (map bi_proposalId items) \<Longrightarrow> j < length items \<Longrightarrow>
   originalPosition (index_of items) (bi_proposalId (items ! j)) = j"
  using index_fold [of items j 0 "[]"] by (simp add: originalPosition_def index_of_def)

lemma kahn_next:
  assumes inv: "kahn_inv (map plannedItem items) (index_of items) ready g (take n (map plannedItem items))"
    and d: "distinct (map bi_proposalId items)" and topo: "topological (map plannedItem items)"
    and n: "n < length items"
  shows "\<exists>rest. ready = bi_proposalId (items ! n) # rest"
proof -
  let ?P = "map plannedItem items" and ?k = "bi_proposalId (items ! n)"
  have taken: "set (batch_ids (take n ?P)) = {bi_proposalId (items ! j) |j. j < n}"
  proof -
    have "set (batch_ids (take n ?P)) = bi_proposalId ` set (take n items)"
      by (simp add: batch_ids_def take_map image_image)
    also have "set (take n items) = (\<lambda>j. items ! j) ` {j. j < n}"
      using n by (subst nth_image [symmetric]) (auto simp: atLeast0LessThan lessThan_def)
    finally show ?thesis by auto
  qed
  have inj: "bi_proposalId (items ! j) = bi_proposalId (items ! l) \<longleftrightarrow> j = l"
    if "j < length items" "l < length items" for j l
    using nth_eq_iff_index_eq [OF d, of j l] that by simp
  have "?P = take n ?P @ plannedItem (items ! n) # drop (Suc n) ?P"
    using n by (metis id_take_nth_drop length_map nth_map)
  then have "set (pb_dependsOn (plannedItem (items ! n))) \<subseteq> set (batch_ids (take n ?P))"
    using topo unfolding topological_def by blast
  moreover have "?k \<notin> set (batch_ids (take n ?P))" unfolding taken using inj n by auto
  ultimately have k: "?k \<in> set ready"
    using inv n by (fastforce simp: kahn_inv_def)
  then obtain r rest where r: "ready = r # rest" by (cases ready) auto
  obtain j where j: "j < length items" "r = bi_proposalId (items ! j)"
    using inv by (auto simp: kahn_inv_def r in_set_conv_nth)
  have "originalPosition (index_of items) r \<le> originalPosition (index_of items) ?k"
    using inv k by (auto simp: kahn_inv_def r)
  then have "j \<le> n" using d j n by (simp add: position_nth)
  moreover have "\<not> j < n"
    using inv j(2) by (auto simp: kahn_inv_def r taken)
  ultimately show ?thesis using r j(2) by simp
qed

lemma kahnLoop_in_order:
  assumes "kahn_inv items ix ready g acc" "graph_ok items out"
    and "byId = map (\<lambda>i. (pb_proposalId i, i)) items"
    and "items = map plannedItem ins" "ix = index_of ins" "topological items"
    and "acc = take n items" "n \<le> length items"
  shows "kahnLoop byId ix out ready g acc = Inr items"
  using assms
proof (induction byId ix out ready g acc arbitrary: n rule: kahnLoop.induct)
  case (1 byId ix out g acc)
  have "\<not> n < length ins"
  proof
    assume "n < length ins"
    with kahn_next [of ins "[]" g n] "1.prems" show False by (simp add: graph_ok_def)
  qed
  with "1.prems" show ?case by simp
next
  case (2 byId ix out p ready g acc)
  have lt: "n < length items"
  proof (rule ccontr)
    assume "\<not> n < length items"
    then have "acc = items" using "2.prems" by simp
    moreover have "p \<in> set (batch_ids items)" "p \<notin> set (batch_ids acc)" using "2.prems" by (auto simp: kahn_inv_def)
    ultimately show False by simp
  qed
  have p: "p = pb_proposalId (items ! n)"
    using kahn_next [of ins "p # ready" g n] "2.prems" lt by (auto simp: graph_ok_def)
  have item: "items ! n \<in> set items" using lt by simp
  have look: "map_of byId p = Some (items ! n)"
    using "2.prems" item map_of_by_id_Some [of items "items ! n"] by (simp add: graph_ok_def p)
  have acc: "acc @ [items ! n] = take (Suc n) items" using "2.prems" lt by (simp add: take_Suc_conv_app_nth)
  have "kahn_inv items ix (snd (releaseDependents ix out p (g, ready)))
      (fst (releaseDependents ix out p (g, ready))) (acc @ [items ! n])"
    using kahn_step "2.prems" item p by simp
  with "2.IH" [OF look, of "Suc n"] "2.prems" lt acc show ?case
    unfolding kahnLoop.simps look by simp
qed

lemma planned_order:
  assumes "planProposalBatch items = Inr res"
  shows "set res = set (map plannedItem items) \<and> length res = length items \<and>
    distinct (batch_ids res) \<and> topological res"
proof -
  have v: "valid_batch items" using assms planProposalBatch_invalid by fastforce
  from planProposalBatch_valid [OF v] obtain g where inv: "kahn_inv (map plannedItem items) (index_of items) [] g res"
    and len: "length res = length items"
    using assms by (metis Inl_Inr_False Inr_inject)
  have d: "distinct (batch_ids res)" "set res \<subseteq> set (map plannedItem items)" "topological res"
    using inv by (auto simp: kahn_inv_def)
  then have "card (set res) = card (set (map plannedItem items))"
    using len v by (metis batch_ids_def batch_ids_planned distinct_card distinct_map length_map valid_batch_def)
  then show ?thesis using d len by (meson card_subset_eq List.finite_set)
qed

section \<open>Properties\<close>

text \<open>
  C21. A batch that is planned is planned correctly: the result lists every requested proposal
  exactly once, with its dependency list, and every proposal comes after all the proposals it
  depends on.
\<close>

theorem batch_plan_sound:
  assumes "planProposalBatch items = Inr res"
  shows "set res = set (map plannedItem items) \<and> length res = length items \<and>
    distinct (batch_ids res) \<and> topological res"
  using assms by (rule planned_order)

definition demo_item :: "string \<Rightarrow> string list \<Rightarrow> ApplyProposalBatchItem" where
  "demo_item k ds = \<lparr>bi_proposalId = k, bi_dependsOn = Some ds, bi_actorId = None, bi_metadata = None\<rparr>"

lemma demo_batch_plan:
  "planProposalBatch [demo_item ''a'' [''c''], demo_item ''b'' [''a''], demo_item ''c'' []] =
     Inr (map plannedItem [demo_item ''c'' [], demo_item ''a'' [''c''], demo_item ''b'' [''a'']])"
  by code_simp

theorem batch_plan_sound_witness:
  "topological (map plannedItem [demo_item ''c'' [], demo_item ''a'' [''c''], demo_item ''b'' [''a'']])"
  using batch_plan_sound [OF demo_batch_plan] by blast

text \<open>
  C24. The planner is complete: a batch that passes validation is planned if and only if its
  dependency relation has no cycle; with a cycle it fails with the cycle error and no other.
  A batch that does not pass validation never gets as far as the cycle error.
\<close>

theorem batch_plan_complete:
  "((\<exists>res. planProposalBatch items = Inr res) \<longleftrightarrow>
      valid_batch items \<and> acyclic {(d, p). depends (map plannedItem items) d p}) \<and>
   (planProposalBatch items = Inl DependencyCycleDetected \<longleftrightarrow>
      valid_batch items \<and> \<not> acyclic {(d, p). depends (map plannedItem items) d p})"
proof (cases "valid_batch items")
  case False
  then show ?thesis using planProposalBatch_invalid [OF False] by auto
next
  case True
  let ?P = "map plannedItem items"
  obtain res g where inv: "kahn_inv ?P (index_of items) [] g res"
    and res: "planProposalBatch items = (if length res \<noteq> length items then Inl DependencyCycleDetected else Inr res)"
    using planProposalBatch_valid [OF True] .
  have dP: "distinct (batch_ids ?P)" "\<forall>item \<in> set ?P. set (pb_dependsOn item) \<subseteq> set (batch_ids ?P)"
    using True by (auto simp: valid_batch_def)
  have d: "distinct (batch_ids res)" "set res \<subseteq> set ?P" "topological res"
    using inv by (auto simp: kahn_inv_def)
  have "distinct res" "distinct ?P" using d(1) dP(1) unfolding batch_ids_def by (metis distinct_map)+
  then have len: "length res = length items \<longleftrightarrow> set res = set ?P"
    using d(2) by (metis List.finite_set card_subset_eq distinct_card length_map)
  have "acyclic {(d, p). depends ?P d p}" if "set res = set ?P"
    using topological_acyclic [OF d(3,1)] that by (simp add: depends_def)
  with finished_complete [OF inv dP] len res True show ?thesis by auto
qed

text \<open>
  The planner is stable: a valid batch that is already in dependency order keeps the order
  of the request.
\<close>

theorem batch_plan_stable:
  assumes "valid_batch items" and "topological (map plannedItem items)"
  shows "planProposalBatch items = Inr (map plannedItem items)"
proof -
  let ?P = "map plannedItem items" and ?ix = "index_of items"
  from planProposalBatch_valid [OF assms(1)] obtain res where
    r: "planProposalBatch items = (if length res \<noteq> length items then Inl DependencyCycleDetected else Inr res)"
    "kahnLoop (map (\<lambda>i. (pb_proposalId i, i)) ?P) ?ix (fst (buildEdges ?P))
      (initialReady ?ix (snd (buildEdges ?P))) (snd (buildEdges ?P)) [] = Inr res" by blast
  have "kahnLoop (map (\<lambda>i. (pb_proposalId i, i)) ?P) ?ix (fst (buildEdges ?P))
      (initialReady ?ix (snd (buildEdges ?P))) (snd (buildEdges ?P)) [] = Inr ?P"
    by (rule kahnLoop_in_order [OF valid_batch_graph(2,1) [OF assms(1)] refl refl refl assms(2), of 0]) simp_all
  with r show ?thesis by simp
qed

theorem batch_plan_stable_witness:
  "planProposalBatch [demo_item ''c'' [], demo_item ''a'' [''c''], demo_item ''b'' []] =
     Inr (map plannedItem [demo_item ''c'' [], demo_item ''a'' [''c''], demo_item ''b'' []])"
proof (rule batch_plan_stable)
  show "valid_batch [demo_item ''c'' [], demo_item ''a'' [''c''], demo_item ''b'' []]"
    by (simp add: valid_batch_def demo_item_def plannedItem_def)
  have "topological ((([] @ [plannedItem (demo_item ''c'' [])]) @ [plannedItem (demo_item ''a'' [''c''])]) @
      [plannedItem (demo_item ''b'' [])])"
    unfolding topological_snoc by (simp add: topological_def batch_ids_def demo_item_def plannedItem_def)
  then show "topological (map plannedItem [demo_item ''c'' [], demo_item ''a'' [''c''], demo_item ''b'' []])"
    by simp
qed

end
