(* ===== verification/Workspace_Types.thy ===== *)
theory Workspace_Types
  imports Changesets
begin

text \<open>
  The records that the workspace runtime and its durable store exchange
  (packages/protocol/src/workspace.ts) and the errors that the runtime throws
  (packages/workspace/src/transaction/errors.ts). Times are integers (milliseconds), as are
  the ordinals of files. The change, changeset, receipt and conflict shapes of the protocol are
  those of theory Changesets.
\<close>

section \<open>States\<close>

datatype WorkspaceChangeOperationKind = OK_apply | OK_undo

datatype WorkspaceChangeProposalState =
    PS_open | PS_approved | PS_rejected | PS_withdrawn | PS_apply_requested | PS_applying
  | PS_applied | PS_apply_failed | PS_recovery_required

datatype WorkspaceChangeProposalApplyAttemptState = AS_active | AS_applied | AS_failed | AS_recovery_required

datatype WorkspaceChangeProposalApplyClaimStatus =
    AC_claimed | AC_busy | AC_recovery_required | AC_not_ready | AC_already_terminal

datatype WorkspaceChangeSetState =
    CS_submitted | CS_applied | CS_already_applied | CS_conflicted | CS_undone | CS_undo_conflicted

datatype WorkspaceChangeTransactionSourceKind = SK_proposal | SK_tool | SK_host

datatype WorkspaceChangeTransactionState =
    TS_planning | TS_prepared | TS_committing | TS_applied | TS_rolled_back | TS_recovery_required

datatype WorkspaceChangeTransactionFileState = FS_pending | FS_prepared | FS_committed

datatype WorkspaceChangeTransactionAttemptKind = AK_execution | AK_recovery

datatype WorkspaceChangeTransactionAttemptState = TA_active | TA_completed | TA_failed

datatype WorkspaceChangeTransactionClaimStatus = TC_claimed | TC_busy | TC_recovery_required | TC_already_terminal

datatype WorkspaceChangeTransactionRecoveryDecision = RD_rollback_noop | RD_finish_forward | RD_finalize | RD_attention

section \<open>Records\<close>

record WorkspaceChangeSetRecord =
  csr_id :: string
  csr_workspaceId :: string
  csr_principalId :: string
  csr_title :: "string option"
  csr_baseRevision :: "string option"
  csr_changeSet :: ChangeSet
  csr_currentState :: WorkspaceChangeSetState
  csr_createdAt :: int
  csr_updatedAt :: int

record WorkspaceChangeOperationRecord =
  op_id :: string
  op_changeSetId :: string
  op_operation :: WorkspaceChangeOperationKind
  op_status :: ChangeApplyStatus
  op_receipt :: ChangeSetReceipt
  op_createdAt :: int

record WorkspaceChangeProposalRecord =
  pr_id :: string
  pr_workspaceId :: string
  pr_changeSetId :: string
  pr_principalId :: string
  pr_title :: "string option"
  pr_summary :: "string option"
  pr_state :: WorkspaceChangeProposalState
  pr_metadata :: "json option"
  pr_createdAt :: int
  pr_updatedAt :: int
  pr_closedAt :: "int option"

record WorkspaceChangeProposalApplyAttemptRecord =
  aa_id :: string
  aa_proposalId :: string
  aa_ownerId :: string
  aa_state :: WorkspaceChangeProposalApplyAttemptState
  aa_leaseExpiresAt :: int
  aa_workspaceOperationId :: "string option"
  aa_metadata :: "json option"
  aa_failure :: "json option"
  aa_claimedAt :: int
  aa_updatedAt :: int
  aa_finishedAt :: "int option"

record WorkspaceChangeProposalApplyClaimResult =
  acr_status :: WorkspaceChangeProposalApplyClaimStatus
  acr_proposal :: WorkspaceChangeProposalRecord
  acr_attempt :: "WorkspaceChangeProposalApplyAttemptRecord option"

record WorkspaceChangeTransactionRecord =
  tr_id :: string
  tr_workspaceId :: string
  tr_changeSetId :: string
  tr_operation :: WorkspaceChangeOperationKind
  tr_undoSourceOperationId :: "string option"
  tr_sourceKind :: WorkspaceChangeTransactionSourceKind
  tr_sourceId :: string
  tr_idempotencyKey :: string
  tr_rootIdentitySha256 :: string
  tr_proposalApplyAttemptId :: "string option"
  tr_state :: WorkspaceChangeTransactionState
  tr_planDigest :: "string option"
  tr_recoveryDecision :: "WorkspaceChangeTransactionRecoveryDecision option"
  tr_workspaceOperationId :: "string option"
  tr_failure :: "json option"
  tr_createdAt :: int
  tr_updatedAt :: int
  tr_finishedAt :: "int option"

record WorkspaceChangeTransactionFileRecord =
  tf_transactionId :: string
  tf_ordinal :: int
  tf_path :: string
  tf_beforeText :: "string option"
  tf_beforeSha256 :: "string option"
  tf_afterText :: "string option"
  tf_afterSha256 :: "string option"
  tf_state :: WorkspaceChangeTransactionFileState
  tf_updatedAt :: int

record WorkspaceChangeTransactionAttemptRecord =
  ta_id :: string
  ta_transactionId :: string
  ta_ownerId :: string
  ta_kind :: WorkspaceChangeTransactionAttemptKind
  ta_state :: WorkspaceChangeTransactionAttemptState
  ta_leaseExpiresAt :: int
  ta_failure :: "json option"
  ta_startedAt :: int
  ta_updatedAt :: int
  ta_finishedAt :: "int option"

record WorkspaceChangeTransactionSnapshot =
  sn_transaction :: WorkspaceChangeTransactionRecord
  sn_files :: "WorkspaceChangeTransactionFileRecord list"
  sn_activeAttempt :: "WorkspaceChangeTransactionAttemptRecord option"

record WorkspaceChangeTransactionClaimResult =
  tcr_status :: WorkspaceChangeTransactionClaimStatus
  tcr_snapshot :: WorkspaceChangeTransactionSnapshot

record WorkspaceChangeTransactionReconciliation =
  rec_decision :: WorkspaceChangeTransactionRecoveryDecision
  rec_snapshot :: WorkspaceChangeTransactionSnapshot

record WorkspaceChangeTransactionFinalization =
  fin_snapshot :: WorkspaceChangeTransactionSnapshot
  fin_operation :: "WorkspaceChangeOperationRecord option"
  fin_proposal :: "WorkspaceChangeProposalRecord option"
  fin_proposalAttempt :: "WorkspaceChangeProposalApplyAttemptRecord option"

section \<open>Requests\<close>

record PutWorkspaceChangeSetRequest =
  pcs_workspaceId :: string
  pcs_principalId :: string
  pcs_changeSet :: ChangeSet

record ClaimWorkspaceChangeProposalApplyRequest =
  cpa_proposalId :: string
  cpa_attemptId :: string
  cpa_ownerId :: string
  cpa_claimToken :: string
  cpa_leaseMs :: int
  cpa_metadata :: "json option"

record WorkspaceChangeTransactionProposalBinding =
  pbd_proposalId :: string
  pbd_proposalAttemptId :: string
  pbd_proposalClaimToken :: string

record BeginWorkspaceChangeTransactionRequest =
  bt_id :: string
  bt_workspaceId :: string
  bt_changeSetId :: string
  bt_operation :: WorkspaceChangeOperationKind
  bt_undoSourceOperationId :: "string option"
  bt_sourceKind :: WorkspaceChangeTransactionSourceKind
  bt_sourceId :: string
  bt_idempotencyKey :: string
  bt_rootIdentitySha256 :: string
  bt_proposal :: "WorkspaceChangeTransactionProposalBinding option"
  bt_attemptId :: string
  bt_ownerId :: string
  bt_claimToken :: string
  bt_leaseMs :: int

record ClaimWorkspaceChangeTransactionRecoveryRequest =
  ctr_transactionId :: string
  ctr_attemptId :: string
  ctr_ownerId :: string
  ctr_claimToken :: string
  ctr_leaseMs :: int

record WorkspaceChangeTransactionIdentityRequest =
  ti_transactionId :: string
  ti_attemptId :: string
  ti_claimToken :: string

record WorkspaceChangeTransactionFilePlan =
  fp_ordinal :: int
  fp_path :: string
  fp_beforeText :: "string option"
  fp_beforeSha256 :: "string option"
  fp_afterText :: "string option"
  fp_afterSha256 :: "string option"

datatype observed = OB_before | OB_after | OB_other

record WorkspaceChangeTransactionFileObservation =
  ob_ordinal :: int
  ob_current :: observed

text \<open>The outcome of a finalisation request with the fields that its shape allows.\<close>

datatype FinalizeOutcome =
    FO_applied string ChangeSetReceipt
  | FO_conflicted string ChangeSetReceipt
  | FO_rolled_back
  | FO_recovery_required json

record ListWorkspaceChangeTransactionsRequest =
  lt_workspaceId :: "string option"
  lt_state :: "WorkspaceChangeTransactionState option"
  lt_limit :: "int option"

section \<open>Thrown values\<close>

text \<open>
  \<open>ErrorObj name message\<close> is an instance of \<open>Error\<close>, \<open>CodedError name code message\<close> one of a class
  with a field \<open>code\<close>; \<open>NonError s\<close> is any other thrown value,
  with its \<open>String(value)\<close>.
\<close>

datatype thrown =
    ErrorObj string string
  | CodedError string string string
  | AggregateError "thrown list" string
  | RecoveryRequiredError string thrown "WorkspaceChangeTransactionFinalization option"
  | CleanupRequiredError string thrown
  | NonError string

definition plainError :: "string \<Rightarrow> thrown" where
  "plainError message = ErrorObj ''Error'' message"

fun error_name :: "thrown \<Rightarrow> string" where
  "error_name (ErrorObj name message) = name"
| "error_name (CodedError name code message) = name"
| "error_name (AggregateError errors message) = ''AggregateError''"
| "error_name (RecoveryRequiredError tx cause fin) = ''WorkspaceTransactionRecoveryRequiredError''"
| "error_name (CleanupRequiredError tx cause) = ''WorkspaceTransactionCleanupRequiredError''"
| "error_name (NonError s) = []"

fun error_message :: "thrown \<Rightarrow> string" where
  "error_message (ErrorObj name message) = message"
| "error_message (CodedError name code message) = message"
| "error_message (AggregateError errors message) = message"
| "error_message (RecoveryRequiredError tx cause fin) = ''workspace transaction requires recovery''"
| "error_message (CleanupRequiredError tx cause) = ''workspace transaction artifact cleanup requires retry''"
| "error_message (NonError s) = s"

fun is_error :: "thrown \<Rightarrow> bool" where
  "is_error (NonError s) = False"
| "is_error _ = True"

end
