(* ===== verification/Transaction_Process.thy ===== *)
theory Transaction_Process
  imports Workspace_Types
begin

text \<open>
  packages/workspace/src/transaction/process-executor.ts: the client of the transaction helper
  process. The helper writes one JSON object per line; the client reassembles the lines from
  the chunks of the process's output and runs commands over them.

  The state of a \<open>WorkspaceTransactionProcess\<close> is the record \<open>helper_process\<close>. What the
  process has still to send is its field \<open>hp_events\<close>; waiting for progress takes the next event.
  \<open>JSON.parse\<close> of a line is the parameter \<open>parse\<close>. Bytes are natural numbers. The diagnostic
  suffix of the error messages (exit code and stderr) and the timeouts are left out.
\<close>

section \<open>State\<close>

datatype WorkspaceTransactionHelperErrorCode =
    HE_spawn_failed | HE_startup_timeout | HE_invalid_protocol | HE_helper_exited
  | HE_write_failed | HE_shutdown_failed

fun helperErrorCodeText :: "WorkspaceTransactionHelperErrorCode \<Rightarrow> string" where
  "helperErrorCodeText HE_spawn_failed = ''spawn_failed''"
| "helperErrorCodeText HE_startup_timeout = ''startup_timeout''"
| "helperErrorCodeText HE_invalid_protocol = ''invalid_protocol''"
| "helperErrorCodeText HE_helper_exited = ''helper_exited''"
| "helperErrorCodeText HE_write_failed = ''write_failed''"
| "helperErrorCodeText HE_shutdown_failed = ''shutdown_failed''"

definition helperError :: "WorkspaceTransactionHelperErrorCode \<Rightarrow> string \<Rightarrow> thrown" where
  "helperError code message = CodedError ''WorkspaceTransactionHelperError'' (helperErrorCodeText code) message"

datatype proc_event =
    EvStdout "nat list"
  | EvStderr "nat list"
  | EvTerminal int
  | EvFailure

type_synonym frame = "(string \<times> json) list"

record helper_process =
  hp_transactionId :: string
  hp_stdout :: "nat list"
  hp_stderr :: "nat list"
  hp_terminal :: "int option"
  hp_pumpFailure :: bool
  hp_closed :: bool
  hp_cleaned :: bool
  hp_commandPending :: bool
  hp_written :: "json list"
  hp_events :: "proc_event list"

definition PROTOCOL :: json where
  "PROTOCOL = JNum 1"

definition MAX_FRAME_BYTES :: nat where
  "MAX_FRAME_BYTES = 50 * 1024 * 1024"

definition MAX_STDERR_BYTES :: nat where
  "MAX_STDERR_BYTES = 8 * 1024"

section \<open>Frames\<close>

definition appendBoundedBuffer :: "nat list \<Rightarrow> nat list \<Rightarrow> nat \<Rightarrow> nat list" where
  "appendBoundedBuffer current chunk limit =
     (if limit \<le> length current then current
      else current @ take (limit - length current) chunk)"

text \<open>One iteration of the loop in \<open>pump\<close>; the stream that ends closes the process too.\<close>

fun pump :: "helper_process \<Rightarrow> helper_process" where
  "pump hp =
     (case hp_events hp of
        [] \<Rightarrow> hp\<lparr>hp_closed := True\<rparr>
      | EvStdout bytes # events \<Rightarrow>
          hp\<lparr>hp_stdout := appendBoundedBuffer (hp_stdout hp) bytes (MAX_FRAME_BYTES + 1), hp_events := events\<rparr>
      | EvStderr bytes # events \<Rightarrow>
          hp\<lparr>hp_stderr := appendBoundedBuffer (hp_stderr hp) bytes MAX_STDERR_BYTES, hp_events := events\<rparr>
      | EvTerminal code # events \<Rightarrow>
          hp\<lparr>hp_terminal := Some code, hp_closed := True, hp_events := events\<rparr>
      | EvFailure # events \<Rightarrow>
          hp\<lparr>hp_pumpFailure := True, hp_closed := True, hp_events := []\<rparr>)"

declare pump.simps [simp del]

text \<open>\<open>takeLine\<close> cuts the buffer at its first newline; \<open>stripCr\<close> drops one trailing carriage return.\<close>

fun takeLine :: "nat list \<Rightarrow> (nat list \<times> nat list) option" where
  "takeLine [] = None"
| "takeLine (b # buf) =
     (if b = 10 then Some ([], buf) else map_option (\<lambda>(line, rest). (b # line, rest)) (takeLine buf))"

definition stripCr :: "nat list \<Rightarrow> nat list" where
  "stripCr line = (if line \<noteq> [] \<and> last line = 13 then butlast line else line)"

text \<open>The work still to be read: it shrinks with every line taken and every event.\<close>

fun event_size :: "proc_event \<Rightarrow> nat" where
  "event_size (EvStdout bytes) = Suc (length bytes)"
| "event_size _ = 1"

definition pending_input :: "helper_process \<Rightarrow> nat" where
  "pending_input hp = length (hp_stdout hp) + sum_list (map event_size (hp_events hp)) +
     (if hp_closed hp then 0 else 1)"

lemma pump_pending: "\<not> hp_closed hp \<Longrightarrow> pending_input (pump hp) < pending_input hp"
  by (auto simp: pump.simps pending_input_def appendBoundedBuffer_def split: list.splits proc_event.splits)

lemma takeLine_Some: "takeLine buf = Some (line, rest) \<longleftrightarrow> buf = line @ 10 # rest \<and> 10 \<notin> set line"
proof (induction buf arbitrary: line)
  case (Cons b buf)
  show ?case
  proof (cases line)
    case Nil
    then show ?thesis by auto
  next
    case (Cons c line')
    then show ?thesis using Cons.IH [of line'] by auto
  qed
qed simp

lemma takeLine_None: "takeLine buf = None \<longleftrightarrow> 10 \<notin> set buf"
  by (induction buf) auto

lemma takeLine_append: "takeLine buf = Some (line, rest) \<Longrightarrow> takeLine (buf @ later) = Some (line, rest @ later)"
  by (simp add: takeLine_Some)

lemma takeLine_shorter: "takeLine buf = Some (line, rest) \<Longrightarrow> length rest < length buf"
  by (simp add: takeLine_Some)

function readFrame ::
  "(nat list \<Rightarrow> json option) \<Rightarrow> helper_process \<Rightarrow> (thrown + frame) \<times> helper_process" where
  "readFrame parse hp =
     (case takeLine (hp_stdout hp) of
        Some (line, rest) \<Rightarrow>
          (case parse (stripCr line) of
             Some (JObj frame) \<Rightarrow> (Inr frame, hp\<lparr>hp_stdout := rest\<rparr>)
           | _ \<Rightarrow> (Inl (helperError HE_invalid_protocol
                 ''workspace transaction helper returned invalid JSON''), hp\<lparr>hp_stdout := rest\<rparr>))
      | None \<Rightarrow>
          if MAX_FRAME_BYTES < length (hp_stdout hp) then
            (Inl (helperError HE_invalid_protocol
               ''workspace transaction helper frame exceeded its limit''), hp)
          else if hp_pumpFailure hp then
            (Inl (helperError HE_helper_exited
               ''workspace transaction helper failed while streaming output''), hp)
          else if hp_closed hp then
            (Inl (helperError HE_helper_exited
               ''workspace transaction helper exited before completing its command''), hp)
          else readFrame parse (pump hp))"
  by pat_completeness auto
termination
  by (relation "measure (\<lambda>(_, hp). pending_input hp)") (auto simp: pump_pending)

declare readFrame.simps [simp del]

section \<open>Validation of frames\<close>

definition isSafeInteger :: "json \<Rightarrow> bool" where
  "isSafeInteger v =
     (case v of JNum r \<Rightarrow> snd (quotient_of r) = 1 \<and> \<bar>r\<bar> \<le> 9007199254740991 | _ \<Rightarrow> False)"

definition json_int :: "json \<Rightarrow> int" where
  "json_int v = (case v of JNum r \<Rightarrow> \<lfloor>r\<rfloor> | _ \<Rightarrow> 0)"

definition safeOrdinal :: "json option \<Rightarrow> bool" where
  "safeOrdinal v = (case v of None \<Rightarrow> False | Some n \<Rightarrow> isSafeInteger n \<and> \<not> json_int n < 0)"

definition parseProgress :: "frame \<Rightarrow> string \<Rightarrow> string \<Rightarrow> thrown + int" where
  "parseProgress frame transactionId expectedState =
     (if map_of frame ''protocol'' \<noteq> Some PROTOCOL \<or>
         map_of frame ''kind'' \<noteq> Some (JStr ''workspace_transaction_file'') \<or>
         map_of frame ''transaction_id'' \<noteq> Some (JStr transactionId) \<or>
         \<not> safeOrdinal (map_of frame ''ordinal'') \<or>
         map_of frame ''state'' \<noteq> Some (JStr expectedState) \<or>
         length frame \<noteq> 5
      then Inl (helperError HE_invalid_protocol
        ''workspace transaction helper returned an invalid progress frame'')
      else Inr (json_int (the (map_of frame ''ordinal''))))"

text \<open>
  \<open>['before', 'after', 'other'].includes(String(v))\<close>. \<open>String\<close> of an array of one element is that
  of the element, so a nested singleton array passes too.
\<close>

fun stringifies :: "json \<Rightarrow> string list \<Rightarrow> bool" where
  "stringifies (JStr s) names = (s \<in> set names)"
| "stringifies (JArr [v]) names = stringifies v names"
| "stringifies _ names = False"

definition parseObservation :: "json \<Rightarrow> nat \<Rightarrow> thrown + int \<times> json" where
  "parseObservation val index =
     (case val of
        JObj observation \<Rightarrow>
          if \<not> safeOrdinal (map_of observation ''ordinal'') \<or>
             (case map_of observation ''current'' of None \<Rightarrow> True
              | Some c \<Rightarrow> \<not> stringifies c [''before'', ''after'', ''other'']) \<or>
             (case map_of observation ''sha256'' of Some JNull \<Rightarrow> False | Some (JStr _) \<Rightarrow> False | _ \<Rightarrow> True) \<or>
             length observation \<noteq> 3
          then Inl (helperError HE_invalid_protocol ''workspace transaction observation is invalid'')
          else Inr (json_int (the (map_of observation ''ordinal'')), the (map_of observation ''current''))
      | _ \<Rightarrow> Inl (helperError HE_invalid_protocol ''workspace transaction observation is invalid''))"

definition assertExactFrame :: "frame \<Rightarrow> frame \<Rightarrow> thrown + unit" where
  "assertExactFrame actual expected =
     (if length actual \<noteq> length expected \<or>
         (\<exists>(k, v) \<in> set expected. map_of actual k \<noteq> Some v)
      then Inl (helperError HE_invalid_protocol
        ''workspace transaction helper returned an unexpected frame'')
      else Inr ())"

definition optText :: "string option \<Rightarrow> json" where
  "optText t = (case t of None \<Rightarrow> JNull | Some s \<Rightarrow> JStr s)"

definition toWireFile :: "WorkspaceChangeTransactionFilePlan \<Rightarrow> json" where
  "toWireFile file = JObj
     [(''ordinal'', JNum (of_int (fp_ordinal file))), (''path'', JStr (fp_path file)),
      (''before_sha256'', optText (fp_beforeSha256 file)), (''after_text'', optText (fp_afterText file)),
      (''after_sha256'', optText (fp_afterSha256 file))]"

definition toWireFiles :: "WorkspaceChangeTransactionFilePlan list \<Rightarrow> json" where
  "toWireFiles files = JArr (map toWireFile files)"

section \<open>Commands\<close>

text \<open>
  A command runs on the world of its progress callback paired with the process. \<open>write_ok\<close> says
  whether the process takes what is written to its input.
\<close>

definition withCommand ::
  "('w \<times> helper_process, thrown, 'a) eff \<Rightarrow> ('w \<times> helper_process, thrown, 'a) eff" where
  "withCommand operation =
     eff_locals (\<lambda>hp.
     if hp_commandPending hp then
       eff_throw (plainError ''workspace transaction helper already has a pending command'')
     else if hp_cleaned hp \<or> hp_closed hp then
       eff_throw (helperError HE_helper_exited ''workspace transaction helper is no longer available'')
     else
       eff_bind (eff_set (hp_commandPending_update (\<lambda>_. True))) (\<lambda>_.
       eff_finally operation (eff_set (hp_commandPending_update (\<lambda>_. False)))))"

definition writeCommand :: "bool \<Rightarrow> json \<Rightarrow> ('w \<times> helper_process, thrown, unit) eff" where
  "writeCommand write_ok command =
     (if write_ok then eff_set (\<lambda>hp. hp\<lparr>hp_written := hp_written hp @ [command]\<rparr>)
      else eff_throw (helperError HE_write_failed ''workspace transaction helper command write failed''))"

definition liftProcess ::
  "(helper_process \<Rightarrow> (thrown + 'a) \<times> helper_process) \<Rightarrow> ('w \<times> helper_process, thrown, 'a) eff" where
  "liftProcess m st = (case m (snd st) of (r, hp) \<Rightarrow> (r, (fst st, hp)))"

definition isDoneFrame :: "frame \<Rightarrow> string \<Rightarrow> string \<Rightarrow> bool" where
  "isDoneFrame frame doneKind transactionId \<longleftrightarrow>
     map_of frame ''protocol'' = Some PROTOCOL \<and> map_of frame ''kind'' = Some (JStr doneKind) \<and>
     map_of frame ''transaction_id'' = Some (JStr transactionId) \<and> length frame = 3"

lemma readFrame_pending:
  "readFrame parse hp = (Inr frame, hp') \<Longrightarrow> pending_input hp' < pending_input hp"
proof (induction parse hp rule: readFrame.induct)
  case (1 parse hp)
  show ?case
  proof (cases "takeLine (hp_stdout hp)")
    case (Some lr)
    then show ?thesis
      using "1.prems" takeLine_shorter [of "hp_stdout hp" "fst lr" "snd lr"]
      by (subst (asm) readFrame.simps)
         (auto simp: pending_input_def split: option.splits json.splits prod.splits)
  next
    case None
    then have conds: "\<not> MAX_FRAME_BYTES < length (hp_stdout hp)" "\<not> hp_pumpFailure hp" "\<not> hp_closed hp"
      and rec: "readFrame parse (pump hp) = (Inr frame, hp')"
      using "1.prems" by (subst (asm) readFrame.simps; auto split: if_splits)+
    from "1.IH" [OF None conds rec] pump_pending [OF conds(3)] show ?thesis by simp
  qed
qed

definition acknowledge ::
  "(int \<Rightarrow> ('w, thrown, unit) eff) \<Rightarrow> thrown option \<Rightarrow> int \<Rightarrow> 'w \<Rightarrow> thrown option \<times> 'w" where
  "acknowledge onProgress acknowledgmentFailure progress w =
     (case acknowledgmentFailure of
        Some e \<Rightarrow> (Some e, w)
      | None \<Rightarrow> (case onProgress progress w of (Inl e, w') \<Rightarrow> (Some e, w') | (Inr _, w') \<Rightarrow> (None, w')))"

function commandLoop ::
  "(nat list \<Rightarrow> json option) \<Rightarrow> string \<Rightarrow> string \<Rightarrow> string \<Rightarrow> (int \<Rightarrow> ('w, thrown, unit) eff) \<Rightarrow>
   thrown option \<Rightarrow> 'w \<Rightarrow> helper_process \<Rightarrow> (thrown + unit) \<times> ('w \<times> helper_process)" where
  "commandLoop parse transactionId doneKind state onProgress acknowledgmentFailure w hp =
     (case readFrame parse hp of
        (Inl e, hp') \<Rightarrow> (Inl e, (w, hp'))
      | (Inr frame, hp') \<Rightarrow>
          if isDoneFrame frame doneKind transactionId then
            ((case acknowledgmentFailure of Some e \<Rightarrow> Inl e | None \<Rightarrow> Inr ()), (w, hp'))
          else
            (case parseProgress frame transactionId state of
               Inl e \<Rightarrow> (Inl e, (w, hp'))
             | Inr progress \<Rightarrow>
                 commandLoop parse transactionId doneKind state onProgress
                   (fst (acknowledge onProgress acknowledgmentFailure progress w))
                   (snd (acknowledge onProgress acknowledgmentFailure progress w)) hp'))"
  by pat_completeness auto
termination
  by (relation "measure (\<lambda>(_, _, _, _, _, _, _, hp). pending_input hp)") (auto intro: readFrame_pending [OF sym])

declare commandLoop.simps [simp del]

definition runCommand ::
  "(nat list \<Rightarrow> json option) \<Rightarrow> bool \<Rightarrow> json \<Rightarrow> string \<Rightarrow> string \<Rightarrow> (int \<Rightarrow> ('w, thrown, unit) eff) \<Rightarrow>
   ('w \<times> helper_process, thrown, unit) eff" where
  "runCommand parse write_ok command doneKind state onProgress =
     withCommand (
     eff_bind (writeCommand write_ok command) (\<lambda>_ (w, hp).
     commandLoop parse (hp_transactionId hp) doneKind state onProgress None w hp))"

definition command ::
  "string \<Rightarrow> string \<Rightarrow> WorkspaceChangeTransactionFilePlan list \<Rightarrow> (string \<times> json) list \<Rightarrow> json" where
  "command name transactionId files extra = JObj
     ([(''protocol'', PROTOCOL), (''command'', JStr name), (''transaction_id'', JStr transactionId),
       (''files'', toWireFiles files)] @ extra)"

definition processPrepare ::
  "(nat list \<Rightarrow> json option) \<Rightarrow> bool \<Rightarrow> WorkspaceChangeTransactionFilePlan list \<Rightarrow>
   ('w \<times> helper_process, thrown, unit) eff" where
  "processPrepare parse write_ok files =
     eff_locals (\<lambda>hp. runCommand parse write_ok
       (command ''prepare'' (hp_transactionId hp) files [])
       ''workspace_transaction_prepared'' ''prepared'' (\<lambda>_. eff_return ()))"

definition processCommit ::
  "(nat list \<Rightarrow> json option) \<Rightarrow> bool \<Rightarrow> WorkspaceChangeTransactionFilePlan list \<Rightarrow> int list \<Rightarrow>
   (int \<Rightarrow> ('w, thrown, unit) eff) \<Rightarrow> ('w \<times> helper_process, thrown, unit) eff" where
  "processCommit parse write_ok files ordinals onProgress =
     eff_locals (\<lambda>hp. runCommand parse write_ok
       (command ''commit'' (hp_transactionId hp) files
          [(''ordinals'', JArr (map (\<lambda>n. JNum (of_int n)) ordinals))])
       ''workspace_transaction_committed'' ''committed'' onProgress)"

definition processInspect ::
  "(nat list \<Rightarrow> json option) \<Rightarrow> bool \<Rightarrow> WorkspaceChangeTransactionFilePlan list \<Rightarrow>
   ('w \<times> helper_process, thrown, (int \<times> json) list) eff" where
  "processInspect parse write_ok files =
     eff_locals (\<lambda>hp. withCommand (
     eff_bind (writeCommand write_ok (command ''inspect'' (hp_transactionId hp) files [])) (\<lambda>_.
     eff_bind (liftProcess (readFrame parse)) (\<lambda>frame.
     case map_of frame ''observations'' of
       Some (JArr observations) \<Rightarrow>
         if map_of frame ''protocol'' \<noteq> Some PROTOCOL \<or>
            map_of frame ''kind'' \<noteq> Some (JStr ''workspace_transaction_inspection'') \<or>
            map_of frame ''transaction_id'' \<noteq> Some (JStr (hp_transactionId hp)) \<or> length frame \<noteq> 4
         then eff_throw (helperError HE_invalid_protocol
           ''workspace transaction helper returned an invalid inspection frame'')
         else eff_result (map_result (\<lambda>(index, val). parseObservation val index) (enumerate 0 observations))
     | _ \<Rightarrow> eff_throw (helperError HE_invalid_protocol
           ''workspace transaction helper returned an invalid inspection frame'')))))"

text \<open>
  \<open>waitForClose\<close> ends with the process closed or with the shutdown deadline (\<open>exits\<close> says which);
  the terminal event is among the events that are left.
\<close>

fun closeProcess :: "helper_process \<Rightarrow> helper_process" where
  "closeProcess hp = foldl (\<lambda>p _. if hp_closed p then p else pump p) hp (replicate (Suc (length (hp_events hp))) ())"

definition processCleanup ::
  "(nat list \<Rightarrow> json option) \<Rightarrow> bool \<Rightarrow> bool \<Rightarrow> WorkspaceChangeTransactionFilePlan list \<Rightarrow>
   ('w \<times> helper_process, thrown, unit) eff" where
  "processCleanup parse write_ok exits files =
     eff_locals (\<lambda>hp. withCommand (
     eff_bind (writeCommand write_ok (command ''cleanup'' (hp_transactionId hp) files [])) (\<lambda>_.
     eff_bind (liftProcess (readFrame parse)) (\<lambda>frame.
     eff_bind (eff_result (assertExactFrame frame
         [(''protocol'', PROTOCOL), (''kind'', JStr ''workspace_transaction_cleaned''),
          (''transaction_id'', JStr (hp_transactionId hp))])) (\<lambda>_.
     eff_bind (eff_set (hp_cleaned_update (\<lambda>_. True))) (\<lambda>_.
     eff_bind (if exits then eff_set closeProcess
               else eff_throw (helperError HE_shutdown_failed
                 ''workspace transaction helper did not exit before its deadline'')) (\<lambda>_.
     eff_locals (\<lambda>hp'. if hp_terminal hp' \<noteq> Some 0
       then eff_throw (helperError HE_shutdown_failed ''workspace transaction helper failed after cleanup'')
       else eff_return ()))))))))"

definition processStart :: "(nat list \<Rightarrow> json option) \<Rightarrow> helper_process \<Rightarrow> (thrown + unit) \<times> helper_process" where
  "processStart parse hp =
     (case readFrame parse hp of
        (Inl e, hp') \<Rightarrow> (Inl e, hp')
      | (Inr frame, hp') \<Rightarrow> (assertExactFrame frame
          [(''protocol'', PROTOCOL), (''kind'', JStr ''workspace_transaction_ready'')], hp'))"

definition positiveTimeout :: "json \<Rightarrow> string \<Rightarrow> thrown + int" where
  "positiveTimeout val name =
     (if \<not> isSafeInteger val \<or> json_int val \<le> 0
      then Inl (plainError (''workspace transaction '' @ name @ '' must be a positive integer''))
      else Inr (json_int val))"

section \<open>The byte stream\<close>

text \<open>
  \<open>stream hp\<close> is all the output that the client can still see: what is buffered and what will
  arrive before the process closes. The chunks that carry it do not matter.
\<close>

fun incoming :: "proc_event list \<Rightarrow> nat list" where
  "incoming [] = []"
| "incoming (EvStdout bytes # events) = bytes @ incoming events"
| "incoming (EvStderr bytes # events) = incoming events"
| "incoming (EvTerminal code # events) = []"
| "incoming (EvFailure # events) = []"

definition stream :: "helper_process \<Rightarrow> nat list" where
  "stream hp = hp_stdout hp @ (if hp_closed hp then [] else incoming (hp_events hp))"

definition process_ok :: "helper_process \<Rightarrow> bool" where
  "process_ok hp \<longleftrightarrow> (hp_pumpFailure hp \<longrightarrow> hp_closed hp) \<and> length (stream hp) \<le> MAX_FRAME_BYTES"

lemma pump_stream:
  assumes "\<not> hp_closed hp" "process_ok hp"
  shows "stream (pump hp) = stream hp \<and> process_ok (pump hp) \<and>
    hp_transactionId (pump hp) = hp_transactionId hp"
proof (cases "hp_events hp")
  case (Cons ev evs)
  with assms show ?thesis
    by (cases ev) (auto simp: pump.simps stream_def process_ok_def appendBoundedBuffer_def)
qed (use assms in \<open>auto simp: pump.simps stream_def process_ok_def\<close>)

definition frame_of :: "(nat list \<Rightarrow> json option) \<Rightarrow> nat list \<Rightarrow> thrown + frame" where
  "frame_of parse line =
     (case parse (stripCr line) of
        Some (JObj frame) \<Rightarrow> Inr frame
      | _ \<Rightarrow> Inl (helperError HE_invalid_protocol ''workspace transaction helper returned invalid JSON''))"

lemma readFrame_stream:
  assumes "process_ok hp" "takeLine (stream hp) = Some (line, rest)"
  shows "\<exists>hp'. readFrame parse hp = (frame_of parse line, hp') \<and> stream hp' = rest \<and> process_ok hp' \<and>
    hp_transactionId hp' = hp_transactionId hp"
  using assms
proof (induction parse hp rule: readFrame.induct)
  case (1 parse hp)
  show ?case
  proof (cases "takeLine (hp_stdout hp)")
    case (Some lr)
    obtain l r where lr: "lr = (l, r)" by (cases lr)
    with Some have "l = line" "stream (hp\<lparr>hp_stdout := r\<rparr>) = rest"
      using "1.prems"(2) takeLine_append [of "hp_stdout hp" l r "if hp_closed hp then [] else incoming (hp_events hp)"]
      by (auto simp: stream_def)
    moreover have "process_ok (hp\<lparr>hp_stdout := r\<rparr>)"
      using "1.prems"(1) takeLine_shorter [of "hp_stdout hp" l r] Some lr
      by (auto simp: process_ok_def stream_def)
    ultimately show ?thesis
      using Some lr by (subst readFrame.simps) (auto simp: frame_of_def split: option.splits json.splits)
  next
    case None
    have open_: "\<not> hp_closed hp" using None "1.prems"(2) by (auto simp: stream_def)
    then have conds: "\<not> MAX_FRAME_BYTES < length (hp_stdout hp)" "\<not> hp_pumpFailure hp"
      using "1.prems"(1) by (auto simp: process_ok_def stream_def)
    note p = pump_stream [OF open_ "1.prems"(1)]
    have "readFrame parse hp = readFrame parse (pump hp)"
      using None conds open_ by (subst readFrame.simps) simp
    with "1.IH" [OF None conds open_] p "1.prems"(2) show ?thesis by metis
  qed
qed

lemma readFrame_end:
  assumes "process_ok hp" "takeLine (stream hp) = None"
  shows "\<exists>m hp'. readFrame parse hp = (Inl (helperError HE_helper_exited m), hp')"
  using assms
proof (induction parse hp rule: readFrame.induct)
  case (1 parse hp)
  have None: "takeLine (hp_stdout hp) = None"
    using "1.prems"(2) by (simp add: stream_def takeLine_None)
  have len: "\<not> MAX_FRAME_BYTES < length (hp_stdout hp)"
    using "1.prems"(1) by (auto simp: process_ok_def stream_def)
  show ?case
  proof (cases "hp_pumpFailure hp \<or> hp_closed hp")
    case True
    then show ?thesis using None len by (subst readFrame.simps) auto
  next
    case False
    then have f: "\<not> hp_pumpFailure hp" "\<not> hp_closed hp" by auto
    have "readFrame parse hp = readFrame parse (pump hp)"
      using None len f by (subst readFrame.simps) simp
    with "1.IH" [OF None len f] pump_stream [OF f(2) "1.prems"(1)] "1.prems"(2) show ?thesis by metis
  qed
qed

text \<open>
  The same loop over the complete lines of the stream. It answers \<open>None\<close> when the stream ends
  before the command is done.
\<close>

fun lines_of :: "nat list \<Rightarrow> nat list list" where
  "lines_of [] = []"
| "lines_of (b # bs) =
     (if b = 10 then [] # lines_of bs
      else (case takeLine bs of None \<Rightarrow> [] | Some _ \<Rightarrow> (b # hd (lines_of bs)) # tl (lines_of bs)))"

lemma lines_of_takeLine:
  "lines_of bs = (case takeLine bs of None \<Rightarrow> [] | Some (line, rest) \<Rightarrow> line # lines_of rest)"
  by (induction bs) (auto split: option.splits)

fun frameRun ::
  "(nat list \<Rightarrow> json option) \<Rightarrow> string \<Rightarrow> string \<Rightarrow> string \<Rightarrow> (int \<Rightarrow> ('w, thrown, unit) eff) \<Rightarrow>
   thrown option \<Rightarrow> 'w \<Rightarrow> nat list list \<Rightarrow> (thrown + unit) option \<times> 'w" where
  "frameRun parse tx doneKind st onProgress ack w [] = (None, w)"
| "frameRun parse tx doneKind st onProgress ack w (line # lines) =
     (case frame_of parse line of
        Inl e \<Rightarrow> (Some (Inl e), w)
      | Inr frame \<Rightarrow>
          if isDoneFrame frame doneKind tx then
            (Some (case ack of Some e \<Rightarrow> Inl e | None \<Rightarrow> Inr ()), w)
          else
            (case parseProgress frame tx st of
               Inl e \<Rightarrow> (Some (Inl e), w)
             | Inr n \<Rightarrow> frameRun parse tx doneKind st onProgress
                 (fst (acknowledge onProgress ack n w)) (snd (acknowledge onProgress ack n w)) lines))"

definition exited :: "thrown + unit \<Rightarrow> bool" where
  "exited r \<longleftrightarrow> (\<exists>m. r = Inl (helperError HE_helper_exited m))"

definition agrees :: "(thrown + unit) option \<times> 'w \<Rightarrow> (thrown + unit) \<times> ('w \<times> helper_process) \<Rightarrow> bool" where
  "agrees fr out \<longleftrightarrow> fst (snd out) = snd fr \<and>
     (case fst fr of None \<Rightarrow> exited (fst out) | Some r \<Rightarrow> fst out = r)"

lemma agrees_Some [simp]: "agrees (Some r, w) (r', (w', h)) \<longleftrightarrow> r' = r \<and> w' = w"
  by (auto simp: agrees_def)

lemma commandLoop_frames:
  assumes "process_ok hp"
  shows "agrees (frameRun parse tx dk st onProgress ack w (lines_of (stream hp)))
    (commandLoop parse tx dk st onProgress ack w hp)"
  using assms
proof (induction "lines_of (stream hp)" arbitrary: hp ack w)
  case Nil
  then have none: "takeLine (stream hp) = None"
    by (subst (asm) lines_of_takeLine) (auto split: option.splits)
  then obtain m h where "readFrame parse hp = (Inl (helperError HE_helper_exited m), h)"
    using readFrame_end [OF Nil.prems none] by blast
  then have "commandLoop parse tx dk st onProgress ack w hp = (Inl (helperError HE_helper_exited m), (w, h))"
    by (subst commandLoop.simps) simp
  then show ?case unfolding Nil(1) [symmetric] by (auto simp: agrees_def exited_def)
next
  case (Cons line lines)
  have "lines_of (stream hp) = line # lines" using Cons(2) by simp
  then obtain rest where tl: "takeLine (stream hp) = Some (line, rest)" and lines: "lines = lines_of rest"
    by (subst (asm) lines_of_takeLine) (auto split: option.splits)
  obtain h where h: "readFrame parse hp = (frame_of parse line, h)" "stream h = rest" "process_ok h"
    using readFrame_stream [OF Cons.prems tl] by blast
  have IH: "agrees (frameRun parse tx dk st onProgress a v lines) (commandLoop parse tx dk st onProgress a v h)" for a v
    using Cons(1) [of h a v] h(2,3) lines by simp
  show ?case
  proof (cases "frame_of parse line")
    case (Inl e)
    then have "commandLoop parse tx dk st onProgress ack w hp = (Inl e, (w, h))"
      using h(1) by (subst commandLoop.simps) simp
    with Inl show ?thesis unfolding Cons(2) [symmetric] by (simp add: agrees_def)
  next
    case (Inr frame)
    then have "commandLoop parse tx dk st onProgress ack w hp =
        (if isDoneFrame frame dk tx then ((case ack of Some e \<Rightarrow> Inl e | None \<Rightarrow> Inr ()), (w, h))
         else (case parseProgress frame tx st of
               Inl e \<Rightarrow> (Inl e, (w, h))
             | Inr n \<Rightarrow> commandLoop parse tx dk st onProgress (fst (acknowledge onProgress ack n w))
                 (snd (acknowledge onProgress ack n w)) h))"
      using h(1) by (subst commandLoop.simps) simp
    with Inr IH show ?thesis unfolding Cons(2) [symmetric]
      by (cases "parseProgress frame tx st") simp_all
  qed
qed

section \<open>Progress of a command\<close>

text \<open>
  The frames that the helper writes (crates/system-service/src/workspace_transaction.rs):
  one \<open>FileFrame\<close> per file and a \<open>DoneFrame\<close>.
\<close>

definition fileFrame :: "string \<Rightarrow> string \<Rightarrow> int \<Rightarrow> frame" where
  "fileFrame tx state ordinal =
     [(''protocol'', PROTOCOL), (''kind'', JStr ''workspace_transaction_file''), (''transaction_id'', JStr tx),
      (''ordinal'', JNum (of_int ordinal)), (''state'', JStr state)]"

definition doneFrame :: "string \<Rightarrow> string \<Rightarrow> frame" where
  "doneFrame tx kind = [(''protocol'', PROTOCOL), (''kind'', JStr kind), (''transaction_id'', JStr tx)]"

definition wire :: "(json \<Rightarrow> nat list) \<Rightarrow> frame list \<Rightarrow> nat list" where
  "wire render frames = concat (map (\<lambda>f. render (JObj f) @ [10]) frames)"

definition ordinal_ok :: "int \<Rightarrow> bool" where
  "ordinal_ok n \<longleftrightarrow> 0 \<le> n \<and> n \<le> 9007199254740991"

lemma parseProgress_fileFrame: "ordinal_ok n \<Longrightarrow> parseProgress (fileFrame tx st n) tx st = Inr n"
  by (simp add: parseProgress_def fileFrame_def safeOrdinal_def isSafeInteger_def json_int_def ordinal_ok_def
      abs_le_iff) 

lemma not_done_fileFrame: "\<not> isDoneFrame (fileFrame tx st n) kind tx"
  by (simp add: isDoneFrame_def fileFrame_def)

lemma done_doneFrame: "isDoneFrame (doneFrame tx kind) kind tx"
  by (simp add: isDoneFrame_def doneFrame_def)

definition wire_ok :: "(nat list \<Rightarrow> json option) \<Rightarrow> (json \<Rightarrow> nat list) \<Rightarrow> frame list \<Rightarrow> bool" where
  "wire_ok parse render frames \<longleftrightarrow>
     (\<forall>f \<in> set frames. parse (stripCr (render (JObj f))) = Some (JObj f) \<and> 10 \<notin> set (render (JObj f)))"

lemma lines_of_line: "10 \<notin> set line \<Longrightarrow> lines_of (line @ 10 # rest) = line # lines_of rest"
proof -
  assume "10 \<notin> set line"
  then have "takeLine (line @ 10 # rest) = Some (line, rest)" by (simp add: takeLine_Some)
  then show ?thesis by (subst lines_of_takeLine) simp
qed

lemma lines_of_wire:
  "wire_ok parse render frames \<Longrightarrow>
   lines_of (wire render frames @ rest) = map (\<lambda>f. render (JObj f)) frames @ lines_of rest"
  by (induction frames) (simp_all add: wire_def wire_ok_def lines_of_line)

lemma lines_of_partial: "10 \<notin> set rest \<Longrightarrow> lines_of rest = []"
  by (subst lines_of_takeLine) (simp add: takeLine_None [symmetric])

lemma frameRun_failed:
  assumes "wire_ok parse render (map (fileFrame tx st) os)" "\<forall>n \<in> set os. ordinal_ok n"
  shows "frameRun parse tx dk st onProgress (Some e) w (map (\<lambda>f. render (JObj f)) (map (fileFrame tx st) os) @ lines) =
    frameRun parse tx dk st onProgress (Some e) w lines"
  using assms
  by (induction os) (simp_all add: wire_ok_def frame_of_def not_done_fileFrame parseProgress_fileFrame acknowledge_def)

lemma frameRun_progress:
  assumes "wire_ok parse render (map (fileFrame tx st) os)" "\<forall>n \<in> set os. ordinal_ok n"
  shows "frameRun parse tx dk st onProgress None w (map (\<lambda>f. render (JObj f)) (map (fileFrame tx st) os) @ lines) =
    (case eff_for_each onProgress os w of
       (Inl e, w') \<Rightarrow> frameRun parse tx dk st onProgress (Some e) w' lines
     | (Inr _, w') \<Rightarrow> frameRun parse tx dk st onProgress None w' lines)"
  using assms
proof (induction os arbitrary: w)
  case (Cons n os)
  then have f: "frame_of parse (render (JObj (fileFrame tx st n))) = Inr (fileFrame tx st n)"
    and n: "ordinal_ok n" and rest: "wire_ok parse render (map (fileFrame tx st) os)" "\<forall>n \<in> set os. ordinal_ok n"
    by (simp_all add: wire_ok_def frame_of_def)
  obtain r w' where call: "onProgress n w = (r, w')" by (cases "onProgress n w")
  show ?case
  proof (cases r)
    case (Inl e)
    then show ?thesis
      using f n call frameRun_failed [OF rest, of dk onProgress e w' lines]
      by (simp add: not_done_fileFrame parseProgress_fileFrame acknowledge_def)
  next
    case (Inr u)
    then show ?thesis
      using f n call Cons.IH [OF rest, of w']
      by (simp add: not_done_fileFrame parseProgress_fileFrame acknowledge_def)
  qed
qed simp

lemma commandLoop_progress:
  assumes ok: "process_ok hp"
    and str: "stream hp = wire render (map (fileFrame tx st) os @ [doneFrame tx dk]) @ rest"
    and wire: "wire_ok parse render (map (fileFrame tx st) os @ [doneFrame tx dk])"
    and os: "\<forall>n \<in> set os. ordinal_ok n"
  shows "fst (commandLoop parse tx dk st onProgress None w hp) = fst (eff_for_each onProgress os w)"
    and "fst (snd (commandLoop parse tx dk st onProgress None w hp)) = snd (eff_for_each onProgress os w)"
proof -
  have w1: "wire_ok parse render (map (fileFrame tx st) os)"
    and d: "frame_of parse (render (JObj (doneFrame tx dk))) = Inr (doneFrame tx dk)"
    using wire by (auto simp: wire_ok_def frame_of_def)
  have "frameRun parse tx dk st onProgress None w (lines_of (stream hp)) =
      (Some (fst (eff_for_each onProgress os w)), snd (eff_for_each onProgress os w))"
    unfolding str lines_of_wire [OF wire] map_append append_assoc
    unfolding frameRun_progress [OF w1 os] using d
    by (auto simp: done_doneFrame split: prod.splits sum.splits)
  with commandLoop_frames [OF ok, of parse tx dk st onProgress None w]
  show "fst (commandLoop parse tx dk st onProgress None w hp) = fst (eff_for_each onProgress os w)"
    and "fst (snd (commandLoop parse tx dk st onProgress None w hp)) = snd (eff_for_each onProgress os w)"
    by (auto simp: agrees_def)
qed

lemma commandLoop_helper_died:
  assumes ok: "process_ok hp" and str: "stream hp = wire render (map (fileFrame tx st) os) @ rest"
    and rest: "10 \<notin> set rest" and wire: "wire_ok parse render (map (fileFrame tx st) os)"
    and os: "\<forall>n \<in> set os. ordinal_ok n"
  shows "exited (fst (commandLoop parse tx dk st onProgress None w hp))"
    and "fst (snd (commandLoop parse tx dk st onProgress None w hp)) = snd (eff_for_each onProgress os w)"
proof -
  have "frameRun parse tx dk st onProgress None w (lines_of (stream hp)) = (None, snd (eff_for_each onProgress os w))"
    unfolding str lines_of_wire [OF wire] lines_of_partial [OF rest]
    unfolding frameRun_progress [OF wire os, of dk onProgress w "[]"]
    by (auto split: prod.splits sum.splits)
  with commandLoop_frames [OF ok, of parse tx dk st onProgress None w]
  show "exited (fst (commandLoop parse tx dk st onProgress None w hp))"
    and "fst (snd (commandLoop parse tx dk st onProgress None w hp)) = snd (eff_for_each onProgress os w)"
    by (auto simp: agrees_def)
qed

text \<open>The wrapper \<open>withCommand\<close> around the loop only toggles the pending flag.\<close>

definition idle :: "helper_process \<Rightarrow> bool" where
  "idle hp \<longleftrightarrow> \<not> hp_commandPending hp \<and> \<not> hp_cleaned hp \<and> \<not> hp_closed hp"

lemma runCommand_idle:
  assumes "idle hp"
  shows "runCommand parse True cmd dk st onProgress (w, hp) =
    (case commandLoop parse (hp_transactionId hp) dk st onProgress None w
        (hp\<lparr>hp_commandPending := True, hp_written := hp_written hp @ [cmd]\<rparr>) of
      (r, (w', hp')) \<Rightarrow> (r, (w', hp'\<lparr>hp_commandPending := False\<rparr>)))"
  using assms
  by (simp add: runCommand_def withCommand_def writeCommand_def idle_def eff_locals_def eff_set_def eff_defs
      split: prod.splits sum.splits)

lemma stream_pending [simp]:
  "stream (hp\<lparr>hp_commandPending := b, hp_written := cs\<rparr>) = stream hp"
  "process_ok (hp\<lparr>hp_commandPending := b, hp_written := cs\<rparr>) = process_ok hp"
  by (simp_all add: stream_def process_ok_def)

section \<open>Properties\<close>

text \<open>
  C28. A commit command reports exactly the helper's progress. If the process answers with one
  file frame per ordinal of \<open>os\<close> and the done frame, then, however the bytes are cut into
  chunks, the command calls \<open>onProgress\<close> on these ordinals in order up to the first failure;
  it succeeds if and only if every call did, and fails with the first failure otherwise.
\<close>

theorem commit_reports_progress:
  assumes "idle hp" "process_ok hp"
    and "stream hp = wire render (map (fileFrame (hp_transactionId hp) ''committed'') os @
           [doneFrame (hp_transactionId hp) ''workspace_transaction_committed'']) @ rest"
    and "wire_ok parse render (map (fileFrame (hp_transactionId hp) ''committed'') os @
           [doneFrame (hp_transactionId hp) ''workspace_transaction_committed''])"
    and "\<forall>n \<in> set os. ordinal_ok n"
  shows "fst (processCommit parse True files ordinals onProgress (w, hp)) = fst (eff_for_each onProgress os w) \<and>
    fst (snd (processCommit parse True files ordinals onProgress (w, hp))) = snd (eff_for_each onProgress os w)"
proof -
  let ?cmd = "command ''commit'' (hp_transactionId hp) files
      [(''ordinals'', JArr (map (\<lambda>n. JNum (of_int n)) ordinals))]"
  let ?hp = "hp\<lparr>hp_commandPending := True, hp_written := hp_written hp @ [?cmd]\<rparr>"
  have "processCommit parse True files ordinals onProgress (w, hp) =
      runCommand parse True ?cmd ''workspace_transaction_committed'' ''committed'' onProgress (w, hp)"
    by (simp add: processCommit_def eff_locals_def)
  moreover have "process_ok ?hp" and "stream ?hp = stream hp" using assms(2) by simp_all
  ultimately show ?thesis
    using commandLoop_progress [of ?hp render "hp_transactionId hp" "''committed''" os
        "''workspace_transaction_committed''" rest parse onProgress w] assms
    by (simp add: runCommand_idle split: prod.splits)
qed

text \<open>
  C29. A helper that dies in the middle of a commit makes the command fail, after
  \<open>onProgress\<close> has been called, in order, for the files whose frames were complete.
\<close>

theorem commit_helper_died:
  assumes "idle hp" "process_ok hp"
    and "stream hp = wire render (map (fileFrame (hp_transactionId hp) ''committed'') os) @ rest"
    and "10 \<notin> set rest"
    and "wire_ok parse render (map (fileFrame (hp_transactionId hp) ''committed'') os)"
    and "\<forall>n \<in> set os. ordinal_ok n"
  shows "exited (fst (processCommit parse True files ordinals onProgress (w, hp))) \<and>
    fst (snd (processCommit parse True files ordinals onProgress (w, hp))) = snd (eff_for_each onProgress os w)"
proof -
  let ?cmd = "command ''commit'' (hp_transactionId hp) files
      [(''ordinals'', JArr (map (\<lambda>n. JNum (of_int n)) ordinals))]"
  let ?hp = "hp\<lparr>hp_commandPending := True, hp_written := hp_written hp @ [?cmd]\<rparr>"
  have "processCommit parse True files ordinals onProgress (w, hp) =
      runCommand parse True ?cmd ''workspace_transaction_committed'' ''committed'' onProgress (w, hp)"
    by (simp add: processCommit_def eff_locals_def)
  moreover have "process_ok ?hp" and "stream ?hp = stream hp" using assms(2) by simp_all
  ultimately show ?thesis
    using commandLoop_helper_died [of ?hp render "hp_transactionId hp" "''committed''" os rest parse
        "''workspace_transaction_committed''" onProgress w] assms
    by (simp add: runCommand_idle split: prod.splits)
qed

text \<open>A process that has one file frame and the done frame to send, in three chunks.\<close>

definition demo_render :: "json \<Rightarrow> nat list" where
  "demo_render j = (if j = JObj (fileFrame ''t'' ''committed'' 0) then [7, 8] else [9])"

definition demo_parse :: "nat list \<Rightarrow> json option" where
  "demo_parse bs = (if bs = [7, 8] then Some (JObj (fileFrame ''t'' ''committed'' 0))
     else Some (JObj (doneFrame ''t'' ''workspace_transaction_committed'')))"

definition demo_process :: "proc_event list \<Rightarrow> helper_process" where
  "demo_process events = \<lparr>hp_transactionId = ''t'', hp_stdout = [], hp_stderr = [], hp_terminal = None,
     hp_pumpFailure = False, hp_closed = False, hp_cleaned = False, hp_commandPending = False,
     hp_written = [], hp_events = events\<rparr>"

definition demo_progress :: "int \<Rightarrow> (int list, thrown, unit) eff" where
  "demo_progress n seen = (Inr (), seen @ [n])"

lemma demo_process_facts:
  "idle (demo_process events)" "hp_transactionId (demo_process events) = ''t''"
  "stream (demo_process events) = incoming events"
  by (simp_all add: idle_def demo_process_def stream_def)

lemma demo_wire:
  "wire_ok demo_parse demo_render [fileFrame ''t'' ''committed'' 0, doneFrame ''t'' ''workspace_transaction_committed'']"
  "wire demo_render [fileFrame ''t'' ''committed'' 0] = [7, 8, 10]"
  "wire demo_render [fileFrame ''t'' ''committed'' 0, doneFrame ''t'' ''workspace_transaction_committed''] = [7, 8, 10, 9, 10]"
  by (simp_all add: wire_ok_def wire_def demo_parse_def demo_render_def stripCr_def fileFrame_def doneFrame_def)

theorem commit_reports_progress_witness:
  "fst (snd (processCommit demo_parse True [] [] demo_progress
     ([], demo_process [EvStdout [7], EvStdout [8, 10, 9], EvStderr [1], EvStdout [10]]))) = [0]"
proof -
  let ?hp = "demo_process [EvStdout [7], EvStdout [8, 10, 9], EvStderr [1], EvStdout [10]]"
  have "process_ok ?hp" by (simp add: process_ok_def stream_def demo_process_def MAX_FRAME_BYTES_def)
  then show ?thesis
    using commit_reports_progress [of ?hp demo_render "[0]" "[]" demo_parse "[]" "[]" demo_progress "[]"]
    by (simp add: demo_process_facts demo_wire demo_progress_def ordinal_ok_def)
qed

theorem commit_helper_died_witness:
  "exited (fst (processCommit demo_parse True [] [] demo_progress
     ([], demo_process [EvStdout [7, 8], EvStdout [10, 9], EvTerminal 137])))"
proof -
  let ?hp = "demo_process [EvStdout [7, 8], EvStdout [10, 9], EvTerminal 137]"
  have "process_ok ?hp" by (simp add: process_ok_def stream_def demo_process_def MAX_FRAME_BYTES_def)
  moreover have "wire_ok demo_parse demo_render [fileFrame ''t'' ''committed'' 0]"
    using demo_wire(1) by (simp add: wire_ok_def)
  ultimately show ?thesis
    using commit_helper_died [of ?hp demo_render "[0]" "[9]" demo_parse "[]" "[]" demo_progress "[]"]
    by (simp add: demo_process_facts demo_wire demo_progress_def ordinal_ok_def)
qed

end
