(* ===== verification/Transaction.thy ===== *)
theory Transaction
  imports Workspace_Types
begin

text \<open>
  The crash-safe workspace transaction of packages/workspace/src/transaction: common.ts,
  receipt.ts, artifacts.ts, lease.ts (\<open>assertHealthy\<close>), recovery.ts and runtime.ts.

  The code drives two other processes: the durable store (crates/system-service, over RPC) and
  a helper that holds the mutation lock and touches the files. Their calls are the fields of
  the record \<open>tx_services\<close>; a call may throw and may change the world. Theory
  Transaction_World gives the calls their meaning. \<open>randomUUID\<close> and \<open>randomBytes\<close>
  are calls too. The timer that renews the lease runs beside the code; what the code sees of
  it is \<open>svc_leaseFailure\<close>, the field \<open>failure\<close> of the lease. \<open>sha\<close> is SHA-256 and
  \<open>localeCompare\<close> the string method of that name.
\<close>

section \<open>Services\<close>

record 's tx_services =
  svc_sha :: "string \<Rightarrow> string"
  svc_localeCompare :: "string \<Rightarrow> string \<Rightarrow> int"
  svc_leaseMs :: int
  svc_rootDir :: string
  svc_canonicalize :: "string \<Rightarrow> ('s, thrown, string) eff"
  svc_randomUUID :: "('s, thrown, string) eff"
  svc_randomToken :: "('s, thrown, string) eff"
  svc_readText :: "'s \<Rightarrow> string \<Rightarrow> thrown + string option"
  svc_getChangeSet :: "string \<Rightarrow> ('s, thrown, WorkspaceChangeSetRecord option) eff"
  svc_putChangeSet :: "PutWorkspaceChangeSetRequest \<Rightarrow> ('s, thrown, WorkspaceChangeSetRecord) eff"
  svc_listOperations :: "string \<Rightarrow> ('s, thrown, WorkspaceChangeOperationRecord list) eff"
  svc_begin :: "BeginWorkspaceChangeTransactionRequest \<Rightarrow> ('s, thrown, WorkspaceChangeTransactionClaimResult) eff"
  svc_claimRecovery :: "ClaimWorkspaceChangeTransactionRecoveryRequest \<Rightarrow> ('s, thrown, WorkspaceChangeTransactionClaimResult) eff"
  svc_listTransactions :: "ListWorkspaceChangeTransactionsRequest \<Rightarrow> ('s, thrown, WorkspaceChangeTransactionSnapshot list) eff"
  svc_recordPlan :: "WorkspaceChangeTransactionIdentityRequest \<Rightarrow> WorkspaceChangeTransactionFilePlan list \<Rightarrow> ('s, thrown, unit) eff"
  svc_markPrepared :: "WorkspaceChangeTransactionIdentityRequest \<Rightarrow> ('s, thrown, unit) eff"
  svc_beginCommit :: "WorkspaceChangeTransactionIdentityRequest \<Rightarrow> ('s, thrown, unit) eff"
  svc_recordFileCommitted :: "WorkspaceChangeTransactionIdentityRequest \<Rightarrow> int \<Rightarrow> ('s, thrown, unit) eff"
  svc_reconcile :: "WorkspaceChangeTransactionIdentityRequest \<Rightarrow> WorkspaceChangeTransactionFileObservation list \<Rightarrow> ('s, thrown, WorkspaceChangeTransactionReconciliation) eff"
  svc_finalize :: "WorkspaceChangeTransactionIdentityRequest \<Rightarrow> FinalizeOutcome \<Rightarrow> ('s, thrown, WorkspaceChangeTransactionFinalization) eff"
  svc_leaseStart :: "WorkspaceChangeTransactionIdentityRequest \<Rightarrow> ('s, thrown, unit) eff"
  svc_leaseStop :: "WorkspaceChangeTransactionIdentityRequest \<Rightarrow> ('s, thrown, unit) eff"
  svc_leaseFailure :: "WorkspaceChangeTransactionIdentityRequest \<Rightarrow> 's \<Rightarrow> thrown option"
  svc_spawn :: "string \<Rightarrow> string \<Rightarrow> ('s, thrown, nat) eff"
  svc_prepare :: "nat \<Rightarrow> WorkspaceChangeTransactionFilePlan list \<Rightarrow> ('s, thrown, unit) eff"
  svc_inspect :: "nat \<Rightarrow> WorkspaceChangeTransactionFilePlan list \<Rightarrow> ('s, thrown, WorkspaceChangeTransactionFileObservation list) eff"
  svc_commit :: "nat \<Rightarrow> WorkspaceChangeTransactionFilePlan list \<Rightarrow> int list \<Rightarrow> (int \<Rightarrow> ('s, thrown, unit) eff) \<Rightarrow> ('s, thrown, unit) eff"
  svc_cleanup :: "nat \<Rightarrow> WorkspaceChangeTransactionFilePlan list \<Rightarrow> ('s, thrown, unit) eff"
  svc_terminate :: "nat \<Rightarrow> ('s, thrown, unit) eff"

section \<open>Identities and receipts\<close>

definition durableId :: "(string \<Rightarrow> string) \<Rightarrow> string \<Rightarrow> string \<Rightarrow> string" where
  "durableId sha prefix val = prefix @ ''_'' @ take 40 (sha val)"

definition filePlan :: "int \<Rightarrow> AppliedFileChange \<Rightarrow> WorkspaceChangeTransactionFilePlan" where
  "filePlan ordinal file =
     \<lparr>fp_ordinal = ordinal, fp_path = af_path file,
      fp_beforeText = af_beforeText file, fp_beforeSha256 = af_beforeSha256 file,
      fp_afterText = af_afterText file, fp_afterSha256 = af_afterSha256 file\<rparr>"

definition transactionFiles :: "ChangeSetReceipt \<Rightarrow> WorkspaceChangeTransactionFilePlan list" where
  "transactionFiles receipt =
     map (\<lambda>(ordinal, file). filePlan (int ordinal) file)
       (enumerate 0 (filter (\<lambda>file. af_beforeText file \<noteq> af_afterText file) (rc_files receipt)))"

record WorkspaceTransactionResult =
  tx_operation :: WorkspaceChangeOperationRecord
  tx_receipt :: ChangeSetReceipt
  tx_finalization :: WorkspaceChangeTransactionFinalization

definition finalizationResult ::
  "WorkspaceChangeTransactionFinalization \<Rightarrow> ChangeSetReceipt \<Rightarrow> thrown + WorkspaceTransactionResult" where
  "finalizationResult finalization receipt =
     (case fin_operation finalization of
        None \<Rightarrow> Inl (plainError ''workspace transaction finalization has no operation'')
      | Some operation \<Rightarrow>
          Inr \<lparr>tx_operation = operation, tx_receipt = receipt, tx_finalization = finalization\<rparr>)"

definition replayTerminalTransaction ::
  "'s tx_services \<Rightarrow> string \<Rightarrow> WorkspaceChangeTransactionSnapshot \<Rightarrow> string option \<Rightarrow>
   ('s, thrown, WorkspaceTransactionResult) eff" where
  "replayTerminalTransaction sv changeSetId snapshot workspaceOperationId =
     (case workspaceOperationId of
        None \<Rightarrow> eff_throw (plainError ''terminal workspace transaction has no operation'')
      | Some operationId \<Rightarrow>
          eff_bind (svc_listOperations sv changeSetId) (\<lambda>operations.
          case List.find (\<lambda>candidate. op_id candidate = operationId) operations of
            None \<Rightarrow> eff_throw (plainError
              (''terminal workspace transaction operation does not exist: '' @ operationId))
          | Some operation \<Rightarrow> eff_return
              \<lparr>tx_operation = operation, tx_receipt = op_receipt operation,
               tx_finalization = \<lparr>fin_snapshot = snapshot, fin_operation = Some operation,
                 fin_proposal = None, fin_proposalAttempt = None\<rparr>\<rparr>))"

text \<open>The receipt of an undo is the receipt of its source with before and after exchanged.\<close>

definition undoneFile :: "AppliedFileChange \<Rightarrow> AppliedFileChange" where
  "undoneFile file = appliedFileRecord (af_path file) (af_kind file)
     (af_afterText file) (af_beforeText file) (af_afterSha256 file) (af_beforeSha256 file)"

text \<open>\<open>new Map(entries)\<close>: a later entry with the same key replaces the value.\<close>

definition fileByPath ::
  "WorkspaceChangeTransactionFileRecord list \<Rightarrow> (string \<times> WorkspaceChangeTransactionFileRecord) list" where
  "fileByPath files = foldl (\<lambda>m file. AList.update (tf_path file) file m) [] files"

definition rebuildFile ::
  "'s tx_services \<Rightarrow> WorkspaceChangeTransactionFileRecord list \<Rightarrow> FileChange \<Rightarrow>
   ('s, thrown, AppliedFileChange) eff" where
  "rebuildFile sv files change s =
     (case map_of (fileByPath files) (fc_path change) of
        Some durable \<Rightarrow>
          (Inr (appliedFileRecord (fc_path change) (fc_kind change)
             (tf_beforeText durable) (tf_afterText durable)
             (tf_beforeSha256 durable) (tf_afterSha256 durable)), s)
      | None \<Rightarrow>
          (case svc_readText sv s (fc_path change) of
             Inl e \<Rightarrow> (Inl e, s)
           | Inr current \<Rightarrow>
               (Inr (appliedFileRecord (fc_path change) (fc_kind change) current current
                  (sha256Optional (svc_sha sv) current) (sha256Optional (svc_sha sv) current)), s)))"

definition rebuildTransactionReceipt ::
  "'s tx_services \<Rightarrow> WorkspaceChangeTransactionSnapshot \<Rightarrow> ('s, thrown, ChangeSetReceipt) eff" where
  "rebuildTransactionReceipt sv snapshot =
     (let transaction = sn_transaction snapshot in
      if tr_operation transaction = OK_undo then
        eff_bind (svc_listOperations sv (tr_changeSetId transaction)) (\<lambda>operations.
        case List.find (\<lambda>operation. Some (op_id operation) = tr_undoSourceOperationId transaction) operations of
          None \<Rightarrow> eff_throw (plainError ''workspace recovery lost its undo source operation'')
        | Some source \<Rightarrow> eff_return
            \<lparr>rc_changeSetId = tr_changeSetId transaction, rc_status = CA_applied,
             rc_files = map undoneFile (rc_files (op_receipt source)), rc_conflicts = []\<rparr>)
      else
        eff_bind (svc_getChangeSet sv (tr_changeSetId transaction)) (\<lambda>changeSet.
        case changeSet of
          None \<Rightarrow> eff_throw (plainError ''workspace recovery lost its changeset'')
        | Some changeSetRecord \<Rightarrow>
            eff_bind (eff_map (rebuildFile sv (sn_files snapshot)) (cs_changes (csr_changeSet changeSetRecord))) (\<lambda>files.
            eff_return \<lparr>rc_changeSetId = tr_changeSetId transaction, rc_status = CA_applied,
              rc_files = files, rc_conflicts = []\<rparr>)))"

section \<open>Artifacts and lease\<close>

definition transactionFilePlan :: "WorkspaceChangeTransactionFileRecord \<Rightarrow> WorkspaceChangeTransactionFilePlan" where
  "transactionFilePlan file =
     \<lparr>fp_ordinal = tf_ordinal file, fp_path = tf_path file,
      fp_beforeText = tf_beforeText file, fp_beforeSha256 = tf_beforeSha256 file,
      fp_afterText = tf_afterText file, fp_afterSha256 = tf_afterSha256 file\<rparr>"

definition transactionFilePlans ::
  "WorkspaceChangeTransactionFileRecord list \<Rightarrow> WorkspaceChangeTransactionFilePlan list" where
  "transactionFilePlans files = map transactionFilePlan files"

definition cleanupCommittedArtifacts ::
  "'s tx_services \<Rightarrow> string \<Rightarrow> string \<Rightarrow> WorkspaceChangeTransactionFilePlan list \<Rightarrow> nat \<Rightarrow>
   ('s, thrown, unit) eff" where
  "cleanupCommittedArtifacts sv canonicalRoot transactionId files helper =
     eff_try (svc_cleanup sv helper files) (\<lambda>firstError.
     eff_bind (svc_terminate sv helper) (\<lambda>_.
     eff_try
       (eff_bind (svc_spawn sv canonicalRoot transactionId) (\<lambda>retry.
        eff_finally (svc_cleanup sv retry files) (svc_terminate sv retry)))
       (\<lambda>retryError. eff_throw (AggregateError [firstError, retryError]
          ''workspace transaction artifact cleanup failed after retry''))))"

definition cleanupTerminalArtifacts ::
  "'s tx_services \<Rightarrow> string \<Rightarrow> string \<Rightarrow> WorkspaceChangeTransactionFileRecord list \<Rightarrow>
   ('s, thrown, unit) eff" where
  "cleanupTerminalArtifacts sv canonicalRoot transactionId files =
     (if files = [] then eff_return ()
      else eff_bind (svc_spawn sv canonicalRoot transactionId) (\<lambda>helper.
        eff_finally
          (eff_try
             (cleanupCommittedArtifacts sv canonicalRoot transactionId (transactionFilePlans files) helper)
             (\<lambda>error. eff_throw (CleanupRequiredError transactionId error)))
          (svc_terminate sv helper)))"

definition assertHealthy ::
  "'s tx_services \<Rightarrow> WorkspaceChangeTransactionIdentityRequest \<Rightarrow> ('s, thrown, unit) eff" where
  "assertHealthy sv identity s =
     (case svc_leaseFailure sv identity s of
        None \<Rightarrow> (Inr (), s)
      | Some failure \<Rightarrow> (Inl (plainError ''workspace transaction lease was lost''), s))"

section \<open>Recovery\<close>

definition recoverableStates :: "WorkspaceChangeTransactionState list" where
  "recoverableStates = [TS_planning, TS_prepared, TS_committing, TS_recovery_required]"

definition compareCreated ::
  "(string \<Rightarrow> string \<Rightarrow> int) \<Rightarrow> WorkspaceChangeTransactionSnapshot \<Rightarrow> WorkspaceChangeTransactionSnapshot \<Rightarrow> int" where
  "compareCreated localeCompare left right =
     (let d = tr_createdAt (sn_transaction left) - tr_createdAt (sn_transaction right) in
      if d \<noteq> 0 then d
      else localeCompare (tr_id (sn_transaction left)) (tr_id (sn_transaction right)))"

definition listRecoverable ::
  "'s tx_services \<Rightarrow> string \<Rightarrow> ('s, thrown, WorkspaceChangeTransactionSnapshot list) eff" where
  "listRecoverable sv workspaceId =
     eff_bind (eff_map (\<lambda>state. svc_listTransactions sv
         \<lparr>lt_workspaceId = Some workspaceId, lt_state = Some state, lt_limit = Some 101\<rparr>)
       recoverableStates) (\<lambda>pages.
     eff_return (sort_by (compareCreated (svc_localeCompare sv))
       (map snd (foldl (\<lambda>byId snapshot. AList.update (tr_id (sn_transaction snapshot)) snapshot byId)
         [] (concat pages)))))"

text \<open>The local variable \<open>helper\<close> of \<open>recoverOne\<close> is the second component of the state.\<close>

definition clearHelper :: "('s \<times> nat option, thrown, unit) eff" where
  "clearHelper = eff_set (\<lambda>_. None)"

definition recoverDecision ::
  "'s tx_services \<Rightarrow> WorkspaceChangeTransactionIdentityRequest \<Rightarrow>
   WorkspaceChangeTransactionFilePlan list \<Rightarrow> nat \<Rightarrow> WorkspaceChangeTransactionRecoveryDecision \<Rightarrow>
   ('s \<times> nat option, thrown, bool) eff" where
  "recoverDecision sv identity files helper decision =
     (case decision of
        RD_attention \<Rightarrow>
          eff_bind (eff_lift (svc_terminate sv helper)) (\<lambda>_.
          eff_bind clearHelper (\<lambda>_.
          eff_bind (eff_lift (svc_finalize sv identity (FO_recovery_required (JObj
              [(''type'', JStr ''workspace.transaction_external_change''),
               (''message'', JStr ''workspace content matches neither durable before nor after evidence'')])))) (\<lambda>_.
          eff_throw (RecoveryRequiredError (ti_transactionId identity)
            (plainError ''workspace transaction requires manual recovery'') None))))
      | RD_rollback_noop \<Rightarrow>
          eff_bind (eff_lift (svc_cleanup sv helper files)) (\<lambda>_.
          eff_bind clearHelper (\<lambda>_.
          eff_bind (eff_lift (svc_finalize sv identity FO_rolled_back)) (\<lambda>_.
          eff_return False)))
      | RD_finish_forward \<Rightarrow>
          eff_bind (eff_lift (svc_prepare sv helper files)) (\<lambda>_.
          eff_bind (eff_lift (svc_commit sv helper files (map fp_ordinal files)
              (svc_recordFileCommitted sv identity))) (\<lambda>_.
          eff_return True))
      | RD_finalize \<Rightarrow> eff_return True)"

text \<open>The statements after the \<open>switch\<close>, which the cases that return skip.\<close>

definition recoverSettle ::
  "'s tx_services \<Rightarrow> string \<Rightarrow> WorkspaceChangeTransactionIdentityRequest \<Rightarrow>
   WorkspaceChangeTransactionFilePlan list \<Rightarrow> nat \<Rightarrow> WorkspaceChangeTransactionSnapshot \<Rightarrow>
   ('s \<times> nat option, thrown, unit) eff" where
  "recoverSettle sv canonicalRoot identity files helper snapshot =
     eff_bind (eff_lift (assertHealthy sv identity)) (\<lambda>_.
     eff_bind (eff_lift (rebuildTransactionReceipt sv snapshot)) (\<lambda>receipt.
     eff_bind (eff_lift (svc_finalize sv identity
         (FO_applied (durableId (svc_sha sv) ''wop'' (ti_transactionId identity)) receipt))) (\<lambda>_.
     eff_bind (eff_try
         (eff_lift (cleanupCommittedArtifacts sv canonicalRoot (ti_transactionId identity) files helper))
         (\<lambda>error. eff_throw (CleanupRequiredError (ti_transactionId identity) error))) (\<lambda>_.
     clearHelper))))"

definition recoverBody ::
  "'s tx_services \<Rightarrow> string \<Rightarrow> WorkspaceChangeTransactionIdentityRequest \<Rightarrow>
   WorkspaceChangeTransactionSnapshot \<Rightarrow> ('s \<times> nat option, thrown, unit) eff" where
  "recoverBody sv canonicalRoot identity snapshot =
     (if sn_files snapshot = [] then
        eff_bind (eff_lift (svc_finalize sv identity FO_rolled_back)) (\<lambda>_. eff_return ())
      else
        (let files = transactionFilePlans (sn_files snapshot) in
         eff_bind (eff_lift (svc_spawn sv canonicalRoot (ti_transactionId identity))) (\<lambda>helper.
         eff_bind (eff_set (\<lambda>_. Some helper)) (\<lambda>_.
         eff_bind (eff_lift (svc_inspect sv helper files)) (\<lambda>observations.
         eff_bind (eff_lift (svc_reconcile sv identity observations)) (\<lambda>reconciliation.
         eff_bind (recoverDecision sv identity files helper (rec_decision reconciliation)) (\<lambda>go_on.
         if go_on then recoverSettle sv canonicalRoot identity files helper (rec_snapshot reconciliation)
         else eff_return ())))))))"

fun claimStatusText :: "WorkspaceChangeTransactionClaimStatus \<Rightarrow> string" where
  "claimStatusText TC_claimed = ''claimed''"
| "claimStatusText TC_busy = ''busy''"
| "claimStatusText TC_recovery_required = ''recovery_required''"
| "claimStatusText TC_already_terminal = ''already_terminal''"

definition recoverOne ::
  "'s tx_services \<Rightarrow> string \<Rightarrow> WorkspaceChangeTransactionSnapshot \<Rightarrow> ('s, thrown, unit) eff" where
  "recoverOne sv canonicalRoot snapshot =
     (let transactionId = tr_id (sn_transaction snapshot) in
      eff_bind (svc_randomUUID sv) (\<lambda>uuid.
      eff_bind (svc_randomToken sv) (\<lambda>claimToken.
      eff_bind (svc_claimRecovery sv
          \<lparr>ctr_transactionId = transactionId, ctr_attemptId = ''wta_'' @ uuid,
           ctr_ownerId = ''workspace-recovery'', ctr_claimToken = claimToken,
           ctr_leaseMs = svc_leaseMs sv\<rparr>) (\<lambda>claim.
      if tcr_status claim = TC_already_terminal then eff_return ()
      else if tcr_status claim = TC_busy then eff_return ()
      else if tcr_status claim \<noteq> TC_claimed then
        eff_throw (plainError (''workspace transaction recovery is '' @
          claimStatusText (tcr_status claim) @ '': '' @ transactionId))
      else
        (let identity = \<lparr>ti_transactionId = transactionId, ti_attemptId = ''wta_'' @ uuid,
               ti_claimToken = claimToken\<rparr> in
         eff_bind (svc_leaseStart sv identity) (\<lambda>_.
         eff_block None (eff_finally (recoverBody sv canonicalRoot identity (tcr_snapshot claim))
           (eff_locals (\<lambda>helper.
              eff_bind (case helper of None \<Rightarrow> eff_return ()
                        | Some h \<Rightarrow> eff_lift (svc_terminate sv h)) (\<lambda>_.
              eff_lift (svc_leaseStop sv identity)))))))))))"

definition recoverSnapshot ::
  "'s tx_services \<Rightarrow> string \<Rightarrow> WorkspaceChangeTransactionSnapshot \<Rightarrow> ('s, thrown, unit) eff" where
  "recoverSnapshot sv canonicalRoot snapshot =
     (if tr_rootIdentitySha256 (sn_transaction snapshot) \<noteq> svc_sha sv canonicalRoot then
        eff_throw (plainError (''workspace transaction belongs to another root: '' @
          tr_id (sn_transaction snapshot)))
      else recoverOne sv canonicalRoot snapshot)"

definition recoverPendingTransactions ::
  "'s tx_services \<Rightarrow> string \<Rightarrow> string option \<Rightarrow> ('s, thrown, unit) eff" where
  "recoverPendingTransactions sv workspaceId knownRoot =
     eff_bind (case knownRoot of Some r \<Rightarrow> eff_return r
               | None \<Rightarrow> svc_canonicalize sv (svc_rootDir sv)) (\<lambda>canonicalRoot.
     eff_bind (listRecoverable sv workspaceId) (\<lambda>snapshots.
     if length snapshots > 100 then
       eff_throw (plainError ''workspace recovery exceeds the bounded transaction limit'')
     else eff_for_each (recoverSnapshot sv canonicalRoot) snapshots))"

section \<open>Execution\<close>

record WorkspaceMutationIdentity =
  mi_sourceKind :: WorkspaceChangeTransactionSourceKind
  mi_sourceId :: string
  mi_idempotencyKey :: string
  mi_ownerId :: string
  mi_proposal :: "WorkspaceChangeTransactionProposalBinding option"

record 's ExecuteWorkspaceTransactionRequest =
  ex_workspaceId :: string
  ex_changeSetId :: string
  ex_operation :: WorkspaceChangeOperationKind
  ex_undoSourceOperationId :: "string option"
  ex_mutation :: WorkspaceMutationIdentity
  ex_plan :: "('s, thrown, ChangeSetReceipt) eff"
  ex_aborted :: "'s \<Rightarrow> bool"

definition validLease :: "int \<Rightarrow> bool" where
  "validLease leaseMs \<longleftrightarrow> 10 \<le> leaseMs \<and> leaseMs \<le> 300000"

definition validateRequest :: "'s ExecuteWorkspaceTransactionRequest \<Rightarrow> thrown + unit" where
  "validateRequest request =
     res_bind (guard (\<not> (ex_workspaceId request = [] \<or> ex_changeSetId request = [] \<or>
         mi_sourceId (ex_mutation request) = [] \<or> mi_idempotencyKey (ex_mutation request) = [] \<or>
         mi_ownerId (ex_mutation request) = []))
       (plainError ''workspace transaction identity must not be empty'')) (\<lambda>_.
     guard ((ex_operation request = OK_undo) = (ex_undoSourceOperationId request \<noteq> None))
       (plainError ''workspace undo transaction requires a source operation''))"

definition normalizeFailure :: "thrown \<Rightarrow> json" where
  "normalizeFailure error =
     (if is_error error then
        JObj [(''type'', JStr ''workspace.transaction_error''), (''name'', JStr (error_name error)),
              (''message'', JStr (error_message error))]
      else JObj [(''type'', JStr ''workspace.transaction_error''), (''message'', JStr (error_message error))])"

definition abortError :: thrown where
  "abortError = ErrorObj ''AbortError'' ''workspace transaction was aborted before commit''"

definition isAbortError :: "thrown \<Rightarrow> bool" where
  "isAbortError error \<longleftrightarrow> is_error error \<and> error_name error = ''AbortError''"

text \<open>The variables that \<open>execute\<close> declares before its \<open>try\<close>.\<close>

record execute_locals =
  xl_helper :: "nat option"
  xl_files :: "WorkspaceChangeTransactionFilePlan list"
  xl_commitStarted :: bool
  xl_terminal :: "WorkspaceChangeTransactionFinalization option"

definition execute_locals_init :: execute_locals where
  "execute_locals_init = \<lparr>xl_helper = None, xl_files = [], xl_commitStarted = False, xl_terminal = None\<rparr>"

text \<open>
  \<open>settleUnchanged\<close> is the branch of a conflicted plan and of a plan that changes no
  file: the helper is not needed, and the outcome is recorded at once.
\<close>

definition settleUnchanged ::
  "'s tx_services \<Rightarrow> WorkspaceChangeTransactionIdentityRequest \<Rightarrow> nat \<Rightarrow> FinalizeOutcome \<Rightarrow>
   ChangeSetReceipt \<Rightarrow> ('s \<times> execute_locals, thrown, WorkspaceTransactionResult) eff" where
  "settleUnchanged sv identity helper outcome receipt =
     eff_bind (eff_lift (svc_terminate sv helper)) (\<lambda>_.
     eff_bind (eff_set (xl_helper_update (\<lambda>_. None))) (\<lambda>_.
     eff_bind (eff_lift (assertHealthy sv identity)) (\<lambda>_.
     eff_bind (eff_lift (svc_finalize sv identity outcome)) (\<lambda>finalization.
     eff_bind (eff_set (xl_terminal_update (\<lambda>_. Some finalization))) (\<lambda>_.
     eff_result (finalizationResult finalization receipt))))))"

definition commitPlan ::
  "'s tx_services \<Rightarrow> string \<Rightarrow> WorkspaceChangeTransactionIdentityRequest \<Rightarrow> string \<Rightarrow> nat \<Rightarrow>
   WorkspaceChangeTransactionFilePlan list \<Rightarrow> ChangeSetReceipt \<Rightarrow>
   ('s \<times> execute_locals, thrown, WorkspaceTransactionResult) eff" where
  "commitPlan sv canonicalRoot identity operationId helper files receipt =
     eff_bind (eff_lift (svc_beginCommit sv identity)) (\<lambda>_.
     eff_bind (eff_set (xl_commitStarted_update (\<lambda>_. True))) (\<lambda>_.
     eff_bind (eff_lift (svc_commit sv helper files (map fp_ordinal files)
         (svc_recordFileCommitted sv identity))) (\<lambda>_.
     eff_bind (eff_lift (assertHealthy sv identity)) (\<lambda>_.
     eff_bind (eff_lift (svc_finalize sv identity (FO_applied operationId receipt))) (\<lambda>finalization.
     eff_bind (eff_set (xl_terminal_update (\<lambda>_. Some finalization))) (\<lambda>_.
     eff_bind (eff_lift (cleanupCommittedArtifacts sv canonicalRoot (ti_transactionId identity) files helper)) (\<lambda>_.
     eff_bind (eff_set (xl_helper_update (\<lambda>_. None))) (\<lambda>_.
     eff_result (finalizationResult finalization receipt)))))))))"

definition preparePlan ::
  "'s tx_services \<Rightarrow> ('s \<Rightarrow> bool) \<Rightarrow> WorkspaceChangeTransactionIdentityRequest \<Rightarrow> nat \<Rightarrow>
   WorkspaceChangeTransactionFilePlan list \<Rightarrow> ('s \<times> execute_locals, thrown, unit) eff" where
  "preparePlan sv aborted identity helper files =
     eff_bind (eff_lift (svc_recordPlan sv identity files)) (\<lambda>_.
     eff_bind (eff_lift (svc_prepare sv helper files)) (\<lambda>_.
     eff_bind (eff_lift (svc_markPrepared sv identity)) (\<lambda>_.
     eff_bind (eff_lift (\<lambda>s. (Inr (aborted s), s))) (\<lambda>isAborted.
     if isAborted then
       eff_bind (eff_lift (svc_cleanup sv helper files)) (\<lambda>_.
       eff_bind (eff_set (xl_helper_update (\<lambda>_. None))) (\<lambda>_.
       eff_bind (eff_lift (svc_finalize sv identity FO_rolled_back)) (\<lambda>_.
       eff_throw abortError)))
     else eff_return ()))))"

definition executeBody ::
  "'s tx_services \<Rightarrow> string \<Rightarrow> WorkspaceChangeTransactionIdentityRequest \<Rightarrow> string \<Rightarrow>
   's ExecuteWorkspaceTransactionRequest \<Rightarrow>
   ('s \<times> execute_locals, thrown, WorkspaceTransactionResult) eff" where
  "executeBody sv canonicalRoot identity operationId request =
     eff_bind (eff_lift (svc_spawn sv canonicalRoot (ti_transactionId identity))) (\<lambda>helper.
     eff_bind (eff_set (xl_helper_update (\<lambda>_. Some helper))) (\<lambda>_.
     eff_bind (eff_lift (ex_plan request)) (\<lambda>receipt.
     if rc_changeSetId receipt \<noteq> ex_changeSetId request then
       eff_throw (plainError ''workspace transaction plan belongs to another changeset'')
     else if rc_status receipt = CA_conflicted then
       settleUnchanged sv identity helper (FO_conflicted operationId receipt) receipt
     else
       (let files = transactionFiles receipt in
        eff_bind (eff_set (xl_files_update (\<lambda>_. files))) (\<lambda>_.
        if files = [] then
          settleUnchanged sv identity helper (FO_applied operationId receipt) receipt
        else
          eff_bind (preparePlan sv (ex_aborted request) identity helper files) (\<lambda>_.
          commitPlan sv canonicalRoot identity operationId helper files receipt))))))"

text \<open>
  The \<open>catch\<close> block. \<open>rescueHelper\<close> is its part that disposes of the helper and answers the
  failure of the artifact cleanup, if it failed.
\<close>

definition rescueHelper ::
  "'s tx_services \<Rightarrow> execute_locals \<Rightarrow> ('s \<times> execute_locals, thrown, thrown option) eff" where
  "rescueHelper sv locals =
     (case xl_helper locals of
        None \<Rightarrow> eff_return None
      | Some helper \<Rightarrow>
          if \<not> xl_commitStarted locals \<and> xl_files locals \<noteq> [] then
            eff_try
              (eff_bind (eff_lift (svc_cleanup sv helper (xl_files locals))) (\<lambda>_. eff_return None))
              (\<lambda>cleanupError.
                 eff_bind (eff_lift (svc_terminate sv helper)) (\<lambda>_. eff_return (Some cleanupError)))
          else eff_bind (eff_lift (svc_terminate sv helper)) (\<lambda>_. eff_return None))"

definition executeCatch ::
  "'s tx_services \<Rightarrow> WorkspaceChangeTransactionIdentityRequest \<Rightarrow> thrown \<Rightarrow>
   ('s \<times> execute_locals, thrown, WorkspaceTransactionResult) eff" where
  "executeCatch sv identity error =
     eff_locals (\<lambda>locals.
     if xl_terminal locals \<noteq> None then
       eff_throw (CleanupRequiredError (ti_transactionId identity) error)
     else
       eff_bind (rescueHelper sv locals) (\<lambda>cleanupFailure.
       if \<not> xl_commitStarted locals \<and> cleanupFailure = None then
         (if isAbortError error then eff_throw error
          else eff_bind
            (eff_try (eff_lift (svc_finalize sv identity FO_rolled_back))
               (\<lambda>rollbackError. eff_throw (AggregateError [error, rollbackError]
                  ''workspace transaction failed and rollback settlement also failed''))) (\<lambda>_.
            eff_throw error))
       else
         (let failure = (case cleanupFailure of None \<Rightarrow> error
                         | Some cleanupError \<Rightarrow> AggregateError [error, cleanupError]
                             ''workspace transaction failed and artifact cleanup also failed'') in
          eff_bind
            (eff_try
               (eff_bind (eff_lift (svc_finalize sv identity (FO_recovery_required (normalizeFailure failure))))
                  (\<lambda>finalization. eff_return (Some finalization)))
               (\<lambda>_. eff_return None)) (\<lambda>finalization.
          eff_throw (RecoveryRequiredError (ti_transactionId identity) failure finalization)))))"

definition executeClaimed ::
  "'s tx_services \<Rightarrow> string \<Rightarrow> WorkspaceChangeTransactionIdentityRequest \<Rightarrow> string \<Rightarrow>
   's ExecuteWorkspaceTransactionRequest \<Rightarrow> ('s, thrown, WorkspaceTransactionResult) eff" where
  "executeClaimed sv canonicalRoot identity operationId request =
     eff_bind (svc_leaseStart sv identity) (\<lambda>_.
     eff_block execute_locals_init
       (eff_finally
          (eff_try (executeBody sv canonicalRoot identity operationId request) (executeCatch sv identity))
          (eff_lift (svc_leaseStop sv identity))))"

definition beginRequest ::
  "'s tx_services \<Rightarrow> string \<Rightarrow> string \<Rightarrow> string \<Rightarrow> string \<Rightarrow> 's ExecuteWorkspaceTransactionRequest \<Rightarrow>
   BeginWorkspaceChangeTransactionRequest" where
  "beginRequest sv canonicalRoot transactionId attemptId claimToken request =
     \<lparr>bt_id = transactionId, bt_workspaceId = ex_workspaceId request,
      bt_changeSetId = ex_changeSetId request, bt_operation = ex_operation request,
      bt_undoSourceOperationId = ex_undoSourceOperationId request,
      bt_sourceKind = mi_sourceKind (ex_mutation request),
      bt_sourceId = mi_sourceId (ex_mutation request),
      bt_idempotencyKey = mi_idempotencyKey (ex_mutation request),
      bt_rootIdentitySha256 = svc_sha sv canonicalRoot,
      bt_proposal = (if mi_sourceKind (ex_mutation request) = SK_proposal
                     then mi_proposal (ex_mutation request) else None),
      bt_attemptId = attemptId, bt_ownerId = mi_ownerId (ex_mutation request),
      bt_claimToken = claimToken, bt_leaseMs = svc_leaseMs sv\<rparr>"

definition execute ::
  "'s tx_services \<Rightarrow> 's ExecuteWorkspaceTransactionRequest \<Rightarrow>
   ('s, thrown, WorkspaceTransactionResult) eff" where
  "execute sv request =
     eff_bind (eff_result (validateRequest request)) (\<lambda>_.
     eff_bind (svc_canonicalize sv (svc_rootDir sv)) (\<lambda>canonicalRoot.
     eff_bind (recoverPendingTransactions sv (ex_workspaceId request) (Some canonicalRoot)) (\<lambda>_.
     let transactionId = durableId (svc_sha sv) ''wtx'' (mi_idempotencyKey (ex_mutation request));
         operationId = durableId (svc_sha sv) ''wop'' transactionId in
     eff_bind (svc_randomUUID sv) (\<lambda>uuid.
     eff_bind (svc_randomToken sv) (\<lambda>claimToken.
     eff_bind (svc_begin sv (beginRequest sv canonicalRoot transactionId (''wta_'' @ uuid) claimToken request)) (\<lambda>claim.
     if tcr_status claim = TC_already_terminal then
       eff_bind (cleanupTerminalArtifacts sv canonicalRoot transactionId (sn_files (tcr_snapshot claim))) (\<lambda>_.
       replayTerminalTransaction sv (ex_changeSetId request) (tcr_snapshot claim)
         (tr_workspaceOperationId (sn_transaction (tcr_snapshot claim))))
     else if tcr_status claim \<noteq> TC_claimed then
       eff_throw (plainError (''workspace transaction cannot execute: '' @ transactionId @ '' ('' @
         claimStatusText (tcr_status claim) @ '')''))
     else executeClaimed sv canonicalRoot
       \<lparr>ti_transactionId = transactionId, ti_attemptId = ''wta_'' @ uuid, ti_claimToken = claimToken\<rparr>
       operationId request))))))"

end
