(* ===== verification/Transaction_Store.thy ===== *)
theory Transaction_Store
  imports Workspace_Types
begin

text \<open>
  The durable side of a workspace transaction: crates/system-service/src/workspace/transaction
  (mod.rs, finalization.rs, validation.rs, repository.rs). A call of the store runs in one SQL
  transaction: it either answers with the new store or fails and leaves the store as it was.
  Tables are association lists by primary key. \<open>sha\<close> is SHA-256 and \<open>now\<close> the time
  of the call. The event log that the calls append to is left out; a receipt is stored as the
  value that its JSON stands for. The request types of theory Workspace_Types rule out what
  the validation of shapes (\<open>validate_finalize\<close>, known states and kinds) rejects.
\<close>

section \<open>Tables\<close>

record tx_store =
  ts_changesets :: "(string \<times> WorkspaceChangeSetRecord) list"
  ts_operations :: "WorkspaceChangeOperationRecord list"
  ts_transactions :: "(string \<times> WorkspaceChangeTransactionRecord) list"
  ts_files :: "(string \<times> WorkspaceChangeTransactionFileRecord list) list"
  ts_attempts :: "(string \<times> (WorkspaceChangeTransactionAttemptRecord \<times> string)) list"
  ts_proposals :: "(string \<times> WorkspaceChangeProposalRecord) list"
  ts_applyAttempts :: "(string \<times> (WorkspaceChangeProposalApplyAttemptRecord \<times> string)) list"

type_synonym 'a store_op = "tx_store \<Rightarrow> thrown + ('a \<times> tx_store)"

definition store_error :: "string \<Rightarrow> thrown" where
  "store_error message = ErrorObj ''StorageError'' message"

definition list_files :: "tx_store \<Rightarrow> string \<Rightarrow> WorkspaceChangeTransactionFileRecord list" where
  "list_files st tid = (case map_of (ts_files st) tid of None \<Rightarrow> [] | Some fs \<Rightarrow> fs)"

definition active_attempt :: "tx_store \<Rightarrow> string \<Rightarrow> (WorkspaceChangeTransactionAttemptRecord \<times> string) option" where
  "active_attempt st tid = List.find (\<lambda>(a, _). ta_transactionId a = tid \<and> ta_state a = TA_active)
     (map snd (ts_attempts st))"

definition snapshot_of :: "tx_store \<Rightarrow> WorkspaceChangeTransactionRecord \<Rightarrow> WorkspaceChangeTransactionSnapshot" where
  "snapshot_of st tr =
     \<lparr>sn_transaction = tr, sn_files = list_files st (tr_id tr),
      sn_activeAttempt = map_option fst (active_attempt st (tr_id tr))\<rparr>"

definition put_transaction :: "WorkspaceChangeTransactionRecord \<Rightarrow> tx_store \<Rightarrow> tx_store" where
  "put_transaction tr st = st\<lparr>ts_transactions := AList.update (tr_id tr) tr (ts_transactions st)\<rparr>"

definition put_files :: "string \<Rightarrow> WorkspaceChangeTransactionFileRecord list \<Rightarrow> tx_store \<Rightarrow> tx_store" where
  "put_files tid fs st = st\<lparr>ts_files := AList.update tid fs (ts_files st)\<rparr>"

definition put_attempt :: "WorkspaceChangeTransactionAttemptRecord \<Rightarrow> string \<Rightarrow> tx_store \<Rightarrow> tx_store" where
  "put_attempt a token_hash st = st\<lparr>ts_attempts := AList.update (ta_id a) (a, token_hash) (ts_attempts st)\<rparr>"

definition require_transaction :: "tx_store \<Rightarrow> string \<Rightarrow> thrown + WorkspaceChangeTransactionRecord" where
  "require_transaction st tid =
     (case map_of (ts_transactions st) tid of
        None \<Rightarrow> Inl (store_error (''workspace transaction does not exist: '' @ tid))
      | Some tr \<Rightarrow> Inr tr)"

definition require_live_attempt ::
  "(string \<Rightarrow> string) \<Rightarrow> int \<Rightarrow> tx_store \<Rightarrow> WorkspaceChangeTransactionIdentityRequest \<Rightarrow>
   thrown + WorkspaceChangeTransactionAttemptRecord" where
  "require_live_attempt sha now st identity =
     (case map_of (ts_attempts st) (ti_attemptId identity) of
        None \<Rightarrow> Inl (store_error (''workspace transaction attempt does not exist: '' @ ti_attemptId identity))
      | Some (a, token_hash) \<Rightarrow>
          if ta_transactionId a \<noteq> ti_transactionId identity \<or> token_hash \<noteq> sha (ti_claimToken identity) \<or>
             ta_state a \<noteq> TA_active \<or> ta_leaseExpiresAt a \<le> now
          then Inl (store_error ''workspace transaction attempt is not live or token is invalid'')
          else Inr a)"

definition transaction_is_terminal :: "WorkspaceChangeTransactionState \<Rightarrow> bool" where
  "transaction_is_terminal state \<longleftrightarrow> state = TS_applied \<or> state = TS_rolled_back"

section \<open>Validation\<close>

definition validate_token :: "string \<Rightarrow> thrown + unit" where
  "validate_token token = guard (32 \<le> length token \<and> length token \<le> 512)
     (store_error ''workspace transaction claim token must contain between 32 and 512 bytes'')"

definition validate_lease :: "int \<Rightarrow> thrown + unit" where
  "validate_lease lease_ms = guard (10 \<le> lease_ms \<and> lease_ms \<le> 300000)
     (store_error ''workspace transaction lease_ms must be between 10 and 300000'')"

definition validate_sha256 :: "string \<Rightarrow> thrown + unit" where
  "validate_sha256 v = guard (length v = 64 \<and> list_all (\<lambda>c. c \<in> set ''0123456789abcdef'') v)
     (store_error ''must be a lowercase SHA-256 digest'')"

definition validate_claim :: "WorkspaceChangeTransactionIdentityRequest \<Rightarrow> thrown + unit" where
  "validate_claim identity =
     res_bind (guard (ti_transactionId identity \<noteq> [] \<and> ti_attemptId identity \<noteq> [])
       (store_error ''workspace transaction claim identifiers must not be empty'')) (\<lambda>_.
     validate_token (ti_claimToken identity))"

definition validate_begin :: "BeginWorkspaceChangeTransactionRequest \<Rightarrow> thrown + unit" where
  "validate_begin request =
     res_bind (guard (bt_id request \<noteq> [] \<and> bt_workspaceId request \<noteq> [] \<and> bt_changeSetId request \<noteq> [] \<and>
         bt_sourceId request \<noteq> [] \<and> bt_idempotencyKey request \<noteq> [] \<and> bt_attemptId request \<noteq> [] \<and>
         bt_ownerId request \<noteq> [])
       (store_error ''workspace transaction identifiers must not be empty'')) (\<lambda>_.
     res_bind (guard ((bt_operation request = OK_undo) = (bt_undoSourceOperationId request \<noteq> None))
       (store_error ''workspace undo transaction requires exactly one source operation'')) (\<lambda>_.
     res_bind (if bt_sourceKind request = SK_proposal then
         (case bt_proposal request of
            None \<Rightarrow> Inl (store_error ''proposal workspace transaction requires proposal binding'')
          | Some b \<Rightarrow>
              res_bind (guard (pbd_proposalId b = bt_sourceId request \<and> pbd_proposalId b \<noteq> [] \<and>
                  pbd_proposalAttemptId b \<noteq> [])
                (store_error ''workspace transaction proposal binding does not match source'')) (\<lambda>_.
              validate_token (pbd_proposalClaimToken b)))
       else guard (bt_proposal request = None)
         (store_error ''non-proposal workspace transaction cannot contain proposal binding'')) (\<lambda>_.
     res_bind (validate_sha256 (bt_rootIdentitySha256 request)) (\<lambda>_.
     res_bind (validate_token (bt_claimToken request)) (\<lambda>_.
     validate_lease (bt_leaseMs request))))))"

definition relative_path_ok :: "string \<Rightarrow> bool" where
  "relative_path_ok path \<longleftrightarrow> path \<noteq> [] \<and> hd path \<noteq> CHR ''/'' \<and> last path \<noteq> CHR ''/'' \<and>
     CHR 0x5C \<notin> set path \<and> CHR 0x00 \<notin> set path \<and>
     list_all (\<lambda>part. part \<noteq> [] \<and> part \<noteq> ''.'' \<and> part \<noteq> ''..'') (js_split (CHR ''/'') path)"

definition validate_text_evidence :: "(string \<Rightarrow> string) \<Rightarrow> string option \<Rightarrow> string option \<Rightarrow> thrown + unit" where
  "validate_text_evidence sha text hash =
     (case (text, hash) of
        (None, None) \<Rightarrow> Inr ()
      | (Some t, Some h) \<Rightarrow>
          res_bind (validate_sha256 h) (\<lambda>_.
          guard (sha t = h) (store_error ''workspace transaction text does not match hash''))
      | _ \<Rightarrow> Inl (store_error ''workspace transaction text and hash must be present together''))"

definition validate_plan_file ::
  "(string \<Rightarrow> string) \<Rightarrow> string list \<Rightarrow> nat \<times> WorkspaceChangeTransactionFilePlan \<Rightarrow> thrown + string list" where
  "validate_plan_file sha paths entry =
     (case entry of (index, file) \<Rightarrow>
      res_bind (guard (fp_ordinal file = int index)
        (store_error ''workspace transaction file ordinals must be contiguous from zero'')) (\<lambda>_.
      res_bind (guard (relative_path_ok (fp_path file))
        (store_error (''workspace transaction path is not normalized and relative: '' @ fp_path file))) (\<lambda>_.
      res_bind (guard (fp_path file \<notin> set paths)
        (store_error (''workspace transaction path appears more than once: '' @ fp_path file))) (\<lambda>_.
      res_bind (validate_text_evidence sha (fp_beforeText file) (fp_beforeSha256 file)) (\<lambda>_.
      res_bind (validate_text_evidence sha (fp_afterText file) (fp_afterSha256 file)) (\<lambda>_.
      res_bind (guard (\<not> (fp_beforeText file = None \<and> fp_afterText file = None))
        (store_error (''workspace transaction file has no before or after content: '' @ fp_path file))) (\<lambda>_.
      res_bind (guard (fp_beforeText file \<noteq> fp_afterText file)
        (store_error (''workspace transaction file does not change content: '' @ fp_path file))) (\<lambda>_.
      Inr (paths @ [fp_path file])))))))))"

text \<open>
  \<open>validate_plan\<close> answers the digest of the encoded plan, by which the store tells two plans
  apart; the digest of a plan is the parameter \<open>digest\<close>.
\<close>

definition validate_plan ::
  "(string \<Rightarrow> string) \<Rightarrow> (WorkspaceChangeTransactionFilePlan list \<Rightarrow> string) \<Rightarrow>
   WorkspaceChangeTransactionFilePlan list \<Rightarrow> thrown + string" where
  "validate_plan sha digest files =
     res_bind (guard (files \<noteq> [] \<and> length files \<le> 10000)
       (store_error ''workspace transaction plan must contain between 1 and 10000 files'')) (\<lambda>_.
     res_bind (for_each (validate_plan_file sha) [] (enumerate 0 files)) (\<lambda>_.
     Inr (digest files)))"

section \<open>Claims\<close>

definition same_identity :: "WorkspaceChangeTransactionRecord \<Rightarrow> BeginWorkspaceChangeTransactionRequest \<Rightarrow> bool" where
  "same_identity tr request \<longleftrightarrow>
     tr_id tr = bt_id request \<and> tr_workspaceId tr = bt_workspaceId request \<and>
     tr_changeSetId tr = bt_changeSetId request \<and> tr_operation tr = bt_operation request \<and>
     tr_undoSourceOperationId tr = bt_undoSourceOperationId request \<and>
     tr_sourceKind tr = bt_sourceKind request \<and> tr_sourceId tr = bt_sourceId request \<and>
     tr_idempotencyKey tr = bt_idempotencyKey request \<and>
     tr_rootIdentitySha256 tr = bt_rootIdentitySha256 request \<and>
     tr_proposalApplyAttemptId tr = map_option pbd_proposalAttemptId (bt_proposal request)"

text \<open>\<open>now.checked_add\<close> of a lease, at 64 bits.\<close>

definition lease_expiry :: "int \<Rightarrow> int \<Rightarrow> thrown + int" where
  "lease_expiry now lease_ms =
     (if now + lease_ms < 2 ^ 63 then Inr (now + lease_ms) else Inl (store_error ''workspace transaction lease overflow''))"

definition existing_claim ::
  "(string \<Rightarrow> string) \<Rightarrow> int \<Rightarrow> BeginWorkspaceChangeTransactionRequest \<Rightarrow>
   WorkspaceChangeTransactionRecord \<Rightarrow> WorkspaceChangeTransactionClaimResult store_op" where
  "existing_claim sha now request tr st =
     (if \<not> same_identity tr request then
        Inl (store_error ''workspace transaction identity already exists with different immutable facts'')
      else
        Inr (\<lparr>tcr_status =
            (if transaction_is_terminal (tr_state tr) then TC_already_terminal
             else (case active_attempt st (tr_id tr) of
                None \<Rightarrow> TC_recovery_required
              | Some (a, token_hash) \<Rightarrow>
                  if ta_id a = bt_attemptId request \<and> token_hash = sha (bt_claimToken request) \<and>
                     now < ta_leaseExpiresAt a then TC_claimed
                  else if now < ta_leaseExpiresAt a then TC_busy
                  else TC_recovery_required)),
          tcr_snapshot = snapshot_of st tr\<rparr>, st))"

definition check_undo_source :: "tx_store \<Rightarrow> BeginWorkspaceChangeTransactionRequest \<Rightarrow> thrown + unit" where
  "check_undo_source st request =
     (case bt_undoSourceOperationId request of
        None \<Rightarrow> Inr ()
      | Some oid \<Rightarrow>
          (case List.find (\<lambda>op. op_id op = oid) (ts_operations st) of
             None \<Rightarrow> Inl (store_error ''workspace change operation does not exist'')
           | Some op \<Rightarrow> guard (op_changeSetId op = bt_changeSetId request \<and> op_operation op = OK_apply \<and>
                 op_status op \<in> {CA_applied, CA_already_applied})
               (store_error ''workspace undo source is not an applied operation for this changeset'')))"

definition check_binding ::
  "(string \<Rightarrow> string) \<Rightarrow> int \<Rightarrow> tx_store \<Rightarrow> BeginWorkspaceChangeTransactionRequest \<Rightarrow> thrown + string option" where
  "check_binding sha now st request =
     (case bt_proposal request of
        None \<Rightarrow> Inr None
      | Some b \<Rightarrow>
          (case map_of (ts_proposals st) (pbd_proposalId b) of
             None \<Rightarrow> Inl (store_error (''workspace proposal does not exist: '' @ pbd_proposalId b))
           | Some p \<Rightarrow>
               res_bind (guard (pr_state p = PS_applying \<and> pr_workspaceId p = bt_workspaceId request \<and>
                   pr_changeSetId p = bt_changeSetId request)
                 (store_error ''workspace transaction proposal binding is not applying this changeset'')) (\<lambda>_.
               case map_of (ts_applyAttempts st) (pbd_proposalAttemptId b) of
                 None \<Rightarrow> Inl (store_error ''workspace proposal apply attempt does not exist'')
               | Some (a, token_hash) \<Rightarrow>
                   res_bind (guard (aa_proposalId a = pbd_proposalId b \<and> aa_state a = AS_active \<and>
                       token_hash = sha (pbd_proposalClaimToken b) \<and> now < aa_leaseExpiresAt a)
                     (store_error ''workspace apply attempt is not live or token is invalid'')) (\<lambda>_.
                   Inr (Some (pbd_proposalAttemptId b))))))"

definition new_attempt ::
  "string \<Rightarrow> string \<Rightarrow> string \<Rightarrow> WorkspaceChangeTransactionAttemptKind \<Rightarrow> int \<Rightarrow> int \<Rightarrow>
   WorkspaceChangeTransactionAttemptRecord" where
  "new_attempt aid tid owner kind expires now =
     \<lparr>ta_id = aid, ta_transactionId = tid, ta_ownerId = owner, ta_kind = kind, ta_state = TA_active,
      ta_leaseExpiresAt = expires, ta_failure = None, ta_startedAt = now, ta_updatedAt = now,
      ta_finishedAt = None\<rparr>"

definition new_transaction ::
  "BeginWorkspaceChangeTransactionRequest \<Rightarrow> string option \<Rightarrow> int \<Rightarrow> WorkspaceChangeTransactionRecord" where
  "new_transaction request applyAttempt now =
     \<lparr>tr_id = bt_id request, tr_workspaceId = bt_workspaceId request, tr_changeSetId = bt_changeSetId request,
      tr_operation = bt_operation request, tr_undoSourceOperationId = bt_undoSourceOperationId request,
      tr_sourceKind = bt_sourceKind request, tr_sourceId = bt_sourceId request,
      tr_idempotencyKey = bt_idempotencyKey request, tr_rootIdentitySha256 = bt_rootIdentitySha256 request,
      tr_proposalApplyAttemptId = applyAttempt, tr_state = TS_planning, tr_planDigest = None,
      tr_recoveryDecision = None, tr_workspaceOperationId = None, tr_failure = None,
      tr_createdAt = now, tr_updatedAt = now, tr_finishedAt = None\<rparr>"

definition begin_transaction ::
  "(string \<Rightarrow> string) \<Rightarrow> int \<Rightarrow> BeginWorkspaceChangeTransactionRequest \<Rightarrow>
   WorkspaceChangeTransactionClaimResult store_op" where
  "begin_transaction sha now request st =
     res_bind (validate_begin request) (\<lambda>_.
     res_bind (lease_expiry now (bt_leaseMs request)) (\<lambda>lease_expires_at.
     case List.find (\<lambda>tr. tr_idempotencyKey tr = bt_idempotencyKey request) (map snd (ts_transactions st)) of
       Some tr \<Rightarrow> existing_claim sha now request tr st
     | None \<Rightarrow>
         (case map_of (ts_transactions st) (bt_id request) of
            Some tr \<Rightarrow> existing_claim sha now request tr st
          | None \<Rightarrow>
              (case map_of (ts_changesets st) (bt_changeSetId request) of
                 None \<Rightarrow> Inl (store_error (''workspace changeset does not exist: '' @ bt_changeSetId request))
               | Some cs \<Rightarrow>
                   res_bind (guard (csr_workspaceId cs = bt_workspaceId request)
                     (store_error ''workspace transaction changeset belongs to another workspace'')) (\<lambda>_.
                   res_bind (check_undo_source st request) (\<lambda>_.
                   res_bind (check_binding sha now st request) (\<lambda>applyAttempt.
                   res_bind (guard (map_of (ts_attempts st) (bt_attemptId request) = None)
                     (store_error ''UNIQUE constraint failed'')) (\<lambda>_.
                   let tr = new_transaction request applyAttempt now;
                       a = new_attempt (bt_attemptId request) (bt_id request) (bt_ownerId request)
                             AK_execution lease_expires_at now;
                       st' = put_attempt a (sha (bt_claimToken request)) (put_transaction tr st)
                   in Inr (\<lparr>tcr_status = TC_claimed, tcr_snapshot = snapshot_of st' tr\<rparr>, st')))))))))"

definition expire_attempt :: "int \<Rightarrow> WorkspaceChangeTransactionAttemptRecord \<Rightarrow> WorkspaceChangeTransactionAttemptRecord" where
  "expire_attempt now a = a\<lparr>ta_state := TA_failed,
     ta_failure := Some (JObj [(''type'', JStr ''workspace_transaction.lease_expired'')]),
     ta_updatedAt := now, ta_finishedAt := Some now\<rparr>"

definition claim_recovery ::
  "(string \<Rightarrow> string) \<Rightarrow> int \<Rightarrow> ClaimWorkspaceChangeTransactionRecoveryRequest \<Rightarrow>
   WorkspaceChangeTransactionClaimResult store_op" where
  "claim_recovery sha now request st =
     res_bind (guard (ctr_transactionId request \<noteq> [] \<and> ctr_attemptId request \<noteq> [] \<and> ctr_ownerId request \<noteq> [])
       (store_error ''workspace transaction claim identifiers must not be empty'')) (\<lambda>_.
     res_bind (validate_token (ctr_claimToken request)) (\<lambda>_.
     res_bind (validate_lease (ctr_leaseMs request)) (\<lambda>_.
     res_bind (lease_expiry now (ctr_leaseMs request)) (\<lambda>lease_expires_at.
     res_bind (require_transaction st (ctr_transactionId request)) (\<lambda>tr.
     if transaction_is_terminal (tr_state tr) then
       Inr (\<lparr>tcr_status = TC_already_terminal, tcr_snapshot = snapshot_of st tr\<rparr>, st)
     else
       (let claim_new = (\<lambda>st'.
          res_bind (guard (map_of (ts_attempts st') (ctr_attemptId request) = None)
            (store_error (''workspace transaction attempt id was already used: '' @ ctr_attemptId request))) (\<lambda>_.
          let a = new_attempt (ctr_attemptId request) (ctr_transactionId request) (ctr_ownerId request)
                AK_recovery lease_expires_at now;
              st'' = put_attempt a (sha (ctr_claimToken request)) st'
          in Inr (\<lparr>tcr_status = TC_claimed, tcr_snapshot = snapshot_of st'' tr\<rparr>, st''))) in
        case active_attempt st (ctr_transactionId request) of
          None \<Rightarrow> claim_new st
        | Some (a, token_hash) \<Rightarrow>
            if ta_id a = ctr_attemptId request \<and> token_hash = sha (ctr_claimToken request) \<and> now < ta_leaseExpiresAt a then
              Inr (\<lparr>tcr_status = TC_claimed, tcr_snapshot = snapshot_of st tr\<rparr>, st)
            else if now < ta_leaseExpiresAt a then
              Inr (\<lparr>tcr_status = TC_busy, tcr_snapshot = snapshot_of st tr\<rparr>, st)
            else claim_new (put_attempt (expire_attempt now a) token_hash st)))))))"

definition renew_attempt ::
  "(string \<Rightarrow> string) \<Rightarrow> int \<Rightarrow> WorkspaceChangeTransactionIdentityRequest \<Rightarrow> int \<Rightarrow> unit store_op" where
  "renew_attempt sha now identity lease_ms st =
     res_bind (validate_claim identity) (\<lambda>_.
     res_bind (validate_lease lease_ms) (\<lambda>_.
     res_bind (lease_expiry now lease_ms) (\<lambda>lease_expires_at.
     res_bind (require_transaction st (ti_transactionId identity)) (\<lambda>_.
     res_bind (require_live_attempt sha now st identity) (\<lambda>a.
     Inr ((), put_attempt (a\<lparr>ta_leaseExpiresAt := lease_expires_at, ta_updatedAt := now\<rparr>)
       (sha (ti_claimToken identity)) st))))))"

section \<open>Progress\<close>

definition planned_file :: "string \<Rightarrow> int \<Rightarrow> WorkspaceChangeTransactionFilePlan \<Rightarrow> WorkspaceChangeTransactionFileRecord" where
  "planned_file tid now file =
     \<lparr>tf_transactionId = tid, tf_ordinal = fp_ordinal file, tf_path = fp_path file,
      tf_beforeText = fp_beforeText file, tf_beforeSha256 = fp_beforeSha256 file,
      tf_afterText = fp_afterText file, tf_afterSha256 = fp_afterSha256 file,
      tf_state = FS_pending, tf_updatedAt = now\<rparr>"

definition record_plan ::
  "(string \<Rightarrow> string) \<Rightarrow> (WorkspaceChangeTransactionFilePlan list \<Rightarrow> string) \<Rightarrow> int \<Rightarrow>
   WorkspaceChangeTransactionIdentityRequest \<Rightarrow> WorkspaceChangeTransactionFilePlan list \<Rightarrow> unit store_op" where
  "record_plan sha digest now identity files st =
     res_bind (validate_claim identity) (\<lambda>_.
     res_bind (validate_plan sha digest files) (\<lambda>plan_digest.
     res_bind (require_transaction st (ti_transactionId identity)) (\<lambda>tr.
     res_bind (require_live_attempt sha now st identity) (\<lambda>_.
     case tr_planDigest tr of
       Some existing \<Rightarrow>
         res_bind (guard (existing = plan_digest)
           (store_error ''workspace transaction already has a different durable plan'')) (\<lambda>_. Inr ((), st))
     | None \<Rightarrow>
         res_bind (guard (tr_state tr = TS_planning)
           (store_error ''workspace transaction cannot record plan from its state'')) (\<lambda>_.
         Inr ((), put_transaction (tr\<lparr>tr_planDigest := Some plan_digest, tr_updatedAt := now\<rparr>)
           (put_files (tr_id tr) (list_files st (tr_id tr) @ map (planned_file (tr_id tr) now) files) st)))))))"

text \<open>\<open>transition_transaction\<close>; a repeated transition answers at once.\<close>

definition transition_transaction ::
  "(string \<Rightarrow> string) \<Rightarrow> int \<Rightarrow> WorkspaceChangeTransactionIdentityRequest \<Rightarrow>
   WorkspaceChangeTransactionState \<Rightarrow> WorkspaceChangeTransactionState \<Rightarrow> bool \<Rightarrow> bool \<Rightarrow> unit store_op" where
  "transition_transaction sha now identity from_state to_state mark_files_prepared require_plan st =
     res_bind (validate_claim identity) (\<lambda>_.
     res_bind (require_transaction st (ti_transactionId identity)) (\<lambda>tr.
     res_bind (require_live_attempt sha now st identity) (\<lambda>_.
     if tr_state tr = to_state then Inr ((), st)
     else
       res_bind (guard (tr_state tr = from_state)
         (store_error ''workspace transaction cannot transition'')) (\<lambda>_.
       res_bind (guard (\<not> (require_plan \<and> tr_planDigest tr = None))
         (store_error ''workspace transaction cannot prepare before recording a durable plan'')) (\<lambda>_.
       Inr ((), put_transaction (tr\<lparr>tr_state := to_state, tr_updatedAt := now\<rparr>)
         (if mark_files_prepared then
            put_files (tr_id tr) (map (\<lambda>f. if tf_state f = FS_pending
                then f\<lparr>tf_state := FS_prepared, tf_updatedAt := now\<rparr> else f) (list_files st (tr_id tr))) st
          else st)))))))"

definition mark_prepared ::
  "(string \<Rightarrow> string) \<Rightarrow> int \<Rightarrow> WorkspaceChangeTransactionIdentityRequest \<Rightarrow> unit store_op" where
  "mark_prepared sha now identity = transition_transaction sha now identity TS_planning TS_prepared True True"

definition begin_commit ::
  "(string \<Rightarrow> string) \<Rightarrow> int \<Rightarrow> WorkspaceChangeTransactionIdentityRequest \<Rightarrow> unit store_op" where
  "begin_commit sha now identity = transition_transaction sha now identity TS_prepared TS_committing False False"

definition record_file_committed ::
  "(string \<Rightarrow> string) \<Rightarrow> int \<Rightarrow> WorkspaceChangeTransactionIdentityRequest \<Rightarrow> int \<Rightarrow> unit store_op" where
  "record_file_committed sha now identity ordinal st =
     res_bind (validate_claim identity) (\<lambda>_.
     res_bind (guard (0 \<le> ordinal)
       (store_error ''workspace transaction file ordinal cannot be negative'')) (\<lambda>_.
     res_bind (require_transaction st (ti_transactionId identity)) (\<lambda>tr.
     res_bind (guard (tr_state tr = TS_committing)
       (store_error ''workspace transaction is not committing'')) (\<lambda>_.
     res_bind (require_live_attempt sha now st identity) (\<lambda>_.
     case List.find (\<lambda>f. tf_ordinal f = ordinal) (list_files st (tr_id tr)) of
       None \<Rightarrow> Inl (store_error ''workspace transaction file does not exist'')
     | Some file \<Rightarrow>
         res_bind (guard (tf_state file \<noteq> FS_pending)
           (store_error ''workspace transaction file is not prepared'')) (\<lambda>_.
         Inr ((), put_files (tr_id tr) (map (\<lambda>f. if tf_ordinal f = ordinal \<and> tf_state f = FS_prepared
             then f\<lparr>tf_state := FS_committed, tf_updatedAt := now\<rparr> else f) (list_files st (tr_id tr))) st)))))))"

section \<open>Reconciliation\<close>

definition reconcile_decision ::
  "WorkspaceChangeTransactionState \<Rightarrow> observed list \<Rightarrow> WorkspaceChangeTransactionRecoveryDecision" where
  "reconcile_decision state currents =
     (if OB_other \<in> set currents then RD_attention
      else if list_all (\<lambda>c. c = OB_after) currents then RD_finalize
      else if state = TS_committing \<or> OB_after \<in> set currents then RD_finish_forward
      else RD_rollback_noop)"

definition collect_observations ::
  "WorkspaceChangeTransactionFileObservation list \<Rightarrow> thrown + (int \<times> observed) list" where
  "collect_observations observations =
     for_each (\<lambda>m ob.
       if ob_ordinal ob < 0 \<or> map_of m (ob_ordinal ob) \<noteq> None
       then Inl (store_error ''workspace transaction observations must be unique and classified'')
       else Inr (AList.update (ob_ordinal ob) (ob_current ob) m)) [] observations"

definition reconcile_files ::
  "(string \<Rightarrow> string) \<Rightarrow> int \<Rightarrow> WorkspaceChangeTransactionIdentityRequest \<Rightarrow>
   WorkspaceChangeTransactionFileObservation list \<Rightarrow> WorkspaceChangeTransactionReconciliation store_op" where
  "reconcile_files sha now identity observations st =
     res_bind (validate_claim identity) (\<lambda>_.
     res_bind (collect_observations observations) (\<lambda>by_ordinal.
     res_bind (require_transaction st (ti_transactionId identity)) (\<lambda>tr.
     res_bind (guard (\<not> transaction_is_terminal (tr_state tr))
       (store_error ''terminal workspace transaction cannot be reconciled'')) (\<lambda>_.
     res_bind (require_live_attempt sha now st identity) (\<lambda>a.
     res_bind (guard (ta_kind a = AK_recovery)
       (store_error ''workspace transaction reconciliation requires recovery ownership'')) (\<lambda>_.
     let files = list_files st (tr_id tr) in
     res_bind (guard (files \<noteq> [] \<and> length files = length by_ordinal)
       (store_error ''workspace transaction reconciliation must observe every durable file'')) (\<lambda>_.
     res_bind (guard (list_all (\<lambda>(ordinal, _). ordinal \<in> set (map tf_ordinal files)) by_ordinal)
       (store_error ''workspace transaction reconciliation contains an unknown ordinal'')) (\<lambda>_.
     let current = (\<lambda>f. the (map_of by_ordinal (tf_ordinal f)));
         decision = reconcile_decision (tr_state tr) (map current files);
         tr' = (if decision = RD_attention
                then tr\<lparr>tr_state := TS_recovery_required, tr_recoveryDecision := Some RD_attention, tr_updatedAt := now\<rparr>
                else tr\<lparr>tr_recoveryDecision := Some decision, tr_updatedAt := now\<rparr>);
         st' = put_transaction tr' (put_files (tr_id tr) (map (\<lambda>f. f\<lparr>tf_state :=
             (if current f = OB_after then FS_committed else FS_prepared), tf_updatedAt := now\<rparr>) files) st)
     in Inr (\<lparr>rec_decision = decision, rec_snapshot = snapshot_of st' tr'\<rparr>, st')))))))))"

section \<open>Finalisation\<close>

definition receipt_proves_noop :: "ChangeSetReceipt \<Rightarrow> bool" where
  "receipt_proves_noop receipt \<longleftrightarrow> rc_files receipt \<noteq> [] \<and>
     rc_status receipt \<in> {CA_already_applied, CA_applied} \<and>
     list_all (\<lambda>f. af_beforeText f = af_afterText f \<and> af_beforeSha256 f = af_afterSha256 f) (rc_files receipt)"

definition outcome_evidence ::
  "WorkspaceChangeTransactionRecord \<Rightarrow> WorkspaceChangeTransactionFileRecord list \<Rightarrow>
   WorkspaceChangeTransactionAttemptKind \<Rightarrow> FinalizeOutcome \<Rightarrow> thrown + unit" where
  "outcome_evidence tr files kind outcome =
     (case outcome of
        FO_applied oid receipt \<Rightarrow>
          guard ((files = [] \<and> tr_state tr = TS_planning \<and> receipt_proves_noop receipt) \<or>
              (files \<noteq> [] \<and> list_all (\<lambda>f. tf_state f = FS_committed) files \<and>
               tr_state tr \<in> {TS_committing, TS_recovery_required} \<and>
               (tr_state tr \<noteq> TS_recovery_required \<or> tr_recoveryDecision tr = Some RD_finalize)))
            (store_error ''workspace transaction cannot finalize applied without committed file evidence'')
      | FO_conflicted oid receipt \<Rightarrow>
          guard (\<not> (tr_state tr \<noteq> TS_planning \<or> list_ex (\<lambda>f. tf_state f = FS_committed) files))
            (store_error ''workspace transaction conflict is not a proven pre-commit outcome'')
      | FO_rolled_back \<Rightarrow>
          guard ((kind = AK_execution \<and> tr_state tr \<in> {TS_planning, TS_prepared} \<and>
                list_all (\<lambda>f. tf_state f \<noteq> FS_committed) files) \<or>
              (kind = AK_recovery \<and> (tr_recoveryDecision tr = Some RD_rollback_noop \<or>
                (files = [] \<and> tr_planDigest tr = None \<and> tr_state tr \<in> {TS_planning, TS_recovery_required}))))
            (store_error ''workspace transaction rollback lacks no-op evidence'')
      | FO_recovery_required failure \<Rightarrow> Inr ())"

fun outcome_state :: "FinalizeOutcome \<Rightarrow> WorkspaceChangeTransactionState" where
  "outcome_state (FO_applied oid receipt) = TS_applied"
| "outcome_state (FO_conflicted oid receipt) = TS_rolled_back"
| "outcome_state FO_rolled_back = TS_rolled_back"
| "outcome_state (FO_recovery_required failure) = TS_recovery_required"

fun outcome_operation :: "FinalizeOutcome \<Rightarrow> (string \<times> ChangeSetReceipt) option" where
  "outcome_operation (FO_applied oid receipt) = Some (oid, receipt)"
| "outcome_operation (FO_conflicted oid receipt) = Some (oid, receipt)"
| "outcome_operation FO_rolled_back = None"
| "outcome_operation (FO_recovery_required failure) = None"

fun outcome_failure :: "FinalizeOutcome \<Rightarrow> json option" where
  "outcome_failure (FO_recovery_required failure) = Some failure"
| "outcome_failure _ = None"

definition status_valid :: "WorkspaceChangeTransactionRecord \<Rightarrow> FinalizeOutcome \<Rightarrow> ChangeApplyStatus \<Rightarrow> bool" where
  "status_valid tr outcome status =
     (case outcome of
        FO_conflicted oid receipt \<Rightarrow> status = CA_conflicted
      | _ \<Rightarrow> if tr_operation tr = OK_apply then status \<in> {CA_applied, CA_already_applied}
             else status = CA_applied)"

fun changeset_state :: "WorkspaceChangeOperationKind \<Rightarrow> ChangeApplyStatus \<Rightarrow> WorkspaceChangeSetState" where
  "changeset_state OK_apply CA_applied = CS_applied"
| "changeset_state OK_apply CA_already_applied = CS_already_applied"
| "changeset_state OK_apply CA_conflicted = CS_conflicted"
| "changeset_state OK_undo CA_conflicted = CS_undo_conflicted"
| "changeset_state OK_undo _ = CS_undone"

definition insert_operation ::
  "int \<Rightarrow> WorkspaceChangeTransactionRecord \<Rightarrow> FinalizeOutcome \<Rightarrow> WorkspaceChangeOperationRecord option store_op" where
  "insert_operation now tr outcome st =
     (case outcome_operation outcome of
        None \<Rightarrow> Inr (None, st)
      | Some (oid, receipt) \<Rightarrow>
          res_bind (guard (rc_changeSetId receipt = tr_changeSetId tr)
            (store_error ''workspace transaction receipt belongs to another changeset'')) (\<lambda>_.
          res_bind (guard (status_valid tr outcome (rc_status receipt))
            (store_error ''workspace transaction receipt status does not match outcome'')) (\<lambda>_.
          res_bind (guard (oid \<notin> set (map op_id (ts_operations st)))
            (store_error ''UNIQUE constraint failed'')) (\<lambda>_.
          let op = \<lparr>op_id = oid, op_changeSetId = tr_changeSetId tr, op_operation = tr_operation tr,
                op_status = rc_status receipt, op_receipt = receipt, op_createdAt = now\<rparr>
          in Inr (Some op, st\<lparr>ts_operations := ts_operations st @ [op],
               ts_changesets := map (\<lambda>(k, cs). (k, if k = tr_changeSetId tr
                 then cs\<lparr>csr_currentState := changeset_state (tr_operation tr) (rc_status receipt), csr_updatedAt := now\<rparr>
                 else cs)) (ts_changesets st)\<rparr>)))))"

fun outcome_apply_state :: "FinalizeOutcome \<Rightarrow> WorkspaceChangeProposalApplyAttemptState \<times> WorkspaceChangeProposalState" where
  "outcome_apply_state (FO_applied oid receipt) = (AS_applied, PS_applied)"
| "outcome_apply_state (FO_conflicted oid receipt) = (AS_failed, PS_apply_failed)"
| "outcome_apply_state FO_rolled_back = (AS_failed, PS_apply_requested)"
| "outcome_apply_state (FO_recovery_required failure) = (AS_recovery_required, PS_recovery_required)"

definition settle_bound_proposal ::
  "int \<Rightarrow> WorkspaceChangeTransactionRecord \<Rightarrow> FinalizeOutcome \<Rightarrow> unit store_op" where
  "settle_bound_proposal now tr outcome st =
     (case tr_proposalApplyAttemptId tr of
        None \<Rightarrow> Inr ((), st)
      | Some aid \<Rightarrow>
          (case map_of (ts_applyAttempts st) aid of
             None \<Rightarrow> Inl (store_error ''workspace transaction lost its proposal apply binding'')
           | Some (a, token_hash) \<Rightarrow>
               (case map_of (ts_proposals st) (aa_proposalId a) of
                  None \<Rightarrow> Inl (store_error ''workspace transaction lost its proposal binding'')
                | Some p \<Rightarrow>
                    res_bind (guard (pr_changeSetId p = tr_changeSetId tr \<and>
                        aa_state a \<in> {AS_active, AS_recovery_required} \<and>
                        pr_state p \<in> {PS_applying, PS_recovery_required})
                      (store_error ''workspace transaction proposal binding is no longer settleable'')) (\<lambda>_.
                    let (attempt_state, proposal_state) = outcome_apply_state outcome;
                        closed = proposal_state \<in> {PS_applied, PS_apply_failed};
                        failure = (case outcome of
                            FO_conflicted oid receipt \<Rightarrow> Some (JObj [(''type'', JStr ''workspace.apply_conflicted'')])
                          | _ \<Rightarrow> outcome_failure outcome);
                        a' = a\<lparr>aa_state := attempt_state,
                               aa_workspaceOperationId := map_option fst (outcome_operation outcome),
                               aa_failure := failure, aa_updatedAt := now,
                               aa_finishedAt := (if attempt_state = AS_recovery_required then None else Some now)\<rparr>;
                        p' = p\<lparr>pr_state := proposal_state, pr_updatedAt := now,
                               pr_closedAt := (if closed then Some now else None)\<rparr>
                    in Inr ((), st\<lparr>ts_applyAttempts := AList.update aid (a', token_hash) (ts_applyAttempts st),
                         ts_proposals := AList.update (aa_proposalId a) p' (ts_proposals st)\<rparr>)))))"

definition read_finalization ::
  "tx_store \<Rightarrow> WorkspaceChangeTransactionRecord \<Rightarrow> thrown + WorkspaceChangeTransactionFinalization" where
  "read_finalization st tr =
     res_bind (case tr_workspaceOperationId tr of None \<Rightarrow> Inr None
         | Some oid \<Rightarrow> (case List.find (\<lambda>op. op_id op = oid) (ts_operations st) of
              None \<Rightarrow> Inl (store_error ''Query returned no rows'') | Some op \<Rightarrow> Inr (Some op))) (\<lambda>operation.
     (let bound = (case tr_proposalApplyAttemptId tr of None \<Rightarrow> None
                   | Some aid \<Rightarrow> map_option fst (map_of (ts_applyAttempts st) aid)) in
      Inr \<lparr>fin_snapshot = snapshot_of st tr, fin_operation = operation,
       fin_proposal = (case bound of None \<Rightarrow> None | Some a \<Rightarrow> map_of (ts_proposals st) (aa_proposalId a)),
       fin_proposalAttempt = bound\<rparr>))"

definition replay_finalization ::
  "(string \<Rightarrow> string) \<Rightarrow> WorkspaceChangeTransactionIdentityRequest \<Rightarrow> FinalizeOutcome \<Rightarrow>
   WorkspaceChangeTransactionRecord \<Rightarrow> WorkspaceChangeTransactionFinalization store_op" where
  "replay_finalization sha identity outcome tr st =
     (case map_of (ts_attempts st) (ti_attemptId identity) of
        None \<Rightarrow> Inl (store_error (''workspace transaction attempt does not exist: '' @ ti_attemptId identity))
      | Some (a, token_hash) \<Rightarrow>
          res_bind (guard (ta_transactionId a = tr_id tr \<and> token_hash = sha (ti_claimToken identity))
            (store_error ''workspace transaction finalization replay token is invalid'')) (\<lambda>_.
          res_bind (guard (tr_state tr = outcome_state outcome \<and>
              tr_workspaceOperationId tr = map_option fst (outcome_operation outcome))
            (store_error ''workspace transaction was finalized with a different outcome'')) (\<lambda>_.
          res_bind (read_finalization st tr) (\<lambda>finalization. Inr (finalization, st)))))"

definition settle_attempt ::
  "int \<Rightarrow> FinalizeOutcome \<Rightarrow> WorkspaceChangeTransactionAttemptRecord \<Rightarrow> WorkspaceChangeTransactionAttemptRecord" where
  "settle_attempt now outcome a = a\<lparr>
     ta_state := (case outcome of FO_recovery_required _ \<Rightarrow> TA_failed | _ \<Rightarrow> TA_completed),
     ta_failure := (case outcome of FO_recovery_required failure \<Rightarrow> Some failure
        | FO_rolled_back \<Rightarrow> Some (JObj [(''type'', JStr ''workspace_transaction.rolled_back'')])
        | _ \<Rightarrow> None),
     ta_updatedAt := now, ta_finishedAt := Some now\<rparr>"

definition settle_transaction ::
  "int \<Rightarrow> FinalizeOutcome \<Rightarrow> WorkspaceChangeTransactionRecord \<Rightarrow> WorkspaceChangeTransactionRecord" where
  "settle_transaction now outcome tr = tr\<lparr>tr_state := outcome_state outcome,
     tr_workspaceOperationId := map_option fst (outcome_operation outcome),
     tr_failure := outcome_failure outcome, tr_updatedAt := now,
     tr_finishedAt := (case outcome of FO_recovery_required _ \<Rightarrow> None | _ \<Rightarrow> Some now)\<rparr>"

definition finalize_transaction ::
  "(string \<Rightarrow> string) \<Rightarrow> int \<Rightarrow> WorkspaceChangeTransactionIdentityRequest \<Rightarrow> FinalizeOutcome \<Rightarrow>
   WorkspaceChangeTransactionFinalization store_op" where
  "finalize_transaction sha now identity outcome st =
     res_bind (validate_claim identity) (\<lambda>_.
     res_bind (require_transaction st (ti_transactionId identity)) (\<lambda>tr.
     if transaction_is_terminal (tr_state tr) \<or>
        (tr_state tr = TS_recovery_required \<and> outcome_state outcome = TS_recovery_required \<and>
         tr_failure tr = outcome_failure outcome)
     then replay_finalization sha identity outcome tr st
     else
       res_bind (require_live_attempt sha now st identity) (\<lambda>a.
       res_bind (outcome_evidence tr (list_files st (tr_id tr)) (ta_kind a) outcome) (\<lambda>_.
       res_bind (insert_operation now tr outcome st) (\<lambda>(operation, st1).
       let tr' = settle_transaction now outcome tr;
           st2 = put_attempt (settle_attempt now outcome a) (sha (ti_claimToken identity)) (put_transaction tr' st1) in
       res_bind (settle_bound_proposal now tr outcome st2) (\<lambda>(_, st3).
       res_bind (read_finalization st3 tr') (\<lambda>finalization.
       Inr (finalization\<lparr>fin_operation := operation\<rparr>, st3))))))))"

section \<open>Queries\<close>

definition compare_updated :: "WorkspaceChangeTransactionRecord \<Rightarrow> WorkspaceChangeTransactionRecord \<Rightarrow> int" where
  "compare_updated l r =
     (if tr_updatedAt l \<noteq> tr_updatedAt r then tr_updatedAt r - tr_updatedAt l
      else if tr_id l < tr_id r then -1 else if tr_id l = tr_id r then 0 else 1)"

definition clamp_limit :: "int option \<Rightarrow> nat" where
  "clamp_limit limit = nat (max 1 (min 1000 (case limit of None \<Rightarrow> 100 | Some n \<Rightarrow> n)))"

definition list_transactions ::
  "ListWorkspaceChangeTransactionsRequest \<Rightarrow> WorkspaceChangeTransactionSnapshot list store_op" where
  "list_transactions request st =
     Inr (map (snapshot_of st) (take (clamp_limit (lt_limit request)) (sort_by compare_updated
       (filter (\<lambda>tr. (case lt_workspaceId request of None \<Rightarrow> True | Some w \<Rightarrow> tr_workspaceId tr = w) \<and>
                     (case lt_state request of None \<Rightarrow> True | Some s \<Rightarrow> tr_state tr = s))
          (map snd (ts_transactions st))))), st)"

definition compare_operations :: "WorkspaceChangeOperationRecord \<Rightarrow> WorkspaceChangeOperationRecord \<Rightarrow> int" where
  "compare_operations l r =
     (if op_createdAt l \<noteq> op_createdAt r then op_createdAt l - op_createdAt r
      else if op_id l < op_id r then -1 else if op_id l = op_id r then 0 else 1)"

definition list_operations :: "string \<Rightarrow> WorkspaceChangeOperationRecord list store_op" where
  "list_operations csid st =
     res_bind (guard (csid \<noteq> []) (store_error ''workspace operation changeset_id must not be empty'')) (\<lambda>_.
     Inr (sort_by compare_operations (filter (\<lambda>op. op_changeSetId op = csid) (ts_operations st)), st))"

definition get_changeset :: "string \<Rightarrow> WorkspaceChangeSetRecord option store_op" where
  "get_changeset csid st =
     res_bind (guard (csid \<noteq> []) (store_error ''workspace changeset id must not be empty'')) (\<lambda>_.
     Inr (map_of (ts_changesets st) csid, st))"

definition put_changeset :: "int \<Rightarrow> PutWorkspaceChangeSetRequest \<Rightarrow> WorkspaceChangeSetRecord store_op" where
  "put_changeset now request st =
     res_bind (guard (pcs_workspaceId request \<noteq> [])
       (store_error ''workspace changeset workspace_id must not be empty'')) (\<lambda>_.
     res_bind (guard (pcs_principalId request \<noteq> [])
       (store_error ''workspace changeset principal_id must not be empty'')) (\<lambda>_.
     res_bind (guard (cs_id (pcs_changeSet request) \<noteq> [])
       (store_error ''workspace changeset id must not be empty'')) (\<lambda>_.
     res_bind (guard (cs_changes (pcs_changeSet request) \<noteq> [])
       (store_error ''workspace changeset must include at least one file change'')) (\<lambda>_.
     case map_of (ts_changesets st) (cs_id (pcs_changeSet request)) of
       Some cs \<Rightarrow>
         res_bind (guard (csr_changeSet cs = pcs_changeSet request \<and>
             csr_workspaceId cs = pcs_workspaceId request \<and> csr_principalId cs = pcs_principalId request)
           (store_error (''workspace changeset id already exists with different content: '' @
             cs_id (pcs_changeSet request)))) (\<lambda>_.
         Inr (cs, st))
     | None \<Rightarrow>
         (let cs = \<lparr>csr_id = cs_id (pcs_changeSet request), csr_workspaceId = pcs_workspaceId request,
                csr_principalId = pcs_principalId request, csr_title = cs_title (pcs_changeSet request),
                csr_baseRevision = cs_baseRevision (pcs_changeSet request),
                csr_changeSet = pcs_changeSet request, csr_currentState = CS_submitted,
                csr_createdAt = now, csr_updatedAt = now\<rparr>
          in Inr (cs, st\<lparr>ts_changesets := AList.update (csr_id cs) cs (ts_changesets st)\<rparr>))))))"

end
