(* ===== verification/Transaction_World.thy ===== *)
theory Transaction_World
  imports Transaction Transaction_Store
begin

text \<open>
  The world that a workspace transaction runs in: the files, the helper process of
  crates/system-service/src/workspace_transaction.rs, the durable store, the clock, and faults.

  Every call of the transaction runtime into this world takes one entry of the list of faults:
  the call may succeed, fail without effect, fail after its effect (a lost answer), or the
  process may crash, after which every call fails without effect. The helper takes one entry
  per file, so that it can die in the middle of a command; it can also die in the middle of
  writing a temporary file (\<open>F_torn k\<close>), of which \<open>k\<close> characters are then on disk. The renames
  of a commit happen or do not happen. An entry also says how much time
  passes and whether the lease timer renews the lease before the call. An empty list of faults
  means that nothing goes wrong and no time passes.

  The paths of the temporary and backup files that the helper owns are a name space of their
  own, by transaction and ordinal. What the helper's client makes of the frames of a helper
  that finishes or dies is theory Transaction_Process.
\<close>

section \<open>State\<close>

datatype fault_kind = F_ok | F_fail | F_lost | F_crash | F_torn nat

record fault =
  fl_kind :: fault_kind
  fl_delay :: nat
  fl_renew :: bool

type_synonym wire_plan = "int \<times> string \<times> string option \<times> string option \<times> string option"

record helper =
  hs_transactionId :: string
  hs_prepared :: "wire_plan list option"
  hs_alive :: bool

record world =
  w_store :: tx_store
  w_fs :: "string \<Rightarrow> string option"
  w_tmp :: "string \<times> int \<Rightarrow> string option"
  w_backup :: "string \<times> int \<Rightarrow> string option"
  w_helpers :: "helper list"
  w_now :: int
  w_nextId :: nat
  w_lease :: "WorkspaceChangeTransactionIdentityRequest option"
  w_leaseLost :: bool
  w_faults :: "fault list"
  w_crashed :: bool

record env =
  en_sha :: "string \<Rightarrow> string"
  en_digest :: "WorkspaceChangeTransactionFilePlan list \<Rightarrow> string"
  en_localeCompare :: "string \<Rightarrow> string \<Rightarrow> int"
  en_uuid :: "nat \<Rightarrow> string"
  en_token :: "nat \<Rightarrow> string"
  en_leaseMs :: int
  en_rootDir :: string
  en_canonicalRoot :: string

section \<open>Faults\<close>

definition renew_lease :: "env \<Rightarrow> world \<Rightarrow> world" where
  "renew_lease en w =
     (case w_lease w of
        None \<Rightarrow> w
      | Some identity \<Rightarrow>
          if w_leaseLost w then w
          else (case renew_attempt (en_sha en) (w_now w) identity (en_leaseMs en) (w_store w) of
                  Inl _ \<Rightarrow> w\<lparr>w_leaseLost := True\<rparr>
                | Inr (_, st) \<Rightarrow> w\<lparr>w_store := st\<rparr>))"

definition tick :: "env \<Rightarrow> world \<Rightarrow> fault_kind \<times> world" where
  "tick en w =
     (if w_crashed w then (F_crash, w)
      else (case w_faults w of
              [] \<Rightarrow> (F_ok, w)
            | f # fs \<Rightarrow>
                (let w' = w\<lparr>w_faults := fs, w_now := w_now w + int (fl_delay f)\<rparr> in
                 (fl_kind f, if fl_renew f then renew_lease en w' else w'))))"

definition io_error :: thrown where
  "io_error = ErrorObj ''Error'' ''i/o failure''"

definition crash_error :: thrown where
  "crash_error = ErrorObj ''Error'' ''crashed''"

definition world_call :: "env \<Rightarrow> (world \<Rightarrow> thrown + ('a \<times> world)) \<Rightarrow> (world, thrown, 'a) eff" where
  "world_call en call w =
     (case tick en w of (kind, w1) \<Rightarrow>
      case kind of
        F_ok \<Rightarrow> (case call w1 of Inl e \<Rightarrow> (Inl e, w1) | Inr (x, w2) \<Rightarrow> (Inr x, w2))
      | F_fail \<Rightarrow> (Inl io_error, w1)
      | F_lost \<Rightarrow> (case call w1 of Inl e \<Rightarrow> (Inl e, w1) | Inr (_, w2) \<Rightarrow> (Inl io_error, w2))
      | F_crash \<Rightarrow> (Inl crash_error, w1\<lparr>w_crashed := True\<rparr>)
      | F_torn _ \<Rightarrow> (Inl io_error, w1))"

definition on_store :: "(int \<Rightarrow> 'a store_op) \<Rightarrow> world \<Rightarrow> thrown + ('a \<times> world)" where
  "on_store op w =
     (case op (w_now w) (w_store w) of Inl e \<Rightarrow> Inl e | Inr (x, st) \<Rightarrow> Inr (x, w\<lparr>w_store := st\<rparr>))"

section \<open>The helper\<close>

definition wirePlan :: "WorkspaceChangeTransactionFilePlan \<Rightarrow> wire_plan" where
  "wirePlan f = (fp_ordinal f, fp_path f, fp_beforeSha256 f, fp_afterText f, fp_afterSha256 f)"

definition classify :: "(string \<Rightarrow> string) \<Rightarrow> string option \<Rightarrow> string option \<Rightarrow> string option \<Rightarrow> observed" where
  "classify sha current beforeHash afterHash =
     (case current of
        None \<Rightarrow> if beforeHash = None then OB_before else if afterHash = None then OB_after else OB_other
      | Some text \<Rightarrow>
          if beforeHash = Some (sha text) then OB_before
          else if afterHash = Some (sha text) then OB_after else OB_other)"

definition helper_error :: "string \<Rightarrow> thrown" where
  "helper_error message = CodedError ''WorkspaceTransactionHelperError'' ''helper_exited'' message"

definition prepare_file :: "env \<Rightarrow> string \<Rightarrow> wire_plan \<Rightarrow> world \<Rightarrow> thrown + world" where
  "prepare_file en tid file w =
     (case file of (ordinal, path, beforeHash, text, afterHash) \<Rightarrow>
      case classify (en_sha en) (w_fs w path) beforeHash afterHash of
        OB_before \<Rightarrow>
          (case text of
             None \<Rightarrow> Inr w
           | Some t \<Rightarrow>
               (case w_tmp w (tid, ordinal) of
                  None \<Rightarrow> Inr (w\<lparr>w_tmp := (w_tmp w)((tid, ordinal) := Some t)\<rparr>)
                | Some t' \<Rightarrow> if Some (en_sha en t') = afterHash then Inr w
                    else Inl (helper_error ''workspace transaction temp file has unexpected content'')))
      | OB_after \<Rightarrow> Inr w
      | OB_other \<Rightarrow> Inl (helper_error (''workspace transaction preflight is ambiguous: '' @ path)))"

text \<open>A write of the temporary file (\<open>prepare_exact_temp\<close>) that stops after \<open>k\<close> characters.\<close>

definition torn_file :: "env \<Rightarrow> string \<Rightarrow> nat \<Rightarrow> wire_plan \<Rightarrow> world \<Rightarrow> world" where
  "torn_file en tid k file w =
     (case file of (ordinal, path, beforeHash, text, afterHash) \<Rightarrow>
      case (classify (en_sha en) (w_fs w path) beforeHash afterHash, text, w_tmp w (tid, ordinal)) of
        (OB_before, Some t, None) \<Rightarrow> w\<lparr>w_tmp := (w_tmp w)((tid, ordinal) := Some (take k t))\<rparr>
      | _ \<Rightarrow> w)"

definition commit_file :: "env \<Rightarrow> string \<Rightarrow> wire_plan \<Rightarrow> world \<Rightarrow> thrown + world" where
  "commit_file en tid file w =
     (case file of (ordinal, path, beforeHash, text, afterHash) \<Rightarrow>
      case classify (en_sha en) (w_fs w path) beforeHash afterHash of
        OB_after \<Rightarrow> Inr w
      | OB_before \<Rightarrow>
          (case text of
             Some t \<Rightarrow>
               (case w_tmp w (tid, ordinal) of
                  None \<Rightarrow> Inl (helper_error ''workspace transaction temp file does not exist'')
                | Some t' \<Rightarrow>
                    if Some (en_sha en t') = afterHash
                    then Inr (w\<lparr>w_fs := (w_fs w)(path := Some t'), w_tmp := (w_tmp w)((tid, ordinal) := None)\<rparr>)
                    else Inl (helper_error ''workspace transaction temp file has unexpected content''))
           | None \<Rightarrow>
               if w_backup w (tid, ordinal) \<noteq> None
               then Inl (helper_error ''workspace transaction backup already exists'')
               else if w_fs w path = None then Inl (helper_error ''workspace file does not exist'')
               else Inr (w\<lparr>w_fs := (w_fs w)(path := None),
                           w_backup := (w_backup w)((tid, ordinal) := w_fs w path)\<rparr>))
      | OB_other \<Rightarrow> Inl (helper_error (''workspace transaction commit is ambiguous: '' @ path)))"

definition remove_exact_owned_file :: "(string \<Rightarrow> string) \<Rightarrow> string option \<Rightarrow> string option \<Rightarrow> thrown + unit" where
  "remove_exact_owned_file sha content expected =
     (case content of
        None \<Rightarrow> Inr ()
      | Some t \<Rightarrow>
          (case expected of
             None \<Rightarrow> Inl (helper_error ''unexpected workspace transaction owned path exists'')
           | Some h \<Rightarrow> guard (sha t = h) (helper_error ''workspace transaction temp file has unexpected content'')))"

definition cleanup_file :: "env \<Rightarrow> string \<Rightarrow> wire_plan \<Rightarrow> world \<Rightarrow> thrown + world" where
  "cleanup_file en tid file w =
     (case file of (ordinal, path, beforeHash, text, afterHash) \<Rightarrow>
      res_bind (remove_exact_owned_file (en_sha en) (w_tmp w (tid, ordinal)) afterHash) (\<lambda>_.
      let w1 = w\<lparr>w_tmp := (w_tmp w)((tid, ordinal) := None)\<rparr> in
      case remove_exact_owned_file (en_sha en) (w_backup w (tid, ordinal)) (if afterHash = None then beforeHash else None) of
        Inl e \<Rightarrow> Inl e
      | Inr _ \<Rightarrow> Inr (w1\<lparr>w_backup := (w_backup w)((tid, ordinal) := None)\<rparr>)))"

definition inspect_file :: "env \<Rightarrow> world \<Rightarrow> wire_plan \<Rightarrow> WorkspaceChangeTransactionFileObservation" where
  "inspect_file en w file =
     (case file of (ordinal, path, beforeHash, text, afterHash) \<Rightarrow>
      \<lparr>ob_ordinal = ordinal, ob_current = classify (en_sha en) (w_fs w path) beforeHash afterHash\<rparr>)"

text \<open>The plan that a command carries (\<open>validate_plans\<close>).\<close>

definition plan_file_ok :: "(string \<Rightarrow> string) \<Rightarrow> wire_plan \<Rightarrow> bool" where
  "plan_file_ok sha file =
     (case file of (ordinal, path, beforeHash, text, afterHash) \<Rightarrow>
      0 \<le> ordinal \<and> relative_path_ok path \<and>
      (case beforeHash of None \<Rightarrow> True | Some h \<Rightarrow> validate_sha256 h = Inr ()) \<and>
      (case (text, afterHash) of (Some t, Some h) \<Rightarrow> sha t = h | (None, None) \<Rightarrow> True | _ \<Rightarrow> False) \<and>
      \<not> (beforeHash = None \<and> afterHash = None))"

definition plans_ok :: "(string \<Rightarrow> string) \<Rightarrow> wire_plan list \<Rightarrow> bool" where
  "plans_ok sha files \<longleftrightarrow> files \<noteq> [] \<and> length files \<le> 10000 \<and> sorted_wrt (<) (map fst files) \<and>
     distinct (map (fst \<circ> snd) files) \<and> list_all (plan_file_ok sha) files"

text \<open>
  The loop of a command over files: the ordinals whose frames were written, how it failed (\<open>None\<close>
  if it did not), and the world. \<open>torn k f\<close> is what a step on \<open>f\<close> leaves that stops in the middle
  of a write.
\<close>

fun helper_run ::
  "env \<Rightarrow> (nat \<Rightarrow> wire_plan \<Rightarrow> world \<Rightarrow> world) \<Rightarrow> (wire_plan \<Rightarrow> world \<Rightarrow> thrown + world) \<Rightarrow>
   wire_plan list \<Rightarrow> world \<Rightarrow> int list \<times> thrown option \<times> world" where
  "helper_run en torn step [] w = ([], None, w)"
| "helper_run en torn step (f # fs) w =
     (case tick en w of (kind, w1) \<Rightarrow>
      case kind of
        F_ok \<Rightarrow>
          (case step f w1 of
             Inl e \<Rightarrow> ([], Some e, w1)
           | Inr w2 \<Rightarrow> (case helper_run en torn step fs w2 of (os, e, w3) \<Rightarrow> (fst f # os, e, w3)))
      | F_fail \<Rightarrow> ([], Some io_error, w1)
      | F_lost \<Rightarrow> (case step f w1 of Inl e \<Rightarrow> ([], Some e, w1) | Inr w2 \<Rightarrow> ([], Some io_error, w2))
      | F_crash \<Rightarrow> ([], Some crash_error, w1\<lparr>w_crashed := True\<rparr>)
      | F_torn k \<Rightarrow> ([], Some io_error, torn k f w1))"

definition helper_of :: "world \<Rightarrow> nat \<Rightarrow> helper option" where
  "helper_of w h = (if h < length (w_helpers w) \<and> hs_alive (w_helpers w ! h) then Some (w_helpers w ! h) else None)"

definition set_helper :: "nat \<Rightarrow> (helper \<Rightarrow> helper) \<Rightarrow> world \<Rightarrow> world" where
  "set_helper h f w = w\<lparr>w_helpers := (if h < length (w_helpers w) then (w_helpers w)[h := f (w_helpers w ! h)]
     else w_helpers w)\<rparr>"

definition kill_helper :: "nat \<Rightarrow> world \<Rightarrow> world" where
  "kill_helper h = set_helper h (\<lambda>s. s\<lparr>hs_alive := False\<rparr>)"

definition gone :: thrown where
  "gone = helper_error ''workspace transaction helper is no longer available''"

definition world_spawn :: "env \<Rightarrow> string \<Rightarrow> string \<Rightarrow> (world, thrown, nat) eff" where
  "world_spawn en canonicalRoot tid = world_call en (\<lambda>w.
     if tid = [] then Inl (plainError ''workspace transaction id must not be empty'')
     else if list_ex hs_alive (w_helpers w) then Inl (CodedError ''WorkspaceTransactionHelperError'' ''startup_timeout'' ''workspace transaction helper timed out'')
     else Inr (length (w_helpers w),
       w\<lparr>w_helpers := w_helpers w @ [\<lparr>hs_transactionId = tid, hs_prepared = None, hs_alive = True\<rparr>]\<rparr>))"

definition world_prepare :: "env \<Rightarrow> nat \<Rightarrow> WorkspaceChangeTransactionFilePlan list \<Rightarrow> (world, thrown, unit) eff" where
  "world_prepare en h files w =
     (case helper_of w h of
        None \<Rightarrow> (Inl gone, w)
      | Some s \<Rightarrow>
          if \<not> plans_ok (en_sha en) (map wirePlan files) \<or>
             (hs_prepared s \<noteq> None \<and> hs_prepared s \<noteq> Some (map wirePlan files))
          then (Inl (helper_error ''workspace transaction prepare plan is invalid''), kill_helper h w)
          else (case helper_run en (torn_file en (hs_transactionId s)) (prepare_file en (hs_transactionId s)) (map wirePlan files) w of
                  (_, Some e, w1) \<Rightarrow> (Inl e, kill_helper h w1)
                | (_, None, w1) \<Rightarrow> (Inr (), set_helper h (\<lambda>s. s\<lparr>hs_prepared := Some (map wirePlan files)\<rparr>) w1)))"

definition world_commit ::
  "env \<Rightarrow> nat \<Rightarrow> WorkspaceChangeTransactionFilePlan list \<Rightarrow> int list \<Rightarrow>
   (int \<Rightarrow> (world, thrown, unit) eff) \<Rightarrow> (world, thrown, unit) eff" where
  "world_commit en h files ordinals onProgress w =
     (case helper_of w h of
        None \<Rightarrow> (Inl gone, w)
      | Some s \<Rightarrow>
          if hs_prepared s \<noteq> Some (map wirePlan files) \<or> ordinals = [] \<or> length files < length ordinals \<or>
             \<not> sorted_wrt (<) ordinals \<or> \<not> set ordinals \<subseteq> set (map fp_ordinal files)
          then (Inl (helper_error ''workspace transaction commit plan is invalid''), kill_helper h w)
          else (case helper_run en (\<lambda>_ _ w. w) (commit_file en (hs_transactionId s))
                    (filter (\<lambda>f. fst f \<in> set ordinals) (map wirePlan files)) w of
                  (os, failed, w1) \<Rightarrow>
                    (case eff_for_each onProgress os w1 of
                       (r, w2) \<Rightarrow>
                         (case failed of
                            Some e \<Rightarrow> (Inl e, kill_helper h w2)
                          | None \<Rightarrow> (r, w2)))))"

definition world_inspect ::
  "env \<Rightarrow> nat \<Rightarrow> WorkspaceChangeTransactionFilePlan list \<Rightarrow>
   (world, thrown, WorkspaceChangeTransactionFileObservation list) eff" where
  "world_inspect en h files = world_call en (\<lambda>w.
     case helper_of w h of
       None \<Rightarrow> Inl gone
     | Some s \<Rightarrow>
         if plans_ok (en_sha en) (map wirePlan files) then Inr (map (inspect_file en w) (map wirePlan files), w)
         else Inl (helper_error ''workspace transaction plan is invalid''))"

definition world_cleanup :: "env \<Rightarrow> nat \<Rightarrow> WorkspaceChangeTransactionFilePlan list \<Rightarrow> (world, thrown, unit) eff" where
  "world_cleanup en h files w =
     (case helper_of w h of
        None \<Rightarrow> (Inl gone, w)
      | Some s \<Rightarrow>
          if \<not> plans_ok (en_sha en) (map wirePlan files)
          then (Inl (helper_error ''workspace transaction plan is invalid''), kill_helper h w)
          else (case helper_run en (\<lambda>_ _ w. w) (cleanup_file en (hs_transactionId s)) (map wirePlan files) w of
                  (_, Some e, w1) \<Rightarrow> (Inl e, kill_helper h w1)
                | (_, None, w1) \<Rightarrow> (Inr (), kill_helper h w1)))"

section \<open>Services\<close>

definition take_id :: "(nat \<Rightarrow> string) \<Rightarrow> (world, thrown, string) eff" where
  "take_id name w = (Inr (name (w_nextId w)), w\<lparr>w_nextId := Suc (w_nextId w)\<rparr>)"

definition world_services :: "env \<Rightarrow> world tx_services" where
  "world_services en =
     \<lparr>svc_sha = en_sha en, svc_localeCompare = en_localeCompare en, svc_leaseMs = en_leaseMs en,
      svc_rootDir = en_rootDir en,
      svc_canonicalize = (\<lambda>_. world_call en (\<lambda>w. Inr (en_canonicalRoot en, w))),
      svc_randomUUID = take_id (en_uuid en),
      svc_randomToken = take_id (en_token en),
      svc_readText = (\<lambda>w path. Inr (w_fs w path)),
      svc_getChangeSet = (\<lambda>csid. world_call en (on_store (\<lambda>_. get_changeset csid))),
      svc_putChangeSet = (\<lambda>request. world_call en (on_store (\<lambda>now. put_changeset now request))),
      svc_listOperations = (\<lambda>csid. world_call en (on_store (\<lambda>_. list_operations csid))),
      svc_begin = (\<lambda>request. world_call en (on_store (\<lambda>now. begin_transaction (en_sha en) now request))),
      svc_claimRecovery = (\<lambda>request. world_call en (on_store (\<lambda>now. claim_recovery (en_sha en) now request))),
      svc_listTransactions = (\<lambda>request. world_call en (on_store (\<lambda>_. list_transactions request))),
      svc_recordPlan = (\<lambda>identity files. world_call en
        (on_store (\<lambda>now. record_plan (en_sha en) (en_digest en) now identity files))),
      svc_markPrepared = (\<lambda>identity. world_call en (on_store (\<lambda>now. mark_prepared (en_sha en) now identity))),
      svc_beginCommit = (\<lambda>identity. world_call en (on_store (\<lambda>now. begin_commit (en_sha en) now identity))),
      svc_recordFileCommitted = (\<lambda>identity ordinal. world_call en
        (on_store (\<lambda>now. record_file_committed (en_sha en) now identity ordinal))),
      svc_reconcile = (\<lambda>identity observations. world_call en
        (on_store (\<lambda>now. reconcile_files (en_sha en) now identity observations))),
      svc_finalize = (\<lambda>identity outcome. world_call en
        (on_store (\<lambda>now. finalize_transaction (en_sha en) now identity outcome))),
      svc_leaseStart = (\<lambda>identity w. (Inr (), w\<lparr>w_lease := Some identity, w_leaseLost := False\<rparr>)),
      svc_leaseStop = (\<lambda>_ w. (Inr (), w\<lparr>w_lease := None\<rparr>)),
      svc_leaseFailure = (\<lambda>_ w. if w_leaseLost w then Some io_error else None),
      svc_spawn = world_spawn en,
      svc_prepare = world_prepare en,
      svc_inspect = world_inspect en,
      svc_commit = world_commit en,
      svc_cleanup = world_cleanup en,
      svc_terminate = (\<lambda>h w. (Inr (), kill_helper h w))\<rparr>"

text \<open>A new process on the durable state that the last one left: no helper is alive.\<close>

definition restart :: "fault list \<Rightarrow> nat \<Rightarrow> world \<Rightarrow> world" where
  "restart faults delay w = w\<lparr>w_helpers := map (\<lambda>s. s\<lparr>hs_alive := False\<rparr>) (w_helpers w), w_lease := None,
     w_leaseLost := False, w_faults := faults, w_now := w_now w + int delay, w_crashed := False\<rparr>"

end
