(* ===== verification/Effect_Triples.thy ===== *)
theory Effect_Triples
  imports Prelude
begin

text \<open>
  A Hoare calculus for the effects of the model. \<open>triple I P m Q\<close>: started in a state with
  \<open>P\<close>, the effect \<open>m\<close> either returns a value in a state related to it by \<open>Q\<close>, or throws in a
  state with \<open>I\<close>. A crash of the process is a throw that no handler sees, so \<open>I\<close> is what holds
  at every point where the process may stop. \<open>keeps I m\<close> is the case \<open>P = Q = I\<close>.
\<close>

section \<open>Triples\<close>

named_theorems triple_intros \<open>rules of the triple calculus\<close>

definition triple ::
  "('s \<Rightarrow> bool) \<Rightarrow> ('s \<Rightarrow> bool) \<Rightarrow> ('s, 'e, 'a) eff \<Rightarrow> ('a \<Rightarrow> 's \<Rightarrow> bool) \<Rightarrow> bool" where
  "triple I P m Q \<longleftrightarrow>
     (\<forall>s x t. P s \<longrightarrow> m s = (Inr x, t) \<longrightarrow> Q x t) \<and> (\<forall>s e t. P s \<longrightarrow> m s = (Inl e, t) \<longrightarrow> I t)"

lemma tripleI:
  assumes "\<And>s x t. P s \<Longrightarrow> m s = (Inr x, t) \<Longrightarrow> Q x t"
    and "\<And>s e t. P s \<Longrightarrow> m s = (Inl e, t) \<Longrightarrow> I t"
  shows "triple I P m Q"
  using assms by (simp add: triple_def)

lemma tripleD:
  "triple I P m Q \<Longrightarrow> P s \<Longrightarrow> m s = (Inr x, t) \<Longrightarrow> Q x t"
  "triple I P m Q \<Longrightarrow> P s \<Longrightarrow> m s = (Inl e, t) \<Longrightarrow> I t"
  by (auto simp: triple_def)

lemma triple_return: "(\<And>s. P s \<Longrightarrow> Q x s) \<Longrightarrow> triple I P (eff_return x) Q"
  by (auto intro!: tripleI)

lemma triple_throw: "(\<And>s. P s \<Longrightarrow> I s) \<Longrightarrow> triple I P (eff_throw e) Q"
  by (auto intro!: tripleI)

lemma triple_result: "(\<And>s. P s \<Longrightarrow> I s) \<Longrightarrow> (\<And>s x. P s \<Longrightarrow> Q x s) \<Longrightarrow> triple I P (eff_result r) Q"
  by (auto intro!: tripleI)

lemma triple_bind:
  assumes m: "triple I P m Q" and f: "\<And>x. triple I (Q x) (f x) R"
  shows "triple I P (eff_bind m f) R"
proof (rule tripleI)
  fix s x t assume P: "P s" and "eff_bind m f s = (Inr x, t)"
  then obtain y u where y: "m s = (Inr y, u)" "f y u = (Inr x, t)" by (auto simp: eff_bind_Inr)
  from tripleD(1) [OF f tripleD(1) [OF m P y(1)] y(2)] show "R x t" .
next
  fix s e t assume P: "P s" and "eff_bind m f s = (Inl e, t)"
  then consider "m s = (Inl e, t)" | y u where "m s = (Inr y, u)" "f y u = (Inl e, t)"
    by (auto simp: eff_bind_Inl)
  then show "I t"
  proof cases
    case 1
    with tripleD(2) [OF m P] show ?thesis by blast
  next
    case 2
    from tripleD(2) [OF f tripleD(1) [OF m P 2(1)] 2(2)] show ?thesis .
  qed
qed

lemma triple_try:
  assumes "triple I P m Q" "\<And>e. triple I I (h e) Q"
  shows "triple I P (eff_try m h) Q"
proof (rule tripleI)
  fix s x t assume "P s" "eff_try m h s = (Inr x, t)"
  then show "Q x t" using assms by (elim eff_try_cases) (auto dest: tripleD)
next
  fix s e t assume "P s" "eff_try m h s = (Inl e, t)"
  then show "I t" using assms by (elim eff_try_cases) (auto dest: tripleD)
qed

lemma triple_finally:
  assumes m: "triple I P m (\<lambda>_. I)" and f: "triple I I f (\<lambda>_. I)"
  shows "triple I P (eff_finally m f) (\<lambda>_. I)"
proof -
  have "I (snd (eff_finally m f s))" if "P s" for s
  proof -
    obtain r t where mt: "m s = (r, t)" by (cases "m s")
    have "I t" using tripleD [OF m that, of _ t] mt by (cases r) auto
    moreover obtain r' u where "f t = (r', u)" by (cases "f t")
    ultimately show ?thesis
      using tripleD [OF f, of t _ u] mt by (cases r') (auto simp: eff_finally_def)
  qed
  then have "I t" if "P s" "eff_finally m f s = (r, t)" for s r t
    using that by (metis snd_conv)
  then show ?thesis by (intro tripleI) blast+
qed

lemma triple_weaken:
  "triple I P m Q \<Longrightarrow> (\<And>s. P' s \<Longrightarrow> P s) \<Longrightarrow> (\<And>x s. Q x s \<Longrightarrow> Q' x s) \<Longrightarrow> triple I P' m Q'"
  unfolding triple_def by blast

lemma triple_pre: "triple I P m Q \<Longrightarrow> (\<And>s. P' s \<Longrightarrow> P s) \<Longrightarrow> triple I P' m Q"
  by (rule triple_weaken)

lemma triple_if:
  "(b \<Longrightarrow> triple I P m Q) \<Longrightarrow> (\<not> b \<Longrightarrow> triple I P m' Q) \<Longrightarrow> triple I P (if b then m else m') Q"
  by simp

lemma triple_for_each:
  "(\<And>x. x \<in> set xs \<Longrightarrow> triple I P (body x) (\<lambda>_. P)) \<Longrightarrow> triple I P (eff_for_each body xs) (\<lambda>_. P)"
proof (induction xs)
  case Nil
  show ?case unfolding eff_for_each.simps by (rule triple_return)
next
  case (Cons x xs)
  then show ?case unfolding eff_for_each.simps by (auto intro!: triple_bind)
qed

lemma triple_map:
  assumes "\<And>x. x \<in> set xs \<Longrightarrow> triple I P (body x) (\<lambda>y s. P s \<and> R y)"
  shows "triple I P (eff_map body xs) (\<lambda>ys s. P s \<and> list_all R ys)"
  using assms
proof (induction xs)
  case Nil
  show ?case unfolding eff_map.simps by (rule triple_return) simp
next
  case (Cons x xs)
  have tail: "triple I (\<lambda>s. P s \<and> R y) (eff_map body xs) (\<lambda>ys s. P s \<and> list_all R (y # ys))" for y
  proof (rule tripleI)
    have IH: "triple I P (eff_map body xs) (\<lambda>ys s. P s \<and> list_all R ys)" using Cons by simp
    show "P t \<and> list_all R (y # ys)" if "P s \<and> R y" "eff_map body xs s = (Inr ys, t)" for s ys t
      using tripleD(1) [OF IH, of s ys t] that by simp
    show "I t" if "P s \<and> R y" "eff_map body xs s = (Inl e, t)" for s e t
      using tripleD(2) [OF IH, of s e t] that by simp
  qed
  show ?case unfolding eff_map.simps
    by (rule triple_bind [OF Cons.prems [of x]], simp, rule triple_bind [OF tail], rule triple_return)
qed

text \<open>\<open>up P\<close> is \<open>P\<close> about the world of a block with local variables.\<close>

definition up :: "('s \<Rightarrow> bool) \<Rightarrow> 's \<times> 'l \<Rightarrow> bool" where
  "up P sl = P (fst sl)"

lemma triple_lift:
  assumes "triple I P m Q"
  shows "triple (up I) (up P) (eff_lift m) (\<lambda>x. up (Q x))"
  using tripleD [OF assms] by (intro tripleI) (auto simp: up_def eff_lift_def split: prod.splits)

lemma triple_set: "triple (up I) (up P) (eff_set f) (\<lambda>_. up P)"
  by (auto intro!: tripleI simp: up_def eff_set_def)

lemma triple_locals: "(\<And>l. triple I P (f l) Q) \<Longrightarrow> triple I P (eff_locals f) Q"
  by (simp add: triple_def eff_locals_def)

lemma triple_block:
  assumes "triple (up I) (up P) m (\<lambda>x. up (Q x))"
  shows "triple I P (eff_block l m) Q"
  using tripleD [OF assms] by (intro tripleI) (auto simp: up_def eff_block_def split: prod.splits)

text \<open>\<open>keeps I m\<close>: the computation keeps \<open>I\<close>, however it ends.\<close>

definition keeps :: "('s \<Rightarrow> bool) \<Rightarrow> ('s, 'e, 'a) eff \<Rightarrow> bool" where
  "keeps I m \<longleftrightarrow> triple I I m (\<lambda>_. I)"

named_theorems keeps_intros \<open>what keeps an invariant\<close>

lemma keeps_rules [keeps_intros]:
  "keeps I (eff_return x)"
  "keeps I (eff_throw e)"
  "keeps I (eff_result r)"
  "keeps I m \<Longrightarrow> (\<And>x. keeps I (f x)) \<Longrightarrow> keeps I (eff_bind m f)"
  "keeps I m \<Longrightarrow> (\<And>e. keeps I (h e)) \<Longrightarrow> keeps I (eff_try m h)"
  "keeps I m \<Longrightarrow> keeps I n \<Longrightarrow> keeps I (eff_finally m n)"
  "(b \<Longrightarrow> keeps I m) \<Longrightarrow> (\<not> b \<Longrightarrow> keeps I m') \<Longrightarrow> keeps I (if b then m else m')"
  "keeps I m0 \<Longrightarrow> (\<And>x. keeps I (m1 x)) \<Longrightarrow> keeps I (case v of None \<Rightarrow> m0 | Some x \<Rightarrow> m1 x)"
  unfolding keeps_def
  by (blast intro: triple_return triple_throw triple_result triple_bind triple_try triple_finally
      | simp split: option.split)+

lemma keeps_locals [keeps_intros]: "(\<And>l. keeps I (g l)) \<Longrightarrow> keeps I (eff_locals g)"
  unfolding keeps_def by (rule triple_locals)

lemma keeps_up [keeps_intros]:
  "keeps I m \<Longrightarrow> keeps (up I) (eff_lift m)"
  "keeps (up I) (eff_set f)"
  unfolding keeps_def by (rule triple_lift triple_set, assumption?)+

lemma keeps_for_each [keeps_intros]: "(\<And>x. x \<in> set xs \<Longrightarrow> keeps I (body x)) \<Longrightarrow> keeps I (eff_for_each body xs)"
  unfolding keeps_def by (rule triple_for_each)

lemma keeps_map [keeps_intros]: "(\<And>x. x \<in> set xs \<Longrightarrow> keeps I (body x)) \<Longrightarrow> keeps I (eff_map body xs)"
  unfolding keeps_def using triple_map [of xs I I body "\<lambda>_. True"] by (auto elim: triple_weaken)

end
