(* ===== verification/Transaction_Invariant.thy ===== *)
theory Transaction_Invariant
  imports Transaction_World Effect_Triples
begin

text \<open>
  The invariant \<open>tx_inv\<close> of a workspace transaction, relating the durable record of the
  transaction to the files on disk, and its preservation by every operation of the store and
  every step of the helper process.
\<close>

section \<open>The invariant\<close>

definition tx_of :: "world \<Rightarrow> string \<Rightarrow> WorkspaceChangeTransactionRecord option" where
  "tx_of w tid = map_of (ts_transactions (w_store w)) tid"

definition files_of :: "world \<Rightarrow> string \<Rightarrow> WorkspaceChangeTransactionFileRecord list" where
  "files_of w tid = list_files (w_store w) tid"

definition plans_of :: "world \<Rightarrow> string \<Rightarrow> WorkspaceChangeTransactionFilePlan list" where
  "plans_of w tid = transactionFilePlans (files_of w tid)"

text \<open>
  A plan that is good for the files \<open>fs0\<close>: distinct paths and ordinals, the before texts are
  those of \<open>fs0\<close>, the hashes are those of the texts and tell before from after, and a part of
  an after text that a torn write left from the whole.
\<close>

definition torn_detected :: "(string \<Rightarrow> string) \<Rightarrow> string \<Rightarrow> bool" where
  "torn_detected sha t \<longleftrightarrow> (\<forall>k. sha (take k t) = sha t \<longrightarrow> take k t = t)"

definition plan_good :: "(string \<Rightarrow> string) \<Rightarrow> (string \<Rightarrow> string option) \<Rightarrow> WorkspaceChangeTransactionFilePlan list \<Rightarrow> bool" where
  "plan_good sha fs0 P \<longleftrightarrow> distinct (map fp_path P) \<and> distinct (map fp_ordinal P) \<and>
     (\<forall>f \<in> set P. fp_beforeText f = fs0 (fp_path f) \<and>
        fp_beforeSha256 f = map_option sha (fp_beforeText f) \<and>
        fp_afterSha256 f = map_option sha (fp_afterText f) \<and> fp_beforeSha256 f \<noteq> fp_afterSha256 f \<and>
        pred_option (torn_detected sha) (fp_afterText f))"

definition all_before :: "(string \<Rightarrow> string option) \<Rightarrow> WorkspaceChangeTransactionFilePlan list \<Rightarrow> bool" where
  "all_before fs P \<longleftrightarrow> (\<forall>f \<in> set P. fs (fp_path f) = fp_beforeText f)"

definition all_after :: "(string \<Rightarrow> string option) \<Rightarrow> WorkspaceChangeTransactionFilePlan list \<Rightarrow> bool" where
  "all_after fs P \<longleftrightarrow> (\<forall>f \<in> set P. fs (fp_path f) = fp_afterText f)"

definition between ::
  "(string \<Rightarrow> string option) \<Rightarrow> (string \<Rightarrow> string option) \<Rightarrow> WorkspaceChangeTransactionFilePlan list \<Rightarrow> bool" where
  "between fs0 fs P \<longleftrightarrow> (\<forall>p. p \<notin> fp_path ` set P \<longrightarrow> fs p = fs0 p) \<and>
     (\<forall>f \<in> set P. fs (fp_path f) = fp_beforeText f \<or> fs (fp_path f) = fp_afterText f)"

text \<open>What the record of a transaction in the store says about the files.\<close>

definition record_true ::
  "(string \<Rightarrow> string option) \<Rightarrow> WorkspaceChangeTransactionRecord \<Rightarrow>
   WorkspaceChangeTransactionFileRecord list \<Rightarrow> bool" where
  "record_true fs tr R \<longleftrightarrow>
     (\<forall>r \<in> set R. tf_state r = FS_committed \<longrightarrow> fs (tf_path r) = tf_afterText r) \<and>
     (tr_state tr \<in> {TS_planning, TS_prepared, TS_rolled_back} \<longrightarrow> all_before fs (transactionFilePlans R)) \<and>
     (tr_state tr = TS_applied \<longrightarrow> all_after fs (transactionFilePlans R)) \<and>
     (tr_recoveryDecision tr = Some RD_rollback_noop \<longrightarrow> all_before fs (transactionFilePlans R)) \<and>
     (tr_recoveryDecision tr = Some RD_finalize \<longrightarrow> all_after fs (transactionFilePlans R)) \<and>
     (tr_planDigest tr = None \<longleftrightarrow> R = [])"

definition only_tx :: "world \<Rightarrow> string \<Rightarrow> bool" where
  "only_tx w tid \<longleftrightarrow> distinct (map fst (ts_transactions (w_store w))) \<and>
     (\<forall>(k, tr) \<in> set (ts_transactions (w_store w)).
        tr_id tr = k \<and> (\<not> transaction_is_terminal (tr_state tr) \<longrightarrow> k = tid)) \<and>
     (\<forall>s \<in> set (w_helpers w). hs_alive s \<longrightarrow> hs_transactionId s = tid)"

definition temps_ok :: "world \<Rightarrow> string \<Rightarrow> bool" where
  "temps_ok w tid \<longleftrightarrow> (\<forall>n t. w_tmp w (tid, n) = Some t \<longrightarrow>
     (\<exists>f \<in> set (plans_of w tid). fp_ordinal f = n \<and> (\<exists>t' k. fp_afterText f = Some t' \<and> t = take k t')))"

definition tx_inv :: "env \<Rightarrow> (string \<Rightarrow> string option) \<Rightarrow> string \<Rightarrow> world \<Rightarrow> bool" where
  "tx_inv en fs0 tid w \<longleftrightarrow> only_tx w tid \<and> temps_ok w tid \<and>
     plan_good (en_sha en) fs0 (plans_of w tid) \<and> between fs0 (w_fs w) (plans_of w tid) \<and>
     (case tx_of w tid of None \<Rightarrow> files_of w tid = [] | Some tr \<Rightarrow> record_true (w_fs w) tr (files_of w tid))"

text \<open>The invariant reads only a part of the world; what leaves this part alone keeps it.\<close>

definition core where
  "core w = (ts_transactions (w_store w), ts_files (w_store w), w_fs w, w_tmp w, w_helpers w)"

lemma core_eq:
  assumes "core w = core w'"
  shows "tx_of w = tx_of w'" "files_of w = files_of w'" "plans_of w = plans_of w'"
    "w_fs w = w_fs w'" "w_tmp w = w_tmp w'" "w_helpers w = w_helpers w'" "helper_of w = helper_of w'"
    "only_tx w = only_tx w'" "temps_ok w = temps_ok w'"
proof -
  have c: "ts_transactions (w_store w) = ts_transactions (w_store w')" "ts_files (w_store w) = ts_files (w_store w')"
    "w_fs w = w_fs w'" "w_tmp w = w_tmp w'" "w_helpers w = w_helpers w'"
    using assms by (simp_all add: core_def)
  then show "tx_of w = tx_of w'" and f: "files_of w = files_of w'" and "w_fs w = w_fs w'" "w_tmp w = w_tmp w'"
    "w_helpers w = w_helpers w'" "helper_of w = helper_of w'" "only_tx w = only_tx w'"
    by (simp_all add: fun_eq_iff tx_of_def files_of_def list_files_def helper_of_def only_tx_def)
  from f show p: "plans_of w = plans_of w'" by (simp add: fun_eq_iff plans_of_def)
  from c p show "temps_ok w = temps_ok w'" by (simp add: fun_eq_iff temps_ok_def)
qed

lemma tx_inv_core: "core w = core w' \<Longrightarrow> tx_inv en fs0 tid w = tx_inv en fs0 tid w'"
  unfolding tx_inv_def by (simp only: core_eq [of w w'])

section \<open>Calls that leave the core alone\<close>

lemma renew_attempt_tables:
  "renew_attempt sha now identity lease st = Inr (u, st') \<Longrightarrow>
   ts_transactions st' = ts_transactions st \<and> ts_files st' = ts_files st"
  by (auto simp: renew_attempt_def result_simps put_attempt_def)

lemma tick_core [simp]: "core (snd (tick en w)) = core w"
  by (auto simp: tick_def renew_lease_def core_def Let_def dest!: renew_attempt_tables
      split: list.splits option.splits sum.splits)

lemma world_call_cases:
  assumes "world_call en call w = (r, w')"
  obtains (ok) x w1 where "core w1 = core w" "call w1 = Inr (x, w')" "r = Inr x"
    | (lost) x w1 e where "core w1 = core w" "call w1 = Inr (x, w')" "r = Inl e"
    | (none) e where "core w' = core w" "r = Inl e"
proof -
  obtain kind w1 where t: "tick en w = (kind, w1)" by (cases "tick en w")
  then have c: "core w1 = core w" using tick_core [of en w] by simp
  have crash: "core (w1\<lparr>w_crashed := True\<rparr>) = core w1" by (simp add: core_def)
  show thesis
    using assms t c crash that by (auto simp: world_call_def split: fault_kind.splits sum.splits)
qed

definition core_stable :: "(world \<Rightarrow> bool) \<Rightarrow> bool" where
  "core_stable P \<longleftrightarrow> (\<forall>w w'. core w = core w' \<longrightarrow> P w \<longrightarrow> P w')"

lemma core_stableD: "core_stable P \<Longrightarrow> core w = core w' \<Longrightarrow> P w' \<Longrightarrow> P w"
  by (metis core_stable_def)

lemma tx_inv_stable: "core_stable (tx_inv en fs0 tid)"
  unfolding core_stable_def using tx_inv_core by blast

lemma world_call_triple:
  assumes st: "core_stable P" and PI: "\<And>w. P w \<Longrightarrow> I w" and QI: "\<And>x w. Q x w \<Longrightarrow> I w"
    and call: "\<And>w x w'. P w \<Longrightarrow> call w = Inr (x, w') \<Longrightarrow> Q x w'"
  shows "triple I P (world_call en call) Q"
proof -
  have "(case r of Inr x \<Rightarrow> Q x w' | Inl e \<Rightarrow> I w')" if P: "P w" and r: "world_call en call w = (r, w')" for w r w'
    using r
  proof (cases rule: world_call_cases)
    case (ok x w1)
    with call [OF core_stableD [OF st ok(1) P] ok(2)] show ?thesis by simp
  next
    case (lost x w1 e)
    with QI [OF call [OF core_stableD [OF st lost(1) P] lost(2)]] show ?thesis by simp
  next
    case (none e)
    with PI [OF core_stableD [OF st none(1) P]] show ?thesis by simp
  qed
  then show ?thesis by (intro tripleI) fastforce+
qed

lemma on_store_Inr [result_simps]:
  "on_store op w = Inr (x, w') \<longleftrightarrow> (\<exists>st. op (w_now w) (w_store w) = Inr (x, st) \<and> w' = w\<lparr>w_store := st\<rparr>)"
  by (auto simp: on_store_def split: sum.splits)

text \<open>A call that changes neither transactions nor files of the store keeps every property of the core.\<close>

lemma quiet_call:
  assumes "core_stable P" and "\<And>w. P w \<Longrightarrow> I w"
    and "\<And>now st x st'. op now st = Inr (x, st') \<Longrightarrow>
      ts_transactions st' = ts_transactions st \<and> ts_files st' = ts_files st"
  shows "triple I P (world_call en (on_store op)) (\<lambda>_. P)"
proof (rule world_call_triple [OF assms(1)])
  fix w x w' assume P: "P w" and "on_store op w = Inr (x, w')"
  then obtain st where op: "op (w_now w) (w_store w) = Inr (x, st)" "w' = w\<lparr>w_store := st\<rparr>"
    by (auto simp: result_simps)
  with assms(3) [OF op(1)] have "core w' = core w" by (simp add: core_def)
  with core_stableD [OF assms(1)] P show "P w'" by metis
qed (auto intro: assms(2))

lemma claim_recovery_tables:
  "claim_recovery sha now request st = Inr (x, st') \<Longrightarrow>
   ts_transactions st' = ts_transactions st \<and> ts_files st' = ts_files st"
  by (auto simp: claim_recovery_def result_simps put_attempt_def Let_def split: if_splits option.splits)

lemma query_tables:
  "get_changeset csid st = Inr (x, st') \<Longrightarrow> ts_transactions st' = ts_transactions st \<and> ts_files st' = ts_files st"
  "list_operations csid st = Inr (y, st') \<Longrightarrow> ts_transactions st' = ts_transactions st \<and> ts_files st' = ts_files st"
  "list_transactions req st = Inr (z, st') \<Longrightarrow> ts_transactions st' = ts_transactions st \<and> ts_files st' = ts_files st"
  by (auto simp: get_changeset_def list_operations_def list_transactions_def result_simps)

section \<open>Calls that change the record of the transaction\<close>

text \<open>The rule for the store's updates: a new record and new file states for the same plan.\<close>

lemma update_member:
  "(k', x) \<in> set (AList.update k v xs) \<Longrightarrow> (k', x) = (k, v) \<or> (k', x) \<in> set xs"
  by (induction xs) (auto split: if_splits)

lemma tx_inv_put:
  assumes inv: "tx_inv en fs0 tid w" and tr: "tx_of w tid = Some tr"
    and id': "tr_id tr' = tid" and plans: "transactionFilePlans R = plans_of w tid"
    and true: "record_true (w_fs w) tr' R"
    and st: "ts_transactions st = AList.update tid tr' (ts_transactions (w_store w))" "list_files st tid = R"
  shows "tx_inv en fs0 tid (w\<lparr>w_store := st\<rparr>)"
proof -
  let ?w = "w\<lparr>w_store := st\<rparr>"
  have p: "plans_of ?w tid = plans_of w tid" using plans st(2) by (simp add: plans_of_def files_of_def)
  have only: "only_tx w tid" using inv by (simp add: tx_inv_def)
  then have "only_tx ?w tid"
    unfolding only_tx_def using st(1) id' by (auto simp: distinct_update dest!: update_member)
  then show ?thesis
    using inv true st unfolding tx_inv_def p by (simp add: tx_of_def files_of_def temps_ok_def p)
qed

text \<open>\<open>phase en fs0 tid S P\<close>: the invariant, a record with a state in \<open>S\<close> and no recovery decision, and the plan \<open>P\<close>.\<close>

definition phase ::
  "env \<Rightarrow> (string \<Rightarrow> string option) \<Rightarrow> string \<Rightarrow> WorkspaceChangeTransactionState set \<Rightarrow>
   WorkspaceChangeTransactionFilePlan list \<Rightarrow> world \<Rightarrow> bool" where
  "phase en fs0 tid S P w \<longleftrightarrow> tx_inv en fs0 tid w \<and> plans_of w tid = P \<and>
     (\<exists>tr. tx_of w tid = Some tr \<and> tr_state tr \<in> S \<and> tr_recoveryDecision tr = None)"

lemma phase_stable: "core_stable (phase en fs0 tid S P)"
proof -
  have "phase en fs0 tid S P w'" if "core w = core w'" "phase en fs0 tid S P w" for w w'
    using that(2) unfolding phase_def tx_inv_core [OF that(1)] core_eq [OF that(1)] .
  then show ?thesis unfolding core_stable_def by blast
qed

lemma phase_inv: "phase en fs0 tid S P w \<Longrightarrow> tx_inv en fs0 tid w"
  by (simp add: phase_def)

lemma inv_facts:
  assumes "tx_inv en fs0 tid w" "tx_of w tid = Some tr"
  shows "tr_id tr = tid" "record_true (w_fs w) tr (files_of w tid)"
proof -
  have "(tid, tr) \<in> set (ts_transactions (w_store w))"
    using assms(2) by (simp add: tx_of_def map_of_SomeD)
  then show "tr_id tr = tid" using assms(1) by (auto simp: tx_inv_def only_tx_def)
  show "record_true (w_fs w) tr (files_of w tid)" using assms by (simp add: tx_inv_def)
qed

lemma list_files_put [simp]:
  "list_files (put_files tid fs st) tid = fs"
  "list_files (put_transaction tr st) k = list_files st k"
  "ts_transactions (put_files tid fs st) = ts_transactions st"
  "ts_transactions (put_transaction tr st) = AList.update (tr_id tr) tr (ts_transactions st)"
  "ts_transactions (put_attempt a h st) = ts_transactions st"
  "list_files (put_attempt a h st) k = list_files st k"
  by (simp_all add: list_files_def put_files_def put_transaction_def put_attempt_def)

lemma transition_cases:
  assumes "transition_transaction sha now identity src dst mark req st = Inr (u, st')"
  obtains (same) tr where "map_of (ts_transactions st) (ti_transactionId identity) = Some tr" "tr_state tr = dst" "st' = st"
    | (move) tr where "map_of (ts_transactions st) (ti_transactionId identity) = Some tr" "tr_state tr = src"
        "req \<Longrightarrow> tr_planDigest tr \<noteq> None"
        "st' = put_transaction (tr\<lparr>tr_state := dst, tr_updatedAt := now\<rparr>)
           (if mark then put_files (tr_id tr) (map (\<lambda>f. if tf_state f = FS_pending
                then f\<lparr>tf_state := FS_prepared, tf_updatedAt := now\<rparr> else f) (list_files st (tr_id tr))) st else st)"
  using assms that
  by (auto simp: transition_transaction_def require_transaction_def result_simps split: option.splits if_splits)

lemma plans_restate:
  "(\<And>f. transactionFilePlan (g f) = transactionFilePlan f) \<Longrightarrow>
   transactionFilePlans (map g fs) = transactionFilePlans fs"
  by (simp add: transactionFilePlans_def)

lemma transactionFilePlan_state [simp]:
  "transactionFilePlan (f\<lparr>tf_state := s, tf_updatedAt := n\<rparr>) = transactionFilePlan f"
  by (simp add: transactionFilePlan_def)

lemma mark_prepared_inv:
  assumes "tx_inv en fs0 tid w" "ti_transactionId identity = tid"
    and "mark_prepared (en_sha en) now identity (w_store w) = Inr (u, st)"
  shows "tx_inv en fs0 tid (w\<lparr>w_store := st\<rparr>)"
  using assms(3) unfolding mark_prepared_def
proof (cases rule: transition_cases)
  case same
  then show ?thesis using assms(1) by simp
next
  case (move tr)
  have tr: "tx_of w tid = Some tr" using move assms(2) by (simp add: tx_of_def)
  note f = inv_facts [OF assms(1) tr]
  let ?g = "\<lambda>f. if tf_state f = FS_pending then f\<lparr>tf_state := FS_prepared, tf_updatedAt := now\<rparr> else f"
  have "record_true (w_fs w) (tr\<lparr>tr_state := TS_prepared, tr_updatedAt := now\<rparr>) (map ?g (files_of w tid))"
    using f(2) move(2,3) plans_restate [of ?g "files_of w tid"] by (auto simp: record_true_def)
  then show ?thesis
    using move f(1) plans_restate [of ?g "files_of w tid"]
    by (intro tx_inv_put [OF assms(1) tr]) (auto simp: files_of_def plans_of_def)
qed

lemma begin_commit_inv:
  assumes "tx_inv en fs0 tid w" "ti_transactionId identity = tid"
    and "begin_commit (en_sha en) now identity (w_store w) = Inr (u, st)"
  shows "tx_inv en fs0 tid (w\<lparr>w_store := st\<rparr>) \<and>
    (\<exists>tr. tx_of (w\<lparr>w_store := st\<rparr>) tid = Some tr \<and> tr_state tr = TS_committing \<and>
      (\<forall>tr0. tx_of w tid = Some tr0 \<longrightarrow> tr_recoveryDecision tr = tr_recoveryDecision tr0)) \<and>
    plans_of (w\<lparr>w_store := st\<rparr>) tid = plans_of w tid"
  using assms(3) unfolding begin_commit_def
proof (cases rule: transition_cases)
  case same
  then show ?thesis using assms(1,2) by (simp add: tx_of_def)
next
  case (move tr)
  have tr: "tx_of w tid = Some tr" using move assms(2) by (simp add: tx_of_def)
  note f = inv_facts [OF assms(1) tr]
  have "record_true (w_fs w) (tr\<lparr>tr_state := TS_committing, tr_updatedAt := now\<rparr>) (files_of w tid)"
    using f(2) move(2) by (auto simp: record_true_def)
  then have "tx_inv en fs0 tid (w\<lparr>w_store := st\<rparr>)"
    using move f(1) by (intro tx_inv_put [OF assms(1) tr]) (auto simp: files_of_def plans_of_def)
  then show ?thesis
    using move f(1) tr by (simp add: tx_of_def plans_of_def files_of_def)
qed

lemma plans_member:
  "r \<in> set (files_of w tid) \<Longrightarrow> transactionFilePlan r \<in> set (plans_of w tid)"
  by (simp add: plans_of_def transactionFilePlans_def)

lemma plan_of_simps [simp]:
  "fp_ordinal (transactionFilePlan r) = tf_ordinal r" "fp_path (transactionFilePlan r) = tf_path r"
  "fp_beforeText (transactionFilePlan r) = tf_beforeText r" "fp_afterText (transactionFilePlan r) = tf_afterText r"
  "fp_beforeSha256 (transactionFilePlan r) = tf_beforeSha256 r" "fp_afterSha256 (transactionFilePlan r) = tf_afterSha256 r"
  by (simp_all add: transactionFilePlan_def)

definition committed_on_disk :: "string \<Rightarrow> int \<Rightarrow> world \<Rightarrow> bool" where
  "committed_on_disk tid n w \<longleftrightarrow>
     (\<forall>f \<in> set (plans_of w tid). fp_ordinal f = n \<longrightarrow> w_fs w (fp_path f) = fp_afterText f)"

lemma record_file_committed_inv:
  assumes inv: "tx_inv en fs0 tid w" and id: "ti_transactionId identity = tid"
    and disk: "committed_on_disk tid n w"
    and call: "record_file_committed (en_sha en) now identity n (w_store w) = Inr (u, st)"
  shows "tx_inv en fs0 tid (w\<lparr>w_store := st\<rparr>) \<and> plans_of (w\<lparr>w_store := st\<rparr>) tid = plans_of w tid \<and>
    tx_of (w\<lparr>w_store := st\<rparr>) tid = tx_of w tid"
proof -
  let ?g = "\<lambda>f. if tf_ordinal f = n \<and> tf_state f = FS_prepared
      then f\<lparr>tf_state := FS_committed, tf_updatedAt := now\<rparr> else f"
  obtain tr where tr: "tx_of w tid = Some tr"
    and st: "st = put_files (tr_id tr) (map ?g (list_files (w_store w) (tr_id tr))) (w_store w)"
    using call id unfolding record_file_committed_def require_transaction_def
    by (auto simp: result_simps tx_of_def split: option.splits)
  note f = inv_facts [OF inv tr]
  have plans: "transactionFilePlans (map ?g (files_of w tid)) = plans_of w tid"
    using plans_restate [of ?g "files_of w tid"] by (simp add: plans_of_def)
  have "w_fs w (tf_path r) = tf_afterText r" if "r \<in> set (files_of w tid)" "tf_ordinal r = n" for r
    using disk plans_member [OF that(1)] that(2) by (force simp: committed_on_disk_def)
  then have true: "record_true (w_fs w) tr (map ?g (files_of w tid))"
    using f(2) plans unfolding record_true_def plans_of_def by auto
  have same: "AList.update tid tr (ts_transactions (w_store w)) = ts_transactions (w_store w)"
    using tr by (simp add: tx_of_def map_of_SomeD update_triv)
  have "tx_inv en fs0 tid (w\<lparr>w_store := st\<rparr>)"
    using st f(1) true plans same by (intro tx_inv_put [OF inv tr]) (auto simp: files_of_def)
  then show ?thesis using st f(1) plans by (simp add: plans_of_def files_of_def tx_of_def)
qed

lemma finalize_cases:
  assumes "finalize_transaction sha now identity outcome st = Inr (fin, st')"
  obtains (same) "st' = st"
    | (settle) tr kind where "map_of (ts_transactions st) (ti_transactionId identity) = Some tr"
        "outcome_evidence tr (list_files st (tr_id tr)) kind outcome = Inr ()"
        "ts_transactions st' = AList.update (tr_id tr) (settle_transaction now outcome tr) (ts_transactions st)"
        "ts_files st' = ts_files st"
proof -
  obtain tr where tr: "map_of (ts_transactions st) (ti_transactionId identity) = Some tr"
    using assms by (auto simp: finalize_transaction_def require_transaction_def result_simps split: option.splits)
  show thesis
  proof (cases "transaction_is_terminal (tr_state tr) \<or> (tr_state tr = TS_recovery_required \<and>
      outcome_state outcome = TS_recovery_required \<and> tr_failure tr = outcome_failure outcome)")
    case True
    then have "st' = st"
      using assms tr by (auto simp: finalize_transaction_def require_transaction_def replay_finalization_def
          result_simps split: option.splits prod.splits)
    then show thesis by (rule same)
  next
    case False
    then obtain a op st1 u st3 where
      ev: "outcome_evidence tr (list_files st (tr_id tr)) (ta_kind a) outcome = Inr ()"
      and ins: "insert_operation now tr outcome st = Inr (op, st1)"
      and bound: "settle_bound_proposal now tr outcome (put_attempt (settle_attempt now outcome a)
          (sha (ti_claimToken identity)) (put_transaction (settle_transaction now outcome tr) st1)) = Inr (u, st3)"
      and st': "st' = st3"
      using assms tr by (auto simp: finalize_transaction_def require_transaction_def result_simps Let_def
          split: prod.splits)
    have 1: "ts_transactions st1 = ts_transactions st" "ts_files st1 = ts_files st"
      using ins by (auto simp: insert_operation_def result_simps Let_def split: option.splits prod.splits)
    have 2: "ts_transactions st3 = AList.update (tr_id tr) (settle_transaction now outcome tr) (ts_transactions st1)"
      "ts_files st3 = ts_files st1"
      using bound by (auto simp: settle_bound_proposal_def result_simps Let_def put_attempt_def put_transaction_def
          settle_transaction_def split: option.splits prod.splits)
    from tr ev 1 2 st' show thesis by (intro settle) auto
  qed
qed

lemma finalize_true:
  assumes true: "record_true fs tr R" and ev: "outcome_evidence tr R kind outcome = Inr ()"
  shows "record_true fs (settle_transaction now outcome tr) R"
proof -
  have committed: "all_after fs (transactionFilePlans R)" if "list_all (\<lambda>f. tf_state f = FS_committed) R"
    using true that by (auto simp: record_true_def all_after_def transactionFilePlans_def list_all_iff)
  have empty: "all_after fs (transactionFilePlans [])" "all_before fs (transactionFilePlans [])"
    by (simp_all add: all_after_def all_before_def transactionFilePlans_def)
  show ?thesis
    using true ev committed empty
    by (cases outcome) (auto simp: record_true_def settle_transaction_def outcome_evidence_def result_simps)
qed

lemma finalize_inv:
  assumes inv: "tx_inv en fs0 tid w" and id: "ti_transactionId identity = tid"
    and call: "finalize_transaction (en_sha en) now identity outcome (w_store w) = Inr (fin, st)"
  shows "tx_inv en fs0 tid (w\<lparr>w_store := st\<rparr>)"
  using call
proof (cases rule: finalize_cases)
  case same
  then show ?thesis using inv by simp
next
  case (settle tr kind)
  have tr: "tx_of w tid = Some tr" using settle(1) id by (simp add: tx_of_def)
  note f = inv_facts [OF inv tr]
  have "record_true (w_fs w) (settle_transaction now outcome tr) (files_of w tid)"
    using finalize_true [OF f(2)] settle(2) f(1) by (simp add: files_of_def)
  moreover have "tr_id (settle_transaction now outcome tr) = tid" using f(1) by (simp add: settle_transaction_def)
  ultimately show ?thesis
    using settle f(1) by (intro tx_inv_put [OF inv tr]) (auto simp: files_of_def plans_of_def list_files_def)
qed

lemma validate_text_evidence_ok:
  "validate_text_evidence sha text hash = Inr u \<Longrightarrow> hash = map_option sha text"
  by (auto simp: validate_text_evidence_def result_simps split: option.splits)

lemma validate_plan_file_ok:
  "validate_plan_file sha paths (n, f) = Inr out \<Longrightarrow>
   out = paths @ [fp_path f] \<and> fp_ordinal f = int n \<and> fp_path f \<notin> set paths \<and>
   fp_beforeSha256 f = map_option sha (fp_beforeText f) \<and> fp_afterSha256 f = map_option sha (fp_afterText f)"
  by (simp add: validate_plan_file_def result_simps) (metis validate_text_evidence_ok)

lemma validate_plan_loop:
  assumes "for_each (validate_plan_file sha) paths (enumerate n P) = Inr out"
  shows "map fp_ordinal P = map int [n..<n + length P] \<and> distinct (map fp_path P) \<and>
    set paths \<inter> fp_path ` set P = {} \<and>
    (\<forall>f \<in> set P. fp_beforeSha256 f = map_option sha (fp_beforeText f) \<and>
      fp_afterSha256 f = map_option sha (fp_afterText f))"
  using assms
proof (induction P arbitrary: paths n)
  case (Cons f P)
  obtain paths' where one: "validate_plan_file sha paths (n, f) = Inr paths'"
    and loop: "for_each (validate_plan_file sha) paths' (enumerate (Suc n) P) = Inr out"
    using Cons.prems by (auto simp: res_bind_eq_Inr)
  note step = loop [unfolded conjunct1 [OF validate_plan_file_ok [OF one]]] conjunct2 [OF validate_plan_file_ok [OF one]]
  have "[n..<n + length (f # P)] = n # [Suc n..<Suc n + length P]" by (subst upt_rec) (simp del: upt_Suc)
  with Cons.IH [OF step(1)] step show ?case by auto
qed simp

text \<open>
  A planned file is sound for the files \<open>fs0\<close> when, its hashes being those of its texts, it
  starts from the text in \<open>fs0\<close> and its hashes tell before from after and whole from torn.
\<close>

definition plan_file_sound ::
  "(string \<Rightarrow> string) \<Rightarrow> (string \<Rightarrow> string option) \<Rightarrow> WorkspaceChangeTransactionFilePlan \<Rightarrow> bool" where
  "plan_file_sound sha fs0 f \<longleftrightarrow>
     (fp_beforeSha256 f = map_option sha (fp_beforeText f) \<and> fp_afterSha256 f = map_option sha (fp_afterText f) \<longrightarrow>
      fp_beforeText f = fs0 (fp_path f) \<and> fp_beforeSha256 f \<noteq> fp_afterSha256 f \<and>
      pred_option (torn_detected sha) (fp_afterText f))"

lemma validate_plan_good:
  assumes "validate_plan sha digest P = Inr d"
    and "\<forall>f \<in> set P. plan_file_sound sha fs0 f"
  shows "plan_good sha fs0 P \<and> P \<noteq> []"
proof -
  obtain out where loop: "for_each (validate_plan_file sha) [] (enumerate 0 P) = Inr out" and "P \<noteq> []"
    using assms(1) by (auto simp: validate_plan_def result_simps)
  moreover have "distinct (map fp_ordinal P)"
    using validate_plan_loop [OF loop] by (simp add: distinct_map inj_on_def)
  ultimately show ?thesis using validate_plan_loop [OF loop] assms(2) by (auto simp: plan_good_def plan_file_sound_def)
qed

lemma planned_file_plan [simp]: "transactionFilePlan (planned_file tid now f) = f"
  by (simp add: transactionFilePlan_def planned_file_def)

lemma planned_file_state [simp]: "tf_state (planned_file tid now f) = FS_pending"
  by (simp add: planned_file_def)

lemma record_plan_inv:
  assumes ph: "phase en fs0 tid {TS_planning} [] w" and id: "ti_transactionId identity = tid"
    and sound: "\<forall>f \<in> set P. plan_file_sound (en_sha en) fs0 f"
    and call: "record_plan (en_sha en) (en_digest en) now identity P (w_store w) = Inr (u, st)"
  shows "phase en fs0 tid {TS_planning} P (w\<lparr>w_store := st\<rparr>)"
proof -
  obtain tr where inv: "tx_inv en fs0 tid w" and tr: "tx_of w tid = Some tr" and files: "files_of w tid = []"
    and tr_facts: "tr_state tr = TS_planning" "tr_recoveryDecision tr = None"
    using ph by (auto simp: phase_def plans_of_def transactionFilePlans_def)
  note f = inv_facts [OF inv tr]
  have "tr_planDigest tr = None" using f(2) files by (simp add: record_true_def)
  then obtain d where good: "plan_good (en_sha en) fs0 P" "P \<noteq> []"
    and st: "st = put_transaction (tr\<lparr>tr_planDigest := Some d, tr_updatedAt := now\<rparr>)
        (put_files (tr_id tr) (map (planned_file (tr_id tr) now) P) (w_store w))"
    using call id tr files validate_plan_good [of "en_sha en" "en_digest en" P _ fs0] sound f(1)
    by (auto simp: record_plan_def require_transaction_def result_simps tx_of_def files_of_def split: option.splits)
  let ?w = "w\<lparr>w_store := st\<rparr>" and ?tr = "tr\<lparr>tr_planDigest := Some d, tr_updatedAt := now\<rparr>"
  have plans: "plans_of ?w tid = P" and files': "files_of ?w tid = map (planned_file tid now) P"
    and tx: "tx_of ?w tid = Some ?tr"
    using st f(1) by (simp_all add: plans_of_def files_of_def tx_of_def transactionFilePlans_def comp_def)
  have fs: "w_fs w = fs0" using inv files by (simp add: tx_inv_def between_def plans_of_def transactionFilePlans_def fun_eq_iff)
  have before: "all_before fs0 P" using good(1) by (simp add: all_before_def plan_good_def)
  have "record_true fs0 ?tr (map (planned_file tid now) P)"
    using tr_facts before good(2) by (auto simp: record_true_def transactionFilePlans_def comp_def)
  moreover have "only_tx ?w tid"
  proof -
    have "only_tx w tid" using inv by (simp add: tx_inv_def)
    then show ?thesis unfolding only_tx_def using st f(1) by (auto simp: distinct_update dest!: update_member)
  qed
  moreover have "temps_ok ?w tid"
    using inv files by (auto simp: tx_inv_def temps_ok_def plans_of_def transactionFilePlans_def)
  moreover have "between fs0 fs0 P" using before by (auto simp: between_def all_before_def)
  ultimately have "tx_inv en fs0 tid ?w" using good(1) plans files' tx fs by (simp add: tx_inv_def)
  then show ?thesis using plans tx tr_facts by (simp add: phase_def)
qed

lemma begin_new_inv:
  assumes inv: "tx_inv en fs0 tid w" and none: "tx_of w tid = None" and id: "bt_id request = tid"
    and key: "\<forall>(k, tr) \<in> set (ts_transactions (w_store w)). tr_idempotencyKey tr \<noteq> bt_idempotencyKey request"
    and call: "begin_transaction (en_sha en) now request (w_store w) = Inr (claim, st)"
  shows "phase en fs0 tid {TS_planning} [] (w\<lparr>w_store := st\<rparr>)"
proof -
  have find: "List.find (\<lambda>tr. tr_idempotencyKey tr = bt_idempotencyKey request) (map snd (ts_transactions (w_store w))) = None"
    using key by (auto simp: find_None_iff)
  obtain applyAttempt a where
    st: "st = put_attempt a (en_sha en (bt_claimToken request)) (put_transaction (new_transaction request applyAttempt now) (w_store w))"
    using call none id unfolding begin_transaction_def find tx_of_def
    by (auto simp: result_simps Let_def split: option.splits)
  let ?w = "w\<lparr>w_store := st\<rparr>" and ?tr = "new_transaction request applyAttempt now"
  have files: "files_of w tid = []" using inv none by (simp add: tx_inv_def)
  have plans: "plans_of ?w tid = []" "files_of ?w tid = []" and tx: "tx_of ?w tid = Some ?tr"
    using st id files by (simp_all add: plans_of_def files_of_def tx_of_def transactionFilePlans_def new_transaction_def)
  have "only_tx ?w tid"
  proof -
    have "only_tx w tid" using inv by (simp add: tx_inv_def)
    then show ?thesis unfolding only_tx_def using st id
      by (auto simp: distinct_update new_transaction_def dest!: update_member)
  qed
  moreover have "temps_ok ?w tid" "between fs0 (w_fs ?w) []" "plan_good (en_sha en) fs0 []"
    using inv files plans by (auto simp: tx_inv_def temps_ok_def plans_of_def transactionFilePlans_def plan_good_def)
  moreover have "record_true (w_fs ?w) ?tr []"
    by (simp add: record_true_def new_transaction_def all_before_def transactionFilePlans_def)
  ultimately have "tx_inv en fs0 tid ?w" using plans tx by (simp add: tx_inv_def)
  then show ?thesis using plans tx by (simp add: phase_def new_transaction_def)
qed

section \<open>Observations\<close>

lemma classify_true:
  assumes "plan_good sha fs0 P" "between fs0 fs P" "f \<in> set P"
  shows "classify sha (fs (fp_path f)) (fp_beforeSha256 f) (fp_afterSha256 f) =
    (if fs (fp_path f) = fp_beforeText f then OB_before else OB_after)"
proof -
  have f: "fp_beforeSha256 f = map_option sha (fp_beforeText f)" "fp_afterSha256 f = map_option sha (fp_afterText f)"
    "fp_beforeSha256 f \<noteq> fp_afterSha256 f" "fs (fp_path f) = fp_beforeText f \<or> fs (fp_path f) = fp_afterText f"
    using assms by (auto simp: plan_good_def between_def)
  then show ?thesis by (cases "fp_beforeText f"; cases "fp_afterText f") (auto simp: classify_def)
qed

lemma collect_observations_ok:
  assumes "collect_observations obs = Inr m"
  shows "m = map (\<lambda>ob. (ob_ordinal ob, ob_current ob)) obs"
proof -
  let ?body = "\<lambda>m ob. if ob_ordinal ob < 0 \<or> map_of m (ob_ordinal ob) \<noteq> None
       then Inl (store_error ''workspace transaction observations must be unique and classified'')
       else Inr (AList.update (ob_ordinal ob) (ob_current ob) m)"
  have "for_each ?body m0 obs = Inr m \<Longrightarrow> m = m0 @ map (\<lambda>ob. (ob_ordinal ob, ob_current ob)) obs" for m0
  proof (induction obs arbitrary: m0)
    case (Cons ob obs)
    then have "map_of m0 (ob_ordinal ob) = None"
      and loop: "for_each ?body (AList.update (ob_ordinal ob) (ob_current ob) m0) obs = Inr m"
      by (auto split: if_splits)
    then show ?case using Cons.IH [OF loop] by (simp add: update_fresh map_of_eq_None_iff)
  qed simp
  from this [of "[]"] assms show ?thesis by (simp add: collect_observations_def)
qed

definition observe :: "env \<Rightarrow> world \<Rightarrow> WorkspaceChangeTransactionFilePlan list \<Rightarrow> WorkspaceChangeTransactionFileObservation list" where
  "observe en w P = map (inspect_file en w) (map wirePlan P)"

lemma observe_lookup:
  assumes "tx_inv en fs0 tid w" "r \<in> set (files_of w tid)"
  shows "map_of (map (\<lambda>ob. (ob_ordinal ob, ob_current ob)) (observe en w (plans_of w tid))) (tf_ordinal r) =
    Some (if w_fs w (tf_path r) = tf_beforeText r then OB_before else OB_after)"
proof -
  let ?P = "plans_of w tid" and ?f = "transactionFilePlan r"
  have good: "plan_good (en_sha en) fs0 ?P" "between fs0 (w_fs w) ?P" using assms(1) by (auto simp: tx_inv_def)
  have f: "?f \<in> set ?P" using plans_member [OF assms(2)] .
  have eq: "map (\<lambda>ob. (ob_ordinal ob, ob_current ob)) (observe en w ?P) =
      map (\<lambda>f. (fp_ordinal f, classify (en_sha en) (w_fs w (fp_path f)) (fp_beforeSha256 f) (fp_afterSha256 f))) ?P"
    by (simp add: observe_def inspect_file_def wirePlan_def)
  have "distinct (map fp_ordinal ?P)" using good(1) by (simp add: plan_good_def)
  then have "map_of (map (\<lambda>f. (fp_ordinal f, classify (en_sha en) (w_fs w (fp_path f)) (fp_beforeSha256 f) (fp_afterSha256 f))) ?P) (fp_ordinal ?f) =
      Some (classify (en_sha en) (w_fs w (fp_path ?f)) (fp_beforeSha256 ?f) (fp_afterSha256 ?f))"
    using f by (intro map_of_is_SomeI) (simp_all add: comp_def del: plan_of_simps)
  then show ?thesis unfolding eq classify_true [OF good f] by simp
qed

definition may_commit :: "string \<Rightarrow> world \<Rightarrow> bool" where
  "may_commit tid w \<longleftrightarrow> (\<exists>tr. tx_of w tid = Some tr \<and> tr_state tr \<in> {TS_committing, TS_recovery_required} \<and>
     tr_recoveryDecision tr \<in> {None, Some RD_finish_forward})"

lemma reconcile_true:
  assumes true: "record_true fs tr R" and b: "between fs0 fs (transactionFilePlans R)" and ne: "R \<noteq> []"
    and cur_all: "\<forall>r \<in> set R. cur r = (if fs (tf_path r) = tf_beforeText r then OB_before else OB_after)"
    and d: "d = reconcile_decision (tr_state tr) (map cur R)"
    and R': "R' = map (\<lambda>f. f\<lparr>tf_state := (if cur f = OB_after then FS_committed else FS_prepared), tf_updatedAt := now\<rparr>) R"
  shows "d \<noteq> RD_attention" "record_true fs (tr\<lparr>tr_recoveryDecision := Some d, tr_updatedAt := now\<rparr>) R'"
    "d = RD_finish_forward \<Longrightarrow> \<not> transaction_is_terminal (tr_state tr) \<Longrightarrow> tr_state tr \<in> {TS_committing, TS_recovery_required}"
proof -
  have cur: "cur r = (if fs (tf_path r) = tf_beforeText r then OB_before else OB_after)" if "r \<in> set R" for r
    using cur_all that by blast
  have other: "OB_other \<notin> set (map cur R)" using cur by auto
  then show "d \<noteq> RD_attention" using d by (auto simp: reconcile_decision_def)
  have plans: "transactionFilePlans R' = transactionFilePlans R" using R' by (simp add: transactionFilePlans_def)
  have disk: "fs (tf_path r) = tf_beforeText r \<or> fs (tf_path r) = tf_afterText r" if "r \<in> set R" for r
    using b that by (force simp: between_def transactionFilePlans_def)
  have noop: "all_before fs (transactionFilePlans R)" if "OB_after \<notin> set (map cur R)"
    using that cur by (auto simp: all_before_def transactionFilePlans_def image_iff split: if_splits)
  have fin: "all_after fs (transactionFilePlans R)" if "list_all (\<lambda>c. c = OB_after) (map cur R)"
    using that cur disk by (fastforce simp: all_after_def transactionFilePlans_def list_all_iff split: if_splits)
  have dec: "d = RD_rollback_noop \<longrightarrow> all_before fs (transactionFilePlans R)"
    "d = RD_finalize \<longrightarrow> all_after fs (transactionFilePlans R)"
    using d noop fin by (auto simp: reconcile_decision_def split: if_splits)
  have com: "\<forall>r \<in> set R'. tf_state r = FS_committed \<longrightarrow> fs (tf_path r) = tf_afterText r"
    using R' cur disk by (fastforce split: if_splits)
  show "record_true fs (tr\<lparr>tr_recoveryDecision := Some d, tr_updatedAt := now\<rparr>) R'"
    using true dec com plans R' by (auto simp: record_true_def)
  assume ff: "d = RD_finish_forward" and nt: "\<not> transaction_is_terminal (tr_state tr)"
  show "tr_state tr \<in> {TS_committing, TS_recovery_required}"
  proof (rule ccontr)
    assume "tr_state tr \<notin> {TS_committing, TS_recovery_required}"
    with nt have "tr_state tr \<in> {TS_planning, TS_prepared}"
      by (cases "tr_state tr") (auto simp: transaction_is_terminal_def)
    then have "all_before fs (transactionFilePlans R)" using true by (auto simp: record_true_def)
    then have "cur r = OB_before" if "r \<in> set R" for r
      using cur [OF that] that by (force simp: all_before_def transactionFilePlans_def)
    then have "OB_after \<notin> set (map cur R)" by auto
    with ff d \<open>tr_state tr \<in> {TS_planning, TS_prepared}\<close> ne show False
      by (auto simp: reconcile_decision_def split: if_splits)
  qed
qed

lemma reconcile_inv:
  assumes inv: "tx_inv en fs0 tid w" and id: "ti_transactionId identity = tid"
    and call: "reconcile_files (en_sha en) now identity (observe en w (plans_of w tid)) (w_store w) = Inr (rec, st)"
  shows "tx_inv en fs0 tid (w\<lparr>w_store := st\<rparr>) \<and> plans_of (w\<lparr>w_store := st\<rparr>) tid = plans_of w tid \<and>
    (rec_decision rec = RD_finish_forward \<longrightarrow> may_commit tid (w\<lparr>w_store := st\<rparr>))"
proof -
  let ?R = "files_of w tid" and ?obs = "map (\<lambda>ob. (ob_ordinal ob, ob_current ob)) (observe en w (plans_of w tid))"
  let ?cur = "\<lambda>f. the (map_of ?obs (tf_ordinal f))"
  obtain tr where tr: "tx_of w tid = Some tr" and nt: "\<not> transaction_is_terminal (tr_state tr)"
    using call id by (auto simp: reconcile_files_def require_transaction_def result_simps Let_def tx_of_def split: option.splits)
  note f = inv_facts [OF inv tr]
  define d where "d = reconcile_decision (tr_state tr) (map ?cur ?R)"
  define R' where "R' = map (\<lambda>f. f\<lparr>tf_state := (if ?cur f = OB_after then FS_committed else FS_prepared), tf_updatedAt := now\<rparr>) ?R"
  define tr' where "tr' = (if d = RD_attention
      then tr\<lparr>tr_state := TS_recovery_required, tr_recoveryDecision := Some RD_attention, tr_updatedAt := now\<rparr>
      else tr\<lparr>tr_recoveryDecision := Some d, tr_updatedAt := now\<rparr>)"
  have ne: "?R \<noteq> []" and st: "st = put_transaction tr' (put_files tid R' (w_store w))" and dec: "rec_decision rec = d"
    using call id tr f(1) unfolding reconcile_files_def
    by (auto simp: require_transaction_def result_simps Let_def tx_of_def files_of_def d_def R'_def tr'_def
        dest!: collect_observations_ok)
  have b: "between fs0 (w_fs w) (transactionFilePlans ?R)" using inv by (simp add: tx_inv_def plans_of_def)
  have cur: "\<forall>r \<in> set ?R. ?cur r = (if w_fs w (tf_path r) = tf_beforeText r then OB_before else OB_after)"
    using observe_lookup [OF inv] by simp
  note rt = reconcile_true [OF f(2) b ne cur d_def R'_def]
  have tr'_eq: "tr' = tr\<lparr>tr_recoveryDecision := Some d, tr_updatedAt := now\<rparr>" using rt(1) by (simp add: tr'_def)
  have plans: "transactionFilePlans R' = plans_of w tid" by (simp add: R'_def plans_of_def transactionFilePlans_def)
  have "tx_inv en fs0 tid (w\<lparr>w_store := st\<rparr>)"
    using st f(1) plans rt(2) tr'_eq by (intro tx_inv_put [OF inv tr, of tr' R']) simp_all
  moreover have "plans_of (w\<lparr>w_store := st\<rparr>) tid = plans_of w tid" using st plans by (simp add: plans_of_def files_of_def)
  moreover have "may_commit tid (w\<lparr>w_store := st\<rparr>)" if "rec_decision rec = RD_finish_forward"
    using rt(3) [OF _ nt] that dec st f(1) tr'_eq by (auto simp: may_commit_def tx_of_def)
  ultimately show ?thesis by blast
qed

section \<open>The helper\<close>

text \<open>
  \<open>same_record w w'\<close>: the durable part is the same. The helper changes the files and its own
  artifacts only.
\<close>

definition same_record :: "world \<Rightarrow> world \<Rightarrow> bool" where
  "same_record w w' \<longleftrightarrow> ts_transactions (w_store w') = ts_transactions (w_store w) \<and>
     ts_files (w_store w') = ts_files (w_store w) \<and> w_helpers w' = w_helpers w"

lemma same_record_facts:
  assumes "same_record w w'"
  shows "tx_of w' = tx_of w" "files_of w' = files_of w" "plans_of w' = plans_of w" "only_tx w' tid = only_tx w tid"
    "may_commit tid w' = may_commit tid w"
proof -
  from assms show 1: "tx_of w' = tx_of w" and 2: "files_of w' = files_of w" and "only_tx w' tid = only_tx w tid"
    by (simp_all add: same_record_def fun_eq_iff tx_of_def files_of_def list_files_def only_tx_def)
  from 2 show "plans_of w' = plans_of w" by (simp add: fun_eq_iff plans_of_def)
  from 1 show "may_commit tid w' = may_commit tid w" by (simp add: may_commit_def)
qed

lemma commit_file_step:
  assumes inv: "tx_inv en fs0 tid w" and may: "may_commit tid w" and f: "f \<in> set (plans_of w tid)"
    and step: "commit_file en tid (wirePlan f) w = Inr w'"
  shows "tx_inv en fs0 tid w' \<and> same_record w w' \<and> w_fs w' (fp_path f) = fp_afterText f \<and>
    (\<forall>p. p \<noteq> fp_path f \<longrightarrow> w_fs w' p = w_fs w p)"
proof -
  let ?P = "plans_of w tid"
  have good: "plan_good (en_sha en) fs0 ?P" "between fs0 (w_fs w) ?P" and temps: "temps_ok w tid"
    using inv by (auto simp: tx_inv_def)
  have cls: "classify (en_sha en) (w_fs w (fp_path f)) (fp_beforeSha256 f) (fp_afterSha256 f) =
      (if w_fs w (fp_path f) = fp_beforeText f then OB_before else OB_after)"
    by (rule classify_true [OF good f])
  have disk: "w_fs w (fp_path f) = fp_beforeText f \<or> w_fs w (fp_path f) = fp_afterText f"
    using good(2) f by (auto simp: between_def)
  have uniq: "fp_afterText f = Some t" if "w_tmp w (tid, fp_ordinal f) = Some t" "Some (en_sha en t) = fp_afterSha256 f" for t
  proof -
    obtain g t' k where g: "g \<in> set ?P" "fp_ordinal g = fp_ordinal f" "fp_afterText g = Some t'" "t = take k t'"
      using temps \<open>w_tmp w (tid, fp_ordinal f) = Some t\<close> unfolding temps_ok_def by blast
    moreover have "g = f" using good(1) f g(1,2) by (auto simp: plan_good_def distinct_map dest: inj_onD)
    moreover have "fp_afterSha256 f = map_option (en_sha en) (fp_afterText f)" "pred_option (torn_detected (en_sha en)) (fp_afterText f)"
      using good(1) f by (auto simp: plan_good_def)
    ultimately show ?thesis using that(2) by (simp add: torn_detected_def)
  qed
  have w': "w_fs w' = (w_fs w)(fp_path f := fp_afterText f)" "same_record w w'"
      "w_tmp w' = w_tmp w \<or> w_tmp w' = (w_tmp w)((tid, fp_ordinal f) := None)"
    using step cls disk uniq
    by (auto simp: commit_file_def wirePlan_def same_record_def split: if_splits option.splits)
  have "tx_inv en fs0 tid w'"
  proof -
    obtain tr where tr: "tx_of w tid = Some tr" "tr_state tr \<in> {TS_committing, TS_recovery_required}"
      "tr_recoveryDecision tr \<in> {None, Some RD_finish_forward}" using may by (auto simp: may_commit_def)
    have old: "record_true (w_fs w) tr (files_of w tid)" using inv tr(1) by (simp add: tx_inv_def)
    have "w_fs w' (tf_path r) = tf_afterText r" if "r \<in> set (files_of w tid)" "tf_state r = FS_committed" for r
    proof (cases "tf_path r = fp_path f")
      case True
      moreover have "inj_on fp_path (set ?P)" using good(1) by (simp add: plan_good_def distinct_map)
      ultimately have "transactionFilePlan r = f"
        using f plans_member [OF that(1)] inj_onD [of fp_path "set ?P" "transactionFilePlan r" f] by simp
      then have "tf_afterText r = fp_afterText f" using plan_of_simps(4) [of r] by metis
      then show ?thesis using w'(1) True by simp
    next
      case False
      then show ?thesis using w'(1) old that by (simp add: record_true_def)
    qed
    then have com: "\<forall>r \<in> set (files_of w tid). tf_state r = FS_committed \<longrightarrow> w_fs w' (tf_path r) = tf_afterText r"
      by blast
    have "tr_state tr \<notin> {TS_planning, TS_prepared, TS_rolled_back}" "tr_state tr \<noteq> TS_applied"
      "tr_recoveryDecision tr \<noteq> Some RD_rollback_noop" "tr_recoveryDecision tr \<noteq> Some RD_finalize"
      using tr(2,3) by auto
    then have "record_true (w_fs w') tr (files_of w tid)"
      using com old unfolding record_true_def by simp
    moreover have "between fs0 (w_fs w') ?P"
    proof -
      have "inj_on fp_path (set ?P)" using good(1) by (simp add: plan_good_def distinct_map)
      then have "g = f" if "g \<in> set ?P" "fp_path g = fp_path f" for g using that f by (auto dest: inj_onD)
      then show ?thesis using good(2) f w'(1) unfolding between_def by auto
    qed
    moreover have "temps_ok w' tid"
      using temps w'(3) same_record_facts(3) [OF w'(2)] by (auto simp: temps_ok_def split: if_splits)
    ultimately show ?thesis
      using inv tr(1) same_record_facts [OF w'(2)] by (simp add: tx_inv_def)
  qed
  then show ?thesis using w' by simp
qed

lemma committed_on_disk_same:
  "same_record w w' \<Longrightarrow> w_fs w' = w_fs w \<Longrightarrow> committed_on_disk tid n w' = committed_on_disk tid n w"
  by (simp add: committed_on_disk_def same_record_facts)

text \<open>A commit run, with the ordinals that it has announced so far in \<open>seen\<close>.\<close>

definition committing :: "env \<Rightarrow> (string \<Rightarrow> string option) \<Rightarrow> string \<Rightarrow> WorkspaceChangeTransactionFilePlan list \<Rightarrow> int set \<Rightarrow> world \<Rightarrow> bool" where
  "committing en fs0 tid P seen w \<longleftrightarrow> tx_inv en fs0 tid w \<and> plans_of w tid = P \<and> may_commit tid w \<and>
     (\<forall>n \<in> seen. committed_on_disk tid n w)"

lemma committing_core:
  assumes "core w = core w'" "committing en fs0 tid P seen w'"
  shows "committing en fs0 tid P seen w"
  using assms(2) unfolding committing_def tx_inv_core [OF assms(1)] core_eq [OF assms(1)] may_commit_def
    committed_on_disk_def .

lemma committing_step:
  assumes c: "committing en fs0 tid P seen w" and f: "f \<in> set P"
    and step: "commit_file en tid (wirePlan f) w = Inr w'"
  shows "committing en fs0 tid P (insert (fp_ordinal f) seen) w'"
proof -
  have inv: "tx_inv en fs0 tid w" and P: "plans_of w tid = P" and may: "may_commit tid w"
    using c by (auto simp: committing_def)
  have st: "tx_inv en fs0 tid w'" "same_record w w'" "w_fs w' (fp_path f) = fp_afterText f"
    "\<And>p. p \<noteq> fp_path f \<Longrightarrow> w_fs w' p = w_fs w p"
    using commit_file_step [OF inv may _ step] f P by auto
  have inj: "inj_on fp_ordinal (set P)" "inj_on fp_path (set P)"
    using inv P by (auto simp: tx_inv_def plan_good_def distinct_map)
  have "w_fs w' (fp_path g) = fp_afterText g" if "g \<in> set P" "fp_ordinal g \<in> insert (fp_ordinal f) seen" for g
  proof (cases "fp_path g = fp_path f")
    case True
    then have "g = f" using inj(2) f that(1) by (auto dest: inj_onD)
    then show ?thesis using st(3) by simp
  next
    case False
    then have "fp_ordinal g \<noteq> fp_ordinal f" using inj(1) f that(1) by (auto dest: inj_onD)
    then show ?thesis using c P that st(4) [OF False] by (auto simp: committing_def committed_on_disk_def)
  qed
  then show ?thesis
    using st(1) P may same_record_facts [OF st(2)] by (auto simp: committing_def committed_on_disk_def)
qed

lemma committing_run:
  assumes "committing en fs0 tid P seen w" "set L \<subseteq> wirePlan ` set P"
    and "helper_run en (\<lambda>_ _ w. w) (commit_file en tid) L w = (os, e, w')"
  shows "committing en fs0 tid P (seen \<union> set os) w'"
  using assms
proof (induction L arbitrary: w seen os e w')
  case (Cons x L)
  obtain f where f: "f \<in> set P" "x = wirePlan f" using Cons.prems(2) by auto
  obtain kind w1 where t: "tick en w = (kind, w1)" by (cases "tick en w")
  have c1: "committing en fs0 tid P seen w1"
    using committing_core [of w1 w] tick_core [of en w] t Cons.prems(1) by simp
  have crash: "committing en fs0 tid P seen (w1\<lparr>w_crashed := True\<rparr>)"
    by (rule committing_core [OF _ c1]) (simp add: core_def)
  show ?case
  proof (cases "kind = F_ok \<or> kind = F_lost")
    case False
    then show ?thesis using Cons.prems(3) t c1 crash by (cases kind) auto
  next
    case True
    show ?thesis
    proof (cases "commit_file en tid x w1")
      case (Inl err)
      with True Cons.prems(3) t c1 show ?thesis by auto
    next
      case (Inr w2)
      have c2: "committing en fs0 tid P (insert (fp_ordinal f) seen) w2"
        using committing_step [OF c1 f(1)] Inr f(2) by simp
      then have c2': "committing en fs0 tid P seen w2" by (auto simp: committing_def)
      obtain os' e' w3 where run: "helper_run en (\<lambda>_ _ w. w) (commit_file en tid) L w2 = (os', e', w3)"
        by (cases "helper_run en (\<lambda>_ _ w. w) (commit_file en tid) L w2")
      have "fst x = fp_ordinal f" using f(2) by (simp add: wirePlan_def)
      with Cons.IH [OF c2 _ run] Cons.prems(2,3) t True Inr run c2' show ?thesis by auto
    qed
  qed
qed auto

text \<open>\<open>held en fs0 tid P S\<close>: the invariant, the plan \<open>P\<close> and a record with \<open>S\<close>.\<close>

definition held ::
  "env \<Rightarrow> (string \<Rightarrow> string option) \<Rightarrow> string \<Rightarrow> WorkspaceChangeTransactionFilePlan list \<Rightarrow>
   (WorkspaceChangeTransactionRecord \<Rightarrow> bool) \<Rightarrow> world \<Rightarrow> bool" where
  "held en fs0 tid P S w \<longleftrightarrow> tx_inv en fs0 tid w \<and> plans_of w tid = P \<and> (\<exists>tr. tx_of w tid = Some tr \<and> S tr)"

lemma held_inv: "held en fs0 tid P S w \<Longrightarrow> tx_inv en fs0 tid w"
  by (simp add: held_def)

lemma held_stable: "core_stable (held en fs0 tid P S)"
proof -
  have "held en fs0 tid P S w'" if "core w = core w'" "held en fs0 tid P S w" for w w'
    using that(2) unfolding held_def tx_inv_core [OF that(1)] core_eq [OF that(1)] .
  then show ?thesis unfolding core_stable_def by blast
qed

lemma inv_same:
  assumes "tx_inv en fs0 tid w" "same_record w w'" "w_fs w' = w_fs w" "temps_ok w' tid"
  shows "tx_inv en fs0 tid w'"
  using assms(1,4) unfolding tx_inv_def same_record_facts [OF assms(2)] assms(3) by blast

lemma held_same:
  assumes "held en fs0 tid P S w" "same_record w w'" "w_fs w' = w_fs w" "temps_ok w' tid"
  shows "held en fs0 tid P S w'"
  using assms(1) inv_same [OF held_inv [OF assms(1)] assms(2-4)]
  unfolding held_def same_record_facts [OF assms(2)] by blast

lemma helper_run_keeps:
  assumes st: "core_stable K" and step: "\<And>x w w'. x \<in> set L \<Longrightarrow> K w \<Longrightarrow> step x w = Inr w' \<Longrightarrow> K w'"
    and torn: "\<And>k x w. x \<in> set L \<Longrightarrow> K w \<Longrightarrow> K (torn k x w)"
    and "K w" "helper_run en torn step L w = (os, e, w')"
  shows "K w'"
  using assms(2-)
proof (induction L arbitrary: w os e w')
  case (Cons x L)
  obtain kind w1 where t: "tick en w = (kind, w1)" by (cases "tick en w")
  have k1: "K w1" using core_stableD [OF st, of w1 w] tick_core [of en w] t Cons.prems(3) by simp
  have kt: "K (torn k x w1)" for k using Cons.prems(2) [of x w1 k] k1 by simp
  have crash: "K (w1\<lparr>w_crashed := True\<rparr>)" by (rule core_stableD [OF st _ k1]) (simp add: core_def)
  show ?case
  proof (cases "step x w1")
    case (Inl err)
    with Cons.prems(4) t k1 crash kt show ?thesis by (cases kind) auto
  next
    case (Inr w2)
    then have k2: "K w2" using Cons.prems(1) [of x w1 w2] k1 by simp
    obtain os' e' w3 where run: "helper_run en torn step L w2 = (os', e', w3)" by (cases "helper_run en torn step L w2")
    have "K w3" by (rule Cons.IH [OF _ _ k2 run]) (use Cons.prems(1,2) in \<open>meson list.set_intros(2)\<close>)+
    with Cons.prems(4) t k1 k2 kt crash Inr run show ?thesis by (cases kind) auto
  qed
qed auto

lemma temp_written:
  assumes held: "held en fs0 tid P S w" and f: "f \<in> set P" "fp_afterText f = Some t"
    and w': "same_record w w'" "w_fs w' = w_fs w" "w_tmp w' = (w_tmp w)((tid, fp_ordinal f) := Some u)" "u = take k t"
  shows "held en fs0 tid P S w'"
proof -
  have temps: "temps_ok w tid" and P: "plans_of w tid = P" using held by (auto simp: held_def tx_inv_def)
  have "\<exists>g \<in> set P. fp_ordinal g = n \<and> (\<exists>t' k. fp_afterText g = Some t' \<and> v = take k t')" if "w_tmp w' (tid, n) = Some v" for n v
  proof (cases "n = fp_ordinal f")
    case True
    then show ?thesis using f w'(3,4) that by auto
  next
    case False
    then show ?thesis using temps P w'(3) that by (simp add: temps_ok_def)
  qed
  then have "temps_ok w' tid" unfolding temps_ok_def same_record_facts(3) [OF w'(1)] P by blast
  then show ?thesis by (rule held_same [OF held w'(1,2)])
qed

lemma prepare_file_step:
  assumes "held en fs0 tid P S w" "f \<in> set P" "prepare_file en tid (wirePlan f) w = Inr w'"
  shows "held en fs0 tid P S w'"
proof -
  consider "w' = w" | t where "fp_afterText f = Some t" "w' = w\<lparr>w_tmp := (w_tmp w)((tid, fp_ordinal f) := Some t)\<rparr>"
    using assms(3) by (auto simp: prepare_file_def wirePlan_def split: observed.splits option.splits if_splits)
  then show ?thesis
  proof cases
    case (2 t)
    then show ?thesis by (intro temp_written [OF assms(1,2), of t w' t "length t"]) (simp_all add: same_record_def)
  qed (simp add: assms(1))
qed

lemma torn_file_step:
  assumes "held en fs0 tid P S w" "f \<in> set P"
  shows "held en fs0 tid P S (torn_file en tid k (wirePlan f) w)"
proof -
  consider "torn_file en tid k (wirePlan f) w = w"
    | t where "fp_afterText f = Some t"
        "torn_file en tid k (wirePlan f) w = w\<lparr>w_tmp := (w_tmp w)((tid, fp_ordinal f) := Some (take k t))\<rparr>"
    by (cases "classify (en_sha en) (w_fs w (fp_path f)) (fp_beforeSha256 f) (fp_afterSha256 f)";
        cases "fp_afterText f"; cases "w_tmp w (tid, fp_ordinal f)") (auto simp: torn_file_def wirePlan_def)
  then show ?thesis
    by cases (auto intro: temp_written [OF assms] simp: assms(1) same_record_def)
qed

lemma cleanup_file_step:
  assumes "cleanup_file en t x w = Inr w'"
  shows "same_record w w' \<and> w_fs w' = w_fs w \<and> (\<forall>k v. w_tmp w' k = Some v \<longrightarrow> w_tmp w k = Some v)"
  using assms
  by (auto simp: cleanup_file_def same_record_def result_simps Let_def split: sum.splits if_splits prod.splits)

lemma cleanup_temps:
  assumes "temps_ok w tid" "cleanup_file en t x w = Inr w'"
  shows "temps_ok w' tid"
proof -
  note c = cleanup_file_step [OF assms(2)]
  show ?thesis unfolding temps_ok_def same_record_facts(3) [OF conjunct1 [OF c]]
    using assms(1) c unfolding temps_ok_def by blast
qed

lemma only_tx_helpers:
  assumes "only_tx w tid" "\<forall>s \<in> set hs. hs_alive s \<longrightarrow> hs_transactionId s = tid"
  shows "only_tx (w\<lparr>w_helpers := hs\<rparr>) tid"
  using assms unfolding only_tx_def by simp

lemma helpers_facts:
  "tx_of (w\<lparr>w_helpers := hs\<rparr>) = tx_of w" "files_of (w\<lparr>w_helpers := hs\<rparr>) = files_of w"
  "plans_of (w\<lparr>w_helpers := hs\<rparr>) = plans_of w" "temps_ok (w\<lparr>w_helpers := hs\<rparr>) = temps_ok w"
  "w_fs (w\<lparr>w_helpers := hs\<rparr>) = w_fs w"
  by (simp_all add: fun_eq_iff tx_of_def files_of_def plans_of_def temps_ok_def)

lemma inv_helpers:
  assumes "tx_inv en fs0 tid w" "\<forall>s \<in> set hs. hs_alive s \<longrightarrow> hs_transactionId s = tid"
  shows "tx_inv en fs0 tid (w\<lparr>w_helpers := hs\<rparr>)"
  using assms(1) only_tx_helpers [OF _ assms(2), of w] unfolding tx_inv_def helpers_facts by blast

lemma held_helpers:
  assumes "held en fs0 tid P S w" "\<forall>s \<in> set hs. hs_alive s \<longrightarrow> hs_transactionId s = tid"
  shows "held en fs0 tid P S (w\<lparr>w_helpers := hs\<rparr>)"
  using assms(1) inv_helpers [OF held_inv [OF assms(1)] assms(2)] unfolding held_def helpers_facts by blast

lemma set_helper_alive:
  assumes "only_tx w tid" "\<And>s. hs_alive (g s) \<Longrightarrow> hs_alive s" "\<And>s. hs_transactionId (g s) = hs_transactionId s"
  shows "\<forall>s \<in> set (if h < length (w_helpers w) then (w_helpers w)[h := g (w_helpers w ! h)] else w_helpers w).
    hs_alive s \<longrightarrow> hs_transactionId s = tid"
proof -
  have old: "hs_transactionId s = tid" if "s \<in> set (w_helpers w)" "hs_alive s" for s
    using assms(1) that by (auto simp: only_tx_def)
  have "hs_transactionId (g (w_helpers w ! h)) = tid" if "h < length (w_helpers w)" "hs_alive (g (w_helpers w ! h))"
    using old [of "w_helpers w ! h"] assms(2,3) that by simp
  then show ?thesis using old set_update_subset_insert [of "w_helpers w" h "g (w_helpers w ! h)"] by auto
qed

lemma inv_set_helper:
  assumes "\<And>s. hs_alive (g s) \<Longrightarrow> hs_alive s" "\<And>s. hs_transactionId (g s) = hs_transactionId s"
  shows "tx_inv en fs0 tid w \<Longrightarrow> tx_inv en fs0 tid (set_helper h g w)"
    "held en fs0 tid P S w \<Longrightarrow> held en fs0 tid P S (set_helper h g w)"
proof -
  assume inv: "tx_inv en fs0 tid w"
  then have "only_tx w tid" by (simp add: tx_inv_def)
  from inv_helpers [OF inv set_helper_alive [OF this assms]] show "tx_inv en fs0 tid (set_helper h g w)"
    by (simp add: set_helper_def)
next
  assume held: "held en fs0 tid P S w"
  then have "only_tx w tid" by (simp add: held_def tx_inv_def)
  from held_helpers [OF held set_helper_alive [OF this assms]] show "held en fs0 tid P S (set_helper h g w)"
    by (simp add: set_helper_def)
qed

lemma kill_helper_keeps:
  "tx_inv en fs0 tid w \<Longrightarrow> tx_inv en fs0 tid (kill_helper h w)"
  "held en fs0 tid P S w \<Longrightarrow> held en fs0 tid P S (kill_helper h w)"
  unfolding kill_helper_def by (rule inv_set_helper, simp_all)+

lemma set_prepared_keeps:
  "held en fs0 tid P S w \<Longrightarrow> held en fs0 tid P S (set_helper h (\<lambda>s. s\<lparr>hs_prepared := x\<rparr>) w)"
  by (rule inv_set_helper) simp_all

end
