(* ===== verification/Transaction_Services.thy ===== *)
theory Transaction_Services
  imports Transaction_Invariant
begin

text \<open>
  What each service call of the transaction program establishes: one triple per service of
  \<open>world_services\<close>, for an arbitrary fault at the call.
\<close>

section \<open>Triples of the services\<close>

lemma phase_held: "phase en fs0 tid S P = held en fs0 tid P (\<lambda>tr. tr_state tr \<in> S \<and> tr_recoveryDecision tr = None)"
  by (simp add: fun_eq_iff phase_def held_def)

lemma core_triple:
  assumes "core_stable K" "\<And>w. core (g w) = core w"
  shows "triple I K (\<lambda>w. (Inr (x w), g w)) (\<lambda>_. K)"
  using core_stableD [OF assms(1) assms(2)] by (intro tripleI) auto

lemma quiet_services:
  assumes "core_stable K" "\<And>w. K w \<Longrightarrow> I w"
  shows "triple I K (svc_canonicalize (world_services en) r) (\<lambda>_. K)"
    "triple I K (svc_randomUUID (world_services en)) (\<lambda>_. K)"
    "triple I K (svc_randomToken (world_services en)) (\<lambda>_. K)"
    "triple I K (svc_leaseStart (world_services en) i) (\<lambda>_. K)"
    "triple I K (svc_leaseStop (world_services en) i) (\<lambda>_. K)"
    "triple I K (svc_getChangeSet (world_services en) c) (\<lambda>_. K)"
    "triple I K (svc_listOperations (world_services en) c) (\<lambda>_. K)"
    "triple I K (svc_listTransactions (world_services en) l) (\<lambda>_. K)"
    "triple I K (svc_claimRecovery (world_services en) cr) (\<lambda>_. K)"
proof -
  note defs = world_services_def tx_services.simps
  show "triple I K (svc_canonicalize (world_services en) r) (\<lambda>_. K)"
    unfolding defs by (rule world_call_triple [OF assms(1)]) (auto intro: assms(2))
  show "triple I K (svc_randomUUID (world_services en)) (\<lambda>_. K)" "triple I K (svc_randomToken (world_services en)) (\<lambda>_. K)"
    unfolding defs take_id_def [abs_def] by (rule core_triple [OF assms(1)], simp add: core_def)+
  show "triple I K (svc_leaseStart (world_services en) i) (\<lambda>_. K)" "triple I K (svc_leaseStop (world_services en) i) (\<lambda>_. K)"
    unfolding defs by (rule core_triple [OF assms(1)], simp add: core_def)+
  show "triple I K (svc_getChangeSet (world_services en) c) (\<lambda>_. K)"
    unfolding defs by (rule quiet_call [OF assms]) (auto dest: query_tables)
  show "triple I K (svc_listOperations (world_services en) c) (\<lambda>_. K)"
    unfolding defs by (rule quiet_call [OF assms]) (auto dest: query_tables)
  show "triple I K (svc_listTransactions (world_services en) l) (\<lambda>_. K)"
    unfolding defs by (rule quiet_call [OF assms]) (auto dest: query_tables)
  show "triple I K (svc_claimRecovery (world_services en) cr) (\<lambda>_. K)"
    unfolding defs by (rule quiet_call [OF assms]) (auto dest: claim_recovery_tables)
qed

lemma finalize_triple:
  assumes "ti_transactionId identity = tid"
  shows "triple (tx_inv en fs0 tid) (tx_inv en fs0 tid) (svc_finalize (world_services en) identity outcome) (\<lambda>_. tx_inv en fs0 tid)"
  unfolding world_services_def tx_services.simps
  by (rule world_call_triple [OF tx_inv_stable])
     (auto simp: result_simps intro: finalize_inv [OF _ assms])

lemma mark_prepared_held:
  assumes held: "held en fs0 tid P (\<lambda>tr. tr_recoveryDecision tr = None) w" and id: "ti_transactionId identity = tid"
    and call: "mark_prepared (en_sha en) now identity (w_store w) = Inr (u, st)"
  shows "held en fs0 tid P (\<lambda>tr. tr_recoveryDecision tr = None) (w\<lparr>w_store := st\<rparr>)"
proof -
  have inv: "tx_inv en fs0 tid (w\<lparr>w_store := st\<rparr>)" using mark_prepared_inv [OF held_inv [OF held] id call] .
  obtain tr0 where tr0: "tx_of w tid = Some tr0" "tr_recoveryDecision tr0 = None" "plans_of w tid = P"
    using held by (auto simp: held_def)
  note tid = inv_facts(1) [OF held_inv [OF held] tr0(1)]
  let ?g = "\<lambda>f. if tf_state f = FS_pending then f\<lparr>tf_state := FS_prepared, tf_updatedAt := now\<rparr> else f"
  have "plans_of (w\<lparr>w_store := st\<rparr>) tid = P \<and> (\<exists>tr. tx_of (w\<lparr>w_store := st\<rparr>) tid = Some tr \<and> tr_recoveryDecision tr = None)"
    using call unfolding mark_prepared_def
  proof (cases rule: transition_cases)
    case same
    then show ?thesis using tr0 by simp
  next
    case (move tr)
    then show ?thesis
      using tr0 id tid plans_restate [of ?g "files_of w tid"] by (simp add: tx_of_def plans_of_def files_of_def)
  qed
  with inv show ?thesis by (simp add: held_def)
qed

lemma mark_prepared_triple:
  assumes "ti_transactionId identity = tid"
  shows "triple (tx_inv en fs0 tid) (held en fs0 tid P (\<lambda>tr. tr_recoveryDecision tr = None))
    (svc_markPrepared (world_services en) identity) (\<lambda>_. held en fs0 tid P (\<lambda>tr. tr_recoveryDecision tr = None))"
  unfolding world_services_def tx_services.simps
  by (rule world_call_triple [OF held_stable])
     (auto simp: result_simps held_inv intro: mark_prepared_held [OF _ assms])

definition committable :: "WorkspaceChangeTransactionRecord \<Rightarrow> bool" where
  "committable tr \<longleftrightarrow> tr_state tr \<in> {TS_committing, TS_recovery_required} \<and>
     tr_recoveryDecision tr \<in> {None, Some RD_finish_forward}"

lemma begin_commit_triple:
  assumes "ti_transactionId identity = tid"
  shows "triple (tx_inv en fs0 tid) (held en fs0 tid P (\<lambda>tr. tr_recoveryDecision tr = None))
    (svc_beginCommit (world_services en) identity) (\<lambda>_. held en fs0 tid P committable)"
  unfolding world_services_def tx_services.simps
proof (rule world_call_triple [OF held_stable])
  fix w x w' assume held: "held en fs0 tid P (\<lambda>tr. tr_recoveryDecision tr = None) w"
    and "on_store (\<lambda>now. begin_commit (en_sha en) now identity) w = Inr (x, w')"
  then obtain st where call: "begin_commit (en_sha en) (w_now w) identity (w_store w) = Inr (x, st)"
    and w': "w' = w\<lparr>w_store := st\<rparr>" by (auto simp: result_simps)
  from begin_commit_inv [OF held_inv [OF held] assms call] held w' show "held en fs0 tid P committable w'"
    by (auto simp: held_def committable_def)
qed (auto simp: held_inv)

lemma record_plan_triple:
  assumes "ti_transactionId identity = tid"
    and "\<forall>f \<in> set P. plan_file_sound (en_sha en) fs0 f"
  shows "triple (tx_inv en fs0 tid) (phase en fs0 tid {TS_planning} [])
    (svc_recordPlan (world_services en) identity P) (\<lambda>_. held en fs0 tid P (\<lambda>tr. tr_recoveryDecision tr = None))"
  unfolding world_services_def tx_services.simps
proof (rule world_call_triple [OF phase_stable])
  fix w x w' assume ph: "phase en fs0 tid {TS_planning} [] w"
    and "on_store (\<lambda>now. record_plan (en_sha en) (en_digest en) now identity P) w = Inr (x, w')"
  then obtain st where call: "record_plan (en_sha en) (en_digest en) (w_now w) identity P (w_store w) = Inr (x, st)"
    and w': "w' = w\<lparr>w_store := st\<rparr>" by (auto simp: result_simps)
  from record_plan_inv [OF ph assms call] w' show "held en fs0 tid P (\<lambda>tr. tr_recoveryDecision tr = None) w'"
    unfolding phase_held by (auto simp: held_def)
qed (auto simp: held_inv phase_inv)

lemma alive_helper:
  assumes "tx_inv en fs0 tid w" "helper_of w h = Some s"
  shows "hs_transactionId s = tid"
  using assms by (auto simp: tx_inv_def only_tx_def helper_of_def split: if_splits)

lemma prepare_triple:
  "triple (tx_inv en fs0 tid) (held en fs0 tid P S) (svc_prepare (world_services en) h P) (\<lambda>_. held en fs0 tid P S)"
proof -
  have "held en fs0 tid P S (snd (world_prepare en h P w))" if held: "held en fs0 tid P S w" for w
  proof (cases "helper_of w h")
    case None
    then show ?thesis using held by (simp add: world_prepare_def)
  next
    case (Some s)
    have tid: "hs_transactionId s = tid" using alive_helper [OF held_inv [OF held] Some] .
    obtain os e w1 where run: "helper_run en (torn_file en tid) (prepare_file en tid) (map wirePlan P) w = (os, e, w1)"
      by (cases "helper_run en (torn_file en tid) (prepare_file en tid) (map wirePlan P) w")
    have "held en fs0 tid P S w1"
      by (rule helper_run_keeps [OF held_stable _ _ held run]) (auto intro: prepare_file_step torn_file_step)
    then show ?thesis
      using Some tid run held by (auto simp: world_prepare_def kill_helper_keeps set_prepared_keeps split: option.splits)
  qed
  then have "held en fs0 tid P S t" if "held en fs0 tid P S w" "world_prepare en h P w = (r, t)" for w r t
    using that by (metis snd_conv)
  then show ?thesis
    unfolding world_services_def tx_services.simps by (intro tripleI) (blast intro: held_inv)+
qed

definition announced :: "env \<Rightarrow> (string \<Rightarrow> string option) \<Rightarrow> string \<Rightarrow> int set \<Rightarrow> world \<Rightarrow> bool" where
  "announced en fs0 tid ns w \<longleftrightarrow> tx_inv en fs0 tid w \<and> (\<forall>n \<in> ns. committed_on_disk tid n w)"

lemma announced_stable: "core_stable (announced en fs0 tid ns)"
proof -
  have "announced en fs0 tid ns w'" if "core w = core w'" "announced en fs0 tid ns w" for w w'
    using that(2) unfolding announced_def tx_inv_core [OF that(1)] committed_on_disk_def core_eq [OF that(1)] .
  then show ?thesis unfolding core_stable_def by blast
qed

lemma record_file_committed_triple:
  assumes "ti_transactionId identity = tid" "n \<in> ns"
  shows "triple (tx_inv en fs0 tid) (announced en fs0 tid ns)
    (svc_recordFileCommitted (world_services en) identity n) (\<lambda>_. announced en fs0 tid ns)"
  unfolding world_services_def tx_services.simps
proof (rule world_call_triple [OF announced_stable])
  fix w x w' assume a: "announced en fs0 tid ns w"
    and "on_store (\<lambda>now. record_file_committed (en_sha en) now identity n) w = Inr (x, w')"
  then obtain st where call: "record_file_committed (en_sha en) (w_now w) identity n (w_store w) = Inr (x, st)"
    and w': "w' = w\<lparr>w_store := st\<rparr>" by (auto simp: result_simps)
  have inv: "tx_inv en fs0 tid w" and disk: "committed_on_disk tid n w" using a assms(2) by (auto simp: announced_def)
  from record_file_committed_inv [OF inv assms(1) disk call] a w' show "announced en fs0 tid ns w'"
    by (auto simp: announced_def committed_on_disk_def)
qed (auto simp: announced_def)

lemma commit_triple:
  assumes id: "ti_transactionId identity = tid"
  shows "triple (tx_inv en fs0 tid) (held en fs0 tid P committable)
    (svc_commit (world_services en) h P (map fp_ordinal P) (svc_recordFileCommitted (world_services en) identity))
    (\<lambda>_. tx_inv en fs0 tid)"
proof -
  let ?rec = "svc_recordFileCommitted (world_services en) identity"
  have "tx_inv en fs0 tid (snd (world_commit en h P (map fp_ordinal P) ?rec w))" if held: "held en fs0 tid P committable w" for w
  proof (cases "helper_of w h")
    case None
    then show ?thesis using held_inv [OF held] by (simp add: world_commit_def)
  next
    case (Some s)
    have tid: "hs_transactionId s = tid" using alive_helper [OF held_inv [OF held] Some] .
    let ?L = "filter (\<lambda>f. fst f \<in> set (map fp_ordinal P)) (map wirePlan P)"
    obtain os e w1 where run: "helper_run en (\<lambda>_ _ w. w) (commit_file en tid) ?L w = (os, e, w1)"
      by (cases "helper_run en (\<lambda>_ _ w. w) (commit_file en tid) ?L w")
    have "committing en fs0 tid P {} w" using held by (auto simp: held_def committing_def may_commit_def committable_def)
    from committing_run [OF this _ run] have "announced en fs0 tid (set os) w1"
      by (auto simp: committing_def announced_def)
    moreover obtain r w2 where loop: "eff_for_each ?rec os w1 = (r, w2)" by (cases "eff_for_each ?rec os w1")
    moreover have "triple (tx_inv en fs0 tid) (announced en fs0 tid (set os)) (eff_for_each ?rec os) (\<lambda>_. announced en fs0 tid (set os))"
      by (rule triple_for_each) (rule record_file_committed_triple [OF id])
    ultimately have "tx_inv en fs0 tid w2" by (cases r) (auto dest: tripleD simp: announced_def)
    then show ?thesis
      using Some tid run loop held_inv [OF held] by (auto simp: world_commit_def kill_helper_keeps split: option.splits)
  qed
  then have "tx_inv en fs0 tid t"
    if "held en fs0 tid P committable w" "world_commit en h P (map fp_ordinal P) ?rec w = (r, t)" for w r t
    using that by (metis snd_conv)
  then show ?thesis unfolding world_services_def tx_services.simps by (intro tripleI) blast+
qed

lemma cleanup_triple:
  "triple (tx_inv en fs0 tid) (tx_inv en fs0 tid) (svc_cleanup (world_services en) h files) (\<lambda>_. tx_inv en fs0 tid)"
proof -
  have "tx_inv en fs0 tid (snd (world_cleanup en h files w))" if inv: "tx_inv en fs0 tid w" for w
  proof (cases "helper_of w h")
    case None
    then show ?thesis using inv by (simp add: world_cleanup_def)
  next
    case (Some s)
    let ?step = "cleanup_file en (hs_transactionId s)"
    obtain os e w1 where run: "helper_run en (\<lambda>_ _ w. w) ?step (map wirePlan files) w = (os, e, w1)"
      by (cases "helper_run en (\<lambda>_ _ w. w) ?step (map wirePlan files) w")
    have step: "tx_inv en fs0 tid u'" if "tx_inv en fs0 tid u" "?step x u = Inr u'" for x u u'
      using cleanup_file_step [OF that(2)] cleanup_temps [OF _ that(2), of tid] that(1)
      by (intro inv_same [OF that(1)]) (auto simp: tx_inv_def)
    have "tx_inv en fs0 tid w1"
      by (rule helper_run_keeps [OF tx_inv_stable _ _ inv run]) (auto intro: step)
    then show ?thesis
      using Some run inv by (auto simp: world_cleanup_def kill_helper_keeps split: option.splits)
  qed
  then have "tx_inv en fs0 tid t" if "tx_inv en fs0 tid w" "world_cleanup en h files w = (r, t)" for w r t
    using that by (metis snd_conv)
  then show ?thesis unfolding world_services_def tx_services.simps by (intro tripleI) blast+
qed

lemma terminate_triple:
  "triple (tx_inv en fs0 tid) (tx_inv en fs0 tid) (svc_terminate (world_services en) h) (\<lambda>_. tx_inv en fs0 tid)"
  unfolding world_services_def tx_services.simps by (intro tripleI) (auto simp: kill_helper_keeps)

lemma spawn_triple:
  "triple (tx_inv en fs0 tid) (tx_inv en fs0 tid) (svc_spawn (world_services en) r tid) (\<lambda>_. tx_inv en fs0 tid)"
  "triple (tx_inv en fs0 tid) (held en fs0 tid P S) (svc_spawn (world_services en) r tid) (\<lambda>_. held en fs0 tid P S)"
proof -
  have alive: "\<forall>s \<in> set (w_helpers w @ [\<lparr>hs_transactionId = tid, hs_prepared = None, hs_alive = True\<rparr>]).
      hs_alive s \<longrightarrow> hs_transactionId s = tid" if "tx_inv en fs0 tid w" for w
    using that by (auto simp: tx_inv_def only_tx_def)
  show "triple (tx_inv en fs0 tid) (tx_inv en fs0 tid) (svc_spawn (world_services en) r tid) (\<lambda>_. tx_inv en fs0 tid)"
    unfolding world_services_def tx_services.simps world_spawn_def
    by (rule world_call_triple [OF tx_inv_stable]) (auto simp: inv_helpers alive split: if_splits)
  show "triple (tx_inv en fs0 tid) (held en fs0 tid P S) (svc_spawn (world_services en) r tid) (\<lambda>_. held en fs0 tid P S)"
    unfolding world_services_def tx_services.simps world_spawn_def
    by (rule world_call_triple [OF held_stable]) (auto simp: held_inv intro!: held_helpers alive [OF held_inv] split: if_splits)
qed

definition inspected where
  "inspected en fs0 tid P obs w \<longleftrightarrow> held en fs0 tid P (\<lambda>_. True) w \<and> obs = observe en w P"

lemma inspected_stable: "core_stable (inspected en fs0 tid P obs)"
proof -
  have "inspected en fs0 tid P obs w'" if "core w = core w'" "inspected en fs0 tid P obs w" for w w'
    using that(2) core_stableD [OF held_stable, of w' w en fs0 tid P "\<lambda>_. True"] core_eq(4) [OF that(1)] that(1)
    by (auto simp: inspected_def observe_def inspect_file_def)
  then show ?thesis unfolding core_stable_def by blast
qed

lemma inspect_triple:
  "triple (tx_inv en fs0 tid) (held en fs0 tid P (\<lambda>_. True)) (svc_inspect (world_services en) h P) (inspected en fs0 tid P)"
  unfolding world_services_def tx_services.simps world_inspect_def
  by (rule world_call_triple [OF held_stable])
     (auto simp: held_inv inspected_def observe_def split: option.splits if_splits)

lemma reconcile_triple:
  assumes id: "ti_transactionId identity = tid"
  shows "triple (tx_inv en fs0 tid) (inspected en fs0 tid P obs) (svc_reconcile (world_services en) identity obs)
    (\<lambda>rec w. tx_inv en fs0 tid w \<and> (rec_decision rec = RD_finish_forward \<longrightarrow> held en fs0 tid P committable w))"
  unfolding world_services_def tx_services.simps
proof (rule world_call_triple [OF inspected_stable])
  fix w rec w' assume ins: "inspected en fs0 tid P obs w"
    and "on_store (\<lambda>now. reconcile_files (en_sha en) now identity obs) w = Inr (rec, w')"
  then obtain st where call: "reconcile_files (en_sha en) (w_now w) identity obs (w_store w) = Inr (rec, st)"
    and w': "w' = w\<lparr>w_store := st\<rparr>" by (auto simp: result_simps)
  have inv: "tx_inv en fs0 tid w" and P: "plans_of w tid = P" and obs: "obs = observe en w (plans_of w tid)"
    using ins by (auto simp: inspected_def held_def)
  from reconcile_inv [OF inv id call [unfolded obs]] w' P
  show "tx_inv en fs0 tid w' \<and> (rec_decision rec = RD_finish_forward \<longrightarrow> held en fs0 tid P committable w')"
    by (auto simp: held_def may_commit_def committable_def)
qed (auto simp: inspected_def held_inv)

lemma claim_recovery_snapshot:
  "claim_recovery sha now request st = Inr (x, st') \<Longrightarrow> tcr_status x = TC_claimed \<Longrightarrow>
   \<exists>tr. map_of (ts_transactions st) (ctr_transactionId request) = Some tr \<and>
     sn_files (tcr_snapshot x) = list_files st (tr_id tr)"
  by (auto simp: claim_recovery_def require_transaction_def result_simps Let_def snapshot_of_def
      split: if_splits option.splits)

lemma claim_triple:
  assumes "ctr_transactionId request = tid"
  shows "triple (tx_inv en fs0 tid) (tx_inv en fs0 tid) (svc_claimRecovery (world_services en) request)
    (\<lambda>claim w. tx_inv en fs0 tid w \<and> (tcr_status claim = TC_claimed \<longrightarrow>
       held en fs0 tid (transactionFilePlans (sn_files (tcr_snapshot claim))) (\<lambda>_. True) w))"
  unfolding world_services_def tx_services.simps
proof (rule world_call_triple [OF tx_inv_stable])
  fix w claim w' assume inv: "tx_inv en fs0 tid w"
    and "on_store (\<lambda>now. claim_recovery (en_sha en) now request) w = Inr (claim, w')"
  then obtain st where call: "claim_recovery (en_sha en) (w_now w) request (w_store w) = Inr (claim, st)"
    and w': "w' = w\<lparr>w_store := st\<rparr>" by (auto simp: result_simps)
  have c: "core w' = core w" using claim_recovery_tables [OF call] w' by (simp add: core_def)
  have inv': "tx_inv en fs0 tid w'" using inv tx_inv_core [OF c] by simp
  have "held en fs0 tid (transactionFilePlans (sn_files (tcr_snapshot claim))) (\<lambda>_. True) w'" if claimed: "tcr_status claim = TC_claimed"
  proof -
    obtain tr where tr: "tx_of w tid = Some tr" "sn_files (tcr_snapshot claim) = list_files (w_store w) (tr_id tr)"
      using claim_recovery_snapshot [OF call claimed] assms by (auto simp: tx_of_def)
    with inv_facts(1) [OF inv tr(1)] inv' core_eq(1,3) [OF c] show ?thesis
      by (simp add: held_def plans_of_def files_of_def)
  qed
  with inv' show "tx_inv en fs0 tid w' \<and> (tcr_status claim = TC_claimed \<longrightarrow>
      held en fs0 tid (transactionFilePlans (sn_files (tcr_snapshot claim))) (\<lambda>_. True) w')" by blast
qed auto

end
