(* ===== verification/Transaction_Claims.thy ===== *)
theory Transaction_Claims
  imports Transaction_Services
begin

text \<open>
  The attempts of a transaction and their ids. Each attempt to execute or recover a transaction
  is claimed under an id drawn from \<open>randomUUID\<close>, and the store hands a pending transaction out
  only to the attempt that holds it. Where the ids that will be drawn are new to the store
  (\<open>ids_unused\<close>), \<open>begin_transaction\<close> never claims a transaction that another attempt began: it
  answers busy or recovery required. Every program of the runtime keeps \<open>ids_unused\<close>.
\<close>

section \<open>Ids of attempts\<close>

definition attempt_ids :: "tx_store \<Rightarrow> string set" where
  "attempt_ids st = (\<lambda>(k, a, h). ta_id a) ` set (ts_attempts st)"

definition ids_unused :: "env \<Rightarrow> world \<Rightarrow> bool" where
  "ids_unused en w \<longleftrightarrow> (\<forall>n \<ge> w_nextId w. ''wta_'' @ en_uuid en n \<notin> attempt_ids (w_store w))"

definition drawn :: "env \<Rightarrow> string \<Rightarrow> world \<Rightarrow> bool" where
  "drawn en i w \<longleftrightarrow> (\<exists>n < w_nextId w. i = ''wta_'' @ en_uuid en n)"

text \<open>\<open>calm w w'\<close>: no attempt with a new id on the way, and no id given back.\<close>

definition calm :: "world \<Rightarrow> world \<Rightarrow> bool" where
  "calm w w' \<longleftrightarrow> w_nextId w \<le> w_nextId w' \<and> attempt_ids (w_store w') \<subseteq> attempt_ids (w_store w)"

lemma calm_refl [simp]: "calm w w"
  by (simp add: calm_def)

lemma calm_trans: "calm w w' \<Longrightarrow> calm w' w'' \<Longrightarrow> calm w w''"
  by (auto simp: calm_def)

lemma calm_unused: "ids_unused en w \<Longrightarrow> calm w w' \<Longrightarrow> ids_unused en w'"
  by (auto simp: ids_unused_def calm_def)

lemma calm_drawn: "drawn en i w \<Longrightarrow> calm w w' \<Longrightarrow> drawn en i w'"
  by (force simp: drawn_def calm_def)

lemma put_ids [simp]:
  "attempt_ids (put_transaction tr st) = attempt_ids st" "attempt_ids (put_files tid fs st) = attempt_ids st"
  by (simp_all add: attempt_ids_def put_transaction_def put_files_def)

lemma put_attempt_ids: "attempt_ids (put_attempt a h st) \<subseteq> insert (ta_id a) (attempt_ids st)"
  by (force simp: attempt_ids_def put_attempt_def dest: update_member)

lemma attempt_known:
  "map_of (ts_attempts st) k = Some (a, h) \<Longrightarrow> ta_id a \<in> attempt_ids st"
  "active_attempt st tid = Some (a, h) \<Longrightarrow> ta_id a \<in> attempt_ids st"
proof -
  show "map_of (ts_attempts st) k = Some (a, h) \<Longrightarrow> ta_id a \<in> attempt_ids st"
    by (force simp: attempt_ids_def dest: map_of_SomeD)
  assume "active_attempt st tid = Some (a, h)"
  then obtain i where i: "i < length (map snd (ts_attempts st))" "map snd (ts_attempts st) ! i = (a, h)"
    unfolding active_attempt_def find_Some_iff by metis
  from nth_mem [OF i(1)] i(2) have "(a, h) \<in> snd ` set (ts_attempts st)" by simp
  then show "ta_id a \<in> attempt_ids st" by (force simp: attempt_ids_def)
qed

lemma live_attempt_known: "require_live_attempt sha now st identity = Inr a \<Longrightarrow> ta_id a \<in> attempt_ids st"
  by (auto simp: require_live_attempt_def dest: attempt_known split: option.splits if_splits)

text \<open>The operations of the store that claim nothing.\<close>

lemma store_ids:
  "renew_attempt sha now identity lease st = Inr (u, st') \<Longrightarrow> attempt_ids st' \<subseteq> attempt_ids st"
  "record_plan sha digest now identity P st = Inr (u, st') \<Longrightarrow> attempt_ids st' \<subseteq> attempt_ids st"
  "transition_transaction sha now identity s s' mark req st = Inr (u, st') \<Longrightarrow> attempt_ids st' \<subseteq> attempt_ids st"
  "record_file_committed sha now identity n st = Inr (u, st') \<Longrightarrow> attempt_ids st' \<subseteq> attempt_ids st"
  "reconcile_files sha now identity obs st = Inr (rec, st') \<Longrightarrow> attempt_ids st' \<subseteq> attempt_ids st"
  "put_changeset now request st = Inr (cs, st') \<Longrightarrow> attempt_ids st' \<subseteq> attempt_ids st"
  "get_changeset c st = Inr (found, st') \<Longrightarrow> attempt_ids st' \<subseteq> attempt_ids st"
  "list_operations c st = Inr (ops, st') \<Longrightarrow> attempt_ids st' \<subseteq> attempt_ids st"
  "list_transactions l st = Inr (sns, st') \<Longrightarrow> attempt_ids st' \<subseteq> attempt_ids st"
proof -
  show "renew_attempt sha now identity lease st = Inr (u, st') \<Longrightarrow> attempt_ids st' \<subseteq> attempt_ids st"
    by (auto simp: renew_attempt_def result_simps dest!: live_attempt_known subsetD [OF put_attempt_ids])
  show "record_plan sha digest now identity P st = Inr (u, st') \<Longrightarrow> attempt_ids st' \<subseteq> attempt_ids st"
    by (auto simp: record_plan_def result_simps split: option.splits)
  show "transition_transaction sha now identity s s' mark req st = Inr (u, st') \<Longrightarrow> attempt_ids st' \<subseteq> attempt_ids st"
    by (auto simp: transition_transaction_def result_simps split: if_splits)
  show "record_file_committed sha now identity n st = Inr (u, st') \<Longrightarrow> attempt_ids st' \<subseteq> attempt_ids st"
    by (auto simp: record_file_committed_def result_simps split: option.splits)
  show "reconcile_files sha now identity obs st = Inr (rec, st') \<Longrightarrow> attempt_ids st' \<subseteq> attempt_ids st"
    by (auto simp: reconcile_files_def result_simps Let_def)
  have "put_changeset now request st = Inr (cs, st') \<Longrightarrow> ts_attempts st' = ts_attempts st"
    by (auto simp: put_changeset_def result_simps Let_def split: option.splits)
  then show "put_changeset now request st = Inr (cs, st') \<Longrightarrow> attempt_ids st' \<subseteq> attempt_ids st"
    by (simp add: attempt_ids_def)
qed (auto simp: get_changeset_def list_operations_def list_transactions_def result_simps)

lemma finalize_ids:
  assumes "finalize_transaction sha now identity outcome st = Inr (fin, st')"
  shows "attempt_ids st' \<subseteq> attempt_ids st"
proof -
  have "ts_attempts st1 = ts_attempts st" if "insert_operation now tr outcome st = Inr (op, st1)" for tr op st1
    using that by (auto simp: insert_operation_def result_simps Let_def split: option.splits prod.splits)
  then have insert: "insert_operation now tr outcome st = Inr (op, st1) \<Longrightarrow> attempt_ids st1 = attempt_ids st" for tr op st1
    by (simp add: attempt_ids_def)
  have "ts_attempts st3 = ts_attempts st2" if "settle_bound_proposal now tr outcome st2 = Inr (u, st3)" for tr u st2 st3
    using that by (auto simp: settle_bound_proposal_def result_simps Let_def split: option.splits prod.splits)
  then have bound: "settle_bound_proposal now tr outcome st2 = Inr (u, st3) \<Longrightarrow> attempt_ids st3 = attempt_ids st2" for tr u st2 st3
    by (simp add: attempt_ids_def)
  have settled: "ta_id (settle_attempt now outcome a) = ta_id a" for a by (simp add: settle_attempt_def)
  have replay: "replay_finalization sha identity outcome tr st = Inr (fin, st') \<Longrightarrow> st' = st" for tr
    by (auto simp: replay_finalization_def result_simps split: option.splits)
  show ?thesis
    using assms
    by (auto simp: finalize_transaction_def result_simps Let_def settled split: if_splits prod.splits
        dest!: replay insert bound live_attempt_known subsetD [OF put_attempt_ids])
qed

section \<open>Calls\<close>

lemma tick_calm: "calm w (snd (tick en w))"
  by (auto simp: tick_def renew_lease_def calm_def Let_def dest!: store_ids(1)
      split: list.splits option.splits sum.splits)

lemma world_call_calm:
  assumes "\<And>w x w'. call w = Inr (x, w') \<Longrightarrow> calm w w'"
  shows "calm w (snd (world_call en call w))"
proof -
  obtain kind w1 where t: "tick en w = (kind, w1)" by (cases "tick en w")
  then have c: "calm w w1" using tick_calm [of w en] by simp
  moreover have "calm w1 (w1\<lparr>w_crashed := True\<rparr>)" by (simp add: calm_def)
  ultimately show ?thesis
    using t assms by (auto simp: world_call_def split: fault_kind.splits sum.splits intro: calm_trans)
qed

lemma store_call_calm:
  assumes "\<And>now st x st'. op now st = Inr (x, st') \<Longrightarrow> attempt_ids st' \<subseteq> attempt_ids st"
  shows "calm w (snd (world_call en (on_store op) w))"
  by (rule world_call_calm) (auto simp: calm_def result_simps dest!: assms)

lemma helper_run_calm:
  assumes "\<And>x w w'. step x w = Inr w' \<Longrightarrow> calm w w'" "\<And>k x w. calm w (torn k x w)"
    and "helper_run en torn step L w = (os, e, w')"
  shows "calm w w'"
  using assms(3)
proof (induction L arbitrary: w os e w')
  case (Cons x L)
  obtain kind w1 where t: "tick en w = (kind, w1)" by (cases "tick en w")
  then have c: "calm w w1" using tick_calm [of w en] by simp
  have crash: "calm w (w1\<lparr>w_crashed := True\<rparr>)" using c by (simp add: calm_def)
  have torn: "calm w (torn k x w1)" for k using calm_trans [OF c assms(2)] .
  have step: "calm w w2" if "step x w1 = Inr w2" for w2 using calm_trans [OF c assms(1) [OF that]] .
  have rest: "calm w w3" if "step x w1 = Inr w2" "helper_run en torn step L w2 = (os, e, w3)" for w2 os e w3
    using calm_trans [OF step [OF that(1)] Cons.IH [OF that(2)]] .
  show ?case
    using Cons.prems t c crash torn step rest
    by (auto split: fault_kind.splits sum.splits prod.splits)
qed simp

lemma set_helper_calm [simp]: "calm w (set_helper h g w') = calm w w'" "calm w (kill_helper h w') = calm w w'"
  by (simp_all add: calm_def set_helper_def kill_helper_def)

lemma for_each_calm:
  assumes "\<And>x w. calm w (snd (body x w))"
  shows "calm w (snd (eff_for_each body xs w))"
proof (induction xs arbitrary: w)
  case (Cons x xs)
  obtain r w1 where b: "body x w = (r, w1)" by (cases "body x w")
  then have "calm w w1" using assms [of w x] by simp
  then show ?case using b Cons.IH [of w1] by (cases r) (auto simp: eff_bind_def intro: calm_trans)
qed (simp add: eff_return_def)

lemma keeps_calm: "(\<And>w. calm w (snd (m w))) \<Longrightarrow> keeps (ids_unused en) m"
  unfolding keeps_def by (intro tripleI; metis calm_unused snd_conv)

lemma helper_steps_calm:
  "prepare_file en tid x w = Inr w' \<Longrightarrow> calm w w'" "commit_file en tid x w = Inr w' \<Longrightarrow> calm w w'"
  "cleanup_file en tid x w = Inr w' \<Longrightarrow> calm w w'" "calm w (torn_file en tid k x w)"
  by (auto simp: prepare_file_def commit_file_def cleanup_file_def torn_file_def calm_def result_simps Let_def
      split: observed.splits option.splits if_splits prod.splits sum.splits)

lemma helper_calls_calm:
  "calm w (snd (world_prepare en h P w))" "calm w (snd (world_cleanup en h P w))"
proof -
  have 1: "calm w w1" if "helper_run en (torn_file en t) (prepare_file en t) L w = (os, e, w1)" for t L os e w1
    by (rule helper_run_calm [OF _ _ that]) (auto intro: helper_steps_calm simp del: split_paired_All)
  have 2: "calm w w1" if "helper_run en (\<lambda>_ _ w. w) (cleanup_file en t) L w = (os, e, w1)" for t L os e w1
    by (rule helper_run_calm [OF _ _ that]) (auto intro: helper_steps_calm)
  show "calm w (snd (world_prepare en h P w))" "calm w (snd (world_cleanup en h P w))"
    using 1 2 by (auto simp: world_prepare_def world_cleanup_def split: option.splits prod.splits)
qed

lemma world_commit_calm:
  assumes "\<And>n w. calm w (snd (progress n w))"
  shows "calm w (snd (world_commit en h P ns progress w))"
proof -
  have run: "calm w w2" if "helper_run en (\<lambda>_ _ w. w) (commit_file en t) L w = (os, e, w1)"
      "eff_for_each progress os w1 = (r, w2)" for t L os e w1 r w2
  proof -
    have "calm w w1" by (rule helper_run_calm [OF _ _ that(1)]) (auto intro: helper_steps_calm)
    moreover have "calm w1 w2" using for_each_calm [where body = progress and w = w1 and xs = os] assms that(2) by simp
    ultimately show ?thesis by (rule calm_trans)
  qed
  show ?thesis
    by (auto simp: world_commit_def split: option.splits prod.splits dest: run)
qed

lemma claims_services [keeps_intros]:
  "keeps (ids_unused en) (svc_canonicalize (world_services en) r)"
  "keeps (ids_unused en) (svc_randomUUID (world_services en))"
  "keeps (ids_unused en) (svc_randomToken (world_services en))"
  "keeps (ids_unused en) (svc_leaseStart (world_services en) i)"
  "keeps (ids_unused en) (svc_leaseStop (world_services en) i)"
  "keeps (ids_unused en) (svc_getChangeSet (world_services en) c)"
  "keeps (ids_unused en) (svc_putChangeSet (world_services en) p)"
  "keeps (ids_unused en) (svc_listOperations (world_services en) c)"
  "keeps (ids_unused en) (svc_listTransactions (world_services en) l)"
  "keeps (ids_unused en) (svc_recordPlan (world_services en) i P)"
  "keeps (ids_unused en) (svc_markPrepared (world_services en) i)"
  "keeps (ids_unused en) (svc_beginCommit (world_services en) i)"
  "keeps (ids_unused en) (svc_reconcile (world_services en) i obs)"
  "keeps (ids_unused en) (svc_finalize (world_services en) i outcome)"
  "keeps (ids_unused en) (svc_terminate (world_services en) h)"
  "keeps (ids_unused en) (svc_spawn (world_services en) r tid)"
  "keeps (ids_unused en) (svc_prepare (world_services en) h P)"
  "keeps (ids_unused en) (svc_inspect (world_services en) h P)"
  "keeps (ids_unused en) (svc_cleanup (world_services en) h P)"
  "keeps (ids_unused en) (svc_commit (world_services en) h P ns (svc_recordFileCommitted (world_services en) i))"
  unfolding world_services_def tx_services.simps mark_prepared_def begin_commit_def world_spawn_def world_inspect_def
  by ((rule keeps_calm [OF store_call_calm], erule store_ids finalize_ids)
      | (rule keeps_calm [OF world_call_calm], simp add: calm_def split: option.splits if_splits; fail)
      | (rule keeps_calm [OF helper_calls_calm(1)] keeps_calm [OF helper_calls_calm(2)])
      | (rule keeps_calm [OF world_commit_calm [OF store_call_calm]], erule store_ids)
      | (rule keeps_calm, simp add: calm_def take_id_def kill_helper_def set_helper_def; fail))+

section \<open>Claiming\<close>

lemma draw_uuid:
  "triple (ids_unused en) (ids_unused en) (svc_randomUUID (world_services en))
     (\<lambda>uuid w. ids_unused en w \<and> drawn en (''wta_'' @ uuid) w)"
  unfolding world_services_def tx_services.simps take_id_def
  by (intro tripleI) (auto simp: ids_unused_def drawn_def)

lemma drawn_token:
  "triple (ids_unused en) (\<lambda>w. ids_unused en w \<and> drawn en i w) (svc_randomToken (world_services en))
     (\<lambda>_ w. ids_unused en w \<and> drawn en i w)"
  unfolding world_services_def tx_services.simps take_id_def
  by (intro tripleI) (auto simp: ids_unused_def drawn_def intro: less_SucI)

lemma claim_keeps_unused:
  assumes inj: "inj (en_uuid en)"
    and op: "\<And>now st x st'. op now st = Inr (x, st') \<Longrightarrow> attempt_ids st' \<subseteq> insert i (attempt_ids st)"
  shows "triple (ids_unused en) (\<lambda>w. ids_unused en w \<and> drawn en i w) (world_call en (on_store op)) (\<lambda>_. ids_unused en)"
proof -
  have call: "ids_unused en w'" if "ids_unused en w" "drawn en i w" "on_store op w = Inr (x, w')" for w x w'
  proof -
    note draw = that(2) and ran = that(3)
    obtain st where st: "op (w_now w) (w_store w) = Inr (x, st)" "w' = w\<lparr>w_store := st\<rparr>"
      using ran by (auto simp: result_simps)
    have "''wta_'' @ en_uuid en n \<noteq> i" if "w_nextId w \<le> n" for n
      using draw that inj by (auto simp: drawn_def dest: injD)
    then show ?thesis using op [OF st(1)] that(1) st(2) by (auto simp: ids_unused_def)
  qed
  have "ids_unused en (snd (world_call en (on_store op) w))" if "ids_unused en w" "drawn en i w" for w
  proof -
    obtain kind w1 where t: "tick en w = (kind, w1)" by (cases "tick en w")
    then have "calm w w1" using tick_calm [of w en] by simp
    then have w1: "ids_unused en w1" "drawn en i w1" using that calm_unused calm_drawn by blast+
    moreover have "ids_unused en (w1\<lparr>w_crashed := True\<rparr>)" using w1(1) by (simp add: ids_unused_def)
    ultimately show ?thesis
      using t call by (auto simp: world_call_def split: fault_kind.splits sum.splits)
  qed
  then show ?thesis by (intro tripleI; metis snd_conv)
qed

lemma claim_ids:
  "claim_recovery sha now request st = Inr (x, st') \<Longrightarrow> attempt_ids st' \<subseteq> insert (ctr_attemptId request) (attempt_ids st)"
proof -
  have new: "attempt_ids (put_attempt (new_attempt i tid ow kind e n) h st) \<subseteq> insert i (attempt_ids st)" for i tid ow kind e n h st
    using put_attempt_ids [of "new_attempt i tid ow kind e n" h st] by (simp add: new_attempt_def)
  have old: "attempt_ids (put_attempt (expire_attempt now a) h st) \<subseteq> attempt_ids st" if "ta_id a \<in> attempt_ids st" for a h
    using put_attempt_ids [of "expire_attempt now a" h st] that by (auto simp: expire_attempt_def)
  assume "claim_recovery sha now request st = Inr (x, st')"
  then show ?thesis
    by (auto simp: claim_recovery_def result_simps Let_def split: if_splits option.splits
        dest!: attempt_known subsetD [OF new] subsetD [OF old])
qed

lemma begin_ids:
  "begin_transaction sha now request st = Inr (x, st') \<Longrightarrow> attempt_ids st' \<subseteq> insert (bt_attemptId request) (attempt_ids st)"
proof -
  have new: "attempt_ids (put_attempt (new_attempt i tid ow kind e n) h st) \<subseteq> insert i (attempt_ids st)" for i tid ow kind e n h st
    using put_attempt_ids [of "new_attempt i tid ow kind e n" h st] by (simp add: new_attempt_def)
  assume "begin_transaction sha now request st = Inr (x, st')"
  then show ?thesis
    by (auto simp: begin_transaction_def existing_claim_def result_simps Let_def split: if_splits option.splits
        dest!: subsetD [OF new])
qed

text \<open>The draws of an id and a token, and the claim under them.\<close>

lemma claims_drawn:
  assumes "inj (en_uuid en)" "\<And>uuid token. ctr_attemptId (c uuid token) = ''wta_'' @ uuid"
    and rest: "\<And>uuid token claim. keeps (ids_unused en) (k uuid token claim)"
  shows "keeps (ids_unused en) (eff_bind (svc_randomUUID (world_services en)) (\<lambda>uuid.
      eff_bind (svc_randomToken (world_services en)) (\<lambda>token.
      eff_bind (svc_claimRecovery (world_services en) (c uuid token)) (k uuid token))))"
proof -
  have claim: "triple (ids_unused en) (\<lambda>w. ids_unused en w \<and> drawn en (''wta_'' @ uuid) w)
      (svc_claimRecovery (world_services en) (c uuid token)) (\<lambda>_. ids_unused en)" for uuid token
    unfolding world_services_def tx_services.simps
    by (rule claim_keeps_unused [OF assms(1)]) (use claim_ids assms(2) in fastforce)
  show ?thesis unfolding keeps_def
    by (rule triple_bind [OF draw_uuid triple_bind [OF drawn_token triple_bind [OF claim rest [unfolded keeps_def]]]])
qed

lemma begins_drawn:
  assumes "inj (en_uuid en)" "\<And>uuid token. bt_attemptId (c uuid token) = ''wta_'' @ uuid"
    and rest: "\<And>uuid token claim. keeps (ids_unused en) (k uuid token claim)"
  shows "keeps (ids_unused en) (eff_bind (svc_randomUUID (world_services en)) (\<lambda>uuid.
      eff_bind (svc_randomToken (world_services en)) (\<lambda>token.
      eff_bind (svc_begin (world_services en) (c uuid token)) (k uuid token))))"
proof -
  have starts: "triple (ids_unused en) (\<lambda>w. ids_unused en w \<and> drawn en (''wta_'' @ uuid) w)
      (svc_begin (world_services en) (c uuid token)) (\<lambda>_. ids_unused en)" for uuid token
    unfolding world_services_def tx_services.simps
    by (rule claim_keeps_unused [OF assms(1)]) (use begin_ids assms(2) in fastforce)
  show ?thesis unfolding keeps_def
    by (rule triple_bind [OF draw_uuid triple_bind [OF drawn_token triple_bind [OF starts rest [unfolded keeps_def]]]])
qed

lemma keeps_block [keeps_intros]: "keeps (up I) m \<Longrightarrow> keeps I (eff_block l m)"
  unfolding keeps_def by (rule triple_block)

section \<open>The programs\<close>

lemma assertHealthy_keeps [keeps_intros]: "keeps I (assertHealthy sv identity)"
  unfolding keeps_def by (auto intro!: tripleI simp: assertHealthy_def split: option.splits)

lemma rebuildFile_keeps [keeps_intros]: "keeps I (rebuildFile sv fs c)"
  unfolding keeps_def by (auto intro!: tripleI simp: rebuildFile_def split: option.splits sum.splits)

lemma recoverBody_claims [keeps_intros]: "keeps (up (ids_unused en)) (recoverBody (world_services en) r identity snapshot)"
  unfolding recoverBody_def recoverDecision_def recoverSettle_def clearHelper_def cleanupCommittedArtifacts_def
    rebuildTransactionReceipt_def Let_def
  by (intro keeps_intros | simp split: WorkspaceChangeTransactionRecoveryDecision.split; intro conjI impI)+

lemma recoverOne_claims [keeps_intros]:
  "inj (en_uuid en) \<Longrightarrow> keeps (ids_unused en) (recoverOne (world_services en) r snapshot)"
  unfolding recoverOne_def Let_def
  by (rule claims_drawn) (simp_all add: keeps_intros)

lemma recoverPending_claims [keeps_intros]:
  "inj (en_uuid en) \<Longrightarrow> keeps (ids_unused en) (recoverPendingTransactions (world_services en) v known)"
  unfolding recoverPendingTransactions_def listRecoverable_def recoverSnapshot_def by (intro keeps_intros)

lemma look_keeps [keeps_intros]: "keeps I (\<lambda>s. (Inr (f s), s))"
  unfolding keeps_def by (auto intro!: tripleI)

lemma executeBody_claims:
  assumes "keeps (ids_unused en) (ex_plan request)"
  shows "keeps (up (ids_unused en)) (executeBody (world_services en) dir identity oid request)"
  unfolding executeBody_def preparePlan_def commitPlan_def settleUnchanged_def cleanupCommittedArtifacts_def Let_def
  by (intro keeps_intros assms)

lemma executeClaimed_claims:
  assumes "keeps (ids_unused en) (ex_plan request)"
  shows "keeps (ids_unused en) (executeClaimed (world_services en) dir identity oid request)"
  unfolding executeClaimed_def executeCatch_def rescueHelper_def Let_def
  by (intro keeps_intros executeBody_claims assms)

lemma execute_claims:
  assumes "inj (en_uuid en)" "keeps (ids_unused en) (ex_plan request)"
  shows "keeps (ids_unused en) (execute (world_services en) request)"
proof -
  have rest: "keeps (ids_unused en)
      (if tcr_status claim = TC_already_terminal then
         eff_bind (cleanupTerminalArtifacts (world_services en) dir tid files) (\<lambda>_.
         replayTerminalTransaction (world_services en) c snapshot found)
       else if tcr_status claim \<noteq> TC_claimed then eff_throw e
       else executeClaimed (world_services en) dir identity oid request)" for claim dir tid files c snapshot found e identity oid
    unfolding cleanupTerminalArtifacts_def cleanupCommittedArtifacts_def replayTerminalTransaction_def
      rebuildTransactionReceipt_def Let_def
    by (intro keeps_intros executeClaimed_claims assms)
  have claim: "bt_attemptId (beginRequest sv dir tid i t request) = i" for sv dir tid i t
    by (simp add: beginRequest_def)
  show ?thesis unfolding execute_def Let_def
    by (rule keeps_rules(4) [OF keeps_rules(3) keeps_rules(4) [OF claims_services(1)
          keeps_rules(4) [OF recoverPending_claims [OF assms(1)] begins_drawn [OF assms(1) claim rest]]]])
qed

end
