(* ===== verification/Transaction_Safety.thy ===== *)
theory Transaction_Safety
  imports Transaction_Claims
begin

text \<open>
  Crash safety of the workspace transaction: whatever fails and wherever the process crashes,
  the files of a transaction stay as they were before or become as they are after it, no
  other file is touched, and the durable state of the transaction never claims more than the
  files show.
\<close>

section \<open>Recovery keeps the invariant\<close>

lemma triple_snd: "triple I P m (\<lambda>_. I) \<Longrightarrow> P s \<Longrightarrow> I (snd (m s))"
  by (cases "m s"; cases "fst (m s)") (auto dest: tripleD)


lemma inv_services [keeps_intros]:
  "keeps (tx_inv en fs0 tid) (svc_canonicalize (world_services en) r)"
  "keeps (tx_inv en fs0 tid) (svc_randomUUID (world_services en))"
  "keeps (tx_inv en fs0 tid) (svc_randomToken (world_services en))"
  "keeps (tx_inv en fs0 tid) (svc_leaseStart (world_services en) i)"
  "keeps (tx_inv en fs0 tid) (svc_leaseStop (world_services en) i)"
  "keeps (tx_inv en fs0 tid) (svc_getChangeSet (world_services en) c)"
  "keeps (tx_inv en fs0 tid) (svc_listOperations (world_services en) c)"
  "keeps (tx_inv en fs0 tid) (svc_cleanup (world_services en) h files)"
  "keeps (tx_inv en fs0 tid) (svc_terminate (world_services en) h)"
  "keeps (tx_inv en fs0 tid) (svc_spawn (world_services en) r tid)"
  "ti_transactionId identity = tid \<Longrightarrow> keeps (tx_inv en fs0 tid) (svc_finalize (world_services en) identity outcome)"
  unfolding keeps_def
  by (rule quiet_services [OF tx_inv_stable] cleanup_triple terminate_triple spawn_triple finalize_triple; assumption?)+

lemma cleanupCommitted_keeps [keeps_intros]:
  "keeps (tx_inv en fs0 tid) (cleanupCommittedArtifacts (world_services en) r tid files h)"
  unfolding cleanupCommittedArtifacts_def by (intro keeps_intros)

lemma rebuild_keeps [keeps_intros]:
  "keeps (tx_inv en fs0 tid) (rebuildTransactionReceipt (world_services en) snapshot)"
  unfolding rebuildTransactionReceipt_def Let_def by (intro keeps_intros)

lemma recoverDecision_triple:
  assumes id: "ti_transactionId identity = tid"
  shows "triple (up (tx_inv en fs0 tid))
    (up (\<lambda>w. tx_inv en fs0 tid w \<and> (decision = RD_finish_forward \<longrightarrow> held en fs0 tid P committable w)))
    (recoverDecision (world_services en) identity P h decision) (\<lambda>_. up (tx_inv en fs0 tid))"
proof (cases "decision = RD_finish_forward")
  case True
  have "triple (up (tx_inv en fs0 tid)) (up (held en fs0 tid P committable))
      (recoverDecision (world_services en) identity P h RD_finish_forward) (\<lambda>_. up (tx_inv en fs0 tid))"
    unfolding recoverDecision_def WorkspaceChangeTransactionRecoveryDecision.case
    by (rule triple_bind [OF triple_lift [OF prepare_triple] triple_bind [OF triple_lift [OF commit_triple [OF id]] triple_return]])
  then show ?thesis unfolding True by (rule triple_pre) (simp add: up_def)
next
  case False
  then have "keeps (up (tx_inv en fs0 tid)) (recoverDecision (world_services en) identity P h decision)"
    unfolding recoverDecision_def clearHelper_def by (cases decision) (simp_all, (intro keeps_intros id)+)
  then show ?thesis unfolding keeps_def by (rule triple_pre) (simp add: up_def)
qed

lemma recoverSettle_keeps:
  assumes id: "ti_transactionId identity = tid"
  shows "keeps (up (tx_inv en fs0 tid)) (recoverSettle (world_services en) r identity files h sn)"
  unfolding recoverSettle_def clearHelper_def id by (intro keeps_intros id)

lemma recoverBody_triple:
  assumes id: "ti_transactionId identity = tid"
  shows "triple (up (tx_inv en fs0 tid))
    (up (held en fs0 tid (transactionFilePlans (sn_files snapshot)) (\<lambda>_. True)))
    (recoverBody (world_services en) r identity snapshot) (\<lambda>_. up (tx_inv en fs0 tid))"
proof (cases "sn_files snapshot = []")
  case True
  have "keeps (up (tx_inv en fs0 tid))
      (eff_bind (eff_lift (svc_finalize (world_services en) identity FO_rolled_back)) (\<lambda>_. eff_return ()))"
    by (intro keeps_intros id)
  with True show ?thesis unfolding recoverBody_def keeps_def by (auto elim!: triple_pre simp: up_def held_inv)
next
  case False
  have settle: "triple (up (tx_inv en fs0 tid)) (up (tx_inv en fs0 tid))
      (if go_on then recoverSettle (world_services en) r identity files h sn else eff_return ()) (\<lambda>_. up (tx_inv en fs0 tid))"
    for go_on files h sn
    using recoverSettle_keeps [OF id, of en fs0 r files h sn] by (auto simp: keeps_def intro: triple_return)
  show ?thesis
    unfolding recoverBody_def Let_def id if_not_P [OF False]
    by (rule triple_bind [OF triple_lift [OF spawn_triple(2)] triple_bind [OF triple_set
          triple_bind [OF triple_lift [OF inspect_triple] triple_bind [OF triple_lift [OF reconcile_triple [OF id]]
            triple_bind [OF recoverDecision_triple [OF id] settle]]]]])
qed

lemma recoverOne_keeps:
  assumes "tr_id (sn_transaction snapshot) = tid"
  shows "keeps (tx_inv en fs0 tid) (recoverOne (world_services en) r snapshot)"
proof -
  let ?I = "tx_inv en fs0 tid" and ?sv = "world_services en"
  have final: "triple (up ?I) (up ?I) (eff_locals (\<lambda>helper.
      eff_bind (case helper of None \<Rightarrow> eff_return () | Some h \<Rightarrow> eff_lift (svc_terminate ?sv h)) (\<lambda>_.
      eff_lift (svc_leaseStop ?sv identity)))) (\<lambda>_. up ?I)" for identity
    unfolding keeps_def [symmetric] by (intro keeps_intros)
  have claimed: "triple ?I (held en fs0 tid (transactionFilePlans (sn_files sn)) (\<lambda>_. True))
      (eff_bind (svc_leaseStart ?sv identity) (\<lambda>_.
         eff_block None (eff_finally (recoverBody ?sv r identity sn)
           (eff_locals (\<lambda>helper.
              eff_bind (case helper of None \<Rightarrow> eff_return () | Some h \<Rightarrow> eff_lift (svc_terminate ?sv h)) (\<lambda>_.
              eff_lift (svc_leaseStop ?sv identity))))))) (\<lambda>_. ?I)"
    if id: "ti_transactionId identity = tid" for identity sn
    by (rule triple_bind [OF quiet_services(4) [OF held_stable held_inv]
          triple_block [OF triple_finally [OF recoverBody_triple [OF id] final]]])
  show ?thesis
    unfolding recoverOne_def Let_def assms keeps_def
    by (rule triple_bind [OF inv_services(2) [unfolded keeps_def] triple_bind [OF inv_services(3) [unfolded keeps_def]
          triple_bind [OF claim_triple]]];
        (intro triple_if triple_return triple_throw triple_pre [OF claimed])?; simp)
qed

lemma list_transactions_ids:
  assumes "only_tx w tid" "list_transactions request (w_store w) = Inr (sns, st)"
    and "lt_state request = Some s" "\<not> transaction_is_terminal s" "sn \<in> set sns"
  shows "tr_id (sn_transaction sn) = tid \<and> tx_of w tid \<noteq> None"
proof -
  let ?L = "sort_by compare_updated (filter (\<lambda>tr. (case lt_workspaceId request of None \<Rightarrow> True | Some v \<Rightarrow> tr_workspaceId tr = v) \<and>
                     (case lt_state request of None \<Rightarrow> True | Some s \<Rightarrow> tr_state tr = s))
          (map snd (ts_transactions (w_store w))))"
  obtain tr where tr: "tr \<in> set (take (clamp_limit (lt_limit request)) ?L)" "sn = snapshot_of (w_store w) tr"
    using assms(2,5) by (auto simp: list_transactions_def)
  then have "tr \<in> set ?L" using in_set_takeD by fast
  then obtain k where k: "(k, tr) \<in> set (ts_transactions (w_store w))" "tr_state tr = s"
    using assms(3) by auto
  then have "k = tid" "tr_id tr = k" using assms(1,4) by (auto simp: only_tx_def)
  moreover have "tx_of w k \<noteq> None" using weak_map_of_SomeI [OF k(1)] by (auto simp: tx_of_def)
  ultimately show ?thesis using tr(2) by (simp add: snapshot_of_def)
qed

lemma listTransactions_triple:
  assumes st: "core_stable K" and KI: "\<And>w. K w \<Longrightarrow> I w" and only: "\<And>w. K w \<Longrightarrow> only_tx w tid"
    and ids: "\<And>w sn. K w \<Longrightarrow> tr_id (sn_transaction sn) = tid \<Longrightarrow> tx_of w tid \<noteq> None \<Longrightarrow> R sn"
    and s: "s \<in> set recoverableStates"
  shows "triple I K (svc_listTransactions (world_services en) \<lparr>lt_workspaceId = v, lt_state = Some s, lt_limit = l\<rparr>)
    (\<lambda>sns w. K w \<and> list_all R sns)"
  unfolding world_services_def tx_services.simps
proof (rule world_call_triple [OF st KI])
  fix w x w' assume K: "K w"
    and "on_store (\<lambda>_. list_transactions \<lparr>lt_workspaceId = v, lt_state = Some s, lt_limit = l\<rparr>) w = Inr (x, w')"
  then obtain st where call: "list_transactions \<lparr>lt_workspaceId = v, lt_state = Some s, lt_limit = l\<rparr> (w_store w) = Inr (x, st)"
    and w': "w' = w\<lparr>w_store := st\<rparr>" by (auto simp: result_simps)
  have "w' = w" using call w' by (simp add: list_transactions_def)
  moreover have "\<not> transaction_is_terminal s" using s by (auto simp: recoverableStates_def transaction_is_terminal_def)
  ultimately show "K w' \<and> list_all R x"
    using K list_transactions_ids [OF only [OF K] call, of s] ids [OF K] by (auto simp: list_all_iff)
qed (auto intro: KI)

lemma byId_members:
  "set (map snd (foldl (\<lambda>m sn. AList.update (tr_id (sn_transaction sn)) sn m) m0 sns)) \<subseteq> snd ` set m0 \<union> set sns"
proof (induction sns arbitrary: m0)
  case (Cons sn sns)
  have "snd ` set (AList.update (tr_id (sn_transaction sn)) sn m0) \<subseteq> insert sn (snd ` set m0)"
    by (auto dest!: update_member)
  with Cons [of "AList.update (tr_id (sn_transaction sn)) sn m0"] show ?case by auto
qed simp

lemma listRecoverable_triple:
  assumes st: "core_stable K" and KI: "\<And>w. K w \<Longrightarrow> I w" and only: "\<And>w. K w \<Longrightarrow> only_tx w tid"
    and ids: "\<And>w sn. K w \<Longrightarrow> tr_id (sn_transaction sn) = tid \<Longrightarrow> tx_of w tid \<noteq> None \<Longrightarrow> R sn"
  shows "triple I K (listRecoverable (world_services en) v) (\<lambda>sns w. K w \<and> list_all R sns)"
proof -
  let ?list = "\<lambda>s. svc_listTransactions (world_services en) \<lparr>lt_workspaceId = Some v, lt_state = Some s, lt_limit = Some 101\<rparr>"
  have pages: "triple I K (eff_map ?list recoverableStates) (\<lambda>ps w. K w \<and> list_all (list_all R) ps)"
    by (rule triple_map) (rule listTransactions_triple [OF st KI only ids])
  have members: "list_all R (sort_by c (map snd (foldl (\<lambda>m sn. AList.update (tr_id (sn_transaction sn)) sn m) [] (concat ps))))"
    if "list_all (list_all R) ps" for ps c
    using that byId_members [of "[]" "concat ps"] by (auto simp: list_all_iff)
  show ?thesis unfolding listRecoverable_def
    by (rule triple_bind [OF pages triple_return]) (auto intro: members)
qed

lemma recoverPending_keeps:
  "keeps (tx_inv en fs0 tid) (recoverPendingTransactions (world_services en) v known)"
proof -
  let ?I = "tx_inv en fs0 tid"
  have loop: "triple ?I (\<lambda>w. ?I w \<and> list_all (\<lambda>sn. tr_id (sn_transaction sn) = tid) sns)
      (if length sns > 100 then eff_throw e else eff_for_each (recoverSnapshot (world_services en) r) sns) (\<lambda>_. ?I)"
    for sns e r
  proof (cases "list_all (\<lambda>sn. tr_id (sn_transaction sn) = tid) sns")
    case True
    then have "keeps ?I (recoverSnapshot (world_services en) r sn)" if "sn \<in> set sns" for sn
      unfolding recoverSnapshot_def using that
      by (intro keeps_intros recoverOne_keeps) (auto simp: list_all_iff)
    then have "keeps ?I (if length sns > 100 then eff_throw e else eff_for_each (recoverSnapshot (world_services en) r) sns)"
      by (intro keeps_intros)
    then show ?thesis unfolding keeps_def by (rule triple_pre) simp
  qed (auto intro!: tripleI)
  have root: "keeps ?I (case known of Some r \<Rightarrow> eff_return r | None \<Rightarrow> svc_canonicalize (world_services en) (svc_rootDir (world_services en)))"
    by (cases known) (auto intro: keeps_intros)
  show ?thesis unfolding recoverPendingTransactions_def keeps_def
    by (rule triple_bind [OF root [unfolded keeps_def] triple_bind [OF listRecoverable_triple [OF tx_inv_stable] loop]])
       (auto simp: tx_inv_def)
qed

section \<open>A new transaction\<close>

text \<open>
  \<open>execute\<close> starts with the recovery of what is pending, whatever the last process left, and
  then begins its transaction. An attempt with an id that the store has not seen claims the
  transaction only if it is new: a transaction that is pending still, because its lease has not
  run out or its recovery failed, is refused.
\<close>

definition claimable :: "env \<Rightarrow> (string \<Rightarrow> string option) \<Rightarrow> string \<Rightarrow> string \<Rightarrow> world \<Rightarrow> bool" where
  "claimable en fs0 tid i w \<longleftrightarrow> tx_inv en fs0 tid w \<and> i \<notin> attempt_ids (w_store w)"

lemma existing_claim_refused:
  assumes "existing_claim sha now request tr st = Inr (claim, st')" "bt_attemptId request \<notin> attempt_ids st"
  shows "st' = st \<and> tcr_status claim \<noteq> TC_claimed"
  using assms by (auto simp: existing_claim_def dest: attempt_known(2) split: if_splits option.splits)

lemma begin_claimable:
  assumes w: "claimable en fs0 tid (bt_attemptId request) w" and id: "bt_id request = tid"
    and call: "begin_transaction (en_sha en) now request (w_store w) = Inr (claim, st)"
  shows "tx_inv en fs0 tid (w\<lparr>w_store := st\<rparr>) \<and>
    (tcr_status claim = TC_claimed \<longrightarrow> phase en fs0 tid {TS_planning} [] (w\<lparr>w_store := st\<rparr>))"
proof (cases "(\<exists>(k, tr) \<in> set (ts_transactions (w_store w)). tr_idempotencyKey tr = bt_idempotencyKey request)
    \<or> tx_of w tid \<noteq> None")
  case True
  have "\<exists>tr. existing_claim (en_sha en) now request tr (w_store w) = Inr (claim, st)"
  proof (cases "List.find (\<lambda>tr. tr_idempotencyKey tr = bt_idempotencyKey request) (map snd (ts_transactions (w_store w)))")
    case None
    then obtain tr where "map_of (ts_transactions (w_store w)) (bt_id request) = Some tr"
      using True id by (auto simp: find_None_iff tx_of_def)
    then show ?thesis using call None by (auto simp: begin_transaction_def result_simps)
  next
    case (Some tr)
    then show ?thesis using call by (auto simp: begin_transaction_def result_simps)
  qed
  with existing_claim_refused w show ?thesis unfolding claimable_def by fastforce
next
  case False
  then have "phase en fs0 tid {TS_planning} [] (w\<lparr>w_store := st\<rparr>)"
    using begin_new_inv [OF _ _ id _ call] w by (auto simp: claimable_def)
  then show ?thesis by (simp add: phase_inv)
qed

lemma claimable_tick: "claimable en fs0 tid i w \<Longrightarrow> claimable en fs0 tid i (snd (tick en w))"
  using tx_inv_core [OF tick_core [of en w], of en fs0 tid] tick_calm [of w en] by (auto simp: claimable_def calm_def)

lemma begin_triple:
  assumes "bt_id request = tid" "bt_attemptId request = i"
  shows "triple (tx_inv en fs0 tid) (claimable en fs0 tid i) (svc_begin (world_services en) request)
    (\<lambda>claim w. tx_inv en fs0 tid w \<and> (tcr_status claim = TC_claimed \<longrightarrow> phase en fs0 tid {TS_planning} [] w))"
proof -
  let ?call = "on_store (\<lambda>now. begin_transaction (en_sha en) now request)"
  have called: "tx_inv en fs0 tid w' \<and> (tcr_status claim = TC_claimed \<longrightarrow> phase en fs0 tid {TS_planning} [] w')"
    if "claimable en fs0 tid i w" "?call w = Inr (claim, w')" for w claim w'
    using that begin_claimable [OF _ assms(1)] assms(2) by (auto simp: result_simps)
  have "(case r of Inr claim \<Rightarrow> tx_inv en fs0 tid w' \<and> (tcr_status claim = TC_claimed \<longrightarrow> phase en fs0 tid {TS_planning} [] w')
         | Inl _ \<Rightarrow> tx_inv en fs0 tid w')"
    if w: "claimable en fs0 tid i w" and r: "world_call en ?call w = (r, w')" for w r w'
  proof -
    obtain kind w1 where t: "tick en w = (kind, w1)" by (cases "tick en w")
    then have w1: "claimable en fs0 tid i w1" using claimable_tick [OF w] by simp
    have "tx_inv en fs0 tid (w1\<lparr>w_crashed := True\<rparr>) = tx_inv en fs0 tid w1"
      by (rule tx_inv_core) (simp add: core_def)
    with w1 have "tx_inv en fs0 tid w1" "tx_inv en fs0 tid (w1\<lparr>w_crashed := True\<rparr>)"
      by (simp_all add: claimable_def)
    with r t called [OF w1] show ?thesis by (auto simp: world_call_def split: fault_kind.splits sum.splits)
  qed
  then show ?thesis unfolding world_services_def tx_services.simps by (intro tripleI) fastforce+
qed

lemma draw_claimable:
  "triple (tx_inv en fs0 tid) (\<lambda>w. tx_inv en fs0 tid w \<and> ids_unused en w) (svc_randomUUID (world_services en))
     (\<lambda>uuid. claimable en fs0 tid (''wta_'' @ uuid))"
  "triple (tx_inv en fs0 tid) (claimable en fs0 tid i) (svc_randomToken (world_services en)) (\<lambda>_. claimable en fs0 tid i)"
proof -
  have inv: "tx_inv en fs0 tid (w\<lparr>w_nextId := n\<rparr>) = tx_inv en fs0 tid w" for w n
    by (rule tx_inv_core) (simp add: core_def)
  then show "triple (tx_inv en fs0 tid) (\<lambda>w. tx_inv en fs0 tid w \<and> ids_unused en w) (svc_randomUUID (world_services en))
     (\<lambda>uuid. claimable en fs0 tid (''wta_'' @ uuid))"
    "triple (tx_inv en fs0 tid) (claimable en fs0 tid i) (svc_randomToken (world_services en)) (\<lambda>_. claimable en fs0 tid i)"
    unfolding world_services_def tx_services.simps take_id_def
    by (intro tripleI; auto simp: claimable_def ids_unused_def inv)+
qed

text \<open>
  What \<open>execute\<close> relies on of the \<open>plan\<close> callback of its request: it leaves the store, the
  files and the helpers alone, and what it plans starts from the files as they are and
  changes each file that it names.
\<close>

definition files_sound :: "(string \<Rightarrow> string) \<Rightarrow> (string \<Rightarrow> string option) \<Rightarrow> ChangeSetReceipt \<Rightarrow> bool" where
  "files_sound sha fs receipt \<longleftrightarrow> (rc_status receipt \<noteq> CA_conflicted \<longrightarrow>
     (\<forall>f \<in> set (transactionFiles receipt). plan_file_sound sha fs f))"

definition plan_sound ::
  "(string \<Rightarrow> string) \<Rightarrow> (string \<Rightarrow> string option) \<Rightarrow> (world, thrown, ChangeSetReceipt) eff \<Rightarrow> bool" where
  "plan_sound sha fs0 plan \<longleftrightarrow> (\<forall>w. core (snd (plan w)) = core w \<and>
     (case fst (plan w) of Inl _ \<Rightarrow> True
      | Inr receipt \<Rightarrow> w_fs w = fs0 \<longrightarrow> files_sound sha fs0 receipt))"

lemma planning_files: "phase en fs0 tid S [] w \<Longrightarrow> w_fs w = fs0"
  by (auto simp: phase_def tx_inv_def between_def)

lemma plan_triple:
  assumes "plan_sound (en_sha en) fs0 plan"
  shows "triple (tx_inv en fs0 tid) (phase en fs0 tid S []) plan
    (\<lambda>receipt w. phase en fs0 tid S [] w \<and> files_sound (en_sha en) fs0 receipt)"
proof (rule tripleI)
  fix w r w' assume ph: "phase en fs0 tid S [] w"
  have *: "phase en fs0 tid S [] w'" if "plan w = (x, w')" for x
  proof -
    have "core w' = core w" using assms that by (metis plan_sound_def snd_conv)
    from core_stableD [OF phase_stable this ph] show ?thesis .
  qed
  show "phase en fs0 tid S [] w' \<and> files_sound (en_sha en) fs0 r" if "plan w = (Inr r, w')"
    using * [OF that] planning_files [OF ph] assms [unfolded plan_sound_def, rule_format, of w] that
    by simp
  show "tx_inv en fs0 tid w'" if "plan w = (Inl e, w')" for e
    using phase_inv [OF * [OF that]] .
qed

lemma held_weaken: "held en fs0 tid P S w \<Longrightarrow> (\<And>tr. S tr \<Longrightarrow> S' tr) \<Longrightarrow> held en fs0 tid P S' w"
  by (auto simp: held_def)

lemma settleUnchanged_triple:
  assumes "ti_transactionId identity = tid"
  shows "keeps (up (tx_inv en fs0 tid)) (settleUnchanged (world_services en) identity helper outcome receipt)"
  unfolding settleUnchanged_def by (intro keeps_intros assms)

lemma preparePlan_triple:
  assumes id: "ti_transactionId identity = tid"
    and P: "\<forall>f \<in> set P. plan_file_sound (en_sha en) fs0 f"
  shows "triple (up (tx_inv en fs0 tid)) (up (phase en fs0 tid {TS_planning} []))
    (preparePlan (world_services en) aborted identity helper P)
    (\<lambda>_. up (held en fs0 tid P (\<lambda>tr. tr_recoveryDecision tr = None)))"
proof -
  let ?H = "held en fs0 tid P (\<lambda>tr. tr_recoveryDecision tr = None)"
  have abort: "triple (up (tx_inv en fs0 tid)) (up ?H)
      (eff_bind (eff_lift (svc_cleanup (world_services en) helper P)) (\<lambda>_.
       eff_bind (eff_set (xl_helper_update (\<lambda>_. None))) (\<lambda>_.
       eff_bind (eff_lift (svc_finalize (world_services en) identity FO_rolled_back)) (\<lambda>_.
       eff_throw abortError)))) (\<lambda>_. up ?H)"
  proof -
    have "triple (up (tx_inv en fs0 tid)) (up (tx_inv en fs0 tid)) (eff_throw abortError) (\<lambda>_. up ?H)"
      by (rule triple_throw)
    then show ?thesis
      by (intro triple_bind [OF triple_lift [OF triple_pre [OF cleanup_triple held_inv]]
            triple_bind [OF triple_set triple_bind [OF triple_lift [OF finalize_triple [OF id]]]]])
  qed
  have look: "triple (tx_inv en fs0 tid) ?H (\<lambda>s. (Inr (aborted s), s)) (\<lambda>_. ?H)" by (intro tripleI) auto
  show ?thesis unfolding preparePlan_def
    by (rule triple_bind [OF triple_lift [OF record_plan_triple [OF id P]]
          triple_bind [OF triple_lift [OF prepare_triple] triple_bind [OF triple_lift [OF mark_prepared_triple [OF id]]
          triple_bind [OF triple_lift [OF look] triple_if [OF abort triple_return]]]]])
qed

lemma commitPlan_triple:
  assumes id: "ti_transactionId identity = tid"
  shows "triple (up (tx_inv en fs0 tid)) (up (held en fs0 tid P (\<lambda>tr. tr_recoveryDecision tr = None)))
    (commitPlan (world_services en) dir identity oid helper P receipt) (\<lambda>_. up (tx_inv en fs0 tid))"
proof -
  have rest: "keeps (up (tx_inv en fs0 tid))
     (eff_bind (eff_lift (assertHealthy (world_services en) identity)) (\<lambda>_.
     eff_bind (eff_lift (svc_finalize (world_services en) identity (FO_applied oid receipt))) (\<lambda>finalization.
     eff_bind (eff_set (xl_terminal_update (\<lambda>_. Some finalization))) (\<lambda>_.
     eff_bind (eff_lift (cleanupCommittedArtifacts (world_services en) dir (ti_transactionId identity) P helper)) (\<lambda>_.
     eff_bind (eff_set (xl_helper_update (\<lambda>_. None))) (\<lambda>_.
     eff_result (finalizationResult finalization receipt)))))))"
    unfolding id by (intro keeps_intros id)
  show ?thesis unfolding commitPlan_def
    by (rule triple_bind [OF triple_lift [OF begin_commit_triple [OF id]] triple_bind [OF triple_set
          triple_bind [OF triple_lift [OF commit_triple [OF id]] rest [unfolded keeps_def]]]])
qed

lemma executeBody_triple:
  assumes id: "ti_transactionId identity = tid" and plan: "plan_sound (en_sha en) fs0 (ex_plan request)"
  shows "triple (up (tx_inv en fs0 tid)) (up (phase en fs0 tid {TS_planning} []))
    (executeBody (world_services en) dir identity oid request) (\<lambda>_. up (tx_inv en fs0 tid))"
proof -
  let ?sv = "world_services en" and ?ph = "phase en fs0 tid {TS_planning} []"
  have change: "triple (up (tx_inv en fs0 tid)) (up ?ph)
      (if transactionFiles receipt = [] then settleUnchanged ?sv identity h (FO_applied oid receipt) receipt
       else eff_bind (preparePlan ?sv (ex_aborted request) identity h (transactionFiles receipt)) (\<lambda>_.
          commitPlan ?sv dir identity oid h (transactionFiles receipt) receipt)) (\<lambda>_. up (tx_inv en fs0 tid))"
    if "files_sound (en_sha en) fs0 receipt" "rc_status receipt \<noteq> CA_conflicted" for receipt h
    using that unfolding files_sound_def
    by (intro triple_if triple_bind [OF preparePlan_triple [OF id] commitPlan_triple [OF id]])
       (auto intro: triple_pre [OF settleUnchanged_triple [OF id, unfolded keeps_def]] simp: up_def phase_inv)
  have planned: "triple (up (tx_inv en fs0 tid)) (up (\<lambda>w. ?ph w \<and> files_sound (en_sha en) fs0 receipt))
     (if rc_changeSetId receipt \<noteq> ex_changeSetId request then
       eff_throw (plainError ''workspace transaction plan belongs to another changeset'')
     else if rc_status receipt = CA_conflicted then
       settleUnchanged ?sv identity h (FO_conflicted oid receipt) receipt
     else
       (let files = transactionFiles receipt in
        eff_bind (eff_set (xl_files_update (\<lambda>_. files))) (\<lambda>_.
        if files = [] then
          settleUnchanged ?sv identity h (FO_applied oid receipt) receipt
        else
          eff_bind (preparePlan ?sv (ex_aborted request) identity h files) (\<lambda>_.
          commitPlan ?sv dir identity oid h files receipt)))) (\<lambda>_. up (tx_inv en fs0 tid))" for receipt h
  proof (cases "files_sound (en_sha en) fs0 receipt")
    case True
    show ?thesis unfolding Let_def
      by (intro triple_if triple_throw triple_bind [OF triple_set triple_pre [OF change [OF True]]]
            triple_pre [OF settleUnchanged_triple [OF id, unfolded keeps_def]])
         (auto simp: up_def phase_inv)
  qed (auto intro!: tripleI simp: up_def)
  have spawn: "triple (tx_inv en fs0 tid) ?ph (svc_spawn ?sv dir tid) (\<lambda>_. ?ph)"
    unfolding phase_held by (rule spawn_triple(2))
  show ?thesis unfolding executeBody_def id
    by (rule triple_bind [OF triple_lift [OF spawn] triple_bind [OF triple_set
          triple_bind [OF triple_lift [OF plan_triple [OF plan]] planned]]])
qed

lemma rescueHelper_keeps [keeps_intros]: "keeps (up (tx_inv en fs0 tid)) (rescueHelper (world_services en) locals)"
  unfolding rescueHelper_def by (intro keeps_intros)

lemma executeCatch_keeps:
  assumes "ti_transactionId identity = tid"
  shows "keeps (up (tx_inv en fs0 tid)) (executeCatch (world_services en) identity error)"
  unfolding executeCatch_def Let_def by (intro keeps_intros assms)

lemma executeClaimed_triple:
  assumes id: "ti_transactionId identity = tid" and plan: "plan_sound (en_sha en) fs0 (ex_plan request)"
  shows "triple (tx_inv en fs0 tid) (phase en fs0 tid {TS_planning} [])
    (executeClaimed (world_services en) dir identity oid request) (\<lambda>_. tx_inv en fs0 tid)"
proof -
  have stop: "keeps (up (tx_inv en fs0 tid)) (eff_lift (svc_leaseStop (world_services en) identity))"
    by (intro keeps_intros)
  show ?thesis unfolding executeClaimed_def
    by (rule triple_bind [OF quiet_services(4) [OF phase_stable phase_inv]
          triple_block [OF triple_finally [OF triple_try [OF executeBody_triple [OF id plan]
            executeCatch_keeps [OF id, unfolded keeps_def]] stop [unfolded keeps_def]]]])
qed

lemma replay_keeps [keeps_intros]:
  "keeps (tx_inv en fs0 tid) (replayTerminalTransaction (world_services en) c snapshot oid)"
  unfolding replayTerminalTransaction_def by (intro keeps_intros)

lemma cleanupTerminal_keeps [keeps_intros]:
  "keeps (tx_inv en fs0 tid) (cleanupTerminalArtifacts (world_services en) dir tid files)"
  unfolding cleanupTerminalArtifacts_def by (intro keeps_intros)

text \<open>The transaction that a request stands for.\<close>

definition request_tid :: "env \<Rightarrow> 's ExecuteWorkspaceTransactionRequest \<Rightarrow> string" where
  "request_tid en request = durableId (en_sha en) ''wtx'' (mi_idempotencyKey (ex_mutation request))"

lemma triple_conj:
  "triple I P m Q \<Longrightarrow> triple I' P' m Q' \<Longrightarrow> triple I (\<lambda>s. P s \<and> P' s) m (\<lambda>x s. Q x s \<and> Q' x s)"
  unfolding triple_def by blast

lemma execute_triple:
  assumes inj: "inj (en_uuid en)" and plan: "plan_sound (en_sha en) fs0 (ex_plan request)" and tid: "request_tid en request = tid"
  shows "triple (tx_inv en fs0 tid) (\<lambda>w. tx_inv en fs0 tid w \<and> ids_unused en w)
    (execute (world_services en) request) (\<lambda>_. tx_inv en fs0 tid)"
proof -
  let ?sv = "world_services en" and ?I = "tx_inv en fs0 tid"
  let ?P = "\<lambda>w. ?I w \<and> ids_unused en w"
  let ?claimed = "\<lambda>claim w. ?I w \<and> (tcr_status claim = TC_claimed \<longrightarrow> phase en fs0 tid {TS_planning} [] w)"
  have sha: "svc_sha ?sv = en_sha en" by (simp add: world_services_def)
  have tid': "durableId (svc_sha ?sv) ''wtx'' (mi_idempotencyKey (ex_mutation request)) = tid"
    using tid by (simp add: sha request_tid_def)
  have id: "bt_id (beginRequest ?sv dir tid a c request) = tid"
    "bt_attemptId (beginRequest ?sv dir tid a c request) = a" for dir a c by (simp_all add: beginRequest_def)
  have both: "triple ?I ?P m (\<lambda>_. ?P)" if "keeps ?I m" "keeps (ids_unused en) m" for m :: "(world, thrown, 'a) eff"
    using triple_conj that unfolding keeps_def by blast
  have replay: "triple ?I (?claimed claim)
      (eff_bind (cleanupTerminalArtifacts ?sv dir tid files) (\<lambda>_. replayTerminalTransaction ?sv c sn oid)) (\<lambda>_. ?I)"
    for claim dir files c sn oid
  proof (rule triple_pre)
    show "triple ?I ?I (eff_bind (cleanupTerminalArtifacts ?sv dir tid files)
        (\<lambda>_. replayTerminalTransaction ?sv c sn oid)) (\<lambda>_. ?I)"
      unfolding keeps_def [symmetric] by (intro keeps_intros)
  qed blast
  have run: "triple ?I (?claimed claim) (executeClaimed ?sv dir \<lparr>ti_transactionId = tid, ti_attemptId = a, ti_claimToken = t\<rparr> oid request) (\<lambda>_. ?I)"
    if "tcr_status claim = TC_claimed" for claim dir a t oid
    by (rule triple_pre [OF executeClaimed_triple [OF _ plan]]) (use that in auto)
  have start: "triple ?I ?P (eff_result (validateRequest request)) (\<lambda>_. ?P)"
    "triple ?I ?P (svc_canonicalize ?sv r) (\<lambda>_. ?P)"
    "triple ?I ?P (recoverPendingTransactions ?sv v known) (\<lambda>_. ?P)" for r v known
    by (rule both; intro keeps_intros recoverPending_keeps inj)+
  show ?thesis unfolding execute_def Let_def tid'
    by (rule triple_bind [OF start(1) triple_bind [OF start(2) triple_bind [OF start(3)
          triple_bind [OF draw_claimable(1) triple_bind [OF draw_claimable(2) triple_bind [OF begin_triple [OF id]]]]]]];
        (intro triple_if replay run triple_throw)?) auto
qed

section \<open>Starting and restarting\<close>

text \<open>A world in which the transaction has not begun and nothing else is pending.\<close>

definition fresh_world :: "(string \<Rightarrow> string option) \<Rightarrow> string \<Rightarrow> world \<Rightarrow> bool" where
  "fresh_world fs0 tid w \<longleftrightarrow> w_fs w = fs0 \<and> tx_of w tid = None \<and> files_of w tid = [] \<and>
     (\<forall>n. w_tmp w (tid, n) = None) \<and> list_all (\<lambda>s. \<not> hs_alive s) (w_helpers w) \<and>
     distinct (map fst (ts_transactions (w_store w))) \<and>
     list_all (\<lambda>(k, tr). tr_id tr = k \<and> transaction_is_terminal (tr_state tr)) (ts_transactions (w_store w))"

lemma fresh_inv: "fresh_world fs0 tid w \<Longrightarrow> tx_inv en fs0 tid w"
  by (auto simp: fresh_world_def tx_inv_def only_tx_def temps_ok_def plan_good_def between_def
      plans_of_def transactionFilePlans_def list_all_iff)

lemma restart_inv:
  assumes "tx_inv en fs0 tid w"
  shows "tx_inv en fs0 tid (restart faults delay w)"
proof -
  let ?w = "w\<lparr>w_helpers := map (\<lambda>s. s\<lparr>hs_alive := False\<rparr>) (w_helpers w)\<rparr>"
  have "tx_inv en fs0 tid ?w" using assms by (rule inv_helpers) auto
  moreover have "core (restart faults delay w) = core ?w" by (simp add: restart_def core_def)
  ultimately show ?thesis using tx_inv_core by blast
qed

end
