(* ===== verification/Workspace_Runtime.thy ===== *)
theory Workspace_Runtime
  imports Transaction_Safety
begin

text \<open>
  The workspace runtime (\<open>packages/workspace/src/runtime.ts\<close>, \<open>history.ts\<close>, \<open>types.ts\<close>): it
  puts a changeset into the store and applies, undoes or applies it again in a workspace
  transaction whose plan is that of the changeset planner. The plans meet what the
  transaction relies on, so that the whole of apply, crash, restart and recovery is safe.
\<close>

section \<open>Requests and results\<close>

record 's WorkspaceRuntimeOptions =
  wr_services :: "'s tx_services"
  wr_workspaceId :: "string option"
  wr_principalId :: "string option"

record 's ApplyWorkspaceChangeSetRequest =
  aw_changeSet :: ChangeSet
  aw_workspaceId :: "string option"
  aw_principalId :: "string option"
  aw_mutation :: WorkspaceMutationIdentity
  aw_aborted :: "'s \<Rightarrow> bool"

record 's UndoWorkspaceChangeSetRequest =
  uw_changeSetId :: string
  uw_mutation :: WorkspaceMutationIdentity
  uw_aborted :: "'s \<Rightarrow> bool"

record ApplyWorkspaceChangeSetResult =
  ar_changeSet :: WorkspaceChangeSetRecord
  ar_operation :: WorkspaceChangeOperationRecord
  ar_receipt :: ChangeSetReceipt
  ar_transaction :: WorkspaceChangeTransactionFinalization

record WorkspaceChangeSetHistory =
  wh_changeSet :: WorkspaceChangeSetRecord
  wh_operations :: "WorkspaceChangeOperationRecord list"

record ListWorkspaceChangeSetsRequest =
  ls_workspaceId :: "string option"
  ls_state :: "WorkspaceChangeSetState option"
  ls_limit :: "int option"

section \<open>History\<close>

fun latestApplicableReversed :: "WorkspaceChangeOperationRecord list \<Rightarrow> WorkspaceChangeOperationRecord option" where
  "latestApplicableReversed [] = None"
| "latestApplicableReversed (operation # operations) =
     (if op_operation operation = OK_undo \<and> op_status operation = CA_applied then None
      else if op_operation operation = OK_apply \<and>
        (op_status operation = CA_applied \<or> op_status operation = CA_already_applied) then Some operation
      else latestApplicableReversed operations)"

definition latestApplicableApplyOperation ::
  "WorkspaceChangeOperationRecord list \<Rightarrow> WorkspaceChangeOperationRecord option" where
  "latestApplicableApplyOperation operations = latestApplicableReversed (rev operations)"

definition isTerminalWorkspaceChangeSetState :: "WorkspaceChangeSetState \<Rightarrow> bool" where
  "isTerminalWorkspaceChangeSetState state \<longleftrightarrow>
     state = CS_applied \<or> state = CS_already_applied \<or> state = CS_conflicted \<or>
     state = CS_undone \<or> state = CS_undo_conflicted"

section \<open>The runtime\<close>

text \<open>The errors of the planner as thrown values, with their messages.\<close>

fun planError :: "thrown changeset_error \<Rightarrow> thrown" where
  "planError ChangeSetIdEmpty = plainError ''changeset id must not be empty''"
| "planError ChangeSetNoChanges = plainError ''changeset must include at least one file change''"
| "planError FileChangePathEmpty = plainError ''file change path must not be empty''"
| "planError (DuplicatePath path) = plainError (''changeset contains duplicate path: '' @ path)"
| "planError (TargetTextRequired path) = plainError (''file change targetText is required: '' @ path)"
| "planError ConflictedReceiptCannotBeUndone = plainError ''conflicted workspace receipt cannot be undone''"
| "planError (ReadFailed e) = e"

definition planned :: "thrown changeset_error + ChangeSetReceipt \<Rightarrow> thrown + ChangeSetReceipt" where
  "planned r = (case r of Inl e \<Rightarrow> Inl (planError e) | Inr receipt \<Rightarrow> Inr receipt)"

definition applyPlan :: "'s tx_services \<Rightarrow> ChangeSet \<Rightarrow> ('s, thrown, ChangeSetReceipt) eff" where
  "applyPlan sv changeSet s = (planned (planChangeSetApply (svc_sha sv) (svc_readText sv s) changeSet), s)"

definition undoPlan :: "'s tx_services \<Rightarrow> ChangeSetReceipt \<Rightarrow> ('s, thrown, ChangeSetReceipt) eff" where
  "undoPlan sv source s = (planned (planChangeSetUndo (svc_sha sv) (svc_readText sv s) source), s)"

definition runtimeWorkspaceId :: "'s WorkspaceRuntimeOptions \<Rightarrow> string" where
  "runtimeWorkspaceId options = (case wr_workspaceId options of Some v \<Rightarrow> v | None \<Rightarrow> ''local'')"

definition runtimePrincipalId :: "'s WorkspaceRuntimeOptions \<Rightarrow> string" where
  "runtimePrincipalId options = (case wr_principalId options of Some v \<Rightarrow> v | None \<Rightarrow> ''workspace'')"

definition recoverPendingOf :: "'s WorkspaceRuntimeOptions \<Rightarrow> string option \<Rightarrow> ('s, thrown, unit) eff" where
  "recoverPendingOf options workspaceId =
     recoverPendingTransactions (wr_services options)
       (case workspaceId of Some v \<Rightarrow> v | None \<Rightarrow> runtimeWorkspaceId options) None"

text \<open>What apply and undo do after the transaction: answer the record as it is now.\<close>

definition latestResult ::
  "'s tx_services \<Rightarrow> string \<Rightarrow> WorkspaceChangeSetRecord \<Rightarrow> WorkspaceTransactionResult \<Rightarrow>
   ('s, thrown, ApplyWorkspaceChangeSetResult) eff" where
  "latestResult sv changeSetId changeSet executed =
     eff_bind (svc_getChangeSet sv changeSetId) (\<lambda>latest.
     eff_return \<lparr>ar_changeSet = (case latest of Some v \<Rightarrow> v | None \<Rightarrow> changeSet),
       ar_operation = tx_operation executed, ar_receipt = tx_receipt executed,
       ar_transaction = tx_finalization executed\<rparr>)"

definition applyRequest ::
  "'s tx_services \<Rightarrow> WorkspaceChangeSetRecord \<Rightarrow> 's ApplyWorkspaceChangeSetRequest \<Rightarrow>
   's ExecuteWorkspaceTransactionRequest" where
  "applyRequest sv changeSet request =
     \<lparr>ex_workspaceId = csr_workspaceId changeSet, ex_changeSetId = csr_id changeSet,
      ex_operation = OK_apply, ex_undoSourceOperationId = None, ex_mutation = aw_mutation request,
      ex_plan = applyPlan sv (csr_changeSet changeSet), ex_aborted = aw_aborted request\<rparr>"

definition applyChangeSet ::
  "'s WorkspaceRuntimeOptions \<Rightarrow> 's ApplyWorkspaceChangeSetRequest \<Rightarrow>
   ('s, thrown, ApplyWorkspaceChangeSetResult) eff" where
  "applyChangeSet options request =
     (let sv = wr_services options in
      eff_bind (svc_putChangeSet sv
         \<lparr>pcs_workspaceId = (case aw_workspaceId request of Some v \<Rightarrow> v | None \<Rightarrow> runtimeWorkspaceId options),
          pcs_principalId = (case aw_principalId request of Some v \<Rightarrow> v | None \<Rightarrow> runtimePrincipalId options),
          pcs_changeSet = aw_changeSet request\<rparr>) (\<lambda>changeSet.
      eff_bind (execute sv (applyRequest sv changeSet request)) (\<lambda>executed.
      latestResult sv (csr_id changeSet) changeSet executed)))"

definition undoRequest ::
  "'s tx_services \<Rightarrow> WorkspaceChangeSetRecord \<Rightarrow> WorkspaceChangeOperationRecord \<Rightarrow>
   's UndoWorkspaceChangeSetRequest \<Rightarrow> 's ExecuteWorkspaceTransactionRequest" where
  "undoRequest sv changeSet applyOperation request =
     \<lparr>ex_workspaceId = csr_workspaceId changeSet, ex_changeSetId = uw_changeSetId request,
      ex_operation = OK_undo, ex_undoSourceOperationId = Some (op_id applyOperation),
      ex_mutation = uw_mutation request, ex_plan = undoPlan sv (op_receipt applyOperation),
      ex_aborted = uw_aborted request\<rparr>"

definition undoChangeSet ::
  "'s WorkspaceRuntimeOptions \<Rightarrow> 's UndoWorkspaceChangeSetRequest \<Rightarrow>
   ('s, thrown, ApplyWorkspaceChangeSetResult) eff" where
  "undoChangeSet options request =
     (let sv = wr_services options in
      eff_bind (svc_getChangeSet sv (uw_changeSetId request)) (\<lambda>found.
      case found of
        None \<Rightarrow> eff_throw (plainError (''workspace changeset does not exist: '' @ uw_changeSetId request))
      | Some changeSet \<Rightarrow>
          eff_bind (svc_listOperations sv (uw_changeSetId request)) (\<lambda>operations.
          case latestApplicableApplyOperation operations of
            None \<Rightarrow> eff_throw (plainError
              (''workspace changeset has no applied receipt to undo: '' @ uw_changeSetId request))
          | Some applyOperation \<Rightarrow>
              eff_bind (execute sv (undoRequest sv changeSet applyOperation request)) (\<lambda>executed.
              latestResult sv (uw_changeSetId request) changeSet executed))))"

definition reapplyChangeSet ::
  "'s WorkspaceRuntimeOptions \<Rightarrow> 's UndoWorkspaceChangeSetRequest \<Rightarrow>
   ('s, thrown, ApplyWorkspaceChangeSetResult) eff" where
  "reapplyChangeSet options request =
     eff_bind (svc_getChangeSet (wr_services options) (uw_changeSetId request)) (\<lambda>found.
     case found of
       None \<Rightarrow> eff_throw (plainError (''workspace changeset does not exist: '' @ uw_changeSetId request))
     | Some changeSet \<Rightarrow>
         applyChangeSet options
           \<lparr>aw_changeSet = csr_changeSet changeSet, aw_workspaceId = Some (csr_workspaceId changeSet),
            aw_principalId = Some (csr_principalId changeSet), aw_mutation = uw_mutation request,
            aw_aborted = uw_aborted request\<rparr>)"

definition getHistory ::
  "'s WorkspaceRuntimeOptions \<Rightarrow> string \<Rightarrow> ('s, thrown, WorkspaceChangeSetHistory option) eff" where
  "getHistory options changeSetId =
     eff_bind (svc_getChangeSet (wr_services options) changeSetId) (\<lambda>found.
     case found of
       None \<Rightarrow> eff_return None
     | Some changeSet \<Rightarrow>
         eff_bind (svc_listOperations (wr_services options) changeSetId) (\<lambda>operations.
         eff_return (Some \<lparr>wh_changeSet = changeSet, wh_operations = operations\<rparr>)))"

text \<open>\<open>listStored\<close> is the query of the storage service.\<close>

definition listChangeSets ::
  "(ListWorkspaceChangeSetsRequest \<Rightarrow> ('s, thrown, WorkspaceChangeSetRecord list) eff) \<Rightarrow>
   's WorkspaceRuntimeOptions \<Rightarrow> ListWorkspaceChangeSetsRequest \<Rightarrow>
   ('s, thrown, WorkspaceChangeSetRecord list) eff" where
  "listChangeSets listStored options request =
     listStored (request\<lparr>ls_workspaceId :=
       Some (case ls_workspaceId request of Some v \<Rightarrow> v | None \<Rightarrow> runtimeWorkspaceId options)\<rparr>)"

section \<open>The plans are sound\<close>

text \<open>
  The texts that must not collide under the hash: those of the workspace and those that the
  changeset or the receipt names, and their initial parts, which a torn write may leave.
\<close>

definition change_set_texts :: "ChangeSet \<Rightarrow> string set" where
  "change_set_texts cs = (\<Union>c \<in> set (cs_changes cs). set_option (fc_targetText c))"

definition receipt_texts :: "ChangeSetReceipt \<Rightarrow> string set" where
  "receipt_texts r = (\<Union>f \<in> set (rc_files r). set_option (af_beforeText f) \<union> set_option (af_afterText f))"

definition texts_of :: "(string \<Rightarrow> string option) \<Rightarrow> string set" where
  "texts_of fs = (\<Union>p. set_option (fs p))"

definition parts_of :: "string set \<Rightarrow> string set" where
  "parts_of T = {take k t | k t. t \<in> T}"

lemma whole_part: "T \<subseteq> parts_of T"
proof
  fix t assume "t \<in> T"
  moreover have "t = take (length t) t" by simp
  ultimately show "t \<in> parts_of T" unfolding parts_of_def by blast
qed

lemma sha_separates:
  assumes "inj_on sha (parts_of T)" "set_option a \<subseteq> T" "set_option b \<subseteq> T"
  shows "map_option sha a = map_option sha b \<longleftrightarrow> a = b"
  using inj_on_subset [OF assms(1) whole_part] assms(2,3) by (cases a; cases b) (auto dest: inj_onD)

lemma sha_detects_torn:
  assumes "inj_on sha (parts_of T)" "set_option a \<subseteq> T"
  shows "pred_option (torn_detected sha) a"
proof -
  have "torn_detected sha t" if "a = Some t" for t
  proof -
    have "t \<in> T" using assms(2) that by simp
    then have "take k t \<in> parts_of T" "t \<in> parts_of T" for k using whole_part by (auto simp: parts_of_def)
    then show ?thesis using inj_onD [OF assms(1)] unfolding torn_detected_def by blast
  qed
  then show ?thesis by (cases a) auto
qed

lemma transactionFiles_members:
  assumes "f \<in> set (transactionFiles receipt)"
  obtains n g where "g \<in> set (rc_files receipt)" "af_beforeText g \<noteq> af_afterText g" "f = filePlan n g"
proof -
  let ?fs = "filter (\<lambda>file. af_beforeText file \<noteq> af_afterText file) (rc_files receipt)"
  obtain i where i: "i < length ?fs" "f = filePlan (int i) (?fs ! i)"
    using assms by (auto simp: transactionFiles_def in_set_enumerate_eq)
  from nth_mem [OF i(1)] i(2) that show thesis by auto
qed

lemma sha256Optional_map: "sha256Optional sha = map_option sha"
  by (auto simp: fun_eq_iff sha256Optional_def split: option.splits)

lemma fs_texts: "set_option (fs p) \<subseteq> texts_of fs"
  by (auto simp: texts_of_def)

lemma apply_files_sound:
  assumes inj: "inj_on sha (parts_of (texts_of fs \<union> change_set_texts cs))"
    and plan: "planChangeSetApply sha (reader_of fs) cs = Inr r"
  shows "files_sound sha fs r"
  unfolding files_sound_def
proof (intro impI ballI)
  fix f assume ok: "rc_status r \<noteq> CA_conflicted" and "f \<in> set (transactionFiles r)"
  then obtain n g where g: "g \<in> set (rc_files r)" "af_beforeText g \<noteq> af_afterText g" "f = filePlan n g"
    by (elim transactionFiles_members)
  have wf: "wf_change_set cs" and r: "r = apply_receipt sha fs cs"
    using plan by (simp_all add: planChangeSetApply_reader)
  obtain c where c: "c \<in> set (cs_changes cs)" "plan_matches sha (fs (fc_path c)) c g"
    using matches_memb(2) [OF apply_receipt_files [OF wf ok [unfolded r]]] g(1) r by blast
  have texts: "set_option (fs (fc_path c)) \<subseteq> texts_of fs \<union> change_set_texts cs"
    "set_option (desired_text c) \<subseteq> texts_of fs \<union> change_set_texts cs"
    using c(1) fs_texts by (auto simp: change_set_texts_def desired_text_def)
  show "plan_file_sound sha fs f"
    using c(2) g(2,3) sha_separates [OF inj texts] sha_detects_torn [OF inj texts(2)]
    by (auto simp: plan_file_sound_def plan_matches_def filePlan_def)
qed

lemma undo_files_sound:
  assumes inj: "inj_on sha (parts_of (texts_of fs \<union> receipt_texts source))"
    and plan: "planChangeSetUndo sha (reader_of fs) source = Inr r"
  shows "files_sound sha fs r"
  unfolding files_sound_def
proof (intro impI ballI)
  fix f assume ok: "rc_status r \<noteq> CA_conflicted" and "f \<in> set (transactionFiles r)"
  then obtain n g where g: "g \<in> set (rc_files r)" "af_beforeText g \<noteq> af_afterText g" "f = filePlan n g"
    by (elim transactionFiles_members)
  have "filter (\<lambda>f. sha256Optional sha (fs (af_path f)) \<noteq> af_afterSha256 f) (rc_files source) = []"
    and files: "rc_files r = map undoFile (rc_files source)"
    using plan ok by (auto simp: planChangeSetUndo_def undo_loop result_simps split: if_splits)
  then have same: "\<forall>f \<in> set (rc_files source). sha256Optional sha (fs (af_path f)) = af_afterSha256 f"
    by (simp add: filter_empty_conv)
  obtain h where h: "h \<in> set (rc_files source)" "g = undoFile h" using g(1) files by auto
  have texts: "set_option (fs (af_path h)) \<subseteq> texts_of fs \<union> receipt_texts source"
    "set_option (af_beforeText h) \<subseteq> texts_of fs \<union> receipt_texts source"
    "set_option (af_afterText h) \<subseteq> texts_of fs \<union> receipt_texts source"
    using h(1) fs_texts by (auto simp: receipt_texts_def)
  show "plan_file_sound sha fs f"
    using g(2,3) h(2) bspec [OF same h(1)] sha_separates [OF inj texts(1,3)] sha_separates [OF inj texts(3,2)]
      sha_detects_torn [OF inj texts(2)]
    by (auto simp: plan_file_sound_def filePlan_def undoFile_def record_builders sha256Optional_map)
qed

lemma planned_Inr [simp]: "planned x = Inr r \<longleftrightarrow> x = Inr r"
  by (simp add: planned_def split: sum.splits)

lemma world_plan_services [simp]:
  "svc_sha (world_services en) = en_sha en" "svc_readText (world_services en) w = reader_of (w_fs w)"
  by (simp_all add: world_services_def reader_of_def fun_eq_iff)

lemma apply_plan_sound:
  assumes "inj_on (en_sha en) (parts_of (texts_of fs0 \<union> change_set_texts cs))"
  shows "plan_sound (en_sha en) fs0 (applyPlan (world_services en) cs)"
  using apply_files_sound [OF assms]
  by (auto simp: plan_sound_def applyPlan_def split: sum.split)

lemma undo_plan_sound:
  assumes "inj_on (en_sha en) (parts_of (texts_of fs0 \<union> receipt_texts source))"
  shows "plan_sound (en_sha en) fs0 (undoPlan (world_services en) source)"
  using undo_files_sound [OF assms]
  by (auto simp: plan_sound_def undoPlan_def split: sum.split)

end
