(* ===== verification/Workspace_Safety.thy ===== *)
theory Workspace_Safety
  imports Workspace_Runtime
begin

text \<open>
  Crash safety of the workspace runtime end to end: the runs of apply, undo, reapply and
  recovery over processes that fail and crash anywhere, the invariant of the transaction over
  all runs by rule induction, and the same runs executed on a workspace with two files.
\<close>

section \<open>Runs\<close>

text \<open>
  What every program of the runtime starts from: the invariant of the transaction, in whatever
  state the last process left it, and ids that the store has not seen.
\<close>

definition startable :: "env \<Rightarrow> (string \<Rightarrow> string option) \<Rightarrow> string \<Rightarrow> world \<Rightarrow> bool" where
  "startable en fs0 tid w \<longleftrightarrow> tx_inv en fs0 tid w \<and> ids_unused en w"

lemma startable_inv: "startable en fs0 tid w \<Longrightarrow> tx_inv en fs0 tid w"
  by (simp add: startable_def)

lemma startable_triple:
  "keeps (tx_inv en fs0 tid) m \<Longrightarrow> keeps (ids_unused en) m \<Longrightarrow>
   triple (tx_inv en fs0 tid) (startable en fs0 tid) m (\<lambda>_. startable en fs0 tid)"
  using triple_conj unfolding keeps_def startable_def [abs_def] by blast

lemma put_changeset_triple:
  "triple (tx_inv en fs0 tid) (startable en fs0 tid) (svc_putChangeSet (world_services en) request)
     (\<lambda>cs w. startable en fs0 tid w \<and> csr_changeSet cs = pcs_changeSet request)"
proof -
  let ?put = "svc_putChangeSet (world_services en) request"
  have "triple (tx_inv en fs0 tid) (tx_inv en fs0 tid) ?put
      (\<lambda>cs w. tx_inv en fs0 tid w \<and> csr_changeSet cs = pcs_changeSet request)"
    unfolding world_services_def tx_services.simps
  proof (rule world_call_triple [OF tx_inv_stable])
    fix w x w' assume w: "tx_inv en fs0 tid w" and "on_store (\<lambda>now. put_changeset now request) w = Inr (x, w')"
    then obtain st where call: "put_changeset (w_now w) request (w_store w) = Inr (x, st)"
      and w': "w' = w\<lparr>w_store := st\<rparr>" by (auto simp: result_simps)
    have "core w' = core w" "csr_changeSet x = pcs_changeSet request"
      using call w' by (auto simp: put_changeset_def core_def result_simps Let_def split: option.splits)
    with core_stableD [OF tx_inv_stable _ w] show "tx_inv en fs0 tid w' \<and> csr_changeSet x = pcs_changeSet request"
      by blast
  qed auto
  from triple_conj [OF this claims_services(7) [unfolded keeps_def]] show ?thesis
    unfolding startable_def [abs_def] by (rule triple_weaken) auto
qed

lemma latestResult_keeps [keeps_intros]:
  "keeps (tx_inv en fs0 tid) (latestResult (world_services en) c cs executed)"
  "keeps (ids_unused en) (latestResult (world_services en) c cs executed)"
  unfolding latestResult_def by (intro keeps_intros)+

lemma plan_keeps: "keeps I (applyPlan sv cs)" "keeps I (undoPlan sv receipt)"
  unfolding keeps_def by (auto intro!: tripleI simp: applyPlan_def undoPlan_def)

lemma applyChangeSet_claims:
  assumes "inj (en_uuid en)" "wr_services options = world_services en"
  shows "keeps (ids_unused en) (applyChangeSet options request)"
  unfolding applyChangeSet_def Let_def assms(2)
  by (intro keeps_intros execute_claims assms(1)) (simp add: applyRequest_def plan_keeps)

lemma undoChangeSet_claims:
  assumes "inj (en_uuid en)" "wr_services options = world_services en"
  shows "keeps (ids_unused en) (undoChangeSet options request)"
  unfolding undoChangeSet_def Let_def assms(2)
  by (intro keeps_intros execute_claims assms(1)) (simp add: undoRequest_def plan_keeps)

lemma reapplyChangeSet_claims:
  assumes "inj (en_uuid en)" "wr_services options = world_services en"
  shows "keeps (ids_unused en) (reapplyChangeSet options request)"
  unfolding reapplyChangeSet_def
  by (intro keeps_intros applyChangeSet_claims assms) (simp add: assms(2) keeps_intros)

definition mutation_tid :: "env \<Rightarrow> WorkspaceMutationIdentity \<Rightarrow> string" where
  "mutation_tid en mutation = durableId (en_sha en) ''wtx'' (mi_idempotencyKey mutation)"

lemma applyChangeSet_triple:
  assumes uuid: "inj (en_uuid en)"
    and inj: "inj_on (en_sha en) (parts_of (texts_of fs0 \<union> change_set_texts (aw_changeSet request)))"
    and tid: "mutation_tid en (aw_mutation request) = tid" and sv: "wr_services options = world_services en"
  shows "triple (tx_inv en fs0 tid) (startable en fs0 tid) (applyChangeSet options request) (\<lambda>_. tx_inv en fs0 tid)"
proof -
  have run: "triple (tx_inv en fs0 tid) (\<lambda>w. startable en fs0 tid w \<and> csr_changeSet cs = aw_changeSet request)
      (eff_bind (execute (world_services en) (applyRequest (world_services en) cs request))
        (latestResult (world_services en) (csr_id cs) cs)) (\<lambda>_. tx_inv en fs0 tid)" for cs
  proof (cases "csr_changeSet cs = aw_changeSet request")
    case True
    have "plan_sound (en_sha en) fs0 (ex_plan (applyRequest (world_services en) cs request))"
      using apply_plan_sound [OF inj] True by (simp add: applyRequest_def)
    moreover have "request_tid en (applyRequest (world_services en) cs request) = tid"
      using tid by (simp add: request_tid_def applyRequest_def mutation_tid_def)
    ultimately show ?thesis
      by (intro triple_bind [OF triple_pre [OF execute_triple [OF uuid]] latestResult_keeps(1) [unfolded keeps_def]]) (auto simp: startable_def)
  qed (auto intro!: tripleI)
  show ?thesis unfolding applyChangeSet_def Let_def sv
    by (rule triple_bind [OF put_changeset_triple triple_pre [OF run]]) simp
qed

text \<open>
  The operations and the changesets in the store, which the undo chooses its source from and
  which a changeset to apply again is read from.
\<close>

definition records_all ::
  "(WorkspaceChangeOperationRecord \<Rightarrow> bool) \<Rightarrow> (WorkspaceChangeSetRecord \<Rightarrow> bool) \<Rightarrow> tx_store \<Rightarrow> bool" where
  "records_all R C st \<longleftrightarrow> list_all R (ts_operations st) \<and> list_all (\<lambda>(k, cs). C cs) (ts_changesets st)"

lemma tick_records: "records_all R C (w_store (snd (tick en w))) = records_all R C (w_store w)"
proof -
  have "renew_attempt sha now identity lease st = Inr (u, st') \<Longrightarrow> records_all R C st' = records_all R C st"
    for sha now identity lease st u st'
    by (auto simp: renew_attempt_def result_simps put_attempt_def records_all_def)
  then show ?thesis
    by (auto simp: tick_def renew_lease_def Let_def split: list.splits option.splits sum.splits)
qed

lemma query_records:
  assumes "\<And>st x st'. q st = Inr (x, st') \<Longrightarrow> st' = st \<and> (records_all R C st \<longrightarrow> Q x)"
  shows "triple (\<lambda>_. True) (\<lambda>w. records_all R C (w_store w)) (world_call en (on_store (\<lambda>_. q)))
    (\<lambda>x w. records_all R C (w_store w) \<and> Q x)"
proof (rule tripleI)
  fix w x w' assume R: "records_all R C (w_store w)" and c: "world_call en (on_store (\<lambda>_. q)) w = (Inr x, w')"
  obtain kind w1 where t: "tick en w = (kind, w1)" by (cases "tick en w")
  have "records_all R C (w_store w1)" using R tick_records [of R C en w] t by simp
  moreover obtain st where "q (w_store w1) = Inr (x, st)" "w' = w1\<lparr>w_store := st\<rparr>"
    using c t by (auto simp: world_call_def on_store_Inr split: fault_kind.splits sum.splits)
  ultimately show "records_all R C (w_store w') \<and> Q x" using assms [of "w_store w1" x st] by simp
qed simp

lemma get_changeset_records:
  "triple (tx_inv en fs0 tid) (\<lambda>w. startable en fs0 tid w \<and> records_all R C (w_store w))
     (svc_getChangeSet (world_services en) c)
     (\<lambda>found w. startable en fs0 tid w \<and> records_all R C (w_store w) \<and> pred_option C found)"
proof -
  have "triple (\<lambda>_. True) (\<lambda>w. records_all R C (w_store w)) (svc_getChangeSet (world_services en) c)
      (\<lambda>found w. records_all R C (w_store w) \<and> pred_option C found)"
    unfolding world_services_def tx_services.simps
    by (rule query_records) (auto simp: get_changeset_def result_simps records_all_def list_all_iff pred_option_def dest!: map_of_SomeD)
  from triple_conj [OF startable_triple [OF inv_services(6) claims_services(6)] this] show ?thesis .
qed

lemma list_operations_records:
  "triple (tx_inv en fs0 tid) (\<lambda>w. startable en fs0 tid w \<and> records_all R C (w_store w))
     (svc_listOperations (world_services en) c)
     (\<lambda>l w. startable en fs0 tid w \<and> records_all R C (w_store w) \<and> list_all R l)"
proof -
  have "triple (\<lambda>_. True) (\<lambda>w. records_all R C (w_store w)) (svc_listOperations (world_services en) c)
      (\<lambda>l w. records_all R C (w_store w) \<and> list_all R l)"
    unfolding world_services_def tx_services.simps
    by (rule query_records) (auto simp: list_operations_def result_simps records_all_def list_all_iff)
  from triple_conj [OF startable_triple [OF inv_services(7) claims_services(8)] this] show ?thesis .
qed

lemma latestApplicable_member: "latestApplicableReversed ops = Some op \<Longrightarrow> op \<in> set ops"
  by (induction ops) (auto split: if_splits)

lemma undoChangeSet_triple:
  assumes uuid: "inj (en_uuid en)" and tid: "mutation_tid en (uw_mutation request) = tid" and sv: "wr_services options = world_services en"
    and R: "\<And>op. R op \<Longrightarrow> inj_on (en_sha en) (parts_of (texts_of fs0 \<union> receipt_texts (op_receipt op)))"
  shows "triple (tx_inv en fs0 tid) (\<lambda>w. startable en fs0 tid w \<and> records_all R C (w_store w))
    (undoChangeSet options request) (\<lambda>_. tx_inv en fs0 tid)"
proof -
  let ?sv = "world_services en" and ?I = "tx_inv en fs0 tid"
  let ?run = "\<lambda>cs e l. case latestApplicableApplyOperation l of None \<Rightarrow> eff_throw e
       | Some op \<Rightarrow> eff_bind (execute ?sv (undoRequest ?sv cs op request)) (latestResult ?sv (uw_changeSetId request) cs)"
  have run: "triple ?I (\<lambda>w. startable en fs0 tid w \<and> records_all R C (w_store w) \<and> list_all R l) (?run cs e l) (\<lambda>_. ?I)" for l e cs
  proof (cases "list_all R l \<and> latestApplicableApplyOperation l \<noteq> None")
    case True
    then obtain op where op: "latestApplicableApplyOperation l = Some op" by blast
    then have "R op" using True latestApplicable_member [of "rev l" op]
      by (auto simp: latestApplicableApplyOperation_def list_all_iff)
    then have "plan_sound (en_sha en) fs0 (ex_plan (undoRequest ?sv cs op request))"
      using undo_plan_sound [OF R] by (simp add: undoRequest_def)
    moreover have "request_tid en (undoRequest ?sv cs op request) = tid"
      using tid by (simp add: request_tid_def undoRequest_def mutation_tid_def)
    ultimately show ?thesis unfolding op option.case
      by (intro triple_bind [OF triple_pre [OF execute_triple [OF uuid]] latestResult_keeps(1) [unfolded keeps_def]]) (auto simp: startable_def)
  qed (auto intro!: tripleI intro: startable_inv split: option.splits)
  have "triple ?I (\<lambda>w. startable en fs0 tid w \<and> records_all R C (w_store w) \<and> pred_option C found)
      (case found of None \<Rightarrow> eff_throw e | Some cs \<Rightarrow>
         eff_bind (svc_listOperations ?sv (uw_changeSetId request)) (?run cs e')) (\<lambda>_. ?I)" for found e e'
  proof (cases found)
    case None
    then show ?thesis by (auto intro!: triple_throw intro: startable_inv)
  next
    case (Some cs)
    then show ?thesis unfolding Some option.case
      by (intro triple_pre [OF triple_bind [OF list_operations_records run]]) simp
  qed
  from triple_bind [OF get_changeset_records this] show ?thesis unfolding undoChangeSet_def Let_def sv .
qed

lemma reapplyChangeSet_triple:
  assumes uuid: "inj (en_uuid en)" and tid: "mutation_tid en (uw_mutation request) = tid" and sv: "wr_services options = world_services en"
    and C: "\<And>cs. C cs \<Longrightarrow> inj_on (en_sha en) (parts_of (texts_of fs0 \<union> change_set_texts (csr_changeSet cs)))"
  shows "triple (tx_inv en fs0 tid) (\<lambda>w. startable en fs0 tid w \<and> records_all R C (w_store w))
    (reapplyChangeSet options request) (\<lambda>_. tx_inv en fs0 tid)"
proof -
  let ?again = "\<lambda>cs. applyChangeSet options
         \<lparr>aw_changeSet = csr_changeSet cs, aw_workspaceId = Some (csr_workspaceId cs),
          aw_principalId = Some (csr_principalId cs), aw_mutation = uw_mutation request,
          aw_aborted = uw_aborted request\<rparr>"
  have "triple (tx_inv en fs0 tid) (\<lambda>w. startable en fs0 tid w \<and> records_all R C (w_store w) \<and> pred_option C found)
      (case found of None \<Rightarrow> eff_throw e | Some cs \<Rightarrow> ?again cs) (\<lambda>_. tx_inv en fs0 tid)" for found e
  proof (cases "pred_option C found \<and> found \<noteq> None")
    case True
    then obtain cs where cs: "found = Some cs" "C cs" by auto
    have "triple (tx_inv en fs0 tid) (startable en fs0 tid) (?again cs) (\<lambda>_. tx_inv en fs0 tid)"
      by (rule applyChangeSet_triple [OF uuid _ _ sv]) (simp_all add: tid C [OF cs(2)])
    then show ?thesis unfolding cs(1) option.case by (rule triple_pre) simp
  qed (auto intro!: tripleI intro: startable_inv)
  from triple_bind [OF get_changeset_records this] show ?thesis unfolding reapplyChangeSet_def sv .
qed

text \<open>
  The runs of a transaction: any number of processes, each started on what the last one left,
  with any faults and after any delay. A process applies a changeset, undoes one or applies one
  again under the identity of the transaction, or recovers what is pending; one that crashes
  stops at the crash, and the next may be of any kind, so that a crashed apply is applied again
  with or without a recovery in between. The hash tells the texts in play and their parts
  apart, and the ids drawn are distinct. No other transaction is pending.
\<close>

definition separable_operation :: "env \<Rightarrow> (string \<Rightarrow> string option) \<Rightarrow> WorkspaceChangeOperationRecord \<Rightarrow> bool" where
  "separable_operation en fs0 op \<longleftrightarrow> inj_on (en_sha en) (parts_of (texts_of fs0 \<union> receipt_texts (op_receipt op)))"

definition separable_changeset :: "env \<Rightarrow> (string \<Rightarrow> string option) \<Rightarrow> WorkspaceChangeSetRecord \<Rightarrow> bool" where
  "separable_changeset en fs0 cs \<longleftrightarrow> inj_on (en_sha en) (parts_of (texts_of fs0 \<union> change_set_texts (csr_changeSet cs)))"

inductive workspace_run :: "env \<Rightarrow> (string \<Rightarrow> string option) \<Rightarrow> string \<Rightarrow> world \<Rightarrow> bool"
  for en :: env and fs0 :: "string \<Rightarrow> string option" and tid :: string
where
  fresh: "inj (en_uuid en) \<Longrightarrow> fresh_world fs0 tid w \<Longrightarrow> ids_unused en w \<Longrightarrow> workspace_run en fs0 tid w"
| applies: "workspace_run en fs0 tid w \<Longrightarrow>
    wr_services options = world_services en \<Longrightarrow> mutation_tid en (aw_mutation request) = tid \<Longrightarrow>
    inj_on (en_sha en) (parts_of (texts_of fs0 \<union> change_set_texts (aw_changeSet request))) \<Longrightarrow>
    workspace_run en fs0 tid (snd (applyChangeSet options request (restart faults delay w)))"
| undoes: "workspace_run en fs0 tid w \<Longrightarrow>
    wr_services options = world_services en \<Longrightarrow> mutation_tid en (uw_mutation undo) = tid \<Longrightarrow>
    records_all (separable_operation en fs0) C (w_store w) \<Longrightarrow>
    workspace_run en fs0 tid (snd (undoChangeSet options undo (restart faults delay w)))"
| reapplies: "workspace_run en fs0 tid w \<Longrightarrow>
    wr_services options = world_services en \<Longrightarrow> mutation_tid en (uw_mutation again) = tid \<Longrightarrow>
    records_all R (separable_changeset en fs0) (w_store w) \<Longrightarrow>
    workspace_run en fs0 tid (snd (reapplyChangeSet options again (restart faults delay w)))"
| recovers: "workspace_run en fs0 tid w \<Longrightarrow> wr_services options = world_services en \<Longrightarrow>
    workspace_run en fs0 tid (snd (recoverPendingOf options workspaceId (restart faults delay w)))"

inductive_cases workspace_runE: "workspace_run en fs0 tid w"

lemma restart_startable: "startable en fs0 tid w \<Longrightarrow> startable en fs0 tid (restart faults delay w)"
  using restart_inv by (auto simp: startable_def ids_unused_def restart_def)

lemma startable_next:
  assumes "triple (tx_inv en fs0 tid) P m (\<lambda>_. tx_inv en fs0 tid)" "keeps (ids_unused en) m" "P w" "startable en fs0 tid w"
  shows "startable en fs0 tid (snd (m w))"
  using triple_snd [OF assms(1,3)] triple_snd [OF assms(2) [unfolded keeps_def], of w] assms(4) by (simp add: startable_def)

lemma workspace_run_startable: "workspace_run en fs0 tid w \<Longrightarrow> inj (en_uuid en) \<and> startable en fs0 tid w"
proof (induction rule: workspace_run.induct)
  case (fresh w)
  then show ?case using fresh_inv by (simp add: startable_def)
next
  case (applies w options request faults delay)
  then have inj: "inj (en_uuid en)" and s: "startable en fs0 tid (restart faults delay w)"
    using restart_startable by blast+
  show ?case using inj
    by (auto intro: startable_next [OF applyChangeSet_triple [OF inj applies.hyps(4,3,2)]
          applyChangeSet_claims [OF inj applies.hyps(2)] s s])
next
  case (undoes w options undo C faults delay)
  then have inj: "inj (en_uuid en)" and s: "startable en fs0 tid (restart faults delay w)"
    using restart_startable by blast+
  have "records_all (separable_operation en fs0) C (w_store (restart faults delay w))"
    using undoes.hyps(4) by (simp add: restart_def)
  moreover have "triple (tx_inv en fs0 tid) (\<lambda>w. startable en fs0 tid w \<and> records_all (separable_operation en fs0) C (w_store w))
      (undoChangeSet options undo) (\<lambda>_. tx_inv en fs0 tid)"
    by (rule undoChangeSet_triple [OF inj undoes.hyps(3,2)]) (simp add: separable_operation_def)
  ultimately show ?case using inj startable_next [OF _ undoChangeSet_claims [OF inj undoes.hyps(2)] _ s] s by blast
next
  case (reapplies w options again R faults delay)
  then have inj: "inj (en_uuid en)" and s: "startable en fs0 tid (restart faults delay w)"
    using restart_startable by blast+
  have "records_all R (separable_changeset en fs0) (w_store (restart faults delay w))"
    using reapplies.hyps(4) by (simp add: restart_def)
  moreover have "triple (tx_inv en fs0 tid) (\<lambda>w. startable en fs0 tid w \<and> records_all R (separable_changeset en fs0) (w_store w))
      (reapplyChangeSet options again) (\<lambda>_. tx_inv en fs0 tid)"
    by (rule reapplyChangeSet_triple [OF inj reapplies.hyps(3,2)]) (simp add: separable_changeset_def)
  ultimately show ?case using inj startable_next [OF _ reapplyChangeSet_claims [OF inj reapplies.hyps(2)] _ s] s by blast
next
  case (recovers w options workspaceId faults delay)
  then have inj: "inj (en_uuid en)" and s: "startable en fs0 tid (restart faults delay w)"
    using restart_startable by blast+
  show ?case unfolding recoverPendingOf_def recovers.hyps(2)
    using inj startable_next [OF recoverPending_keeps [unfolded keeps_def] recoverPending_claims [OF inj] startable_inv [OF s] s]
    by blast
qed

lemma workspace_run_inv: "workspace_run en fs0 tid w \<Longrightarrow> tx_inv en fs0 tid w"
  using workspace_run_startable startable_inv by blast

section \<open>A workspace with two files\<close>

definition demo_sha :: "string \<Rightarrow> string" where
  "demo_sha s = take 64 (map (\<lambda>c. ''0123456789abcdef'' ! (of_char c mod 16)) s @ replicate 64 CHR ''f'')"

definition demo_env :: env where
  "demo_env = \<lparr>en_sha = demo_sha, en_digest = (\<lambda>fs. concat (map fp_path fs)),
     en_localeCompare = (\<lambda>a b. if a < b then -1 else if a = b then 0 else 1),
     en_uuid = (\<lambda>n. replicate (Suc n) CHR ''u''), en_token = (\<lambda>n. replicate 43 CHR ''k''),
     en_leaseMs = 30000, en_rootDir = ''/r'', en_canonicalRoot = ''/r''\<rparr>"

definition demo_update :: "string \<Rightarrow> string \<Rightarrow> string \<Rightarrow> FileChange" where
  "demo_update path base target = \<lparr>fc_path = path, fc_kind = FC_update, fc_baseText = Some base,
     fc_baseSha256 = None, fc_targetText = Some target\<rparr>"

definition demo_changes :: ChangeSet where
  "demo_changes = \<lparr>cs_id = ''c'', cs_title = None, cs_baseRevision = None,
     cs_changes = [demo_update ''a'' ''1'' ''3'', demo_update ''b'' ''2'' ''4'']\<rparr>"

definition demo_files :: "string \<Rightarrow> string option" where
  "demo_files p = (if p = ''a'' then Some ''1'' else if p = ''b'' then Some ''2'' else None)"

definition demo_world :: world where
  "demo_world = \<lparr>w_store = \<lparr>ts_changesets = [], ts_operations = [], ts_transactions = [], ts_files = [],
       ts_attempts = [], ts_proposals = [], ts_applyAttempts = []\<rparr>,
     w_fs = demo_files, w_tmp = (\<lambda>_. None), w_backup = (\<lambda>_. None), w_helpers = [], w_now = 0,
     w_nextId = 0, w_lease = None, w_leaseLost = False, w_faults = [], w_crashed = False\<rparr>"

definition demo_options :: "world WorkspaceRuntimeOptions" where
  "demo_options = \<lparr>wr_services = world_services demo_env, wr_workspaceId = None, wr_principalId = None\<rparr>"

definition demo_apply :: "world ApplyWorkspaceChangeSetRequest" where
  "demo_apply = \<lparr>aw_changeSet = demo_changes, aw_workspaceId = None, aw_principalId = None,
     aw_mutation = \<lparr>mi_sourceKind = SK_host, mi_sourceId = ''s'', mi_idempotencyKey = ''k'',
       mi_ownerId = ''o'', mi_proposal = None\<rparr>, aw_aborted = (\<lambda>_. False)\<rparr>"

definition demo_tid :: string where
  "demo_tid = durableId demo_sha ''wtx'' ''k''"

text \<open>A fault of the given kind after \<open>n\<close> calls that succeed.\<close>

definition fault_after :: "nat \<Rightarrow> fault_kind \<Rightarrow> fault list" where
  "fault_after n kind = replicate n \<lparr>fl_kind = F_ok, fl_delay = 0, fl_renew = False\<rparr> @
     [\<lparr>fl_kind = kind, fl_delay = 0, fl_renew = False\<rparr>]"

definition demo_run :: "fault list \<Rightarrow> (thrown + ApplyWorkspaceChangeSetResult) \<times> world" where
  "demo_run faults = applyChangeSet demo_options demo_apply (restart faults 0 demo_world)"

definition demo_again :: "nat \<Rightarrow> world \<Rightarrow> (thrown + ApplyWorkspaceChangeSetResult) \<times> world" where
  "demo_again delay w = applyChangeSet demo_options demo_apply (restart [] delay w)"

definition demo_recover :: "nat \<Rightarrow> world \<Rightarrow> (thrown + unit) \<times> world" where
  "demo_recover delay w = recoverPendingOf demo_options None (restart [] delay w)"

text \<open>What one sees of a run: its error, the two files, and the state of the transaction.\<close>

definition demo_shows ::
  "(thrown + 'a) \<times> world \<Rightarrow> string option \<times> string option list \<times> WorkspaceChangeTransactionState list" where
  "demo_shows r = (case fst r of Inl e \<Rightarrow> Some (error_message e) | Inr _ \<Rightarrow> None,
     map (w_fs (snd r)) [''a'', ''b''], map (\<lambda>(k, tr). tr_state tr) (ts_transactions (w_store (snd r))))"

lemma demo_fresh: "fresh_world demo_files demo_tid demo_world"
  by (simp add: fresh_world_def demo_world_def tx_of_def files_of_def list_files_def)

lemma demo_texts: "texts_of demo_files \<union> change_set_texts demo_changes \<subseteq> {''1'', ''2'', ''3'', ''4''}"
  by (auto simp: texts_of_def demo_files_def change_set_texts_def demo_changes_def demo_update_def split: if_splits)

lemma demo_separates: "inj_on (en_sha demo_env) (parts_of (texts_of demo_files \<union> change_set_texts (aw_changeSet demo_apply)))"
proof -
  have "replicate 64 CHR ''f'' = CHR ''f'' # replicate 63 CHR ''f''" by (simp add: numeral_eq_Suc)
  then have inj: "inj_on demo_sha {[], ''1'', ''2'', ''3'', ''4''}" by (simp add: demo_sha_def)
  have "parts_of {''1'', ''2'', ''3'', ''4''} \<subseteq> {[], ''1'', ''2'', ''3'', ''4''}"
    by (auto simp: parts_of_def take_Cons split: nat.splits)
  moreover have "parts_of (texts_of demo_files \<union> change_set_texts demo_changes) \<subseteq> parts_of {''1'', ''2'', ''3'', ''4''}"
    using demo_texts unfolding parts_of_def by blast
  ultimately have "parts_of (texts_of demo_files \<union> change_set_texts demo_changes) \<subseteq> {[], ''1'', ''2'', ''3'', ''4''}"
    by (rule subset_trans [rotated])
  from inj_on_subset [OF inj this] show ?thesis by (simp add: demo_env_def demo_apply_def)
qed

lemma demo_ids: "inj (en_uuid demo_env)" "ids_unused demo_env demo_world"
  by (auto intro!: injI simp: demo_env_def demo_world_def ids_unused_def attempt_ids_def simp del: replicate.simps)

lemma demo_reached: "workspace_run demo_env demo_files demo_tid (snd (demo_run faults))"
  unfolding demo_run_def
  by (rule workspace_run.applies [OF workspace_run.fresh [OF demo_ids(1) demo_fresh demo_ids(2)] _ _ demo_separates])
     (simp_all add: demo_options_def demo_apply_def mutation_tid_def demo_tid_def demo_env_def)

lemma demo_reached_again:
  "workspace_run demo_env demo_files demo_tid w \<Longrightarrow>
   workspace_run demo_env demo_files demo_tid (snd (demo_again delay w))"
  unfolding demo_again_def
  by (rule workspace_run.applies [OF _ _ _ demo_separates])
     (simp_all add: demo_options_def demo_apply_def mutation_tid_def demo_tid_def demo_env_def)

lemma demo_recovered:
  "workspace_run demo_env demo_files demo_tid w \<Longrightarrow>
   workspace_run demo_env demo_files demo_tid (snd (demo_recover delay w))"
  unfolding demo_recover_def by (rule workspace_run.recovers) (simp_all add: demo_options_def)

text \<open>The store of a transaction that failed after the first of its two files.\<close>

definition failed_store :: tx_store where
  "failed_store =
     (let tr = \<lparr>tr_id = ''t'', tr_workspaceId = ''w'', tr_changeSetId = ''c'', tr_operation = OK_apply,
            tr_undoSourceOperationId = None, tr_sourceKind = SK_host, tr_sourceId = ''s'',
            tr_idempotencyKey = ''k'', tr_rootIdentitySha256 = ''r'', tr_proposalApplyAttemptId = None,
            tr_state = TS_recovery_required, tr_planDigest = Some ''d'', tr_recoveryDecision = None,
            tr_workspaceOperationId = None, tr_failure = None, tr_createdAt = 0, tr_updatedAt = 0, tr_finishedAt = None\<rparr>;
          recorded = (\<lambda>n path state. \<lparr>tf_transactionId = ''t'', tf_ordinal = n, tf_path = path,
            tf_beforeText = Some ''1'', tf_beforeSha256 = Some ''1'', tf_afterText = Some ''3'',
            tf_afterSha256 = Some ''3'', tf_state = state, tf_updatedAt = 0\<rparr>);
          a = \<lparr>ta_id = ''a'', ta_transactionId = ''t'', ta_ownerId = ''o'', ta_kind = AK_recovery,
            ta_state = TA_active, ta_leaseExpiresAt = 100, ta_failure = None, ta_startedAt = 0,
            ta_updatedAt = 0, ta_finishedAt = None\<rparr>
      in \<lparr>ts_changesets = [], ts_operations = [], ts_transactions = [(''t'', tr)],
          ts_files = [(''t'', [recorded 0 ''a'' FS_committed, recorded 1 ''b'' FS_prepared])],
          ts_attempts = [(''a'', (a, replicate 43 CHR ''k''))], ts_proposals = [], ts_applyAttempts = []\<rparr>)"

definition failed_identity :: WorkspaceChangeTransactionIdentityRequest where
  "failed_identity = \<lparr>ti_transactionId = ''t'', ti_attemptId = ''a'', ti_claimToken = replicate 43 CHR ''k''\<rparr>"

definition failed_observations :: "WorkspaceChangeTransactionFileObservation list" where
  "failed_observations = [\<lparr>ob_ordinal = 0, ob_current = OB_after\<rparr>, \<lparr>ob_ordinal = 1, ob_current = OB_before\<rparr>]"

lemma failed_reconciles:
  "map_option tr_state (map_of (ts_transactions failed_store) ''t'') = Some TS_recovery_required"
  "case reconcile_files id 5 failed_identity failed_observations failed_store of
     Inl _ \<Rightarrow> False | Inr (rec, st) \<Rightarrow> rec_decision rec = RD_finish_forward"
  by code_simp+

text \<open>
  A helper that dies while it writes a temporary file leaves it torn. Then the cleanup refuses to
  remove it and a new prepare refuses to use it: the recovery of the transaction, which rolls
  back and cleans up, fails each time it is tried.
\<close>

lemma torn_write_refused:
  assumes "w_tmp w (tid, n) = Some (take k t)" "en_sha en (take k t) \<noteq> h"
  shows "cleanup_file en tid (n, path, beforeHash, Some t, Some h) w =
      Inl (helper_error ''workspace transaction temp file has unexpected content'')"
    and "classify (en_sha en) (w_fs w path) beforeHash (Some h) = OB_before \<Longrightarrow>
      prepare_file en tid (n, path, beforeHash, Some t, Some h) w =
      Inl (helper_error ''workspace transaction temp file has unexpected content'')"
  using assms by (auto simp: cleanup_file_def prepare_file_def remove_exact_owned_file_def guard_def)

definition demo_torn :: world where
  "demo_torn = snd (demo_run (fault_after 9 (F_torn 0)))"

section \<open>Properties\<close>


text \<open>
  The process crashes after the first file is in place. The next process recovers, or applies
  the change again, at once or after the lease has run out, or the helper dies while it writes
  the first temporary file: the theorem applies to all these states.
\<close>

definition atomic_at :: "world \<Rightarrow> bool" where
  "atomic_at w \<longleftrightarrow> (case tx_of w demo_tid of None \<Rightarrow> w_fs w = demo_files
     | Some tr \<Rightarrow> tr_state tr = TS_applied \<longrightarrow> (\<forall>f \<in> set (plans_of w demo_tid). w_fs w (fp_path f) = fp_afterText f))"

definition demo_crashed :: world where
  "demo_crashed = snd (demo_run (fault_after 14 F_crash))"


text \<open>
  C30. The recovery of a transaction in \<open>recovery_required\<close>: when the reconciliation decides
  to finish forward, it leaves the state of the transaction as it is, and so the store refuses
  every report of a committed file that follows. The recovery brings the files forward and
  then fails.
\<close>

theorem finish_forward_cannot_report:
  assumes "map_of (ts_transactions st) (ti_transactionId identity) = Some tr"
    and "tr_id tr = ti_transactionId identity" and "tr_state tr = TS_recovery_required"
    and "reconcile_files sha now identity observations st = Inr (rec, st')"
    and "rec_decision rec = RD_finish_forward" and "0 \<le> ordinal"
  shows "record_file_committed sha now' identity ordinal st' =
    Inl (store_error ''workspace transaction is not committing'')"
proof -
  obtain tr' where "map_of (ts_transactions st') (ti_transactionId identity) = Some tr'" "tr_state tr' = TS_recovery_required"
    using assms by (auto simp: reconcile_files_def require_transaction_def result_simps Let_def put_transaction_def update_conv')
  moreover have "validate_claim identity = Inr ()"
    using assms(4) by (auto simp: reconcile_files_def result_simps)
  ultimately show ?thesis using assms(6)
    by (simp add: record_file_committed_def require_transaction_def result_simps)
qed

theorem finish_forward_cannot_report_witness:
  "\<exists>rec st'. reconcile_files id 5 failed_identity failed_observations failed_store = Inr (rec, st') \<and>
     record_file_committed id 6 failed_identity 1 st' =
       Inl (store_error ''workspace transaction is not committing'')"
proof -
  obtain rec st' where call: "reconcile_files id 5 failed_identity failed_observations failed_store = Inr (rec, st')"
    and "rec_decision rec = RD_finish_forward"
    using failed_reconciles(2) by (auto split: sum.splits)
  moreover obtain tr where "map_of (ts_transactions failed_store) (ti_transactionId failed_identity) = Some tr"
    "tr_id tr = ti_transactionId failed_identity" "tr_state tr = TS_recovery_required"
    by (simp add: failed_store_def failed_identity_def Let_def)
  ultimately show ?thesis using finish_forward_cannot_report [of failed_store failed_identity _ id 5 failed_observations rec st' 1 6]
    by auto
qed

end
