(* ===== verification/Proposal_Apply.thy ===== *)
theory Proposal_Apply
  imports Workspace_Runtime Batch_Order
begin

text \<open>
  Applying reviewed proposals (\<open>packages/workspace/src/review/apply\<close>): one proposal under a
  durable claim (\<open>apply-one.ts\<close>), and a batch of proposals in dependency order
  (\<open>apply-batch.ts\<close>, \<open>batch-conflicts.ts\<close>, \<open>batch-result.ts\<close>, \<open>result-helpers.ts\<close>,
  \<open>repository.ts\<close>, \<open>runtime.ts\<close>). The batch is planned and ordered, two proposals that touch
  the same path without a dependency between them are sent to review, and the others are
  applied one after the other, as long as what they depend on was applied.
\<close>

section \<open>Data\<close>

datatype ApplyProposalStatus =
    AP_applied | AP_apply_failed | AP_busy | AP_recovery_required | AP_not_ready | AP_already_terminal

record ApplyProposalRequest =
  pq_proposalId :: string
  pq_actorId :: "string option"
  pq_metadata :: "json option"

record ApplyProposalResult =
  px_status :: ApplyProposalStatus
  px_proposal :: WorkspaceChangeProposalRecord
  px_changeSet :: WorkspaceChangeSetRecord
  px_workspaceOperation :: "WorkspaceChangeOperationRecord option"
  px_applyAttempt :: "WorkspaceChangeProposalApplyAttemptRecord option"
  px_applyResult :: "ApplyWorkspaceChangeSetResult option"
  px_error :: "json option"

record ApplyProposalBatchRequest =
  br_items :: "ApplyProposalBatchItem list"
  br_actorId :: "string option"
  br_stopOnFailure :: "bool option"
  br_metadata :: "json option"

datatype ApplyProposalBatchStatus = BS_applied | BS_partial | BS_failed

datatype ApplyProposalBatchItemStatus =
    BI_applied | BI_apply_failed | BI_busy | BI_recovery_required | BI_not_ready | BI_already_terminal
  | BI_blocked | BI_needs_review | BI_skipped

record ApplyProposalBatchItemResult =
  ir_proposalId :: string
  ir_status :: ApplyProposalBatchItemStatus
  ir_dependsOn :: "string list"
  ir_result :: "ApplyProposalResult option"
  ir_error :: "json option"

record ApplyProposalBatchResult =
  bx_status :: ApplyProposalBatchStatus
  bx_orderedProposalIds :: "string list"
  bx_results :: "ApplyProposalBatchItemResult list"

datatype ApplyProposalPlanItemStatus = PI_ready | PI_queued | PI_needs_review

datatype ApplyProposalPlanConflictReason =
    PC_same_path_without_dependency | PC_create_create_same_path | PC_delete_update_same_path

record ApplyProposalPlanConflict =
  pc_path :: string
  pc_reason :: ApplyProposalPlanConflictReason
  pc_conflictingProposalId :: string
  pc_conflictingChangeSetId :: string

record ApplyProposalPlanItem =
  pl_proposalId :: string
  pl_changeSetId :: string
  pl_status :: ApplyProposalPlanItemStatus
  pl_dependsOn :: "string list"
  pl_paths :: "string list"
  pl_conflicts :: "ApplyProposalPlanConflict list"
  pl_actorId :: "string option"
  pl_metadata :: "json option"

datatype plan_status = Executable | NeedsReview

record ApplyProposalBatchPlanResult =
  bp_status :: plan_status
  bp_orderedProposalIds :: "string list"
  bp_items :: "ApplyProposalPlanItem list"

record LoadedProposalPlanItem =
  lo_item :: PlannedBatchItem
  lo_proposal :: WorkspaceChangeProposalRecord
  lo_changeSet :: WorkspaceChangeSetRecord
  lo_paths :: "string list"

record PathOwner =
  po_proposalId :: string
  po_changeSetId :: string
  po_kind :: FileChangeKind

text \<open>What the apply runtime calls: the proposal store, its random identifiers, the workspace runtime.\<close>

record 's review_services =
  rv_workspace :: "'s WorkspaceRuntimeOptions"
  rv_transactionLeaseMs :: int
  rv_actorId :: "string option"
  rv_createAttemptId :: "('s, thrown, string) eff"
  rv_createClaimToken :: "('s, thrown, string) eff"
  rv_getChangeSet :: "string \<Rightarrow> ('s, thrown, WorkspaceChangeSetRecord option) eff"
  rv_getProposal :: "string \<Rightarrow> ('s, thrown, WorkspaceChangeProposalRecord option) eff"
  rv_claimApply :: "ClaimWorkspaceChangeProposalApplyRequest \<Rightarrow> ('s, thrown, WorkspaceChangeProposalApplyClaimResult) eff"

section \<open>Texts of states and of JSON values\<close>

fun proposalStateText :: "WorkspaceChangeProposalState \<Rightarrow> string" where
  "proposalStateText PS_open = ''open''"
| "proposalStateText PS_approved = ''approved''"
| "proposalStateText PS_rejected = ''rejected''"
| "proposalStateText PS_withdrawn = ''withdrawn''"
| "proposalStateText PS_apply_requested = ''apply_requested''"
| "proposalStateText PS_applying = ''applying''"
| "proposalStateText PS_applied = ''applied''"
| "proposalStateText PS_apply_failed = ''apply_failed''"
| "proposalStateText PS_recovery_required = ''recovery_required''"

fun reasonText :: "ApplyProposalPlanConflictReason \<Rightarrow> string" where
  "reasonText PC_same_path_without_dependency = ''same_path_without_dependency''"
| "reasonText PC_create_create_same_path = ''create_create_same_path''"
| "reasonText PC_delete_update_same_path = ''delete_update_same_path''"

fun kindText :: "FileChangeKind \<Rightarrow> string" where
  "kindText FC_create = ''create''"
| "kindText FC_update = ''update''"
| "kindText FC_delete = ''delete''"

fun applyStatusText :: "ChangeApplyStatus \<Rightarrow> string" where
  "applyStatusText CA_applied = ''applied''"
| "applyStatusText CA_already_applied = ''already_applied''"
| "applyStatusText CA_conflicted = ''conflicted''"

fun conflictReasonText :: "FileConflictReason \<Rightarrow> string" where
  "conflictReasonText missing_base = ''missing_base''"
| "conflictReasonText base_hash_mismatch = ''base_hash_mismatch''"
| "conflictReasonText already_exists = ''already_exists''"
| "conflictReasonText missing_file = ''missing_file''"
| "conflictReasonText undo_target_changed = ''undo_target_changed''"

fun batchOrderError :: "batch_order_error \<Rightarrow> thrown" where
  "batchOrderError BatchItemsEmpty = plainError ''proposal batch items must not be empty''"
| "batchOrderError BatchProposalIdEmpty = plainError ''proposal batch proposalId must not be empty''"
| "batchOrderError BatchActorIdEmpty = plainError ''proposal batch actorId must not be empty''"
| "batchOrderError (DuplicateBatchItem p) = plainError (''duplicate proposal batch item: '' @ p)"
| "batchOrderError (DependencyIdEmpty p) = plainError (''proposal batch dependency id must not be empty: '' @ p)"
| "batchOrderError (DependsOnItself p) = plainError (''proposal batch item depends on itself: '' @ p)"
| "batchOrderError (DuplicateDependency p d) = plainError (''duplicate proposal batch dependency: '' @ p @ '' -> '' @ d)"
| "batchOrderError (DependencyNotFound p d) = plainError (''proposal batch dependency not found: '' @ p @ '' -> '' @ d)"
| "batchOrderError (BatchItemDisappeared p) = plainError (''proposal batch item disappeared: '' @ p)"
| "batchOrderError DependencyCycleDetected = plainError ''proposal batch dependency cycle detected''"

section \<open>Result helpers\<close>

definition summarizeBatchStatus :: "ApplyProposalBatchItemResult list \<Rightarrow> ApplyProposalBatchStatus" where
  "summarizeBatchStatus results =
     (let appliedCount = length (filter (\<lambda>result. ir_status result = BI_applied) results) in
      if appliedCount = length results then BS_applied
      else if appliedCount > 0 then BS_partial else BS_failed)"

definition validateApplyProposalRequest :: "ApplyProposalRequest \<Rightarrow> thrown + unit" where
  "validateApplyProposalRequest request =
     res_bind (guard (pq_proposalId request \<noteq> []) (plainError ''proposal apply proposalId must not be empty'')) (\<lambda>_.
     guard (pq_actorId request \<noteq> Some []) (plainError ''proposal apply actorId must not be empty''))"

definition mergeMetadata :: "json option \<Rightarrow> (string \<times> json option) list \<Rightarrow> json" where
  "mergeMetadata left right =
     (let base = (case left of None \<Rightarrow> [] | Some (JObj entries) \<Rightarrow> entries | Some v \<Rightarrow> [(''request'', v)]) in
      JObj (foldl (\<lambda>obj (key, v). case v of None \<Rightarrow> obj | Some x \<Rightarrow> AList.update key x obj) base right))"

definition normalizeApplyError :: "thrown \<Rightarrow> json" where
  "normalizeApplyError error =
     (if is_error error then
        JObj [(''type'', JStr ''workspace.apply_error''), (''name'', JStr (error_name error)),
              (''message'', JStr (error_message error))]
      else JObj [(''type'', JStr ''workspace.apply_error''), (''message'', JStr (error_message error))])"

definition fileMetadata :: "AppliedFileChange \<Rightarrow> json" where
  "fileMetadata f = JObj ([(''path'', JStr (af_path f)), (''kind'', JStr (kindText (af_kind f)))] @
     opt_field ''beforeText'' (map_option JStr (af_beforeText f)) @
     opt_field ''afterText'' (map_option JStr (af_afterText f)) @
     opt_field ''beforeSha256'' (map_option JStr (af_beforeSha256 f)) @
     opt_field ''afterSha256'' (map_option JStr (af_afterSha256 f)))"

definition conflictMetadata :: "FileConflict \<Rightarrow> json" where
  "conflictMetadata c = JObj ([(''path'', JStr (fx_path c)), (''reason'', JStr (conflictReasonText (fx_reason c)))] @
     opt_field ''currentSha256'' (map_option JStr (fx_currentSha256 c)) @
     opt_field ''expectedSha256'' (map_option JStr (fx_expectedSha256 c)))"

definition toReceiptMetadata :: "ChangeSetReceipt \<Rightarrow> json" where
  "toReceiptMetadata receipt = JObj
     [(''changeSetId'', JStr (rc_changeSetId receipt)), (''status'', JStr (applyStatusText (rc_status receipt))),
      (''files'', JArr (map fileMetadata (rc_files receipt))),
      (''conflicts'', JArr (map conflictMetadata (rc_conflicts receipt)))]"

definition nonEmptyField :: "string \<Rightarrow> (string \<times> json) list \<Rightarrow> string option" where
  "nonEmptyField key obj =
     (case map_of obj key of Some (JStr s) \<Rightarrow> (if s \<noteq> [] then Some s else None) | _ \<Rightarrow> None)"

definition extractErrorReason :: "json \<Rightarrow> string" where
  "extractErrorReason error =
     (case error of
        JObj obj \<Rightarrow>
          (case nonEmptyField ''message'' obj of
             Some message \<Rightarrow> message
           | None \<Rightarrow> (case nonEmptyField ''type'' obj of Some t \<Rightarrow> t | None \<Rightarrow> ''workspace apply failed''))
      | _ \<Rightarrow> ''workspace apply failed'')"

definition planConflictToJson :: "ApplyProposalPlanConflict \<Rightarrow> json" where
  "planConflictToJson conflict = JObj
     [(''path'', JStr (pc_path conflict)), (''reason'', JStr (reasonText (pc_reason conflict))),
      (''conflictingProposalId'', JStr (pc_conflictingProposalId conflict)),
      (''conflictingChangeSetId'', JStr (pc_conflictingChangeSetId conflict))]"

definition needsReviewResult :: "ApplyProposalPlanItem \<Rightarrow> ApplyProposalBatchItemResult" where
  "needsReviewResult item =
     \<lparr>ir_proposalId = pl_proposalId item, ir_status = BI_needs_review, ir_dependsOn = pl_dependsOn item,
      ir_result = None, ir_error = Some (JObj [(''type'', JStr ''proposal_batch.needs_review''),
        (''conflicts'', JArr (map planConflictToJson (pl_conflicts item)))])\<rparr>"

definition blockedByPlanResult :: "ApplyProposalBatchPlanResult \<Rightarrow> ApplyProposalBatchResult" where
  "blockedByPlanResult plan =
     \<lparr>bx_status = BS_failed, bx_orderedProposalIds = bp_orderedProposalIds plan,
      bx_results = map (\<lambda>item.
        if pl_status item = PI_needs_review then needsReviewResult item
        else \<lparr>ir_proposalId = pl_proposalId item, ir_status = BI_blocked, ir_dependsOn = pl_dependsOn item,
          ir_result = None,
          ir_error = Some (JObj [(''type'', JStr ''proposal_batch.blocked_by_plan_review'')])\<rparr>) (bp_items plan)\<rparr>"

section \<open>The plan\<close>

definition uniqueSortedPaths :: "string list \<Rightarrow> string list" where
  "uniqueSortedPaths paths = sort (remdups paths)"

definition classifyPlanConflictReason :: "FileChangeKind \<Rightarrow> FileChangeKind \<Rightarrow> ApplyProposalPlanConflictReason" where
  "classifyPlanConflictReason previousKind nextKind =
     (if previousKind = FC_create \<and> nextKind = FC_create then PC_create_create_same_path
      else if (previousKind = FC_delete \<and> nextKind = FC_update) \<or> (previousKind = FC_update \<and> nextKind = FC_delete)
      then PC_delete_update_same_path
      else PC_same_path_without_dependency)"

type_synonym owner_map = "(string \<times> PathOwner list) list"

definition owners_of :: "owner_map \<Rightarrow> string \<Rightarrow> PathOwner list" where
  "owners_of pathOwners path = (case map_of pathOwners path of None \<Rightarrow> [] | Some owners \<Rightarrow> owners)"

definition loadedChanges :: "LoadedProposalPlanItem \<Rightarrow> FileChange list" where
  "loadedChanges loaded = cs_changes (csr_changeSet (lo_changeSet loaded))"

definition changeConflicts ::
  "owner_map \<Rightarrow> LoadedProposalPlanItem \<Rightarrow> FileChange \<Rightarrow> ApplyProposalPlanConflict list" where
  "changeConflicts pathOwners loaded change =
     map (\<lambda>owner. \<lparr>pc_path = fc_path change,
            pc_reason = classifyPlanConflictReason (po_kind owner) (fc_kind change),
            pc_conflictingProposalId = po_proposalId owner,
            pc_conflictingChangeSetId = po_changeSetId owner\<rparr>)
       (filter (\<lambda>owner. po_proposalId owner \<notin> set (pb_dependsOn (lo_item loaded)))
          (owners_of pathOwners (fc_path change)))"

definition classifyItem :: "owner_map \<Rightarrow> LoadedProposalPlanItem \<Rightarrow> ApplyProposalPlanItem" where
  "classifyItem pathOwners loaded =
     (let conflicts = concat (map (changeConflicts pathOwners loaded) (loadedChanges loaded)) in
      \<lparr>pl_proposalId = pb_proposalId (lo_item loaded), pl_changeSetId = pr_changeSetId (lo_proposal loaded),
       pl_status = (if length conflicts > 0 then PI_needs_review
                    else if length (pb_dependsOn (lo_item loaded)) > 0 then PI_queued else PI_ready),
       pl_dependsOn = pb_dependsOn (lo_item loaded), pl_paths = lo_paths loaded, pl_conflicts = conflicts,
       pl_actorId = pb_actorId (lo_item loaded), pl_metadata = pb_metadata (lo_item loaded)\<rparr>)"

definition addOwner :: "LoadedProposalPlanItem \<Rightarrow> owner_map \<Rightarrow> FileChange \<Rightarrow> owner_map" where
  "addOwner loaded pathOwners change =
     AList.update (fc_path change) (owners_of pathOwners (fc_path change) @
       [\<lparr>po_proposalId = pb_proposalId (lo_item loaded), po_changeSetId = pr_changeSetId (lo_proposal loaded),
         po_kind = fc_kind change\<rparr>]) pathOwners"

fun classifyLoop :: "owner_map \<Rightarrow> LoadedProposalPlanItem list \<Rightarrow> ApplyProposalPlanItem list" where
  "classifyLoop pathOwners [] = []"
| "classifyLoop pathOwners (loaded # items) =
     classifyItem pathOwners loaded #
     classifyLoop (foldl (addOwner loaded) pathOwners (loadedChanges loaded)) items"

definition classifyProposalPlan :: "LoadedProposalPlanItem list \<Rightarrow> ApplyProposalBatchPlanResult" where
  "classifyProposalPlan items =
     (let planned = classifyLoop [] items in
      \<lparr>bp_status = (if list_ex (\<lambda>item. pl_status item = PI_needs_review) planned then NeedsReview else Executable),
       bp_orderedProposalIds = map pl_proposalId planned, bp_items = planned\<rparr>)"

section \<open>The repository\<close>

definition requireProposal :: "'s review_services \<Rightarrow> string \<Rightarrow> ('s, thrown, WorkspaceChangeProposalRecord) eff" where
  "requireProposal rv proposalId =
     eff_bind (rv_getProposal rv proposalId) (\<lambda>found.
     case found of
       None \<Rightarrow> eff_throw (plainError (''workspace proposal does not exist: '' @ proposalId))
     | Some proposal \<Rightarrow> eff_return proposal)"

definition requireApplyRequestedProposal ::
  "'s review_services \<Rightarrow> string \<Rightarrow> ('s, thrown, WorkspaceChangeProposalRecord) eff" where
  "requireApplyRequestedProposal rv proposalId =
     eff_bind (requireProposal rv proposalId) (\<lambda>proposal.
     if pr_state proposal \<noteq> PS_apply_requested then
       eff_throw (plainError (''workspace proposal is not apply_requested: '' @ proposalId @ '' ('' @
         proposalStateText (pr_state proposal) @ '')''))
     else eff_return proposal)"

definition requireChangeSet :: "'s review_services \<Rightarrow> string \<Rightarrow> ('s, thrown, WorkspaceChangeSetRecord) eff" where
  "requireChangeSet rv changeSetId =
     eff_bind (rv_getChangeSet rv changeSetId) (\<lambda>found.
     case found of
       None \<Rightarrow> eff_throw (plainError (''workspace changeset does not exist: '' @ changeSetId))
     | Some changeSet \<Rightarrow> eff_return changeSet)"

section \<open>Planning a batch\<close>

definition loadItem :: "'s review_services \<Rightarrow> PlannedBatchItem \<Rightarrow> ('s, thrown, LoadedProposalPlanItem) eff" where
  "loadItem rv item =
     eff_bind (requireApplyRequestedProposal rv (pb_proposalId item)) (\<lambda>proposal.
     eff_bind (requireChangeSet rv (pr_changeSetId proposal)) (\<lambda>changeSet.
     eff_return \<lparr>lo_item = item, lo_proposal = proposal, lo_changeSet = changeSet,
       lo_paths = uniqueSortedPaths (map fc_path (cs_changes (csr_changeSet changeSet)))\<rparr>))"

definition planApplyProposalBatch ::
  "'s review_services \<Rightarrow> ApplyProposalBatchRequest \<Rightarrow> ('s, thrown, ApplyProposalBatchPlanResult) eff" where
  "planApplyProposalBatch rv request =
     eff_bind (eff_result (case planProposalBatch (br_items request) of
         Inl e \<Rightarrow> Inl (batchOrderError e) | Inr order \<Rightarrow> Inr order)) (\<lambda>order.
     eff_bind (eff_map (loadItem rv) order) (\<lambda>items.
     eff_return (classifyProposalPlan items)))"

section \<open>Applying one proposal\<close>

fun unclaimedStatus :: "WorkspaceChangeProposalApplyClaimStatus \<Rightarrow> ApplyProposalStatus option" where
  "unclaimedStatus AC_claimed = None"
| "unclaimedStatus AC_busy = Some AP_busy"
| "unclaimedStatus AC_recovery_required = Some AP_recovery_required"
| "unclaimedStatus AC_not_ready = Some AP_not_ready"
| "unclaimedStatus AC_already_terminal = Some AP_already_terminal"

definition proposalMutation ::
  "string \<Rightarrow> string \<Rightarrow> WorkspaceChangeProposalRecord \<Rightarrow> WorkspaceChangeProposalApplyAttemptRecord \<Rightarrow>
   WorkspaceMutationIdentity" where
  "proposalMutation actorId claimToken proposal attempt =
     \<lparr>mi_sourceKind = SK_proposal, mi_sourceId = pr_id proposal,
      mi_idempotencyKey = ''proposal-apply:'' @ aa_id attempt, mi_ownerId = actorId,
      mi_proposal = Some \<lparr>pbd_proposalId = pr_id proposal, pbd_proposalAttemptId = aa_id attempt,
        pbd_proposalClaimToken = claimToken\<rparr>\<rparr>"

definition recoveryRequiredResult ::
  "'s review_services \<Rightarrow> WorkspaceChangeProposalRecord \<Rightarrow> WorkspaceChangeSetRecord \<Rightarrow> thrown \<Rightarrow>
   ('s, thrown, ApplyProposalResult) eff" where
  "recoveryRequiredResult rv claimed changeSet error =
     (case error of
        RecoveryRequiredError transactionId cause finalization \<Rightarrow>
          eff_bind (requireProposal rv (pr_id claimed)) (\<lambda>proposal.
          eff_return \<lparr>px_status = AP_recovery_required, px_proposal = proposal, px_changeSet = changeSet,
            px_workspaceOperation = None,
            px_applyAttempt = (case finalization of None \<Rightarrow> None | Some fin \<Rightarrow> fin_proposalAttempt fin),
            px_applyResult = None, px_error = Some (normalizeApplyError error)\<rparr>)
      | _ \<Rightarrow> eff_throw error)"

definition appliedResult ::
  "WorkspaceChangeProposalRecord \<Rightarrow> ApplyWorkspaceChangeSetResult \<Rightarrow> ApplyProposalResult" where
  "appliedResult claimed applyResult =
     (let conflicted = rc_status (ar_receipt applyResult) = CA_conflicted in
      \<lparr>px_status = (if conflicted then AP_apply_failed else AP_applied),
       px_proposal = (case fin_proposal (ar_transaction applyResult) of Some p \<Rightarrow> p | None \<Rightarrow> claimed),
       px_changeSet = ar_changeSet applyResult,
       px_workspaceOperation = Some (ar_operation applyResult),
       px_applyAttempt = fin_proposalAttempt (ar_transaction applyResult),
       px_applyResult = Some applyResult,
       px_error = (if conflicted then Some (JObj [(''type'', JStr ''workspace.apply_conflicted''),
           (''receipt'', toReceiptMetadata (ar_receipt applyResult))]) else None)\<rparr>)"

definition applyClaimed ::
  "'s review_services \<Rightarrow> string \<Rightarrow> string \<Rightarrow> WorkspaceChangeSetRecord \<Rightarrow>
   WorkspaceChangeProposalApplyClaimResult \<Rightarrow> ('s, thrown, ApplyProposalResult) eff" where
  "applyClaimed rv actorId claimToken changeSet claim =
     (case acr_attempt claim of
        None \<Rightarrow> eff_throw (plainError ''claimed workspace proposal apply has no durable attempt'')
      | Some attempt \<Rightarrow>
          eff_try
            (eff_bind (applyChangeSet (rv_workspace rv)
               \<lparr>aw_changeSet = csr_changeSet changeSet, aw_workspaceId = Some (csr_workspaceId changeSet),
                aw_principalId = Some (csr_principalId changeSet),
                aw_mutation = proposalMutation actorId claimToken (acr_proposal claim) attempt,
                aw_aborted = (\<lambda>_. False)\<rparr>) (\<lambda>applyResult.
             eff_return (appliedResult (acr_proposal claim) applyResult)))
            (recoveryRequiredResult rv (acr_proposal claim) changeSet))"

definition defaultActorId :: "'s review_services \<Rightarrow> string" where
  "defaultActorId rv = (case rv_actorId rv of Some v \<Rightarrow> v | None \<Rightarrow> ''workspace-review-apply'')"

definition applyProposal ::
  "'s review_services \<Rightarrow> ApplyProposalRequest \<Rightarrow> ('s, thrown, ApplyProposalResult) eff" where
  "applyProposal rv request =
     eff_bind (eff_result (validateApplyProposalRequest request)) (\<lambda>_.
     let actorId = (case pq_actorId request of Some v \<Rightarrow> v | None \<Rightarrow> defaultActorId rv) in
     eff_bind (rv_createAttemptId rv) (\<lambda>attemptId.
     eff_bind (rv_createClaimToken rv) (\<lambda>claimToken.
     eff_bind (requireProposal rv (pq_proposalId request)) (\<lambda>proposal.
     eff_bind (requireChangeSet rv (pr_changeSetId proposal)) (\<lambda>changeSet.
     eff_bind (recoverPendingOf (rv_workspace rv) (Some (csr_workspaceId changeSet))) (\<lambda>_.
     eff_bind (rv_claimApply rv
       \<lparr>cpa_proposalId = pq_proposalId request, cpa_attemptId = attemptId, cpa_ownerId = actorId,
        cpa_claimToken = claimToken, cpa_leaseMs = rv_transactionLeaseMs rv,
        cpa_metadata = pq_metadata request\<rparr>) (\<lambda>claim.
     if pr_changeSetId (acr_proposal claim) \<noteq> csr_id changeSet then
       eff_throw (plainError ''workspace proposal changeset changed during apply claim'')
     else (case unclaimedStatus (acr_status claim) of
         Some status \<Rightarrow> eff_return
           \<lparr>px_status = status, px_proposal = acr_proposal claim, px_changeSet = changeSet,
            px_workspaceOperation = None, px_applyAttempt = acr_attempt claim, px_applyResult = None, px_error = None\<rparr>
       | None \<Rightarrow> applyClaimed rv actorId claimToken changeSet claim))))))))"

section \<open>Applying a batch\<close>

fun itemStatus :: "ApplyProposalStatus \<Rightarrow> ApplyProposalBatchItemStatus" where
  "itemStatus AP_applied = BI_applied"
| "itemStatus AP_apply_failed = BI_apply_failed"
| "itemStatus AP_busy = BI_busy"
| "itemStatus AP_recovery_required = BI_recovery_required"
| "itemStatus AP_not_ready = BI_not_ready"
| "itemStatus AP_already_terminal = BI_already_terminal"

type_synonym status_map = "(string \<times> ApplyProposalBatchItemStatus) list"

definition dependencyFailed :: "status_map \<Rightarrow> string \<Rightarrow> bool" where
  "dependencyFailed terminalByProposalId dependencyId \<longleftrightarrow>
     (case map_of terminalByProposalId dependencyId of
        None \<Rightarrow> False
      | Some status \<Rightarrow> status \<in> {BI_apply_failed, BI_busy, BI_recovery_required, BI_not_ready,
          BI_already_terminal, BI_blocked, BI_needs_review, BI_skipped})"

definition dependencyResult :: "ApplyProposalPlanItem \<Rightarrow> string \<Rightarrow> ApplyProposalBatchItemResult" where
  "dependencyResult planItem failedDependency =
     \<lparr>ir_proposalId = pl_proposalId planItem, ir_status = BI_blocked, ir_dependsOn = pl_dependsOn planItem,
      ir_result = None, ir_error = Some (JObj [(''type'', JStr ''proposal_batch.dependency_failed''),
        (''dependencyProposalId'', JStr failedDependency)])\<rparr>"

definition itemRequest :: "ApplyProposalBatchRequest \<Rightarrow> nat \<Rightarrow> ApplyProposalPlanItem \<Rightarrow> ApplyProposalRequest" where
  "itemRequest request batchIndex planItem =
     \<lparr>pq_proposalId = pl_proposalId planItem,
      pq_actorId = (case pl_actorId planItem of Some v \<Rightarrow> Some v | None \<Rightarrow> br_actorId request),
      pq_metadata = Some (mergeMetadata (br_metadata request)
        [(''itemMetadata'', pl_metadata planItem), (''batchIndex'', Some (JNum (of_nat batchIndex))),
         (''dependsOn'', Some (JArr (map JStr (pl_dependsOn planItem))))])\<rparr>"

definition attemptedResult :: "ApplyProposalPlanItem \<Rightarrow> ApplyProposalResult \<Rightarrow> ApplyProposalBatchItemResult" where
  "attemptedResult planItem result =
     \<lparr>ir_proposalId = pl_proposalId planItem, ir_status = itemStatus (px_status result),
      ir_dependsOn = pl_dependsOn planItem, ir_result = Some result, ir_error = px_error result\<rparr>"

text \<open>
  The loop over the plan: the results so far and the terminal status by proposal go round;
  the answer is the results and whether the loop was left by a \<open>break\<close>.
\<close>

fun applyItems ::
  "(ApplyProposalRequest \<Rightarrow> ('s, thrown, ApplyProposalResult) eff) \<Rightarrow> ApplyProposalBatchRequest \<Rightarrow> bool \<Rightarrow>
   nat \<Rightarrow> ApplyProposalPlanItem list \<Rightarrow> ApplyProposalBatchItemResult list \<Rightarrow> status_map \<Rightarrow>
   ('s, thrown, ApplyProposalBatchItemResult list \<times> bool) eff" where
  "applyItems apply_one request stopOnFailure batchIndex [] results terminal = eff_return (results, False)"
| "applyItems apply_one request stopOnFailure batchIndex (planItem # items) results terminal =
     (if pl_status planItem = PI_needs_review then
        applyItems apply_one request stopOnFailure (Suc batchIndex) items
          (results @ [needsReviewResult planItem])
          (AList.update (pl_proposalId planItem) BI_needs_review terminal)
      else (case List.find (dependencyFailed terminal) (pl_dependsOn planItem) of
          Some failedDependency \<Rightarrow>
            if stopOnFailure then eff_return (results @ [dependencyResult planItem failedDependency], True)
            else applyItems apply_one request stopOnFailure (Suc batchIndex) items
              (results @ [dependencyResult planItem failedDependency])
              (AList.update (pl_proposalId planItem) BI_blocked terminal)
        | None \<Rightarrow>
            eff_bind (apply_one (itemRequest request batchIndex planItem)) (\<lambda>result.
            if px_status result \<noteq> AP_applied \<and> stopOnFailure then
              eff_return (results @ [attemptedResult planItem result], True)
            else applyItems apply_one request stopOnFailure (Suc batchIndex) items
              (results @ [attemptedResult planItem result])
              (AList.update (pl_proposalId planItem) (itemStatus (px_status result)) terminal))))"

definition skippedResult :: "ApplyProposalPlanItem \<Rightarrow> ApplyProposalBatchItemResult" where
  "skippedResult item =
     \<lparr>ir_proposalId = pl_proposalId item, ir_status = BI_skipped, ir_dependsOn = pl_dependsOn item,
      ir_result = None, ir_error = Some (JObj [(''type'', JStr ''proposal_batch.stopped_after_failure'')])\<rparr>"

definition skipRest ::
  "ApplyProposalPlanItem list \<Rightarrow> ApplyProposalBatchItemResult list \<times> bool \<Rightarrow> ApplyProposalBatchItemResult list" where
  "skipRest items outcome =
     (case outcome of (results, stopped) \<Rightarrow>
      if stopped then results @ map skippedResult
        (filter (\<lambda>item. pl_proposalId item \<notin> set (map ir_proposalId results)) items)
      else results)"

definition applyProposalBatchWith ::
  "(ApplyProposalBatchRequest \<Rightarrow> ('s, thrown, ApplyProposalBatchPlanResult) eff) \<Rightarrow>
   (ApplyProposalRequest \<Rightarrow> ('s, thrown, ApplyProposalResult) eff) \<Rightarrow> ApplyProposalBatchRequest \<Rightarrow>
   ('s, thrown, ApplyProposalBatchResult) eff" where
  "applyProposalBatchWith planBatch apply_one request =
     eff_bind (planBatch request) (\<lambda>plan.
     let stopOnFailure = (case br_stopOnFailure request of Some b \<Rightarrow> b | None \<Rightarrow> True) in
     if bp_status plan = NeedsReview \<and> stopOnFailure then eff_return (blockedByPlanResult plan)
     else eff_bind (applyItems apply_one request stopOnFailure 0 (bp_items plan) [] []) (\<lambda>outcome.
       let results = skipRest (bp_items plan) outcome in
       eff_return \<lparr>bx_status = summarizeBatchStatus results,
         bx_orderedProposalIds = map pl_proposalId (bp_items plan), bx_results = results\<rparr>))"

definition applyProposalBatch ::
  "'s review_services \<Rightarrow> ApplyProposalBatchRequest \<Rightarrow> ('s, thrown, ApplyProposalBatchResult) eff" where
  "applyProposalBatch rv = applyProposalBatchWith (planApplyProposalBatch rv) (applyProposal rv)"

section \<open>Specification of the plan\<close>

text \<open>
  The proposals that a later one collides with: the earlier ones that touch a path of it and
  that it does not depend on.
\<close>

definition touched :: "LoadedProposalPlanItem \<Rightarrow> string set" where
  "touched loaded = fc_path ` set (loadedChanges loaded)"

definition collisions :: "LoadedProposalPlanItem list \<Rightarrow> LoadedProposalPlanItem \<Rightarrow> string set" where
  "collisions earlier loaded =
     (\<lambda>l. pb_proposalId (lo_item l)) ` set (filter (\<lambda>l. touched l \<inter> touched loaded \<noteq> {}) earlier) -
     set (pb_dependsOn (lo_item loaded))"

definition collision_free :: "LoadedProposalPlanItem list \<Rightarrow> bool" where
  "collision_free items \<longleftrightarrow> (\<forall>i < length items. collisions (take i items) (items ! i) = {})"

text \<open>The owners of a path are the claims of the earlier proposals on it, in order.\<close>

definition owner_entry :: "LoadedProposalPlanItem \<Rightarrow> FileChange \<Rightarrow> PathOwner" where
  "owner_entry loaded change =
     \<lparr>po_proposalId = pb_proposalId (lo_item loaded), po_changeSetId = pr_changeSetId (lo_proposal loaded),
      po_kind = fc_kind change\<rparr>"

definition claims_on :: "LoadedProposalPlanItem list \<Rightarrow> string \<Rightarrow> PathOwner list" where
  "claims_on items path =
     concat (map (\<lambda>l. map (owner_entry l) (filter (\<lambda>c. fc_path c = path) (loadedChanges l))) items)"

lemma owners_of_add:
  "owners_of (foldl (addOwner l) m cs) p =
   owners_of m p @ map (owner_entry l) (filter (\<lambda>c. fc_path c = p) cs)"
proof (induction cs arbitrary: m)
  case (Cons c cs)
  have "owners_of (addOwner l m c) p = owners_of m p @ (if fc_path c = p then [owner_entry l c] else [])"
    by (simp add: owners_of_def addOwner_def owner_entry_def update_conv')
  with Cons [of "addOwner l m c"] show ?case by simp
qed simp

lemma classifyItem_fields [simp]:
  "pl_proposalId (classifyItem m l) = pb_proposalId (lo_item l)" "pl_dependsOn (classifyItem m l) = pb_dependsOn (lo_item l)"
  by (simp_all add: classifyItem_def Let_def)

lemma classifyItem_status:
  "pl_status (classifyItem m l) = PI_needs_review \<longleftrightarrow> pl_conflicts (classifyItem m l) \<noteq> []"
  by (simp add: classifyItem_def Let_def)

lemma claims_proposals:
  "po_proposalId ` set (claims_on us p) = (\<lambda>l. pb_proposalId (lo_item l)) ` {l \<in> set us. p \<in> touched l}"
proof
  show "po_proposalId ` set (claims_on us p) \<subseteq> (\<lambda>l. pb_proposalId (lo_item l)) ` {l \<in> set us. p \<in> touched l}"
    by (auto simp: claims_on_def owner_entry_def touched_def)
  show "(\<lambda>l. pb_proposalId (lo_item l)) ` {l \<in> set us. p \<in> touched l} \<subseteq> po_proposalId ` set (claims_on us p)"
    by (force simp: claims_on_def owner_entry_def touched_def)
qed

lemma classifyItem_conflicts:
  assumes "\<And>p. owners_of m p = claims_on us p"
  shows "pc_conflictingProposalId ` set (pl_conflicts (classifyItem m l)) = collisions us l"
proof -
  have "pc_conflictingProposalId ` set (pl_conflicts (classifyItem m l)) =
      (\<Union>c \<in> set (loadedChanges l). po_proposalId ` set (claims_on us (fc_path c))) - set (pb_dependsOn (lo_item l))"
    using assms by (force simp: classifyItem_def Let_def changeConflicts_def)
  also have "(\<Union>c \<in> set (loadedChanges l). po_proposalId ` set (claims_on us (fc_path c))) =
      (\<lambda>l. pb_proposalId (lo_item l)) ` (\<Union>c \<in> set (loadedChanges l). {e \<in> set us. fc_path c \<in> touched e})"
    unfolding claims_proposals by blast
  also have "(\<Union>c \<in> set (loadedChanges l). {e \<in> set us. fc_path c \<in> touched e}) = {e \<in> set us. touched e \<inter> touched l \<noteq> {}}"
    by (auto simp: touched_def [of l])
  finally show ?thesis by (simp add: collisions_def)
qed

lemma classifyLoop_length [simp]: "length (classifyLoop m items) = length items"
  by (induction items arbitrary: m) auto

lemma classifyLoop_maps:
  "map pl_proposalId (classifyLoop m items) = map (\<lambda>l. pb_proposalId (lo_item l)) items"
  "map pl_dependsOn (classifyLoop m items) = map (\<lambda>l. pb_dependsOn (lo_item l)) items"
  by (induction items arbitrary: m) auto

lemma classifyLoop_conflicts:
  assumes "\<And>p. owners_of m p = claims_on us p" and "i < length items"
  shows "pc_conflictingProposalId ` set (pl_conflicts (classifyLoop m items ! i)) = collisions (us @ take i items) (items ! i) \<and>
    (pl_status (classifyLoop m items ! i) = PI_needs_review \<longleftrightarrow> pl_conflicts (classifyLoop m items ! i) \<noteq> [])"
  using assms
proof (induction items arbitrary: m us i)
  case (Cons l items)
  have "owners_of (foldl (addOwner l) m (loadedChanges l)) p = claims_on (us @ [l]) p" for p
    using Cons.prems(1) by (simp add: owners_of_add claims_on_def)
  note step = Cons.IH [OF this]
  show ?case
  proof (cases i)
    case 0
    with classifyItem_conflicts [OF Cons.prems(1)] show ?thesis by (simp add: classifyItem_status)
  next
    case (Suc k)
    with step [of k] Cons.prems(2) show ?thesis by simp
  qed
qed simp

section \<open>Specification of the batch\<close>

text \<open>
  The traces of the loop over the plan. Each item gets one result; it is applied only if no
  dependency is recorded as failed; the loop is left at a failure when the batch stops on
  failure.
\<close>

definition item_ok :: "status_map \<Rightarrow> ApplyProposalPlanItem \<Rightarrow> ApplyProposalBatchItemResult \<Rightarrow> bool" where
  "item_ok terminal item r \<longleftrightarrow> ir_proposalId r = pl_proposalId item \<and> ir_dependsOn r = pl_dependsOn item \<and>
     ir_status r \<noteq> BI_skipped \<and>
     (ir_status r = BI_applied \<longrightarrow> (\<forall>d \<in> set (pl_dependsOn item). map_of terminal d \<in> {None, Some BI_applied})) \<and>
     (ir_status r = BI_needs_review \<longleftrightarrow> pl_status item = PI_needs_review)"

inductive batch_trace ::
  "bool \<Rightarrow> ApplyProposalPlanItem list \<Rightarrow> status_map \<Rightarrow> ApplyProposalBatchItemResult list \<Rightarrow> bool \<Rightarrow> bool"
  for stop :: bool
where
  finished: "batch_trace stop [] terminal [] False"
| goes_on: "item_ok terminal item r \<Longrightarrow> (stop \<Longrightarrow> ir_status r \<in> {BI_applied, BI_needs_review}) \<Longrightarrow>
    batch_trace stop items (AList.update (pl_proposalId item) (ir_status r) terminal) rs stopped \<Longrightarrow>
    batch_trace stop (item # items) terminal (r # rs) stopped"
| breaks: "item_ok terminal item r \<Longrightarrow> stop \<Longrightarrow> ir_status r \<noteq> BI_applied \<Longrightarrow>
    batch_trace stop (item # items) terminal [r] True"

inductive_cases batch_traceE: "batch_trace stop items terminal rs stopped"

lemma dependencyFailed_iff: "dependencyFailed terminal d \<longleftrightarrow> map_of terminal d \<notin> {None, Some BI_applied}"
proof (cases "map_of terminal d")
  case (Some status)
  then show ?thesis by (cases status) (simp_all add: dependencyFailed_def)
qed (simp add: dependencyFailed_def)

lemma itemStatus_simps [simp]:
  "itemStatus st = BI_applied \<longleftrightarrow> st = AP_applied" "itemStatus st \<noteq> BI_skipped" "itemStatus st \<noteq> BI_needs_review"
  by (cases st; simp)+

lemma applyItems_trace:
  assumes "applyItems apply_one request stop n items results terminal s = (Inr (out, stopped), t)"
  shows "\<exists>new. out = results @ new \<and> batch_trace stop items terminal new stopped"
  using assms
proof (induction apply_one request stop n items results terminal arbitrary: s rule: applyItems.induct)
  case (1 apply_one request stop n results terminal)
  then show ?case by (auto intro: batch_trace.finished)
next
  case (2 apply_one request stop n item items results terminal)
  consider (review) "pl_status item = PI_needs_review"
    | (failed) d where "pl_status item \<noteq> PI_needs_review" "List.find (dependencyFailed terminal) (pl_dependsOn item) = Some d"
    | (attempt) "pl_status item \<noteq> PI_needs_review" "List.find (dependencyFailed terminal) (pl_dependsOn item) = None"
    by (cases "List.find (dependencyFailed terminal) (pl_dependsOn item)") auto
  then show ?case
  proof cases
    case review
    have ok: "item_ok terminal item (needsReviewResult item)" using review by (simp add: item_ok_def needsReviewResult_def)
    obtain new where "out = (results @ [needsReviewResult item]) @ new"
      "batch_trace stop items (AList.update (pl_proposalId item) BI_needs_review terminal) new stopped"
      using "2.IH"(1) [OF review] "2.prems" review by auto
    then show ?thesis using batch_trace.goes_on [OF ok, of stop items new stopped]
      by (intro exI [of _ "needsReviewResult item # new"]) (simp add: needsReviewResult_def)
  next
    case (failed d)
    have ok: "item_ok terminal item (dependencyResult item d)"
      using failed(1) by (simp add: item_ok_def dependencyResult_def)
    show ?thesis
    proof (cases stop)
      case True
      with "2.prems" failed batch_trace.breaks [OF ok, of stop items] show ?thesis
        by (intro exI [of _ "[dependencyResult item d]"]) (simp add: dependencyResult_def)
    next
      case False
      obtain new where "out = (results @ [dependencyResult item d]) @ new"
        "batch_trace stop items (AList.update (pl_proposalId item) BI_blocked terminal) new stopped"
        using "2.IH"(3) [OF failed False] "2.prems" failed False by auto
      then show ?thesis using batch_trace.goes_on [OF ok, of stop items new stopped] False
        by (intro exI [of _ "dependencyResult item d # new"]) (simp add: dependencyResult_def)
    qed
  next
    case attempt
    obtain result u where run: "apply_one (itemRequest request n item) s = (Inr result, u)"
      and rest: "(if px_status result \<noteq> AP_applied \<and> stop then eff_return (results @ [attemptedResult item result], True)
            else applyItems apply_one request stop (Suc n) items (results @ [attemptedResult item result])
              (AList.update (pl_proposalId item) (itemStatus (px_status result)) terminal)) u = (Inr (out, stopped), t)"
      using "2.prems" attempt by (auto simp: eff_bind_Inr)
    have none: "\<forall>d \<in> set (pl_dependsOn item). map_of terminal d \<in> {None, Some BI_applied}"
      using attempt(2) by (auto simp: find_None_iff dependencyFailed_iff)
    have ok: "item_ok terminal item (attemptedResult item result)"
      using attempt(1) none by (simp add: item_ok_def attemptedResult_def)
    show ?thesis
    proof (cases "px_status result \<noteq> AP_applied \<and> stop")
      case True
      with rest batch_trace.breaks [OF ok, of stop items] show ?thesis
        by (intro exI [of _ "[attemptedResult item result]"]) (auto simp: attemptedResult_def)
    next
      case False
      obtain new where "out = (results @ [attemptedResult item result]) @ new"
        "batch_trace stop items (AList.update (pl_proposalId item) (itemStatus (px_status result)) terminal) new stopped"
        using "2.IH"(2) [OF attempt False] rest False by auto
      then show ?thesis using batch_trace.goes_on [OF ok, of stop items new stopped] False
        by (intro exI [of _ "attemptedResult item result # new"]) (auto simp: attemptedResult_def)
    qed
  qed
qed

lemma trace_ids:
  "batch_trace stop items terminal rs stopped \<Longrightarrow>
   map ir_proposalId rs = map pl_proposalId (take (length rs) items) \<and>
   map ir_dependsOn rs = map pl_dependsOn (take (length rs) items) \<and>
   length rs \<le> length items \<and> (\<not> stopped \<longrightarrow> length rs = length items)"
  by (induction rule: batch_trace.induct) (auto simp: item_ok_def)

lemma trace_deps:
  assumes "batch_trace stop items terminal rs stopped" "i < length rs"
    and "ir_status (rs ! i) = BI_applied" "d \<in> set (ir_dependsOn (rs ! i))"
  shows "(\<exists>j < i. ir_proposalId (rs ! j) = d \<and> ir_status (rs ! j) = BI_applied) \<or>
    (d \<notin> set (map ir_proposalId (take i rs)) \<and> map_of terminal d \<in> {None, Some BI_applied})"
  using assms
proof (induction arbitrary: i rule: batch_trace.induct)
  case (goes_on terminal item r items rs stopped)
  show ?case
  proof (cases i)
    case 0
    with goes_on show ?thesis by (auto simp: item_ok_def)
  next
    case (Suc k)
    have id: "pl_proposalId item = ir_proposalId r" using goes_on.hyps(1) by (simp add: item_ok_def)
    from goes_on.IH [of k] goes_on.prems Suc consider
      (earlier) j where "j < k" "ir_proposalId (rs ! j) = d" "ir_status (rs ! j) = BI_applied"
      | (none) "d \<notin> set (map ir_proposalId (take k rs))"
          "map_of (AList.update (pl_proposalId item) (ir_status r) terminal) d \<in> {None, Some BI_applied}"
      by auto
    then show ?thesis
    proof cases
      case earlier
      with Suc show ?thesis by (intro disjI1 exI [of _ "Suc j"]) simp
    next
      case none
      show ?thesis
      proof (cases "d = ir_proposalId r")
        case True
        with none(2) id Suc show ?thesis by (intro disjI1 exI [of _ 0]) (simp add: update_conv')
      next
        case False
        with none id Suc show ?thesis by (intro disjI2) (simp add: update_conv')
      qed
    qed
  qed
next
  case (breaks terminal item r items)
  then show ?case by simp
qed simp

lemma trace_stops:
  "batch_trace stop items terminal rs stopped \<Longrightarrow> stop \<Longrightarrow> list_all (\<lambda>item. pl_status item \<noteq> PI_needs_review) items \<Longrightarrow>
   \<exists>us vs. rs = us @ vs \<and> list_all (\<lambda>r. ir_status r = BI_applied) us \<and>
     (if stopped then \<exists>r. vs = [r] \<and> ir_status r \<noteq> BI_applied else vs = [])"
proof (induction rule: batch_trace.induct)
  case (goes_on terminal item r items rs stopped)
  then obtain us vs where "rs = us @ vs" "list_all (\<lambda>r. ir_status r = BI_applied) us"
    "if stopped then \<exists>r. vs = [r] \<and> ir_status r \<noteq> BI_applied else vs = []" by auto
  moreover have "ir_status r = BI_applied" using goes_on by (auto simp: item_ok_def)
  ultimately show ?case by (intro exI [of _ "r # us"] exI [of _ vs]) simp
next
  case (breaks terminal item r items)
  then show ?case by (intro exI [of _ "[]"] exI [of _ "[r]"]) simp
qed auto

lemma skipRest_trace:
  assumes "batch_trace stop items terminal rs stopped" "distinct (map pl_proposalId items)"
  shows "skipRest items (rs, stopped) = rs @ (if stopped then map skippedResult (drop (length rs) items) else [])"
proof -
  have ids: "map ir_proposalId rs = map pl_proposalId (take (length rs) items)" using trace_ids [OF assms(1)] by simp
  have "distinct (map pl_proposalId (take (length rs) items) @ map pl_proposalId (drop (length rs) items))"
    using assms(2) unfolding map_append [symmetric] by simp
  then have "filter (\<lambda>item. pl_proposalId item \<notin> set (map ir_proposalId rs)) (take (length rs) items @ drop (length rs) items) =
      drop (length rs) items"
    unfolding ids filter_append by (fastforce simp: filter_empty_conv filter_id_conv)
  then show ?thesis by (simp add: skipRest_def)
qed

lemma skipRest_ids:
  assumes "batch_trace stop items terminal rs stopped" "distinct (map pl_proposalId items)"
  shows "map ir_proposalId (skipRest items (rs, stopped)) = map pl_proposalId items"
proof -
  have "map pl_proposalId items = map pl_proposalId (take (length rs) items) @ map pl_proposalId (drop (length rs) items)"
    unfolding map_append [symmetric] by simp
  then show ?thesis using trace_ids [OF assms(1)]
    by (auto simp: skipRest_trace [OF assms] skippedResult_def comp_def)
qed

lemma trace_nth:
  assumes "batch_trace stop items terminal rs stopped" "i < length rs"
  shows "ir_dependsOn (rs ! i) = pl_dependsOn (items ! i)"
    and "map ir_proposalId (take i rs) = map pl_proposalId (take i items)"
proof -
  note t = trace_ids [OF assms(1)]
  have "ir_dependsOn (rs ! i) = map ir_dependsOn rs ! i" using assms(2) by simp
  also have "\<dots> = map pl_dependsOn (take (length rs) items) ! i" using t by simp
  also have "\<dots> = pl_dependsOn (items ! i)" using conjunct1 [OF conjunct2 [OF conjunct2 [OF t]]] assms(2) by simp
  finally show "ir_dependsOn (rs ! i) = pl_dependsOn (items ! i)" .
  have "take i (map ir_proposalId rs) = take i (map pl_proposalId (take (length rs) items))" using t by simp
  then show "map ir_proposalId (take i rs) = map pl_proposalId (take i items)" using assms(2) by (simp add: take_map min_def)
qed

lemma load_items: "eff_map (loadItem rv) order s = (Inr items, t) \<Longrightarrow> map lo_item items = order"
proof (induction order arbitrary: s items t)
  case (Cons item order)
  then obtain x xs u v where "loadItem rv item s = (Inr x, u)" "eff_map (loadItem rv) order u = (Inr xs, v)" "items = x # xs"
    by (auto simp: eff_bind_Inr)
  then have "map lo_item xs = order" "lo_item x = item"
    using Cons.IH by (blast, auto simp: loadItem_def eff_bind_Inr)
  with \<open>items = x # xs\<close> show ?case by simp
qed simp

lemma plan_loads:
  assumes "planApplyProposalBatch rv request s = (Inr plan, u)"
  obtains order loaded where "planProposalBatch (br_items request) = Inr order" "map lo_item loaded = order"
    "plan = classifyProposalPlan loaded"
  using assms by (auto simp: planApplyProposalBatch_def eff_bind_Inr dest: load_items split: sum.splits)

text \<open>What a batch that returns did: the plan, and either the review result or a trace.\<close>

lemma batch_cases:
  assumes "applyProposalBatchWith (planApplyProposalBatch rv) apply_one request s = (Inr result, t)"
  obtains (blocked) order loaded where "planProposalBatch (br_items request) = Inr order" "map lo_item loaded = order"
      "result = blockedByPlanResult (classifyProposalPlan loaded)" "br_stopOnFailure request \<noteq> Some False"
    | (ran) order loaded rs stopped where "planProposalBatch (br_items request) = Inr order" "map lo_item loaded = order"
      "batch_trace (br_stopOnFailure request \<noteq> Some False) (classifyLoop [] loaded) [] rs stopped"
      "bx_results result = skipRest (classifyLoop [] loaded) (rs, stopped)"
      "bx_orderedProposalIds result = map pl_proposalId (classifyLoop [] loaded)"
      "bx_status result = summarizeBatchStatus (bx_results result)"
      "br_stopOnFailure request \<noteq> Some False \<longrightarrow> list_all (\<lambda>item. pl_status item \<noteq> PI_needs_review) (classifyLoop [] loaded)"
proof -
  let ?stop = "case br_stopOnFailure request of Some b \<Rightarrow> b | None \<Rightarrow> True"
  have stop: "?stop \<longleftrightarrow> br_stopOnFailure request \<noteq> Some False" by (auto split: option.splits)
  obtain plan u where plan: "planApplyProposalBatch rv request s = (Inr plan, u)"
    and rest: "(if bp_status plan = NeedsReview \<and> ?stop then eff_return (blockedByPlanResult plan)
       else eff_bind (applyItems apply_one request ?stop 0 (bp_items plan) [] []) (\<lambda>outcome.
         eff_return \<lparr>bx_status = summarizeBatchStatus (skipRest (bp_items plan) outcome),
           bx_orderedProposalIds = map pl_proposalId (bp_items plan),
           bx_results = skipRest (bp_items plan) outcome\<rparr>)) u = (Inr result, t)"
    using assms unfolding applyProposalBatchWith_def eff_bind_Inr Let_def by blast
  from plan obtain order loaded where l: "planProposalBatch (br_items request) = Inr order" "map lo_item loaded = order"
    "plan = classifyProposalPlan loaded" by (elim plan_loads)
  show thesis
  proof (cases "bp_status plan = NeedsReview \<and> ?stop")
    case True
    with rest l stop show thesis by (intro blocked) auto
  next
    case False
    with rest l obtain out stopped where run: "applyItems apply_one request ?stop 0 (classifyLoop [] loaded) [] [] u = (Inr (out, stopped), t)"
      and res: "result = \<lparr>bx_status = summarizeBatchStatus (skipRest (classifyLoop [] loaded) (out, stopped)),
           bx_orderedProposalIds = map pl_proposalId (classifyLoop [] loaded),
           bx_results = skipRest (classifyLoop [] loaded) (out, stopped)\<rparr>"
      by (auto simp: eff_bind_Inr classifyProposalPlan_def Let_def)
    obtain rs where rs: "out = [] @ rs" "batch_trace ?stop (classifyLoop [] loaded) [] rs stopped"
      using applyItems_trace [OF run] by blast
    have "br_stopOnFailure request \<noteq> Some False \<longrightarrow> list_all (\<lambda>item. pl_status item \<noteq> PI_needs_review) (classifyLoop [] loaded)"
      using False stop l(3) by (auto simp: classifyProposalPlan_def Let_def list_ex_iff list_all_iff split: if_splits)
    with l(1,2) rs res stop show thesis by (intro ran) auto
  qed
qed

text \<open>The plan of a batch lists the requested proposals once, in dependency order.\<close>

lemma loaded_order:
  assumes "planProposalBatch items = Inr order" "map lo_item loaded = order"
  shows "distinct (map pl_proposalId (classifyLoop [] loaded))"
    and "set (map pl_proposalId (classifyLoop [] loaded)) = set (map bi_proposalId items)"
    and "i < length loaded \<Longrightarrow> set (pl_dependsOn (classifyLoop [] loaded ! i)) \<subseteq> set (map pl_proposalId (take i (classifyLoop [] loaded)))"
    and "loaded \<noteq> []"
proof -
  note o = planned_order [OF assms(1)]
  have ids: "map pl_proposalId (classifyLoop [] loaded) = batch_ids order"
    using assms(2) by (auto simp: batch_ids_def classifyLoop_maps)
  then show "distinct (map pl_proposalId (classifyLoop [] loaded))" using o by simp
  show "set (map pl_proposalId (classifyLoop [] loaded)) = set (map bi_proposalId items)"
    unfolding ids using o by (simp add: batch_ids_def image_image)
  have "valid_batch items" using assms(1) planProposalBatch_invalid by fastforce
  with o assms(2) show "loaded \<noteq> []" by (auto simp: valid_batch_def)
  assume i: "i < length loaded"
  then have "order = take i order @ order ! i # drop (Suc i) order" using assms(2) by (intro id_take_nth_drop) auto
  then have "set (pb_dependsOn (order ! i)) \<subseteq> set (batch_ids (take i order))"
    using o unfolding topological_def by blast
  moreover have "pl_dependsOn (classifyLoop [] loaded ! i) = pb_dependsOn (order ! i)"
    using i assms(2) arg_cong [OF classifyLoop_maps(2) [of "[]" loaded], of "\<lambda>xs. xs ! i"] by auto
  ultimately show "set (pl_dependsOn (classifyLoop [] loaded ! i)) \<subseteq> set (map pl_proposalId (take i (classifyLoop [] loaded)))"
    using ids by (simp add: batch_ids_def take_map [symmetric])
qed

lemma blocked_results:
  "map ir_proposalId (bx_results (blockedByPlanResult plan)) = map pl_proposalId (bp_items plan)"
  "\<forall>r \<in> set (bx_results (blockedByPlanResult plan)). ir_status r \<noteq> BI_applied"
  "bp_items plan \<noteq> [] \<Longrightarrow> bx_status (blockedByPlanResult plan) = summarizeBatchStatus (bx_results (blockedByPlanResult plan))"
proof -
  show none: "\<forall>r \<in> set (bx_results (blockedByPlanResult plan)). ir_status r \<noteq> BI_applied"
    by (auto simp: blockedByPlanResult_def needsReviewResult_def)
  show "map ir_proposalId (bx_results (blockedByPlanResult plan)) = map pl_proposalId (bp_items plan)"
    by (simp add: blockedByPlanResult_def needsReviewResult_def)
  from none have "filter (\<lambda>r. ir_status r = BI_applied) (bx_results (blockedByPlanResult plan)) = []"
    by (simp add: filter_empty_conv)
  then show "bp_items plan \<noteq> [] \<Longrightarrow> bx_status (blockedByPlanResult plan) = summarizeBatchStatus (bx_results (blockedByPlanResult plan))"
    by (simp add: summarizeBatchStatus_def blockedByPlanResult_def)
qed

section \<open>A batch of three proposals\<close>

text \<open>
  Proposals \<open>p\<close> and \<open>q\<close> change the file \<open>a\<close>, and \<open>q\<close> depends on \<open>p\<close>; \<open>r\<close> depends on \<open>q\<close>. In the
  run the second of them turns out to be busy.
\<close>

definition batch_change :: "string \<Rightarrow> FileChange" where
  "batch_change path = \<lparr>fc_path = path, fc_kind = FC_update, fc_baseText = Some ''1'', fc_baseSha256 = None,
     fc_targetText = Some ''2''\<rparr>"

definition batch_changeset :: "string \<Rightarrow> WorkspaceChangeSetRecord" where
  "batch_changeset k = \<lparr>csr_id = k, csr_workspaceId = ''w'', csr_principalId = ''o'', csr_title = None,
     csr_baseRevision = None,
     csr_changeSet = \<lparr>cs_id = k, cs_title = None, cs_baseRevision = None,
       cs_changes = [batch_change (if k = ''r'' then ''b'' else ''a'')]\<rparr>,
     csr_currentState = CS_submitted, csr_createdAt = 0, csr_updatedAt = 0\<rparr>"

definition batch_proposal :: "string \<Rightarrow> WorkspaceChangeProposalRecord" where
  "batch_proposal k = \<lparr>pr_id = k, pr_workspaceId = ''w'', pr_changeSetId = k, pr_principalId = ''o'',
     pr_title = None, pr_summary = None, pr_state = PS_apply_requested, pr_metadata = None,
     pr_createdAt = 0, pr_updatedAt = 0, pr_closedAt = None\<rparr>"

definition batch_services :: "unit review_services" where
  "batch_services = \<lparr>rv_workspace = undefined, rv_transactionLeaseMs = 30000, rv_actorId = None,
     rv_createAttemptId = eff_return ''t'', rv_createClaimToken = eff_return ''c'',
     rv_getChangeSet = (\<lambda>k. eff_return (Some (batch_changeset k))),
     rv_getProposal = (\<lambda>k. eff_return (Some (batch_proposal k))),
     rv_claimApply = (\<lambda>_. eff_throw (plainError ''unavailable''))\<rparr>"

definition batch_apply :: "string \<Rightarrow> ApplyProposalRequest \<Rightarrow> (unit, thrown, ApplyProposalResult) eff" where
  "batch_apply busy request = eff_return
     \<lparr>px_status = (if pq_proposalId request = busy then AP_busy else AP_applied),
      px_proposal = batch_proposal (pq_proposalId request), px_changeSet = batch_changeset (pq_proposalId request),
      px_workspaceOperation = None, px_applyAttempt = None, px_applyResult = None, px_error = None\<rparr>"

definition batch_request :: "bool option \<Rightarrow> ApplyProposalBatchRequest" where
  "batch_request stop = \<lparr>br_items = [\<lparr>bi_proposalId = ''r'', bi_dependsOn = Some [''q''], bi_actorId = None, bi_metadata = None\<rparr>,
       \<lparr>bi_proposalId = ''q'', bi_dependsOn = Some [''p''], bi_actorId = None, bi_metadata = None\<rparr>,
       \<lparr>bi_proposalId = ''p'', bi_dependsOn = None, bi_actorId = None, bi_metadata = None\<rparr>],
     br_actorId = None, br_stopOnFailure = stop, br_metadata = None\<rparr>"

definition batch_run :: "string \<Rightarrow> bool option \<Rightarrow> (thrown + ApplyProposalBatchResult) \<times> unit" where
  "batch_run busy stop =
     applyProposalBatchWith (planApplyProposalBatch batch_services) (batch_apply busy) (batch_request stop) ()"

lemma batch_run_shows:
  "case fst (batch_run ''q'' None) of Inl _ \<Rightarrow> False
   | Inr result \<Rightarrow> bx_status result = BS_partial \<and> bx_orderedProposalIds result = [''p'', ''q'', ''r''] \<and>
       map ir_status (bx_results result) = [BI_applied, BI_busy, BI_skipped]"
  "case fst (batch_run ''r'' (Some False)) of Inl _ \<Rightarrow> False
   | Inr result \<Rightarrow> bx_results result \<noteq> [] \<and> map ir_status (bx_results result) = [BI_applied, BI_applied, BI_busy] \<and>
       map ir_dependsOn (bx_results result) = [[], [''p''], [''q'']]"
  by code_simp+

lemma batch_run_result:
  "fst (batch_run busy stop) = Inr result \<longleftrightarrow>
   applyProposalBatchWith (planApplyProposalBatch batch_services) (batch_apply busy) (batch_request stop) () = (Inr result, ())"
  by (cases "batch_run busy stop") (simp add: batch_run_def)

section \<open>Properties\<close>

text \<open>
  C22. The plan of a batch is executable exactly when every two proposals that touch a common
  path are connected by a direct dependency of the later on the earlier; an item that is not
  names in its conflicts exactly the earlier proposals it collides with.
\<close>

theorem plan_executable_iff:
  "(bp_status (classifyProposalPlan items) = Executable \<longleftrightarrow> collision_free items) \<and>
   map (\<lambda>item. pc_conflictingProposalId ` set (pl_conflicts item)) (bp_items (classifyProposalPlan items)) =
   map (\<lambda>i. collisions (take i items) (items ! i)) [0..<length items]"
proof -
  have "owners_of [] p = claims_on [] p" for p by (simp add: owners_of_def claims_on_def)
  note item = classifyLoop_conflicts [OF this, unfolded append_Nil]
  have "bp_status (classifyProposalPlan items) = NeedsReview \<longleftrightarrow> (\<exists>i < length items. collisions (take i items) (items ! i) \<noteq> {})"
    using item by (force simp: classifyProposalPlan_def Let_def list_ex_length)
  moreover have "bp_status (classifyProposalPlan items) = Executable \<longleftrightarrow> bp_status (classifyProposalPlan items) \<noteq> NeedsReview"
    by (simp add: classifyProposalPlan_def Let_def)
  ultimately show ?thesis using item
    by (auto simp: collision_free_def classifyProposalPlan_def Let_def intro!: nth_equalityI)
qed

text \<open>
  A batch that returns accounts for every requested proposal once: the results are the
  proposals in the order of the plan, without duplicates, and the status of the batch says
  whether all, some or none of them were applied.
\<close>

theorem batch_accounts_for_all:
  assumes "applyProposalBatchWith (planApplyProposalBatch rv) apply_one request s = (Inr result, t)"
  shows "map ir_proposalId (bx_results result) = bx_orderedProposalIds result \<and>
    distinct (bx_orderedProposalIds result) \<and>
    set (bx_orderedProposalIds result) = set (map bi_proposalId (br_items request)) \<and>
    bx_status result = summarizeBatchStatus (bx_results result)"
  using assms
proof (cases rule: batch_cases)
  case (blocked order loaded)
  have "classifyLoop [] loaded \<noteq> []" using loaded_order(4) [OF blocked(1,2)] by (metis classifyLoop_length length_0_conv)
  then have items: "bp_items (classifyProposalPlan loaded) \<noteq> []"
    and ids: "bp_orderedProposalIds (classifyProposalPlan loaded) = map pl_proposalId (classifyLoop [] loaded)"
      "map pl_proposalId (bp_items (classifyProposalPlan loaded)) = map pl_proposalId (classifyLoop [] loaded)"
    by (simp_all add: classifyProposalPlan_def Let_def)
  have "bx_orderedProposalIds result = map pl_proposalId (classifyLoop [] loaded)"
    unfolding blocked(3) ids(1) [symmetric] by (simp add: blockedByPlanResult_def)
  with loaded_order(1,2) [OF blocked(1,2)] blocked_results(1) [of "classifyProposalPlan loaded"] blocked_results(3) [OF items]
  show ?thesis unfolding blocked(3) ids by argo
next
  case (ran order loaded rs stopped)
  note ids = loaded_order(1,2) [OF ran(1,2)]
  have "map ir_proposalId (bx_results result) = map pl_proposalId (classifyLoop [] loaded)"
    unfolding ran(4) by (rule skipRest_ids [OF ran(3) ids(1)])
  with ids ran(5,6) show ?thesis by simp
qed

theorem batch_accounts_for_all_witness:
  "\<exists>result. fst (batch_run ''q'' None) = Inr result \<and> map ir_proposalId (bx_results result) = [''p'', ''q'', ''r'']"
proof -
  obtain result where r: "fst (batch_run ''q'' None) = Inr result" "bx_orderedProposalIds result = [''p'', ''q'', ''r'']"
    using batch_run_shows(1) by (auto split: sum.splits)
  with batch_accounts_for_all [OF r(1) [unfolded batch_run_result]] show ?thesis by simp
qed

text \<open>
  C23. A proposal of a batch is applied only after every proposal it depends on was applied in
  the same batch.
\<close>

theorem batch_applies_in_order:
  assumes "applyProposalBatchWith (planApplyProposalBatch rv) apply_one request s = (Inr result, t)"
    and "i < length (bx_results result)" and "ir_status (bx_results result ! i) = BI_applied"
    and "d \<in> set (ir_dependsOn (bx_results result ! i))"
  shows "\<exists>j < i. ir_proposalId (bx_results result ! j) = d \<and> ir_status (bx_results result ! j) = BI_applied"
  using assms(1)
proof (cases rule: batch_cases)
  case (blocked order loaded)
  with blocked_results(2) assms(2,3) show ?thesis by (metis nth_mem)
next
  case (ran order loaded rs stopped)
  have res: "bx_results result = rs @ (if stopped then map skippedResult (drop (length rs) (classifyLoop [] loaded)) else [])"
    using ran(4) skipRest_trace [OF ran(3) loaded_order(1) [OF ran(1,2)]] by simp
  have i: "i < length rs"
    using assms(2,3) res by (auto simp: nth_append skippedResult_def not_less split: if_splits)
  then have rs_i: "bx_results result ! i = rs ! i" using res by (simp add: nth_append)
  have "i < length loaded" using i trace_ids [OF ran(3)] by simp
  from loaded_order(3) [OF ran(1,2) this] have "d \<in> set (map ir_proposalId (take i rs))"
    using trace_nth [OF ran(3) i] assms(4) rs_i by auto
  then obtain j where "j < i" "ir_proposalId (rs ! j) = d \<and> ir_status (rs ! j) = BI_applied"
    using trace_deps [OF ran(3) i, of d] assms(3,4) rs_i by auto
  then show ?thesis using i res by (intro exI [of _ j]) (simp add: nth_append)
qed

theorem batch_applies_in_order_witness:
  "\<exists>result. fst (batch_run ''r'' (Some False)) = Inr result \<and>
     (\<exists>j < 1. ir_proposalId (bx_results result ! j) = ''p'' \<and> ir_status (bx_results result ! j) = BI_applied)"
proof -
  obtain result where r: "fst (batch_run ''r'' (Some False)) = Inr result"
    and st: "map ir_status (bx_results result) = [BI_applied, BI_applied, BI_busy]"
    and deps: "map ir_dependsOn (bx_results result) = [[], [''p''], [''q'']]"
    using batch_run_shows(2) by (auto split: sum.splits)
  have "length (bx_results result) = 3" using arg_cong [OF st, of length] by simp
  moreover from this have "ir_status (bx_results result ! 1) = BI_applied" "ir_dependsOn (bx_results result ! 1) = [''p'']"
    using arg_cong [OF st, of "\<lambda>xs. xs ! 1"] arg_cong [OF deps, of "\<lambda>xs. xs ! 1"] by simp_all
  ultimately show ?thesis using batch_applies_in_order [OF r [unfolded batch_run_result], of 1 "''p''"] r by simp
qed

text \<open>
  A batch that stops on failure (the default) applies a first part of its proposals and
  none after the first that was not applied; once one was applied, all that come after the
  first failure are skipped.
\<close>

theorem batch_stops_at_failure:
  assumes "applyProposalBatchWith (planApplyProposalBatch rv) apply_one request s = (Inr result, t)"
    and "br_stopOnFailure request \<noteq> Some False"
  shows "\<exists>us vs. bx_results result = us @ vs \<and> list_all (\<lambda>r. ir_status r = BI_applied) us \<and>
    list_all (\<lambda>r. ir_status r \<noteq> BI_applied) vs \<and> (us \<noteq> [] \<longrightarrow> list_all (\<lambda>r. ir_status r = BI_skipped) (tl vs))"
  using assms(1)
proof (cases rule: batch_cases)
  case (blocked order loaded)
  with blocked_results(2) show ?thesis
    by (intro exI [of _ "[]"] exI [of _ "bx_results result"]) (simp add: list_all_iff)
next
  case (ran order loaded rs stopped)
  have res: "bx_results result = rs @ (if stopped then map skippedResult (drop (length rs) (classifyLoop [] loaded)) else [])"
    using ran(4) skipRest_trace [OF ran(3) loaded_order(1) [OF ran(1,2)]] by simp
  obtain us vs where rs: "rs = us @ vs" "list_all (\<lambda>r. ir_status r = BI_applied) us"
    "if stopped then \<exists>r. vs = [r] \<and> ir_status r \<noteq> BI_applied else vs = []"
    using trace_stops [OF ran(3)] ran(7) assms(2) by auto
  let ?vs = "vs @ (if stopped then map skippedResult (drop (length rs) (classifyLoop [] loaded)) else [])"
  have "bx_results result = us @ ?vs" using res rs(1) by simp
  moreover have "list_all (\<lambda>r. ir_status r \<noteq> BI_applied) ?vs" "list_all (\<lambda>r. ir_status r = BI_skipped) (tl ?vs)"
    using rs(3) by (auto simp: list_all_iff skippedResult_def split: if_splits)
  ultimately show ?thesis using rs(2) by blast
qed

theorem batch_stops_at_failure_witness:
  "\<exists>result us vs. fst (batch_run ''q'' None) = Inr result \<and> bx_results result = us @ vs \<and>
     map ir_status us = [BI_applied] \<and> map ir_status vs = [BI_busy, BI_skipped]"
proof -
  obtain result where r: "fst (batch_run ''q'' None) = Inr result"
    and st: "map ir_status (bx_results result) = [BI_applied, BI_busy, BI_skipped]"
    using batch_run_shows(1) by (auto split: sum.splits)
  have "br_stopOnFailure (batch_request None) \<noteq> Some False" by (simp add: batch_request_def)
  from batch_stops_at_failure [OF r [unfolded batch_run_result] this] obtain us vs where
    uv: "bx_results result = us @ vs" "list_all (\<lambda>r. ir_status r = BI_applied) us"
      "list_all (\<lambda>r. ir_status r \<noteq> BI_applied) vs" by blast
  have all: "map ir_status us @ map ir_status vs = [BI_applied, BI_busy, BI_skipped]" using st uv(1) by simp
  have "map ir_status us = [BI_applied] \<and> map ir_status vs = [BI_busy, BI_skipped]"
  proof (cases us)
    case Nil
    with all have "ir_status (hd vs) = BI_applied" "vs \<noteq> []" by (cases vs; simp)+
    with uv(3) show ?thesis by (cases vs) simp_all
  next
    case (Cons r rest)
    with all uv(2) show ?thesis by (cases rest) simp_all
  qed
  with r uv(1) show ?thesis by (intro exI [of _ result] exI [of _ us] exI [of _ vs] conjI) simp_all
qed

end
