(* ===== verification/Delegation_Types.thy ===== *)
theory Delegation_Types
  imports Workspace_Types
begin

text \<open>
  The data of scheduler jobs and delegation graphs: packages/protocol/src/scheduler.ts,
  packages/protocol/src/delegation.ts and packages/team/src/delegation/graph/types.ts. A field
  that may be absent is an \<open>option\<close>. A \<open>number\<close> of the source is a rational; the columns of the
  system service that hold 64-bit integers are the integers among them.
\<close>

type_synonym number = rat

section \<open>Scheduler jobs\<close>

datatype SchedulerJobKind =
    JK_session_turn | JK_workspace_task | JK_team_delivery | JK_team_delivery_outcome
  | JK_plugin_action | JK_channel_delivery | JK_gateway_delivery | JK_memory_compaction
  | JK_resource_cleanup | JK_budget_grant_expire | JK_provider_retry | JK_config_sync
  | JK_media_generate

definition DEFAULT_SCHEDULER_QUEUE :: string where
  "DEFAULT_SCHEDULER_QUEUE = ''default''"

datatype SchedulerJobState =
    JS_pending | JS_ready | JS_running | JS_waiting | JS_succeeded | JS_retry_scheduled
  | JS_failed | JS_cancelled

datatype RetryStrategy = RS_none | RS_fixed | RS_exponential

record RetryPolicy =
  rp_strategy :: RetryStrategy
  rp_initialDelayMs :: "number option"
  rp_maxDelayMs :: "number option"

record EnqueueJobRequest =
  ej_id :: "string option"
  ej_kind :: SchedulerJobKind
  ej_queue :: "string option"
  ej_principalId :: string
  ej_payload :: json
  ej_scheduledAt :: "number option"
  ej_notBefore :: "number option"
  ej_priority :: "number option"
  ej_concurrencyKey :: "string option"
  ej_maxAttempts :: "number option"
  ej_retryPolicy :: "RetryPolicy option"
  ej_idempotencyKey :: "string option"
  ej_budgetGrantId :: "string option"

record ClaimJobRequest =
  cj_workerId :: string
  cj_leaseMs :: number
  cj_kinds :: "SchedulerJobKind list option"
  cj_queues :: "string list option"

record HeartbeatJobRequest =
  hj_jobId :: string
  hj_workerId :: string
  hj_leaseToken :: string
  hj_leaseMs :: number

record CompleteJobRequest =
  kj_jobId :: string
  kj_workerId :: string
  kj_leaseToken :: string
  kj_result :: "json option"

record FailJobRequest =
  fj_jobId :: string
  fj_workerId :: string
  fj_leaseToken :: string
  fj_error :: json

record CancelJobRequest =
  xj_jobId :: string
  xj_reason :: string

record GetJobRequest =
  gj_jobId :: string

record ListJobsRequest =
  lj_state :: "SchedulerJobState option"
  lj_kind :: "SchedulerJobKind option"
  lj_limit :: "number option"

record SchedulerJobRecord =
  jb_id :: string
  jb_kind :: SchedulerJobKind
  jb_queue :: string
  jb_state :: SchedulerJobState
  jb_principalId :: string
  jb_payload :: json
  jb_scheduledAt :: number
  jb_notBefore :: "number option"
  jb_priority :: number
  jb_concurrencyKey :: "string option"
  jb_attempt :: number
  jb_maxAttempts :: number
  jb_retryPolicy :: RetryPolicy
  jb_idempotencyKey :: "string option"
  jb_budgetGrantId :: "string option"
  jb_leaseOwner :: "string option"
  jb_leaseToken :: "string option"
  jb_leaseExpiresAt :: "number option"
  jb_result :: "json option"
  jb_lastError :: "json option"
  jb_createdAt :: number
  jb_updatedAt :: number
  jb_finishedAt :: "number option"

section \<open>Delegation graphs\<close>

datatype DelegationGraphState = GS_open | GS_running | GS_succeeded | GS_failed | GS_cancelled

datatype DelegationNodeKind = NK_agent_task | NK_workspace_task | NK_tool_task | NK_aggregation

datatype DelegationNodeState =
    NS_pending | NS_ready | NS_running | NS_succeeded | NS_failed | NS_cancelled | NS_skipped

datatype DelegationDependencyKind = DK_after_success | DK_after_terminal

record DelegationGraphRecord =
  dg_id :: string
  dg_principalId :: string
  dg_title :: "string option"
  dg_state :: DelegationGraphState
  dg_metadata :: "json option"
  dg_createdAt :: number
  dg_updatedAt :: number
  dg_closedAt :: "number option"

record DelegationGraphNodeRecord =
  dn_id :: string
  dn_graphId :: string
  dn_kind :: DelegationNodeKind
  dn_principalId :: string
  dn_state :: DelegationNodeState
  dn_payload :: json
  dn_schedulerJobId :: "string option"
  dn_metadata :: "json option"
  dn_createdAt :: number
  dn_updatedAt :: number
  dn_startedAt :: "number option"
  dn_finishedAt :: "number option"

record DelegationGraphDependencyRecord =
  dd_id :: string
  dd_graphId :: string
  dd_fromNodeId :: string
  dd_toNodeId :: string
  dd_kind :: DelegationDependencyKind
  dd_createdAt :: number

record PutDelegationGraphRequest =
  pg_id :: "string option"
  pg_principalId :: string
  pg_title :: "string option"
  pg_metadata :: "json option"
  pg_idempotencyKey :: "string option"

record GetDelegationGraphRequest =
  gg_graphId :: string

record ListDelegationGraphsRequest =
  lg_principalId :: "string option"
  lg_state :: "DelegationGraphState option"
  lg_limit :: "number option"

record PutDelegationGraphNodeRequest =
  pn_id :: "string option"
  pn_graphId :: string
  pn_kind :: DelegationNodeKind
  pn_principalId :: string
  pn_payload :: json
  pn_metadata :: "json option"
  pn_idempotencyKey :: "string option"

record GetDelegationGraphNodeRequest =
  gn_nodeId :: string

record ListDelegationGraphNodesRequest =
  ln_graphId :: string
  ln_state :: "DelegationNodeState option"

record PutDelegationGraphDependencyRequest =
  pd_id :: "string option"
  pd_graphId :: string
  pd_fromNodeId :: string
  pd_toNodeId :: string
  pd_kind :: "DelegationDependencyKind option"

record ListDelegationGraphDependenciesRequest =
  ld_graphId :: string

record UpdateDelegationGraphStateRequest =
  ug_graphId :: string
  ug_state :: DelegationGraphState

record UpdateDelegationGraphNodeStateRequest =
  un_nodeId :: string
  un_state :: DelegationNodeState
  un_schedulerJobId :: "string option"
  un_metadata :: "json option"

record AttachDelegationGraphNodeJobRequest =
  an_nodeId :: string
  an_schedulerJobId :: string

record ListReadyDelegationGraphNodesRequest =
  lr_graphId :: string
  lr_limit :: "number option"

record MaterializeReadyDelegationGraphNodeRequest =
  mr_graphId :: string
  mr_nodeId :: "string option"
  mr_workerId :: string
  mr_jobId :: "string option"
  mr_jobKind :: SchedulerJobKind
  mr_jobPayload :: "json option"
  mr_scheduledAt :: "number option"
  mr_notBefore :: "number option"
  mr_priority :: "number option"
  mr_maxAttempts :: "number option"
  mr_retryPolicy :: "RetryPolicy option"
  mr_jobIdempotencyKey :: "string option"
  mr_budgetGrantId :: "string option"

record MaterializedDelegationGraphNode =
  mt_node :: DelegationGraphNodeRecord
  mt_job :: SchedulerJobRecord

section \<open>Texts of the enumerations\<close>

text \<open>The strings that the source uses for the enumerations, on the wire and in messages.\<close>

fun jobKindText :: "SchedulerJobKind \<Rightarrow> string" where
  "jobKindText JK_session_turn = ''session.turn''"
| "jobKindText JK_workspace_task = ''workspace.task''"
| "jobKindText JK_team_delivery = ''team.delivery''"
| "jobKindText JK_team_delivery_outcome = ''team.delivery.outcome''"
| "jobKindText JK_plugin_action = ''plugin.action''"
| "jobKindText JK_channel_delivery = ''channel.delivery''"
| "jobKindText JK_gateway_delivery = ''gateway.delivery''"
| "jobKindText JK_memory_compaction = ''memory.compaction''"
| "jobKindText JK_resource_cleanup = ''resource.cleanup''"
| "jobKindText JK_budget_grant_expire = ''budget.grant_expire''"
| "jobKindText JK_provider_retry = ''provider.retry''"
| "jobKindText JK_config_sync = ''config.sync''"
| "jobKindText JK_media_generate = ''media.generate''"

fun jobStateText :: "SchedulerJobState \<Rightarrow> string" where
  "jobStateText JS_pending = ''pending''"
| "jobStateText JS_ready = ''ready''"
| "jobStateText JS_running = ''running''"
| "jobStateText JS_waiting = ''waiting''"
| "jobStateText JS_succeeded = ''succeeded''"
| "jobStateText JS_retry_scheduled = ''retry_scheduled''"
| "jobStateText JS_failed = ''failed''"
| "jobStateText JS_cancelled = ''cancelled''"

fun strategyText :: "RetryStrategy \<Rightarrow> string" where
  "strategyText RS_none = ''none''"
| "strategyText RS_fixed = ''fixed''"
| "strategyText RS_exponential = ''exponential''"

fun graphStateText :: "DelegationGraphState \<Rightarrow> string" where
  "graphStateText GS_open = ''open''"
| "graphStateText GS_running = ''running''"
| "graphStateText GS_succeeded = ''succeeded''"
| "graphStateText GS_failed = ''failed''"
| "graphStateText GS_cancelled = ''cancelled''"

fun nodeKindText :: "DelegationNodeKind \<Rightarrow> string" where
  "nodeKindText NK_agent_task = ''agent_task''"
| "nodeKindText NK_workspace_task = ''workspace_task''"
| "nodeKindText NK_tool_task = ''tool_task''"
| "nodeKindText NK_aggregation = ''aggregation''"

fun nodeStateText :: "DelegationNodeState \<Rightarrow> string" where
  "nodeStateText NS_pending = ''pending''"
| "nodeStateText NS_ready = ''ready''"
| "nodeStateText NS_running = ''running''"
| "nodeStateText NS_succeeded = ''succeeded''"
| "nodeStateText NS_failed = ''failed''"
| "nodeStateText NS_cancelled = ''cancelled''"
| "nodeStateText NS_skipped = ''skipped''"

fun dependencyKindText :: "DelegationDependencyKind \<Rightarrow> string" where
  "dependencyKindText DK_after_success = ''after_success''"
| "dependencyKindText DK_after_terminal = ''after_terminal''"

end
