(* ===== verification/Rpc_Codec.thy ===== *)
theory Rpc_Codec
  imports Delegation_Types
begin

text \<open>
  The client side of the storage RPC: the JSON readers of
  packages/storage/src/codec-common.ts, the response envelope (envelope.ts) and the call loop
  with its retries (rpc-store-base.ts). A value that may be \<open>undefined\<close> is a \<open>json option\<close>; the
  property \<open>value.key\<close> of an object is \<open>map_of value key\<close>. The transport, which sends a command
  and returns the checked envelope, and the timer are arguments.
\<close>

section \<open>JSON values\<close>

fun toRpcJsonValue :: "json \<Rightarrow> json" where
  "toRpcJsonValue (JArr vs) = JArr (map toRpcJsonValue vs)"
| "toRpcJsonValue (JObj kvs) = JObj (map (\<lambda>(k, v). (k, toRpcJsonValue v)) kvs)"
| "toRpcJsonValue v = v"

text \<open>
  A value of type \<open>unknown\<close>: \<open>JsNonFinite\<close> is NaN or an infinity, \<open>JsObject plain entries\<close> an object
  whose prototype is \<open>Object.prototype\<close> or \<open>null\<close> when \<open>plain\<close>, and \<open>JsOther t\<close> any value whose
  \<open>typeof\<close> is \<open>t\<close> (undefined, function, symbol, bigint).
\<close>

datatype js_value =
    JsNull
  | JsBool bool
  | JsString string
  | JsNumber rat
  | JsNonFinite
  | JsArray "js_value list"
  | JsObject bool "(string \<times> js_value) list"
  | JsOther string

fun toRpcJsonValueFromUnknown :: "js_value \<Rightarrow> thrown + json" where
  "toRpcJsonValueFromUnknown JsNull = Inr JNull"
| "toRpcJsonValueFromUnknown (JsString s) = Inr (JStr s)"
| "toRpcJsonValueFromUnknown (JsBool b) = Inr (JBool b)"
| "toRpcJsonValueFromUnknown (JsNumber n) = Inr (JNum n)"
| "toRpcJsonValueFromUnknown JsNonFinite = Inl (plainError ''storage RPC JSON numbers must be finite'')"
| "toRpcJsonValueFromUnknown (JsArray vs) =
     res_bind (map_result toRpcJsonValueFromUnknown vs) (\<lambda>ws. Inr (JArr ws))"
| "toRpcJsonValueFromUnknown (JsObject plain kvs) =
     (if \<not> plain then Inl (plainError ''storage RPC JSON objects must be plain objects'')
      else res_bind (map_result (\<lambda>kv. res_bind (toRpcJsonValueFromUnknown (snd kv)) (\<lambda>w. Inr (fst kv, w))) kvs)
        (\<lambda>ws. Inr (JObj ws)))"
| "toRpcJsonValueFromUnknown (JsOther t) =
     Inl (plainError (''value of type '' @ t @ '' is not storage RPC JSON''))"

section \<open>Readers\<close>

fun isRecord :: "json option \<Rightarrow> bool" where
  "isRecord (Some (JObj m)) = True"
| "isRecord _ = False"

text \<open>\<open>readRecord\<close> is the test \<open>isRecord\<close> with its error, and the access to the object's entries.\<close>

fun readRecord :: "string \<Rightarrow> json \<Rightarrow> thrown + (string \<times> json) list" where
  "readRecord name (JObj m) = Inr m"
| "readRecord name v = Inl (plainError (name @ '' must be an object''))"

fun expectArray :: "json option \<Rightarrow> string \<Rightarrow> thrown + json list" where
  "expectArray (Some (JArr vs)) name = Inr vs"
| "expectArray v name = Inl (plainError (name @ '' must be an array''))"

definition assertArray :: "json \<Rightarrow> string \<Rightarrow> thrown + json list" where
  "assertArray v name = expectArray (Some v) name"

fun expectBoolean :: "json option \<Rightarrow> string \<Rightarrow> thrown + bool" where
  "expectBoolean (Some (JBool b)) name = Inr b"
| "expectBoolean v name = Inl (plainError (name @ '' must be a boolean''))"

definition expectJsonField :: "(string \<times> json) list \<Rightarrow> string \<Rightarrow> string \<Rightarrow> thrown + json" where
  "expectJsonField m k name =
     (case map_of m k of None \<Rightarrow> Inl (plainError (name @ '' must be present'')) | Some v \<Rightarrow> Inr v)"

fun expectString :: "json option \<Rightarrow> string \<Rightarrow> thrown + string" where
  "expectString (Some (JStr s)) name = Inr s"
| "expectString v name = Inl (plainError (name @ '' must be a string''))"

fun expectNumber :: "json option \<Rightarrow> string \<Rightarrow> thrown + number" where
  "expectNumber (Some (JNum n)) name = Inr n"
| "expectNumber v name = Inl (plainError (name @ '' must be a number''))"

definition nullish :: "json option \<Rightarrow> bool" where
  "nullish v = (v = None \<or> v = Some JNull)"

definition optionalString :: "json option \<Rightarrow> string \<Rightarrow> thrown + string option" where
  "optionalString v name =
     (if nullish v then Inr None else res_bind (expectString v name) (\<lambda>s. Inr (Some s)))"

definition optionalNumber :: "json option \<Rightarrow> string \<Rightarrow> thrown + number option" where
  "optionalNumber v name =
     (if nullish v then Inr None else res_bind (expectNumber v name) (\<lambda>n. Inr (Some n)))"

text \<open>\<open>value.key ?? undefined\<close>\<close>

definition optionalJson :: "json option \<Rightarrow> json option" where
  "optionalJson v = (if nullish v then None else v)"

text \<open>A string that must be one of the members of an enumeration, listed with their values.\<close>

definition expectMember :: "(string \<times> 'a) list \<Rightarrow> string \<Rightarrow> string \<Rightarrow> json option \<Rightarrow> thrown + 'a" where
  "expectMember members name what v =
     res_bind (expectString v name) (\<lambda>s.
     case map_of members s of
       None \<Rightarrow> Inl (plainError (''invalid '' @ what @ '': '' @ s))
     | Some x \<Rightarrow> Inr x)"

section \<open>Requests as JSON\<close>

text \<open>\<open>x ?? null\<close> for each kind of field.\<close>

definition nullOr :: "('a \<Rightarrow> json) \<Rightarrow> 'a option \<Rightarrow> json" where
  "nullOr f v = (case v of None \<Rightarrow> JNull | Some x \<Rightarrow> f x)"

lemma nullOr_simps [simp]: "nullOr f None = JNull" "nullOr f (Some x) = f x"
  by (simp_all add: nullOr_def)

section \<open>Calls\<close>

datatype response =
    RpcSuccess json
  | RpcFailure string string

definition parseResponseEnvelope :: "response \<Rightarrow> thrown + json" where
  "parseResponseEnvelope response =
     (case response of
        RpcSuccess v \<Rightarrow> Inr v
      | RpcFailure code message \<Rightarrow> Inl (CodedError ''SystemServiceClientError'' code message))"

definition lowerChar :: "char \<Rightarrow> char" where
  "lowerChar c = (let n = of_char c :: nat in if 65 \<le> n \<and> n \<le> 90 then char_of (n + 32) else c)"

fun js_includes :: "string \<Rightarrow> string \<Rightarrow> bool" where
  "js_includes [] sub = (sub = [])"
| "js_includes (c # cs) sub = (take (length sub) (c # cs) = sub \<or> js_includes cs sub)"

definition isTransientSqliteResponse :: "response \<Rightarrow> bool" where
  "isTransientSqliteResponse response =
     (case response of
        RpcSuccess v \<Rightarrow> False
      | RpcFailure code message \<Rightarrow>
          code = ''sqlite'' \<and>
          (js_includes (map lowerChar message) ''database is locked'' \<or>
           js_includes (map lowerChar message) ''database is busy''))"

definition DEFAULT_TRANSIENT_SQLITE_MAX_ATTEMPTS :: nat where
  "DEFAULT_TRANSIENT_SQLITE_MAX_ATTEMPTS = 4"

definition DEFAULT_TRANSIENT_SQLITE_INITIAL_DELAY_MS :: nat where
  "DEFAULT_TRANSIENT_SQLITE_INITIAL_DELAY_MS = 10"

definition backoffMs :: "nat \<Rightarrow> nat" where
  "backoffMs attempt = DEFAULT_TRANSIENT_SQLITE_INITIAL_DELAY_MS * 2 ^ (attempt - 1)"

record 's transport =
  rt_call :: "json \<Rightarrow> ('s, thrown, response) eff"
  rt_sleep :: "nat \<Rightarrow> ('s, thrown, unit) eff"

lemma eff_bind_cong [fundef_cong]:
  "m s = m' s' \<Longrightarrow> (\<And>x t. m' s' = (Inr x, t) \<Longrightarrow> f x t = g x t) \<Longrightarrow> eff_bind m f s = eff_bind m' g s'"
  by (auto simp: eff_bind_def split: prod.splits sum.splits)

function callFrom :: "'s transport \<Rightarrow> json \<Rightarrow> nat \<Rightarrow> 's \<Rightarrow> (thrown + json) \<times> 's" where
  "callFrom tr request attempt s =
     eff_bind (rt_call tr request) (\<lambda>response t.
       if \<not> isTransientSqliteResponse response then eff_result (parseResponseEnvelope response) t
       else if attempt + 1 \<ge> DEFAULT_TRANSIENT_SQLITE_MAX_ATTEMPTS then eff_result (parseResponseEnvelope response) t
       else eff_bind (rt_sleep tr (backoffMs (attempt + 1))) (\<lambda>_. callFrom tr request (attempt + 1)) t) s"
  by pat_completeness auto

termination
  by (relation "measure (\<lambda>(tr, request, attempt, s). 4 - attempt)") (auto simp: DEFAULT_TRANSIENT_SQLITE_MAX_ATTEMPTS_def)

declare callFrom.simps [simp del]

definition rpc_call :: "'s transport \<Rightarrow> json \<Rightarrow> ('s, thrown, json) eff" where
  "rpc_call tr request = callFrom tr request 0"


section \<open>Lemmas on values and readers\<close>

named_theorems codec_simps \<open>reading what was written\<close>

lemma toRpcJsonValue_id [simp]: "toRpcJsonValue v = v"
proof (induction v)
  case (JObj kvs)
  have "map (\<lambda>(k, v). (k, toRpcJsonValue v)) kvs = kvs"
  proof (rule map_idI)
    fix kv
    assume "kv \<in> set kvs"
    moreover obtain k v where "kv = (k, v)" by (cases kv)
    ultimately show "(case kv of (k, v) \<Rightarrow> (k, toRpcJsonValue v)) = kv" using JObj [of kv v] by simp
  qed
  then show ?case by simp
qed (simp_all add: map_idI)

lemma nullish_simps [simp]:
  "nullish None" "nullish (Some JNull)" "\<not> nullish (Some (JStr s))" "\<not> nullish (Some (JNum n))"
  by (simp_all add: nullish_def)

lemma nullOr_JStr [codec_simps]: "optionalString (Some (nullOr JStr v)) name = Inr v"
  by (cases v) (simp_all add: optionalString_def)

lemma nullOr_JNum [codec_simps]: "optionalNumber (Some (nullOr JNum v)) name = Inr v"
  by (cases v) (simp_all add: optionalNumber_def)

lemma nullOr_json [codec_simps]: "v \<noteq> Some JNull \<Longrightarrow> optionalJson (Some (nullOr (\<lambda>x. x) v)) = v"
  by (cases v) (auto simp: optionalJson_def nullish_def)

lemma readRecord_eq_Inr [result_simps]: "readRecord name v = Inr m \<longleftrightarrow> v = JObj m"
  by (cases v) simp_all

lemma expectString_eq_Inr [result_simps]: "expectString v name = Inr s \<longleftrightarrow> v = Some (JStr s)"
  by (cases "(v, name)" rule: expectString.cases) auto

lemma expectNumber_eq_Inr [result_simps]: "expectNumber v name = Inr n \<longleftrightarrow> v = Some (JNum n)"
  by (cases "(v, name)" rule: expectNumber.cases) auto

lemma assertArray_JArr [simp]: "assertArray (JArr vs) name = Inr vs"
  by (simp add: assertArray_def)

lemma expectMember_ok [codec_simps]:
  "map_of members s = Some x \<Longrightarrow> expectMember members name what (Some (JStr s)) = Inr x"
  by (simp add: expectMember_def)

lemma map_result_map:
  assumes "\<And>x. x \<in> set xs \<Longrightarrow> f (g x) = Inr x"
  shows "map_result f (map g xs) = Inr xs"
  using assms by (induction xs) simp_all

section \<open>Retries\<close>

text \<open>
  \<open>counted tr\<close> is the transport \<open>tr\<close> with two counters: the calls made and the milliseconds slept.
\<close>

definition counted :: "'s transport \<Rightarrow> ('s \<times> nat \<times> nat) transport" where
  "counted tr =
     \<lparr>rt_call = (\<lambda>r (s, c, ms). case rt_call tr r s of (x, t) \<Rightarrow> (x, t, c + 1, ms)),
      rt_sleep = (\<lambda>d (s, c, ms). case rt_sleep tr d s of (x, t) \<Rightarrow> (x, t, c, ms + d))\<rparr>"

lemma callFrom_counted:
  "callFrom (counted tr) r a (s, c, ms) = (x, (t, c', ms')) \<Longrightarrow> a < 4 \<Longrightarrow>
   c < c' \<and> c' \<le> c + (4 - a) \<and> ms' + 10 * 2 ^ a \<le> ms + 80"
proof (induction "4 - a" arbitrary: a s c ms rule: less_induct)
  case less
  obtain y u where call: "rt_call tr r s = (y, u)" by (cases "rt_call tr r s")
  have pow: "(2::nat) ^ a \<le> 2 ^ 3" using less.prems(2) by (intro power_increasing) auto
  show ?case
  proof (cases "\<exists>response. y = Inr response \<and> isTransientSqliteResponse response \<and> a < 3")
    case False
    then show ?thesis using less.prems pow
      by (subst (asm) callFrom.simps)
        (auto simp: counted_def call eff_simps DEFAULT_TRANSIENT_SQLITE_MAX_ATTEMPTS_def
          split: sum.splits if_splits prod.splits)
  next
    case True
    then obtain response where y: "y = Inr response" "isTransientSqliteResponse response" "a < 3" by auto
    obtain z v where slept: "rt_sleep tr (backoffMs (a + 1)) u = (z, v)" by (cases "rt_sleep tr (backoffMs (a + 1)) u")
    have ms: "backoffMs (a + 1) = 10 * 2 ^ a"
      by (simp add: backoffMs_def DEFAULT_TRANSIENT_SQLITE_INITIAL_DELAY_MS_def)
    have "2 ^ (a + 1) \<le> (8::nat)" using y(3) power_increasing [of "a + 1" 3 "2::nat"] by simp
    show ?thesis
    proof (cases z)
      case (Inl e)
      then show ?thesis using less.prems y slept ms \<open>2 ^ (a + 1) \<le> 8\<close>
        by (subst (asm) callFrom.simps) (auto simp: counted_def call eff_simps DEFAULT_TRANSIENT_SQLITE_MAX_ATTEMPTS_def)
    next
      case (Inr w)
      then have "callFrom (counted tr) r (a + 1) (v, c + 1, ms + backoffMs (a + 1)) = (x, (t, c', ms'))"
        using less.prems y slept
        by (subst (asm) callFrom.simps) (auto simp: counted_def call eff_simps DEFAULT_TRANSIENT_SQLITE_MAX_ATTEMPTS_def)
      moreover have "4 - (a + 1) < 4 - a" "a + 1 < 4" using y(3) by simp_all
      ultimately have "c + 1 < c' \<and> c' \<le> c + 1 + (4 - (a + 1)) \<and> ms' + 10 * 2 ^ (a + 1) \<le> ms + backoffMs (a + 1) + 80"
        by (intro less.hyps) auto
      then show ?thesis using y(3) ms by auto
    qed
  qed
qed

text \<open>
  \<open>locking tr\<close> answers the first \<open>n\<close> calls with the error of a locked database, without reaching
  the service, and the others with \<open>tr\<close>.
\<close>

definition locked_response :: response where
  "locked_response = RpcFailure ''sqlite'' ''sqlite error: database is locked''"

definition locking :: "'s transport \<Rightarrow> ('s \<times> nat) transport" where
  "locking tr =
     \<lparr>rt_call = (\<lambda>r (s, n). if n > 0 then (Inr locked_response, (s, n - 1))
        else (case rt_call tr r s of (x, t) \<Rightarrow> (x, (t, 0)))),
      rt_sleep = (\<lambda>d s. (Inr (), s))\<rparr>"

lemma locked_response_transient [simp]: "isTransientSqliteResponse locked_response"
  by code_simp

lemma callFrom_locked:
  "callFrom (locking tr) r a (s, Suc n) =
     (if a < 3 then callFrom (locking tr) r (Suc a) (s, n)
      else (parseResponseEnvelope locked_response, (s, n)))"
  by (subst callFrom.simps) (simp add: locking_def eff_simps DEFAULT_TRANSIENT_SQLITE_MAX_ATTEMPTS_def)

lemma callFrom_locking:
  "a + n < 4 \<Longrightarrow> callFrom (locking tr) r a (s, n) = callFrom (locking tr) r (a + n) (s, 0)"
  by (induction n arbitrary: a) (simp_all add: callFrom_locked)

lemma callFrom_steady:
  assumes "rt_call tr r s = (Inr response, t)" "\<not> isTransientSqliteResponse response"
  shows "callFrom tr r a s = (parseResponseEnvelope response, t)"
  using assms by (subst callFrom.simps) (simp add: eff_simps)

section \<open>Properties\<close>

text \<open>
  C32. A call of the storage client sends its command at least once and at most four times and
  sleeps at most 70 milliseconds in all, whatever the transport answers.
\<close>

theorem rpc_call_bounded:
  assumes "rpc_call (counted tr) request (s, 0, 0) = (outcome, (t, calls, slept))"
  shows "1 \<le> calls \<and> calls \<le> DEFAULT_TRANSIENT_SQLITE_MAX_ATTEMPTS \<and> slept \<le> 70"
  using callFrom_counted [of tr request 0 s 0 0 outcome t calls slept] assms
  by (simp add: rpc_call_def DEFAULT_TRANSIENT_SQLITE_MAX_ATTEMPTS_def)

definition idle_transport :: "unit transport" where
  "idle_transport = \<lparr>rt_call = (\<lambda>r s. (Inr (RpcSuccess r), s)), rt_sleep = (\<lambda>d s. (Inr (), s))\<rparr>"

text \<open>A service that is locked nine times: four calls and 10 + 20 + 40 milliseconds.\<close>

theorem rpc_call_bounded_witness:
  "snd (rpc_call (counted (locking idle_transport)) JNull (((), 9), 0, 0)) = (((), 5), 4, 70) \<and>
   (1::nat) \<le> 4 \<and> 4 \<le> DEFAULT_TRANSIENT_SQLITE_MAX_ATTEMPTS \<and> 70 \<le> (70::nat)"
proof -
  have run: "rpc_call (counted (locking idle_transport)) JNull (((), 9), 0, 0) =
      (parseResponseEnvelope locked_response, (((), 5), 4, 70))"
    by (simp add: rpc_call_def callFrom.simps counted_def locking_def eff_simps
        DEFAULT_TRANSIENT_SQLITE_MAX_ATTEMPTS_def backoffMs_def DEFAULT_TRANSIENT_SQLITE_INITIAL_DELAY_MS_def)
  show ?thesis using rpc_call_bounded [OF run] by (simp add: run)
qed

text \<open>
  C31. A call rides out up to three locked answers: it then returns what the service returns,
  and the service ran exactly once. From four locked answers on it reports the lock and the
  service did not run.
\<close>

theorem rpc_call_rides_out_locks:
  assumes "rt_call tr request s = (Inr response, t)"
    and "\<not> isTransientSqliteResponse response"
  shows "rpc_call (locking tr) request (s, n) =
    (if n < 4 then (parseResponseEnvelope response, (t, 0))
     else (Inl (CodedError ''SystemServiceClientError'' ''sqlite'' ''sqlite error: database is locked''), (s, n - 4)))"
proof (cases "n < 4")
  case True
  have "rt_call (locking tr) request (s, 0) = (Inr response, (t, 0))" by (simp add: locking_def assms(1))
  with True show ?thesis
    by (simp add: rpc_call_def callFrom_locking [of 0 n] callFrom_steady assms(2))
next
  case False
  then obtain k where "n = Suc (Suc (Suc (Suc k)))" using le_Suc_ex [of 4 n] by auto
  then show ?thesis
    by (simp add: rpc_call_def callFrom_locked parseResponseEnvelope_def locked_response_def)
qed

theorem rpc_call_rides_out_locks_witness:
  "rpc_call (locking idle_transport) (JNum 7) ((), 3) = (Inr (JNum 7), ((), 0))"
  using rpc_call_rides_out_locks [of idle_transport "JNum 7" "()" "RpcSuccess (JNum 7)" "()" 3]
  by (simp add: idle_transport_def isTransientSqliteResponse_def parseResponseEnvelope_def)

end
