(* ===== verification/Budget_Types.thy ===== *)
theory Budget_Types
  imports Delegation_Types
begin

text \<open>
  The data of budgets (packages/protocol/src/budget.ts) and the 64-bit arithmetic of the system
  service. \<open>BudgetLimit\<close> and \<open>BudgetUsage\<close> of the source have the same fields, and are one record
  here, as \<open>BudgetAmount\<close> of the service. A column of type \<open>i64\<close> is an integer among the numbers;
  \<open>i64_add\<close>, \<open>i64_sub\<close> wrap around, as the release build of the service does.
\<close>

section \<open>64-bit integers\<close>

definition wrap_i64 :: "number \<Rightarrow> number" where
  "wrap_i64 n = of_int ((\<lfloor>n\<rfloor> + 2 ^ 63) mod 2 ^ 64 - 2 ^ 63)"

definition i64_add :: "number \<Rightarrow> number \<Rightarrow> number" where
  "i64_add a b = wrap_i64 (a + b)"

definition i64_MAX :: number where
  "i64_MAX = 2 ^ 63 - 1"

definition i64_MIN :: number where
  "i64_MIN = - (2 ^ 63)"

definition in_i64 :: "number \<Rightarrow> bool" where
  "in_i64 n = (of_int \<lfloor>n\<rfloor> = n \<and> i64_MIN \<le> n \<and> n \<le> i64_MAX)"

lemma wrap_i64_id: "in_i64 n \<Longrightarrow> wrap_i64 n = n"
proof -
  assume n: "in_i64 n"
  then have f: "of_int \<lfloor>n\<rfloor> = n" "- (2 ^ 63) \<le> n" "n \<le> 2 ^ 63 - 1" by (simp_all add: in_i64_def i64_MIN_def i64_MAX_def)
  then have "- (2 ^ 63) \<le> \<lfloor>n\<rfloor>" "\<lfloor>n\<rfloor> \<le> 2 ^ 63 - 1"
    by (simp_all add: le_floor_iff floor_le_iff)
  then have "0 \<le> \<lfloor>n\<rfloor> + 2 ^ 63" "\<lfloor>n\<rfloor> + 2 ^ 63 < 2 ^ 63 + 2 ^ 63" by linarith+
  moreover have "(2 :: int) ^ 63 + 2 ^ 63 = 2 ^ 64" by simp
  ultimately have "(\<lfloor>n\<rfloor> + 2 ^ 63) mod 2 ^ 64 = \<lfloor>n\<rfloor> + 2 ^ 63" by (intro mod_pos_pos_trivial) (simp_all only:)
  with f(1) show ?thesis by (simp add: wrap_i64_def)
qed

lemma in_i64_add: "of_int \<lfloor>a\<rfloor> = a \<Longrightarrow> of_int \<lfloor>b\<rfloor> = b \<Longrightarrow> of_int \<lfloor>a + b\<rfloor> = (a + b :: number)"
  by (metis floor_of_int of_int_add)

lemma i64_add_small:
  "in_i64 a \<Longrightarrow> in_i64 b \<Longrightarrow> i64_MIN \<le> a + b \<Longrightarrow> a + b \<le> i64_MAX \<Longrightarrow> i64_add a b = a + b"
  unfolding i64_add_def by (rule wrap_i64_id) (simp add: in_i64_def in_i64_add)

lemma wrap_i64_in: "in_i64 (wrap_i64 n)"
proof -
  let ?k = "(\<lfloor>n\<rfloor> + 2 ^ 63) mod 2 ^ 64 - 2 ^ 63"
  have k: "- (2 ^ 63) \<le> ?k" "?k \<le> 2 ^ 63 - 1" by simp_all
  have "(of_int (- (2 ^ 63)) :: rat) \<le> of_int ?k" "(of_int ?k :: rat) \<le> of_int (2 ^ 63 - 1)"
    using k by (simp_all only: of_int_le_iff)
  then show ?thesis by (simp add: in_i64_def wrap_i64_def i64_MIN_def i64_MAX_def)
qed

section \<open>Budgets\<close>

datatype BudgetScopeKind =
    BK_session | BK_turn | BK_objective | BK_team_round | BK_plugin | BK_principal | BK_provider_model

datatype BudgetGrantState = BG_reserved | BG_committed | BG_released | BG_denied

datatype BudgetWindowKind = BW_run | BW_session | BW_day | BW_month

datatype BudgetScopeState = BS_active | BS_closed

record BudgetAmount =
  ba_tokens :: "number option"
  ba_costMicros :: "number option"
  ba_wallTimeMs :: "number option"
  ba_toolCalls :: "number option"

record BudgetScopeRef =
  bf_kind :: BudgetScopeKind
  bf_ownerId :: string
  bf_windowKind :: "BudgetWindowKind option"

record BudgetScopeRecord =
  bs_id :: string
  bs_kind :: BudgetScopeKind
  bs_ownerId :: string
  bs_limit :: BudgetAmount
  bs_usage :: BudgetAmount
  bs_windowKind :: BudgetWindowKind
  bs_state :: BudgetScopeState
  bs_createdAt :: number
  bs_updatedAt :: number

record ReserveBudgetRequest =
  rb_scope :: BudgetScopeRef
  rb_limit :: BudgetAmount
  rb_requested :: BudgetAmount
  rb_principalId :: string
  rb_reason :: string
  rb_idempotencyKey :: string
  rb_expiresAt :: "number option"

record BudgetGrantRecord =
  bg_id :: string
  bg_scopeId :: string
  bg_principalId :: string
  bg_reason :: string
  bg_requested :: BudgetAmount
  bg_committed :: "BudgetAmount option"
  bg_state :: BudgetGrantState
  bg_idempotencyKey :: string
  bg_expiresAt :: "number option"
  bg_createdAt :: number
  bg_updatedAt :: number

record CommitBudgetRequest =
  cb_grantId :: string

record RecordBudgetUsageRequest =
  ru_grantId :: string
  ru_usage :: BudgetAmount
  ru_source :: string
  ru_sourceId :: string
  ru_idempotencyKey :: string

record BudgetUsageEntryRecord = RecordBudgetUsageRequest +
  ue_id :: string
  ue_createdAt :: number

record RecordBudgetUsageReceipt =
  rr_entry :: BudgetUsageEntryRecord
  rr_created :: bool

record ReleaseBudgetRequest =
  lb_grantId :: string

text \<open>The strings of the enumerations.\<close>

fun scopeKindText :: "BudgetScopeKind \<Rightarrow> string" where
  "scopeKindText BK_session = ''session''"
| "scopeKindText BK_turn = ''turn''"
| "scopeKindText BK_objective = ''objective''"
| "scopeKindText BK_team_round = ''team_round''"
| "scopeKindText BK_plugin = ''plugin''"
| "scopeKindText BK_principal = ''principal''"
| "scopeKindText BK_provider_model = ''provider_model''"

fun grantStateText :: "BudgetGrantState \<Rightarrow> string" where
  "grantStateText BG_reserved = ''reserved''"
| "grantStateText BG_committed = ''committed''"
| "grantStateText BG_released = ''released''"
| "grantStateText BG_denied = ''denied''"

fun windowKindText :: "BudgetWindowKind \<Rightarrow> string" where
  "windowKindText BW_run = ''run''"
| "windowKindText BW_session = ''session''"
| "windowKindText BW_day = ''day''"
| "windowKindText BW_month = ''month''"

fun scopeStateText :: "BudgetScopeState \<Rightarrow> string" where
  "scopeStateText BS_active = ''active''"
| "scopeStateText BS_closed = ''closed''"

end
