(* ===== verification/Delegation_Store.thy ===== *)
theory Delegation_Store
  imports Budget_Types
begin

text \<open>
  The delegation graphs of the system service (crates/system-service/src/delegation.rs) and the
  part of the scheduler that they use (\<open>enqueue_job_tx\<close> of scheduler.rs). A table is the list of
  its rows in insertion order; a row with an idempotency key is paired with it. A call runs in
  one database transaction: an error leaves the tables as they were. The clock, the source of
  fresh identifiers and the hash function (\<open>now_ms\<close>, \<open>Uuid::now_v7\<close>, SHA-256) are part of the
  state. The tables of budgets belong to Budget_Store. The event log is left out, and the request
  types rule out what the validation of state and kind names rejects.
\<close>

section \<open>Errors and state\<close>

datatype service_error =
    SE_unique_dependency
  | SE_unique_job
  | SE_unique_scope
  | SE_unique_grant
  | SE_unique_usage
  | SE_no_rows
  | SE_budget_denied string string
  | SE_invalid_job string
  | SE_invariant string

fun service_error_text :: "service_error \<Rightarrow> string" where
  "service_error_text SE_unique_dependency =
     ''sqlite error: UNIQUE constraint failed: delegation_graph_dependency.id''"
| "service_error_text SE_unique_job = ''sqlite error: UNIQUE constraint failed: scheduler_job.id''"
| "service_error_text SE_unique_scope = ''sqlite error: UNIQUE constraint failed: budget_scope.id''"
| "service_error_text SE_unique_grant = ''sqlite error: UNIQUE constraint failed: budget_grant.id''"
| "service_error_text SE_unique_usage = ''sqlite error: UNIQUE constraint failed: budget_usage_entry.id''"
| "service_error_text SE_no_rows = ''sqlite error: Query returned no rows''"
| "service_error_text (SE_budget_denied scope reason) = ''budget denied for '' @ scope @ '': '' @ reason"
| "service_error_text (SE_invalid_job m) = ''invalid scheduler job request: '' @ m"
| "service_error_text (SE_invariant m) = ''internal invariant failed: '' @ m"

fun service_error_code :: "service_error \<Rightarrow> string" where
  "service_error_code SE_unique_dependency = ''sqlite''"
| "service_error_code SE_unique_job = ''sqlite''"
| "service_error_code SE_unique_scope = ''sqlite''"
| "service_error_code SE_unique_grant = ''sqlite''"
| "service_error_code SE_unique_usage = ''sqlite''"
| "service_error_code SE_no_rows = ''sqlite''"
| "service_error_code (SE_budget_denied scope reason) = ''budget_denied''"
| "service_error_code (SE_invalid_job m) = ''invalid_job_request''"
| "service_error_code (SE_invariant m) = ''invariant''"

record service =
  sv_now :: number
  sv_uuid :: "nat \<Rightarrow> string"
  sv_graphs :: "(DelegationGraphRecord \<times> string option) list"
  sv_nodes :: "(DelegationGraphNodeRecord \<times> string option) list"
  sv_deps :: "DelegationGraphDependencyRecord list"
  sv_jobs :: "SchedulerJobRecord list"
  sv_sha256 :: "string \<Rightarrow> string"
  sv_scopes :: "BudgetScopeRecord list"
  sv_grants :: "BudgetGrantRecord list"
  sv_usages :: "BudgetUsageEntryRecord list"

type_synonym 'a service_op = "service \<Rightarrow> service_error + ('a \<times> service)"

definition draw_uuids :: "nat \<Rightarrow> service \<Rightarrow> service" where
  "draw_uuids n s = s\<lparr>sv_uuid := \<lambda>i. sv_uuid s (n + i)\<rparr>"

definition invariant_guard :: "bool \<Rightarrow> string \<Rightarrow> service_error + unit" where
  "invariant_guard b m = guard b (SE_invariant m)"

definition opt_else :: "'a option \<Rightarrow> 'a \<Rightarrow> 'a" where
  "opt_else v d = (case v of None \<Rightarrow> d | Some x \<Rightarrow> x)"

definition require_some :: "string \<Rightarrow> 'a option \<Rightarrow> service_error + 'a" where
  "require_some m v = (case v of None \<Rightarrow> Inl (SE_invariant m) | Some x \<Rightarrow> Inr x)"

lemma opt_else_simps [simp]: "opt_else None d = d" "opt_else (Some x) d = x"
  by (simp_all add: opt_else_def)

lemma require_some_simps [simp]:
  "require_some m None = Inl (SE_invariant m)" "require_some m (Some x) = Inr x"
  by (simp_all add: require_some_def)

lemma require_some_eq_Inr [result_simps]: "require_some m v = Inr x \<longleftrightarrow> v = Some x"
  by (cases v) simp_all

lemma invariant_guard_eq_Inr [result_simps]: "invariant_guard b m = Inr u \<longleftrightarrow> b"
  by (simp add: invariant_guard_def result_simps)

section \<open>Queries\<close>

definition get_graph :: "service \<Rightarrow> string \<Rightarrow> DelegationGraphRecord option" where
  "get_graph s i = List.find (\<lambda>g. dg_id g = i) (map fst (sv_graphs s))"

definition get_node :: "service \<Rightarrow> string \<Rightarrow> DelegationGraphNodeRecord option" where
  "get_node s i = List.find (\<lambda>n. dn_id n = i) (map fst (sv_nodes s))"

definition get_job_row :: "service \<Rightarrow> string \<Rightarrow> SchedulerJobRecord option" where
  "get_job_row s i = List.find (\<lambda>j. jb_id j = i) (sv_jobs s)"

fun graph_state_is_terminal :: "DelegationGraphState \<Rightarrow> bool" where
  "graph_state_is_terminal st = (st \<in> {GS_succeeded, GS_failed, GS_cancelled})"

fun node_state_is_terminal :: "DelegationNodeState \<Rightarrow> bool" where
  "node_state_is_terminal st = (st \<in> {NS_succeeded, NS_failed, NS_cancelled, NS_skipped})"

definition sql_compare :: "number \<Rightarrow> string \<Rightarrow> number \<Rightarrow> string \<Rightarrow> int" where
  "sql_compare a i b j =
     (if a < b then -1 else if b < a then 1 else if i < j then -1 else if j < i then 1 else 0)"

definition compare_nodes :: "DelegationGraphNodeRecord \<Rightarrow> DelegationGraphNodeRecord \<Rightarrow> int" where
  "compare_nodes l r = sql_compare (dn_createdAt l) (dn_id l) (dn_createdAt r) (dn_id r)"

definition compare_deps :: "DelegationGraphDependencyRecord \<Rightarrow> DelegationGraphDependencyRecord \<Rightarrow> int" where
  "compare_deps l r = sql_compare (dd_createdAt l) (dd_id l) (dd_createdAt r) (dd_id r)"

definition compare_graphs :: "DelegationGraphRecord \<Rightarrow> DelegationGraphRecord \<Rightarrow> int" where
  "compare_graphs l r = sql_compare (dg_updatedAt r) (dg_id l) (dg_updatedAt l) (dg_id r)"

definition clamp_number :: "number option \<Rightarrow> nat" where
  "clamp_number limit = nat \<lfloor>max 1 (min 1000 (opt_else limit 100))\<rfloor>"

text \<open>
  The condition of \<open>list_ready_delegation_graph_nodes\<close>, of \<open>find_materializable_node_tx\<close> and of
  the update of \<open>materialize_ready_delegation_graph_node\<close>: the dependency is joined with its
  source node.
\<close>

definition dependency_blocks :: "DelegationDependencyKind \<Rightarrow> DelegationNodeState \<Rightarrow> bool" where
  "dependency_blocks kind st =
     (kind = DK_after_success \<and> st \<noteq> NS_succeeded \<or>
      kind = DK_after_terminal \<and> st \<notin> {NS_succeeded, NS_failed, NS_cancelled, NS_skipped})"

definition blocking_row :: "service \<Rightarrow> DelegationGraphNodeRecord \<Rightarrow> DelegationGraphDependencyRecord \<Rightarrow> bool" where
  "blocking_row s n d =
     (dd_graphId d = dn_graphId n \<and> dd_toNodeId d = dn_id n \<and>
      list_ex (\<lambda>m. dn_id m = dd_fromNodeId d \<and> dependency_blocks (dd_kind d) (dn_state m)) (map fst (sv_nodes s)))"

definition graph_accepts :: "service \<Rightarrow> string \<Rightarrow> bool" where
  "graph_accepts s i = list_ex (\<lambda>g. dg_id g = i \<and> dg_state g \<in> {GS_open, GS_running}) (map fst (sv_graphs s))"

definition ready_row :: "service \<Rightarrow> DelegationGraphNodeRecord \<Rightarrow> bool" where
  "ready_row s n =
     (dn_state n \<in> {NS_pending, NS_ready} \<and> dn_schedulerJobId n = None \<and> graph_accepts s (dn_graphId n) \<and>
      \<not> list_ex (blocking_row s n) (sv_deps s))"

section \<open>Graphs\<close>

definition validate_put_graph :: "PutDelegationGraphRequest \<Rightarrow> service_error + unit" where
  "validate_put_graph r =
     res_bind (invariant_guard (pg_principalId r \<noteq> []) ''delegation graph principal_id must not be empty'') (\<lambda>_.
     invariant_guard (pg_id r \<noteq> Some [] \<and> pg_idempotencyKey r \<noteq> Some [])
       ''delegation graph id/idempotency_key must not be empty'')"

definition validate_existing_graph :: "DelegationGraphRecord \<Rightarrow> PutDelegationGraphRequest \<Rightarrow> service_error + unit" where
  "validate_existing_graph g r =
     invariant_guard (dg_principalId g = pg_principalId r \<and> dg_title g = pg_title r \<and> dg_metadata g = pg_metadata r)
       (''delegation graph id already exists with different content: '' @ dg_id g)"

definition find_key :: "('r \<times> string option) list \<Rightarrow> string option \<Rightarrow> 'r option" where
  "find_key rows key = (case key of None \<Rightarrow> None
     | Some k \<Rightarrow> map_option fst (List.find (\<lambda>row. snd row = Some k) rows))"

definition put_delegation_graph :: "PutDelegationGraphRequest \<Rightarrow> DelegationGraphRecord service_op" where
  "put_delegation_graph r s =
     res_bind (validate_put_graph r) (\<lambda>_.
     let i = opt_else (pg_id r) (''dgraph_'' @ sv_uuid s 0) in
     case find_key (sv_graphs s) (pg_idempotencyKey r) of
       Some g \<Rightarrow> res_bind (validate_existing_graph g r) (\<lambda>_. Inr (g, s))
     | None \<Rightarrow>
     (case get_graph s i of
       Some g \<Rightarrow> res_bind (validate_existing_graph g r) (\<lambda>_. Inr (g, s))
     | None \<Rightarrow>
       (let g = \<lparr>dg_id = i, dg_principalId = pg_principalId r, dg_title = pg_title r, dg_state = GS_open,
              dg_metadata = pg_metadata r, dg_createdAt = sv_now s, dg_updatedAt = sv_now s, dg_closedAt = None\<rparr>
        in Inr (g, draw_uuids 1 (s\<lparr>sv_graphs := sv_graphs s @ [(g, pg_idempotencyKey r)]\<rparr>)))))"

definition get_delegation_graph :: "string \<Rightarrow> DelegationGraphRecord option service_op" where
  "get_delegation_graph i s =
     res_bind (invariant_guard (i \<noteq> []) ''delegation graph id must not be empty'') (\<lambda>_. Inr (get_graph s i, s))"

definition list_delegation_graphs :: "ListDelegationGraphsRequest \<Rightarrow> DelegationGraphRecord list service_op" where
  "list_delegation_graphs r s =
     Inr (take (clamp_number (lg_limit r)) (sort_by compare_graphs
       (filter (\<lambda>g. (case lg_principalId r of None \<Rightarrow> True | Some p \<Rightarrow> dg_principalId g = p) \<and>
                    (case lg_state r of None \<Rightarrow> True | Some st \<Rightarrow> dg_state g = st))
          (map fst (sv_graphs s)))), s)"

definition replace_graph :: "DelegationGraphRecord \<Rightarrow> service \<Rightarrow> service" where
  "replace_graph g s = s\<lparr>sv_graphs := map (\<lambda>(h, k). (if dg_id h = dg_id g then g else h, k)) (sv_graphs s)\<rparr>"

definition validate_graph_transition :: "DelegationGraphState \<Rightarrow> DelegationGraphState \<Rightarrow> service_error + unit" where
  "validate_graph_transition f t =
     invariant_guard (\<not> (graph_state_is_terminal f \<and> f \<noteq> t))
       (''invalid delegation graph transition: '' @ graphStateText f @ ''/'' @ graphStateText t)"

definition update_delegation_graph_state :: "UpdateDelegationGraphStateRequest \<Rightarrow> DelegationGraphRecord service_op" where
  "update_delegation_graph_state r s =
     res_bind (invariant_guard (ug_graphId r \<noteq> []) ''delegation graph id must not be empty'') (\<lambda>_.
     res_bind (require_some (''delegation graph does not exist: '' @ ug_graphId r) (get_graph s (ug_graphId r))) (\<lambda>g.
     res_bind (validate_graph_transition (dg_state g) (ug_state r)) (\<lambda>_.
     let g' = g\<lparr>dg_state := ug_state r, dg_updatedAt := sv_now s,
                dg_closedAt := (if graph_state_is_terminal (ug_state r) then Some (sv_now s) else None)\<rparr>
     in Inr (g', replace_graph g' s))))"

section \<open>Nodes\<close>

definition validate_put_node :: "PutDelegationGraphNodeRequest \<Rightarrow> service_error + unit" where
  "validate_put_node r =
     res_bind (invariant_guard (pn_graphId r \<noteq> [] \<and> pn_principalId r \<noteq> [])
       ''delegation node graph_id/principal_id must not be empty'') (\<lambda>_.
     invariant_guard (pn_id r \<noteq> Some [] \<and> pn_idempotencyKey r \<noteq> Some [])
       ''delegation node id/idempotency_key must not be empty'')"

definition validate_existing_node :: "DelegationGraphNodeRecord \<Rightarrow> PutDelegationGraphNodeRequest \<Rightarrow> service_error + unit" where
  "validate_existing_node n r =
     invariant_guard (dn_graphId n = pn_graphId r \<and> dn_kind n = pn_kind r \<and> dn_principalId n = pn_principalId r \<and>
         dn_payload n = pn_payload r \<and> dn_metadata n = pn_metadata r)
       (''delegation node id already exists with different content: '' @ dn_id n)"

definition put_delegation_graph_node :: "PutDelegationGraphNodeRequest \<Rightarrow> DelegationGraphNodeRecord service_op" where
  "put_delegation_graph_node r s =
     res_bind (validate_put_node r) (\<lambda>_.
     let i = opt_else (pn_id r) (''dnode_'' @ sv_uuid s 0) in
     res_bind (require_some (''delegation graph does not exist: '' @ pn_graphId r) (get_graph s (pn_graphId r))) (\<lambda>_.
     case find_key (sv_nodes s) (pn_idempotencyKey r) of
       Some n \<Rightarrow> res_bind (validate_existing_node n r) (\<lambda>_. Inr (n, s))
     | None \<Rightarrow>
     (case get_node s i of
       Some n \<Rightarrow> res_bind (validate_existing_node n r) (\<lambda>_. Inr (n, s))
     | None \<Rightarrow>
       (let n = \<lparr>dn_id = i, dn_graphId = pn_graphId r, dn_kind = pn_kind r, dn_principalId = pn_principalId r,
              dn_state = NS_pending, dn_payload = pn_payload r, dn_schedulerJobId = None,
              dn_metadata = pn_metadata r, dn_createdAt = sv_now s, dn_updatedAt = sv_now s,
              dn_startedAt = None, dn_finishedAt = None\<rparr>
        in Inr (n, draw_uuids 1 (s\<lparr>sv_nodes := sv_nodes s @ [(n, pn_idempotencyKey r)]\<rparr>))))))"

definition get_delegation_graph_node :: "GetDelegationGraphNodeRequest \<Rightarrow> DelegationGraphNodeRecord option service_op" where
  "get_delegation_graph_node r s =
     res_bind (invariant_guard (gn_nodeId r \<noteq> []) ''delegation node id must not be empty'') (\<lambda>_.
     Inr (get_node s (gn_nodeId r), s))"

definition list_delegation_graph_nodes :: "ListDelegationGraphNodesRequest \<Rightarrow> DelegationGraphNodeRecord list service_op" where
  "list_delegation_graph_nodes r s =
     res_bind (invariant_guard (ln_graphId r \<noteq> []) ''delegation node graph_id must not be empty'') (\<lambda>_.
     Inr (sort_by compare_nodes
       (filter (\<lambda>n. dn_graphId n = ln_graphId r \<and> (case ln_state r of None \<Rightarrow> True | Some st \<Rightarrow> dn_state n = st))
          (map fst (sv_nodes s))), s))"

definition replace_node :: "DelegationGraphNodeRecord \<Rightarrow> service \<Rightarrow> service" where
  "replace_node n s = s\<lparr>sv_nodes := map (\<lambda>(m, k). (if dn_id m = dn_id n then n else m, k)) (sv_nodes s)\<rparr>"

definition validate_node_transition :: "DelegationNodeState \<Rightarrow> DelegationNodeState \<Rightarrow> service_error + unit" where
  "validate_node_transition f t =
     invariant_guard (\<not> (node_state_is_terminal f \<and> f \<noteq> t))
       (''invalid delegation node transition: '' @ nodeStateText f @ ''/'' @ nodeStateText t)"

definition coalesce :: "'a option \<Rightarrow> 'a option \<Rightarrow> 'a option" where
  "coalesce a b = (case a of None \<Rightarrow> b | Some x \<Rightarrow> Some x)"

lemma coalesce_simps [simp]: "coalesce None b = b" "coalesce (Some x) b = Some x"
  by (simp_all add: coalesce_def)

definition update_delegation_graph_node_state ::
  "UpdateDelegationGraphNodeStateRequest \<Rightarrow> DelegationGraphNodeRecord service_op" where
  "update_delegation_graph_node_state r s =
     res_bind (invariant_guard (un_nodeId r \<noteq> []) ''delegation node id must not be empty'') (\<lambda>_.
     res_bind (require_some (''delegation node does not exist: '' @ un_nodeId r) (get_node s (un_nodeId r))) (\<lambda>n.
     res_bind (validate_node_transition (dn_state n) (un_state r)) (\<lambda>_.
     let n' = n\<lparr>dn_state := un_state r,
                dn_schedulerJobId := coalesce (un_schedulerJobId r) (dn_schedulerJobId n),
                dn_metadata := coalesce (un_metadata r) (dn_metadata n),
                dn_updatedAt := sv_now s,
                dn_startedAt := coalesce (dn_startedAt n) (if un_state r = NS_running then Some (sv_now s) else None),
                dn_finishedAt := coalesce (if node_state_is_terminal (un_state r) then Some (sv_now s) else None)
                  (dn_finishedAt n)\<rparr>
     in Inr (n', replace_node n' s))))"

definition attach_delegation_graph_node_job :: "AttachDelegationGraphNodeJobRequest \<Rightarrow> DelegationGraphNodeRecord service_op" where
  "attach_delegation_graph_node_job r s =
     res_bind (invariant_guard (an_nodeId r \<noteq> [] \<and> an_schedulerJobId r \<noteq> [])
       ''delegation node id and scheduler_job_id must not be empty'') (\<lambda>_.
     res_bind (require_some (''delegation node does not exist: '' @ an_nodeId r) (get_node s (an_nodeId r))) (\<lambda>n.
     let n' = n\<lparr>dn_schedulerJobId := Some (an_schedulerJobId r), dn_updatedAt := sv_now s\<rparr>
     in Inr (n', replace_node n' s)))"

section \<open>Dependencies\<close>

definition validate_put_dependency :: "PutDelegationGraphDependencyRequest \<Rightarrow> service_error + unit" where
  "validate_put_dependency r =
     invariant_guard (pd_graphId r \<noteq> [] \<and> pd_fromNodeId r \<noteq> [] \<and> pd_toNodeId r \<noteq> [])
       ''delegation dependency graph/from/to ids must not be empty''"

definition put_delegation_graph_dependency ::
  "PutDelegationGraphDependencyRequest \<Rightarrow> DelegationGraphDependencyRecord service_op" where
  "put_delegation_graph_dependency r s =
     res_bind (validate_put_dependency r) (\<lambda>_.
     let i = opt_else (pd_id r) (''ddep_'' @ sv_uuid s 0); kind = opt_else (pd_kind r) DK_after_success in
     res_bind (require_some (''delegation dependency from node does not exist: '' @ pd_fromNodeId r)
       (get_node s (pd_fromNodeId r))) (\<lambda>from_node.
     res_bind (require_some (''delegation dependency to node does not exist: '' @ pd_toNodeId r)
       (get_node s (pd_toNodeId r))) (\<lambda>to_node.
     res_bind (invariant_guard (dn_graphId from_node = pd_graphId r \<and> dn_graphId to_node = pd_graphId r)
       ''delegation dependency nodes must belong to graph'') (\<lambda>_.
     res_bind (invariant_guard (pd_fromNodeId r \<noteq> pd_toNodeId r)
       ''delegation dependency cannot target the same node'') (\<lambda>_.
     case List.find (\<lambda>d. dd_graphId d = pd_graphId r \<and> dd_fromNodeId d = pd_fromNodeId r \<and>
                    dd_toNodeId d = pd_toNodeId r \<and> dd_kind d = kind) (sv_deps s) of
       Some d \<Rightarrow> Inr (d, s)
     | None \<Rightarrow>
         res_bind (guard (\<not> list_ex (\<lambda>d. dd_id d = i) (sv_deps s))
           SE_unique_dependency) (\<lambda>_.
         let d = \<lparr>dd_id = i, dd_graphId = pd_graphId r, dd_fromNodeId = pd_fromNodeId r,
                dd_toNodeId = pd_toNodeId r, dd_kind = kind, dd_createdAt = sv_now s\<rparr>
         in Inr (d, draw_uuids 1 (s\<lparr>sv_deps := sv_deps s @ [d]\<rparr>))))))))"

definition list_delegation_graph_dependencies ::
  "ListDelegationGraphDependenciesRequest \<Rightarrow> DelegationGraphDependencyRecord list service_op" where
  "list_delegation_graph_dependencies r s =
     res_bind (invariant_guard (ld_graphId r \<noteq> []) ''delegation dependency graph_id must not be empty'') (\<lambda>_.
     Inr (sort_by compare_deps (filter (\<lambda>d. dd_graphId d = ld_graphId r) (sv_deps s)), s))"

section \<open>Jobs\<close>

definition queue_char :: "char \<Rightarrow> bool" where
  "queue_char c =
     (let n = of_char c :: nat in
      48 \<le> n \<and> n \<le> 57 \<or> 65 \<le> n \<and> n \<le> 90 \<or> 97 \<le> n \<and> n \<le> 122 \<or> c \<in> set ''._-'')"

definition quoted :: "char \<Rightarrow> string" where
  "quoted c = [CHR 0x27, c, CHR 0x27]"

definition validate_queue :: "string option \<Rightarrow> service_error + unit" where
  "validate_queue queue = (case queue of None \<Rightarrow> Inr ()
     | Some q \<Rightarrow> guard (q \<noteq> [] \<and> length q \<le> 128 \<and> list_all queue_char q)
         (SE_invalid_job (''job queue must be a non-empty opaque identifier of at most 128 ASCII letters, '' @
           ''digits, '' @ quoted (CHR ''.'') @ '', '' @ quoted (CHR ''_'') @ '' or '' @ quoted (CHR ''-''))))"

definition validate_enqueue :: "EnqueueJobRequest \<Rightarrow> service_error + unit" where
  "validate_enqueue r =
     res_bind (guard (ej_principalId r \<noteq> []) (SE_invalid_job ''principal_id must not be empty'')) (\<lambda>_.
     res_bind (guard (opt_else (ej_maxAttempts r) 1 > 0) (SE_invalid_job ''max_attempts must be positive'')) (\<lambda>_.
     validate_queue (ej_queue r)))"

definition defaultRetryPolicy :: RetryPolicy where
  "defaultRetryPolicy = \<lparr>rp_strategy = RS_none, rp_initialDelayMs = None, rp_maxDelayMs = None\<rparr>"

definition new_job :: "EnqueueJobRequest \<Rightarrow> number \<Rightarrow> string \<Rightarrow> SchedulerJobRecord" where
  "new_job r now i =
     (let scheduled_at = opt_else (ej_scheduledAt r) now in
      \<lparr>jb_id = i, jb_kind = ej_kind r, jb_queue = opt_else (ej_queue r) DEFAULT_SCHEDULER_QUEUE,
       jb_state = (if opt_else (ej_notBefore r) scheduled_at \<le> now then JS_ready else JS_pending),
       jb_principalId = ej_principalId r, jb_payload = ej_payload r, jb_scheduledAt = scheduled_at,
       jb_notBefore = ej_notBefore r, jb_priority = opt_else (ej_priority r) 0,
       jb_concurrencyKey = ej_concurrencyKey r, jb_attempt = 0, jb_maxAttempts = opt_else (ej_maxAttempts r) 1,
       jb_retryPolicy = opt_else (ej_retryPolicy r) defaultRetryPolicy, jb_idempotencyKey = ej_idempotencyKey r,
       jb_budgetGrantId = ej_budgetGrantId r, jb_leaseOwner = None, jb_leaseToken = None, jb_leaseExpiresAt = None,
       jb_result = None, jb_lastError = None, jb_createdAt = now, jb_updatedAt = now, jb_finishedAt = None\<rparr>)"

definition enqueue_job_tx ::
  "EnqueueJobRequest \<Rightarrow> number \<Rightarrow> string \<Rightarrow> SchedulerJobRecord list \<Rightarrow>
   service_error + (SchedulerJobRecord \<times> SchedulerJobRecord list)" where
  "enqueue_job_tx r now uuid jobs =
     res_bind (validate_enqueue r) (\<lambda>_.
     let i = opt_else (ej_id r) (''job_'' @ uuid) in
     case (case ej_idempotencyKey r of None \<Rightarrow> None
           | Some k \<Rightarrow> List.find (\<lambda>j. jb_idempotencyKey j = Some k) jobs) of
       Some job \<Rightarrow> Inr (job, jobs)
     | None \<Rightarrow>
         res_bind (guard (\<not> list_ex (\<lambda>j. jb_id j = i) jobs)
           SE_unique_job) (\<lambda>_.
         Inr (new_job r now i, jobs @ [new_job r now i])))"

definition get_job :: "GetJobRequest \<Rightarrow> SchedulerJobRecord option service_op" where
  "get_job r s = Inr (get_job_row s (gj_jobId r), s)"

section \<open>Ready nodes\<close>

definition list_ready_delegation_graph_nodes ::
  "ListReadyDelegationGraphNodesRequest \<Rightarrow> DelegationGraphNodeRecord list service_op" where
  "list_ready_delegation_graph_nodes r s =
     res_bind (invariant_guard (lr_graphId r \<noteq> []) ''delegation ready graph_id must not be empty'') (\<lambda>_.
     Inr (take (clamp_number (lr_limit r)) (sort_by compare_nodes
       (filter (\<lambda>n. dn_graphId n = lr_graphId r \<and> ready_row s n) (map fst (sv_nodes s)))), s))"

definition validate_materialize_ready_node :: "MaterializeReadyDelegationGraphNodeRequest \<Rightarrow> service_error + unit" where
  "validate_materialize_ready_node r =
     res_bind (invariant_guard (mr_graphId r \<noteq> [] \<and> mr_workerId r \<noteq> [])
       ''delegation materialize graph_id/worker_id must not be empty'') (\<lambda>_.
     res_bind (invariant_guard (mr_nodeId r \<noteq> Some [] \<and> mr_jobId r \<noteq> Some [] \<and> mr_jobIdempotencyKey r \<noteq> Some [])
       ''delegation materialize node/job/idempotency ids must not be empty'') (\<lambda>_.
     invariant_guard (mr_jobKind r \<noteq> JK_session_turn)
       ''delegation materialization cannot create an orphan session.turn job''))"

definition find_materializable_node ::
  "MaterializeReadyDelegationGraphNodeRequest \<Rightarrow> service \<Rightarrow> DelegationGraphNodeRecord option" where
  "find_materializable_node r s =
     (case sort_by compare_nodes (filter (\<lambda>n. dn_graphId n = mr_graphId r \<and> ready_row s n \<and>
          (case mr_nodeId r of None \<Rightarrow> True | Some i \<Rightarrow> dn_id n = i)) (map fst (sv_nodes s))) of
        [] \<Rightarrow> None | n # _ \<Rightarrow> Some n)"

definition materialized_node_metadata ::
  "json option \<Rightarrow> string \<Rightarrow> string \<Rightarrow> string \<Rightarrow> number \<Rightarrow> json" where
  "materialized_node_metadata existing worker_id job_kind job_id materialized_at =
     JObj (foldl (\<lambda>m (k, v). AList.update k v m)
       (case existing of None \<Rightarrow> [] | Some (JObj m) \<Rightarrow> m | Some v \<Rightarrow> [(''previous'', v)])
       [(''materializedBy'', JStr worker_id), (''materializedJobKind'', JStr job_kind),
        (''materializedJobId'', JStr job_id), (''materializedAt'', JNum materialized_at)])"

definition materializeJob ::
  "MaterializeReadyDelegationGraphNodeRequest \<Rightarrow> DelegationGraphNodeRecord \<Rightarrow> EnqueueJobRequest" where
  "materializeJob r n =
     \<lparr>ej_id = mr_jobId r, ej_kind = mr_jobKind r, ej_queue = None, ej_principalId = dn_principalId n,
      ej_payload = JObj [(''delegationGraphId'', JStr (mr_graphId r)), (''delegationNodeId'', JStr (dn_id n)),
        (''nodeKind'', JStr (nodeKindText (dn_kind n))), (''payload'', opt_else (mr_jobPayload r) (dn_payload n))],
      ej_scheduledAt = mr_scheduledAt r, ej_notBefore = mr_notBefore r, ej_priority = mr_priority r,
      ej_concurrencyKey = None, ej_maxAttempts = mr_maxAttempts r, ej_retryPolicy = mr_retryPolicy r,
      ej_idempotencyKey = Some (opt_else (mr_jobIdempotencyKey r)
        (''delegation:'' @ mr_graphId r @ '':'' @ dn_id n @ '':job'')),
      ej_budgetGrantId = mr_budgetGrantId r\<rparr>"

text \<open>
  The code takes the node with a temporary token, enqueues the job, and then puts the job in the
  place of the token. The first update repeats the condition that found the node in the same
  database transaction, so it always takes that row, and the two updates are one here.
\<close>

definition materialize_ready_delegation_graph_node ::
  "MaterializeReadyDelegationGraphNodeRequest \<Rightarrow> MaterializedDelegationGraphNode option service_op" where
  "materialize_ready_delegation_graph_node r s =
     res_bind (validate_materialize_ready_node r) (\<lambda>_.
     case find_materializable_node r s of
       None \<Rightarrow> Inr (None, s)
     | Some n \<Rightarrow>
         res_bind (enqueue_job_tx (materializeJob r n) (sv_now s) (sv_uuid s 1) (sv_jobs s)) (\<lambda>(job, jobs).
         let n' = n\<lparr>dn_state := NS_running, dn_schedulerJobId := Some (jb_id job),
                    dn_metadata := Some (materialized_node_metadata (dn_metadata n) (mr_workerId r)
                      (jobKindText (mr_jobKind r)) (jb_id job) (sv_now s)),
                    dn_updatedAt := sv_now s, dn_startedAt := coalesce (dn_startedAt n) (Some (sv_now s))\<rparr>
         in Inr (Some \<lparr>mt_node = n', mt_job = job\<rparr>, draw_uuids 2 (replace_node n' (s\<lparr>sv_jobs := jobs\<rparr>)))))"

end
