(* ===== verification/Delegation_Codec.thy ===== *)
theory Delegation_Codec
  imports Rpc_Codec Delegation_Store "HOL-Library.Monad_Syntax"
begin

text \<open>
  The delegation part of the storage RPC. Client: the request writers
  (packages/storage/src/codec-delegation-requests.ts, codec-job.ts), the record readers
  (codec-graph-records.ts, codec-graph-enums.ts, codec-scheduler-enums.ts, codec-job.ts) and the
  methods of \<open>DelegationStoreMethods\<close> (store-delegation.ts) and \<open>getJob\<close> of \<open>JobStoreMethods\<close>
  (store-job.ts) over a transport. Service: the dispatcher of crates/system-service/src/rpc.rs
  with the derived JSON forms of the structs of models.rs. Main result: the client over the
  service is the service.
\<close>

section \<open>Readers of enumerations\<close>

definition graphStates :: "(string \<times> DelegationGraphState) list" where
  "graphStates = map (\<lambda>x. (graphStateText x, x)) [GS_open, GS_running, GS_succeeded, GS_failed, GS_cancelled]"

definition expectDelegationGraphState :: "json option \<Rightarrow> thrown + DelegationGraphState" where
  "expectDelegationGraphState = expectMember graphStates ''delegation_graph.state'' ''delegation graph state''"

definition nodeKinds :: "(string \<times> DelegationNodeKind) list" where
  "nodeKinds = map (\<lambda>x. (nodeKindText x, x)) [NK_agent_task, NK_workspace_task, NK_tool_task, NK_aggregation]"

definition expectDelegationNodeKind :: "json option \<Rightarrow> thrown + DelegationNodeKind" where
  "expectDelegationNodeKind = expectMember nodeKinds ''delegation_graph_node.kind'' ''delegation node kind''"

definition nodeStates :: "(string \<times> DelegationNodeState) list" where
  "nodeStates = map (\<lambda>x. (nodeStateText x, x))
     [NS_pending, NS_ready, NS_running, NS_succeeded, NS_failed, NS_cancelled, NS_skipped]"

definition expectDelegationNodeState :: "json option \<Rightarrow> thrown + DelegationNodeState" where
  "expectDelegationNodeState = expectMember nodeStates ''delegation_graph_node.state'' ''delegation node state''"

definition dependencyKinds :: "(string \<times> DelegationDependencyKind) list" where
  "dependencyKinds = map (\<lambda>x. (dependencyKindText x, x)) [DK_after_success, DK_after_terminal]"

definition expectDelegationDependencyKind :: "json option \<Rightarrow> thrown + DelegationDependencyKind" where
  "expectDelegationDependencyKind =
     expectMember dependencyKinds ''delegation_graph_dependency.kind'' ''delegation dependency kind''"

definition jobKinds :: "(string \<times> SchedulerJobKind) list" where
  "jobKinds = map (\<lambda>x. (jobKindText x, x))
     [JK_session_turn, JK_workspace_task, JK_team_delivery, JK_team_delivery_outcome, JK_plugin_action,
      JK_channel_delivery, JK_gateway_delivery, JK_memory_compaction, JK_resource_cleanup,
      JK_budget_grant_expire, JK_provider_retry, JK_config_sync, JK_media_generate]"

definition expectSchedulerJobKind :: "json option \<Rightarrow> thrown + SchedulerJobKind" where
  "expectSchedulerJobKind = expectMember jobKinds ''job.kind'' ''scheduler job kind''"

definition jobStates :: "(string \<times> SchedulerJobState) list" where
  "jobStates = map (\<lambda>x. (jobStateText x, x))
     [JS_pending, JS_ready, JS_running, JS_waiting, JS_succeeded, JS_retry_scheduled, JS_failed, JS_cancelled]"

definition expectSchedulerJobState :: "json option \<Rightarrow> thrown + SchedulerJobState" where
  "expectSchedulerJobState = expectMember jobStates ''job.state'' ''scheduler job state''"

definition strategies :: "(string \<times> RetryStrategy) list" where
  "strategies = map (\<lambda>x. (strategyText x, x)) [RS_none, RS_fixed, RS_exponential]"

definition expectRetryPolicy :: "json option \<Rightarrow> string \<Rightarrow> thrown + RetryPolicy" where
  "expectRetryPolicy v name =
     (case v of
        Some (JObj m) \<Rightarrow>
          res_bind (expectMember strategies (name @ ''.strategy'') ''retry strategy'' (map_of m ''strategy'')) (\<lambda>strategy.
          res_bind (optionalNumber (map_of m ''initial_delay_ms'') (name @ ''.initial_delay_ms'')) (\<lambda>initialDelayMs.
          res_bind (optionalNumber (map_of m ''max_delay_ms'') (name @ ''.max_delay_ms'')) (\<lambda>maxDelayMs.
          Inr \<lparr>rp_strategy = strategy, rp_initialDelayMs = initialDelayMs, rp_maxDelayMs = maxDelayMs\<rparr>)))
      | _ \<Rightarrow> Inl (plainError (name @ '' must be an object'')))"

section \<open>Readers of records\<close>

definition fromRpcDelegationGraphRecord :: "json \<Rightarrow> thrown + DelegationGraphRecord" where
  "fromRpcDelegationGraphRecord v =
     res_bind (readRecord ''delegation graph'' v) (\<lambda>m.
     res_bind (expectString (map_of m ''id'') ''delegation_graph.id'') (\<lambda>i.
     res_bind (expectString (map_of m ''principal_id'') ''delegation_graph.principal_id'') (\<lambda>principalId.
     res_bind (expectDelegationGraphState (map_of m ''state'')) (\<lambda>state.
     res_bind (expectNumber (map_of m ''created_at'') ''delegation_graph.created_at'') (\<lambda>createdAt.
     res_bind (expectNumber (map_of m ''updated_at'') ''delegation_graph.updated_at'') (\<lambda>updatedAt.
     res_bind (optionalString (map_of m ''title'') ''delegation_graph.title'') (\<lambda>title.
     res_bind (optionalNumber (map_of m ''closed_at'') ''delegation_graph.closed_at'') (\<lambda>closedAt.
     Inr \<lparr>dg_id = i, dg_principalId = principalId, dg_title = title, dg_state = state,
          dg_metadata = optionalJson (map_of m ''metadata''), dg_createdAt = createdAt,
          dg_updatedAt = updatedAt, dg_closedAt = closedAt\<rparr>))))))))"

definition fromRpcDelegationGraphNodeRecord :: "json \<Rightarrow> thrown + DelegationGraphNodeRecord" where
  "fromRpcDelegationGraphNodeRecord v =
     res_bind (readRecord ''delegation graph node'' v) (\<lambda>m.
     res_bind (expectString (map_of m ''id'') ''delegation_graph_node.id'') (\<lambda>i.
     res_bind (expectString (map_of m ''graph_id'') ''delegation_graph_node.graph_id'') (\<lambda>graphId.
     res_bind (expectDelegationNodeKind (map_of m ''kind'')) (\<lambda>kind.
     res_bind (expectString (map_of m ''principal_id'') ''delegation_graph_node.principal_id'') (\<lambda>principalId.
     res_bind (expectDelegationNodeState (map_of m ''state'')) (\<lambda>state.
     res_bind (expectJsonField m ''payload'' ''delegation_graph_node.payload'') (\<lambda>payload.
     res_bind (expectNumber (map_of m ''created_at'') ''delegation_graph_node.created_at'') (\<lambda>createdAt.
     res_bind (expectNumber (map_of m ''updated_at'') ''delegation_graph_node.updated_at'') (\<lambda>updatedAt.
     res_bind (optionalString (map_of m ''scheduler_job_id'') ''delegation_graph_node.scheduler_job_id'') (\<lambda>jobId.
     res_bind (optionalNumber (map_of m ''started_at'') ''delegation_graph_node.started_at'') (\<lambda>startedAt.
     res_bind (optionalNumber (map_of m ''finished_at'') ''delegation_graph_node.finished_at'') (\<lambda>finishedAt.
     Inr \<lparr>dn_id = i, dn_graphId = graphId, dn_kind = kind, dn_principalId = principalId, dn_state = state,
          dn_payload = payload, dn_schedulerJobId = jobId, dn_metadata = optionalJson (map_of m ''metadata''),
          dn_createdAt = createdAt, dn_updatedAt = updatedAt, dn_startedAt = startedAt,
          dn_finishedAt = finishedAt\<rparr>))))))))))))"

definition fromRpcDelegationGraphDependencyRecord :: "json \<Rightarrow> thrown + DelegationGraphDependencyRecord" where
  "fromRpcDelegationGraphDependencyRecord v =
     res_bind (readRecord ''delegation graph dependency'' v) (\<lambda>m.
     res_bind (expectString (map_of m ''id'') ''delegation_graph_dependency.id'') (\<lambda>i.
     res_bind (expectString (map_of m ''graph_id'') ''delegation_graph_dependency.graph_id'') (\<lambda>graphId.
     res_bind (expectString (map_of m ''from_node_id'') ''delegation_graph_dependency.from_node_id'') (\<lambda>fromNodeId.
     res_bind (expectString (map_of m ''to_node_id'') ''delegation_graph_dependency.to_node_id'') (\<lambda>toNodeId.
     res_bind (expectDelegationDependencyKind (map_of m ''kind'')) (\<lambda>kind.
     res_bind (expectNumber (map_of m ''created_at'') ''delegation_graph_dependency.created_at'') (\<lambda>createdAt.
     Inr \<lparr>dd_id = i, dd_graphId = graphId, dd_fromNodeId = fromNodeId, dd_toNodeId = toNodeId,
          dd_kind = kind, dd_createdAt = createdAt\<rparr>)))))))"

definition fromRpcSchedulerJobRecord :: "json \<Rightarrow> thrown + SchedulerJobRecord" where
  "fromRpcSchedulerJobRecord v =
     res_bind (readRecord ''scheduler job'' v) (\<lambda>m.
     res_bind (expectString (map_of m ''id'') ''job.id'') (\<lambda>i.
     res_bind (expectSchedulerJobKind (map_of m ''kind'')) (\<lambda>kind.
     res_bind (expectString (map_of m ''queue'') ''job.queue'') (\<lambda>queue.
     res_bind (expectSchedulerJobState (map_of m ''state'')) (\<lambda>state.
     res_bind (expectString (map_of m ''principal_id'') ''job.principal_id'') (\<lambda>principalId.
     res_bind (expectNumber (map_of m ''scheduled_at'') ''job.scheduled_at'') (\<lambda>scheduledAt.
     res_bind (expectNumber (map_of m ''priority'') ''job.priority'') (\<lambda>priority.
     res_bind (expectNumber (map_of m ''attempt'') ''job.attempt'') (\<lambda>attempt.
     res_bind (expectNumber (map_of m ''max_attempts'') ''job.max_attempts'') (\<lambda>maxAttempts.
     res_bind (expectRetryPolicy (map_of m ''retry_policy'') ''job.retry_policy'') (\<lambda>retryPolicy.
     res_bind (expectNumber (map_of m ''created_at'') ''job.created_at'') (\<lambda>createdAt.
     res_bind (expectNumber (map_of m ''updated_at'') ''job.updated_at'') (\<lambda>updatedAt.
     res_bind (optionalNumber (map_of m ''not_before'') ''job.not_before'') (\<lambda>notBefore.
     res_bind (optionalString (map_of m ''concurrency_key'') ''job.concurrency_key'') (\<lambda>concurrencyKey.
     res_bind (optionalString (map_of m ''idempotency_key'') ''job.idempotency_key'') (\<lambda>idempotencyKey.
     res_bind (optionalString (map_of m ''budget_grant_id'') ''job.budget_grant_id'') (\<lambda>budgetGrantId.
     res_bind (optionalString (map_of m ''lease_owner'') ''job.lease_owner'') (\<lambda>leaseOwner.
     res_bind (optionalString (map_of m ''lease_token'') ''job.lease_token'') (\<lambda>leaseToken.
     res_bind (optionalNumber (map_of m ''lease_expires_at'') ''job.lease_expires_at'') (\<lambda>leaseExpiresAt.
     res_bind (optionalNumber (map_of m ''finished_at'') ''job.finished_at'') (\<lambda>finishedAt.
     Inr \<lparr>jb_id = i, jb_kind = kind, jb_queue = queue, jb_state = state, jb_principalId = principalId,
          jb_payload = opt_else (map_of m ''payload'') JNull, jb_scheduledAt = scheduledAt, jb_notBefore = notBefore,
          jb_priority = priority, jb_concurrencyKey = concurrencyKey, jb_attempt = attempt,
          jb_maxAttempts = maxAttempts, jb_retryPolicy = retryPolicy, jb_idempotencyKey = idempotencyKey,
          jb_budgetGrantId = budgetGrantId, jb_leaseOwner = leaseOwner, jb_leaseToken = leaseToken,
          jb_leaseExpiresAt = leaseExpiresAt, jb_result = optionalJson (map_of m ''result''),
          jb_lastError = optionalJson (map_of m ''last_error''), jb_createdAt = createdAt,
          jb_updatedAt = updatedAt, jb_finishedAt = finishedAt\<rparr>)))))))))))))))))))))"

definition fromRpcMaterializedDelegationGraphNode :: "json \<Rightarrow> thrown + MaterializedDelegationGraphNode" where
  "fromRpcMaterializedDelegationGraphNode v =
     res_bind (readRecord ''materialized delegation graph node'' v) (\<lambda>m.
     res_bind (expectJsonField m ''node'' ''materialized_delegation_node.node'') (\<lambda>nv.
     res_bind (fromRpcDelegationGraphNodeRecord nv) (\<lambda>node.
     res_bind (expectJsonField m ''job'' ''materialized_delegation_node.job'') (\<lambda>jv.
     res_bind (fromRpcSchedulerJobRecord jv) (\<lambda>job.
     Inr \<lparr>mt_node = node, mt_job = job\<rparr>)))))"

section \<open>Writers of requests\<close>

definition toRpcPutDelegationGraphRequest :: "PutDelegationGraphRequest \<Rightarrow> json" where
  "toRpcPutDelegationGraphRequest r =
     JObj [(''id'', nullOr JStr (pg_id r)), (''principal_id'', JStr (pg_principalId r)),
       (''title'', nullOr JStr (pg_title r)), (''metadata'', toRpcJsonValue (opt_else (pg_metadata r) JNull)),
       (''idempotency_key'', nullOr JStr (pg_idempotencyKey r))]"

definition toRpcListDelegationGraphsRequest :: "ListDelegationGraphsRequest \<Rightarrow> json" where
  "toRpcListDelegationGraphsRequest r =
     JObj [(''principal_id'', nullOr JStr (lg_principalId r)),
       (''state'', nullOr (\<lambda>x. JStr (graphStateText x)) (lg_state r)), (''limit'', nullOr JNum (lg_limit r))]"

definition toRpcPutDelegationGraphNodeRequest :: "PutDelegationGraphNodeRequest \<Rightarrow> json" where
  "toRpcPutDelegationGraphNodeRequest r =
     JObj [(''id'', nullOr JStr (pn_id r)), (''graph_id'', JStr (pn_graphId r)),
       (''kind'', JStr (nodeKindText (pn_kind r))), (''principal_id'', JStr (pn_principalId r)),
       (''payload'', toRpcJsonValue (pn_payload r)), (''metadata'', toRpcJsonValue (opt_else (pn_metadata r) JNull)),
       (''idempotency_key'', nullOr JStr (pn_idempotencyKey r))]"

definition toRpcGetDelegationGraphNodeRequest :: "GetDelegationGraphNodeRequest \<Rightarrow> json" where
  "toRpcGetDelegationGraphNodeRequest r = JObj [(''node_id'', JStr (gn_nodeId r))]"

definition toRpcListDelegationGraphNodesRequest :: "ListDelegationGraphNodesRequest \<Rightarrow> json" where
  "toRpcListDelegationGraphNodesRequest r =
     JObj [(''graph_id'', JStr (ln_graphId r)), (''state'', nullOr (\<lambda>x. JStr (nodeStateText x)) (ln_state r))]"

definition toRpcPutDelegationGraphDependencyRequest :: "PutDelegationGraphDependencyRequest \<Rightarrow> json" where
  "toRpcPutDelegationGraphDependencyRequest r =
     JObj [(''id'', nullOr JStr (pd_id r)), (''graph_id'', JStr (pd_graphId r)),
       (''from_node_id'', JStr (pd_fromNodeId r)), (''to_node_id'', JStr (pd_toNodeId r)),
       (''kind'', nullOr (\<lambda>x. JStr (dependencyKindText x)) (pd_kind r))]"

definition toRpcListDelegationGraphDependenciesRequest :: "ListDelegationGraphDependenciesRequest \<Rightarrow> json" where
  "toRpcListDelegationGraphDependenciesRequest r = JObj [(''graph_id'', JStr (ld_graphId r))]"

definition toRpcUpdateDelegationGraphStateRequest :: "UpdateDelegationGraphStateRequest \<Rightarrow> json" where
  "toRpcUpdateDelegationGraphStateRequest r =
     JObj [(''graph_id'', JStr (ug_graphId r)), (''state'', JStr (graphStateText (ug_state r)))]"

definition toRpcUpdateDelegationGraphNodeStateRequest :: "UpdateDelegationGraphNodeStateRequest \<Rightarrow> json" where
  "toRpcUpdateDelegationGraphNodeStateRequest r =
     JObj [(''node_id'', JStr (un_nodeId r)), (''state'', JStr (nodeStateText (un_state r))),
       (''scheduler_job_id'', nullOr JStr (un_schedulerJobId r)),
       (''metadata'', toRpcJsonValue (opt_else (un_metadata r) JNull))]"

definition toRpcAttachDelegationGraphNodeJobRequest :: "AttachDelegationGraphNodeJobRequest \<Rightarrow> json" where
  "toRpcAttachDelegationGraphNodeJobRequest r =
     JObj [(''node_id'', JStr (an_nodeId r)), (''scheduler_job_id'', JStr (an_schedulerJobId r))]"

definition toRpcListReadyDelegationGraphNodesRequest :: "ListReadyDelegationGraphNodesRequest \<Rightarrow> json" where
  "toRpcListReadyDelegationGraphNodesRequest r =
     JObj [(''graph_id'', JStr (lr_graphId r)), (''limit'', nullOr JNum (lr_limit r))]"

definition retryPolicyJson :: "RetryPolicy \<Rightarrow> json" where
  "retryPolicyJson p =
     JObj [(''strategy'', JStr (strategyText (rp_strategy p))), (''initial_delay_ms'', nullOr JNum (rp_initialDelayMs p)),
       (''max_delay_ms'', nullOr JNum (rp_maxDelayMs p))]"

definition toRpcMaterializeReadyDelegationGraphNodeRequest :: "MaterializeReadyDelegationGraphNodeRequest \<Rightarrow> json" where
  "toRpcMaterializeReadyDelegationGraphNodeRequest r =
     JObj [(''graph_id'', JStr (mr_graphId r)), (''node_id'', nullOr JStr (mr_nodeId r)),
       (''worker_id'', JStr (mr_workerId r)), (''job_id'', nullOr JStr (mr_jobId r)),
       (''job_kind'', JStr (jobKindText (mr_jobKind r))),
       (''job_payload'', toRpcJsonValue (opt_else (mr_jobPayload r) JNull)),
       (''scheduled_at'', nullOr JNum (mr_scheduledAt r)), (''not_before'', nullOr JNum (mr_notBefore r)),
       (''priority'', nullOr JNum (mr_priority r)), (''max_attempts'', nullOr JNum (mr_maxAttempts r)),
       (''retry_policy'', nullOr retryPolicyJson (mr_retryPolicy r)),
       (''job_idempotency_key'', nullOr JStr (mr_jobIdempotencyKey r)),
       (''budget_grant_id'', nullOr JStr (mr_budgetGrantId r))]"

definition toRpcGetJobRequest :: "GetJobRequest \<Rightarrow> json" where
  "toRpcGetJobRequest r = JObj [(''job_id'', JStr (gj_jobId r))]"

section \<open>The methods of the client\<close>

text \<open>
  What the delegation runtime calls of its storage: \<open>DelegationStore\<close>
  (packages/storage/src/types-delegation.ts) and \<open>getJob\<close>.
\<close>

record 's delegation_storage =
  st_putDelegationGraph :: "PutDelegationGraphRequest \<Rightarrow> ('s, thrown, DelegationGraphRecord) eff"
  st_getDelegationGraph :: "GetDelegationGraphRequest \<Rightarrow> ('s, thrown, DelegationGraphRecord option) eff"
  st_listDelegationGraphs :: "ListDelegationGraphsRequest \<Rightarrow> ('s, thrown, DelegationGraphRecord list) eff"
  st_putDelegationGraphNode :: "PutDelegationGraphNodeRequest \<Rightarrow> ('s, thrown, DelegationGraphNodeRecord) eff"
  st_getDelegationGraphNode :: "GetDelegationGraphNodeRequest \<Rightarrow> ('s, thrown, DelegationGraphNodeRecord option) eff"
  st_listDelegationGraphNodes :: "ListDelegationGraphNodesRequest \<Rightarrow> ('s, thrown, DelegationGraphNodeRecord list) eff"
  st_putDelegationGraphDependency ::
    "PutDelegationGraphDependencyRequest \<Rightarrow> ('s, thrown, DelegationGraphDependencyRecord) eff"
  st_listDelegationGraphDependencies ::
    "ListDelegationGraphDependenciesRequest \<Rightarrow> ('s, thrown, DelegationGraphDependencyRecord list) eff"
  st_updateDelegationGraphState :: "UpdateDelegationGraphStateRequest \<Rightarrow> ('s, thrown, DelegationGraphRecord) eff"
  st_updateDelegationGraphNodeState ::
    "UpdateDelegationGraphNodeStateRequest \<Rightarrow> ('s, thrown, DelegationGraphNodeRecord) eff"
  st_attachDelegationGraphNodeJob :: "AttachDelegationGraphNodeJobRequest \<Rightarrow> ('s, thrown, DelegationGraphNodeRecord) eff"
  st_listReadyDelegationGraphNodes ::
    "ListReadyDelegationGraphNodesRequest \<Rightarrow> ('s, thrown, DelegationGraphNodeRecord list) eff"
  st_materializeReadyDelegationGraphNode ::
    "MaterializeReadyDelegationGraphNodeRequest \<Rightarrow> ('s, thrown, MaterializedDelegationGraphNode option) eff"
  st_getJob :: "GetJobRequest \<Rightarrow> ('s, thrown, SchedulerJobRecord option) eff"

text \<open>A command with its request, and the reading of a reply: one value, a value or \<open>null\<close>, an array.\<close>

definition command :: "string \<Rightarrow> json \<Rightarrow> json" where
  "command name request = JObj [(''command'', JStr name), (''request'', request)]"

definition readOne :: "(json \<Rightarrow> thrown + 'a) \<Rightarrow> json \<Rightarrow> ('s, thrown, 'a) eff" where
  "readOne read v = eff_result (read v)"

definition readNullable :: "(json \<Rightarrow> thrown + 'a) \<Rightarrow> json \<Rightarrow> ('s, thrown, 'a option) eff" where
  "readNullable read v =
     eff_result (if v = JNull then Inr None else res_bind (read v) (\<lambda>x. Inr (Some x)))"

definition readArray :: "string \<Rightarrow> (json \<Rightarrow> thrown + 'a) \<Rightarrow> json \<Rightarrow> ('s, thrown, 'a list) eff" where
  "readArray name read v = eff_result (res_bind (assertArray v name) (map_result read))"

definition putDelegationGraph :: "'s transport \<Rightarrow> PutDelegationGraphRequest \<Rightarrow> ('s, thrown, DelegationGraphRecord) eff" where
  "putDelegationGraph tr r =
     eff_bind (rpc_call tr (command ''put-delegation-graph'' (toRpcPutDelegationGraphRequest r)))
       (readOne fromRpcDelegationGraphRecord)"

definition getDelegationGraph ::
  "'s transport \<Rightarrow> GetDelegationGraphRequest \<Rightarrow> ('s, thrown, DelegationGraphRecord option) eff" where
  "getDelegationGraph tr r =
     eff_bind (rpc_call tr (JObj [(''command'', JStr ''get-delegation-graph''), (''graph_id'', JStr (gg_graphId r))]))
       (readNullable fromRpcDelegationGraphRecord)"

definition listDelegationGraphs ::
  "'s transport \<Rightarrow> ListDelegationGraphsRequest \<Rightarrow> ('s, thrown, DelegationGraphRecord list) eff" where
  "listDelegationGraphs tr r =
     eff_bind (rpc_call tr (command ''list-delegation-graphs'' (toRpcListDelegationGraphsRequest r)))
       (readArray ''delegation graphs'' fromRpcDelegationGraphRecord)"

definition putDelegationGraphNode ::
  "'s transport \<Rightarrow> PutDelegationGraphNodeRequest \<Rightarrow> ('s, thrown, DelegationGraphNodeRecord) eff" where
  "putDelegationGraphNode tr r =
     eff_bind (rpc_call tr (command ''put-delegation-graph-node'' (toRpcPutDelegationGraphNodeRequest r)))
       (readOne fromRpcDelegationGraphNodeRecord)"

definition getDelegationGraphNode ::
  "'s transport \<Rightarrow> GetDelegationGraphNodeRequest \<Rightarrow> ('s, thrown, DelegationGraphNodeRecord option) eff" where
  "getDelegationGraphNode tr r =
     eff_bind (rpc_call tr (command ''get-delegation-graph-node'' (toRpcGetDelegationGraphNodeRequest r)))
       (readNullable fromRpcDelegationGraphNodeRecord)"

definition listDelegationGraphNodes ::
  "'s transport \<Rightarrow> ListDelegationGraphNodesRequest \<Rightarrow> ('s, thrown, DelegationGraphNodeRecord list) eff" where
  "listDelegationGraphNodes tr r =
     eff_bind (rpc_call tr (command ''list-delegation-graph-nodes'' (toRpcListDelegationGraphNodesRequest r)))
       (readArray ''delegation graph nodes'' fromRpcDelegationGraphNodeRecord)"

definition putDelegationGraphDependency ::
  "'s transport \<Rightarrow> PutDelegationGraphDependencyRequest \<Rightarrow> ('s, thrown, DelegationGraphDependencyRecord) eff" where
  "putDelegationGraphDependency tr r =
     eff_bind (rpc_call tr (command ''put-delegation-graph-dependency'' (toRpcPutDelegationGraphDependencyRequest r)))
       (readOne fromRpcDelegationGraphDependencyRecord)"

definition listDelegationGraphDependencies ::
  "'s transport \<Rightarrow> ListDelegationGraphDependenciesRequest \<Rightarrow> ('s, thrown, DelegationGraphDependencyRecord list) eff" where
  "listDelegationGraphDependencies tr r =
     eff_bind (rpc_call tr (command ''list-delegation-graph-dependencies'' (toRpcListDelegationGraphDependenciesRequest r)))
       (readArray ''delegation graph dependencies'' fromRpcDelegationGraphDependencyRecord)"

definition updateDelegationGraphState ::
  "'s transport \<Rightarrow> UpdateDelegationGraphStateRequest \<Rightarrow> ('s, thrown, DelegationGraphRecord) eff" where
  "updateDelegationGraphState tr r =
     eff_bind (rpc_call tr (command ''update-delegation-graph-state'' (toRpcUpdateDelegationGraphStateRequest r)))
       (readOne fromRpcDelegationGraphRecord)"

definition updateDelegationGraphNodeState ::
  "'s transport \<Rightarrow> UpdateDelegationGraphNodeStateRequest \<Rightarrow> ('s, thrown, DelegationGraphNodeRecord) eff" where
  "updateDelegationGraphNodeState tr r =
     eff_bind (rpc_call tr (command ''update-delegation-graph-node-state'' (toRpcUpdateDelegationGraphNodeStateRequest r)))
       (readOne fromRpcDelegationGraphNodeRecord)"

definition attachDelegationGraphNodeJob ::
  "'s transport \<Rightarrow> AttachDelegationGraphNodeJobRequest \<Rightarrow> ('s, thrown, DelegationGraphNodeRecord) eff" where
  "attachDelegationGraphNodeJob tr r =
     eff_bind (rpc_call tr (command ''attach-delegation-graph-node-job'' (toRpcAttachDelegationGraphNodeJobRequest r)))
       (readOne fromRpcDelegationGraphNodeRecord)"

definition listReadyDelegationGraphNodes ::
  "'s transport \<Rightarrow> ListReadyDelegationGraphNodesRequest \<Rightarrow> ('s, thrown, DelegationGraphNodeRecord list) eff" where
  "listReadyDelegationGraphNodes tr r =
     eff_bind (rpc_call tr (command ''list-ready-delegation-graph-nodes'' (toRpcListReadyDelegationGraphNodesRequest r)))
       (readArray ''ready delegation graph nodes'' fromRpcDelegationGraphNodeRecord)"

definition materializeReadyDelegationGraphNode ::
  "'s transport \<Rightarrow> MaterializeReadyDelegationGraphNodeRequest \<Rightarrow>
   ('s, thrown, MaterializedDelegationGraphNode option) eff" where
  "materializeReadyDelegationGraphNode tr r =
     eff_bind (rpc_call tr (command ''materialize-ready-delegation-graph-node''
         (toRpcMaterializeReadyDelegationGraphNodeRequest r)))
       (readNullable fromRpcMaterializedDelegationGraphNode)"

definition getJob :: "'s transport \<Rightarrow> GetJobRequest \<Rightarrow> ('s, thrown, SchedulerJobRecord option) eff" where
  "getJob tr r =
     eff_bind (rpc_call tr (command ''get-job'' (toRpcGetJobRequest r))) (readNullable fromRpcSchedulerJobRecord)"

definition rpc_storage :: "'s transport \<Rightarrow> 's delegation_storage" where
  "rpc_storage tr =
     \<lparr>st_putDelegationGraph = putDelegationGraph tr,
      st_getDelegationGraph = getDelegationGraph tr,
      st_listDelegationGraphs = listDelegationGraphs tr,
      st_putDelegationGraphNode = putDelegationGraphNode tr,
      st_getDelegationGraphNode = getDelegationGraphNode tr,
      st_listDelegationGraphNodes = listDelegationGraphNodes tr,
      st_putDelegationGraphDependency = putDelegationGraphDependency tr,
      st_listDelegationGraphDependencies = listDelegationGraphDependencies tr,
      st_updateDelegationGraphState = updateDelegationGraphState tr,
      st_updateDelegationGraphNodeState = updateDelegationGraphNodeState tr,
      st_attachDelegationGraphNodeJob = attachDelegationGraphNodeJob tr,
      st_listReadyDelegationGraphNodes = listReadyDelegationGraphNodes tr,
      st_materializeReadyDelegationGraphNode = materializeReadyDelegationGraphNode tr,
      st_getJob = getJob tr\<rparr>"

end
