(* ===== verification/Delegation_Graph.thy ===== *)
theory Delegation_Graph
  imports Delegation_Codec
begin

text \<open>
  The delegation graph runtime, packages/team/src/delegation/graph/*: creation and queries of
  graphs, nodes and dependencies, the status of a graph, the synchronisation of a node with its
  scheduler job and the step that synchronises running nodes and materializes ready ones. The
  storage is an argument. The two reads of a snapshot, which the code issues together, are done
  one after the other on the same state.
\<close>

section \<open>Types\<close>

record CreateDelegationGraphRequest =
  cg_id :: "string option"
  cg_principalId :: "string option"
  cg_title :: "string option"
  cg_metadata :: "json option"
  cg_idempotencyKey :: "string option"

record AddDelegationGraphNodeRequest =
  ag_id :: "string option"
  ag_graphId :: string
  ag_kind :: DelegationNodeKind
  ag_principalId :: "string option"
  ag_payload :: json
  ag_metadata :: "json option"
  ag_idempotencyKey :: "string option"

record AddDelegationGraphDependencyRequest =
  ad_id :: "string option"
  ad_graphId :: string
  ad_fromNodeId :: string
  ad_toNodeId :: string
  ad_kind :: "DelegationDependencyKind option"

record DelegationGraphSnapshot =
  gs_graph :: DelegationGraphRecord
  gs_nodes :: "DelegationGraphNodeRecord list"
  gs_dependencies :: "DelegationGraphDependencyRecord list"

datatype DelegationGraphProgressState =
    PG_empty | PG_not_started | PG_active | PG_blocked | PG_succeeded | PG_failed | PG_cancelled

record DelegationGraphNodeStateCounts =
  nc_pending :: nat
  nc_ready :: nat
  nc_running :: nat
  nc_succeeded :: nat
  nc_failed :: nat
  nc_cancelled :: nat
  nc_skipped :: nat

record DelegationGraphBlockedNode =
  bn_node :: DelegationGraphNodeRecord
  bn_blockedBy :: "DelegationGraphDependencyRecord list"

record DelegationGraphStatus =
  sg_graph :: DelegationGraphRecord
  sg_progressState :: DelegationGraphProgressState
  sg_nodeCount :: nat
  sg_dependencyCount :: nat
  sg_completedNodeCount :: nat
  sg_activeNodeCount :: nat
  sg_blockedNodeCount :: nat
  sg_progressRatio :: rat
  sg_counts :: DelegationGraphNodeStateCounts
  sg_readyNodes :: "DelegationGraphNodeRecord list"
  sg_runningNodes :: "DelegationGraphNodeRecord list"
  sg_blockedNodes :: "DelegationGraphBlockedNode list"
  sg_failedNodes :: "DelegationGraphNodeRecord list"
  sg_cancelledNodes :: "DelegationGraphNodeRecord list"

record ListDelegationGraphsRuntimeRequest =
  lgr_principalId :: "string option"
  lgr_state :: "DelegationGraphState option"
  lgr_limit :: "number option"

datatype DelegationGraphJobSyncReason =
    SR_missing_node | SR_no_scheduler_job | SR_missing_job | SR_non_terminal_job | SR_already_terminal

record DelegationGraphJobSyncNoop =
  no_reason :: DelegationGraphJobSyncReason
  no_node :: "DelegationGraphNodeRecord option"
  no_job :: "SchedulerJobRecord option"

record DelegationGraphJobSynced =
  sy_node :: DelegationGraphNodeRecord
  sy_job :: SchedulerJobRecord

datatype DelegationGraphJobSyncResult =
    SyncNoop DelegationGraphJobSyncNoop
  | Synced DelegationGraphJobSynced

datatype DelegationGraphStepSkippedReadyReason = SK_unsupported_node_kind | SK_not_ready

record DelegationGraphStepSkippedReadyNode =
  sk_node :: DelegationGraphNodeRecord
  sk_reason :: DelegationGraphStepSkippedReadyReason

record RunDelegationGraphStepRequest =
  rs_graphId :: string
  rs_workerId :: string
  rs_jobKindsByNodeKind :: "DelegationNodeKind \<Rightarrow> SchedulerJobKind option"
  rs_materializeLimit :: "number option"
  rs_readyScanLimit :: "number option"

record DelegationGraphStepResult =
  sr_graphId :: string
  sr_synced :: "DelegationGraphJobSynced list"
  sr_syncNoops :: "DelegationGraphJobSyncNoop list"
  sr_materialized :: "MaterializedDelegationGraphNode list"
  sr_skippedReadyNodes :: "DelegationGraphStepSkippedReadyNode list"

section \<open>Graphs, nodes and dependencies\<close>

definition createGraph ::
  "'s delegation_storage \<Rightarrow> CreateDelegationGraphRequest \<Rightarrow> string \<Rightarrow> ('s, thrown, DelegationGraphRecord) eff" where
  "createGraph st r defaultPrincipalId =
     st_putDelegationGraph st
       \<lparr>pg_id = cg_id r, pg_principalId = opt_else (cg_principalId r) defaultPrincipalId, pg_title = cg_title r,
        pg_metadata = cg_metadata r, pg_idempotencyKey = cg_idempotencyKey r\<rparr>"

definition getGraph :: "'s delegation_storage \<Rightarrow> string \<Rightarrow> ('s, thrown, DelegationGraphRecord option) eff" where
  "getGraph st graphId = st_getDelegationGraph st \<lparr>gg_graphId = graphId\<rparr>"

definition listGraphs ::
  "'s delegation_storage \<Rightarrow> ListDelegationGraphsRuntimeRequest \<Rightarrow> ('s, thrown, DelegationGraphRecord list) eff" where
  "listGraphs st r =
     st_listDelegationGraphs st \<lparr>lg_principalId = lgr_principalId r, lg_state = lgr_state r, lg_limit = lgr_limit r\<rparr>"

definition updateGraphState ::
  "'s delegation_storage \<Rightarrow> string \<Rightarrow> DelegationGraphState \<Rightarrow> ('s, thrown, DelegationGraphRecord) eff" where
  "updateGraphState st graphId state = st_updateDelegationGraphState st \<lparr>ug_graphId = graphId, ug_state = state\<rparr>"

definition addNode ::
  "'s delegation_storage \<Rightarrow> AddDelegationGraphNodeRequest \<Rightarrow> string \<Rightarrow> ('s, thrown, DelegationGraphNodeRecord) eff" where
  "addNode st r defaultPrincipalId =
     st_putDelegationGraphNode st
       \<lparr>pn_id = ag_id r, pn_graphId = ag_graphId r, pn_kind = ag_kind r,
        pn_principalId = opt_else (ag_principalId r) defaultPrincipalId, pn_payload = ag_payload r,
        pn_metadata = ag_metadata r, pn_idempotencyKey = ag_idempotencyKey r\<rparr>"

definition listNodes ::
  "'s delegation_storage \<Rightarrow> string \<Rightarrow> DelegationNodeState option \<Rightarrow> ('s, thrown, DelegationGraphNodeRecord list) eff" where
  "listNodes st graphId state = st_listDelegationGraphNodes st \<lparr>ln_graphId = graphId, ln_state = state\<rparr>"

definition listReadyNodes ::
  "'s delegation_storage \<Rightarrow> string \<Rightarrow> number option \<Rightarrow> ('s, thrown, DelegationGraphNodeRecord list) eff" where
  "listReadyNodes st graphId limit = st_listReadyDelegationGraphNodes st \<lparr>lr_graphId = graphId, lr_limit = limit\<rparr>"

definition attachNodeJob ::
  "'s delegation_storage \<Rightarrow> string \<Rightarrow> string \<Rightarrow> ('s, thrown, DelegationGraphNodeRecord) eff" where
  "attachNodeJob st nodeId schedulerJobId =
     st_attachDelegationGraphNodeJob st \<lparr>an_nodeId = nodeId, an_schedulerJobId = schedulerJobId\<rparr>"

definition updateNodeState ::
  "'s delegation_storage \<Rightarrow> UpdateDelegationGraphNodeStateRequest \<Rightarrow> ('s, thrown, DelegationGraphNodeRecord) eff" where
  "updateNodeState st r =
     st_updateDelegationGraphNodeState st
       \<lparr>un_nodeId = un_nodeId r, un_state = un_state r, un_schedulerJobId = un_schedulerJobId r,
        un_metadata = un_metadata r\<rparr>"

definition markNodeState ::
  "'s delegation_storage \<Rightarrow> string \<Rightarrow> DelegationNodeState \<Rightarrow> string option \<Rightarrow> json option \<Rightarrow>
   ('s, thrown, DelegationGraphNodeRecord) eff" where
  "markNodeState st nodeId state schedulerJobId metadata =
     updateNodeState st
       \<lparr>un_nodeId = nodeId, un_state = state, un_schedulerJobId = schedulerJobId, un_metadata = metadata\<rparr>"

definition addDependency ::
  "'s delegation_storage \<Rightarrow> AddDelegationGraphDependencyRequest \<Rightarrow> ('s, thrown, DelegationGraphDependencyRecord) eff" where
  "addDependency st r =
     st_putDelegationGraphDependency st
       \<lparr>pd_id = ad_id r, pd_graphId = ad_graphId r, pd_fromNodeId = ad_fromNodeId r, pd_toNodeId = ad_toNodeId r,
        pd_kind = ad_kind r\<rparr>"

definition listDependencies ::
  "'s delegation_storage \<Rightarrow> string \<Rightarrow> ('s, thrown, DelegationGraphDependencyRecord list) eff" where
  "listDependencies st graphId = st_listDelegationGraphDependencies st \<lparr>ld_graphId = graphId\<rparr>"

definition materializeReadyNode ::
  "'s delegation_storage \<Rightarrow> MaterializeReadyDelegationGraphNodeRequest \<Rightarrow>
   ('s, thrown, MaterializedDelegationGraphNode option) eff" where
  "materializeReadyNode st r =
     st_materializeReadyDelegationGraphNode st
       \<lparr>mr_graphId = mr_graphId r, mr_nodeId = mr_nodeId r, mr_workerId = mr_workerId r, mr_jobId = mr_jobId r,
        mr_jobKind = mr_jobKind r, mr_jobPayload = mr_jobPayload r, mr_scheduledAt = mr_scheduledAt r,
        mr_notBefore = mr_notBefore r, mr_priority = mr_priority r, mr_maxAttempts = mr_maxAttempts r,
        mr_retryPolicy = mr_retryPolicy r, mr_jobIdempotencyKey = mr_jobIdempotencyKey r,
        mr_budgetGrantId = mr_budgetGrantId r\<rparr>"

section \<open>Status\<close>

fun terminalNodeState :: "DelegationNodeState \<Rightarrow> bool" where
  "terminalNodeState st = (st \<in> {NS_succeeded, NS_failed, NS_cancelled, NS_skipped})"

definition isReadyCandidate :: "DelegationGraphNodeRecord \<Rightarrow> bool" where
  "isReadyCandidate node = ((dn_state node = NS_pending \<or> dn_state node = NS_ready) \<and> dn_schedulerJobId node = None)"

fun dependencySatisfied :: "DelegationDependencyKind \<Rightarrow> DelegationNodeState \<Rightarrow> bool" where
  "dependencySatisfied DK_after_success st = (st = NS_succeeded)"
| "dependencySatisfied DK_after_terminal st = terminalNodeState st"

definition nodesById :: "DelegationGraphNodeRecord list \<Rightarrow> (string \<times> DelegationGraphNodeRecord) list" where
  "nodesById nodes = foldl (\<lambda>m node. AList.update (dn_id node) node m) [] nodes"

definition blockersOf :: "DelegationGraphSnapshot \<Rightarrow> DelegationGraphNodeRecord \<Rightarrow> DelegationGraphDependencyRecord list" where
  "blockersOf snapshot node =
     filter (\<lambda>dependency.
         if dd_toNodeId dependency \<noteq> dn_id node then False
         else (case map_of (nodesById (gs_nodes snapshot)) (dd_fromNodeId dependency) of
                 None \<Rightarrow> True
               | Some source \<Rightarrow> \<not> dependencySatisfied (dd_kind dependency) (dn_state source)))
       (gs_dependencies snapshot)"

fun blockedLoop :: "DelegationGraphSnapshot \<Rightarrow> DelegationGraphNodeRecord list \<Rightarrow> DelegationGraphBlockedNode list" where
  "blockedLoop snapshot [] = []"
| "blockedLoop snapshot (node # nodes) =
     (if \<not> isReadyCandidate node then blockedLoop snapshot nodes
      else let blockers = blockersOf snapshot node in
        if blockers \<noteq> [] then \<lparr>bn_node = node, bn_blockedBy = blockers\<rparr> # blockedLoop snapshot nodes
        else blockedLoop snapshot nodes)"

definition blockedPendingNodes :: "DelegationGraphSnapshot \<Rightarrow> DelegationGraphBlockedNode list" where
  "blockedPendingNodes snapshot = blockedLoop snapshot (gs_nodes snapshot)"

fun countState :: "DelegationGraphNodeStateCounts \<Rightarrow> DelegationNodeState \<Rightarrow> DelegationGraphNodeStateCounts" where
  "countState c NS_pending = c\<lparr>nc_pending := nc_pending c + 1\<rparr>"
| "countState c NS_ready = c\<lparr>nc_ready := nc_ready c + 1\<rparr>"
| "countState c NS_running = c\<lparr>nc_running := nc_running c + 1\<rparr>"
| "countState c NS_succeeded = c\<lparr>nc_succeeded := nc_succeeded c + 1\<rparr>"
| "countState c NS_failed = c\<lparr>nc_failed := nc_failed c + 1\<rparr>"
| "countState c NS_cancelled = c\<lparr>nc_cancelled := nc_cancelled c + 1\<rparr>"
| "countState c NS_skipped = c\<lparr>nc_skipped := nc_skipped c + 1\<rparr>"

definition countNodeStates :: "DelegationGraphNodeRecord list \<Rightarrow> DelegationGraphNodeStateCounts" where
  "countNodeStates nodes =
     foldl (\<lambda>c node. countState c (dn_state node))
       \<lparr>nc_pending = 0, nc_ready = 0, nc_running = 0, nc_succeeded = 0, nc_failed = 0, nc_cancelled = 0,
        nc_skipped = 0\<rparr> nodes"

definition graphProgressState ::
  "nat \<Rightarrow> DelegationGraphNodeStateCounts \<Rightarrow> nat \<Rightarrow> nat \<Rightarrow> DelegationGraphProgressState" where
  "graphProgressState nodeCount counts activeNodeCount blockedNodeCount =
     (if nodeCount = 0 then PG_empty
      else if nc_failed counts > 0 then PG_failed
      else if nc_cancelled counts > 0 then PG_cancelled
      else if nc_succeeded counts + nc_skipped counts = nodeCount then PG_succeeded
      else if activeNodeCount > 0 then PG_active
      else if blockedNodeCount > 0 then PG_blocked
      else PG_not_started)"

definition readyNodesOf :: "DelegationGraphSnapshot \<Rightarrow> DelegationGraphNodeRecord list" where
  "readyNodesOf snapshot =
     (let blockedNodeIds = map (\<lambda>item. dn_id (bn_node item)) (blockedPendingNodes snapshot) in
      filter (\<lambda>node. isReadyCandidate node \<and> dn_id node \<notin> set blockedNodeIds) (gs_nodes snapshot))"

definition buildGraphStatus :: "DelegationGraphSnapshot \<Rightarrow> DelegationGraphStatus" where
  "buildGraphStatus snapshot =
     (let counts = countNodeStates (gs_nodes snapshot);
          blockedNodes = blockedPendingNodes snapshot;
          readyNodes = readyNodesOf snapshot;
          runningNodes = filter (\<lambda>node. dn_state node = NS_running) (gs_nodes snapshot);
          completedNodeCount = nc_succeeded counts + nc_failed counts + nc_cancelled counts + nc_skipped counts;
          activeNodeCount = length readyNodes + length runningNodes;
          nodeCount = length (gs_nodes snapshot)
      in \<lparr>sg_graph = gs_graph snapshot,
          sg_progressState = graphProgressState nodeCount counts activeNodeCount (length blockedNodes),
          sg_nodeCount = nodeCount,
          sg_dependencyCount = length (gs_dependencies snapshot),
          sg_completedNodeCount = completedNodeCount,
          sg_activeNodeCount = activeNodeCount,
          sg_blockedNodeCount = length blockedNodes,
          sg_progressRatio = (if nodeCount = 0 then 1 else of_nat completedNodeCount / of_nat nodeCount),
          sg_counts = counts,
          sg_readyNodes = readyNodes,
          sg_runningNodes = runningNodes,
          sg_blockedNodes = blockedNodes,
          sg_failedNodes = filter (\<lambda>node. dn_state node = NS_failed) (gs_nodes snapshot),
          sg_cancelledNodes = filter (\<lambda>node. dn_state node = NS_cancelled) (gs_nodes snapshot)\<rparr>)"

definition getGraphSnapshot :: "'s delegation_storage \<Rightarrow> string \<Rightarrow> ('s, thrown, DelegationGraphSnapshot option) eff" where
  "getGraphSnapshot st graphId =
     eff_bind (st_getDelegationGraph st \<lparr>gg_graphId = graphId\<rparr>) (\<lambda>found.
     case found of
       None \<Rightarrow> eff_return None
     | Some graph \<Rightarrow>
         eff_bind (st_listDelegationGraphNodes st \<lparr>ln_graphId = graphId, ln_state = None\<rparr>) (\<lambda>nodes.
         eff_bind (st_listDelegationGraphDependencies st \<lparr>ld_graphId = graphId\<rparr>) (\<lambda>dependencies.
         eff_return (Some \<lparr>gs_graph = graph, gs_nodes = nodes, gs_dependencies = dependencies\<rparr>))))"

definition getGraphStatus :: "'s delegation_storage \<Rightarrow> string \<Rightarrow> ('s, thrown, DelegationGraphStatus option) eff" where
  "getGraphStatus st graphId =
     eff_bind (getGraphSnapshot st graphId) (\<lambda>snapshot. eff_return (map_option buildGraphStatus snapshot))"

section \<open>Synchronisation with scheduler jobs\<close>

fun terminalNodeStateForJob :: "SchedulerJobState \<Rightarrow> DelegationNodeState option" where
  "terminalNodeStateForJob JS_succeeded = Some NS_succeeded"
| "terminalNodeStateForJob JS_failed = Some NS_failed"
| "terminalNodeStateForJob JS_cancelled = Some NS_cancelled"
| "terminalNodeStateForJob _ = None"

definition metadataForJob :: "SchedulerJobRecord \<Rightarrow> json" where
  "metadataForJob job =
     JObj [(''schedulerJob'', JObj ([(''id'', JStr (jb_id job)), (''kind'', JStr (jobKindText (jb_kind job))),
       (''state'', JStr (jobStateText (jb_state job))), (''attempt'', JNum (jb_attempt job))] @
       opt_field ''result'' (jb_result job) @ opt_field ''lastError'' (jb_lastError job) @
       opt_field ''finishedAt'' (map_option JNum (jb_finishedAt job))))]"

definition syncMaterializedNodeJob ::
  "'s delegation_storage \<Rightarrow> string \<Rightarrow> ('s, thrown, DelegationGraphJobSyncResult) eff" where
  "syncMaterializedNodeJob st nodeId =
     eff_bind (st_getDelegationGraphNode st \<lparr>gn_nodeId = nodeId\<rparr>) (\<lambda>found.
     case found of
       None \<Rightarrow> eff_return (SyncNoop \<lparr>no_reason = SR_missing_node, no_node = None, no_job = None\<rparr>)
     | Some node \<Rightarrow>
         if terminalNodeState (dn_state node) then
           eff_return (SyncNoop \<lparr>no_reason = SR_already_terminal, no_node = Some node, no_job = None\<rparr>)
         else (case dn_schedulerJobId node of
           None \<Rightarrow> eff_return (SyncNoop \<lparr>no_reason = SR_no_scheduler_job, no_node = Some node, no_job = None\<rparr>)
         | Some jobId \<Rightarrow>
             eff_bind (st_getJob st \<lparr>gj_jobId = jobId\<rparr>) (\<lambda>jobFound.
             case jobFound of
               None \<Rightarrow> eff_return (SyncNoop \<lparr>no_reason = SR_missing_job, no_node = Some node, no_job = None\<rparr>)
             | Some job \<Rightarrow>
                 (case terminalNodeStateForJob (jb_state job) of
                    None \<Rightarrow> eff_return (SyncNoop \<lparr>no_reason = SR_non_terminal_job, no_node = Some node, no_job = Some job\<rparr>)
                  | Some state \<Rightarrow>
                      eff_bind (st_updateDelegationGraphNodeState st
                        \<lparr>un_nodeId = dn_id node, un_state = state, un_schedulerJobId = None,
                         un_metadata = Some (metadataForJob job)\<rparr>) (\<lambda>updated.
                      eff_return (Synced \<lparr>sy_node = updated, sy_job = job\<rparr>))))))"

section \<open>The step\<close>

fun syncLoop ::
  "'s delegation_storage \<Rightarrow> DelegationGraphNodeRecord list \<Rightarrow> DelegationGraphJobSynced list \<Rightarrow>
   DelegationGraphJobSyncNoop list \<Rightarrow>
   ('s, thrown, DelegationGraphJobSynced list \<times> DelegationGraphJobSyncNoop list) eff" where
  "syncLoop st [] synced syncNoops = eff_return (synced, syncNoops)"
| "syncLoop st (node # nodes) synced syncNoops =
     (if dn_schedulerJobId node = None then syncLoop st nodes synced syncNoops
      else eff_bind (syncMaterializedNodeJob st (dn_id node)) (\<lambda>result.
        case result of
          Synced x \<Rightarrow> syncLoop st nodes (synced @ [x]) syncNoops
        | SyncNoop x \<Rightarrow> syncLoop st nodes synced (syncNoops @ [x])))"

definition syncRunningNodes ::
  "'s delegation_storage \<Rightarrow> string \<Rightarrow>
   ('s, thrown, DelegationGraphJobSynced list \<times> DelegationGraphJobSyncNoop list) eff" where
  "syncRunningNodes st graphId =
     eff_bind (st_listDelegationGraphNodes st \<lparr>ln_graphId = graphId, ln_state = Some NS_running\<rparr>) (\<lambda>runningNodes.
     syncLoop st runningNodes [] [])"

definition stepMaterialize ::
  "RunDelegationGraphStepRequest \<Rightarrow> DelegationGraphNodeRecord \<Rightarrow> SchedulerJobKind \<Rightarrow>
   MaterializeReadyDelegationGraphNodeRequest" where
  "stepMaterialize r node jobKind =
     \<lparr>mr_graphId = rs_graphId r, mr_nodeId = Some (dn_id node), mr_workerId = rs_workerId r, mr_jobId = None,
      mr_jobKind = jobKind, mr_jobPayload = None, mr_scheduledAt = None, mr_notBefore = None, mr_priority = None,
      mr_maxAttempts = None, mr_retryPolicy = None, mr_jobIdempotencyKey = None, mr_budgetGrantId = None\<rparr>"

fun materializeLoop ::
  "'s delegation_storage \<Rightarrow> RunDelegationGraphStepRequest \<Rightarrow> number \<Rightarrow> DelegationGraphNodeRecord list \<Rightarrow>
   MaterializedDelegationGraphNode list \<Rightarrow> DelegationGraphStepSkippedReadyNode list \<Rightarrow>
   ('s, thrown, MaterializedDelegationGraphNode list \<times> DelegationGraphStepSkippedReadyNode list) eff" where
  "materializeLoop st r limit [] materialized skipped = eff_return (materialized, skipped)"
| "materializeLoop st r limit (node # nodes) materialized skipped =
     (if of_nat (length materialized) \<ge> limit then eff_return (materialized, skipped)
      else (case rs_jobKindsByNodeKind r (dn_kind node) of
        None \<Rightarrow> materializeLoop st r limit nodes materialized
                 (skipped @ [\<lparr>sk_node = node, sk_reason = SK_unsupported_node_kind\<rparr>])
      | Some jobKind \<Rightarrow>
          eff_bind (st_materializeReadyDelegationGraphNode st (stepMaterialize r node jobKind)) (\<lambda>result.
          case result of
            None \<Rightarrow> materializeLoop st r limit nodes materialized
                     (skipped @ [\<lparr>sk_node = node, sk_reason = SK_not_ready\<rparr>])
          | Some x \<Rightarrow> materializeLoop st r limit nodes (materialized @ [x]) skipped)))"

definition materializeReadyNodes ::
  "'s delegation_storage \<Rightarrow> RunDelegationGraphStepRequest \<Rightarrow> number \<Rightarrow>
   ('s, thrown, MaterializedDelegationGraphNode list \<times> DelegationGraphStepSkippedReadyNode list) eff" where
  "materializeReadyNodes st r limit =
     eff_bind (st_listReadyDelegationGraphNodes st
       \<lparr>lr_graphId = rs_graphId r, lr_limit = Some (opt_else (rs_readyScanLimit r) (max limit 1))\<rparr>) (\<lambda>readyNodes.
     materializeLoop st r limit readyNodes [] [])"

definition isInteger :: "number \<Rightarrow> bool" where
  "isInteger n = (of_int \<lfloor>n\<rfloor> = n)"

definition runDelegationGraphStep ::
  "'s delegation_storage \<Rightarrow> RunDelegationGraphStepRequest \<Rightarrow> ('s, thrown, DelegationGraphStepResult) eff" where
  "runDelegationGraphStep st r =
     (let limit = opt_else (rs_materializeLimit r) 1 in
      eff_bind (eff_guard (isInteger limit \<and> \<not> limit < 0)
        (plainError ''delegation graph materializeLimit must be a non-negative integer'')) (\<lambda>_.
      eff_bind (eff_guard (case rs_readyScanLimit r of None \<Rightarrow> True | Some n \<Rightarrow> isInteger n \<and> \<not> n < 0)
        (plainError ''delegation graph readyScanLimit must be a non-negative integer'')) (\<lambda>_.
      eff_bind (syncRunningNodes st (rs_graphId r)) (\<lambda>(synced, syncNoops).
      eff_bind (if limit = 0 then eff_return ([], []) else materializeReadyNodes st r limit)
        (\<lambda>(materialized, skipped).
      eff_return \<lparr>sr_graphId = rs_graphId r, sr_synced = synced, sr_syncNoops = syncNoops,
        sr_materialized = materialized, sr_skippedReadyNodes = skipped\<rparr>)))))"


section \<open>The runtime\<close>

text \<open>The class \<open>DelegationGraphRuntime\<close>: each method is the function above on the storage of the runtime.\<close>

record 's DelegationGraphRuntime =
  dgr_storage :: "'s delegation_storage"
  dgr_principalId :: string

definition newDelegationGraphRuntime :: "'s delegation_storage \<Rightarrow> string option \<Rightarrow> 's DelegationGraphRuntime" where
  "newDelegationGraphRuntime st principalId =
     \<lparr>dgr_storage = st, dgr_principalId = opt_else principalId ''team-delegation-graph''\<rparr>"

definition dgr_createGraph ::
  "'s DelegationGraphRuntime \<Rightarrow> CreateDelegationGraphRequest \<Rightarrow> ('s, thrown, DelegationGraphRecord) eff" where
  "dgr_createGraph rt r = createGraph (dgr_storage rt) r (dgr_principalId rt)"

definition dgr_getGraph :: "'s DelegationGraphRuntime \<Rightarrow> string \<Rightarrow> ('s, thrown, DelegationGraphRecord option) eff" where
  "dgr_getGraph rt = getGraph (dgr_storage rt)"

definition dgr_listGraphs ::
  "'s DelegationGraphRuntime \<Rightarrow> ListDelegationGraphsRuntimeRequest \<Rightarrow> ('s, thrown, DelegationGraphRecord list) eff" where
  "dgr_listGraphs rt = listGraphs (dgr_storage rt)"

definition dgr_updateGraphState ::
  "'s DelegationGraphRuntime \<Rightarrow> string \<Rightarrow> DelegationGraphState \<Rightarrow> ('s, thrown, DelegationGraphRecord) eff" where
  "dgr_updateGraphState rt = updateGraphState (dgr_storage rt)"

definition dgr_addNode ::
  "'s DelegationGraphRuntime \<Rightarrow> AddDelegationGraphNodeRequest \<Rightarrow> ('s, thrown, DelegationGraphNodeRecord) eff" where
  "dgr_addNode rt r = addNode (dgr_storage rt) r (dgr_principalId rt)"

definition dgr_listNodes ::
  "'s DelegationGraphRuntime \<Rightarrow> string \<Rightarrow> DelegationNodeState option \<Rightarrow> ('s, thrown, DelegationGraphNodeRecord list) eff" where
  "dgr_listNodes rt = listNodes (dgr_storage rt)"

definition dgr_addDependency ::
  "'s DelegationGraphRuntime \<Rightarrow> AddDelegationGraphDependencyRequest \<Rightarrow> ('s, thrown, DelegationGraphDependencyRecord) eff" where
  "dgr_addDependency rt = addDependency (dgr_storage rt)"

definition dgr_listDependencies ::
  "'s DelegationGraphRuntime \<Rightarrow> string \<Rightarrow> ('s, thrown, DelegationGraphDependencyRecord list) eff" where
  "dgr_listDependencies rt = listDependencies (dgr_storage rt)"

definition dgr_listReadyNodes ::
  "'s DelegationGraphRuntime \<Rightarrow> string \<Rightarrow> number option \<Rightarrow> ('s, thrown, DelegationGraphNodeRecord list) eff" where
  "dgr_listReadyNodes rt = listReadyNodes (dgr_storage rt)"

definition dgr_attachNodeJob ::
  "'s DelegationGraphRuntime \<Rightarrow> string \<Rightarrow> string \<Rightarrow> ('s, thrown, DelegationGraphNodeRecord) eff" where
  "dgr_attachNodeJob rt = attachNodeJob (dgr_storage rt)"

definition dgr_materializeReadyNode ::
  "'s DelegationGraphRuntime \<Rightarrow> MaterializeReadyDelegationGraphNodeRequest \<Rightarrow>
   ('s, thrown, MaterializedDelegationGraphNode option) eff" where
  "dgr_materializeReadyNode rt = materializeReadyNode (dgr_storage rt)"

definition dgr_updateNodeState ::
  "'s DelegationGraphRuntime \<Rightarrow> UpdateDelegationGraphNodeStateRequest \<Rightarrow> ('s, thrown, DelegationGraphNodeRecord) eff" where
  "dgr_updateNodeState rt = updateNodeState (dgr_storage rt)"

definition dgr_markNodeReady :: "'s DelegationGraphRuntime \<Rightarrow> string \<Rightarrow> ('s, thrown, DelegationGraphNodeRecord) eff" where
  "dgr_markNodeReady rt nodeId = markNodeState (dgr_storage rt) nodeId NS_ready None None"

definition dgr_markNodeRunning ::
  "'s DelegationGraphRuntime \<Rightarrow> string \<Rightarrow> string option \<Rightarrow> ('s, thrown, DelegationGraphNodeRecord) eff" where
  "dgr_markNodeRunning rt nodeId schedulerJobId = markNodeState (dgr_storage rt) nodeId NS_running schedulerJobId None"

definition dgr_markNodeSucceeded ::
  "'s DelegationGraphRuntime \<Rightarrow> string \<Rightarrow> json option \<Rightarrow> ('s, thrown, DelegationGraphNodeRecord) eff" where
  "dgr_markNodeSucceeded rt nodeId metadata = markNodeState (dgr_storage rt) nodeId NS_succeeded None metadata"

definition dgr_markNodeFailed ::
  "'s DelegationGraphRuntime \<Rightarrow> string \<Rightarrow> json option \<Rightarrow> ('s, thrown, DelegationGraphNodeRecord) eff" where
  "dgr_markNodeFailed rt nodeId metadata = markNodeState (dgr_storage rt) nodeId NS_failed None metadata"

definition dgr_markNodeCancelled ::
  "'s DelegationGraphRuntime \<Rightarrow> string \<Rightarrow> json option \<Rightarrow> ('s, thrown, DelegationGraphNodeRecord) eff" where
  "dgr_markNodeCancelled rt nodeId metadata = markNodeState (dgr_storage rt) nodeId NS_cancelled None metadata"

definition dgr_markNodeSkipped ::
  "'s DelegationGraphRuntime \<Rightarrow> string \<Rightarrow> json option \<Rightarrow> ('s, thrown, DelegationGraphNodeRecord) eff" where
  "dgr_markNodeSkipped rt nodeId metadata = markNodeState (dgr_storage rt) nodeId NS_skipped None metadata"

definition dgr_getGraphSnapshot ::
  "'s DelegationGraphRuntime \<Rightarrow> string \<Rightarrow> ('s, thrown, DelegationGraphSnapshot option) eff" where
  "dgr_getGraphSnapshot rt = getGraphSnapshot (dgr_storage rt)"

definition dgr_getGraphStatus ::
  "'s DelegationGraphRuntime \<Rightarrow> string \<Rightarrow> ('s, thrown, DelegationGraphStatus option) eff" where
  "dgr_getGraphStatus rt = getGraphStatus (dgr_storage rt)"

definition dgr_syncMaterializedNodeJob ::
  "'s DelegationGraphRuntime \<Rightarrow> string \<Rightarrow> ('s, thrown, DelegationGraphJobSyncResult) eff" where
  "dgr_syncMaterializedNodeJob rt = syncMaterializedNodeJob (dgr_storage rt)"

definition dgr_runGraphStep ::
  "'s DelegationGraphRuntime \<Rightarrow> RunDelegationGraphStepRequest \<Rightarrow> ('s, thrown, DelegationGraphStepResult) eff" where
  "dgr_runGraphStep rt = runDelegationGraphStep (dgr_storage rt)"

end
