(* ===== verification/Delegation_Spec.thy ===== *)
theory Delegation_Spec
  imports Delegation_Graph
begin

text \<open>
  What the step of a delegation graph promises. The abstract graph keeps the state of each node
  and the dependencies; it moves by starting a waiting node whose dependencies are satisfied and
  by finishing a running node. \<open>delegation_store\<close> is the interface that the runtime relies on, and
  the refinement of the abstract graph is proved from it.
\<close>

section \<open>The abstract graph\<close>

record agraph =
  ag_states :: "string \<Rightarrow> DelegationNodeState option"
  ag_deps :: "(string \<times> string \<times> DelegationDependencyKind) set"

abbreviation waiting :: "DelegationNodeState \<Rightarrow> bool" where
  "waiting q \<equiv> q = NS_pending \<or> q = NS_ready"

definition satisfied :: "agraph \<Rightarrow> string \<times> string \<times> DelegationDependencyKind \<Rightarrow> bool" where
  "satisfied a d = (case d of (i, j, k) \<Rightarrow> \<exists>q. ag_states a i = Some q \<and> dependencySatisfied k q)"

definition unlocked :: "agraph \<Rightarrow> string \<Rightarrow> bool" where
  "unlocked a n = (\<forall>d \<in> ag_deps a. fst (snd d) = n \<longrightarrow> satisfied a d)"

definition set_state :: "string \<Rightarrow> DelegationNodeState \<Rightarrow> agraph \<Rightarrow> agraph" where
  "set_state n q a = a\<lparr>ag_states := (ag_states a)(n \<mapsto> q)\<rparr>"

inductive dg_step :: "agraph \<Rightarrow> agraph \<Rightarrow> bool" where
  start: "ag_states a n = Some q \<Longrightarrow> waiting q \<Longrightarrow> unlocked a n \<Longrightarrow> dg_step a (set_state n NS_running a)"
| finish: "ag_states a n = Some NS_running \<Longrightarrow> terminalNodeState q \<Longrightarrow> dg_step a (set_state n q a)"

inductive_cases dg_stepE: "dg_step a b"

abbreviation dg_steps :: "agraph \<Rightarrow> agraph \<Rightarrow> bool" where
  "dg_steps \<equiv> dg_step\<^sup>*\<^sup>*"

text \<open>A node that runs or has run.\<close>

definition begun :: "agraph \<Rightarrow> string \<Rightarrow> bool" where
  "begun a n = (\<exists>q. ag_states a n = Some q \<and> \<not> waiting q)"

definition safe :: "agraph \<Rightarrow> bool" where
  "safe a = (\<forall>n. begun a n \<longrightarrow> unlocked a n)"

lemma set_state_simps [simp]:
  "ag_states (set_state n q a) = (ag_states a)(n \<mapsto> q)" "ag_deps (set_state n q a) = ag_deps a"
  by (simp_all add: set_state_def)

lemma dependencySatisfied_terminal: "dependencySatisfied k q \<Longrightarrow> terminalNodeState q"
  by (cases k) auto

lemma step_keeps_satisfied: "dg_step a b \<Longrightarrow> satisfied a d \<Longrightarrow> satisfied b d"
  by (erule dg_stepE) (auto simp: satisfied_def dest: dependencySatisfied_terminal split: prod.splits)

lemma step_keeps_deps: "dg_step a b \<Longrightarrow> ag_deps b = ag_deps a"
  by (erule dg_stepE) simp_all

lemma step_keeps_unlocked: "dg_step a b \<Longrightarrow> unlocked a n \<Longrightarrow> unlocked b n"
  using step_keeps_satisfied step_keeps_deps unfolding unlocked_def by blast

lemma step_keeps_safe: "dg_step a b \<Longrightarrow> safe a \<Longrightarrow> safe b"
proof -
  assume ab: "dg_step a b" and safe: "safe a"
  have "unlocked b n" if "begun b n" for n
  proof -
    have "unlocked a n"
      using ab that safe by (auto elim!: dg_stepE simp: begun_def safe_def split: if_splits)
    with ab show ?thesis by (rule step_keeps_unlocked)
  qed
  then show ?thesis by (simp add: safe_def)
qed

lemma steps_keep_safe: "dg_steps a b \<Longrightarrow> safe a \<Longrightarrow> safe b"
  by (induction rule: rtranclp_induct) (auto dest: step_keeps_safe)

lemma step_keeps_begun: "dg_step a b \<Longrightarrow> begun a n \<Longrightarrow> begun b n"
  by (auto elim!: dg_stepE simp: begun_def)

lemma steps_keep_begun: "dg_steps a b \<Longrightarrow> begun a n \<Longrightarrow> begun b n"
  by (induction rule: rtranclp_induct) (auto dest: step_keeps_begun)

section \<open>The interface of the storage\<close>

text \<open>
  \<open>view s\<close> is the abstract graph that the storage holds in state \<open>s\<close>. Queries keep the state and
  tell the truth about it; an update of a node changes its state only, and not that of a node in
  another terminal state; materialization starts a waiting node whose dependencies are satisfied.
\<close>

locale delegation_store =
  fixes st :: "'s delegation_storage"
    and view :: "'s \<Rightarrow> agraph"
    and ok :: "'s \<Rightarrow> bool"
  assumes list_nodes: "ok s \<Longrightarrow> st_listDelegationGraphNodes st lr s = (x, t) \<Longrightarrow>
      t = s \<and> (\<forall>ns. x = Inr ns \<longrightarrow> (\<forall>n \<in> set ns. ag_states (view s) (dn_id n) = Some (dn_state n) \<and>
        (\<forall>q. ln_state lr = Some q \<longrightarrow> dn_state n = q)))"
    and get_node: "ok s \<Longrightarrow> st_getDelegationGraphNode st gr s = (x2, t) \<Longrightarrow>
      t = s \<and> (\<forall>n. x2 = Inr (Some n) \<longrightarrow> dn_id n = gn_nodeId gr \<and> ag_states (view s) (dn_id n) = Some (dn_state n))"
    and get_job: "ok s \<Longrightarrow> st_getJob st jr s = (x3, t) \<Longrightarrow> t = s"
    and list_ready: "ok s \<Longrightarrow> st_listReadyDelegationGraphNodes st rr s = (x4, t) \<Longrightarrow> t = s"
    and update_node: "ok s \<Longrightarrow> st_updateDelegationGraphNodeState st ur s = (x5, t) \<Longrightarrow>
      ok t \<and> (case x5 of
        Inl e \<Rightarrow> view t = view s
      | Inr n \<Rightarrow> (\<exists>q. ag_states (view s) (un_nodeId ur) = Some q \<and> (terminalNodeState q \<longrightarrow> un_state ur = q)) \<and>
          view t = set_state (un_nodeId ur) (un_state ur) (view s))"
    and materialize: "ok s \<Longrightarrow> st_materializeReadyDelegationGraphNode st mr s = (x6, t) \<Longrightarrow>
      ok t \<and> (case x6 of
        Inr (Some m) \<Rightarrow> (\<exists>q. ag_states (view s) (dn_id (mt_node m)) = Some q \<and> waiting q) \<and>
          unlocked (view s) (dn_id (mt_node m)) \<and> view t = set_state (dn_id (mt_node m)) NS_running (view s)
      | _ \<Rightarrow> view t = view s)"
begin

lemma sync_refines:
  assumes "ok s" "begun (view s) i" "syncMaterializedNodeJob st i s = (x, t)"
  shows "ok t \<and> dg_steps (view s) (view t)"
proof -
  obtain y s1 where g: "st_getDelegationGraphNode st \<lparr>gn_nodeId = i\<rparr> s = (y, s1)" by fastforce
  have s1: "s1 = s" using get_node [OF assms(1) g] by simp
  show ?thesis
  proof (cases "\<exists>n j. y = Inr (Some n) \<and> \<not> terminalNodeState (dn_state n) \<and> dn_schedulerJobId n = Some j")
    case False
    then have "t = s" using assms(3) g s1
      by (auto simp: syncMaterializedNodeJob_def eff_simps split: sum.splits option.splits if_splits)
    with assms(1) show ?thesis by simp
  next
    case True
    then obtain n j where y: "y = Inr (Some n)" "\<not> terminalNodeState (dn_state n)" "dn_schedulerJobId n = Some j" by auto
    have n: "dn_id n = i" "ag_states (view s) i = Some (dn_state n)" using get_node [OF assms(1) g] y(1) by auto
    then have running: "ag_states (view s) i = Some NS_running" using assms(2) y(2) by (cases "dn_state n") (auto simp: begun_def)
    obtain z s2 where j: "st_getJob st \<lparr>gj_jobId = j\<rparr> s = (z, s2)" by fastforce
    have s2: "s2 = s" using get_job [OF assms(1) j] .
    show ?thesis
    proof (cases "\<exists>job q. z = Inr (Some job) \<and> terminalNodeStateForJob (jb_state job) = Some q")
      case False
      then have "t = s" using assms(3) g s1 y j s2
        by (auto simp: syncMaterializedNodeJob_def eff_simps split: sum.splits option.splits if_splits)
      with assms(1) show ?thesis by simp
    next
      case True
      then obtain job q where z: "z = Inr (Some job)" "terminalNodeStateForJob (jb_state job) = Some q" by auto
      let ?u = "\<lparr>un_nodeId = i, un_state = q, un_schedulerJobId = None, un_metadata = Some (metadataForJob job)\<rparr>"
      obtain w s3 where u: "st_updateDelegationGraphNodeState st ?u s = (w, s3)" by fastforce
      have t: "t = s3" using assms(3) g s1 y j s2 z u n(1)
        by (auto simp: syncMaterializedNodeJob_def eff_simps split: sum.splits)
      have "terminalNodeState q" using z(2) by (cases "jb_state job") auto
      with running have "dg_step (view s) (set_state i q (view s))" by (rule dg_step.finish)
      with update_node [OF assms(1) u] show ?thesis by (auto simp: t split: sum.splits)
    qed
  qed
qed

lemma syncLoop_refines:
  assumes "ok s" "\<forall>n \<in> set ns. begun (view s) (dn_id n)" "syncLoop st ns a b s = (x, t)"
  shows "ok t \<and> dg_steps (view s) (view t)"
  using assms
proof (induction ns arbitrary: s a b)
  case (Cons n ns)
  show ?case
  proof (cases "dn_schedulerJobId n = None")
    case True
    with Cons.prems show ?thesis by (intro Cons.IH [of s a b]) simp_all
  next
    case False
    obtain y s1 where sync: "syncMaterializedNodeJob st (dn_id n) s = (y, s1)" by fastforce
    have s1: "ok s1" "dg_steps (view s) (view s1)" using sync_refines [OF Cons.prems(1) _ sync] Cons.prems(2) by auto
    have begun: "\<forall>m \<in> set ns. begun (view s1) (dn_id m)" using Cons.prems(2) steps_keep_begun [OF s1(2)] by simp
    show ?thesis
    proof (cases y)
      case (Inl e)
      with Cons.prems(3) False sync s1 show ?thesis by (simp add: eff_simps)
    next
      case (Inr result)
      then obtain a' b' where "syncLoop st ns a' b' s1 = (x, t)"
        using Cons.prems(3) False sync by (cases result) (auto simp: eff_simps)
      from Cons.IH [OF s1(1) begun this] show ?thesis using s1(2) by auto
    qed
  qed
qed (simp add: eff_simps)

lemma materializeLoop_refines:
  assumes "ok s" "materializeLoop st r limit ns a b s = (x, t)"
  shows "ok t \<and> dg_steps (view s) (view t)"
  using assms
proof (induction ns arbitrary: s a b)
  case (Cons n ns)
  show ?case
  proof (cases "of_nat (length a) \<ge> limit \<or> rs_jobKindsByNodeKind r (dn_kind n) = None")
    case True
    then show ?thesis using Cons.prems Cons.IH [OF Cons.prems(1)] by (auto simp: eff_simps split: if_splits)
  next
    case False
    then obtain k where k: "\<not> of_nat (length a) \<ge> limit" "rs_jobKindsByNodeKind r (dn_kind n) = Some k" by auto
    obtain y s1 where m: "st_materializeReadyDelegationGraphNode st (stepMaterialize r n k) s = (y, s1)" by fastforce
    have s1: "ok s1 \<and> dg_steps (view s) (view s1)"
      using materialize [OF Cons.prems(1) m] by (auto split: sum.splits option.splits intro!: r_into_rtranclp dg_step.start)
    show ?thesis
    proof (cases y)
      case (Inl e)
      with Cons.prems(2) k m s1 show ?thesis by (simp add: eff_simps)
    next
      case (Inr result)
      then obtain a' b' where "materializeLoop st r limit ns a' b' s1 = (x, t)"
        using Cons.prems(2) k m by (cases result) (auto simp: eff_simps)
      with Cons.IH [of s1 a' b'] s1 show ?thesis by auto
    qed
  qed
qed (simp add: eff_simps)

lemma syncRunningNodes_refines:
  assumes "ok s" "syncRunningNodes st g s = (x, t)"
  shows "ok t \<and> dg_steps (view s) (view t)"
proof -
  obtain y s1 where l: "st_listDelegationGraphNodes st \<lparr>ln_graphId = g, ln_state = Some NS_running\<rparr> s = (y, s1)" by fastforce
  note listed = list_nodes [OF assms(1) l]
  show ?thesis
  proof (cases y)
    case (Inl e)
    with assms l listed show ?thesis by (simp add: syncRunningNodes_def eff_simps)
  next
    case (Inr ns)
    then have "\<forall>n \<in> set ns. begun (view s) (dn_id n)" using listed by (auto simp: begun_def)
    moreover have "syncLoop st ns [] [] s = (x, t)" using assms(2) l listed Inr by (simp add: syncRunningNodes_def eff_simps)
    ultimately show ?thesis using syncLoop_refines [OF assms(1)] by blast
  qed
qed

lemma materializeReadyNodes_refines:
  assumes "ok s" "materializeReadyNodes st r limit s = (x, t)"
  shows "ok t \<and> dg_steps (view s) (view t)"
  using assms(2)
  unfolding materializeReadyNodes_def
proof (cases rule: eff_bind_cases)
  case (throw e)
  with list_ready [OF assms(1)] assms(1) show ?thesis by blast
next
  case (go_on ns u)
  then have "u = s" using list_ready [OF assms(1)] by blast
  with go_on(2) materializeLoop_refines [OF assms(1)] show ?thesis by blast
qed

lemma step_refines:
  assumes "ok s" "runDelegationGraphStep st r s = (x, t)"
  shows "ok t \<and> dg_steps (view s) (view t)"
proof -
  obtain y s1 where sync: "syncRunningNodes st (rs_graphId r) s = (y, s1)" by fastforce
  have s1: "ok s1" "dg_steps (view s) (view s1)" using syncRunningNodes_refines [OF assms(1) sync] by auto
  obtain z s2 where mat: "materializeReadyNodes st r (opt_else (rs_materializeLimit r) 1) s1 = (z, s2)" by fastforce
  have s2: "ok s2 \<and> dg_steps (view s1) (view s2)" by (rule materializeReadyNodes_refines [OF s1(1) mat])
  have "t \<in> {s, s1, s2}"
    using assms(2) sync mat by (auto simp: runDelegationGraphStep_def eff_simps Let_def split: if_splits sum.splits prod.splits option.splits)
  then show ?thesis using s1 s2 assms(1) by (auto intro: rtranclp_trans)
qed

end

end
