(* ===== verification/Delegation_Rpc.thy ===== *)
theory Delegation_Rpc
  imports Delegation_Codec
begin

text \<open>
  The service end of the delegation RPC and the proof that the client over it is the service.
  \<open>handle_request\<close> is \<open>handle_delegation_request\<close> of crates/system-service/src/rpc.rs with the
  command \<open>get-job\<close> of \<open>handle_scheduler_request\<close>; the readers and writers are the derived
  \<open>Deserialize\<close> and \<open>Serialize\<close> of the structs of models.rs. A request that does not have the
  shape of its struct is refused before the service runs; the text of that message is left empty.
\<close>

section \<open>Reading requests\<close>

type_synonym entries = "(string \<times> json) list"

definition i64_ok :: "number \<Rightarrow> bool" where
  "i64_ok n = (snd (quotient_of n) = 1 \<and> - (2 ^ 63) \<le> n \<and> n < 2 ^ 63)"

definition opt_i64_ok :: "number option \<Rightarrow> bool" where
  "opt_i64_ok v = (case v of None \<Rightarrow> True | Some n \<Rightarrow> i64_ok n)"

fun as_string :: "json \<Rightarrow> string option" where
  "as_string (JStr s) = Some s"
| "as_string _ = None"

fun as_i64 :: "json \<Rightarrow> number option" where
  "as_i64 (JNum n) = (if i64_ok n then Some n else None)"
| "as_i64 _ = None"

definition as_member :: "(string \<times> 'a) list \<Rightarrow> json \<Rightarrow> 'a option" where
  "as_member members v = Option.bind (as_string v) (map_of members)"

definition required :: "(json \<Rightarrow> 'a option) \<Rightarrow> entries \<Rightarrow> string \<Rightarrow> 'a option" where
  "required f m k = Option.bind (map_of m k) f"

definition optional :: "(json \<Rightarrow> 'a option) \<Rightarrow> entries \<Rightarrow> string \<Rightarrow> 'a option option" where
  "optional f m k = (if nullish (map_of m k) then Some None else Option.bind (map_of m k) (\<lambda>v. map_option Some (f v)))"

fun entries_of :: "json \<Rightarrow> entries option" where
  "entries_of (JObj m) = Some m"
| "entries_of _ = None"

definition read_policy :: "json \<Rightarrow> RetryPolicy option" where
  "read_policy v = do {
     m \<leftarrow> entries_of v;
     strategy \<leftarrow> required (as_member strategies) m ''strategy'';
     initial \<leftarrow> optional as_i64 m ''initial_delay_ms'';
     limit \<leftarrow> optional as_i64 m ''max_delay_ms'';
     Some \<lparr>rp_strategy = strategy, rp_initialDelayMs = initial, rp_maxDelayMs = limit\<rparr>}"

definition read_put_graph :: "entries \<Rightarrow> PutDelegationGraphRequest option" where
  "read_put_graph m = do {
     i \<leftarrow> optional as_string m ''id'';
     principal \<leftarrow> required as_string m ''principal_id'';
     title \<leftarrow> optional as_string m ''title'';
     metadata \<leftarrow> optional Some m ''metadata'';
     key \<leftarrow> optional as_string m ''idempotency_key'';
     Some \<lparr>pg_id = i, pg_principalId = principal, pg_title = title, pg_metadata = metadata, pg_idempotencyKey = key\<rparr>}"

definition read_list_graphs :: "entries \<Rightarrow> ListDelegationGraphsRequest option" where
  "read_list_graphs m = do {
     principal \<leftarrow> optional as_string m ''principal_id'';
     state \<leftarrow> optional (as_member graphStates) m ''state'';
     limit \<leftarrow> optional as_i64 m ''limit'';
     Some \<lparr>lg_principalId = principal, lg_state = state, lg_limit = limit\<rparr>}"

definition read_put_node :: "entries \<Rightarrow> PutDelegationGraphNodeRequest option" where
  "read_put_node m = do {
     i \<leftarrow> optional as_string m ''id'';
     graph \<leftarrow> required as_string m ''graph_id'';
     kind \<leftarrow> required (as_member nodeKinds) m ''kind'';
     principal \<leftarrow> required as_string m ''principal_id'';
     payload \<leftarrow> required Some m ''payload'';
     metadata \<leftarrow> optional Some m ''metadata'';
     key \<leftarrow> optional as_string m ''idempotency_key'';
     Some \<lparr>pn_id = i, pn_graphId = graph, pn_kind = kind, pn_principalId = principal, pn_payload = payload,
           pn_metadata = metadata, pn_idempotencyKey = key\<rparr>}"

definition read_get_node :: "entries \<Rightarrow> GetDelegationGraphNodeRequest option" where
  "read_get_node m = map_option (\<lambda>i. \<lparr>gn_nodeId = i\<rparr>) (required as_string m ''node_id'')"

definition read_list_nodes :: "entries \<Rightarrow> ListDelegationGraphNodesRequest option" where
  "read_list_nodes m = do {
     graph \<leftarrow> required as_string m ''graph_id'';
     state \<leftarrow> optional (as_member nodeStates) m ''state'';
     Some \<lparr>ln_graphId = graph, ln_state = state\<rparr>}"

definition read_put_dependency :: "entries \<Rightarrow> PutDelegationGraphDependencyRequest option" where
  "read_put_dependency m = do {
     i \<leftarrow> optional as_string m ''id'';
     graph \<leftarrow> required as_string m ''graph_id'';
     source \<leftarrow> required as_string m ''from_node_id'';
     target \<leftarrow> required as_string m ''to_node_id'';
     kind \<leftarrow> optional (as_member dependencyKinds) m ''kind'';
     Some \<lparr>pd_id = i, pd_graphId = graph, pd_fromNodeId = source, pd_toNodeId = target, pd_kind = kind\<rparr>}"

definition read_list_dependencies :: "entries \<Rightarrow> ListDelegationGraphDependenciesRequest option" where
  "read_list_dependencies m = map_option (\<lambda>i. \<lparr>ld_graphId = i\<rparr>) (required as_string m ''graph_id'')"

definition read_update_graph :: "entries \<Rightarrow> UpdateDelegationGraphStateRequest option" where
  "read_update_graph m = do {
     graph \<leftarrow> required as_string m ''graph_id'';
     state \<leftarrow> required (as_member graphStates) m ''state'';
     Some \<lparr>ug_graphId = graph, ug_state = state\<rparr>}"

definition read_update_node :: "entries \<Rightarrow> UpdateDelegationGraphNodeStateRequest option" where
  "read_update_node m = do {
     node \<leftarrow> required as_string m ''node_id'';
     state \<leftarrow> required (as_member nodeStates) m ''state'';
     job \<leftarrow> optional as_string m ''scheduler_job_id'';
     metadata \<leftarrow> optional Some m ''metadata'';
     Some \<lparr>un_nodeId = node, un_state = state, un_schedulerJobId = job, un_metadata = metadata\<rparr>}"

definition read_attach_job :: "entries \<Rightarrow> AttachDelegationGraphNodeJobRequest option" where
  "read_attach_job m = do {
     node \<leftarrow> required as_string m ''node_id'';
     job \<leftarrow> required as_string m ''scheduler_job_id'';
     Some \<lparr>an_nodeId = node, an_schedulerJobId = job\<rparr>}"

definition read_list_ready :: "entries \<Rightarrow> ListReadyDelegationGraphNodesRequest option" where
  "read_list_ready m = do {
     graph \<leftarrow> required as_string m ''graph_id'';
     limit \<leftarrow> optional as_i64 m ''limit'';
     Some \<lparr>lr_graphId = graph, lr_limit = limit\<rparr>}"

definition read_materialize :: "entries \<Rightarrow> MaterializeReadyDelegationGraphNodeRequest option" where
  "read_materialize m = do {
     graph \<leftarrow> required as_string m ''graph_id'';
     node \<leftarrow> optional as_string m ''node_id'';
     worker \<leftarrow> required as_string m ''worker_id'';
     job \<leftarrow> optional as_string m ''job_id'';
     kind \<leftarrow> required (as_member jobKinds) m ''job_kind'';
     payload \<leftarrow> optional Some m ''job_payload'';
     scheduled \<leftarrow> optional as_i64 m ''scheduled_at'';
     not_before \<leftarrow> optional as_i64 m ''not_before'';
     priority \<leftarrow> optional as_i64 m ''priority'';
     attempts \<leftarrow> optional as_i64 m ''max_attempts'';
     policy \<leftarrow> optional read_policy m ''retry_policy'';
     key \<leftarrow> optional as_string m ''job_idempotency_key'';
     grant \<leftarrow> optional as_string m ''budget_grant_id'';
     Some \<lparr>mr_graphId = graph, mr_nodeId = node, mr_workerId = worker, mr_jobId = job, mr_jobKind = kind,
           mr_jobPayload = payload, mr_scheduledAt = scheduled, mr_notBefore = not_before, mr_priority = priority,
           mr_maxAttempts = attempts, mr_retryPolicy = policy, mr_jobIdempotencyKey = key, mr_budgetGrantId = grant\<rparr>}"

definition read_get_job :: "entries \<Rightarrow> GetJobRequest option" where
  "read_get_job m = map_option (\<lambda>i. \<lparr>gj_jobId = i\<rparr>) (required as_string m ''job_id'')"

section \<open>Writing records\<close>

definition graph_json :: "DelegationGraphRecord \<Rightarrow> json" where
  "graph_json g = JObj
     [(''id'', JStr (dg_id g)), (''principal_id'', JStr (dg_principalId g)), (''title'', nullOr JStr (dg_title g)),
      (''state'', JStr (graphStateText (dg_state g))), (''metadata'', nullOr (\<lambda>x. x) (dg_metadata g)),
      (''created_at'', JNum (dg_createdAt g)), (''updated_at'', JNum (dg_updatedAt g)),
      (''closed_at'', nullOr JNum (dg_closedAt g))]"

definition node_json :: "DelegationGraphNodeRecord \<Rightarrow> json" where
  "node_json n = JObj
     [(''id'', JStr (dn_id n)), (''graph_id'', JStr (dn_graphId n)), (''kind'', JStr (nodeKindText (dn_kind n))),
      (''principal_id'', JStr (dn_principalId n)), (''state'', JStr (nodeStateText (dn_state n))),
      (''payload'', dn_payload n), (''scheduler_job_id'', nullOr JStr (dn_schedulerJobId n)),
      (''metadata'', nullOr (\<lambda>x. x) (dn_metadata n)), (''created_at'', JNum (dn_createdAt n)),
      (''updated_at'', JNum (dn_updatedAt n)), (''started_at'', nullOr JNum (dn_startedAt n)),
      (''finished_at'', nullOr JNum (dn_finishedAt n))]"

definition dependency_json :: "DelegationGraphDependencyRecord \<Rightarrow> json" where
  "dependency_json d = JObj
     [(''id'', JStr (dd_id d)), (''graph_id'', JStr (dd_graphId d)), (''from_node_id'', JStr (dd_fromNodeId d)),
      (''to_node_id'', JStr (dd_toNodeId d)), (''kind'', JStr (dependencyKindText (dd_kind d))),
      (''created_at'', JNum (dd_createdAt d))]"

definition job_json :: "SchedulerJobRecord \<Rightarrow> json" where
  "job_json j = JObj
     [(''id'', JStr (jb_id j)), (''kind'', JStr (jobKindText (jb_kind j))), (''queue'', JStr (jb_queue j)),
      (''state'', JStr (jobStateText (jb_state j))), (''principal_id'', JStr (jb_principalId j)),
      (''payload'', jb_payload j), (''scheduled_at'', JNum (jb_scheduledAt j)),
      (''not_before'', nullOr JNum (jb_notBefore j)), (''priority'', JNum (jb_priority j)),
      (''concurrency_key'', nullOr JStr (jb_concurrencyKey j)), (''attempt'', JNum (jb_attempt j)),
      (''max_attempts'', JNum (jb_maxAttempts j)), (''retry_policy'', retryPolicyJson (jb_retryPolicy j)),
      (''idempotency_key'', nullOr JStr (jb_idempotencyKey j)), (''budget_grant_id'', nullOr JStr (jb_budgetGrantId j)),
      (''lease_owner'', nullOr JStr (jb_leaseOwner j)), (''lease_token'', nullOr JStr (jb_leaseToken j)),
      (''lease_expires_at'', nullOr JNum (jb_leaseExpiresAt j)), (''result'', nullOr (\<lambda>x. x) (jb_result j)),
      (''last_error'', nullOr (\<lambda>x. x) (jb_lastError j)), (''created_at'', JNum (jb_createdAt j)),
      (''updated_at'', JNum (jb_updatedAt j)), (''finished_at'', nullOr JNum (jb_finishedAt j))]"

definition materialized_json :: "MaterializedDelegationGraphNode \<Rightarrow> json" where
  "materialized_json x = JObj [(''node'', node_json (mt_node x)), (''job'', job_json (mt_job x))]"

section \<open>Dispatch\<close>

definition reply :: "('a \<Rightarrow> json) \<Rightarrow> 'a service_op \<Rightarrow> service \<Rightarrow> response \<times> service" where
  "reply write op s =
     (case op s of
        Inl e \<Rightarrow> (RpcFailure (service_error_code e) (service_error_text e), s)
      | Inr (x, t) \<Rightarrow> (RpcSuccess (write x), t))"

definition refused :: "service \<Rightarrow> response \<times> service" where
  "refused s = (RpcFailure ''invalid_storage_rpc_envelope'' [], s)"

definition handle ::
  "entries \<Rightarrow> (entries \<Rightarrow> 'r option) \<Rightarrow> ('a \<Rightarrow> json) \<Rightarrow> ('r \<Rightarrow> 'a service_op) \<Rightarrow> service \<Rightarrow> response \<times> service" where
  "handle m read write op s =
     (case Option.bind (Option.bind (map_of m ''request'') entries_of) read of
        None \<Rightarrow> refused s
      | Some r \<Rightarrow> reply write (op r) s)"

definition handle_command :: "entries \<Rightarrow> string \<Rightarrow> service \<Rightarrow> response \<times> service" where
  "handle_command m c =
     (if c = ''put-delegation-graph'' then handle m read_put_graph graph_json put_delegation_graph
      else if c = ''get-delegation-graph'' then
        (case required as_string m ''graph_id'' of None \<Rightarrow> refused
         | Some i \<Rightarrow> reply (nullOr graph_json) (get_delegation_graph i))
      else if c = ''list-delegation-graphs'' then
        handle m read_list_graphs (\<lambda>xs. JArr (map graph_json xs)) list_delegation_graphs
      else if c = ''put-delegation-graph-node'' then handle m read_put_node node_json put_delegation_graph_node
      else if c = ''get-delegation-graph-node'' then
        handle m read_get_node (nullOr node_json) get_delegation_graph_node
      else if c = ''list-delegation-graph-nodes'' then
        handle m read_list_nodes (\<lambda>xs. JArr (map node_json xs)) list_delegation_graph_nodes
      else if c = ''put-delegation-graph-dependency'' then
        handle m read_put_dependency dependency_json put_delegation_graph_dependency
      else if c = ''list-delegation-graph-dependencies'' then
        handle m read_list_dependencies (\<lambda>xs. JArr (map dependency_json xs)) list_delegation_graph_dependencies
      else if c = ''update-delegation-graph-state'' then
        handle m read_update_graph graph_json update_delegation_graph_state
      else if c = ''update-delegation-graph-node-state'' then
        handle m read_update_node node_json update_delegation_graph_node_state
      else if c = ''attach-delegation-graph-node-job'' then
        handle m read_attach_job node_json attach_delegation_graph_node_job
      else if c = ''list-ready-delegation-graph-nodes'' then
        handle m read_list_ready (\<lambda>xs. JArr (map node_json xs)) list_ready_delegation_graph_nodes
      else if c = ''materialize-ready-delegation-graph-node'' then
        handle m read_materialize (nullOr materialized_json) materialize_ready_delegation_graph_node
      else if c = ''get-job'' then handle m read_get_job (nullOr job_json) get_job
      else refused)"

definition handle_request :: "json \<Rightarrow> service \<Rightarrow> response \<times> service" where
  "handle_request v =
     (case entries_of v of None \<Rightarrow> refused
      | Some m \<Rightarrow> (case required as_string m ''command'' of None \<Rightarrow> refused | Some c \<Rightarrow> handle_command m c))"

definition service_transport :: "service transport" where
  "service_transport =
     \<lparr>rt_call = (\<lambda>v s. case handle_request v s of (response, t) \<Rightarrow> (Inr response, t)),
      rt_sleep = (\<lambda>d s. (Inr (), s))\<rparr>"

section \<open>The service as a storage\<close>

text \<open>
  What the client should be: each method runs its operation of the service. On the wire \<open>null\<close> and
  an absent value are the same, so a \<open>null\<close> metadata, payload, result or error is absent on the
  other side; a number that is no 64-bit integer is refused.
\<close>

definition client_error :: "service_error \<Rightarrow> thrown" where
  "client_error e = CodedError ''SystemServiceClientError'' (service_error_code e) (service_error_text e)"

definition via :: "('a \<Rightarrow> 'b) \<Rightarrow> 'a service_op \<Rightarrow> (service, thrown, 'b) eff" where
  "via f op s = (case op s of Inl e \<Rightarrow> (Inl (client_error e), s) | Inr (x, t) \<Rightarrow> (Inr (f x), t))"

definition checked :: "bool \<Rightarrow> (service, thrown, 'a) eff \<Rightarrow> (service, thrown, 'a) eff" where
  "checked b m s = (if b then m s else (Inl (CodedError ''SystemServiceClientError'' ''invalid_storage_rpc_envelope'' []), s))"

definition drop_null :: "json option \<Rightarrow> json option" where
  "drop_null v = (if v = Some JNull then None else v)"

definition wire_graph :: "DelegationGraphRecord \<Rightarrow> DelegationGraphRecord" where
  "wire_graph g = g\<lparr>dg_metadata := drop_null (dg_metadata g)\<rparr>"

definition wire_node :: "DelegationGraphNodeRecord \<Rightarrow> DelegationGraphNodeRecord" where
  "wire_node n = n\<lparr>dn_metadata := drop_null (dn_metadata n)\<rparr>"

definition wire_job :: "SchedulerJobRecord \<Rightarrow> SchedulerJobRecord" where
  "wire_job j = j\<lparr>jb_result := drop_null (jb_result j), jb_lastError := drop_null (jb_lastError j)\<rparr>"

definition wire_materialized :: "MaterializedDelegationGraphNode \<Rightarrow> MaterializedDelegationGraphNode" where
  "wire_materialized x = \<lparr>mt_node = wire_node (mt_node x), mt_job = wire_job (mt_job x)\<rparr>"

definition policy_i64_ok :: "RetryPolicy option \<Rightarrow> bool" where
  "policy_i64_ok p = (case p of None \<Rightarrow> True | Some q \<Rightarrow> opt_i64_ok (rp_initialDelayMs q) \<and> opt_i64_ok (rp_maxDelayMs q))"

definition materialize_i64_ok :: "MaterializeReadyDelegationGraphNodeRequest \<Rightarrow> bool" where
  "materialize_i64_ok r =
     (opt_i64_ok (mr_scheduledAt r) \<and> opt_i64_ok (mr_notBefore r) \<and> opt_i64_ok (mr_priority r) \<and>
      opt_i64_ok (mr_maxAttempts r) \<and> policy_i64_ok (mr_retryPolicy r))"

definition service_storage :: "service delegation_storage" where
  "service_storage =
     \<lparr>st_putDelegationGraph = (\<lambda>r. via wire_graph (put_delegation_graph (r\<lparr>pg_metadata := drop_null (pg_metadata r)\<rparr>))),
      st_getDelegationGraph = (\<lambda>r. via (map_option wire_graph) (get_delegation_graph (gg_graphId r))),
      st_listDelegationGraphs = (\<lambda>r. checked (opt_i64_ok (lg_limit r)) (via (map wire_graph) (list_delegation_graphs r))),
      st_putDelegationGraphNode =
        (\<lambda>r. via wire_node (put_delegation_graph_node (r\<lparr>pn_metadata := drop_null (pn_metadata r)\<rparr>))),
      st_getDelegationGraphNode = (\<lambda>r. via (map_option wire_node) (get_delegation_graph_node r)),
      st_listDelegationGraphNodes = (\<lambda>r. via (map wire_node) (list_delegation_graph_nodes r)),
      st_putDelegationGraphDependency = (\<lambda>r. via (\<lambda>x. x) (put_delegation_graph_dependency r)),
      st_listDelegationGraphDependencies = (\<lambda>r. via (\<lambda>x. x) (list_delegation_graph_dependencies r)),
      st_updateDelegationGraphState = (\<lambda>r. via wire_graph (update_delegation_graph_state r)),
      st_updateDelegationGraphNodeState =
        (\<lambda>r. via wire_node (update_delegation_graph_node_state (r\<lparr>un_metadata := drop_null (un_metadata r)\<rparr>))),
      st_attachDelegationGraphNodeJob = (\<lambda>r. via wire_node (attach_delegation_graph_node_job r)),
      st_listReadyDelegationGraphNodes =
        (\<lambda>r. checked (opt_i64_ok (lr_limit r)) (via (map wire_node) (list_ready_delegation_graph_nodes r))),
      st_materializeReadyDelegationGraphNode =
        (\<lambda>r. checked (materialize_i64_ok r) (via (map_option wire_materialized)
           (materialize_ready_delegation_graph_node (r\<lparr>mr_jobPayload := drop_null (mr_jobPayload r)\<rparr>)))),
      st_getJob = (\<lambda>r. via (map_option wire_job) (get_job r))\<rparr>"


section \<open>What is written is read back\<close>

lemma members [codec_simps]:
  "map_of graphStates (graphStateText x1) = Some x1"
  "map_of nodeKinds (nodeKindText x2) = Some x2"
  "map_of nodeStates (nodeStateText x3) = Some x3"
  "map_of dependencyKinds (dependencyKindText x4) = Some x4"
  "map_of jobKinds (jobKindText x5) = Some x5"
  "map_of jobStates (jobStateText x6) = Some x6"
  "map_of strategies (strategyText x7) = Some x7"
proof -
  show "map_of graphStates (graphStateText x1) = Some x1" by (cases x1) (simp_all add: graphStates_def)
  show "map_of nodeKinds (nodeKindText x2) = Some x2" by (cases x2) (simp_all add: nodeKinds_def)
  show "map_of nodeStates (nodeStateText x3) = Some x3" by (cases x3) (simp_all add: nodeStates_def)
  show "map_of dependencyKinds (dependencyKindText x4) = Some x4" by (cases x4) (simp_all add: dependencyKinds_def)
  show "map_of jobKinds (jobKindText x5) = Some x5" by (cases x5) (simp_all add: jobKinds_def)
  show "map_of jobStates (jobStateText x6) = Some x6" by (cases x6) (simp_all add: jobStates_def)
  show "map_of strategies (strategyText x7) = Some x7" by (cases x7) (simp_all add: strategies_def)
qed

lemma optionalJson_nullOr [codec_simps]: "optionalJson (Some (nullOr (\<lambda>x. x) v)) = drop_null v"
  by (cases v) (simp_all add: optionalJson_def nullish_def drop_null_def)

lemma optional_string [codec_simps]: "map_of m k = Some (nullOr JStr v) \<Longrightarrow> optional as_string m k = Some v"
  by (cases v) (simp_all add: optional_def)

lemma optional_value [codec_simps]: "map_of m k = Some (opt_else v JNull) \<Longrightarrow> optional Some m k = Some (drop_null v)"
  by (cases v) (simp_all add: optional_def drop_null_def nullish_def)

lemma optional_i64 [codec_simps]:
  "map_of m k = Some (nullOr JNum v) \<Longrightarrow> optional as_i64 m k = (if opt_i64_ok v then Some v else None)"
  by (cases v) (simp_all add: optional_def opt_i64_ok_def)

lemma optional_member [codec_simps]:
  "map_of m k = Some (nullOr (\<lambda>x. JStr (text x)) v) \<Longrightarrow> (\<And>x. map_of members (text x) = Some x) \<Longrightarrow>
   optional (as_member members) m k = Some v"
  by (cases v) (simp_all add: optional_def as_member_def)

lemma required_simps [codec_simps]:
  "map_of m k = Some (JStr s) \<Longrightarrow> required as_string m k = Some s"
  "map_of m k = Some v \<Longrightarrow> required Some m k = Some v"
  "map_of m k = Some (JStr s) \<Longrightarrow> map_of members s = Some x \<Longrightarrow> required (as_member members) m k = Some x"
  by (simp_all add: required_def as_member_def)

lemma read_policy_json [codec_simps]:
  "read_policy (retryPolicyJson p) = (if policy_i64_ok (Some p) then Some p else None)"
  by (simp add: read_policy_def retryPolicyJson_def codec_simps policy_i64_ok_def)

lemma optional_policy [codec_simps]:
  "map_of m k = Some (nullOr retryPolicyJson p) \<Longrightarrow>
   optional read_policy m k = (if policy_i64_ok p then Some p else None)"
  by (cases p) (simp_all add: optional_def codec_simps nullish_def, simp_all add: retryPolicyJson_def policy_i64_ok_def)

lemma expectRetryPolicy_json [codec_simps]: "expectRetryPolicy (Some (retryPolicyJson p)) name = Inr p"
  by (simp add: expectRetryPolicy_def retryPolicyJson_def codec_simps)

lemma read_graph_json: "fromRpcDelegationGraphRecord (graph_json g) = Inr (wire_graph g)"
  by (simp add: fromRpcDelegationGraphRecord_def graph_json_def expectDelegationGraphState_def codec_simps wire_graph_def)

lemma read_node_json: "fromRpcDelegationGraphNodeRecord (node_json n) = Inr (wire_node n)"
  by (simp add: fromRpcDelegationGraphNodeRecord_def node_json_def expectDelegationNodeKind_def
      expectDelegationNodeState_def expectJsonField_def codec_simps wire_node_def)

lemma read_dependency_json: "fromRpcDelegationGraphDependencyRecord (dependency_json d) = Inr d"
  by (simp add: fromRpcDelegationGraphDependencyRecord_def dependency_json_def
      expectDelegationDependencyKind_def codec_simps)

lemma read_job_json: "fromRpcSchedulerJobRecord (job_json j) = Inr (wire_job j)"
  by (simp add: fromRpcSchedulerJobRecord_def job_json_def expectSchedulerJobKind_def expectSchedulerJobState_def
      codec_simps wire_job_def)

lemma read_materialized_json: "fromRpcMaterializedDelegationGraphNode (materialized_json x) = Inr (wire_materialized x)"
  by (simp add: fromRpcMaterializedDelegationGraphNode_def materialized_json_def expectJsonField_def
      read_node_json read_job_json wire_materialized_def)


section \<open>The client over the service\<close>

lemma service_error_steady: "\<not> isTransientSqliteResponse (RpcFailure (service_error_code e) (service_error_text e))"
proof (cases "service_error_code e = ''sqlite''")
  case True
  have "list_all (\<lambda>e. \<not> isTransientSqliteResponse (RpcFailure (service_error_code e) (service_error_text e)))
      [SE_unique_dependency, SE_unique_job, SE_unique_scope, SE_unique_grant, SE_unique_usage, SE_no_rows]"
    by code_simp
  with True show ?thesis by (cases e) simp_all
qed (simp add: isTransientSqliteResponse_def)

lemma refused_steady: "\<not> isTransientSqliteResponse (fst (refused s))"
  by (simp add: refused_def isTransientSqliteResponse_def)

lemma reply_steady: "\<not> isTransientSqliteResponse (fst (reply write op s))"
  using service_error_steady by (simp add: reply_def isTransientSqliteResponse_def split: sum.split prod.split)

lemma handle_steady: "\<not> isTransientSqliteResponse (fst (handle m read write op s))"
  by (simp add: handle_def refused_steady reply_steady split: option.split)

lemma handle_request_steady: "\<not> isTransientSqliteResponse (fst (handle_request v s))"
  by (simp add: handle_request_def handle_command_def handle_steady refused_steady reply_steady split: option.split)

lemma rpc_call_service:
  "rpc_call service_transport v s = (parseResponseEnvelope (fst (handle_request v s)), snd (handle_request v s))"
  unfolding rpc_call_def
  by (rule callFrom_steady) (simp_all add: service_transport_def handle_request_steady split: prod.split)

text \<open>The reply of an operation, read back.\<close>

definition answer :: "response \<times> service \<Rightarrow> (json \<Rightarrow> (service, thrown, 'b) eff) \<Rightarrow> (thrown + 'b) \<times> service" where
  "answer r k = eff_bind (\<lambda>s. (parseResponseEnvelope (fst r), s)) k (snd r)"

lemma call_answer: "eff_bind (rpc_call service_transport v) k s = answer (handle_request v s) k"
  by (simp add: eff_bind_def rpc_call_service answer_def)

lemma answer_reply:
  assumes "\<And>x t. k (write x) t = (Inr (f x), t)"
  shows "answer (reply write op s) k = via f op s"
  by (simp add: answer_def reply_def via_def client_error_def parseResponseEnvelope_def eff_bind_def assms
      split: sum.split prod.split)

lemma reads:
  "readOne fromRpcDelegationGraphRecord (graph_json g) t = (Inr (wire_graph g), t)"
  "readOne fromRpcDelegationGraphNodeRecord (node_json n) t = (Inr (wire_node n), t)"
  "readOne fromRpcDelegationGraphDependencyRecord (dependency_json d) t = (Inr d, t)"
  "readNullable fromRpcDelegationGraphRecord (nullOr graph_json og) t = (Inr (map_option wire_graph og), t)"
  "readNullable fromRpcDelegationGraphNodeRecord (nullOr node_json on) t = (Inr (map_option wire_node on), t)"
  "readNullable fromRpcSchedulerJobRecord (nullOr job_json oj) t = (Inr (map_option wire_job oj), t)"
  "readNullable fromRpcMaterializedDelegationGraphNode (nullOr materialized_json om) t =
     (Inr (map_option wire_materialized om), t)"
  by (simp_all add: readOne_def read_graph_json read_node_json read_dependency_json)
    ((cases og; simp add: readNullable_def read_graph_json; simp add: graph_json_def)
    | (cases on; simp add: readNullable_def read_node_json; simp add: node_json_def)
    | (cases oj; simp add: readNullable_def read_job_json; simp add: job_json_def)
    | (cases om; simp add: readNullable_def read_materialized_json; simp add: materialized_json_def))+

lemma map_result_wire: "(\<And>x. f (g x) = Inr (h x)) \<Longrightarrow> map_result f (map g xs) = Inr (map h xs)"
  by (induction xs) simp_all

lemma read_arrays:
  "readArray name fromRpcDelegationGraphRecord (JArr (map graph_json gs)) t = (Inr (map wire_graph gs), t)"
  "readArray name fromRpcDelegationGraphNodeRecord (JArr (map node_json ns)) t = (Inr (map wire_node ns), t)"
  "readArray name fromRpcDelegationGraphDependencyRecord (JArr (map dependency_json ds)) t = (Inr ds, t)"
  by (simp_all add: readArray_def map_result_wire [where h = wire_graph] map_result_wire [where h = wire_node]
      map_result_wire [where h = "\<lambda>d. d"] read_graph_json read_node_json read_dependency_json)

lemma answers:
  "answer (reply graph_json op1 s) (readOne fromRpcDelegationGraphRecord) = via wire_graph op1 s"
  "answer (reply node_json op2 s) (readOne fromRpcDelegationGraphNodeRecord) = via wire_node op2 s"
  "answer (reply dependency_json op3 s) (readOne fromRpcDelegationGraphDependencyRecord) = via (\<lambda>d. d) op3 s"
  "answer (reply (nullOr graph_json) op4 s) (readNullable fromRpcDelegationGraphRecord) = via (map_option wire_graph) op4 s"
  "answer (reply (nullOr node_json) op5 s) (readNullable fromRpcDelegationGraphNodeRecord) = via (map_option wire_node) op5 s"
  "answer (reply (nullOr job_json) op6 s) (readNullable fromRpcSchedulerJobRecord) = via (map_option wire_job) op6 s"
  "answer (reply (nullOr materialized_json) op7 s) (readNullable fromRpcMaterializedDelegationGraphNode) =
     via (map_option wire_materialized) op7 s"
  "answer (reply (\<lambda>xs. JArr (map graph_json xs)) op8 s) (readArray name fromRpcDelegationGraphRecord) =
     via (map wire_graph) op8 s"
  "answer (reply (\<lambda>xs. JArr (map node_json xs)) op9 s) (readArray name fromRpcDelegationGraphNodeRecord) =
     via (map wire_node) op9 s"
  "answer (reply (\<lambda>xs. JArr (map dependency_json xs)) op10 s) (readArray name fromRpcDelegationGraphDependencyRecord) =
     via (\<lambda>ds. ds) op10 s"
  by (rule answer_reply, simp add: reads read_arrays)+

lemma answer_refused: "answer (refused s) k = (Inl (CodedError ''SystemServiceClientError'' ''invalid_storage_rpc_envelope'' []), s)"
  by (simp add: answer_def refused_def parseResponseEnvelope_def eff_bind_def)

lemma handle_command_request:
  "handle_request (command c r) = handle_command [(''command'', JStr c), (''request'', r)] c"
  by (simp add: handle_request_def command_def codec_simps)

lemmas request_writers =
  toRpcPutDelegationGraphRequest_def toRpcListDelegationGraphsRequest_def toRpcPutDelegationGraphNodeRequest_def
  toRpcGetDelegationGraphNodeRequest_def toRpcListDelegationGraphNodesRequest_def
  toRpcPutDelegationGraphDependencyRequest_def toRpcListDelegationGraphDependenciesRequest_def
  toRpcUpdateDelegationGraphStateRequest_def toRpcUpdateDelegationGraphNodeStateRequest_def
  toRpcAttachDelegationGraphNodeJobRequest_def toRpcListReadyDelegationGraphNodesRequest_def
  toRpcMaterializeReadyDelegationGraphNodeRequest_def toRpcGetJobRequest_def

lemmas request_readers =
  read_put_graph_def read_list_graphs_def read_put_node_def read_get_node_def read_list_nodes_def
  read_put_dependency_def read_list_dependencies_def read_update_graph_def read_update_node_def
  read_attach_job_def read_list_ready_def read_materialize_def read_get_job_def

lemmas served = call_answer handle_command_request handle_command_def handle_def codec_simps answers answer_refused

lemma putDelegationGraph_served: "putDelegationGraph service_transport = st_putDelegationGraph service_storage"
proof (intro ext)
  fix r s
  show "putDelegationGraph service_transport r s = st_putDelegationGraph service_storage r s"
    by (cases r) (simp add: putDelegationGraph_def service_storage_def request_writers request_readers served)
qed

lemma getDelegationGraph_served: "getDelegationGraph service_transport = st_getDelegationGraph service_storage"
proof (intro ext)
  fix r s
  show "getDelegationGraph service_transport r s = st_getDelegationGraph service_storage r s"
    by (cases r) (simp add: getDelegationGraph_def service_storage_def request_writers request_readers served handle_request_def)
qed

lemma listDelegationGraphs_served: "listDelegationGraphs service_transport = st_listDelegationGraphs service_storage"
proof (intro ext)
  fix r s
  show "listDelegationGraphs service_transport r s = st_listDelegationGraphs service_storage r s"
    by (cases r) (simp add: listDelegationGraphs_def service_storage_def request_writers request_readers served checked_def)
qed

lemma putDelegationGraphNode_served: "putDelegationGraphNode service_transport = st_putDelegationGraphNode service_storage"
proof (intro ext)
  fix r s
  show "putDelegationGraphNode service_transport r s = st_putDelegationGraphNode service_storage r s"
    by (cases r) (simp add: putDelegationGraphNode_def service_storage_def request_writers request_readers served)
qed

lemma getDelegationGraphNode_served: "getDelegationGraphNode service_transport = st_getDelegationGraphNode service_storage"
proof (intro ext)
  fix r s
  show "getDelegationGraphNode service_transport r s = st_getDelegationGraphNode service_storage r s"
    by (cases r) (simp add: getDelegationGraphNode_def service_storage_def request_writers request_readers served)
qed

lemma listDelegationGraphNodes_served: "listDelegationGraphNodes service_transport = st_listDelegationGraphNodes service_storage"
proof (intro ext)
  fix r s
  show "listDelegationGraphNodes service_transport r s = st_listDelegationGraphNodes service_storage r s"
    by (cases r) (simp add: listDelegationGraphNodes_def service_storage_def request_writers request_readers served)
qed

lemma putDelegationGraphDependency_served: "putDelegationGraphDependency service_transport = st_putDelegationGraphDependency service_storage"
proof (intro ext)
  fix r s
  show "putDelegationGraphDependency service_transport r s = st_putDelegationGraphDependency service_storage r s"
    by (cases r) (simp add: putDelegationGraphDependency_def service_storage_def request_writers request_readers served)
qed

lemma listDelegationGraphDependencies_served: "listDelegationGraphDependencies service_transport = st_listDelegationGraphDependencies service_storage"
proof (intro ext)
  fix r s
  show "listDelegationGraphDependencies service_transport r s = st_listDelegationGraphDependencies service_storage r s"
    by (cases r) (simp add: listDelegationGraphDependencies_def service_storage_def request_writers request_readers served)
qed

lemma updateDelegationGraphState_served: "updateDelegationGraphState service_transport = st_updateDelegationGraphState service_storage"
proof (intro ext)
  fix r s
  show "updateDelegationGraphState service_transport r s = st_updateDelegationGraphState service_storage r s"
    by (cases r) (simp add: updateDelegationGraphState_def service_storage_def request_writers request_readers served)
qed

lemma updateDelegationGraphNodeState_served: "updateDelegationGraphNodeState service_transport = st_updateDelegationGraphNodeState service_storage"
proof (intro ext)
  fix r s
  show "updateDelegationGraphNodeState service_transport r s = st_updateDelegationGraphNodeState service_storage r s"
    by (cases r) (simp add: updateDelegationGraphNodeState_def service_storage_def request_writers request_readers served)
qed

lemma attachDelegationGraphNodeJob_served: "attachDelegationGraphNodeJob service_transport = st_attachDelegationGraphNodeJob service_storage"
proof (intro ext)
  fix r s
  show "attachDelegationGraphNodeJob service_transport r s = st_attachDelegationGraphNodeJob service_storage r s"
    by (cases r) (simp add: attachDelegationGraphNodeJob_def service_storage_def request_writers request_readers served)
qed

lemma listReadyDelegationGraphNodes_served: "listReadyDelegationGraphNodes service_transport = st_listReadyDelegationGraphNodes service_storage"
proof (intro ext)
  fix r s
  show "listReadyDelegationGraphNodes service_transport r s = st_listReadyDelegationGraphNodes service_storage r s"
    by (cases r) (simp add: listReadyDelegationGraphNodes_def service_storage_def request_writers request_readers served checked_def)
qed

lemma materializeReadyDelegationGraphNode_served: "materializeReadyDelegationGraphNode service_transport = st_materializeReadyDelegationGraphNode service_storage"
proof (intro ext)
  fix r s
  show "materializeReadyDelegationGraphNode service_transport r s = st_materializeReadyDelegationGraphNode service_storage r s"
    by (cases r) (simp add: materializeReadyDelegationGraphNode_def service_storage_def request_writers request_readers served checked_def materialize_i64_ok_def)
qed

lemma getJob_served: "getJob service_transport = st_getJob service_storage"
proof (intro ext)
  fix r s
  show "getJob service_transport r s = st_getJob service_storage r s"
    by (cases r) (simp add: getJob_def service_storage_def request_writers request_readers served)
qed

lemmas all_served =
  putDelegationGraph_served
  getDelegationGraph_served
  listDelegationGraphs_served
  putDelegationGraphNode_served
  getDelegationGraphNode_served
  listDelegationGraphNodes_served
  putDelegationGraphDependency_served
  listDelegationGraphDependencies_served
  updateDelegationGraphState_served
  updateDelegationGraphNodeState_served
  attachDelegationGraphNodeJob_served
  listReadyDelegationGraphNodes_served
  materializeReadyDelegationGraphNode_served
  getJob_served

lemma client_is_service: "rpc_storage service_transport = service_storage"
  by (simp add: rpc_storage_def all_served)

text \<open>
  C15. The client of the delegation store over the RPC of the system service is the service: each
  of its fourteen methods runs the operation of the same name, returns its record or its error,
  and leaves the same state.
\<close>

theorem client_refines_service: "rpc_storage service_transport = service_storage"
  by (rule client_is_service)

end
