(* ===== verification/Delegation_Safety.thy ===== *)
theory Delegation_Safety
  imports Delegation_Spec Delegation_Rpc
begin

text \<open>
  The delegation store of the system service keeps its tables well formed and provides the
  interface of theory Delegation_Spec, so the delegation runtime over it refines the abstract
  graph: whatever steps, jobs and additions happen, a node runs only after what it depends on.
\<close>

section \<open>Well-formed tables\<close>

definition dep_ok :: "service \<Rightarrow> DelegationGraphDependencyRecord \<Rightarrow> bool" where
  "dep_ok s d =
     (case (get_node s (dd_fromNodeId d), get_node s (dd_toNodeId d)) of
        (Some m, Some n) \<Rightarrow> dn_graphId m = dd_graphId d \<and> dn_graphId n = dd_graphId d \<and> dd_fromNodeId d \<noteq> dd_toNodeId d
      | _ \<Rightarrow> False)"

definition service_ok :: "service \<Rightarrow> bool" where
  "service_ok s =
     (distinct (map (\<lambda>row. dg_id (fst row)) (sv_graphs s)) \<and>
      distinct (map (\<lambda>row. dn_id (fst row)) (sv_nodes s)) \<and>
      distinct (map dd_id (sv_deps s)) \<and>
      (\<forall>n \<in> fst ` set (sv_nodes s). get_graph s (dn_graphId n) \<noteq> None) \<and>
      (\<forall>d \<in> set (sv_deps s). dep_ok s d))"

definition service_view :: "service \<Rightarrow> agraph" where
  "service_view s =
     \<lparr>ag_states = (\<lambda>i. map_option dn_state (get_node s i)),
      ag_deps = (\<lambda>d. (dd_fromNodeId d, dd_toNodeId d, dd_kind d)) ` set (sv_deps s)\<rparr>"

lemma find_by_key:
  "distinct (map f xs) \<Longrightarrow> List.find (\<lambda>x. f x = i) xs = Some y \<longleftrightarrow> y \<in> set xs \<and> f y = i"
  by (induction xs) auto

lemma find_key_None: "List.find (\<lambda>x. f x = i) xs = None \<longleftrightarrow> i \<notin> f ` set xs"
  by (induction xs) auto

lemma find_append: "List.find P (xs @ ys) = (case List.find P xs of None \<Rightarrow> List.find P ys | Some x \<Rightarrow> Some x)"
  by (induction xs) auto

lemma find_replace:
  "List.find (\<lambda>x. f x = i) (map (\<lambda>x. if f x = f n then n else x) xs) =
     (if i = f n then map_option (\<lambda>_. n) (List.find (\<lambda>x. f x = i) xs) else List.find (\<lambda>x. f x = i) xs)"
  by (induction xs) auto

lemma get_node_iff:
  assumes "service_ok s"
  shows "get_node s i = Some n \<longleftrightarrow> n \<in> fst ` set (sv_nodes s) \<and> dn_id n = i"
  using assms find_by_key [of dn_id "map fst (sv_nodes s)"] by (simp add: get_node_def service_ok_def comp_def)

lemma get_node_id: "get_node s i = Some n \<Longrightarrow> dn_id n = i"
  by (auto simp: get_node_def find_Some_iff)

lemma get_graph_id: "get_graph s i = Some g \<Longrightarrow> dg_id g = i"
  by (auto simp: get_graph_def find_Some_iff)

lemma get_node_replace [simp]:
  "get_node (replace_node n s) i = (if i = dn_id n then map_option (\<lambda>_. n) (get_node s i) else get_node s i)"
proof -
  have "map fst (sv_nodes (replace_node n s)) = map (\<lambda>m. if dn_id m = dn_id n then n else m) (map fst (sv_nodes s))"
    by (simp add: replace_node_def comp_def prod.case_eq_if)
  then show ?thesis by (simp only: get_node_def find_replace)
qed

lemma get_graph_replace [simp]:
  "get_graph (replace_graph g s) i = (if i = dg_id g then map_option (\<lambda>_. g) (get_graph s i) else get_graph s i)"
proof -
  have "map fst (sv_graphs (replace_graph g s)) = map (\<lambda>m. if dg_id m = dg_id g then g else m) (map fst (sv_graphs s))"
    by (simp add: replace_graph_def comp_def prod.case_eq_if)
  then show ?thesis by (simp only: get_graph_def find_replace)
qed

lemma ids_replace:
  "map (\<lambda>row. dn_id (fst row)) (sv_nodes (replace_node n s)) = map (\<lambda>row. dn_id (fst row)) (sv_nodes s)"
  "map (\<lambda>row. dg_id (fst row)) (sv_graphs (replace_graph g s)) = map (\<lambda>row. dg_id (fst row)) (sv_graphs s)"
  by (auto simp: replace_node_def replace_graph_def)

lemma tables_replace [simp]:
  "sv_graphs (replace_node n s) = sv_graphs s" "sv_deps (replace_node n s) = sv_deps s"
  "sv_nodes (replace_graph g s) = sv_nodes s" "sv_deps (replace_graph g s) = sv_deps s"
  by (simp_all add: replace_node_def replace_graph_def)

lemma get_other [simp]:
  "get_graph (replace_node n s) = get_graph s" "get_node (replace_graph g s) = get_node s"
  "get_node (draw_uuids k s) = get_node s" "get_graph (draw_uuids k s) = get_graph s"
  "get_node (s\<lparr>sv_jobs := js\<rparr>) = get_node s" "get_graph (s\<lparr>sv_jobs := js\<rparr>) = get_graph s"
  "get_node (s\<lparr>sv_deps := ds\<rparr>) = get_node s" "get_graph (s\<lparr>sv_deps := ds\<rparr>) = get_graph s"
  "get_node (s\<lparr>sv_graphs := gs\<rparr>) = get_node s" "get_graph (s\<lparr>sv_nodes := ns\<rparr>) = get_graph s"
  "get_node (s\<lparr>sv_now := now\<rparr>) = get_node s" "get_graph (s\<lparr>sv_now := now\<rparr>) = get_graph s"
  by (simp_all add: fun_eq_iff get_graph_def get_node_def replace_node_def replace_graph_def draw_uuids_def)

lemma draw_tables [simp]:
  "sv_graphs (draw_uuids k s) = sv_graphs s" "sv_nodes (draw_uuids k s) = sv_nodes s"
  "sv_deps (draw_uuids k s) = sv_deps s" "sv_jobs (draw_uuids k s) = sv_jobs s"
  by (simp_all add: draw_uuids_def)

lemma dep_ok_cong: "get_node s = get_node t \<Longrightarrow> dep_ok s d = dep_ok t d"
  by (simp add: dep_ok_def)

lemma service_ok_cong:
  "sv_graphs s = sv_graphs t \<Longrightarrow> sv_nodes s = sv_nodes t \<Longrightarrow> sv_deps s = sv_deps t \<Longrightarrow> service_ok s = service_ok t"
  by (simp add: service_ok_def dep_ok_def get_node_def get_graph_def)

lemma service_view_cong: "sv_nodes s = sv_nodes t \<Longrightarrow> sv_deps s = sv_deps t \<Longrightarrow> service_view s = service_view t"
  by (simp add: service_view_def get_node_def)

lemma service_ok_jobs [simp]: "service_ok (s\<lparr>sv_jobs := js\<rparr>) = service_ok s" "service_ok (draw_uuids k s) = service_ok s"
  by (rule service_ok_cong; simp)+

lemma service_view_jobs [simp]:
  "service_view (s\<lparr>sv_jobs := js\<rparr>) = service_view s" "service_view (draw_uuids k s) = service_view s"
  by (rule service_view_cong; simp)+

lemma dep_ok_iff:
  "dep_ok s d \<longleftrightarrow> (\<exists>m n. get_node s (dd_fromNodeId d) = Some m \<and> get_node s (dd_toNodeId d) = Some n \<and>
     dn_graphId m = dd_graphId d \<and> dn_graphId n = dd_graphId d \<and> dd_fromNodeId d \<noteq> dd_toNodeId d)"
  by (simp add: dep_ok_def split: option.split)

text \<open>Dependencies stay well formed when nodes keep their graph and none disappears.\<close>

lemma dep_ok_mono:
  assumes "\<And>i m. get_node s i = Some m \<Longrightarrow> \<exists>m'. get_node t i = Some m' \<and> dn_graphId m' = dn_graphId m"
    and "dep_ok s d"
  shows "dep_ok t d"
proof -
  obtain m n where mn: "get_node s (dd_fromNodeId d) = Some m" "get_node s (dd_toNodeId d) = Some n"
    "dn_graphId m = dd_graphId d" "dn_graphId n = dd_graphId d" "dd_fromNodeId d \<noteq> dd_toNodeId d"
    using assms(2) unfolding dep_ok_iff by blast
  obtain m' n' where "get_node t (dd_fromNodeId d) = Some m'" "dn_graphId m' = dn_graphId m"
    "get_node t (dd_toNodeId d) = Some n'" "dn_graphId n' = dn_graphId n"
    using assms(1) [OF mn(1)] assms(1) [OF mn(2)] by blast
  with mn show ?thesis by (simp add: dep_ok_iff)
qed

lemma replace_node_ok:
  assumes "service_ok s" "get_node s (dn_id n) = Some m" "dn_graphId n = dn_graphId m"
  shows "service_ok (replace_node n s)"
proof -
  have "dep_ok (replace_node n s) d" if "d \<in> set (sv_deps s)" for d
    by (rule dep_ok_mono [of s]) (use assms that in \<open>auto simp: service_ok_def\<close>)
  moreover have "get_graph s (dn_graphId x) \<noteq> None" if "x \<in> fst ` set (sv_nodes (replace_node n s))" for x
  proof -
    have "x = n \<or> x \<in> fst ` set (sv_nodes s)" using that by (force simp: replace_node_def)
    moreover have "m \<in> fst ` set (sv_nodes s)" using get_node_iff [OF assms(1)] assms(2) by auto
    ultimately show ?thesis using assms(1,3) unfolding service_ok_def by metis
  qed
  ultimately show ?thesis using assms(1) ids_replace(1) [of n s] by (simp add: service_ok_def)
qed

lemma replace_graph_ok: "service_ok s \<Longrightarrow> service_ok (replace_graph g s)"
  using ids_replace(2) [of g s] by (auto simp: service_ok_def dep_ok_def)

lemma view_replace_node:
  "get_node s (dn_id n) = Some m \<Longrightarrow> service_view (replace_node n s) = set_state (dn_id n) (dn_state n) (service_view s)"
  by (simp add: service_view_def set_state_def fun_eq_iff)

lemma ready_row_unlocked:
  assumes "service_ok s" "n \<in> fst ` set (sv_nodes s)" "ready_row s n"
  shows "unlocked (service_view s) (dn_id n)"
proof -
  have "\<exists>m. get_node s (dd_fromNodeId d) = Some m \<and> dependencySatisfied (dd_kind d) (dn_state m)"
    if d: "d \<in> set (sv_deps s)" "dd_toNodeId d = dn_id n" for d
  proof -
    have to: "get_node s (dd_toNodeId d) = Some n" using get_node_iff [OF assms(1)] assms(2) d(2) by simp
    have "dep_ok s d" using assms(1) d(1) by (simp add: service_ok_def)
    with to obtain m where m: "get_node s (dd_fromNodeId d) = Some m" "dd_graphId d = dn_graphId n"
      by (auto simp: dep_ok_def split: option.splits)
    have "\<not> blocking_row s n d" using assms(3) d(1) by (auto simp: ready_row_def list_ex_iff)
    then have "\<not> dependency_blocks (dd_kind d) (dn_state m)"
      using m d(2) get_node_iff [OF assms(1)] by (force simp: blocking_row_def list_ex_iff)
    then have "dependencySatisfied (dd_kind d) (dn_state m)"
      by (cases "dd_kind d") (auto simp: dependency_blocks_def)
    with m(1) show ?thesis by blast
  qed
  then show ?thesis unfolding unlocked_def satisfied_def service_view_def by fastforce
qed

section \<open>Operations\<close>

lemma find_materializable_Some:
  assumes "find_materializable_node r s = Some n"
  shows "n \<in> fst ` set (sv_nodes s)" "ready_row s n" "dn_graphId n = mr_graphId r" "\<forall>i. mr_nodeId r = Some i \<longrightarrow> dn_id n = i"
proof -
  let ?ns = "filter (\<lambda>n. dn_graphId n = mr_graphId r \<and> ready_row s n \<and>
    (case mr_nodeId r of None \<Rightarrow> True | Some i \<Rightarrow> dn_id n = i)) (map fst (sv_nodes s))"
  have "n \<in> set (sort_by compare_nodes ?ns)"
    using assms unfolding find_materializable_node_def by (cases "sort_by compare_nodes ?ns") auto
  then have "n \<in> set ?ns" by (simp only: set_sort_by)
  then show "n \<in> fst ` set (sv_nodes s)" "ready_row s n" "dn_graphId n = mr_graphId r" "\<forall>i. mr_nodeId r = Some i \<longrightarrow> dn_id n = i"
    by auto
qed

lemma materialize_starts:
  assumes "service_ok s" "materialize_ready_delegation_graph_node r s = Inr (Some m, t)"
  shows "service_ok t" "\<exists>q. ag_states (service_view s) (dn_id (mt_node m)) = Some q \<and> waiting q"
    "unlocked (service_view s) (dn_id (mt_node m))"
    "service_view t = set_state (dn_id (mt_node m)) NS_running (service_view s)"
proof -
  from assms(2) obtain n job jobs where found: "find_materializable_node r s = Some n"
    and m: "dn_id (mt_node m) = dn_id n" "dn_state (mt_node m) = NS_running" "dn_graphId (mt_node m) = dn_graphId n"
    and t: "t = draw_uuids 2 (replace_node (mt_node m) (s\<lparr>sv_jobs := jobs\<rparr>))"
    by (auto simp: materialize_ready_delegation_graph_node_def result_simps Let_def split: option.splits prod.splits)
  note n = find_materializable_Some [OF found]
  have g: "get_node s (dn_id n) = Some n" using get_node_iff [OF assms(1)] n(1) by simp
  show "service_ok t" using replace_node_ok [of "s\<lparr>sv_jobs := jobs\<rparr>" "mt_node m" n] assms(1) g m by (simp add: t)
  show "\<exists>q. ag_states (service_view s) (dn_id (mt_node m)) = Some q \<and> waiting q"
    using n(2) g m(1) by (auto simp: service_view_def ready_row_def)
  show "unlocked (service_view s) (dn_id (mt_node m))" using ready_row_unlocked [OF assms(1) n(1,2)] m(1) by simp
  show "service_view t = set_state (dn_id (mt_node m)) NS_running (service_view s)"
    using view_replace_node [of "s\<lparr>sv_jobs := jobs\<rparr>" "mt_node m" n] g m by (simp add: t)
qed

lemma materialize_none:
  "materialize_ready_delegation_graph_node r s = Inr (None, t) \<Longrightarrow> t = s"
  by (auto simp: materialize_ready_delegation_graph_node_def result_simps Let_def split: option.splits prod.splits)

lemma update_node_sets:
  assumes "service_ok s" "update_delegation_graph_node_state r s = Inr (n, t)"
  shows "service_ok t" "\<exists>q. ag_states (service_view s) (un_nodeId r) = Some q \<and> (terminalNodeState q \<longrightarrow> un_state r = q)"
    "service_view t = set_state (un_nodeId r) (un_state r) (service_view s)"
proof -
  from assms(2) obtain m where g: "get_node s (un_nodeId r) = Some m"
    and tr: "\<not> (node_state_is_terminal (dn_state m) \<and> dn_state m \<noteq> un_state r)"
    and n: "dn_id n = dn_id m" "dn_state n = un_state r" "dn_graphId n = dn_graphId m" and t: "t = replace_node n s"
    by (auto simp: update_delegation_graph_node_state_def validate_node_transition_def result_simps Let_def)
  have "dn_id m = un_nodeId r" using get_node_id [OF g] .
  with n(1) g have g': "get_node s (dn_id n) = Some m" by simp
  show "service_ok t" unfolding t by (rule replace_node_ok [OF assms(1) g' n(3)])
  show "\<exists>q. ag_states (service_view s) (un_nodeId r) = Some q \<and> (terminalNodeState q \<longrightarrow> un_state r = q)"
    using g tr by (auto simp: service_view_def)
  show "service_view t = set_state (un_nodeId r) (un_state r) (service_view s)"
    using view_replace_node [OF g'] \<open>dn_id m = un_nodeId r\<close> n by (simp add: t)
qed

lemma viaE:
  assumes "via f op s = (x, t)"
  obtains (failed) e where "op s = Inl e" "x = Inl (client_error e)" "t = s"
    | (returned) y where "op s = Inr (y, t)" "x = Inr (f y)"
  using assms by (auto simp: via_def split: sum.splits)

lemma wire_node_simps [simp]:
  "dn_id (wire_node n) = dn_id n" "dn_state (wire_node n) = dn_state n" "dn_graphId (wire_node n) = dn_graphId n"
  "dn_kind (wire_node n) = dn_kind n" "dn_schedulerJobId (wire_node n) = dn_schedulerJobId n"
  by (simp_all add: wire_node_def)

section \<open>The service provides the interface\<close>

interpretation svc: delegation_store service_storage service_view service_ok
proof unfold_locales
  fix s t lr x
  assume ok: "service_ok s" and run: "st_listDelegationGraphNodes service_storage lr s = (x, t)"
  have "via (map wire_node) (list_delegation_graph_nodes lr) s = (x, t)" using run by (simp add: service_storage_def)
  then show "t = s \<and> (\<forall>ns. x = Inr ns \<longrightarrow> (\<forall>n \<in> set ns. ag_states (service_view s) (dn_id n) = Some (dn_state n) \<and>
      (\<forall>q. ln_state lr = Some q \<longrightarrow> dn_state n = q)))"
  proof (cases rule: viaE)
    case (returned ns)
    have "get_node s (dn_id n) = Some n" if "n \<in> fst ` set (sv_nodes s)" for n using get_node_iff [OF ok] that by simp
    then show ?thesis using returned
      by (auto simp: list_delegation_graph_nodes_def result_simps service_view_def)
  qed simp
next
  fix s t gr x
  assume ok: "service_ok s" and run: "st_getDelegationGraphNode service_storage gr s = (x, t)"
  have "via (map_option wire_node) (get_delegation_graph_node gr) s = (x, t)" using run by (simp add: service_storage_def)
  then show "t = s \<and> (\<forall>n. x = Inr (Some n) \<longrightarrow> dn_id n = gn_nodeId gr \<and>
      ag_states (service_view s) (dn_id n) = Some (dn_state n))"
    using get_node_id [of s "gn_nodeId gr"]
    by (cases rule: viaE) (auto simp: get_delegation_graph_node_def result_simps service_view_def)
next
  fix s t jr x
  assume "st_getJob service_storage jr s = (x, t)"
  then show "t = s" by (simp add: service_storage_def via_def get_job_def)
next
  fix s t rr x
  assume "st_listReadyDelegationGraphNodes service_storage rr s = (x, t)"
  then show "t = s"
    by (auto simp: service_storage_def checked_def via_def list_ready_delegation_graph_nodes_def result_simps
        split: if_splits sum.splits)
next
  fix s t x and ur :: UpdateDelegationGraphNodeStateRequest
  let ?r = "ur\<lparr>un_metadata := drop_null (un_metadata ur)\<rparr>"
  assume ok: "service_ok s" and run: "st_updateDelegationGraphNodeState service_storage ur s = (x, t)"
  have "via wire_node (update_delegation_graph_node_state ?r) s = (x, t)" using run by (simp add: service_storage_def)
  then show "service_ok t \<and> (case x of
      Inl e \<Rightarrow> service_view t = service_view s
    | Inr n \<Rightarrow> (\<exists>q. ag_states (service_view s) (un_nodeId ur) = Some q \<and> (terminalNodeState q \<longrightarrow> un_state ur = q)) \<and>
        service_view t = set_state (un_nodeId ur) (un_state ur) (service_view s))"
  proof (cases rule: viaE)
    case (returned y)
    from update_node_sets [OF ok returned(1)] show ?thesis by (simp add: returned(2))
  qed (simp add: ok)
next
  fix s t x and mr :: MaterializeReadyDelegationGraphNodeRequest
  let ?r = "mr\<lparr>mr_jobPayload := drop_null (mr_jobPayload mr)\<rparr>"
  assume ok: "service_ok s" and run: "st_materializeReadyDelegationGraphNode service_storage mr s = (x, t)"
  show "service_ok t \<and> (case x of
      Inr (Some m) \<Rightarrow> (\<exists>q. ag_states (service_view s) (dn_id (mt_node m)) = Some q \<and> waiting q) \<and>
        unlocked (service_view s) (dn_id (mt_node m)) \<and>
        service_view t = set_state (dn_id (mt_node m)) NS_running (service_view s)
    | _ \<Rightarrow> service_view t = service_view s)"
  proof (cases "materialize_i64_ok mr")
    case False
    with run ok show ?thesis by (auto simp: service_storage_def checked_def)
  next
    case True
    then have "via (map_option wire_materialized) (materialize_ready_delegation_graph_node ?r) s = (x, t)"
      using run by (simp add: service_storage_def checked_def)
    then show ?thesis
    proof (cases rule: viaE)
      case (returned y)
      show ?thesis
      proof (cases y)
        case None
        with returned materialize_none ok show ?thesis by auto
      next
        case (Some m)
        with returned(1) have "materialize_ready_delegation_graph_node ?r s = Inr (Some m, t)" by simp
        from materialize_starts [OF ok this] Some returned(2) show ?thesis by (simp add: wire_materialized_def)
      qed
    qed (simp add: ok)
  qed
qed


section \<open>Additions\<close>

lemma get_node_add: "get_node (s\<lparr>sv_nodes := sv_nodes s @ [(n, k)]\<rparr>) i =
    (case get_node s i of None \<Rightarrow> if dn_id n = i then Some n else None | Some m \<Rightarrow> Some m)"
  by (simp add: get_node_def find_append split: option.split)

lemma get_graph_add: "get_graph (s\<lparr>sv_graphs := sv_graphs s @ [(g, k)]\<rparr>) i =
    (case get_graph s i of None \<Rightarrow> if dg_id g = i then Some g else None | Some m \<Rightarrow> Some m)"
  by (simp add: get_graph_def find_append split: option.split)

lemma get_node_None: "get_node s i = None \<longleftrightarrow> i \<notin> (\<lambda>row. dn_id (fst row)) ` set (sv_nodes s)"
  by (simp add: get_node_def find_key_None image_image)

lemma get_graph_None: "get_graph s i = None \<longleftrightarrow> i \<notin> (\<lambda>row. dg_id (fst row)) ` set (sv_graphs s)"
  by (simp add: get_graph_def find_key_None image_image)

lemma add_node_ok:
  assumes "service_ok s" "get_node s (dn_id n) = None" "get_graph s (dn_graphId n) \<noteq> None"
  shows "service_ok (s\<lparr>sv_nodes := sv_nodes s @ [(n, k)]\<rparr>)"
proof -
  have "dep_ok (s\<lparr>sv_nodes := sv_nodes s @ [(n, k)]\<rparr>) d" if "d \<in> set (sv_deps s)" for d
    by (rule dep_ok_mono [of s]) (use assms(1) that in \<open>simp_all add: service_ok_def get_node_add\<close>)
  then show ?thesis using assms by (auto simp: service_ok_def get_node_None)
qed

lemma add_graph_ok:
  assumes "service_ok s" "get_graph s (dg_id g) = None"
  shows "service_ok (s\<lparr>sv_graphs := sv_graphs s @ [(g, k)]\<rparr>)"
  using assms by (auto simp: service_ok_def dep_ok_def get_graph_add get_graph_None split: option.split)

lemma add_dep_ok:
  assumes "service_ok s" "dep_ok s d" "dd_id d \<notin> dd_id ` set (sv_deps s)"
  shows "service_ok (s\<lparr>sv_deps := sv_deps s @ [d]\<rparr>)"
  using assms by (auto simp: service_ok_def dep_ok_def)

lemma put_graph_effect:
  assumes "service_ok s" "put_delegation_graph r s = Inr (g, t)"
  shows "service_ok t" "service_view t = service_view s"
  using assms add_graph_ok [OF assms(1)]
  by (auto simp: put_delegation_graph_def result_simps Let_def intro: service_view_cong split: option.splits)

lemma put_node_effect:
  assumes "service_ok s" "put_delegation_graph_node r s = Inr (n, t)"
  shows "service_ok t" "service_view t = service_view s \<or>
    ag_states (service_view s) (dn_id n) = None \<and> service_view t = set_state (dn_id n) NS_pending (service_view s)"
proof -
  from assms(2) have "t = s \<or> get_node s (dn_id n) = None \<and> get_graph s (dn_graphId n) \<noteq> None \<and>
      dn_state n = NS_pending \<and> t = draw_uuids 1 (s\<lparr>sv_nodes := sv_nodes s @ [(n, pn_idempotencyKey r)]\<rparr>)"
    by (auto simp: put_delegation_graph_node_def result_simps Let_def split: option.splits)
  then consider "t = s"
    | k where "get_node s (dn_id n) = None" "get_graph s (dn_graphId n) \<noteq> None" "dn_state n = NS_pending"
      "t = draw_uuids 1 (s\<lparr>sv_nodes := sv_nodes s @ [(n, k)]\<rparr>)" by blast
  then have "service_ok t \<and> (service_view t = service_view s \<or>
    ag_states (service_view s) (dn_id n) = None \<and> service_view t = set_state (dn_id n) NS_pending (service_view s))"
  proof cases
    case (2 k)
    have "service_view t = set_state (dn_id n) NS_pending (service_view s)"
      using 2 by (auto simp: service_view_def set_state_def fun_eq_iff get_node_add split: option.split)
    with 2 add_node_ok [OF assms(1)] show ?thesis by (simp add: service_view_def)
  qed (simp add: assms(1))
  then show "service_ok t" "service_view t = service_view s \<or>
    ag_states (service_view s) (dn_id n) = None \<and> service_view t = set_state (dn_id n) NS_pending (service_view s)"
    by blast+
qed

lemma put_dependency_effect:
  assumes "service_ok s" "put_delegation_graph_dependency r s = Inr (d, t)"
  shows "service_ok t" "service_view t = service_view s \<or>
    dd_toNodeId d = pd_toNodeId r \<and>
    service_view t = (service_view s)\<lparr>ag_deps := insert (dd_fromNodeId d, dd_toNodeId d, dd_kind d) (ag_deps (service_view s))\<rparr>"
proof -
  from assms(2) have "t = s \<or> dep_ok s d \<and> dd_id d \<notin> dd_id ` set (sv_deps s) \<and> dd_toNodeId d = pd_toNodeId r \<and>
      t = draw_uuids 1 (s\<lparr>sv_deps := sv_deps s @ [d]\<rparr>)"
    by (auto simp: put_delegation_graph_dependency_def result_simps Let_def dep_ok_def list_ex_iff split: option.splits)
  then consider "t = s" | "dep_ok s d" "dd_id d \<notin> dd_id ` set (sv_deps s)" "dd_toNodeId d = pd_toNodeId r"
      "t = draw_uuids 1 (s\<lparr>sv_deps := sv_deps s @ [d]\<rparr>)"
    by blast
  then show "service_ok t" "service_view t = service_view s \<or>
    dd_toNodeId d = pd_toNodeId r \<and>
    service_view t = (service_view s)\<lparr>ag_deps := insert (dd_fromNodeId d, dd_toNodeId d, dd_kind d) (ag_deps (service_view s))\<rparr>"
    by (cases; auto simp: assms(1) add_dep_ok [OF assms(1)] service_view_def)+
qed

lemma update_graph_effect:
  assumes "service_ok s" "update_delegation_graph_state r s = Inr (g, t)"
  shows "service_ok t" "service_view t = service_view s"
  using assms replace_graph_ok [OF assms(1)]
  by (auto simp: update_delegation_graph_state_def result_simps Let_def intro: service_view_cong)

lemma attach_effect:
  assumes "service_ok s" "attach_delegation_graph_node_job r s = Inr (n, t)"
  shows "service_ok t" "service_view t = service_view s"
proof -
  from assms(2) obtain m where m: "get_node s (an_nodeId r) = Some m" "dn_id n = dn_id m" "dn_state n = dn_state m"
    "dn_graphId n = dn_graphId m" "t = replace_node n s"
    by (auto simp: attach_delegation_graph_node_job_def result_simps Let_def)
  then have g: "get_node s (dn_id n) = Some m" using get_node_id [OF m(1)] by simp
  show "service_ok t" unfolding m(5) by (rule replace_node_ok [OF assms(1) g m(4)])
  show "service_view t = service_view s"
    using view_replace_node [OF g] g m by (auto simp: service_view_def set_state_def fun_eq_iff)
qed

lemma safe_add_node:
  assumes "safe a" "ag_states a i = None"
  shows "safe (set_state i NS_pending a)"
proof -
  have "satisfied (set_state i NS_pending a) d" if "satisfied a d" for d
    using that assms(2) by (auto simp: satisfied_def split: prod.splits)
  then show ?thesis using assms by (auto simp: safe_def begun_def unlocked_def split: if_splits)
qed

lemma safe_add_dep:
  assumes "safe a" "\<not> begun a j"
  shows "safe (a\<lparr>ag_deps := insert (i, j, k) (ag_deps a)\<rparr>)"
  using assms by (auto simp: safe_def begun_def unlocked_def satisfied_def)

section \<open>Runs\<close>

text \<open>
  The runtime over the RPC client over the service. A run is any sequence of its calls: graphs,
  nodes and dependencies are added (a dependency of a node that has not begun), graphs change
  state, jobs are attached, nodes are materialized one by one or by a step; between the calls the
  scheduler may do anything to the jobs and the clock moves. Marking a node by hand is left out:
  it sets any state that its caller wants.
\<close>

definition team :: "string option \<Rightarrow> service DelegationGraphRuntime" where
  "team p = newDelegationGraphRuntime (rpc_storage service_transport) p"

inductive delegation_run :: "service \<Rightarrow> service \<Rightarrow> bool" where
  begin_run: "delegation_run s s"
| create_graph: "delegation_run s t \<Longrightarrow> dgr_createGraph (team p) cr t = (x1, u) \<Longrightarrow> delegation_run s u"
| update_graph: "delegation_run s t \<Longrightarrow> dgr_updateGraphState (team p) g q t = (x2, u) \<Longrightarrow> delegation_run s u"
| add_node: "delegation_run s t \<Longrightarrow> dgr_addNode (team p) nr t = (x3, u) \<Longrightarrow> delegation_run s u"
| add_dependency: "delegation_run s t \<Longrightarrow> \<not> begun (service_view t) (ad_toNodeId dr) \<Longrightarrow>
    dgr_addDependency (team p) dr t = (x4, u) \<Longrightarrow> delegation_run s u"
| attach_job: "delegation_run s t \<Longrightarrow> dgr_attachNodeJob (team p) n j t = (x5, u) \<Longrightarrow> delegation_run s u"
| materialize_one: "delegation_run s t \<Longrightarrow> dgr_materializeReadyNode (team p) mr t = (x6, u) \<Longrightarrow> delegation_run s u"
| graph_step: "delegation_run s t \<Longrightarrow> dgr_runGraphStep (team p) sr t = (x7, u) \<Longrightarrow> delegation_run s u"
| scheduler: "delegation_run s t \<Longrightarrow> delegation_run s (t\<lparr>sv_jobs := jobs, sv_now := now\<rparr>)"

lemma team_storage: "dgr_storage (team p) = service_storage"
  by (simp add: team_def newDelegationGraphRuntime_def client_is_service)

text \<open>Examples are evaluated over the service itself, which the client was shown to be.\<close>

lemma team_code [code]: "team p = newDelegationGraphRuntime service_storage p"
  by (simp add: team_def client_is_service)

lemmas team_calls =
  dgr_createGraph_def dgr_updateGraphState_def dgr_addNode_def dgr_addDependency_def dgr_attachNodeJob_def
  dgr_materializeReadyNode_def dgr_runGraphStep_def team_storage createGraph_def updateGraphState_def addNode_def
  addDependency_def attachNodeJob_def materializeReadyNode_def

lemma run_keeps:
  "delegation_run s t \<Longrightarrow> service_ok s \<Longrightarrow> safe (service_view s) \<Longrightarrow> service_ok t \<and> safe (service_view t)"
proof (induction rule: delegation_run.induct)
  case (create_graph s t p cr x u)
  then obtain r where "via wire_graph (put_delegation_graph r) t = (x, u)" by (auto simp: team_calls service_storage_def)
  then show ?case using create_graph by (cases rule: viaE) (auto dest: put_graph_effect)
next
  case (update_graph s t p g q x u)
  then obtain r where "via wire_graph (update_delegation_graph_state r) t = (x, u)" by (auto simp: team_calls service_storage_def)
  then show ?case using update_graph by (cases rule: viaE) (auto dest: update_graph_effect)
next
  case (add_node s t p nr x u)
  then obtain r where "via wire_node (put_delegation_graph_node r) t = (x, u)" by (auto simp: team_calls service_storage_def)
  then show ?case using add_node
    by (cases rule: viaE) (auto dest: put_node_effect(1), metis put_node_effect(2) safe_add_node)
next
  case (add_dependency s t dr p x u)
  let ?r = "\<lparr>pd_id = ad_id dr, pd_graphId = ad_graphId dr, pd_fromNodeId = ad_fromNodeId dr, pd_toNodeId = ad_toNodeId dr,
    pd_kind = ad_kind dr\<rparr>"
  have "via (\<lambda>d. d) (put_delegation_graph_dependency ?r) t = (x, u)"
    using add_dependency.hyps(3) by (simp add: team_calls service_storage_def)
  then show ?case
  proof (cases rule: viaE)
    case (returned d)
    have t: "service_ok t" "safe (service_view t)" using add_dependency by auto
    note eff = put_dependency_effect [OF t(1) returned(1)]
    have "safe (service_view u)"
      using eff(2) t(2) safe_add_dep [OF t(2) add_dependency.hyps(2)] by (auto simp: returned)
    with eff(1) show ?thesis by simp
  qed (use add_dependency in auto)
next
  case (attach_job s t p n j x u)
  then obtain r where "via wire_node (attach_delegation_graph_node_job r) t = (x, u)" by (auto simp: team_calls service_storage_def)
  then show ?case using attach_job by (cases rule: viaE) (auto dest: attach_effect)
next
  case (materialize_one s t p mr x u)
  then obtain r where m: "st_materializeReadyDelegationGraphNode service_storage r t = (x, u)" by (auto simp: team_calls)
  have t: "service_ok t" "safe (service_view t)" using materialize_one by auto
  have "dg_steps (service_view t) (service_view u)"
    using svc.materialize [OF t(1) m] by (auto split: sum.splits option.splits intro!: r_into_rtranclp dg_step.start)
  then show ?case using svc.materialize [OF t(1) m] steps_keep_safe t(2) by blast
next
  case (graph_step s t p sr x u)
  then have "runDelegationGraphStep service_storage sr t = (x, u)" by (simp add: team_calls)
  with svc.step_refines [of t] graph_step steps_keep_safe show ?case by blast
next
  case (scheduler s t now jobs)
  have "service_ok (t\<lparr>sv_jobs := jobs, sv_now := now\<rparr>) = service_ok t" by (rule service_ok_cong) simp_all
  moreover have "service_view (t\<lparr>sv_jobs := jobs, sv_now := now\<rparr>) = service_view t" by (rule service_view_cong) simp_all
  ultimately show ?case using scheduler by simp
qed simp


section \<open>A graph of three nodes\<close>

text \<open>
  Node \<open>b\<close> runs after \<open>a\<close> succeeded, \<open>c\<close> after \<open>b\<close> is done. \<open>demo_built\<close> is the store after the graph
  was built, \<open>demo_first\<close> after the first step, \<open>demo_second\<close> after the job of \<open>a\<close> succeeded and a
  second step ran.
\<close>

definition demo_empty :: service where
  "demo_empty = \<lparr>sv_now = 1, sv_uuid = (\<lambda>n. replicate n (CHR ''u'')), sv_graphs = [], sv_nodes = [], sv_deps = [], sv_jobs = [],
     sv_sha256 = (\<lambda>x. x), sv_scopes = [], sv_grants = [], sv_usages = []\<rparr>"

definition demo_graph :: CreateDelegationGraphRequest where
  "demo_graph = \<lparr>cg_id = Some ''g'', cg_principalId = None, cg_title = None, cg_metadata = None, cg_idempotencyKey = None\<rparr>"

definition demo_node :: "string \<Rightarrow> AddDelegationGraphNodeRequest" where
  "demo_node i = \<lparr>ag_id = Some i, ag_graphId = ''g'', ag_kind = NK_tool_task, ag_principalId = None, ag_payload = JNull,
     ag_metadata = None, ag_idempotencyKey = None\<rparr>"

definition demo_dep :: "string \<Rightarrow> string \<Rightarrow> DelegationDependencyKind \<Rightarrow> AddDelegationGraphDependencyRequest" where
  "demo_dep i j k = \<lparr>ad_id = Some (i @ j), ad_graphId = ''g'', ad_fromNodeId = i, ad_toNodeId = j, ad_kind = Some k\<rparr>"

definition demo_step :: RunDelegationGraphStepRequest where
  "demo_step = \<lparr>rs_graphId = ''g'', rs_workerId = ''w'', rs_jobKindsByNodeKind = (\<lambda>k. Some JK_plugin_action),
     rs_materializeLimit = Some 5, rs_readyScanLimit = None\<rparr>"

definition after :: "(service, thrown, 'a) eff \<Rightarrow> service \<Rightarrow> service" where
  "after m s = snd (m s)"

definition demo_nodes :: service where
  "demo_nodes = after (dgr_addNode (team None) (demo_node ''c'')) (after (dgr_addNode (team None) (demo_node ''b''))
     (after (dgr_addNode (team None) (demo_node ''a'')) (after (dgr_createGraph (team None) demo_graph) demo_empty)))"

definition demo_linked :: service where
  "demo_linked = after (dgr_addDependency (team None) (demo_dep ''a'' ''b'' DK_after_success)) demo_nodes"

definition demo_built :: service where
  "demo_built = after (dgr_addDependency (team None) (demo_dep ''b'' ''c'' DK_after_terminal)) demo_linked"

definition demo_first :: service where
  "demo_first = after (dgr_runGraphStep (team None) demo_step) demo_built"

definition demo_second :: service where
  "demo_second = after (dgr_runGraphStep (team None) demo_step)
     (demo_first\<lparr>sv_jobs := map (\<lambda>j. j\<lparr>jb_state := JS_succeeded\<rparr>) (sv_jobs demo_first), sv_now := 2\<rparr>)"

lemma begun_view: "begun (service_view s) i \<longleftrightarrow> (case get_node s i of None \<Rightarrow> False | Some n \<Rightarrow> \<not> waiting (dn_state n))"
  by (auto simp: begun_def service_view_def split: option.split)

lemma demo_states:
  "map (\<lambda>row. dn_state (fst row)) (sv_nodes demo_first) = [NS_running, NS_pending, NS_pending]"
  "map (\<lambda>row. dn_state (fst row)) (sv_nodes demo_second) = [NS_succeeded, NS_running, NS_pending]"
  by code_simp+

lemma demo_built_ok: "service_ok demo_built"
  by code_simp

lemma demo_waits:
  "\<not> begun (service_view demo_nodes) (ad_toNodeId (demo_dep ''a'' ''b'' DK_after_success))"
  "\<not> begun (service_view demo_linked) (ad_toNodeId (demo_dep ''b'' ''c'' DK_after_terminal))"
  unfolding begun_view by code_simp+

lemma demo_run: "delegation_run demo_empty demo_second"
proof -
  note call = prod.collapse [symmetric]
  have "delegation_run demo_empty demo_nodes"
    unfolding demo_nodes_def after_def
    by (rule add_node [OF add_node [OF add_node [OF create_graph [OF begin_run call] call] call] call])
  from add_dependency [OF this demo_waits(1) call] have "delegation_run demo_empty demo_linked"
    unfolding demo_linked_def after_def .
  from add_dependency [OF this demo_waits(2) call] have "delegation_run demo_empty demo_built"
    unfolding demo_built_def after_def .
  from graph_step [OF this call] have "delegation_run demo_empty demo_first"
    unfolding demo_first_def after_def .
  from graph_step [OF scheduler [OF this] call] show ?thesis
    unfolding demo_second_def after_def .
qed

section \<open>Every operation of the store\<close>

text \<open>One call of the client, of any kind, or a move of the scheduler and the clock.\<close>

inductive store_step :: "service \<Rightarrow> service \<Rightarrow> bool" where
  "st_putDelegationGraph (rpc_storage service_transport) r1 s = (x1, t) \<Longrightarrow> store_step s t"
| "st_updateDelegationGraphState (rpc_storage service_transport) r2 s = (x2, t) \<Longrightarrow> store_step s t"
| "st_putDelegationGraphNode (rpc_storage service_transport) r3 s = (x3, t) \<Longrightarrow> store_step s t"
| "st_updateDelegationGraphNodeState (rpc_storage service_transport) r4 s = (x4, t) \<Longrightarrow> store_step s t"
| "st_attachDelegationGraphNodeJob (rpc_storage service_transport) r5 s = (x5, t) \<Longrightarrow> store_step s t"
| "st_putDelegationGraphDependency (rpc_storage service_transport) r6 s = (x6, t) \<Longrightarrow> store_step s t"
| "st_materializeReadyDelegationGraphNode (rpc_storage service_transport) r7 s = (x7, t) \<Longrightarrow> store_step s t"
| "store_step s (s\<lparr>sv_jobs := jobs, sv_now := now\<rparr>)"

text \<open>No node of a well-formed store disappears, and one in a terminal state keeps it.\<close>

definition settled_kept :: "agraph \<Rightarrow> agraph \<Rightarrow> bool" where
  "settled_kept a b = (\<forall>i q. ag_states a i = Some q \<longrightarrow>
     (\<exists>q'. ag_states b i = Some q' \<and> (terminalNodeState q \<longrightarrow> q' = q)))"

lemma settled_kept_refl [simp]: "settled_kept a a"
  by (simp add: settled_kept_def)

lemma settled_kept_trans: "settled_kept a b \<Longrightarrow> settled_kept b c \<Longrightarrow> settled_kept a c"
  unfolding settled_kept_def by metis

lemma settled_kept_set:
  "ag_states a i = Some q \<Longrightarrow> (terminalNodeState q \<longrightarrow> q' = q) \<Longrightarrow> settled_kept a (set_state i q' a)"
  by (auto simp: settled_kept_def)

lemma store_step_keeps: "store_step s t \<Longrightarrow> service_ok s \<Longrightarrow> service_ok t \<and> settled_kept (service_view s) (service_view t)"
proof (induction rule: store_step.induct)
  case (1 r s x t)
  then obtain r' where "via wire_graph (put_delegation_graph r') s = (x, t)" by (auto simp: client_is_service service_storage_def)
  then show ?case using 1(2) by (cases rule: viaE) (auto dest: put_graph_effect)
next
  case (2 r s x t)
  then have "via wire_graph (update_delegation_graph_state r) s = (x, t)" by (simp add: client_is_service service_storage_def)
  then show ?case using 2(2) by (cases rule: viaE) (auto dest: update_graph_effect)
next
  case (3 r s x t)
  then obtain r' where "via wire_node (put_delegation_graph_node r') s = (x, t)" by (auto simp: client_is_service service_storage_def)
  then show ?case
  proof (cases rule: viaE)
    case (returned n)
    from put_node_effect [OF 3(2) returned(1)] show ?thesis by (auto simp: settled_kept_def)
  qed (simp add: 3(2))
next
  case (4 r s x t)
  then have "st_updateDelegationGraphNodeState service_storage r s = (x, t)" by (simp add: client_is_service)
  from svc.update_node [OF 4(2) this] show ?case by (auto split: sum.splits intro: settled_kept_set)
next
  case (5 r s x t)
  then have "via wire_node (attach_delegation_graph_node_job r) s = (x, t)" by (simp add: client_is_service service_storage_def)
  then show ?case using 5(2) by (cases rule: viaE) (auto dest: attach_effect)
next
  case (6 r s x t)
  then have "via (\<lambda>d. d) (put_delegation_graph_dependency r) s = (x, t)" by (simp add: client_is_service service_storage_def)
  then show ?case
  proof (cases rule: viaE)
    case (returned d)
    from put_dependency_effect [OF 6(2) returned(1)] show ?thesis by (auto simp: settled_kept_def)
  qed (simp add: 6(2))
next
  case (7 r s x t)
  then have "st_materializeReadyDelegationGraphNode service_storage r s = (x, t)" by (simp add: client_is_service)
  from svc.materialize [OF 7(2) this] show ?case by (auto split: sum.splits option.splits intro: settled_kept_set)
next
  case (8 s now jobs)
  have "service_ok (s\<lparr>sv_jobs := jobs, sv_now := now\<rparr>) = service_ok s" by (rule service_ok_cong) simp_all
  moreover have "service_view (s\<lparr>sv_jobs := jobs, sv_now := now\<rparr>) = service_view s" by (rule service_view_cong) simp_all
  ultimately show ?case using 8 by simp
qed

lemma store_steps_keep:
  "store_step\<^sup>*\<^sup>* s t \<Longrightarrow> service_ok s \<Longrightarrow> service_ok t \<and> settled_kept (service_view s) (service_view t)"
proof (induction rule: rtranclp_induct)
  case (step t u)
  with store_step_keeps [OF step.hyps(2)] show ?case by (blast intro: settled_kept_trans)
qed simp

section \<open>Properties\<close>

text \<open>
  C14. A step of the delegation graph runtime, over the RPC client and the system service, is a
  sequence of moves of the abstract graph: it starts waiting nodes whose dependencies are
  satisfied, finishes running nodes, changes no other node and no dependency; whether it returns
  or throws, the tables stay well formed.
\<close>

theorem graph_step_refines:
  assumes "service_ok s" and "dgr_runGraphStep (team p) r s = (outcome, t)"
  shows "service_ok t \<and> dg_steps (service_view s) (service_view t)"
  using svc.step_refines [OF assms(1), of r outcome t] assms(2) by (simp add: team_calls)

theorem graph_step_refines_witness:
  "map (\<lambda>row. dn_state (fst row)) (sv_nodes demo_first) = [NS_running, NS_pending, NS_pending] \<and>
   service_ok demo_first \<and> dg_steps (service_view demo_built) (service_view demo_first)"
  using graph_step_refines [OF demo_built_ok prod.collapse [symmetric], of None demo_step] demo_states(1)
  by (simp add: demo_first_def after_def)



text \<open>
  C16. Whatever calls the clients of the store make, in any order and with any arguments, and
  whatever the scheduler does, the tables stay well formed (unique identifiers, nodes in existing
  graphs, dependencies between two different nodes of one graph), no node disappears, and a node
  that succeeded, failed, was cancelled or skipped keeps that state.
\<close>

theorem store_keeps_settled_nodes:
  assumes "store_step\<^sup>*\<^sup>* s t" and "service_ok s" and "get_node s i = Some n"
  shows "service_ok t \<and> (\<exists>m. get_node t i = Some m \<and> (terminalNodeState (dn_state n) \<longrightarrow> dn_state m = dn_state n))"
proof -
  have "settled_kept (service_view s) (service_view t)" using store_steps_keep [OF assms(1,2)] by blast
  moreover have "ag_states (service_view s) i = Some (dn_state n)" using assms(3) by (simp add: service_view_def)
  ultimately obtain q where "ag_states (service_view t) i = Some q" "terminalNodeState (dn_state n) \<longrightarrow> q = dn_state n"
    unfolding settled_kept_def by blast
  then show ?thesis using store_steps_keep [OF assms(1,2)] by (auto simp: service_view_def)
qed

text \<open>An attempt to restart the succeeded node \<open>a\<close> of the example is refused.\<close>

theorem store_keeps_settled_nodes_witness:
  "\<exists>m. get_node (after (st_updateDelegationGraphNodeState (rpc_storage service_transport)
      \<lparr>un_nodeId = ''a'', un_state = NS_running, un_schedulerJobId = None, un_metadata = None\<rparr>) demo_second) ''a'' = Some m \<and>
     dn_state m = NS_succeeded"
proof -
  let ?r = "\<lparr>un_nodeId = ''a'', un_state = NS_running, un_schedulerJobId = None, un_metadata = None\<rparr>"
  have "store_step\<^sup>*\<^sup>* demo_second (after (st_updateDelegationGraphNodeState (rpc_storage service_transport) ?r) demo_second)"
    by (rule r_into_rtranclp, rule store_step.intros(4) [of ?r _ "fst (st_updateDelegationGraphNodeState (rpc_storage service_transport) ?r demo_second)"])
      (simp add: after_def)
  moreover have "service_ok demo_second" by code_simp
  moreover have "map_option dn_state (get_node demo_second ''a'') = Some NS_succeeded" by code_simp
  then obtain n where "get_node demo_second ''a'' = Some n" "dn_state n = NS_succeeded" by auto
  ultimately show ?thesis using store_keeps_settled_nodes [of demo_second _ "''a''" n] by fastforce
qed

end
