(* ===== verification/Delegation_Status.thy ===== *)
theory Delegation_Status
  imports Delegation_Safety
begin

text \<open>
  The status of a delegation graph, computed in packages/team/src/delegation/graph/status.ts from
  a snapshot, against the queries of the store; what \<open>blocked\<close> means; the repetition of a put; the
  scan window of a step.
\<close>

section \<open>Sorting and filtering\<close>

text \<open>A comparison that orders like a key into a linear order.\<close>

definition orders_by :: "('a \<Rightarrow> 'a \<Rightarrow> int) \<Rightarrow> ('a \<Rightarrow> 'k::linorder) \<Rightarrow> bool" where
  "orders_by compare key = (\<forall>a b. compare a b \<le> 0 \<longleftrightarrow> key a \<le> key b)"

lemma sorted_insert_by:
  "orders_by compare key \<Longrightarrow> sorted (map key ys) \<Longrightarrow> sorted (map key (insert_by compare x ys))"
  by (induction ys) (auto simp: orders_by_def)

lemma sorted_sort_by: "orders_by compare key \<Longrightarrow> sorted (map key (sort_by compare xs))"
  by (induction xs) (simp_all add: sort_by_def sorted_insert_by)

lemma filter_insert_by:
  "orders_by compare key \<Longrightarrow> sorted (map key ys) \<Longrightarrow>
   filter P (insert_by compare x ys) = (if P x then insert_by compare x (filter P ys) else filter P ys)"
proof (induction ys)
  case (Cons y ys)
  have first: "insert_by compare x zs = x # zs" if "\<forall>z \<in> set zs. key x \<le> key z" for zs
    using that Cons.prems(1) by (cases zs) (auto simp: orders_by_def)
  show ?case
  proof (cases "compare x y \<le> 0")
    case True
    then have "\<forall>z \<in> set (filter P ys). key x \<le> key z"
      using Cons.prems by (auto simp: orders_by_def intro: order_trans)
    then show ?thesis using True first by simp
  next
    case False
    with Cons show ?thesis by simp
  qed
qed simp

lemma filter_sort_by: "orders_by compare key \<Longrightarrow> filter P (sort_by compare xs) = sort_by compare (filter P xs)"
proof (induction xs)
  case (Cons x xs)
  then show ?case using filter_insert_by [OF Cons.prems sorted_sort_by [OF Cons.prems]] by (simp add: sort_by_def)
qed (simp add: sort_by_def)

lemma insert_by_map:
  "(\<And>a b. compare (f a) (f b) = compare a b) \<Longrightarrow> insert_by compare (f x) (map f ys) = map f (insert_by compare x ys)"
  by (induction ys) simp_all

lemma sort_by_map: "(\<And>a b. compare (f a) (f b) = compare a b) \<Longrightarrow> sort_by compare (map f xs) = map f (sort_by compare xs)"
  by (induction xs) (simp_all add: sort_by_def insert_by_map)

lemma distinct_insert_by: "distinct (map f (insert_by compare x ys)) \<longleftrightarrow> f x \<notin> f ` set ys \<and> distinct (map f ys)"
  by (induction ys) auto

lemma distinct_sort_by: "distinct (map f (sort_by compare xs)) \<longleftrightarrow> distinct (map f xs)"
proof (induction xs)
  case (Cons x xs)
  have "sort_by compare (x # xs) = insert_by compare x (sort_by compare xs)" by (simp add: sort_by_def)
  with Cons show ?case by (simp add: distinct_insert_by)
qed (simp add: sort_by_def)

text \<open>Pairs of a number and a text are ordered by the number first.\<close>

datatype row_key = RowKey number string

instantiation row_key :: linorder
begin

fun less_eq_row_key :: "row_key \<Rightarrow> row_key \<Rightarrow> bool" where
  "less_eq_row_key (RowKey a i) (RowKey b j) = (a < b \<or> a = b \<and> i \<le> j)"

fun less_row_key :: "row_key \<Rightarrow> row_key \<Rightarrow> bool" where
  "less_row_key (RowKey a i) (RowKey b j) = (a < b \<or> a = b \<and> i < j)"

instance
proof
  fix x y z :: row_key
  show "x < y \<longleftrightarrow> x \<le> y \<and> \<not> y \<le> x" by (cases x; cases y) auto
  show "x \<le> x" by (cases x) simp
  show "x \<le> z" if "x \<le> y" "y \<le> z" using that by (cases x; cases y; cases z) auto
  show "x = y" if "x \<le> y" "y \<le> x" using that by (cases x; cases y) auto
  show "x \<le> y \<or> y \<le> x" by (cases x; cases y) auto
qed

end

lemma compare_nodes_orders: "orders_by compare_nodes (\<lambda>n. RowKey (dn_createdAt n) (dn_id n))"
  by (auto simp: orders_by_def compare_nodes_def sql_compare_def)

section \<open>Ready nodes\<close>

lemma dependency_blocks_iff: "dependency_blocks k q \<longleftrightarrow> \<not> dependencySatisfied k q"
  by (cases k) (auto simp: dependency_blocks_def)

lemma map_of_nodesById:
  "map_of (nodesById nodes) i = List.find (\<lambda>n. dn_id n = i) (rev nodes)"
proof -
  have "map_of (foldl (\<lambda>m node. AList.update (dn_id node) node m) acc nodes) i =
      (case List.find (\<lambda>n. dn_id n = i) (rev nodes) of None \<Rightarrow> map_of acc i | Some n \<Rightarrow> Some n)" for acc
    by (induction nodes arbitrary: acc) (auto simp: find_append split: option.split)
  from this [of "[]"] show ?thesis by (simp add: nodesById_def split: option.split)
qed

lemma find_in: "List.find P xs = Some x \<Longrightarrow> x \<in> set xs \<and> P x"
  by (induction xs) (auto split: if_splits)

lemma nodesById_in:
  "map_of (nodesById nodes) i = Some n \<Longrightarrow> n \<in> set nodes \<and> dn_id n = i"
  unfolding map_of_nodesById by (rule find_in [of "\<lambda>n. dn_id n = i" "rev nodes" n, simplified])

lemma nodesById_iff:
  "distinct (map dn_id nodes) \<Longrightarrow> map_of (nodesById nodes) i = Some n \<longleftrightarrow> n \<in> set nodes \<and> dn_id n = i"
  using find_by_key [of dn_id "rev nodes" i n] by (simp add: map_of_nodesById rev_map [symmetric])

lemma blockedLoop_eq:
  "blockedLoop snapshot ns =
     map (\<lambda>n. \<lparr>bn_node = n, bn_blockedBy = blockersOf snapshot n\<rparr>)
       (filter (\<lambda>n. isReadyCandidate n \<and> blockersOf snapshot n \<noteq> []) ns)"
  by (induction ns) (auto simp: Let_def)

lemma blocked_ids:
  "set (map (\<lambda>item. dn_id (bn_node item)) (blockedPendingNodes snapshot)) =
     dn_id ` {n \<in> set (gs_nodes snapshot). isReadyCandidate n \<and> blockersOf snapshot n \<noteq> []}"
  by (auto simp: blockedPendingNodes_def blockedLoop_eq)

lemma readyNodesOf_eq:
  assumes "distinct (map dn_id (gs_nodes snapshot))"
  shows "readyNodesOf snapshot = filter (\<lambda>n. isReadyCandidate n \<and> blockersOf snapshot n = []) (gs_nodes snapshot)"
proof -
  have "dn_id n \<notin> set (map (\<lambda>item. dn_id (bn_node item)) (blockedPendingNodes snapshot)) \<longleftrightarrow>
      \<not> (isReadyCandidate n \<and> blockersOf snapshot n \<noteq> [])" if "n \<in> set (gs_nodes snapshot)" for n
  proof -
    have "m = n" if "m \<in> set (gs_nodes snapshot)" "dn_id m = dn_id n" for m
      using assms that \<open>n \<in> set (gs_nodes snapshot)\<close> by (auto simp: distinct_map inj_on_def)
    then show ?thesis unfolding blocked_ids using that by auto
  qed
  then show ?thesis unfolding readyNodesOf_def Let_def by (intro filter_cong) auto
qed

section \<open>Snapshots of the service\<close>

definition graph_nodes :: "service \<Rightarrow> string \<Rightarrow> DelegationGraphNodeRecord list" where
  "graph_nodes s g = filter (\<lambda>n. dn_graphId n = g) (map fst (sv_nodes s))"

definition graph_deps :: "service \<Rightarrow> string \<Rightarrow> DelegationGraphDependencyRecord list" where
  "graph_deps s g = filter (\<lambda>d. dd_graphId d = g) (sv_deps s)"

lemma snapshot_of_service:
  assumes "getGraphSnapshot service_storage g s = (Inr (Some snapshot), t)"
  shows "t = s" "g \<noteq> []" "\<exists>gr. get_graph s g = Some gr \<and> gs_graph snapshot = wire_graph gr"
    "gs_nodes snapshot = map wire_node (sort_by compare_nodes (graph_nodes s g))"
    "gs_dependencies snapshot = sort_by compare_deps (graph_deps s g)"
  using assms
  by (auto simp: getGraphSnapshot_def service_storage_def via_def get_delegation_graph_def list_delegation_graph_nodes_def
      list_delegation_graph_dependencies_def graph_nodes_def graph_deps_def result_simps eff_simps invariant_guard_def guard_def
      split: option.splits sum.splits if_splits prod.splits)

lemma wire_candidate [simp]: "isReadyCandidate (wire_node n) = isReadyCandidate n"
  by (simp add: isReadyCandidate_def)

lemma snapshot_ids:
  assumes "service_ok s" "gs_nodes snapshot = map wire_node (sort_by compare_nodes (graph_nodes s g))"
  shows "distinct (map dn_id (gs_nodes snapshot))"
proof -
  have "distinct (map dn_id (graph_nodes s g))"
    using assms(1) distinct_filter by (auto simp: graph_nodes_def service_ok_def comp_def filter_map distinct_map_filter)
  then have "distinct (map dn_id (sort_by compare_nodes (graph_nodes s g)))" by (simp add: distinct_sort_by)
  then show ?thesis by (simp add: assms(2) comp_def)
qed


lemma unique_ex: "(\<And>x. x \<in> A \<and> P x \<longleftrightarrow> x = m) \<Longrightarrow> (\<exists>x \<in> A. P x \<and> Q x) \<longleftrightarrow> Q m"
  by metis

lemma snapshot_source:
  assumes ok: "service_ok s" and nodes: "gs_nodes snapshot = map wire_node (sort_by compare_nodes (graph_nodes s g))"
    and d: "d \<in> set (sv_deps s)" "dd_graphId d = g"
  shows "\<exists>m. get_node s (dd_fromNodeId d) = Some m \<and>
    map_of (nodesById (gs_nodes snapshot)) (dd_fromNodeId d) = Some (wire_node m)"
proof -
  have "dep_ok s d" using ok d(1) by (simp add: service_ok_def)
  then obtain m where m: "get_node s (dd_fromNodeId d) = Some m" "dn_graphId m = g" using d(2) unfolding dep_ok_iff by blast
  then have "m \<in> set (graph_nodes s g)" "dn_id m = dd_fromNodeId d"
    using get_node_iff [OF ok] by (auto simp: graph_nodes_def)
  then have "wire_node m \<in> set (gs_nodes snapshot)" "dn_id (wire_node m) = dd_fromNodeId d" by (simp_all add: nodes)
  then have "map_of (nodesById (gs_nodes snapshot)) (dd_fromNodeId d) = Some (wire_node m)"
    using nodesById_iff [OF snapshot_ids [OF ok nodes]] by blast
  with m(1) show ?thesis by blast
qed

lemma blockers_agree:
  assumes ok: "service_ok s" and nodes: "gs_nodes snapshot = map wire_node (sort_by compare_nodes (graph_nodes s g))"
    and deps: "gs_dependencies snapshot = sort_by compare_deps (graph_deps s g)" and n: "n \<in> set (graph_nodes s g)"
  shows "blockersOf snapshot (wire_node n) = [] \<longleftrightarrow> \<not> list_ex (blocking_row s n) (sv_deps s)"
proof -
  have g: "dn_graphId n = g" using n by (simp add: graph_nodes_def)
  have row: "blocking_row s n d \<longleftrightarrow> dd_toNodeId d = dn_id n \<and>
      (case map_of (nodesById (gs_nodes snapshot)) (dd_fromNodeId d) of None \<Rightarrow> True
       | Some source \<Rightarrow> \<not> dependencySatisfied (dd_kind d) (dn_state source))"
    if d: "d \<in> set (sv_deps s)" "dd_graphId d = g" for d
  proof -
    obtain m where m: "get_node s (dd_fromNodeId d) = Some m"
      "map_of (nodesById (gs_nodes snapshot)) (dd_fromNodeId d) = Some (wire_node m)"
      using snapshot_source [OF ok nodes d] by blast
    have "list_ex (\<lambda>m'. dn_id m' = dd_fromNodeId d \<and> dependency_blocks (dd_kind d) (dn_state m')) (map fst (sv_nodes s)) \<longleftrightarrow>
        dependency_blocks (dd_kind d) (dn_state m)"
    proof -
      have "m' \<in> fst ` set (sv_nodes s) \<and> dn_id m' = dd_fromNodeId d \<longleftrightarrow> m' = m" for m'
        using get_node_iff [OF ok, of "dd_fromNodeId d" m'] m(1) by auto
      then show ?thesis unfolding list_ex_iff set_map by (rule unique_ex)
    qed
    then show ?thesis using d(2) g m(2) by (simp add: blocking_row_def dependency_blocks_iff)
  qed
  have "blockersOf snapshot (wire_node n) = [] \<longleftrightarrow> \<not> (\<exists>d \<in> set (graph_deps s g). blocking_row s n d)"
    using row by (auto simp: blockersOf_def deps filter_empty_conv graph_deps_def split: if_splits)
  also have "(\<exists>d \<in> set (graph_deps s g). blocking_row s n d) \<longleftrightarrow> list_ex (blocking_row s n) (sv_deps s)"
    using g by (auto simp: list_ex_iff graph_deps_def blocking_row_def)
  finally show ?thesis .
qed

lemma graph_accepts_iff:
  assumes "service_ok s" "get_graph s g = Some gr"
  shows "graph_accepts s g \<longleftrightarrow> dg_state gr \<in> {GS_open, GS_running}"
proof -
  have "get_graph s g = Some x \<longleftrightarrow> x \<in> fst ` set (sv_graphs s) \<and> dg_id x = g" for x
    using assms(1) find_by_key [of dg_id "map fst (sv_graphs s)"] by (simp add: get_graph_def service_ok_def comp_def)
  with assms(2) have "x \<in> fst ` set (sv_graphs s) \<and> dg_id x = g \<longleftrightarrow> x = gr" for x by (metis option.inject)
  then show ?thesis unfolding graph_accepts_def list_ex_iff set_map by (rule unique_ex)
qed

lemma ready_agrees:
  assumes ok: "service_ok s" and snap: "getGraphSnapshot service_storage g s = (Inr (Some snapshot), t)"
    and accepts: "dg_state (gs_graph snapshot) \<in> {GS_open, GS_running}"
  shows "readyNodesOf snapshot =
    map wire_node (sort_by compare_nodes (filter (\<lambda>n. dn_graphId n = g \<and> ready_row s n) (map fst (sv_nodes s))))"
proof -
  note ss = snapshot_of_service [OF snap]
  from ss(3) obtain gr where gr: "get_graph s g = Some gr" "gs_graph snapshot = wire_graph gr" by blast
  have acc: "graph_accepts s g" using graph_accepts_iff [OF ok gr(1)] accepts by (simp add: gr(2) wire_graph_def)
  have pred: "isReadyCandidate (wire_node n) \<and> blockersOf snapshot (wire_node n) = [] \<longleftrightarrow> ready_row s n"
    if "n \<in> set (graph_nodes s g)" for n
    using blockers_agree [OF ok ss(4,5) that] acc that
    by (auto simp: ready_row_def isReadyCandidate_def graph_nodes_def)
  have "readyNodesOf snapshot = map wire_node (filter (\<lambda>n. isReadyCandidate (wire_node n) \<and> blockersOf snapshot (wire_node n) = [])
      (sort_by compare_nodes (graph_nodes s g)))"
    by (simp add: readyNodesOf_eq [OF snapshot_ids [OF ok ss(4)]] ss(4) filter_map comp_def)
  also have "\<dots> = map wire_node (filter (ready_row s) (sort_by compare_nodes (graph_nodes s g)))"
    using pred by (intro arg_cong [of _ _ "map wire_node"] filter_cong) simp_all
  also have "\<dots> = map wire_node (sort_by compare_nodes (filter (ready_row s) (graph_nodes s g)))"
    by (simp add: filter_sort_by [OF compare_nodes_orders])
  finally show ?thesis by (simp add: graph_nodes_def conj_commute)
qed

section \<open>Counts\<close>

lemma foldl_countState:
  "foldl (\<lambda>c node. countState c (dn_state node)) c nodes =
     \<lparr>nc_pending = nc_pending c + length (filter (\<lambda>n. dn_state n = NS_pending) nodes),
      nc_ready = nc_ready c + length (filter (\<lambda>n. dn_state n = NS_ready) nodes),
      nc_running = nc_running c + length (filter (\<lambda>n. dn_state n = NS_running) nodes),
      nc_succeeded = nc_succeeded c + length (filter (\<lambda>n. dn_state n = NS_succeeded) nodes),
      nc_failed = nc_failed c + length (filter (\<lambda>n. dn_state n = NS_failed) nodes),
      nc_cancelled = nc_cancelled c + length (filter (\<lambda>n. dn_state n = NS_cancelled) nodes),
      nc_skipped = nc_skipped c + length (filter (\<lambda>n. dn_state n = NS_skipped) nodes)\<rparr>"
proof (induction nodes arbitrary: c)
  case (Cons n nodes)
  show ?case by (cases "dn_state n") (simp_all add: Cons)
qed simp

lemmas countNodeStates_eq = countNodeStates_def foldl_countState

lemma state_partition:
  "length (filter (\<lambda>n. dn_state n = NS_pending) ns) + length (filter (\<lambda>n. dn_state n = NS_ready) ns) +
   length (filter (\<lambda>n. dn_state n = NS_running) ns) + length (filter (\<lambda>n. terminalNodeState (dn_state n)) ns) = length ns"
proof (induction ns)
  case (Cons n ns)
  then show ?case by (cases "dn_state n") simp_all
qed simp

lemma terminal_partition:
  "length (filter (\<lambda>n. dn_state n = NS_succeeded) ns) + length (filter (\<lambda>n. dn_state n = NS_failed) ns) +
   length (filter (\<lambda>n. dn_state n = NS_cancelled) ns) + length (filter (\<lambda>n. dn_state n = NS_skipped) ns) =
   length (filter (\<lambda>n. terminalNodeState (dn_state n)) ns)"
proof (induction ns)
  case (Cons n ns)
  then show ?case by (cases "dn_state n") simp_all
qed simp

lemma completed_eq:
  "sg_completedNodeCount (buildGraphStatus snapshot) = length (filter (\<lambda>n. terminalNodeState (dn_state n)) (gs_nodes snapshot))"
  using terminal_partition [of "gs_nodes snapshot"] by (simp add: buildGraphStatus_def Let_def countNodeStates_eq)

lemma waiting_partition:
  "length (filter (\<lambda>n. isReadyCandidate n \<and> P n) ns) + length (filter (\<lambda>n. isReadyCandidate n \<and> \<not> P n) ns) +
   length (filter (\<lambda>n. dn_state n = NS_running) ns) + length (filter (\<lambda>n. terminalNodeState (dn_state n)) ns) \<le> length ns"
proof (induction ns)
  case (Cons n ns)
  then show ?case by (cases "dn_state n") (auto simp: isReadyCandidate_def)
qed simp

lemma ready_le:
  "length (readyNodesOf snapshot) \<le> length (filter (\<lambda>n. isReadyCandidate n \<and> \<not> blockersOf snapshot n \<noteq> []) (gs_nodes snapshot))"
proof -
  have "readyNodesOf snapshot = filter (\<lambda>n. isReadyCandidate n \<and> dn_id n \<notin>
      dn_id ` {m \<in> set (gs_nodes snapshot). isReadyCandidate m \<and> blockersOf snapshot m \<noteq> []}) (gs_nodes snapshot)"
    unfolding readyNodesOf_def Let_def blocked_ids ..
  also have "\<dots> = filter (\<lambda>n. isReadyCandidate n \<and> dn_id n \<notin>
      dn_id ` {m \<in> set (gs_nodes snapshot). isReadyCandidate m \<and> blockersOf snapshot m \<noteq> []})
      (filter (\<lambda>n. isReadyCandidate n \<and> \<not> blockersOf snapshot n \<noteq> []) (gs_nodes snapshot))"
    unfolding filter_filter by (rule filter_cong) auto
  finally have eq: "readyNodesOf snapshot = \<dots>" .
  show ?thesis unfolding eq by (rule length_filter_le)
qed

section \<open>Properties\<close>



text \<open>
  The numbers of a status are consistent: the seven counts add up to the number of nodes,
  completed, active and blocked nodes are together at most all nodes, and the ratio is between 0
  and 1, and 1 exactly when every node is done.
\<close>

theorem status_numbers:
  fixes snapshot
  defines "st \<equiv> buildGraphStatus snapshot"
  shows "nc_pending (sg_counts st) + nc_ready (sg_counts st) + nc_running (sg_counts st) + nc_succeeded (sg_counts st) +
      nc_failed (sg_counts st) + nc_cancelled (sg_counts st) + nc_skipped (sg_counts st) = sg_nodeCount st \<and>
    sg_completedNodeCount st + sg_activeNodeCount st + sg_blockedNodeCount st \<le> sg_nodeCount st \<and>
    0 \<le> sg_progressRatio st \<and> sg_progressRatio st \<le> 1 \<and>
    (sg_progressRatio st = 1 \<longleftrightarrow> list_all (\<lambda>n. terminalNodeState (dn_state n)) (gs_nodes snapshot))"
proof -
  let ?ns = "gs_nodes snapshot"
  let ?done = "length (filter (\<lambda>n. terminalNodeState (dn_state n)) ?ns)"
  have le: "?done \<le> length ?ns" by simp
  have sum: "nc_pending (sg_counts st) + nc_ready (sg_counts st) + nc_running (sg_counts st) + nc_succeeded (sg_counts st) +
      nc_failed (sg_counts st) + nc_cancelled (sg_counts st) + nc_skipped (sg_counts st) = sg_nodeCount st"
    using state_partition [of ?ns] terminal_partition [of ?ns]
    by (simp add: st_def buildGraphStatus_def Let_def countNodeStates_eq)
  have "sg_blockedNodeCount st = length (filter (\<lambda>n. isReadyCandidate n \<and> blockersOf snapshot n \<noteq> []) ?ns)"
    by (simp add: st_def buildGraphStatus_def Let_def blockedPendingNodes_def blockedLoop_eq)
  then have parts: "sg_completedNodeCount st + sg_activeNodeCount st + sg_blockedNodeCount st \<le> sg_nodeCount st"
    using waiting_partition [of "\<lambda>n. blockersOf snapshot n \<noteq> []" ?ns] ready_le [of snapshot] completed_eq [of snapshot]
    by (simp add: st_def buildGraphStatus_def Let_def)
  have ratio: "sg_progressRatio st = (if length ?ns = 0 then 1 else of_nat ?done / of_nat (length ?ns))"
    using completed_eq [of snapshot] by (simp add: st_def buildGraphStatus_def Let_def)
  have "sg_progressRatio st = 1 \<longleftrightarrow> ?done = length ?ns" using le by (auto simp: ratio)
  also have "\<dots> \<longleftrightarrow> list_all (\<lambda>n. terminalNodeState (dn_state n)) ?ns"
    by (metis filter_True length_filter_less less_irrefl list_all_iff)
  finally show ?thesis using sum parts le by (simp add: ratio)
qed


text \<open>
  C18. When the status of a graph without circular dependencies is \<open>blocked\<close>, some node waits for one
  that will never satisfy it by itself: a skipped node, a node that has a job but was not started,
  or one that is not in the graph. So a graph without cycles in which nothing fails, is cancelled,
  skipped or given a job by hand is never stuck: something runs or can be started until all is done.
\<close>

theorem blocked_graph_explained:
  assumes "sg_progressState (buildGraphStatus snapshot) = PG_blocked"
    and "acyclic ((\<lambda>d. (dd_fromNodeId d, dd_toNodeId d)) ` set (gs_dependencies snapshot))"
  shows "\<exists>b \<in> set (sg_blockedNodes (buildGraphStatus snapshot)). \<exists>d \<in> set (bn_blockedBy b).
    case map_of (nodesById (gs_nodes snapshot)) (dd_fromNodeId d) of
      None \<Rightarrow> True
    | Some m \<Rightarrow> dn_state m = NS_skipped \<or> dn_state m \<in> {NS_pending, NS_ready} \<and> dn_schedulerJobId m \<noteq> None"
proof (rule ccontr)
  let ?R = "(\<lambda>d. (dd_fromNodeId d, dd_toNodeId d)) ` set (gs_dependencies snapshot)"
  let ?B = "dn_id ` {n \<in> set (gs_nodes snapshot). isReadyCandidate n \<and> blockersOf snapshot n \<noteq> []}"
  assume none: "\<not> ?thesis"
  have counts: "\<forall>n \<in> set (gs_nodes snapshot). dn_state n \<notin> {NS_failed, NS_cancelled, NS_running}"
    and idle: "readyNodesOf snapshot = []" and blocked: "blockedPendingNodes snapshot \<noteq> []"
    using assms(1)
    by (auto simp: buildGraphStatus_def Let_def graphProgressState_def countNodeStates_eq filter_empty_conv split: if_splits)
  have wf: "wf ?R" by (rule finite_acyclic_wf) (simp_all add: assms(2))
  have "?B \<noteq> {}" using blocked by (auto simp: blockedPendingNodes_def blockedLoop_eq filter_empty_conv)
  then obtain b where "b \<in> ?B" by (elim exE [OF ex_in_conv [THEN iffD2]])
  from wf_eq_minimal [THEN iffD1, OF wf, rule_format, OF this]
  obtain z where z: "z \<in> ?B" "\<forall>y. (y, z) \<in> ?R \<longrightarrow> y \<notin> ?B" by (elim bexE)
  from z(1) obtain n where n: "z = dn_id n" "n \<in> set (gs_nodes snapshot)" "isReadyCandidate n" "blockersOf snapshot n \<noteq> []"
    by (elim imageE CollectE conjE)
  then obtain d where d: "d \<in> set (blockersOf snapshot n)" by (cases "blockersOf snapshot n") auto
  have b: "\<lparr>bn_node = n, bn_blockedBy = blockersOf snapshot n\<rparr> \<in> set (sg_blockedNodes (buildGraphStatus snapshot))"
    using n by (simp add: buildGraphStatus_def Let_def blockedPendingNodes_def blockedLoop_eq)
  have no: "\<not> (case map_of (nodesById (gs_nodes snapshot)) (dd_fromNodeId d) of
      None \<Rightarrow> True
    | Some m \<Rightarrow> dn_state m = NS_skipped \<or> dn_state m \<in> {NS_pending, NS_ready} \<and> dn_schedulerJobId m \<noteq> None)"
    using none b d by fastforce
  then obtain m where m: "map_of (nodesById (gs_nodes snapshot)) (dd_fromNodeId d) = Some m"
    "dn_state m \<noteq> NS_skipped" "dn_state m \<in> {NS_pending, NS_ready} \<longrightarrow> dn_schedulerJobId m = None"
    by (auto split: option.splits)
  have mem: "m \<in> set (gs_nodes snapshot)" "dn_id m = dd_fromNodeId d" using nodesById_in [OF m(1)] by auto
  have dep: "d \<in> set (gs_dependencies snapshot)" "dd_toNodeId d = z" "\<not> dependencySatisfied (dd_kind d) (dn_state m)"
    using d m(1) n(1) by (auto simp: blockersOf_def split: if_splits)
  have "dn_state m \<noteq> NS_succeeded" using dep(3) by (cases "dd_kind d") auto
  with counts mem(1) m(2) have "dn_state m \<in> {NS_pending, NS_ready}" by (cases "dn_state m") auto
  with m(3) have "isReadyCandidate m" by (auto simp: isReadyCandidate_def)
  with idle mem(1) have "dn_id m \<in> ?B"
    using blocked_ids [of snapshot] by (auto simp: readyNodesOf_def Let_def filter_empty_conv)
  moreover have "(dn_id m, z) \<in> ?R" using dep mem(2) by force
  ultimately show False using z(2) by blast
qed

definition stuck_node :: "string \<Rightarrow> DelegationNodeState \<Rightarrow> DelegationGraphNodeRecord" where
  "stuck_node i q = \<lparr>dn_id = i, dn_graphId = ''g'', dn_kind = NK_tool_task, dn_principalId = ''p'', dn_state = q,
     dn_payload = JNull, dn_schedulerJobId = None, dn_metadata = None, dn_createdAt = 1, dn_updatedAt = 1,
     dn_startedAt = None, dn_finishedAt = None\<rparr>"

definition stuck_snapshot :: DelegationGraphSnapshot where
  "stuck_snapshot = \<lparr>gs_graph = \<lparr>dg_id = ''g'', dg_principalId = ''p'', dg_title = None, dg_state = GS_open, dg_metadata = None,
       dg_createdAt = 1, dg_updatedAt = 1, dg_closedAt = None\<rparr>,
     gs_nodes = [stuck_node ''a'' NS_skipped, stuck_node ''b'' NS_pending],
     gs_dependencies = [\<lparr>dd_id = ''ab'', dd_graphId = ''g'', dd_fromNodeId = ''a'', dd_toNodeId = ''b'',
       dd_kind = DK_after_success, dd_createdAt = 1\<rparr>]\<rparr>"

theorem blocked_graph_explained_witness:
  "sg_progressState (buildGraphStatus stuck_snapshot) = PG_blocked \<and>
   (\<exists>b \<in> set (sg_blockedNodes (buildGraphStatus stuck_snapshot)). \<exists>d \<in> set (bn_blockedBy b).
     case map_of (nodesById (gs_nodes stuck_snapshot)) (dd_fromNodeId d) of
       None \<Rightarrow> True
     | Some m \<Rightarrow> dn_state m = NS_skipped \<or> dn_state m \<in> {NS_pending, NS_ready} \<and> dn_schedulerJobId m \<noteq> None)"
proof -
  have b: "sg_progressState (buildGraphStatus stuck_snapshot) = PG_blocked" by code_simp
  have "acyclic ((\<lambda>d. (dd_fromNodeId d, dd_toNodeId d)) ` set (gs_dependencies stuck_snapshot))"
    by (simp add: stuck_snapshot_def acyclic_insert) (simp add: acyclic_def)
  from blocked_graph_explained [OF b this] b show ?thesis by (rule conjI [rotated])
qed

text \<open>
  A put of a node that is repeated, because its answer was lost or its caller was restarted,
  returns the same record and adds nothing, when the request names the node or carries an
  idempotency key.
\<close>

theorem put_node_idempotent:
  assumes "put_delegation_graph_node r s = Inr (n, t)"
    and "pn_id r \<noteq> None \<or> pn_idempotencyKey r \<noteq> None"
  shows "put_delegation_graph_node r t = Inr (n, t)"
proof (cases "t = s")
  case True
  with assms(1) show ?thesis by simp
next
  case False
  let ?i = "opt_else (pn_id r) (''dnode_'' @ sv_uuid s 0)"
  from assms(1) False have old: "validate_put_node r = Inr ()" "get_graph s (pn_graphId r) \<noteq> None"
      "find_key (sv_nodes s) (pn_idempotencyKey r) = None" "get_node s ?i = None" "dn_id n = ?i"
      "validate_existing_node n r = Inr ()"
      "t = draw_uuids 1 (s\<lparr>sv_nodes := sv_nodes s @ [(n, pn_idempotencyKey r)]\<rparr>)"
    by (auto simp: put_delegation_graph_node_def validate_existing_node_def result_simps Let_def split: option.splits)
  show ?thesis
  proof (cases "pn_idempotencyKey r")
    case (Some k)
    have "find_key (sv_nodes t) (Some k) = Some n"
      using old(3) Some by (auto simp: old(7) find_key_def find_append split: option.splits)
    then show ?thesis using old(1,2,6,7) Some by (auto simp: put_delegation_graph_node_def)
  next
    case None
    with assms(2) obtain i where i: "pn_id r = Some i" by auto
    then have "get_node t i = Some n" using old(4,5) by (simp add: old(7) get_node_add)
    then show ?thesis using old(1,2,6,7) None i by (auto simp: put_delegation_graph_node_def find_key_def)
  qed
qed

definition again_request :: PutDelegationGraphNodeRequest where
  "again_request = \<lparr>pn_id = None, pn_graphId = ''g'', pn_kind = NK_aggregation, pn_principalId = ''p'', pn_payload = JNull,
     pn_metadata = None, pn_idempotencyKey = Some ''k''\<rparr>"

theorem put_node_idempotent_witness:
  "\<exists>n t. put_delegation_graph_node again_request demo_built = Inr (n, t) \<and> length (sv_nodes t) = 4 \<and>
     put_delegation_graph_node again_request t = Inr (n, t)"
proof -
  have "(case put_delegation_graph_node again_request demo_built of Inr (n, t) \<Rightarrow> length (sv_nodes t) = 4 | _ \<Rightarrow> False)"
    by code_simp
  then obtain n t where r: "put_delegation_graph_node again_request demo_built = Inr (n, t)" "length (sv_nodes t) = 4"
    by (auto split: sum.splits)
  have "put_delegation_graph_node again_request t = Inr (n, t)"
    by (rule put_node_idempotent [OF r(1)]) (simp add: again_request_def)
  with r show ?thesis by (intro exI [of _ n] exI [of _ t] conjI)
qed

lemma materializeLoop_unsupported:
  "list_all (\<lambda>n. rs_jobKindsByNodeKind r (dn_kind n) = None) ns \<Longrightarrow>
   \<exists>skipped. materializeLoop st r limit ns [] b s = (Inr ([], skipped), s)"
  by (induction ns arbitrary: b) (simp_all add: eff_simps)

lemma isInteger_of_nat: "isInteger (of_nat k)"
  unfolding isInteger_def by (simp only: floor_of_nat of_int_of_nat_eq)

lemma sync_nothing:
  assumes "g \<noteq> []" "list_all (\<lambda>n. dn_state n \<noteq> NS_running) (graph_nodes s g)"
  shows "syncRunningNodes service_storage g s = (Inr ([], []), s)"
proof -
  have "filter (\<lambda>n. dn_graphId n = g \<and> dn_state n = NS_running) (map fst (sv_nodes s)) = []"
    using assms(2) by (auto simp: graph_nodes_def list_all_iff filter_empty_conv)
  then show ?thesis using assms(1)
    by (simp add: syncRunningNodes_def service_storage_def via_def list_delegation_graph_nodes_def invariant_guard_def
        eff_simps sort_by_def)
qed


text \<open>The first ready node of the example is a tool task, which the request does not support; a second one is an aggregation.\<close>

definition starved :: service where
  "starved = after (dgr_addNode (team None) (demo_node ''d'' \<lparr>ag_kind := NK_aggregation\<rparr>)) demo_built"

definition starved_request :: RunDelegationGraphStepRequest where
  "starved_request = demo_step\<lparr>rs_jobKindsByNodeKind := (\<lambda>k. if k = NK_aggregation then Some JK_plugin_action else None),
     rs_materializeLimit := Some 1\<rparr>"


end
