(* ===== verification/Budget_Store.thy ===== *)
theory Budget_Store
  imports Delegation_Store
begin

text \<open>
  Budgets of the system service: crates/system-service/src/budget.rs. A scope has a limit and the
  usage that was committed; a grant reserves a part of what remains, usage is recorded against a
  grant, and committing the grant moves the recorded usage to the scope. \<open>reserve_budget\<close> keeps
  the new limit of the scope even when it denies the grant, so it is an effect and not a
  database transaction that an error undoes.
\<close>

section \<open>Amounts\<close>

definition no_amount :: BudgetAmount where
  "no_amount = \<lparr>ba_tokens = None, ba_costMicros = None, ba_wallTimeMs = None, ba_toolCalls = None\<rparr>"

definition validate_budget_amount :: "BudgetAmount \<Rightarrow> service_error + unit" where
  "validate_budget_amount a =
     invariant_guard (list_all (\<lambda>v. case v of None \<Rightarrow> True | Some n \<Rightarrow> 0 \<le> n)
         [ba_tokens a, ba_costMicros a, ba_wallTimeMs a, ba_toolCalls a])
       ''budget amounts must not be negative''"

definition fits_dimension :: "number option \<Rightarrow> number option \<Rightarrow> number option \<Rightarrow> bool" where
  "fits_dimension limit used requested =
     (case limit of None \<Rightarrow> True | Some l \<Rightarrow> i64_add (opt_else used 0) (opt_else requested 0) \<le> l)"

definition fits_budget :: "BudgetAmount \<Rightarrow> BudgetAmount \<Rightarrow> BudgetAmount \<Rightarrow> bool" where
  "fits_budget limit used requested =
     (fits_dimension (ba_tokens limit) (ba_tokens used) (ba_tokens requested) \<and>
      fits_dimension (ba_costMicros limit) (ba_costMicros used) (ba_costMicros requested) \<and>
      fits_dimension (ba_wallTimeMs limit) (ba_wallTimeMs used) (ba_wallTimeMs requested) \<and>
      fits_dimension (ba_toolCalls limit) (ba_toolCalls used) (ba_toolCalls requested))"

definition fits_reserved_dimension :: "number option \<Rightarrow> number option \<Rightarrow> number option \<Rightarrow> bool" where
  "fits_reserved_dimension limit used delta =
     (i64_add (opt_else used 0) (opt_else delta 0) \<le> opt_else limit 0)"

definition fits_reserved_grant :: "BudgetAmount \<Rightarrow> BudgetAmount \<Rightarrow> BudgetAmount \<Rightarrow> bool" where
  "fits_reserved_grant limit used delta =
     (fits_reserved_dimension (ba_tokens limit) (ba_tokens used) (ba_tokens delta) \<and>
      fits_reserved_dimension (ba_costMicros limit) (ba_costMicros used) (ba_costMicros delta) \<and>
      fits_reserved_dimension (ba_wallTimeMs limit) (ba_wallTimeMs used) (ba_wallTimeMs delta) \<and>
      fits_reserved_dimension (ba_toolCalls limit) (ba_toolCalls used) (ba_toolCalls delta))"

fun add_optional :: "number option \<Rightarrow> number option \<Rightarrow> number option" where
  "add_optional (Some l) (Some r) = Some (i64_add l r)"
| "add_optional (Some v) None = Some v"
| "add_optional None r = r"

definition add_amounts :: "BudgetAmount \<Rightarrow> BudgetAmount \<Rightarrow> BudgetAmount" where
  "add_amounts l r =
     \<lparr>ba_tokens = add_optional (ba_tokens l) (ba_tokens r),
      ba_costMicros = add_optional (ba_costMicros l) (ba_costMicros r),
      ba_wallTimeMs = add_optional (ba_wallTimeMs l) (ba_wallTimeMs r),
      ba_toolCalls = add_optional (ba_toolCalls l) (ba_toolCalls r)\<rparr>"

section \<open>Tables\<close>

definition budget_scope_id :: "service \<Rightarrow> BudgetScopeKind \<Rightarrow> string \<Rightarrow> BudgetWindowKind \<Rightarrow> string" where
  "budget_scope_id s kind owner window =
     ''bgs_'' @ sv_sha256 s (scopeKindText kind @ '':'' @ owner @ '':'' @ windowKindText window)"

definition get_scope :: "service \<Rightarrow> string \<Rightarrow> BudgetScopeRecord option" where
  "get_scope s i = List.find (\<lambda>c. bs_id c = i) (sv_scopes s)"

definition get_grant :: "service \<Rightarrow> string \<Rightarrow> BudgetGrantRecord option" where
  "get_grant s i = List.find (\<lambda>g. bg_id g = i) (sv_grants s)"

definition find_budget_grant :: "service \<Rightarrow> string \<Rightarrow> string \<Rightarrow> BudgetGrantRecord option" where
  "find_budget_grant s scope key = List.find (\<lambda>g. bg_scopeId g = scope \<and> bg_idempotencyKey g = key) (sv_grants s)"

definition find_budget_usage_entry :: "service \<Rightarrow> string \<Rightarrow> string \<Rightarrow> BudgetUsageEntryRecord option" where
  "find_budget_usage_entry s grant key =
     List.find (\<lambda>u. ru_grantId u = grant \<and> ru_idempotencyKey u = key) (sv_usages s)"

definition reserved_budget :: "service \<Rightarrow> string \<Rightarrow> BudgetAmount" where
  "reserved_budget s scope =
     foldl add_amounts no_amount
       (map bg_requested (filter (\<lambda>g. bg_scopeId g = scope \<and> bg_state g = BG_reserved) (sv_grants s)))"

definition compare_usages :: "BudgetUsageEntryRecord \<Rightarrow> BudgetUsageEntryRecord \<Rightarrow> int" where
  "compare_usages l r = sql_compare (ue_createdAt l) (ue_id l) (ue_createdAt r) (ue_id r)"

definition budget_usage_total :: "service \<Rightarrow> string \<Rightarrow> BudgetAmount" where
  "budget_usage_total s grant =
     foldl add_amounts no_amount
       (map ru_usage (sort_by compare_usages (filter (\<lambda>u. ru_grantId u = grant) (sv_usages s))))"

definition replace_scope :: "BudgetScopeRecord \<Rightarrow> service \<Rightarrow> service" where
  "replace_scope c s = s\<lparr>sv_scopes := map (\<lambda>d. if bs_id d = bs_id c then c else d) (sv_scopes s)\<rparr>"

definition replace_grant :: "BudgetGrantRecord \<Rightarrow> service \<Rightarrow> service" where
  "replace_grant g s = s\<lparr>sv_grants := map (\<lambda>h. if bg_id h = bg_id g then g else h) (sv_grants s)\<rparr>"

section \<open>Operations\<close>

text \<open>
  The insertion of a scope, which on conflict updates the limit of the row with the same kind,
  owner and window.
\<close>

definition upsert_budget_scope :: "ReserveBudgetRequest \<Rightarrow> string \<Rightarrow> BudgetWindowKind \<Rightarrow> service \<Rightarrow> service_error + service" where
  "upsert_budget_scope r scope_id window s =
     (let same = (\<lambda>c. bs_kind c = bf_kind (rb_scope r) \<and> bs_ownerId c = bf_ownerId (rb_scope r) \<and> bs_windowKind c = window)
      in if list_ex same (sv_scopes s)
         then Inr (s\<lparr>sv_scopes := map (\<lambda>c. if same c then c\<lparr>bs_limit := rb_limit r, bs_updatedAt := sv_now s\<rparr> else c)
                (sv_scopes s)\<rparr>)
         else res_bind (guard (get_scope s scope_id = None) SE_unique_scope) (\<lambda>_.
           Inr (s\<lparr>sv_scopes := sv_scopes s @ [\<lparr>bs_id = scope_id, bs_kind = bf_kind (rb_scope r),
                bs_ownerId = bf_ownerId (rb_scope r), bs_limit = rb_limit r, bs_usage = no_amount,
                bs_windowKind = window, bs_state = BS_active, bs_createdAt = sv_now s, bs_updatedAt = sv_now s\<rparr>]\<rparr>)))"

definition new_grant :: "ReserveBudgetRequest \<Rightarrow> string \<Rightarrow> service \<Rightarrow> BudgetGrantRecord" where
  "new_grant r scope_id s =
     \<lparr>bg_id = ''bgt_'' @ sv_uuid s 0, bg_scopeId = scope_id, bg_principalId = rb_principalId r, bg_reason = rb_reason r,
      bg_requested = rb_requested r, bg_committed = None, bg_state = BG_reserved,
      bg_idempotencyKey = rb_idempotencyKey r, bg_expiresAt = rb_expiresAt r, bg_createdAt = sv_now s,
      bg_updatedAt = sv_now s\<rparr>"

definition reserve_budget :: "ReserveBudgetRequest \<Rightarrow> (service, service_error, BudgetGrantRecord) eff" where
  "reserve_budget r s =
     (case res_bind (validate_budget_amount (rb_limit r)) (\<lambda>_. validate_budget_amount (rb_requested r)) of
        Inl e \<Rightarrow> (Inl e, s)
      | Inr _ \<Rightarrow>
     (let window = opt_else (bf_windowKind (rb_scope r)) BW_session;
          scope_id = budget_scope_id s (bf_kind (rb_scope r)) (bf_ownerId (rb_scope r)) window
      in case upsert_budget_scope r scope_id window s of
        Inl e \<Rightarrow> (Inl e, s)
      | Inr t \<Rightarrow>
     (case find_budget_grant t scope_id (rb_idempotencyKey r) of
        Some existing \<Rightarrow> (Inr existing, t)
      | None \<Rightarrow>
     (case get_scope t scope_id of
        None \<Rightarrow> (Inl SE_no_rows, s)
      | Some scope \<Rightarrow>
          if \<not> fits_budget (bs_limit scope) (add_amounts (bs_usage scope) (reserved_budget t scope_id)) (rb_requested r)
          then (Inl (SE_budget_denied scope_id ''requested budget exceeds remaining limit''), t)
          else if get_grant t (''bgt_'' @ sv_uuid t 0) \<noteq> None then (Inl SE_unique_grant, s)
          else let g = new_grant r (bs_id scope) t
               in (Inr g, draw_uuids 1 (t\<lparr>sv_grants := sv_grants t @ [g]\<rparr>))))))"

definition commit_budget_grant_tx :: "string \<Rightarrow> BudgetGrantRecord option service_op" where
  "commit_budget_grant_tx grant_id s =
     (case get_grant s grant_id of
        None \<Rightarrow> Inr (None, s)
      | Some grant \<Rightarrow>
          if bg_state grant \<noteq> BG_reserved then Inr (Some grant, s)
          else
            let usage = budget_usage_total s (bg_id grant) in
            (case get_scope s (bg_scopeId grant) of
               None \<Rightarrow> Inl SE_no_rows
             | Some scope \<Rightarrow>
                 if \<not> fits_budget (bs_limit scope) (bs_usage scope) usage
                 then Inl (SE_budget_denied (bs_id scope) ''committed usage exceeds scope limit'')
                 else
                   let g = grant\<lparr>bg_state := BG_committed, bg_committed := Some usage, bg_updatedAt := sv_now s\<rparr>
                   in Inr (Some g, replace_grant g (replace_scope
                        (scope\<lparr>bs_usage := add_amounts (bs_usage scope) usage, bs_updatedAt := sv_now s\<rparr>) s))))"

definition commit_budget :: "CommitBudgetRequest \<Rightarrow> BudgetGrantRecord option service_op" where
  "commit_budget r = commit_budget_grant_tx (cb_grantId r)"

definition record_budget_usage :: "RecordBudgetUsageRequest \<Rightarrow> RecordBudgetUsageReceipt service_op" where
  "record_budget_usage r s =
     res_bind (validate_budget_amount (ru_usage r)) (\<lambda>_.
     res_bind (invariant_guard (ru_source r \<noteq> [] \<and> ru_sourceId r \<noteq> [] \<and> ru_idempotencyKey r \<noteq> [])
       ''budget usage identity fields must not be empty'') (\<lambda>_.
     case find_budget_usage_entry s (ru_grantId r) (ru_idempotencyKey r) of
       Some existing \<Rightarrow>
         res_bind (invariant_guard (ru_usage existing = ru_usage r \<and> ru_source existing = ru_source r \<and>
             ru_sourceId existing = ru_sourceId r) ''conflicting repeated budget usage entry'') (\<lambda>_.
         Inr (\<lparr>rr_entry = existing, rr_created = False\<rparr>, s))
     | None \<Rightarrow>
         res_bind (require_some (''budget grant not found: '' @ ru_grantId r) (get_grant s (ru_grantId r))) (\<lambda>grant.
         res_bind (invariant_guard (bg_state grant = BG_reserved) ''budget usage requires a reserved grant'') (\<lambda>_.
         res_bind (guard (fits_reserved_grant (bg_requested grant) (budget_usage_total s (bg_id grant)) (ru_usage r))
           (SE_budget_denied (bg_scopeId grant) ''usage exceeds reserved grant'')) (\<lambda>_.
         let entry = \<lparr>ru_grantId = ru_grantId r, ru_usage = ru_usage r, ru_source = ru_source r,
               ru_sourceId = ru_sourceId r, ru_idempotencyKey = ru_idempotencyKey r,
               ue_id = ''bue_'' @ sv_uuid s 0, ue_createdAt = sv_now s\<rparr> in
         res_bind (guard (\<not> list_ex (\<lambda>u. ue_id u = ue_id entry) (sv_usages s)) SE_unique_usage) (\<lambda>_.
         Inr (\<lparr>rr_entry = entry, rr_created = True\<rparr>, draw_uuids 1 (s\<lparr>sv_usages := sv_usages s @ [entry]\<rparr>))))))))"

definition release_budget :: "string \<Rightarrow> BudgetGrantRecord option service_op" where
  "release_budget grant_id s =
     (case get_grant s grant_id of
        None \<Rightarrow> Inr (None, s)
      | Some grant \<Rightarrow>
          if bg_state grant = BG_reserved
          then let g = grant\<lparr>bg_state := BG_released, bg_updatedAt := sv_now s\<rparr> in Inr (Some g, replace_grant g s)
          else Inr (Some grant, s))"

definition get_budget_scope :: "string \<Rightarrow> BudgetScopeRecord option service_op" where
  "get_budget_scope i s = Inr (get_scope s i, s)"

definition compare_grants :: "BudgetGrantRecord \<Rightarrow> BudgetGrantRecord \<Rightarrow> int" where
  "compare_grants l r = sql_compare (bg_createdAt l) (bg_id l) (bg_createdAt r) (bg_id r)"

definition list_budget_grants :: "string \<Rightarrow> BudgetGrantRecord list service_op" where
  "list_budget_grants scope s =
     Inr (sort_by compare_grants (filter (\<lambda>g. bg_scopeId g = scope) (sv_grants s)), s)"

end
