(* ===== verification/Scheduler_Store.thy ===== *)
theory Scheduler_Store
  imports Budget_Store
begin

text \<open>
  The job queue of the system service: crates/system-service/src/scheduler.rs. The jobs are the
  table \<open>sv_jobs\<close>. Jobs of sessions and teams have their own tables (session_turn,
  session_attempt, team_delivery), which the operations here only read: the model is the service
  over a database in which these tables are empty, so a lookup in them finds nothing.
\<close>

section \<open>Rows\<close>

definition update_job :: "string \<Rightarrow> (SchedulerJobRecord \<Rightarrow> SchedulerJobRecord) \<Rightarrow> service \<Rightarrow> service" where
  "update_job i f s = s\<lparr>sv_jobs := map (\<lambda>j. if jb_id j = i then f j else j) (sv_jobs s)\<rparr>"

definition is_terminal :: "SchedulerJobState \<Rightarrow> bool" where
  "is_terminal st = (st \<in> {JS_succeeded, JS_failed, JS_cancelled})"

definition claimable :: "SchedulerJobState \<Rightarrow> bool" where
  "claimable st = (st \<in> {JS_pending, JS_ready, JS_retry_scheduled})"

definition clear_lease :: "SchedulerJobRecord \<Rightarrow> SchedulerJobRecord" where
  "clear_lease j = j\<lparr>jb_leaseOwner := None, jb_leaseToken := None, jb_leaseExpiresAt := None\<rparr>"

definition owns_lease :: "string \<Rightarrow> string \<Rightarrow> SchedulerJobRecord \<Rightarrow> bool" where
  "owns_lease worker token j =
     (jb_state j = JS_running \<and> jb_leaseOwner j = Some worker \<and> jb_leaseToken j = Some token)"

section \<open>Enqueueing\<close>

definition enqueue_job :: "EnqueueJobRequest \<Rightarrow> SchedulerJobRecord service_op" where
  "enqueue_job r s =
     res_bind (guard (ej_kind r \<notin> {JK_session_turn, JK_team_delivery, JK_team_delivery_outcome})
       (SE_invalid_job ''domain-owned jobs must be created by their specialized transaction'')) (\<lambda>_.
     res_bind (validate_enqueue r) (\<lambda>_.
     res_bind (enqueue_job_tx r (sv_now s) (sv_uuid s 0) (sv_jobs s)) (\<lambda>(job, jobs).
     Inr (job, draw_uuids 1 (s\<lparr>sv_jobs := jobs\<rparr>)))))"

section \<open>Claiming\<close>

definition validate_claim_queues :: "string list option \<Rightarrow> service_error + unit" where
  "validate_claim_queues queues =
     (case queues of None \<Rightarrow> Inr () | Some qs \<Rightarrow> for_each (\<lambda>_ q. validate_queue (Some q)) () qs)"

definition lease_expired :: "number \<Rightarrow> SchedulerJobRecord \<Rightarrow> bool" where
  "lease_expired now j =
     (jb_state j = JS_running \<and> (case jb_leaseExpiresAt j of None \<Rightarrow> False | Some e \<Rightarrow> e \<le> now))"

text \<open>A session turn whose lease expired has no attempt, so its claim is taken back.\<close>

definition reset_lease :: "number \<Rightarrow> SchedulerJobRecord \<Rightarrow> SchedulerJobRecord" where
  "reset_lease now j =
     (if \<not> lease_expired now j then j
      else if jb_kind j \<noteq> JK_session_turn then clear_lease (j\<lparr>jb_state := JS_ready, jb_updatedAt := now\<rparr>)
      else clear_lease (j\<lparr>jb_state := JS_ready, jb_attempt := max (jb_attempt j - 1) 0, jb_updatedAt := now\<rparr>))"

definition reset_expired_leases :: "service \<Rightarrow> service" where
  "reset_expired_leases s = s\<lparr>sv_jobs := map (reset_lease (sv_now s)) (sv_jobs s)\<rparr>"

definition same_key :: "SchedulerJobRecord \<Rightarrow> SchedulerJobRecord \<Rightarrow> bool" where
  "same_key a b = (jb_concurrencyKey a \<noteq> None \<and> jb_concurrencyKey a = jb_concurrencyKey b)"

definition key_busy :: "SchedulerJobRecord list \<Rightarrow> SchedulerJobRecord \<Rightarrow> bool" where
  "key_busy jobs c = list_ex (\<lambda>a. same_key a c \<and> jb_id a \<noteq> jb_id c \<and> jb_state a = JS_running) jobs"

definition earlier_turn :: "SchedulerJobRecord list \<Rightarrow> SchedulerJobRecord \<Rightarrow> bool" where
  "earlier_turn jobs c =
     list_ex (\<lambda>e. same_key e c \<and> jb_kind e = JK_session_turn \<and> jb_id e \<noteq> jb_id c \<and> \<not> is_terminal (jb_state e) \<and>
        (jb_createdAt e < jb_createdAt c \<or> (jb_createdAt e = jb_createdAt c \<and> jb_id e < jb_id c))) jobs"

definition candidate_row :: "ClaimJobRequest \<Rightarrow> service \<Rightarrow> SchedulerJobRecord \<Rightarrow> bool" where
  "candidate_row r s c =
     (claimable (jb_state c) \<and> opt_else (jb_notBefore c) (jb_scheduledAt c) \<le> sv_now s \<and>
      \<not> key_busy (sv_jobs s) c \<and> (jb_kind c \<noteq> JK_session_turn \<or> \<not> earlier_turn (sv_jobs s) c) \<and>
      (case cj_kinds r of None \<Rightarrow> True | Some ks \<Rightarrow> jb_kind c \<in> set ks) \<and>
      (case cj_queues r of None \<Rightarrow> True | Some qs \<Rightarrow> jb_queue c \<in> set qs))"

definition compare_jobs :: "SchedulerJobRecord \<Rightarrow> SchedulerJobRecord \<Rightarrow> int" where
  "compare_jobs l r =
     (if jb_priority l > jb_priority r then -1 else if jb_priority l < jb_priority r then 1
      else sql_compare (jb_scheduledAt l) (jb_id l) (jb_scheduledAt r) (jb_id r))"

definition ready_candidates :: "ClaimJobRequest \<Rightarrow> service \<Rightarrow> string list" where
  "ready_candidates r s =
     (if cj_kinds r = Some [] \<or> cj_queues r = Some [] then []
      else take 1 (map jb_id (sort_by compare_jobs (filter (candidate_row r s) (sv_jobs s)))))"

definition take_job :: "string \<Rightarrow> string \<Rightarrow> number \<Rightarrow> number \<Rightarrow> SchedulerJobRecord \<Rightarrow> SchedulerJobRecord" where
  "take_job worker token expires now j =
     (if claimable (jb_state j)
      then j\<lparr>jb_state := JS_running, jb_attempt := jb_attempt j + 1, jb_leaseOwner := Some worker,
             jb_leaseToken := Some token, jb_leaseExpiresAt := Some expires, jb_updatedAt := now\<rparr>
      else j)"

definition claim_job :: "ClaimJobRequest \<Rightarrow> SchedulerJobRecord option service_op" where
  "claim_job r s =
     res_bind (guard (cj_leaseMs r > 0) (SE_invalid_job ''job lease_ms must be positive'')) (\<lambda>_.
     res_bind (validate_claim_queues (cj_queues r)) (\<lambda>_.
     let expires = i64_add (sv_now s) (cj_leaseMs r);
         token = ''joblease_'' @ sv_uuid s 0;
         t = draw_uuids 1 (reset_expired_leases s)
     in case ready_candidates r t of
          [] \<Rightarrow> Inr (None, t)
        | i # _ \<Rightarrow>
            let u = update_job i (take_job (cj_workerId r) token expires (sv_now s)) t
            in res_bind (require_some (''scheduler job not found: '' @ i) (get_job_row u i)) (\<lambda>job.
               Inr (Some job, u))))"

section \<open>Keeping and settling\<close>

definition heartbeat_job :: "HeartbeatJobRequest \<Rightarrow> SchedulerJobRecord option service_op" where
  "heartbeat_job r s =
     res_bind (guard (hj_leaseMs r > 0) (SE_invalid_job ''job lease_ms must be positive'')) (\<lambda>_.
     case get_job_row s (hj_jobId r) of
       None \<Rightarrow> Inr (None, s)
     | Some job \<Rightarrow>
         if \<not> owns_lease (hj_workerId r) (hj_leaseToken r) job then Inr (None, s)
         else let t = update_job (hj_jobId r) (\<lambda>j. j\<lparr>jb_leaseExpiresAt := Some (i64_add (sv_now s) (hj_leaseMs r)),
                    jb_updatedAt := sv_now s\<rparr>) s
              in Inr (get_job_row t (hj_jobId r), t))"

text \<open>The budget grant of a settled job is committed in the same database transaction.\<close>

definition commit_job_grant :: "SchedulerJobRecord \<Rightarrow> service \<Rightarrow> service_error + service" where
  "commit_job_grant job s =
     (case jb_budgetGrantId job of None \<Rightarrow> Inr s
      | Some g \<Rightarrow> res_bind (commit_budget_grant_tx g s) (\<lambda>(_, t). Inr t))"

fun settled_elsewhere :: "SchedulerJobKind \<Rightarrow> string option" where
  "settled_elsewhere JK_session_turn = Some ''session.turn jobs must be completed through settle_session_turn''"
| "settled_elsewhere JK_team_delivery = Some ''team.delivery jobs must be completed through materialize_team_delivery''"
| "settled_elsewhere JK_team_delivery_outcome =
     Some ''team.delivery.outcome jobs must be completed through project_team_delivery_outcome''"
| "settled_elsewhere _ = None"

definition succeed :: "json option \<Rightarrow> number \<Rightarrow> SchedulerJobRecord \<Rightarrow> SchedulerJobRecord" where
  "succeed result now j =
     clear_lease (j\<lparr>jb_state := JS_succeeded, jb_result := result, jb_lastError := None, jb_updatedAt := now,
       jb_finishedAt := Some now\<rparr>)"

definition complete_job :: "CompleteJobRequest \<Rightarrow> SchedulerJobRecord option service_op" where
  "complete_job r s =
     (case get_job_row s (kj_jobId r) of
        None \<Rightarrow> Inr (None, s)
      | Some existing \<Rightarrow>
     (case settled_elsewhere (jb_kind existing) of
        Some message \<Rightarrow> Inl (SE_invalid_job message)
      | None \<Rightarrow>
          if jb_state existing = JS_succeeded then Inr (Some existing, s)
          else if \<not> owns_lease (kj_workerId r) (kj_leaseToken r) existing then Inr (None, s)
          else res_bind (commit_job_grant existing (update_job (kj_jobId r) (succeed (kj_result r) (sv_now s)) s)) (\<lambda>t.
               Inr (get_job_row t (kj_jobId r), t))))"

definition u32_of :: "number \<Rightarrow> nat" where
  "u32_of n = nat (\<lfloor>n\<rfloor> mod 2 ^ 32)"

definition retry_delay_ms :: "RetryPolicy \<Rightarrow> number \<Rightarrow> number" where
  "retry_delay_ms policy attempt =
     (let initial = max (opt_else (rp_initialDelayMs policy) 1000) 0;
          raw = (case rp_strategy policy of
                   RS_none \<Rightarrow> 0
                 | RS_fixed \<Rightarrow> initial
                 | RS_exponential \<Rightarrow> min (initial * min (2 ^ u32_of (max (attempt - 1) 0)) i64_MAX) i64_MAX)
      in case rp_maxDelayMs policy of None \<Rightarrow> raw | Some m \<Rightarrow> min raw m)"

definition schedule_retry :: "json \<Rightarrow> number \<Rightarrow> number \<Rightarrow> SchedulerJobRecord \<Rightarrow> SchedulerJobRecord" where
  "schedule_retry error not_before now j =
     clear_lease (j\<lparr>jb_state := JS_retry_scheduled, jb_notBefore := Some not_before, jb_result := None,
       jb_lastError := Some error, jb_updatedAt := now\<rparr>)"

definition give_up :: "SchedulerJobState \<Rightarrow> json \<Rightarrow> number \<Rightarrow> SchedulerJobRecord \<Rightarrow> SchedulerJobRecord" where
  "give_up state error now j =
     clear_lease (j\<lparr>jb_state := state, jb_result := None, jb_lastError := Some error, jb_updatedAt := now,
       jb_finishedAt := Some now\<rparr>)"

definition can_retry :: "SchedulerJobRecord \<Rightarrow> bool" where
  "can_retry job = (jb_attempt job < jb_maxAttempts job \<and> rp_strategy (jb_retryPolicy job) \<noteq> RS_none)"

definition sync_team_failure :: "SchedulerJobKind \<Rightarrow> string \<Rightarrow> service_error + unit" where
  "sync_team_failure kind i =
     (if kind = JK_team_delivery then Inl (SE_invariant (''team delivery dispatch job has no delivery: '' @ i))
      else if kind = JK_team_delivery_outcome then Inl (SE_invariant (''team outcome job has no delivery: '' @ i))
      else Inr ())"

definition fail_job :: "FailJobRequest \<Rightarrow> SchedulerJobRecord option service_op" where
  "fail_job r s =
     (case get_job_row s (fj_jobId r) of
        None \<Rightarrow> Inr (None, s)
      | Some job \<Rightarrow>
          if \<not> owns_lease (fj_workerId r) (fj_leaseToken r) job then Inr (None, s)
          else if jb_kind job = JK_session_turn then Inl (SE_invariant ''session turn job has no durable turn'')
          else
            res_bind
              (if can_retry job
               then Inr (update_job (fj_jobId r) (schedule_retry (fj_error r)
                      (i64_add (sv_now s) (retry_delay_ms (jb_retryPolicy job) (jb_attempt job))) (sv_now s)) s)
               else commit_job_grant job (update_job (fj_jobId r) (give_up JS_failed (fj_error r) (sv_now s)) s)) (\<lambda>t.
            res_bind (sync_team_failure (jb_kind job) (fj_jobId r)) (\<lambda>_.
            Inr (get_job_row t (fj_jobId r), t))))"

definition cancelledJson :: "string \<Rightarrow> json" where
  "cancelledJson reason = JObj [(''reason'', JStr reason), (''type'', JStr ''cancelled'')]"

definition cancel_job :: "CancelJobRequest \<Rightarrow> SchedulerJobRecord option service_op" where
  "cancel_job r s =
     (case get_job_row s (xj_jobId r) of
        None \<Rightarrow> Inr (None, s)
      | Some existing \<Rightarrow>
          if jb_kind existing = JK_session_turn
          then Inl (SE_invalid_job ''session.turn jobs must be cancelled through request_session_turn_cancel'')
          else if is_terminal (jb_state existing) then Inr (Some existing, s)
          else
            res_bind (commit_job_grant existing
              (update_job (xj_jobId r) (give_up JS_cancelled (cancelledJson (xj_reason r)) (sv_now s)) s)) (\<lambda>t.
            res_bind (sync_team_failure (jb_kind existing) (xj_jobId r)) (\<lambda>_.
            Inr (get_job_row t (xj_jobId r), t))))"

definition list_jobs :: "ListJobsRequest \<Rightarrow> SchedulerJobRecord list service_op" where
  "list_jobs r s =
     Inr (take (nat \<lfloor>min (opt_else (lj_limit r) 100) 1000\<rfloor>) (sort_by compare_jobs
       (filter (\<lambda>j. (case lj_state r of None \<Rightarrow> True | Some st \<Rightarrow> jb_state j = st) \<and>
                    (case lj_kind r of None \<Rightarrow> True | Some k \<Rightarrow> jb_kind j = k)) (sv_jobs s))), s)"

end
