(* ===== verification/Scheduler_Codec.thy ===== *)
theory Scheduler_Codec
  imports Delegation_Codec Scheduler_Store
begin

text \<open>
  The jobs and budgets part of the storage RPC, client side: the request writers and record
  readers of packages/storage/src/codec-job.ts, codec-budget.ts and codec-budget-enums.ts, the
  methods of \<open>JobStoreMethods\<close> (store-job.ts) and \<open>BudgetStoreMethods\<close> (store-budget.ts), and the
  facades \<open>SchedulerCommands\<close> and \<open>BudgetCommands\<close> of packages/runtime/src/sessions, which check
  a request before they pass it on.
\<close>

section \<open>Readers\<close>

definition expectBudgetAmount :: "json option \<Rightarrow> string \<Rightarrow> thrown + BudgetAmount" where
  "expectBudgetAmount v name =
     (case v of
        Some (JObj m) \<Rightarrow>
          res_bind (optionalNumber (map_of m ''tokens'') (name @ ''.tokens'')) (\<lambda>tokens.
          res_bind (optionalNumber (map_of m ''cost_micros'') (name @ ''.cost_micros'')) (\<lambda>costMicros.
          res_bind (optionalNumber (map_of m ''wall_time_ms'') (name @ ''.wall_time_ms'')) (\<lambda>wallTimeMs.
          res_bind (optionalNumber (map_of m ''tool_calls'') (name @ ''.tool_calls'')) (\<lambda>toolCalls.
          Inr \<lparr>ba_tokens = tokens, ba_costMicros = costMicros, ba_wallTimeMs = wallTimeMs, ba_toolCalls = toolCalls\<rparr>))))
      | _ \<Rightarrow> Inl (plainError (name @ '' must be an object'')))"

text \<open>The kinds of scopes that the client reads: all but \<open>objective\<close>.\<close>

definition readableScopeKinds :: "(string \<times> BudgetScopeKind) list" where
  "readableScopeKinds = map (\<lambda>x. (scopeKindText x, x))
     [BK_session, BK_turn, BK_team_round, BK_plugin, BK_principal, BK_provider_model]"

definition expectBudgetScopeKind :: "json option \<Rightarrow> thrown + BudgetScopeKind" where
  "expectBudgetScopeKind = expectMember readableScopeKinds ''budget_scope.kind'' ''budget scope kind''"

definition windowKinds :: "(string \<times> BudgetWindowKind) list" where
  "windowKinds = map (\<lambda>x. (windowKindText x, x)) [BW_run, BW_session, BW_day, BW_month]"

definition expectBudgetWindowKind :: "json option \<Rightarrow> thrown + BudgetWindowKind" where
  "expectBudgetWindowKind = expectMember windowKinds ''budget_scope.window_kind'' ''budget window kind''"

definition scopeStates :: "(string \<times> BudgetScopeState) list" where
  "scopeStates = map (\<lambda>x. (scopeStateText x, x)) [BS_active, BS_closed]"

definition expectBudgetScopeState :: "json option \<Rightarrow> thrown + BudgetScopeState" where
  "expectBudgetScopeState = expectMember scopeStates ''budget_scope.state'' ''budget scope state''"

definition grantStates :: "(string \<times> BudgetGrantState) list" where
  "grantStates = map (\<lambda>x. (grantStateText x, x)) [BG_reserved, BG_committed, BG_released, BG_denied]"

definition expectBudgetGrantState :: "json option \<Rightarrow> thrown + BudgetGrantState" where
  "expectBudgetGrantState = expectMember grantStates ''budget_grant.state'' ''budget grant state''"

definition fromRpcBudgetScopeRecord :: "json \<Rightarrow> thrown + BudgetScopeRecord" where
  "fromRpcBudgetScopeRecord v =
     res_bind (readRecord ''budget scope'' v) (\<lambda>m.
     res_bind (expectString (map_of m ''id'') ''budget_scope.id'') (\<lambda>i.
     res_bind (expectBudgetScopeKind (map_of m ''kind'')) (\<lambda>kind.
     res_bind (expectString (map_of m ''owner_id'') ''budget_scope.owner_id'') (\<lambda>ownerId.
     res_bind (expectBudgetAmount (map_of m ''limit'') ''budget_scope.limit'') (\<lambda>limit.
     res_bind (expectBudgetAmount (map_of m ''usage'') ''budget_scope.usage'') (\<lambda>usage.
     res_bind (expectBudgetWindowKind (map_of m ''window_kind'')) (\<lambda>windowKind.
     res_bind (expectBudgetScopeState (map_of m ''state'')) (\<lambda>state.
     res_bind (expectNumber (map_of m ''created_at'') ''budget_scope.created_at'') (\<lambda>createdAt.
     res_bind (expectNumber (map_of m ''updated_at'') ''budget_scope.updated_at'') (\<lambda>updatedAt.
     Inr \<lparr>bs_id = i, bs_kind = kind, bs_ownerId = ownerId, bs_limit = limit, bs_usage = usage, bs_windowKind = windowKind,
          bs_state = state, bs_createdAt = createdAt, bs_updatedAt = updatedAt\<rparr>))))))))))"

definition fromRpcBudgetGrantRecord :: "json \<Rightarrow> thrown + BudgetGrantRecord" where
  "fromRpcBudgetGrantRecord v =
     res_bind (readRecord ''budget grant'' v) (\<lambda>m.
     res_bind (expectString (map_of m ''id'') ''budget_grant.id'') (\<lambda>i.
     res_bind (expectString (map_of m ''scope_id'') ''budget_grant.scope_id'') (\<lambda>scopeId.
     res_bind (expectString (map_of m ''principal_id'') ''budget_grant.principal_id'') (\<lambda>principalId.
     res_bind (expectString (map_of m ''reason'') ''budget_grant.reason'') (\<lambda>reason.
     res_bind (expectBudgetAmount (map_of m ''requested'') ''budget_grant.requested'') (\<lambda>requested.
     res_bind (expectBudgetGrantState (map_of m ''state'')) (\<lambda>state.
     res_bind (expectString (map_of m ''idempotency_key'') ''budget_grant.idempotency_key'') (\<lambda>idempotencyKey.
     res_bind (expectNumber (map_of m ''created_at'') ''budget_grant.created_at'') (\<lambda>createdAt.
     res_bind (expectNumber (map_of m ''updated_at'') ''budget_grant.updated_at'') (\<lambda>updatedAt.
     res_bind (if nullish (map_of m ''committed'') then Inr None
       else res_bind (expectBudgetAmount (map_of m ''committed'') ''budget_grant.committed'') (\<lambda>a. Inr (Some a))) (\<lambda>committed.
     res_bind (if nullish (map_of m ''expires_at'') then Inr None
       else res_bind (expectNumber (map_of m ''expires_at'') ''budget_grant.expires_at'') (\<lambda>n. Inr (Some n))) (\<lambda>expiresAt.
     Inr \<lparr>bg_id = i, bg_scopeId = scopeId, bg_principalId = principalId, bg_reason = reason, bg_requested = requested,
          bg_committed = committed, bg_state = state, bg_idempotencyKey = idempotencyKey, bg_expiresAt = expiresAt,
          bg_createdAt = createdAt, bg_updatedAt = updatedAt\<rparr>))))))))))))"

definition fromRpcRecordBudgetUsageReceipt :: "json \<Rightarrow> thrown + RecordBudgetUsageReceipt" where
  "fromRpcRecordBudgetUsageReceipt v =
     (case v of
        JObj m \<Rightarrow>
          (case map_of m ''entry'' of
             Some (JObj e) \<Rightarrow>
               res_bind (expectString (map_of e ''id'') ''budget_usage_entry.id'') (\<lambda>i.
               res_bind (expectString (map_of e ''grant_id'') ''budget_usage_entry.grant_id'') (\<lambda>grantId.
               res_bind (expectBudgetAmount (map_of e ''usage'') ''budget_usage_entry.usage'') (\<lambda>usage.
               res_bind (expectString (map_of e ''source'') ''budget_usage_entry.source'') (\<lambda>source.
               res_bind (expectString (map_of e ''source_id'') ''budget_usage_entry.source_id'') (\<lambda>sourceId.
               res_bind (expectString (map_of e ''idempotency_key'') ''budget_usage_entry.idempotency_key'') (\<lambda>key.
               res_bind (expectNumber (map_of e ''created_at'') ''budget_usage_entry.created_at'') (\<lambda>createdAt.
               Inr \<lparr>rr_entry = \<lparr>ru_grantId = grantId, ru_usage = usage, ru_source = source, ru_sourceId = sourceId,
                      ru_idempotencyKey = key, ue_id = i, ue_createdAt = createdAt\<rparr>,
                    rr_created = (map_of m ''created'' = Some (JBool True))\<rparr>)))))))
           | _ \<Rightarrow> Inl (plainError ''budget usage receipt must contain an entry''))
      | _ \<Rightarrow> Inl (plainError ''budget usage receipt must contain an entry''))"

section \<open>Writers\<close>

definition budgetAmountToJson :: "BudgetAmount \<Rightarrow> json" where
  "budgetAmountToJson a =
     JObj [(''tokens'', nullOr JNum (ba_tokens a)), (''cost_micros'', nullOr JNum (ba_costMicros a)),
       (''wall_time_ms'', nullOr JNum (ba_wallTimeMs a)), (''tool_calls'', nullOr JNum (ba_toolCalls a))]"

definition toRpcReserveBudgetRequest :: "ReserveBudgetRequest \<Rightarrow> json" where
  "toRpcReserveBudgetRequest r =
     JObj [(''scope'', JObj [(''kind'', JStr (scopeKindText (bf_kind (rb_scope r)))), (''owner_id'', JStr (bf_ownerId (rb_scope r))),
         (''window_kind'', nullOr (\<lambda>x. JStr (windowKindText x)) (bf_windowKind (rb_scope r)))]),
       (''limit'', budgetAmountToJson (rb_limit r)), (''requested'', budgetAmountToJson (rb_requested r)),
       (''principal_id'', JStr (rb_principalId r)), (''reason'', JStr (rb_reason r)),
       (''idempotency_key'', JStr (rb_idempotencyKey r)), (''expires_at'', nullOr JNum (rb_expiresAt r))]"

definition toRpcCommitBudgetRequest :: "CommitBudgetRequest \<Rightarrow> json" where
  "toRpcCommitBudgetRequest r = JObj [(''grant_id'', JStr (cb_grantId r))]"

definition toRpcRecordBudgetUsageRequest :: "RecordBudgetUsageRequest \<Rightarrow> json" where
  "toRpcRecordBudgetUsageRequest r =
     JObj [(''grant_id'', JStr (ru_grantId r)), (''usage'', budgetAmountToJson (ru_usage r)), (''source'', JStr (ru_source r)),
       (''source_id'', JStr (ru_sourceId r)), (''idempotency_key'', JStr (ru_idempotencyKey r))]"

definition toRpcEnqueueJobRequest :: "EnqueueJobRequest \<Rightarrow> json" where
  "toRpcEnqueueJobRequest r =
     JObj [(''id'', nullOr JStr (ej_id r)), (''kind'', JStr (jobKindText (ej_kind r))), (''queue'', nullOr JStr (ej_queue r)),
       (''principal_id'', JStr (ej_principalId r)), (''payload'', toRpcJsonValue (ej_payload r)),
       (''scheduled_at'', nullOr JNum (ej_scheduledAt r)), (''not_before'', nullOr JNum (ej_notBefore r)),
       (''priority'', nullOr JNum (ej_priority r)), (''concurrency_key'', nullOr JStr (ej_concurrencyKey r)),
       (''max_attempts'', nullOr JNum (ej_maxAttempts r)), (''retry_policy'', nullOr retryPolicyJson (ej_retryPolicy r)),
       (''idempotency_key'', nullOr JStr (ej_idempotencyKey r)), (''budget_grant_id'', nullOr JStr (ej_budgetGrantId r))]"

definition toRpcClaimJobRequest :: "ClaimJobRequest \<Rightarrow> json" where
  "toRpcClaimJobRequest r =
     JObj [(''worker_id'', JStr (cj_workerId r)), (''lease_ms'', JNum (cj_leaseMs r)),
       (''kinds'', nullOr (\<lambda>ks. JArr (map (\<lambda>k. JStr (jobKindText k)) ks)) (cj_kinds r)),
       (''queues'', nullOr (\<lambda>qs. JArr (map JStr qs)) (cj_queues r))]"

definition toRpcHeartbeatJobRequest :: "HeartbeatJobRequest \<Rightarrow> json" where
  "toRpcHeartbeatJobRequest r =
     JObj [(''job_id'', JStr (hj_jobId r)), (''worker_id'', JStr (hj_workerId r)), (''lease_token'', JStr (hj_leaseToken r)),
       (''lease_ms'', JNum (hj_leaseMs r))]"

definition toRpcCompleteJobRequest :: "CompleteJobRequest \<Rightarrow> json" where
  "toRpcCompleteJobRequest r =
     JObj [(''job_id'', JStr (kj_jobId r)), (''worker_id'', JStr (kj_workerId r)), (''lease_token'', JStr (kj_leaseToken r)),
       (''result'', toRpcJsonValue (opt_else (kj_result r) JNull))]"

definition toRpcFailJobRequest :: "FailJobRequest \<Rightarrow> json" where
  "toRpcFailJobRequest r =
     JObj [(''job_id'', JStr (fj_jobId r)), (''worker_id'', JStr (fj_workerId r)), (''lease_token'', JStr (fj_leaseToken r)),
       (''error'', toRpcJsonValue (fj_error r))]"

definition toRpcCancelJobRequest :: "CancelJobRequest \<Rightarrow> json" where
  "toRpcCancelJobRequest r = JObj [(''job_id'', JStr (xj_jobId r)), (''reason'', JStr (xj_reason r))]"

definition toRpcListJobsRequest :: "ListJobsRequest \<Rightarrow> json" where
  "toRpcListJobsRequest r =
     JObj [(''state'', nullOr (\<lambda>x. JStr (jobStateText x)) (lj_state r)), (''kind'', nullOr (\<lambda>x. JStr (jobKindText x)) (lj_kind r)),
       (''limit'', nullOr JNum (lj_limit r))]"

section \<open>The methods of the client\<close>

record 's scheduler_storage =
  ss_enqueueJob :: "EnqueueJobRequest \<Rightarrow> ('s, thrown, SchedulerJobRecord) eff"
  ss_claimJob :: "ClaimJobRequest \<Rightarrow> ('s, thrown, SchedulerJobRecord option) eff"
  ss_heartbeatJob :: "HeartbeatJobRequest \<Rightarrow> ('s, thrown, SchedulerJobRecord option) eff"
  ss_completeJob :: "CompleteJobRequest \<Rightarrow> ('s, thrown, SchedulerJobRecord option) eff"
  ss_failJob :: "FailJobRequest \<Rightarrow> ('s, thrown, SchedulerJobRecord option) eff"
  ss_cancelJob :: "CancelJobRequest \<Rightarrow> ('s, thrown, SchedulerJobRecord option) eff"
  ss_listJobs :: "ListJobsRequest \<Rightarrow> ('s, thrown, SchedulerJobRecord list) eff"
  ss_reserveBudget :: "ReserveBudgetRequest \<Rightarrow> ('s, thrown, BudgetGrantRecord) eff"
  ss_commitBudget :: "CommitBudgetRequest \<Rightarrow> ('s, thrown, BudgetGrantRecord option) eff"
  ss_recordBudgetUsage :: "RecordBudgetUsageRequest \<Rightarrow> ('s, thrown, RecordBudgetUsageReceipt) eff"
  ss_releaseBudget :: "string \<Rightarrow> ('s, thrown, BudgetGrantRecord option) eff"
  ss_getBudgetScope :: "string \<Rightarrow> ('s, thrown, BudgetScopeRecord option) eff"
  ss_listBudgetGrants :: "string \<Rightarrow> ('s, thrown, BudgetGrantRecord list) eff"

definition enqueueJob :: "'s transport \<Rightarrow> EnqueueJobRequest \<Rightarrow> ('s, thrown, SchedulerJobRecord) eff" where
  "enqueueJob tr r =
     eff_bind (rpc_call tr (command ''enqueue-job'' (toRpcEnqueueJobRequest r))) (readOne fromRpcSchedulerJobRecord)"

definition claimJob :: "'s transport \<Rightarrow> ClaimJobRequest \<Rightarrow> ('s, thrown, SchedulerJobRecord option) eff" where
  "claimJob tr r =
     eff_bind (rpc_call tr (command ''claim-job'' (toRpcClaimJobRequest r))) (readNullable fromRpcSchedulerJobRecord)"

definition heartbeatJob :: "'s transport \<Rightarrow> HeartbeatJobRequest \<Rightarrow> ('s, thrown, SchedulerJobRecord option) eff" where
  "heartbeatJob tr r =
     eff_bind (rpc_call tr (command ''heartbeat-job'' (toRpcHeartbeatJobRequest r))) (readNullable fromRpcSchedulerJobRecord)"

definition completeJob :: "'s transport \<Rightarrow> CompleteJobRequest \<Rightarrow> ('s, thrown, SchedulerJobRecord option) eff" where
  "completeJob tr r =
     eff_bind (rpc_call tr (command ''complete-job'' (toRpcCompleteJobRequest r))) (readNullable fromRpcSchedulerJobRecord)"

definition failJob :: "'s transport \<Rightarrow> FailJobRequest \<Rightarrow> ('s, thrown, SchedulerJobRecord option) eff" where
  "failJob tr r =
     eff_bind (rpc_call tr (command ''fail-job'' (toRpcFailJobRequest r))) (readNullable fromRpcSchedulerJobRecord)"

definition cancelJob :: "'s transport \<Rightarrow> CancelJobRequest \<Rightarrow> ('s, thrown, SchedulerJobRecord option) eff" where
  "cancelJob tr r =
     eff_bind (rpc_call tr (command ''cancel-job'' (toRpcCancelJobRequest r))) (readNullable fromRpcSchedulerJobRecord)"

definition listJobs :: "'s transport \<Rightarrow> ListJobsRequest \<Rightarrow> ('s, thrown, SchedulerJobRecord list) eff" where
  "listJobs tr r =
     eff_bind (rpc_call tr (command ''list-jobs'' (toRpcListJobsRequest r)))
       (readArray ''scheduler jobs'' fromRpcSchedulerJobRecord)"

definition reserveBudget :: "'s transport \<Rightarrow> ReserveBudgetRequest \<Rightarrow> ('s, thrown, BudgetGrantRecord) eff" where
  "reserveBudget tr r =
     eff_bind (rpc_call tr (command ''reserve-budget'' (toRpcReserveBudgetRequest r))) (readOne fromRpcBudgetGrantRecord)"

definition commitBudget :: "'s transport \<Rightarrow> CommitBudgetRequest \<Rightarrow> ('s, thrown, BudgetGrantRecord option) eff" where
  "commitBudget tr r =
     eff_bind (rpc_call tr (command ''commit-budget'' (toRpcCommitBudgetRequest r))) (readNullable fromRpcBudgetGrantRecord)"

definition recordBudgetUsage :: "'s transport \<Rightarrow> RecordBudgetUsageRequest \<Rightarrow> ('s, thrown, RecordBudgetUsageReceipt) eff" where
  "recordBudgetUsage tr r =
     eff_bind (rpc_call tr (command ''record-budget-usage'' (toRpcRecordBudgetUsageRequest r)))
       (readOne fromRpcRecordBudgetUsageReceipt)"

definition releaseBudget :: "'s transport \<Rightarrow> string \<Rightarrow> ('s, thrown, BudgetGrantRecord option) eff" where
  "releaseBudget tr grantId =
     eff_bind (rpc_call tr (JObj [(''command'', JStr ''release-budget''), (''grant_id'', JStr grantId)]))
       (readNullable fromRpcBudgetGrantRecord)"

definition getBudgetScope :: "'s transport \<Rightarrow> string \<Rightarrow> ('s, thrown, BudgetScopeRecord option) eff" where
  "getBudgetScope tr scopeId =
     eff_bind (rpc_call tr (JObj [(''command'', JStr ''get-budget-scope''), (''scope_id'', JStr scopeId)]))
       (readNullable fromRpcBudgetScopeRecord)"

definition listBudgetGrants :: "'s transport \<Rightarrow> string \<Rightarrow> ('s, thrown, BudgetGrantRecord list) eff" where
  "listBudgetGrants tr scopeId =
     eff_bind (rpc_call tr (JObj [(''command'', JStr ''list-budget-grants''), (''scope_id'', JStr scopeId)]))
       (readArray ''budget grants'' fromRpcBudgetGrantRecord)"

definition rpc_scheduler :: "'s transport \<Rightarrow> 's scheduler_storage" where
  "rpc_scheduler tr =
     \<lparr>ss_enqueueJob = enqueueJob tr, ss_claimJob = claimJob tr, ss_heartbeatJob = heartbeatJob tr,
      ss_completeJob = completeJob tr, ss_failJob = failJob tr, ss_cancelJob = cancelJob tr, ss_listJobs = listJobs tr,
      ss_reserveBudget = reserveBudget tr, ss_commitBudget = commitBudget tr, ss_recordBudgetUsage = recordBudgetUsage tr,
      ss_releaseBudget = releaseBudget tr, ss_getBudgetScope = getBudgetScope tr, ss_listBudgetGrants = listBudgetGrants tr\<rparr>"

section \<open>The facades of the runtime\<close>

definition assertPositiveLease :: "number \<Rightarrow> string \<Rightarrow> thrown + unit" where
  "assertPositiveLease leaseMs message = (if leaseMs \<le> 0 then Inl (plainError message) else Inr ())"

text \<open>\<open>SchedulerCommands\<close>: the other methods and \<open>BudgetCommands\<close> pass their request on as it is.\<close>

definition scheduler_commands :: "'s scheduler_storage \<Rightarrow> 's scheduler_storage" where
  "scheduler_commands st = st
     \<lparr>ss_claimJob := (\<lambda>r. eff_bind (eff_result (assertPositiveLease (cj_leaseMs r) ''job leaseMs must be positive''))
        (\<lambda>_. ss_claimJob st r)),
      ss_heartbeatJob := (\<lambda>r. eff_bind (eff_result (assertPositiveLease (hj_leaseMs r) ''job leaseMs must be positive''))
        (\<lambda>_. ss_heartbeatJob st r)),
      ss_cancelJob := (\<lambda>r. if xj_reason r = [] then eff_result (Inl (plainError ''cancel job reason must not be empty''))
        else ss_cancelJob st r)\<rparr>"

end
