(* ===== verification/Scheduler_Safety.thy ===== *)
theory Scheduler_Safety
  imports Scheduler_Store
begin

text \<open>
  What the job queue promises, whatever calls its clients make: jobs with the same concurrency
  key never run at the same time, a settled job keeps its row (but for a failed session turn,
  which a resolved tool recovery puts back), and a lease that was lost is lost for good. Then two
  places where it promises less than it seems to: a worker that dies does not use up an attempt,
  and a long back-off wraps around.
\<close>

section \<open>Steps of the queue\<close>

inductive job_step :: "service \<Rightarrow> service \<Rightarrow> bool" where
  step_enqueue: "enqueue_job r1 s = Inr (x1, t) \<Longrightarrow> job_step s t"
| step_claim: "claim_job r2 s = Inr (x2, t) \<Longrightarrow> job_step s t"
| step_heartbeat: "heartbeat_job r3 s = Inr (x3, t) \<Longrightarrow> job_step s t"
| step_complete: "complete_job r4 s = Inr (x4, t) \<Longrightarrow> job_step s t"
| step_fail: "fail_job r5 s = Inr (x5, t) \<Longrightarrow> job_step s t"
| step_cancel: "cancel_job r6 s = Inr (x6, t) \<Longrightarrow> job_step s t"
| step_materialize: "materialize_ready_delegation_graph_node r7 s = Inr (x7, t) \<Longrightarrow> job_step s t"
| step_reserve: "reserve_budget r8 s = (x8, t) \<Longrightarrow> job_step s t"
| step_commit: "commit_budget r9 s = Inr (x9, t) \<Longrightarrow> job_step s t"
| step_usage: "record_budget_usage r10 s = Inr (x10, t) \<Longrightarrow> job_step s t"
| step_release: "release_budget g s = Inr (x11, t) \<Longrightarrow> job_step s t"
| step_clock: "job_step s (s\<lparr>sv_now := n\<rparr>)"

abbreviation job_steps :: "service \<Rightarrow> service \<Rightarrow> bool" where
  "job_steps \<equiv> job_step\<^sup>*\<^sup>*"

text \<open>
  The rest of the service, crates/system-service/src/turns.rs, tools.rs, media_generation.rs and the
  team modules, works on the same table: it adds rows by \<open>enqueue_job_tx\<close> and it updates single
  rows. Its own tables are not modelled; what its updates may do to a row is: each takes a row in
  an open state, or, after a resolved tool recovery (tools.rs, \<open>requeue_if_tool_recovery_complete_tx\<close>),
  the failed job of a session turn, and leaves it without a lease and not running.
\<close>

definition resumable :: "SchedulerJobRecord \<Rightarrow> bool" where
  "resumable j \<longleftrightarrow> jb_kind j = JK_session_turn \<and> jb_state j = JS_failed"

definition rewritten :: "SchedulerJobRecord \<Rightarrow> SchedulerJobRecord \<Rightarrow> bool" where
  "rewritten j k \<longleftrightarrow> jb_id k = jb_id j \<and> jb_kind k = jb_kind j \<and> jb_concurrencyKey k = jb_concurrencyKey j \<and>
     jb_state k \<noteq> JS_running \<and> jb_leaseToken k = None \<and>
     (is_terminal (jb_state j) \<longrightarrow> resumable j \<and> jb_state k = JS_ready)"

text \<open>Steps of the whole service: other tables may change in any way, and names may be drawn.\<close>

inductive service_step :: "service \<Rightarrow> service \<Rightarrow> bool" where
  queue: "job_step s t \<Longrightarrow> service_step s t"
| added: "enqueue_job_tx r now uuid (sv_jobs s) = Inr (x, sv_jobs t) \<Longrightarrow> sv_uuid t = (\<lambda>n. sv_uuid s (m + n)) \<Longrightarrow> service_step s t"
| updated: "get_job_row s i = Some j \<Longrightarrow> rewritten j k \<Longrightarrow> sv_jobs t = sv_jobs (update_job i (\<lambda>_. k) s) \<Longrightarrow>
    sv_uuid t = (\<lambda>n. sv_uuid s (m + n)) \<Longrightarrow> service_step s t"
| beside: "sv_jobs t = sv_jobs s \<Longrightarrow> sv_uuid t = (\<lambda>n. sv_uuid s (m + n)) \<Longrightarrow> service_step s t"

abbreviation service_steps :: "service \<Rightarrow> service \<Rightarrow> bool" where
  "service_steps \<equiv> service_step\<^sup>*\<^sup>*"

lemma queue_steps: "job_steps s t \<Longrightarrow> service_steps s t"
  using rtranclp_mono [of job_step service_step] service_step.queue by blast

section \<open>Rows that stay in order\<close>

text \<open>A job is settled for good when nothing puts it back.\<close>

definition settled_row :: "SchedulerJobRecord \<Rightarrow> bool" where
  "settled_row j \<longleftrightarrow> is_terminal (jb_state j) \<and> \<not> resumable j"

definition lease_ok :: "SchedulerJobRecord \<Rightarrow> bool" where
  "lease_ok j = (jb_state j = JS_running \<longleftrightarrow> jb_leaseToken j \<noteq> None)"

definition jobs_ok :: "SchedulerJobRecord list \<Rightarrow> bool" where
  "jobs_ok js \<longleftrightarrow> distinct (map jb_id js) \<and> (\<forall>j \<in> set js. lease_ok j) \<and>
     (\<forall>a \<in> set js. \<forall>b \<in> set js. jb_state a = JS_running \<and> jb_state b = JS_running \<and> same_key a b \<longrightarrow> jb_id a = jb_id b)"

definition lease_name :: "service \<Rightarrow> nat \<Rightarrow> string" where
  "lease_name s n = ''joblease_'' @ sv_uuid s n"

definition queue_ok :: "service \<Rightarrow> bool" where
  "queue_ok s \<longleftrightarrow> jobs_ok (sv_jobs s) \<and> inj (sv_uuid s) \<and>
     (\<forall>j \<in> set (sv_jobs s). \<forall>n. jb_leaseToken j \<noteq> Some (lease_name s n))"

text \<open>A row may change in place, drop its lease, but not take one, nor change once it is settled.\<close>

definition row_kept :: "SchedulerJobRecord \<Rightarrow> SchedulerJobRecord \<Rightarrow> bool" where
  "row_kept j k \<longleftrightarrow> jb_id k = jb_id j \<and> jb_concurrencyKey k = jb_concurrencyKey j \<and> lease_ok k \<and>
     (jb_leaseToken k = None \<or> jb_leaseToken k = jb_leaseToken j) \<and> (settled_row j \<longrightarrow> k = j)"

text \<open>A row from one state of the queue to the next: it may also take a lease with a new name.\<close>

definition row_next :: "service \<Rightarrow> SchedulerJobRecord \<Rightarrow> SchedulerJobRecord \<Rightarrow> bool" where
  "row_next s j k \<longleftrightarrow> jb_id k = jb_id j \<and>
     (jb_leaseToken k = None \<or> jb_leaseToken k = jb_leaseToken j \<or> jb_leaseToken k = Some (lease_name s 0)) \<and>
     (settled_row j \<longrightarrow> k = j)"

lemma row_kept_refl [simp]: "lease_ok j \<Longrightarrow> row_kept j j"
  by (simp add: row_kept_def)

lemma row_kept_next: "row_kept j k \<Longrightarrow> row_next s j k"
  by (auto simp: row_kept_def row_next_def)

lemma row_kept_running: "row_kept j k \<Longrightarrow> lease_ok j \<Longrightarrow> jb_state k = JS_running \<Longrightarrow> jb_state j = JS_running"
  by (auto simp: row_kept_def lease_ok_def)

lemma jobs_ok_map:
  assumes "jobs_ok js" and "\<And>j. j \<in> set js \<Longrightarrow> row_kept j (f j)"
  shows "jobs_ok (map f js)"
proof -
  have "map jb_id (map f js) = map jb_id js" using assms(2) by (auto simp: row_kept_def)
  moreover have "lease_ok (f j)" if "j \<in> set js" for j using assms(2) [OF that] by (simp add: row_kept_def)
  moreover have "jb_id (f a) = jb_id (f b)"
    if "a \<in> set js" "b \<in> set js" "jb_state (f a) = JS_running" "jb_state (f b) = JS_running" "same_key (f a) (f b)" for a b
  proof -
    have "jb_concurrencyKey (f a) = jb_concurrencyKey a" "jb_concurrencyKey (f b) = jb_concurrencyKey b"
      using assms(2) [of a] assms(2) [of b] that(1,2) by (simp_all add: row_kept_def)
    then have "same_key a b" using that(5) by (metis same_key_def)
    moreover have "jb_state a = JS_running" "jb_state b = JS_running"
      using that assms by (auto simp: jobs_ok_def intro: row_kept_running)
    ultimately have "jb_id a = jb_id b" using assms(1) that(1,2) by (auto simp: jobs_ok_def)
    then show ?thesis using that(1,2) assms(2) by (simp add: row_kept_def)
  qed
  ultimately show ?thesis using assms(1) unfolding jobs_ok_def set_map by (simp only: ball_simps) blast
qed

lemma jobs_ok_add:
  "jobs_ok js \<Longrightarrow> \<not> list_ex (\<lambda>j. jb_id j = jb_id new) js \<Longrightarrow> jb_state new \<noteq> JS_running \<Longrightarrow> jb_leaseToken new = None \<Longrightarrow>
   jobs_ok (js @ [new])"
  by (auto simp: jobs_ok_def list_ex_iff lease_ok_def)

section \<open>What each operation does to the rows\<close>

definition lease_tokens :: "service \<Rightarrow> string set" where
  "lease_tokens s = {k. \<exists>j \<in> set (sv_jobs s). jb_leaseToken j = Some k}"

text \<open>
  From a queue in order to the next: the next is in order, every row is still there, and the
  leases are the old ones and at most one with a new name.
\<close>

definition queue_next :: "service \<Rightarrow> service \<Rightarrow> bool" where
  "queue_next s t \<longleftrightarrow> queue_ok t \<and> (\<forall>j \<in> set (sv_jobs s). \<exists>k \<in> set (sv_jobs t). row_next s j k) \<and>
     lease_tokens t \<subseteq> insert (lease_name s 0) (lease_tokens s) \<and> range (lease_name t) \<subseteq> range (lease_name s)"

text \<open>All operations but the claim only change rows as \<open>row_kept\<close> allows and add rows without a lease.\<close>

definition rows_kept :: "service \<Rightarrow> service \<Rightarrow> bool" where
  "rows_kept s t \<longleftrightarrow> (\<exists>f news. sv_jobs t = map f (sv_jobs s) @ news \<and> (\<forall>j \<in> set (sv_jobs s). row_kept j (f j)) \<and>
     (\<forall>n \<in> set news. jb_state n \<noteq> JS_running \<and> jb_leaseToken n = None) \<and>
     distinct (map jb_id (sv_jobs s @ news))) \<and> (\<exists>k. sv_uuid t = (\<lambda>n. sv_uuid s (k + n)))"

lemma uuid_shift:
  assumes "sv_uuid t = (\<lambda>n. sv_uuid s (k + n))"
  shows "range (lease_name t) \<subseteq> range (lease_name s)" "inj (sv_uuid s) \<Longrightarrow> inj (sv_uuid t)"
proof -
  show "range (lease_name t) \<subseteq> range (lease_name s)" by (auto simp: lease_name_def assms)
  show "inj (sv_uuid t)" if "inj (sv_uuid s)" using that unfolding assms by (auto intro!: injI dest: injD)
qed

lemma queue_ok_alt: "queue_ok s \<longleftrightarrow> jobs_ok (sv_jobs s) \<and> inj (sv_uuid s) \<and> lease_tokens s \<inter> range (lease_name s) = {}"
  by (auto simp: queue_ok_def lease_tokens_def)

lemma jobs_ok_append:
  assumes "jobs_ok js" and "distinct (map jb_id (js @ news))"
    and "\<forall>n \<in> set news. jb_state n \<noteq> JS_running \<and> jb_leaseToken n = None"
  shows "jobs_ok (js @ news)"
proof -
  have "lease_ok n" if "n \<in> set news" for n using assms(3) that by (simp add: lease_ok_def)
  moreover have "a \<in> set js" if "a \<in> set (js @ news)" "jb_state a = JS_running" for a using assms(3) that by auto
  ultimately show ?thesis using assms(1,2) unfolding jobs_ok_def set_append by blast
qed

lemma rows_kept_next:
  assumes "queue_ok s" and "rows_kept s t"
  shows "queue_next s t"
proof -
  obtain f news k where t: "sv_jobs t = map f (sv_jobs s) @ news" "\<forall>j \<in> set (sv_jobs s). row_kept j (f j)"
    "\<forall>n \<in> set news. jb_state n \<noteq> JS_running \<and> jb_leaseToken n = None" "distinct (map jb_id (sv_jobs s @ news))"
    and k: "sv_uuid t = (\<lambda>n. sv_uuid s (k + n))"
    using assms(2) by (auto simp: rows_kept_def)
  have ids: "map jb_id (map f (sv_jobs s)) = map jb_id (sv_jobs s)" using t(2) by (auto simp: row_kept_def)
  have "jobs_ok (map f (sv_jobs s))" using assms(1) t(2) by (intro jobs_ok_map) (simp_all add: queue_ok_def)
  then have jobs: "jobs_ok (sv_jobs t)"
    unfolding t(1) using t(3,4) ids by (intro jobs_ok_append) (simp_all del: map_map)
  have tokens: "lease_tokens t \<subseteq> lease_tokens s"
    using t(2,3) unfolding lease_tokens_def t(1) by (fastforce simp: row_kept_def)
  have "row_next s j (f j) \<and> f j \<in> set (sv_jobs t)" if "j \<in> set (sv_jobs s)" for j
    using that t(1,2) by (auto intro: row_kept_next)
  then have "\<forall>j \<in> set (sv_jobs s). \<exists>k \<in> set (sv_jobs t). row_next s j k" by blast
  moreover have "queue_ok t"
    using assms(1) jobs tokens uuid_shift [OF k] by (auto simp: queue_ok_alt)
  ultimately show ?thesis using tokens uuid_shift(1) [OF k] by (auto simp: queue_next_def)
qed

lemma rows_kept_same: "queue_ok s \<Longrightarrow> sv_jobs t = sv_jobs s \<Longrightarrow> sv_uuid t = (\<lambda>n. sv_uuid s (k + n)) \<Longrightarrow> rows_kept s t"
  unfolding rows_kept_def by (auto simp: queue_ok_def jobs_ok_def intro!: exI [of _ "\<lambda>j. j"])

lemma rows_kept_update:
  assumes "queue_ok s" and "sv_jobs t = map (\<lambda>j. if jb_id j = i then f j else j) (sv_jobs s)" and "sv_uuid t = sv_uuid s"
    and "\<And>j. j \<in> set (sv_jobs s) \<Longrightarrow> jb_id j = i \<Longrightarrow> row_kept j (f j)"
  shows "rows_kept s t"
  unfolding rows_kept_def
proof (intro conjI exI [of _ "\<lambda>j. if jb_id j = i then f j else j"] exI [of _ "[] :: SchedulerJobRecord list"] exI [of _ 0])
qed (use assms in \<open>auto simp: queue_ok_def jobs_ok_def\<close>)

section \<open>The operations\<close>

lemma found_in: "List.find P xs = Some x \<Longrightarrow> x \<in> set xs \<and> P x"
  by (auto simp: find_Some_iff)

lemma get_job_row_Some: "get_job_row s i = Some j \<Longrightarrow> j \<in> set (sv_jobs s) \<and> jb_id j = i"
  unfolding get_job_row_def by (rule found_in)

lemma get_job_row_iff:
  assumes "jobs_ok (sv_jobs s)"
  shows "get_job_row s i = Some j \<longleftrightarrow> j \<in> set (sv_jobs s) \<and> jb_id j = i"
proof
  assume j: "j \<in> set (sv_jobs s) \<and> jb_id j = i"
  then obtain k where k: "get_job_row s i = Some k" by (cases "get_job_row s i") (auto simp: get_job_row_def find_None_iff)
  then have "k = j" using j get_job_row_Some [OF k] assms by (auto simp: jobs_ok_def distinct_map inj_on_def)
  with k show "get_job_row s i = Some j" by simp
qed (rule get_job_row_Some)

lemma commit_grant_frame:
  "commit_budget_grant_tx g s = Inr (x, t) \<Longrightarrow> sv_jobs t = sv_jobs s \<and> sv_uuid t = sv_uuid s"
  by (auto simp: commit_budget_grant_tx_def replace_grant_def replace_scope_def Let_def split: option.splits if_splits)

lemma commit_job_grant_frame:
  "commit_job_grant j s = Inr t \<Longrightarrow> sv_jobs t = sv_jobs s \<and> sv_uuid t = sv_uuid s"
  by (auto simp: commit_job_grant_def result_simps dest: commit_grant_frame split: option.splits)

lemma update_job_frame [simp]:
  "sv_jobs (update_job i f s) = map (\<lambda>j. if jb_id j = i then f j else j) (sv_jobs s)"
  "sv_uuid (update_job i f s) = sv_uuid s" "sv_now (update_job i f s) = sv_now s"
  by (simp_all add: update_job_def)

lemma clear_lease_simps [simp]:
  "jb_id (clear_lease j) = jb_id j" "jb_state (clear_lease j) = jb_state j" "jb_leaseToken (clear_lease j) = None"
  "jb_concurrencyKey (clear_lease j) = jb_concurrencyKey j" "jb_kind (clear_lease j) = jb_kind j"
  by (simp_all add: clear_lease_def)

definition settles :: "(SchedulerJobRecord \<Rightarrow> SchedulerJobRecord) \<Rightarrow> bool" where
  "settles f \<longleftrightarrow> (\<forall>j. jb_id (f j) = jb_id j \<and> jb_concurrencyKey (f j) = jb_concurrencyKey j \<and>
     jb_state (f j) \<noteq> JS_running \<and> jb_leaseToken (f j) = None)"

lemma settling [simp]:
  "settles (succeed result now)" "settles (schedule_retry error n now)" "settles (give_up JS_failed error now)"
  "settles (give_up JS_cancelled error now)"
  by (simp_all add: settles_def succeed_def schedule_retry_def give_up_def)

lemma get_job_row_update:
  assumes "get_job_row s i = Some j" and "\<And>j. jb_id (f j) = jb_id j"
  shows "get_job_row (update_job i f s) i = Some (f j)"
proof -
  have "List.find (\<lambda>j. jb_id j = i) (map (\<lambda>j. if jb_id j = i then f j else j) xs) =
      map_option f (List.find (\<lambda>j. jb_id j = i) xs)" for xs
    using assms(2) by (induction xs) auto
  then show ?thesis using assms(1) by (simp add: get_job_row_def)
qed

lemma owns_lease_open: "owns_lease w k j \<Longrightarrow> \<not> is_terminal (jb_state j)"
  by (simp add: owns_lease_def is_terminal_def)

lemma new_job_facts:
  "jb_state (new_job r now i) \<noteq> JS_running" "jb_leaseToken (new_job r now i) = None" "jb_id (new_job r now i) = i"
  by (simp_all add: new_job_def Let_def)

lemma enqueue_tx_rows:
  assumes "enqueue_job_tx r now uuid jobs = Inr (job, jobs')" and "distinct (map jb_id jobs)"
  obtains news where "jobs' = jobs @ news" "\<forall>n \<in> set news. jb_state n \<noteq> JS_running \<and> jb_leaseToken n = None"
    "distinct (map jb_id (jobs @ news))"
proof -
  have "jobs' = jobs \<or> (jobs' = jobs @ [job] \<and> jb_state job \<noteq> JS_running \<and> jb_leaseToken job = None \<and>
      \<not> list_ex (\<lambda>j. jb_id j = jb_id job) jobs)"
    using assms(1) by (auto simp: enqueue_job_tx_def new_job_facts Let_def result_simps split: option.splits)
  then show thesis
  proof
    assume "jobs' = jobs"
    then show thesis using that [of "[]"] assms(2) by simp
  next
    assume "jobs' = jobs @ [job] \<and> jb_state job \<noteq> JS_running \<and> jb_leaseToken job = None \<and>
      \<not> list_ex (\<lambda>j. jb_id j = jb_id job) jobs"
    then show thesis using that [of "[job]"] assms(2) by (fastforce simp: list_ex_iff)
  qed
qed

lemma rows_kept_add:
  assumes "queue_ok s" and "sv_jobs t = sv_jobs s @ news" and "sv_uuid t = (\<lambda>n. sv_uuid s (k + n))"
    and "\<forall>n \<in> set news. jb_state n \<noteq> JS_running \<and> jb_leaseToken n = None" and "distinct (map jb_id (sv_jobs s @ news))"
  shows "rows_kept s t"
  unfolding rows_kept_def
  using assms by (intro conjI exI [of _ "\<lambda>j. j"] exI [of _ news] exI [of _ k]) (auto simp: queue_ok_def jobs_ok_def)

lemma enqueue_kept: "queue_ok s \<Longrightarrow> enqueue_job r s = Inr (x, t) \<Longrightarrow> rows_kept s t"
proof -
  assume ok: "queue_ok s" and "enqueue_job r s = Inr (x, t)"
  then obtain jobs where tx: "enqueue_job_tx r (sv_now s) (sv_uuid s 0) (sv_jobs s) = Inr (x, jobs)"
    and t: "t = draw_uuids 1 (s\<lparr>sv_jobs := jobs\<rparr>)"
    by (auto simp: enqueue_job_def result_simps)
  have d: "distinct (map jb_id (sv_jobs s))" using ok by (simp add: queue_ok_def jobs_ok_def)
  from enqueue_tx_rows [OF tx d] obtain news where "jobs = sv_jobs s @ news"
    "\<forall>n \<in> set news. jb_state n \<noteq> JS_running \<and> jb_leaseToken n = None" "distinct (map jb_id (sv_jobs s @ news))" .
  then show ?thesis using ok t by (intro rows_kept_add [where k = 1 and news = news]) (auto simp: draw_uuids_def)
qed

lemma materialize_kept:
  "queue_ok s \<Longrightarrow> materialize_ready_delegation_graph_node r s = Inr (x, t) \<Longrightarrow> rows_kept s t"
proof -
  assume ok: "queue_ok s" and call: "materialize_ready_delegation_graph_node r s = Inr (x, t)"
  have d: "distinct (map jb_id (sv_jobs s))" using ok by (simp add: queue_ok_def jobs_ok_def)
  show ?thesis
  proof (cases "find_materializable_node r s")
    case None
    then have "t = s" using call by (auto simp: materialize_ready_delegation_graph_node_def result_simps)
    then show ?thesis using ok by (intro rows_kept_same [where k = 0]) simp_all
  next
    case (Some n)
    then obtain job jobs where tx: "enqueue_job_tx (materializeJob r n) (sv_now s) (sv_uuid s 1) (sv_jobs s) = Inr (job, jobs)"
      and t: "sv_jobs t = jobs" "sv_uuid t = (\<lambda>n. sv_uuid s (2 + n))"
      using call by (auto simp: materialize_ready_delegation_graph_node_def result_simps Let_def draw_uuids_def replace_node_def)
    from enqueue_tx_rows [OF tx d] obtain news where "jobs = sv_jobs s @ news"
      "\<forall>n \<in> set news. jb_state n \<noteq> JS_running \<and> jb_leaseToken n = None" "distinct (map jb_id (sv_jobs s @ news))" .
    then show ?thesis using ok t by (intro rows_kept_add [where k = 2 and news = news]) auto
  qed
qed

lemma heartbeat_kept: "queue_ok s \<Longrightarrow> heartbeat_job r s = Inr (x, t) \<Longrightarrow> rows_kept s t"
proof -
  assume ok: "queue_ok s" and call: "heartbeat_job r s = Inr (x, t)"
  have "t = s \<or> (\<exists>job f. get_job_row s (hj_jobId r) = Some job \<and> owns_lease (hj_workerId r) (hj_leaseToken r) job \<and>
      t = update_job (hj_jobId r) f s \<and> f = (\<lambda>j. j\<lparr>jb_leaseExpiresAt := Some (i64_add (sv_now s) (hj_leaseMs r)),
        jb_updatedAt := sv_now s\<rparr>))"
    using call by (auto simp: heartbeat_job_def result_simps Let_def split: option.splits if_splits)
  then show ?thesis
  proof (elim disjE exE conjE)
    assume "t = s"
    then show ?thesis using ok by (intro rows_kept_same [where k = 0]) simp_all
  next
    fix job f
    assume job: "get_job_row s (hj_jobId r) = Some job" "owns_lease (hj_workerId r) (hj_leaseToken r) job"
      and t: "t = update_job (hj_jobId r) f s" "f = (\<lambda>j. j\<lparr>jb_leaseExpiresAt := Some (i64_add (sv_now s) (hj_leaseMs r)),
        jb_updatedAt := sv_now s\<rparr>)"
    have "row_kept j (f j)" if "j \<in> set (sv_jobs s)" "jb_id j = hj_jobId r" for j
    proof -
      have "j = job" using job(1) that ok by (metis get_job_row_iff option.inject queue_ok_def)
      then show ?thesis using job(2) owns_lease_open [OF job(2)] by (auto simp: row_kept_def settled_row_def t(2) lease_ok_def owns_lease_def)
    qed
    then show ?thesis using ok t by (intro rows_kept_update [where i = "hj_jobId r" and f = f]) simp_all
  qed
qed

text \<open>Completion, failure and cancellation settle one open row, and commit its grant.\<close>

lemma settle_rows:
  assumes "queue_ok s" and "get_job_row s i = Some job" and "\<not> is_terminal (jb_state job)"
    and "sv_jobs t = sv_jobs (update_job i f s)" and "sv_uuid t = sv_uuid s"
    and "settles f"
  shows "rows_kept s t"
proof -
  have "row_kept j (f j)" if "j \<in> set (sv_jobs s)" "jb_id j = i" for j
  proof -
    have "j = job" using assms(1,2) that by (metis get_job_row_iff option.inject queue_ok_def)
    then show ?thesis using assms(3,6) by (auto simp: row_kept_def settled_row_def lease_ok_def settles_def)
  qed
  then show ?thesis using assms(1,4,5) by (intro rows_kept_update [where i = i and f = f]) simp_all
qed

lemma complete_kept: "queue_ok s \<Longrightarrow> complete_job r s = Inr (x, t) \<Longrightarrow> rows_kept s t"
proof -
  assume ok: "queue_ok s" and call: "complete_job r s = Inr (x, t)"
  have "t = s \<or> (\<exists>job. get_job_row s (kj_jobId r) = Some job \<and> owns_lease (kj_workerId r) (kj_leaseToken r) job \<and>
      commit_job_grant job (update_job (kj_jobId r) (succeed (kj_result r) (sv_now s)) s) = Inr t)"
    using call by (auto simp: complete_job_def result_simps split: option.splits if_splits)
  then show ?thesis
  proof (elim disjE exE conjE)
    assume "t = s"
    then show ?thesis using ok by (intro rows_kept_same [where k = 0]) simp_all
  next
    fix job
    assume job: "get_job_row s (kj_jobId r) = Some job" "owns_lease (kj_workerId r) (kj_leaseToken r) job"
      "commit_job_grant job (update_job (kj_jobId r) (succeed (kj_result r) (sv_now s)) s) = Inr t"
    show ?thesis
      using commit_job_grant_frame [OF job(3)] owns_lease_open [OF job(2)]
      by (intro settle_rows [OF ok job(1), where f = "succeed (kj_result r) (sv_now s)"]) simp_all
  qed
qed

lemma fail_kept: "queue_ok s \<Longrightarrow> fail_job r s = Inr (x, t) \<Longrightarrow> rows_kept s t"
proof -
  assume ok: "queue_ok s" and call: "fail_job r s = Inr (x, t)"
  let ?retry = "\<lambda>job. schedule_retry (fj_error r)
    (i64_add (sv_now s) (retry_delay_ms (jb_retryPolicy job) (jb_attempt job))) (sv_now s)"
  have "t = s \<or> (\<exists>job. get_job_row s (fj_jobId r) = Some job \<and> owns_lease (fj_workerId r) (fj_leaseToken r) job \<and>
      (t = update_job (fj_jobId r) (?retry job) s \<or>
       commit_job_grant job (update_job (fj_jobId r) (give_up JS_failed (fj_error r) (sv_now s)) s) = Inr t))"
    using call by (auto simp: fail_job_def result_simps split: option.splits if_splits)
  then show ?thesis
  proof (elim disjE exE conjE)
    assume "t = s"
    then show ?thesis using ok by (intro rows_kept_same [where k = 0]) simp_all
  next
    fix job
    assume job: "get_job_row s (fj_jobId r) = Some job" "owns_lease (fj_workerId r) (fj_leaseToken r) job"
      "t = update_job (fj_jobId r) (?retry job) s"
    show ?thesis using owns_lease_open [OF job(2)] job(3) by (intro settle_rows [OF ok job(1), where f = "?retry job"]) simp_all
  next
    fix job
    assume job: "get_job_row s (fj_jobId r) = Some job" "owns_lease (fj_workerId r) (fj_leaseToken r) job"
      "commit_job_grant job (update_job (fj_jobId r) (give_up JS_failed (fj_error r) (sv_now s)) s) = Inr t"
    show ?thesis
      using commit_job_grant_frame [OF job(3)] owns_lease_open [OF job(2)]
      by (intro settle_rows [OF ok job(1), where f = "give_up JS_failed (fj_error r) (sv_now s)"]) simp_all
  qed
qed

lemma cancel_kept: "queue_ok s \<Longrightarrow> cancel_job r s = Inr (x, t) \<Longrightarrow> rows_kept s t"
proof -
  assume ok: "queue_ok s" and call: "cancel_job r s = Inr (x, t)"
  let ?f = "give_up JS_cancelled (cancelledJson (xj_reason r)) (sv_now s)"
  have "t = s \<or> (\<exists>job. get_job_row s (xj_jobId r) = Some job \<and> \<not> is_terminal (jb_state job) \<and>
      commit_job_grant job (update_job (xj_jobId r) ?f s) = Inr t)"
    using call by (auto simp: cancel_job_def result_simps split: option.splits if_splits)
  then show ?thesis
  proof (elim disjE exE conjE)
    assume "t = s"
    then show ?thesis using ok by (intro rows_kept_same [where k = 0]) simp_all
  next
    fix job
    assume job: "get_job_row s (xj_jobId r) = Some job" "\<not> is_terminal (jb_state job)"
      "commit_job_grant job (update_job (xj_jobId r) ?f s) = Inr t"
    show ?thesis
      using commit_job_grant_frame [OF job(3)] job(2) by (intro settle_rows [OF ok job(1), where f = ?f]) simp_all
  qed
qed

lemma budget_kept:
  assumes "queue_ok s"
  shows "reserve_budget r1 s = (x1, t) \<Longrightarrow> rows_kept s t" "commit_budget r2 s = Inr (x2, t) \<Longrightarrow> rows_kept s t"
    "record_budget_usage r3 s = Inr (x3, t) \<Longrightarrow> rows_kept s t" "release_budget g s = Inr (x4, t) \<Longrightarrow> rows_kept s t"
proof -
  have draw: "sv_jobs t = sv_jobs s \<Longrightarrow> sv_uuid t = sv_uuid s \<or> sv_uuid t = (\<lambda>n. sv_uuid s (1 + n)) \<Longrightarrow> rows_kept s t"
    using rows_kept_same [OF assms, of t 0] rows_kept_same [OF assms, of t 1] by auto
  show "rows_kept s t" if "reserve_budget r1 s = (x1, t)"
    using that by (intro draw)
      (auto simp: reserve_budget_def upsert_budget_scope_def draw_uuids_def Let_def result_simps
        split: option.splits sum.splits if_splits)
  show "rows_kept s t" if "commit_budget r2 s = Inr (x2, t)"
    using that by (intro draw) (auto simp: commit_budget_def dest: commit_grant_frame)
  show "rows_kept s t" if "record_budget_usage r3 s = Inr (x3, t)"
    using that by (intro draw)
      (auto simp: record_budget_usage_def draw_uuids_def Let_def result_simps split: option.splits)
  show "rows_kept s t" if "release_budget g s = Inr (x4, t)"
    using that by (intro draw) (auto simp: release_budget_def replace_grant_def Let_def split: option.splits if_splits)
qed

section \<open>The claim\<close>

lemma reset_kept: "lease_ok j \<Longrightarrow> row_kept j (reset_lease now j)"
  by (auto simp: reset_lease_def row_kept_def settled_row_def lease_expired_def is_terminal_def lease_ok_def)

lemma reset_expired_kept: "queue_ok s \<Longrightarrow> rows_kept s (draw_uuids 1 (reset_expired_leases s))"
  unfolding rows_kept_def
  by (intro conjI exI [of _ "reset_lease (sv_now s)"] exI [of _ "[] :: SchedulerJobRecord list"] exI [of _ 1])
    (auto simp: draw_uuids_def reset_expired_leases_def queue_ok_def jobs_ok_def intro: reset_kept)

lemma candidate:
  assumes "ready_candidates r t = i # rest"
  obtains c where "c \<in> set (sv_jobs t)" "jb_id c = i" "candidate_row r t c"
proof -
  have "i \<in> set (map jb_id (sort_by compare_jobs (filter (candidate_row r t) (sv_jobs t))))"
    using assms unfolding ready_candidates_def by (metis in_set_takeD list.distinct(1) list.set_intros(1))
  then show thesis using that by auto
qed

definition claims :: "string \<Rightarrow> string \<Rightarrow> SchedulerJobRecord \<Rightarrow> SchedulerJobRecord \<Rightarrow> bool" where
  "claims i token c d \<longleftrightarrow> jb_id d = i \<and> jb_id c = i \<and> jb_state d = JS_running \<and> jb_leaseToken d = Some token \<and>
     jb_concurrencyKey d = jb_concurrencyKey c \<and> \<not> is_terminal (jb_state c)"

lemma take_claims: "jb_id c = i \<Longrightarrow> claimable (jb_state c) \<Longrightarrow> claims i token c (take_job w token e now c)"
  by (auto simp: claims_def take_job_def claimable_def is_terminal_def)

text \<open>Taking a row whose key nobody holds keeps the table in order.\<close>

lemma jobs_ok_take:
  assumes "jobs_ok js" and "c \<in> set js" and "jb_id c = i" and "\<not> key_busy js c" and "claims i token c (f c)"
  shows "jobs_ok (map (\<lambda>j. if jb_id j = i then f j else j) js)" (is "jobs_ok (map ?g js)")
proof -
  have uniq: "j = c" if "j \<in> set js" "jb_id j = i" for j
    using assms(1-3) that by (auto simp: jobs_ok_def distinct_map inj_on_def)
  have g: "?g c = f c" "j \<noteq> c \<Longrightarrow> j \<in> set js \<Longrightarrow> ?g j = j" for j using assms(3) uniq by auto
  have "map jb_id (map ?g js) = map jb_id js" using uniq assms(5) by (auto simp: claims_def)
  moreover have "lease_ok (?g j)" if "j \<in> set js" for j
    using g(1) g(2) [OF _ that] that assms(1,5) by (cases "j = c") (auto simp: lease_ok_def claims_def jobs_ok_def)
  moreover have key: "\<not> (jb_state j = JS_running \<and> same_key j (f c))" if "j \<in> set js" "j \<noteq> c" for j
    using assms(4,5) that uniq assms(3) by (auto simp: key_busy_def list_ex_iff same_key_def claims_def)
  have sym: "same_key a b \<Longrightarrow> same_key b a" for a b by (metis same_key_def)
  have "jb_id (?g a) = jb_id (?g b)"
    if "a \<in> set js" "b \<in> set js" "jb_state (?g a) = JS_running" "jb_state (?g b) = JS_running" "same_key (?g a) (?g b)" for a b
  proof (cases "a = c"; cases "b = c")
    assume "a = c" "b \<noteq> c"
    then show ?thesis using that(4,5) key [OF that(2)] sym g(1) g(2) [OF _ that(2)] by metis
  next
    assume "a \<noteq> c" "b = c"
    then show ?thesis using that(3,5) key [OF that(1)] g(1) g(2) [OF _ that(1)] by metis
  next
    assume "a \<noteq> c" "b \<noteq> c"
    then have "?g a = a" "?g b = b" using g(2) that(1,2) by blast+
    then show ?thesis using that assms(1) by (auto simp: jobs_ok_def)
  qed simp
  ultimately show ?thesis using assms(1) unfolding jobs_ok_def set_map by (simp only: ball_simps) blast
qed

lemma row_next_trans:
  "row_kept j k \<Longrightarrow> claims i (lease_name s 0) k m \<Longrightarrow> row_next s j m"
  by (auto simp: row_kept_def claims_def row_next_def settled_row_def)

lemma update_job_tokens:
  "(\<And>j. j \<in> set (sv_jobs t) \<Longrightarrow> jb_id j = i \<Longrightarrow> jb_leaseToken (f j) = Some k) \<Longrightarrow>
   lease_tokens (update_job i f t) \<subseteq> insert k (lease_tokens t)"
  by (auto simp: lease_tokens_def split: if_splits)

lemma claim_next:
  assumes ok: "queue_ok s" and call: "claim_job r s = Inr (x, u)"
  shows "queue_next s u"
proof -
  let ?t = "draw_uuids 1 (reset_expired_leases s)"
  note kept = reset_expired_kept [OF ok]
  note nxt = rows_kept_next [OF ok kept]
  show ?thesis
  proof (cases "ready_candidates r ?t")
    case Nil
    then have "u = ?t" using call by (auto simp: claim_job_def result_simps Let_def)
    with nxt show ?thesis by simp
  next
    case (Cons i rest)
    let ?f = "take_job (cj_workerId r) (lease_name s 0) (i64_add (sv_now s) (cj_leaseMs r)) (sv_now s)"
    from candidate [OF Cons] obtain c where c: "c \<in> set (sv_jobs ?t)" "jb_id c = i" "candidate_row r ?t c" .
    have u: "u = update_job i ?f ?t" using call Cons by (auto simp: claim_job_def result_simps Let_def lease_name_def)
    have claims: "claims i (lease_name s 0) c (?f c)" using c by (intro take_claims) (simp_all add: candidate_row_def)
    have tok: "jobs_ok (sv_jobs ?t)" using nxt by (simp add: queue_next_def queue_ok_def)
    have uniq: "j = c" if "j \<in> set (sv_jobs ?t)" "jb_id j = i" for j
      using tok c(1,2) that by (auto simp: jobs_ok_def distinct_map inj_on_def)
    have jobs: "jobs_ok (sv_jobs u)"
      using jobs_ok_take [where f = ?f, OF tok c(1,2) _ claims] c(3) by (simp add: u candidate_row_def)
    have "lease_tokens u \<subseteq> insert (lease_name s 0) (lease_tokens ?t)"
      unfolding u using claims uniq by (intro update_job_tokens) (metis claims_def)
    then have tokens: "lease_tokens u \<subseteq> insert (lease_name s 0) (lease_tokens s)"
      using nxt by (auto simp: queue_next_def)
    have uuid: "sv_uuid u = (\<lambda>n. sv_uuid s (1 + n))" by (simp add: u draw_uuids_def reset_expired_leases_def)
    have new: "lease_name s 0 \<notin> range (lease_name u)"
    proof
      assume "lease_name s 0 \<in> range (lease_name u)"
      then obtain n where "sv_uuid s 0 = sv_uuid s (1 + n)" by (auto simp: lease_name_def uuid)
      then have "0 = 1 + n" using ok by (metis injD queue_ok_def)
      then show False by simp
    qed
    have old: "lease_tokens s \<inter> range (lease_name s) = {}" and inj: "inj (sv_uuid s)" using ok by (simp_all add: queue_ok_alt)
    have "lease_tokens u \<inter> range (lease_name u) = {}"
    proof (rule ccontr)
      assume "lease_tokens u \<inter> range (lease_name u) \<noteq> {}"
      then obtain k where k: "k \<in> lease_tokens u" "k \<in> range (lease_name u)" by blast
      have "k = lease_name s 0 \<or> k \<in> lease_tokens s" using subsetD [OF tokens k(1)] by simp
      then show False using new old k(2) subsetD [OF uuid_shift(1) [OF uuid] k(2)] by (metis disjoint_iff)
    qed
    then have "queue_ok u" using jobs uuid_shift(2) [OF uuid inj] by (simp add: queue_ok_alt)
    moreover have "\<exists>k \<in> set (sv_jobs u). row_next s j k" if "j \<in> set (sv_jobs s)" for j
    proof -
      let ?k = "reset_lease (sv_now s) j"
      have k: "row_kept j ?k" "?k \<in> set (sv_jobs ?t)"
        using that ok by (auto simp: queue_ok_def jobs_ok_def draw_uuids_def reset_expired_leases_def intro: reset_kept)
      show ?thesis
      proof (cases "jb_id ?k = i")
        case True
        then have "row_next s j (?f ?k)" using row_next_trans [OF k(1)] claims uniq k(2) by metis
        then show ?thesis using True k(2) by (auto simp: u)
      next
        case False
        then show ?thesis using row_kept_next [OF k(1), of s] k(2) by (auto simp: u intro!: bexI [of _ ?k])
      qed
    qed
    ultimately show ?thesis using tokens uuid_shift(1) [OF uuid] by (simp add: queue_next_def)
  qed
qed

lemma job_step_next: "job_step s t \<Longrightarrow> queue_ok s \<Longrightarrow> queue_next s t"
proof (induction rule: job_step.induct)
  case (step_clock s n)
  then show ?case by (intro rows_kept_next rows_kept_same [where k = 0]) simp_all
qed (auto intro: rows_kept_next claim_next enqueue_kept heartbeat_kept complete_kept fail_kept cancel_kept materialize_kept budget_kept)

lemma rewritten_kept: "rewritten j k \<Longrightarrow> row_kept j k"
  by (auto simp: rewritten_def row_kept_def settled_row_def lease_ok_def)

lemma service_step_next: "service_step s t \<Longrightarrow> queue_ok s \<Longrightarrow> queue_next s t"
proof (induction rule: service_step.induct)
  case (queue s t)
  then show ?case by (rule job_step_next)
next
  case (added r now uuid s x t m)
  have d: "distinct (map jb_id (sv_jobs s))" using added(3) by (simp add: queue_ok_def jobs_ok_def)
  from enqueue_tx_rows [OF added(1) d] obtain news where "sv_jobs t = sv_jobs s @ news"
    "\<forall>n \<in> set news. jb_state n \<noteq> JS_running \<and> jb_leaseToken n = None" "distinct (map jb_id (sv_jobs s @ news))" .
  then show ?case using added by (intro rows_kept_next rows_kept_add [where k = m and news = news]) auto
next
  case (updated s i j k t m)
  have row: "row_kept x k" if "x \<in> set (sv_jobs s)" "jb_id x = i" for x
  proof -
    have "x = j" using updated(1,5) that by (metis get_job_row_iff option.inject queue_ok_def)
    then show ?thesis using rewritten_kept [OF updated(2)] by simp
  qed
  have "\<exists>f news. sv_jobs t = map f (sv_jobs s) @ news \<and> (\<forall>j \<in> set (sv_jobs s). row_kept j (f j)) \<and>
     (\<forall>n \<in> set news. jb_state n \<noteq> JS_running \<and> jb_leaseToken n = None) \<and> distinct (map jb_id (sv_jobs s @ news))"
    by (intro exI [of _ "\<lambda>x. if jb_id x = i then k else x"] exI [of _ "[] :: SchedulerJobRecord list"])
      (use row updated(3,5) in \<open>auto simp: queue_ok_def jobs_ok_def\<close>)
  then show ?case using updated(4,5) by (intro rows_kept_next) (auto simp: rows_kept_def)
next
  case (beside t s m)
  then show ?case by (intro rows_kept_next rows_kept_same)
qed

section \<open>Runs of the service\<close>

lemma steps_ok: "service_steps s t \<Longrightarrow> queue_ok s \<Longrightarrow> queue_ok t"
  by (induction rule: rtranclp_induct) (auto dest: service_step_next simp: queue_next_def)

lemma settled_row_kept:
  assumes "service_steps s t" and "queue_ok s" and "j \<in> set (sv_jobs s)"
  shows "\<exists>k \<in> set (sv_jobs t). jb_id k = jb_id j \<and> (settled_row j \<longrightarrow> k = j)"
  using assms(1,3)
proof (induction rule: rtranclp_induct)
  case (step t u)
  then obtain k where k: "k \<in> set (sv_jobs t)" "jb_id k = jb_id j" "settled_row j \<longrightarrow> k = j" by blast
  have "queue_next t u" using service_step_next [OF step(2)] steps_ok [OF step(1) assms(2)] by blast
  then obtain m where "m \<in> set (sv_jobs u)" "row_next t k m" using k(1) by (auto simp: queue_next_def)
  then show ?case using k by (intro bexI [of _ m]) (auto simp: row_next_def)
qed auto

definition lost :: "string \<Rightarrow> service \<Rightarrow> bool" where
  "lost token s \<longleftrightarrow> token \<notin> lease_tokens s \<and> token \<notin> range (lease_name s)"

lemma lost_kept: "service_steps s t \<Longrightarrow> queue_ok s \<Longrightarrow> lost token s \<Longrightarrow> lost token t"
proof (induction rule: rtranclp_induct)
  case (step t u)
  then have "queue_next t u" using service_step_next [OF step(2)] steps_ok [OF step(1)] by blast
  with step show ?case by (auto simp: lost_def queue_next_def)
qed auto

lemma held_not_fresh:
  "service_steps s t \<Longrightarrow> queue_ok s \<Longrightarrow> token \<in> lease_tokens s \<Longrightarrow> token \<notin> range (lease_name t)"
proof (induction rule: rtranclp_induct)
  case base
  then show ?case by (auto simp: queue_ok_alt)
next
  case (step t u)
  then have "queue_next t u" using service_step_next [OF step(2)] steps_ok [OF step(1)] by blast
  with step show ?case by (auto simp: queue_next_def)
qed

text \<open>A token is fenced off when a worker that shows it cannot change anything.\<close>

definition fenced :: "string \<Rightarrow> service \<Rightarrow> bool" where
  "fenced token s \<longleftrightarrow>
     (\<forall>r x t. hj_leaseToken r = token \<longrightarrow> heartbeat_job r s = Inr (x, t) \<longrightarrow> x = None \<and> t = s) \<and>
     (\<forall>r x t. kj_leaseToken r = token \<longrightarrow> complete_job r s = Inr (x, t) \<longrightarrow> t = s) \<and>
     (\<forall>r x t. fj_leaseToken r = token \<longrightarrow> fail_job r s = Inr (x, t) \<longrightarrow> x = None \<and> t = s)"

lemma owns_held: "get_job_row s i = Some j \<Longrightarrow> owns_lease w token j \<Longrightarrow> token \<in> lease_tokens s"
  by (auto simp: owns_lease_def lease_tokens_def dest: get_job_row_Some)

lemma lost_fenced:
  assumes "lost token s"
  shows "fenced token s"
proof -
  have no: "\<not> owns_lease w token j" if "get_job_row s i = Some j" for i j w
    using assms that owns_held by (auto simp: lost_def)
  then show ?thesis
    by (auto simp: fenced_def heartbeat_job_def complete_job_def fail_job_def result_simps Let_def
        split: option.splits if_splits)
qed


text \<open>The exception is there: the failed job of a session turn becomes ready again.\<close>

lemma failed_turn_put_back:
  assumes "get_job_row s i = Some j" and "resumable j"
  shows "\<exists>k t. service_steps s t \<and> get_job_row t i = Some k \<and> jb_state k = JS_ready"
proof -
  let ?k = "clear_lease (j\<lparr>jb_state := JS_ready, jb_lastError := None, jb_finishedAt := None\<rparr>)"
  let ?t = "update_job i (\<lambda>_. ?k) s"
  have "rewritten j ?k" using assms(2) by (simp add: rewritten_def)
  then have "service_step s ?t" by (intro updated [OF assms(1), where k = ?k and m = 0]) simp_all
  moreover have "get_job_row ?t i = Some ?k"
  proof -
    have "List.find (\<lambda>x. jb_id x = i) (map (\<lambda>x. if jb_id x = i then ?k else x) xs) = Some ?k"
      if "List.find (\<lambda>x. jb_id x = i) xs = Some j" for xs
      using that get_job_row_Some [OF assms(1)] by (induction xs) (auto split: if_splits)
    then show ?thesis using assms(1) by (simp add: get_job_row_def)
  qed
  ultimately show ?thesis by (intro exI [of _ ?k] exI [of _ ?t]) auto
qed

section \<open>An example\<close>

definition after_op :: "'a service_op \<Rightarrow> service \<Rightarrow> service" where
  "after_op op s = (case op s of Inl e \<Rightarrow> s | Inr (x, t) \<Rightarrow> t)"

lemma steps_after:
  "job_steps s t \<Longrightarrow> job_steps s (after_op (enqueue_job r1) t)"
  "job_steps s t \<Longrightarrow> job_steps s (after_op (claim_job r2) t)"
  "job_steps s t \<Longrightarrow> job_steps s (t\<lparr>sv_now := n\<rparr>)"
  by (auto simp: after_op_def split: sum.split
      intro: rtranclp.rtrancl_into_rtrancl step_enqueue step_claim step_clock)

definition empty_service :: service where
  "empty_service = \<lparr>sv_now = 1, sv_uuid = (\<lambda>n. replicate n (CHR ''u'')), sv_graphs = [], sv_nodes = [], sv_deps = [],
     sv_jobs = [], sv_sha256 = (\<lambda>x. x), sv_scopes = [], sv_grants = [], sv_usages = []\<rparr>"

definition demo_job :: "string \<Rightarrow> EnqueueJobRequest" where
  "demo_job i = \<lparr>ej_id = Some i, ej_kind = JK_plugin_action, ej_queue = None, ej_principalId = ''p'', ej_payload = JNull,
     ej_scheduledAt = None, ej_notBefore = None, ej_priority = None, ej_concurrencyKey = Some ''key'',
     ej_maxAttempts = None, ej_retryPolicy = None, ej_idempotencyKey = None, ej_budgetGrantId = None\<rparr>"

definition demo_claim :: "string \<Rightarrow> ClaimJobRequest" where
  "demo_claim w = \<lparr>cj_workerId = w, cj_leaseMs = 10, cj_kinds = None, cj_queues = None\<rparr>"

text \<open>The worker \<open>w1\<close> claims the first of two jobs with one key, and is too slow: \<open>w2\<close> gets it.\<close>

definition demo_claimed :: service where
  "demo_claimed = after_op (claim_job (demo_claim ''w1''))
     (after_op (enqueue_job (demo_job ''b'')) (after_op (enqueue_job (demo_job ''a'')) empty_service))"

definition demo_reclaimed :: service where
  "demo_reclaimed = after_op (claim_job (demo_claim ''w2'')) (demo_claimed\<lparr>sv_now := 100\<rparr>)"

lemma demo_rows:
  "map (\<lambda>j. (jb_id j, jb_state j, jb_leaseToken j)) (sv_jobs demo_claimed) =
     [(''a'', JS_running, Some ''joblease_uu''), (''b'', JS_ready, None)]"
  "map (\<lambda>j. (jb_id j, jb_state j, jb_leaseToken j)) (sv_jobs demo_reclaimed) =
     [(''a'', JS_running, Some ''joblease_uuu''), (''b'', JS_ready, None)]"
  by code_simp+

lemma replicate_inj: "inj (\<lambda>n. replicate n x)"
  by (rule injI) (metis length_replicate)


section \<open>Attempts of workers that die\<close>

lemma claim_lone_job:
  assumes "sv_jobs s = [j]" and "jb_state j = JS_running" and "jb_kind j \<noteq> JK_session_turn"
    and "jb_leaseExpiresAt j = Some e" and "e \<le> sv_now s" and "opt_else (jb_notBefore j) (jb_scheduledAt j) \<le> sv_now s"
    and "cj_leaseMs r > 0" and "cj_kinds r = None" and "cj_queues r = None"
  shows "\<exists>k t. claim_job r s = Inr (Some k, t) \<and> sv_jobs t = [k] \<and> jb_state k = JS_running \<and>
    jb_kind k = jb_kind j \<and> jb_leaseExpiresAt k \<noteq> None \<and> jb_attempt k = jb_attempt j + 1 \<and> jb_maxAttempts k = jb_maxAttempts j"
proof -
  let ?j = "clear_lease (j\<lparr>jb_state := JS_ready, jb_updatedAt := sv_now s\<rparr>)"
  have t: "sv_jobs (draw_uuids 1 (reset_expired_leases s)) = [?j]"
    using assms by (simp add: draw_uuids_def reset_expired_leases_def reset_lease_def lease_expired_def)
  then have "ready_candidates r (draw_uuids 1 (reset_expired_leases s)) = [jb_id j]"
    using assms by (simp add: ready_candidates_def candidate_row_def claimable_def key_busy_def sort_by_def
        draw_uuids_def reset_expired_leases_def clear_lease_def)
  then show ?thesis
    using assms t by (simp add: claim_job_def validate_claim_queues_def get_job_row_def take_job_def claimable_def clear_lease_def Let_def)
qed

text \<open>
  C38. A worker that dies takes no attempt from its job: when the lease of a running job expires,
  the next claim hands it out again, without a look at its limit of attempts. So for every number
  there is a run of the queue, with nothing but the clock and claims, that starts the same job
  that many times more than its limit allows.
\<close>

theorem crashes_escape_max_attempts:
  assumes "sv_jobs s = [j]" and "jb_state j = JS_running" and "jb_kind j \<noteq> JK_session_turn"
    and "jb_leaseExpiresAt j \<noteq> None"
  shows "\<exists>t k. job_steps s t \<and> sv_jobs t = [k] \<and> jb_state k = JS_running \<and> jb_maxAttempts k = jb_maxAttempts j \<and>
    jb_attempt k = jb_attempt j + of_nat n"
proof -
  have "\<exists>t k. job_steps s t \<and> sv_jobs t = [k] \<and> jb_state k = JS_running \<and> jb_kind k = jb_kind j \<and>
      jb_leaseExpiresAt k \<noteq> None \<and> jb_maxAttempts k = jb_maxAttempts j \<and> jb_attempt k = jb_attempt j + of_nat n"
  proof (induction n)
    case 0
    then show ?case using assms by auto
  next
    case (Suc n)
    then obtain t k where t: "job_steps s t" "sv_jobs t = [k]" "jb_state k = JS_running" "jb_kind k = jb_kind j"
      "jb_leaseExpiresAt k \<noteq> None" "jb_maxAttempts k = jb_maxAttempts j" "jb_attempt k = jb_attempt j + of_nat n" by blast
    then obtain e where e: "jb_leaseExpiresAt k = Some e" by blast
    let ?now = "max e (opt_else (jb_notBefore k) (jb_scheduledAt k))"
    obtain m u where m: "claim_job (demo_claim ''w'') (t\<lparr>sv_now := ?now\<rparr>) = Inr (Some m, u)" "sv_jobs u = [m]"
      "jb_state m = JS_running" "jb_kind m = jb_kind k" "jb_leaseExpiresAt m \<noteq> None" "jb_attempt m = jb_attempt k + 1"
      "jb_maxAttempts m = jb_maxAttempts k"
      using claim_lone_job [of "t\<lparr>sv_now := ?now\<rparr>" k e "demo_claim ''w''"] t e assms(3) by (auto simp: demo_claim_def)
    have "job_steps s u"
      using t(1) step_clock [of t ?now] step_claim [OF m(1)] by (meson rtranclp.rtrancl_into_rtrancl)
    then show ?case using m t by (intro exI [of _ u] exI [of _ m]) simp
  qed
  then show ?thesis by blast
qed

theorem crashes_escape_max_attempts_witness:
  "\<exists>t k. job_steps (after_op (claim_job (demo_claim ''w1'')) (after_op (enqueue_job (demo_job ''a'')) empty_service)) t \<and>
     sv_jobs t = [k] \<and> jb_state k = JS_running \<and> jb_maxAttempts k = 1 \<and> jb_attempt k = 1000"
proof -
  let ?s = "after_op (claim_job (demo_claim ''w1'')) (after_op (enqueue_job (demo_job ''a'')) empty_service)"
  have "map (\<lambda>j. (jb_state j, jb_kind j, jb_leaseExpiresAt j, jb_maxAttempts j, jb_attempt j)) (sv_jobs ?s) =
      [(JS_running, JK_plugin_action, Some 11, 1, 1)]"
    by code_simp
  then obtain j where "sv_jobs ?s = [j]" "jb_state j = JS_running" "jb_kind j \<noteq> JK_session_turn"
    "jb_leaseExpiresAt j \<noteq> None" "jb_maxAttempts j = 1" "jb_attempt j = 1" by auto
  then show ?thesis using crashes_escape_max_attempts [of ?s j 999] by simp
qed

section \<open>Back-off\<close>

lemma i64_add_over:
  assumes "in_i64 a" and "in_i64 b" and "i64_MAX < a + b"
  shows "i64_add a b = a + b - 2 ^ 64"
proof -
  obtain m n where mn: "a = of_int m" "b = of_int n" using assms(1,2) unfolding in_i64_def by metis
  have "(of_int m :: rat) \<le> of_int (2 ^ 63 - 1)" "(of_int n :: rat) \<le> of_int (2 ^ 63 - 1)"
    using assms(1,2) by (simp_all add: in_i64_def i64_MAX_def mn)
  then have le: "m \<le> 2 ^ 63 - 1" "n \<le> 2 ^ 63 - 1" by (simp_all only: of_int_le_iff)
  have "(of_int (2 ^ 63 - 1) :: rat) < of_int (m + n)" using assms(3) by (simp add: i64_MAX_def mn)
  then have gt: "2 ^ 63 - 1 < m + n" by (simp only: of_int_less_iff)
  have "(m + n + 2 ^ 63) mod 2 ^ 64 = (m + n + 2 ^ 63 - 2 ^ 64) mod 2 ^ 64" by (rule minus_mod_self2 [symmetric])
  also have "\<dots> = m + n + 2 ^ 63 - 2 ^ 64" using le gt by (intro mod_pos_pos_trivial) simp_all
  finally have "(m + n + 2 ^ 63) mod 2 ^ 64 - 2 ^ 63 = m + n - 2 ^ 64" by simp
  then show ?thesis by (simp add: i64_add_def wrap_i64_def mn flip: of_int_add)
qed

text \<open>The delay of a sensible policy is a 64-bit number that is not negative.\<close>

lemma retry_delay_bounds:
  assumes "rp_maxDelayMs p = None \<or> (\<exists>m. rp_maxDelayMs p = Some m \<and> 0 \<le> m)"
    and "rp_initialDelayMs p = None \<or> (\<exists>m. rp_initialDelayMs p = Some m \<and> m \<le> i64_MAX)"
  shows "0 \<le> retry_delay_ms p a" "retry_delay_ms p a \<le> i64_MAX"
proof -
  have "0 \<le> i64_MAX" "(1000 :: rat) \<le> i64_MAX" by (simp_all add: i64_MAX_def)
  then show "0 \<le> retry_delay_ms p a" "retry_delay_ms p a \<le> i64_MAX"
    using assms by (auto simp: retry_delay_ms_def Let_def split: RetryStrategy.split option.split)
qed

text \<open>
  C39. The back-off of a failed attempt. A job that may be retried is scheduled again, and not
  before the present time plus the delay of its policy; unless that sum does not fit into 64
  bits. Then the time wraps around to a negative number, which has passed long ago: the longest
  delays are no delay at all.
\<close>

theorem failed_attempt_backs_off:
  assumes "get_job_row s (fj_jobId r) = Some job" and "owns_lease (fj_workerId r) (fj_leaseToken r) job"
    and "settled_elsewhere (jb_kind job) = None" and "can_retry job"
    and "d = retry_delay_ms (jb_retryPolicy job) (jb_attempt job)" and "in_i64 d" and "in_i64 (sv_now s)" and "0 \<le> sv_now s"
  shows "\<exists>k t. fail_job r s = Inr (Some k, t) \<and> jb_state k = JS_retry_scheduled \<and>
    jb_notBefore k = Some (if sv_now s + d \<le> i64_MAX then sv_now s + d else sv_now s + d - 2 ^ 64) \<and>
    (i64_MAX < sv_now s + d \<longrightarrow> the (jb_notBefore k) < 0)"
proof -
  let ?n = "i64_add (sv_now s) d" and ?i = "fj_jobId r"
  let ?t = "update_job ?i (schedule_retry (fj_error r) ?n (sv_now s)) s"
  have kind: "jb_kind job \<notin> {JK_session_turn, JK_team_delivery, JK_team_delivery_outcome}" using assms(3) by auto
  have row: "get_job_row ?t ?i = Some (schedule_retry (fj_error r) ?n (sv_now s) job)"
    using assms(1) by (rule get_job_row_update) (simp add: schedule_retry_def)
  have low: "i64_MIN \<le> sv_now s + d" if "sv_now s + d \<le> i64_MAX"
    using assms(6,8) by (simp add: in_i64_def)
  have n: "?n = (if sv_now s + d \<le> i64_MAX then sv_now s + d else sv_now s + d - 2 ^ 64)"
    using i64_add_small [OF assms(7,6) low] i64_add_over [OF assms(7,6)] by auto
  have "sv_now s + d - 2 ^ 64 < 0"
    using assms(6,7) by (simp add: in_i64_def i64_MAX_def)
  then show ?thesis
    using assms(1,2,4,5) kind row n
    by (auto simp: fail_job_def sync_team_failure_def schedule_retry_def clear_lease_def)
qed

definition eager_service :: service where
  "eager_service = after_op (claim_job (demo_claim ''w1'')) (after_op (enqueue_job
     (demo_job ''a''\<lparr>ej_maxAttempts := Some 5, ej_retryPolicy := Some \<lparr>rp_strategy = RS_fixed,
       rp_initialDelayMs = Some (2 ^ 63 - 1), rp_maxDelayMs = None\<rparr>\<rparr>))
     empty_service)"

theorem failed_attempt_backs_off_witness:
  "\<exists>k t. fail_job \<lparr>fj_jobId = ''a'', fj_workerId = ''w1'', fj_leaseToken = ''joblease_u'', fj_error = JNull\<rparr> eager_service =
     Inr (Some k, t) \<and> jb_state k = JS_retry_scheduled \<and> the (jb_notBefore k) < 0"
proof -
  let ?r = "\<lparr>fj_jobId = ''a'', fj_workerId = ''w1'', fj_leaseToken = ''joblease_u'', fj_error = JNull\<rparr>"
  have "case get_job_row eager_service ''a'' of None \<Rightarrow> False
      | Some job \<Rightarrow> owns_lease ''w1'' ''joblease_u'' job \<and> settled_elsewhere (jb_kind job) = None \<and> can_retry job \<and>
          retry_delay_ms (jb_retryPolicy job) (jb_attempt job) = 2 ^ 63 - 1"
    by code_simp
  then obtain job where job: "get_job_row eager_service ''a'' = Some job" "owns_lease ''w1'' ''joblease_u'' job"
    "settled_elsewhere (jb_kind job) = None" "can_retry job" "2 ^ 63 - 1 = retry_delay_ms (jb_retryPolicy job) (jb_attempt job)"
    by (auto split: option.splits)
  have now: "sv_now eager_service = 1" by code_simp
  have "in_i64 (2 ^ 63 - 1)" "in_i64 1" by (code_simp, code_simp)
  then show ?thesis
    using failed_attempt_backs_off [of eager_service ?r job "2 ^ 63 - 1"] job now by (auto simp: i64_MAX_def)
qed

end
