(* ===== verification/Budget_Safety.thy ===== *)
theory Budget_Safety
  imports Scheduler_Safety
begin

text \<open>
  What budgets promise. As long as the reservations for a scope agree on its limit, and no amount
  is astronomically large, the committed usage of the scope stays within the limit. A reservation
  with a lower limit breaks more than the budget: the jobs that hold earlier grants can no longer
  be settled at all.
\<close>

section \<open>Amounts by dimension\<close>

definition dims :: "(BudgetAmount \<Rightarrow> number option) list" where
  "dims = [ba_tokens, ba_costMicros, ba_wallTimeMs, ba_toolCalls]"

definition units :: "(BudgetAmount \<Rightarrow> number option) \<Rightarrow> BudgetAmount \<Rightarrow> number" where
  "units d a = opt_else (d a) 0"

text \<open>A whole number of units, not negative and small enough for sums not to overflow.\<close>

definition modest :: "number \<Rightarrow> bool" where
  "modest n \<longleftrightarrow> of_int \<lfloor>n\<rfloor> = n \<and> 0 \<le> n \<and> n \<le> 2 ^ 61"

definition modest_amount :: "BudgetAmount \<Rightarrow> bool" where
  "modest_amount a = list_all (\<lambda>d. modest (units d a)) dims"

lemma dims_cases: "d \<in> set dims \<Longrightarrow> P ba_tokens \<Longrightarrow> P ba_costMicros \<Longrightarrow> P ba_wallTimeMs \<Longrightarrow> P ba_toolCalls \<Longrightarrow> P d"
  by (auto simp: dims_def)

lemma fits_budget_dim: "fits_budget l u r \<Longrightarrow> d \<in> set dims \<Longrightarrow> fits_dimension (d l) (d u) (d r)"
  by (auto simp: fits_budget_def dims_def)

lemma fits_grant_dim: "fits_reserved_grant l u r \<Longrightarrow> d \<in> set dims \<Longrightarrow> fits_reserved_dimension (d l) (d u) (d r)"
  by (auto simp: fits_reserved_grant_def dims_def)

lemma units_no_amount [simp]: "d \<in> set dims \<Longrightarrow> units d no_amount = 0"
  by (erule dims_cases) (simp_all add: units_def no_amount_def)

lemma add_amounts_dim: "d \<in> set dims \<Longrightarrow> d (add_amounts a b) = add_optional (d a) (d b)"
  by (erule dims_cases) (simp_all add: add_amounts_def)

lemma units_add:
  assumes "d \<in> set dims" and "in_i64 (units d a)" and "in_i64 (units d b)"
    and "0 \<le> units d a + units d b" and "units d a + units d b \<le> i64_MAX"
  shows "units d (add_amounts a b) = units d a + units d b"
proof -
  have "i64_MIN \<le> units d a + units d b" using assms(4) by (simp add: i64_MIN_def)
  then have "i64_add (units d a) (units d b) = units d a + units d b" using assms by (intro i64_add_small)
  then show ?thesis
    using add_amounts_dim [OF assms(1), of a b] by (cases "d a"; cases "d b") (auto simp: units_def)
qed

lemma in_i64_sum: "in_i64 a \<Longrightarrow> in_i64 b \<Longrightarrow> 0 \<le> a + b \<Longrightarrow> a + b \<le> i64_MAX \<Longrightarrow> in_i64 (a + b)"
  by (simp add: in_i64_def in_i64_add i64_MIN_def)

definition total :: "(BudgetAmount \<Rightarrow> number option) \<Rightarrow> BudgetAmount list \<Rightarrow> number" where
  "total d as = (\<Sum>a \<leftarrow> as. units d a)"

lemma total_simps [simp]: "total d [] = 0" "total d (a # as) = units d a + total d as"
  by (simp_all add: total_def)

lemma total_nonneg: "\<forall>a \<in> set as. 0 \<le> units d a \<Longrightarrow> 0 \<le> total d as"
  by (induction as) auto

lemma units_fold:
  assumes "d \<in> set dims"
  shows "\<forall>a \<in> set as. in_i64 (units d a) \<and> 0 \<le> units d a \<Longrightarrow> in_i64 (units d z) \<Longrightarrow> 0 \<le> units d z \<Longrightarrow>
    units d z + total d as \<le> i64_MAX \<Longrightarrow> units d (foldl add_amounts z as) = units d z + total d as"
proof (induction as arbitrary: z)
  case (Cons a as)
  have rest: "0 \<le> total d as" using Cons.prems(1) by (intro total_nonneg) simp
  then have sum: "units d z + units d a \<le> i64_MAX" using Cons.prems(4) by simp
  then have step: "units d (add_amounts z a) = units d z + units d a"
    using Cons.prems by (intro units_add [OF assms]) simp_all
  moreover have "in_i64 (units d z + units d a)" using Cons.prems sum by (intro in_i64_sum) simp_all
  ultimately show ?case using Cons.prems Cons.IH [of "add_amounts z a"] by simp
qed simp

lemma total_insert_by: "total d (map f (insert_by c x ys)) = units d (f x) + total d (map f ys)"
  by (induction ys) auto

lemma total_sort_by [simp]: "total d (map f (sort_by c xs)) = total d (map f xs)"
  by (induction xs) (simp_all add: sort_by_def total_insert_by)

section \<open>Reserved grants\<close>

definition held :: "string \<Rightarrow> BudgetGrantRecord \<Rightarrow> bool" where
  "held c g \<longleftrightarrow> bg_scopeId g = c \<and> bg_state g = BG_reserved"

definition reserved :: "(BudgetAmount \<Rightarrow> number option) \<Rightarrow> string \<Rightarrow> BudgetGrantRecord list \<Rightarrow> number" where
  "reserved d c gs = total d (map bg_requested (filter (held c) gs))"

definition used :: "(BudgetAmount \<Rightarrow> number option) \<Rightarrow> string \<Rightarrow> BudgetUsageEntryRecord list \<Rightarrow> number" where
  "used d g us = total d (map ru_usage (filter (\<lambda>u. ru_grantId u = g) us))"

lemma reserved_simps [simp]:
  "reserved d c [] = 0"
  "reserved d c (g # gs) = (if held c g then units d (bg_requested g) else 0) + reserved d c gs"
  by (simp_all add: reserved_def)

lemma reserved_append [simp]: "reserved d c (gs @ hs) = reserved d c gs + reserved d c hs"
  by (induction gs) auto

lemma used_append [simp]: "used d g (us @ vs) = used d g us + used d g vs"
  by (induction us) (auto simp: used_def)

lemma used_one [simp]: "used d g [u] = (if ru_grantId u = g then units d (ru_usage u) else 0)"
  by (simp add: used_def)

lemma used_none: "\<forall>u \<in> set us. ru_grantId u \<noteq> g \<Longrightarrow> used d g us = 0"
  by (induction us) (auto simp: used_def)

lemma reserved_same: "\<forall>h \<in> set gs. bg_id h \<noteq> bg_id g \<Longrightarrow>
    reserved d c (map (\<lambda>h. if bg_id h = bg_id g then g else h) gs) = reserved d c gs"
  by (induction gs) auto

text \<open>A grant that is no longer reserved gives back what it asked for.\<close>

lemma reserved_replace:
  "distinct (map bg_id gs) \<Longrightarrow> h \<in> set gs \<Longrightarrow> bg_id g = bg_id h \<Longrightarrow> bg_state g \<noteq> BG_reserved \<Longrightarrow>
   reserved d c (map (\<lambda>k. if bg_id k = bg_id g then g else k) gs) =
     reserved d c gs - (if held c h then units d (bg_requested h) else 0)"
proof (induction gs)
  case (Cons k gs)
  show ?case
  proof (cases "k = h")
    case True
    then have "\<forall>m \<in> set gs. bg_id m \<noteq> bg_id g" using Cons.prems by (auto simp: image_iff)
    then show ?thesis using True Cons.prems reserved_same [of gs g d c] by (simp add: held_def)
  next
    case False
    then have "bg_id k \<noteq> bg_id g" using Cons.prems by (auto simp: image_iff)
    then show ?thesis using False Cons by auto
  qed
qed simp

section \<open>The invariant of a scope\<close>

text \<open>
  The tables of budgets are in order: scopes are named after their kind, owner and window, names
  of scopes and grants are unique, and usage belongs to grants.
\<close>

definition scope_named :: "service \<Rightarrow> BudgetScopeRecord \<Rightarrow> bool" where
  "scope_named s c \<longleftrightarrow> bs_id c = budget_scope_id s (bs_kind c) (bs_ownerId c) (bs_windowKind c)"

definition budget_ok :: "service \<Rightarrow> bool" where
  "budget_ok s \<longleftrightarrow> distinct (map bs_id (sv_scopes s)) \<and> distinct (map bg_id (sv_grants s)) \<and>
     list_all (scope_named s) (sv_scopes s) \<and>
     (\<forall>u \<in> set (sv_usages s). ru_grantId u \<in> bg_id ` set (sv_grants s)) \<and>
     (\<forall>g \<in> set (sv_grants s). bg_scopeId g \<in> bs_id ` set (sv_scopes s)) \<and>
     (\<forall>g \<in> set (sv_grants s). modest_amount (bg_requested g)) \<and> (\<forall>u \<in> set (sv_usages s). modest_amount (ru_usage u))"

text \<open>
  The scope \<open>c\<close> in the dimension \<open>d\<close> with the limit \<open>l\<close>: what was committed and what is reserved
  fit into the limit together, and no grant was used beyond what it asked for.
\<close>

definition scope_ok :: "(BudgetAmount \<Rightarrow> number option) \<Rightarrow> string \<Rightarrow> number \<Rightarrow> service \<Rightarrow> bool" where
  "scope_ok d c l s \<longleftrightarrow>
     (\<forall>scope. get_scope s c = Some scope \<longrightarrow> d (bs_limit scope) = Some l \<and> modest (units d (bs_usage scope)) \<and>
        units d (bs_usage scope) + reserved d c (sv_grants s) \<le> l) \<and>
     (\<forall>g \<in> set (sv_grants s). bg_scopeId g = c \<longrightarrow> used d (bg_id g) (sv_usages s) \<le> units d (bg_requested g))"

definition same_budgets :: "service \<Rightarrow> service \<Rightarrow> bool" where
  "same_budgets s t \<longleftrightarrow> sv_scopes t = sv_scopes s \<and> sv_grants t = sv_grants s \<and> sv_usages t = sv_usages s \<and>
     sv_sha256 t = sv_sha256 s"

lemma scope_named_frame: "sv_sha256 t = sv_sha256 s \<Longrightarrow> scope_named t = scope_named s"
  by (simp add: fun_eq_iff scope_named_def budget_scope_id_def)

lemma scope_named_updates [simp]:
  "scope_named (s\<lparr>sv_usages := us\<rparr>) = scope_named s" "scope_named (s\<lparr>sv_grants := gs\<rparr>) = scope_named s"
  "scope_named (replace_grant g s) = scope_named s" "scope_named (replace_scope y s) = scope_named s"
  "scope_named (draw_uuids n s) = scope_named s"
  by (auto intro!: scope_named_frame simp: replace_grant_def replace_scope_def draw_uuids_def)

lemma same_budgets_ok:
  assumes "same_budgets s t"
  shows "budget_ok t = budget_ok s" "scope_ok d c l t = scope_ok d c l s"
  using assms scope_named_frame [of t s] by (simp_all add: same_budgets_def budget_ok_def scope_ok_def get_scope_def)


lemma modest_sum: "modest a \<Longrightarrow> modest b \<Longrightarrow> a + b \<le> 2 ^ 61 \<Longrightarrow> modest (a + b)"
  by (simp add: modest_def in_i64_add)

lemma modest_i64: "modest a \<Longrightarrow> in_i64 a"
  by (simp add: modest_def in_i64_def i64_MIN_def i64_MAX_def)

lemma modest_dim: "modest_amount a \<Longrightarrow> d \<in> set dims \<Longrightarrow> modest (units d a)"
  by (auto simp: modest_amount_def list_all_iff)

lemma modest_add: "modest a \<Longrightarrow> modest b \<Longrightarrow> i64_add a b = a + b"
  by (rule i64_add_small) (simp_all add: modest_i64, simp_all add: modest_def i64_MIN_def i64_MAX_def)

lemma grant_modest: "budget_ok s \<Longrightarrow> d \<in> set dims \<Longrightarrow> g \<in> set (sv_grants s) \<Longrightarrow> modest (units d (bg_requested g))"
  by (rule modest_dim) (simp_all add: budget_ok_def)

lemma usage_modest: "budget_ok s \<Longrightarrow> d \<in> set dims \<Longrightarrow> u \<in> set (sv_usages s) \<Longrightarrow> modest (units d (ru_usage u))"
  by (rule modest_dim) (simp_all add: budget_ok_def)

lemma modest_nonneg: "modest n \<Longrightarrow> 0 \<le> n" "modest n \<Longrightarrow> n \<le> 2 ^ 61"
  by (simp_all add: modest_def)

lemma reserved_nonneg: "budget_ok s \<Longrightarrow> d \<in> set dims \<Longrightarrow> 0 \<le> reserved d c (sv_grants s)"
  unfolding reserved_def by (rule total_nonneg) (auto intro: modest_nonneg grant_modest)

lemma reserved_modest:
  assumes "budget_ok s" and "d \<in> set dims"
  shows "of_int \<lfloor>reserved d c (sv_grants s)\<rfloor> = reserved d c (sv_grants s)"
proof -
  have "of_int \<lfloor>reserved d c gs\<rfloor> = reserved d c gs" if "\<forall>g \<in> set gs. modest (units d (bg_requested g))" for gs
    using that by (induction gs) (auto simp: modest_def in_i64_add)
  then show ?thesis using grant_modest [OF assms] by simp
qed

lemma used_nonneg: "budget_ok s \<Longrightarrow> d \<in> set dims \<Longrightarrow> 0 \<le> used d g (sv_usages s)"
  unfolding used_def by (rule total_nonneg) (auto intro: modest_nonneg usage_modest)

lemma get_scope_Some: "get_scope s c = Some scope \<Longrightarrow> scope \<in> set (sv_scopes s) \<and> bs_id scope = c"
  unfolding get_scope_def by (rule found_in)

lemma get_grant_Some: "get_grant s i = Some g \<Longrightarrow> g \<in> set (sv_grants s) \<and> bg_id g = i"
  unfolding get_grant_def by (rule found_in)

lemma reserved_units:
  assumes "budget_ok s" and "d \<in> set dims" and "reserved d c (sv_grants s) \<le> 2 ^ 61"
  shows "units d (reserved_budget s c) = reserved d c (sv_grants s)"
proof -
  let ?as = "map bg_requested (filter (held c) (sv_grants s))"
  have "\<forall>a \<in> set ?as. in_i64 (units d a) \<and> 0 \<le> units d a"
    using grant_modest [OF assms(1,2)] by (auto intro: modest_i64 modest_nonneg)
  moreover have "total d ?as \<le> i64_MAX" using assms(3) by (simp add: reserved_def i64_MAX_def)
  ultimately have "units d (foldl add_amounts no_amount ?as) = total d ?as"
    using units_fold [OF assms(2), of ?as no_amount] assms(2) by (simp add: in_i64_def i64_MIN_def i64_MAX_def)
  then show ?thesis by (simp add: reserved_budget_def reserved_def held_def [abs_def])
qed

lemma usage_units:
  assumes "budget_ok s" and "d \<in> set dims" and "used d g (sv_usages s) \<le> 2 ^ 61"
  shows "units d (budget_usage_total s g) = used d g (sv_usages s)"
proof -
  let ?as = "map ru_usage (sort_by compare_usages (filter (\<lambda>u. ru_grantId u = g) (sv_usages s)))"
  have "\<forall>a \<in> set ?as. in_i64 (units d a) \<and> 0 \<le> units d a"
    using usage_modest [OF assms(1,2)] by (auto intro: modest_i64 modest_nonneg)
  moreover have "total d ?as \<le> i64_MAX" using assms(3) by (simp add: used_def i64_MAX_def)
  ultimately have "units d (foldl add_amounts no_amount ?as) = total d ?as"
    using units_fold [OF assms(2), of ?as no_amount] assms(2) by (simp add: in_i64_def i64_MIN_def i64_MAX_def)
  then show ?thesis by (simp add: budget_usage_total_def used_def)
qed

lemma used_modest:
  assumes "budget_ok s" "d \<in> set dims" "scope_ok d c l s" "g \<in> set (sv_grants s)" "bg_scopeId g = c"
  shows "modest (used d (bg_id g) (sv_usages s))" "used d (bg_id g) (sv_usages s) \<le> units d (bg_requested g)"
proof -
  show le: "used d (bg_id g) (sv_usages s) \<le> units d (bg_requested g)" using assms(3-5) by (auto simp: scope_ok_def)
  have "units d (bg_requested g) \<le> 2 ^ 61" using grant_modest [OF assms(1,2,4)] by (rule modest_nonneg)
  moreover have "of_int \<lfloor>used d (bg_id g) us\<rfloor> = used d (bg_id g) us" if "\<forall>u \<in> set us. modest_amount (ru_usage u)" for us
    using that
  proof (induction us)
    case (Cons u us)
    then show ?case using modest_dim [of "ru_usage u" d] assms(2) by (auto simp: used_def modest_def) (metis of_int_add)
  qed (simp add: used_def)
  then have "of_int \<lfloor>used d (bg_id g) (sv_usages s)\<rfloor> = used d (bg_id g) (sv_usages s)" using assms(1) by (simp add: budget_ok_def)
  ultimately show "modest (used d (bg_id g) (sv_usages s))" using le used_nonneg [OF assms(1,2)] by (simp add: modest_def)
qed

section \<open>The operations keep it\<close>

lemma draw_uuids_frame [simp]:
  "sv_usages (draw_uuids n s) = sv_usages s" "sv_grants (draw_uuids n s) = sv_grants s" "sv_scopes (draw_uuids n s) = sv_scopes s"
  by (simp_all add: draw_uuids_def)

lemma find_replaced:
  "List.find (\<lambda>x. key x = i) xs = Some x \<Longrightarrow> key y = i \<Longrightarrow>
   List.find (\<lambda>x. key x = k) (map (\<lambda>x. if key x = i then y else x) xs) = (if k = i then Some y else List.find (\<lambda>x. key x = k) xs)"
proof -
  assume y: "key y = i" and x: "List.find (\<lambda>x. key x = i) xs = Some x"
  have "k \<noteq> i \<Longrightarrow> List.find (\<lambda>x. key x = k) (map (\<lambda>x. if key x = i then y else x) xs) = List.find (\<lambda>x. key x = k) xs"
    using y by (induction xs) auto
  moreover have "List.find (\<lambda>x. key x = i) (map (\<lambda>x. if key x = i then y else x) xs) = Some y"
    using x y by (induction xs) (auto split: if_splits)
  ultimately show ?thesis by simp
qed

lemma get_scope_replace:
  "get_scope s i = Some x \<Longrightarrow> bs_id y = i \<Longrightarrow> get_scope (replace_scope y s) k = (if k = i then Some y else get_scope s k)"
  by (simp add: get_scope_def replace_scope_def find_replaced)

lemma replace_frames [simp]:
  "sv_grants (replace_scope y s) = sv_grants s" "sv_usages (replace_scope y s) = sv_usages s"
  "sv_scopes (replace_grant g s) = sv_scopes s" "sv_usages (replace_grant g s) = sv_usages s"
  "get_scope (replace_grant g s) = get_scope s" "budget_scope_id (replace_grant g s) = budget_scope_id s"
  "budget_scope_id (replace_scope y s) = budget_scope_id s"
  by (auto simp: replace_scope_def replace_grant_def get_scope_def budget_scope_id_def fun_eq_iff)

lemma replace_scope_ok:
  assumes "budget_ok s" and "get_scope s (bs_id y) = Some x" and "bs_kind y = bs_kind x" "bs_ownerId y = bs_ownerId x"
    "bs_windowKind y = bs_windowKind x"
  shows "budget_ok (replace_scope y s)"
proof -
  have x: "x \<in> set (sv_scopes s)" "bs_id x = bs_id y" using get_scope_Some [OF assms(2)] by auto
  have ids: "map bs_id (sv_scopes (replace_scope y s)) = map bs_id (sv_scopes s)" by (auto simp: replace_scope_def)
  then have image: "bs_id ` set (sv_scopes (replace_scope y s)) = bs_id ` set (sv_scopes s)" by (metis list.set_map)
  have named: "scope_named s z"
    if "z \<in> set (sv_scopes (replace_scope y s))" for z
  proof -
    have "z = y \<or> z \<in> set (sv_scopes s)" using that by (auto simp: replace_scope_def)
    then show ?thesis using assms(1,3-5) x by (auto simp: budget_ok_def scope_named_def list_all_iff)
  qed
  show ?thesis unfolding budget_ok_def ids image replace_frames
    using assms(1) named unfolding budget_ok_def by (auto simp: list_all_iff scope_named_def)
qed

lemma replace_grant_ok:
  assumes "budget_ok s" and "get_grant s (bg_id g) = Some h" and "bg_scopeId g = bg_scopeId h" "bg_requested g = bg_requested h"
  shows "budget_ok (replace_grant g s)"
proof -
  have h: "h \<in> set (sv_grants s)" "bg_id h = bg_id g" using get_grant_Some [OF assms(2)] by auto
  have ids: "map bg_id (sv_grants (replace_grant g s)) = map bg_id (sv_grants s)" by (auto simp: replace_grant_def)
  then have "bg_id ` set (sv_grants (replace_grant g s)) = bg_id ` set (sv_grants s)" by (metis list.set_map)
  moreover have "bg_scopeId k \<in> bs_id ` set (sv_scopes s) \<and> modest_amount (bg_requested k)"
    if "k \<in> set (sv_grants (replace_grant g s))" for k
  proof -
    have "k = g \<or> k \<in> set (sv_grants s)" using that by (auto simp: replace_grant_def)
    then show ?thesis using assms(1,3,4) h by (auto simp: budget_ok_def)
  qed
  ultimately show ?thesis using assms(1) ids by (simp add: budget_ok_def)
qed

text \<open>A reserved grant that is settled or released frees its reservation.\<close>

lemma settle_grant_scope_ok:
  assumes "budget_ok s" and "scope_ok d c l s" and "d \<in> set dims" and "get_grant s (bg_id g) = Some h"
    and "bg_scopeId g = bg_scopeId h" "bg_requested g = bg_requested h" "bg_state g \<noteq> BG_reserved"
  shows "scope_ok d c l (replace_grant g s)"
    and "reserved d c (sv_grants (replace_grant g s)) =
      reserved d c (sv_grants s) - (if held c h then units d (bg_requested h) else 0)"
proof -
  have h: "h \<in> set (sv_grants s)" "bg_id h = bg_id g" using get_grant_Some [OF assms(4)] by auto
  show sum: "reserved d c (sv_grants (replace_grant g s)) =
      reserved d c (sv_grants s) - (if held c h then units d (bg_requested h) else 0)"
    using assms(1,7) h reserved_replace [of "sv_grants s" h g d c] by (simp add: replace_grant_def budget_ok_def)
  have "0 \<le> units d (bg_requested h)" using grant_modest [OF assms(1,3) h(1)] by (rule modest_nonneg)
  then have "reserved d c (sv_grants (replace_grant g s)) \<le> reserved d c (sv_grants s)" using sum by simp
  moreover have "used d (bg_id k) (sv_usages s) \<le> units d (bg_requested k)"
    if "k \<in> set (sv_grants (replace_grant g s))" "bg_scopeId k = c" for k
  proof -
    have "k = g \<or> k \<in> set (sv_grants s)" using that(1) by (auto simp: replace_grant_def)
    then show ?thesis using that(2) assms(2,5,6) h by (auto simp: scope_ok_def)
  qed
  ultimately show "scope_ok d c l (replace_grant g s)" using assms(2) by (force simp: scope_ok_def)
qed

lemma release_keeps:
  assumes "budget_ok s" and "scope_ok d c l s" and "d \<in> set dims" and "release_budget i s = Inr (x, t)"
  shows "budget_ok t \<and> scope_ok d c l t"
proof -
  have "t = s \<or> (\<exists>h g. get_grant s i = Some h \<and> t = replace_grant g s \<and> bg_id g = bg_id h \<and> bg_scopeId g = bg_scopeId h \<and>
      bg_requested g = bg_requested h \<and> bg_state g \<noteq> BG_reserved)"
    using assms(4) by (auto simp: release_budget_def Let_def split: option.splits if_splits)
  then show ?thesis
  proof (elim disjE exE conjE)
    fix h g
    assume g: "get_grant s i = Some h" "t = replace_grant g s" "bg_id g = bg_id h" "bg_scopeId g = bg_scopeId h"
      "bg_requested g = bg_requested h" "bg_state g \<noteq> BG_reserved"
    then have "get_grant s (bg_id g) = Some h" using get_grant_Some [OF g(1)] by simp
    then show ?thesis using replace_grant_ok [OF assms(1)] settle_grant_scope_ok(1) [OF assms(1-3)] g by simp
  qed (use assms in simp)
qed

lemma commit_cases:
  assumes "commit_budget_grant_tx i s = Inr (x, t)"
  obtains "t = s"
  | h scope g y where "get_grant s i = Some h" "bg_state h = BG_reserved" "get_scope s (bg_scopeId h) = Some scope"
    "fits_budget (bs_limit scope) (bs_usage scope) (budget_usage_total s (bg_id h))"
    "bg_id g = bg_id h" "bg_scopeId g = bg_scopeId h" "bg_requested g = bg_requested h" "bg_state g \<noteq> BG_reserved"
    "y = scope\<lparr>bs_usage := add_amounts (bs_usage scope) (budget_usage_total s (bg_id h)), bs_updatedAt := sv_now s\<rparr>"
    "t = replace_grant g (replace_scope y s)"
proof -
  let ?g = "\<lambda>h. h\<lparr>bg_state := BG_committed, bg_committed := Some (budget_usage_total s (bg_id h)), bg_updatedAt := sv_now s\<rparr>"
  let ?y = "\<lambda>h y. y\<lparr>bs_usage := add_amounts (bs_usage y) (budget_usage_total s (bg_id h)), bs_updatedAt := sv_now s\<rparr>"
  show thesis
  proof (cases "get_grant s i")
    case None
    then show thesis using assms that(1) by (simp add: commit_budget_grant_tx_def)
  next
    case (Some h)
    show thesis
    proof (cases "bg_state h = BG_reserved")
      case False
      then show thesis using Some assms that(1) by (simp add: commit_budget_grant_tx_def)
    next
      case True
      show thesis
      proof (cases "get_scope s (bg_scopeId h)")
        case None
        then show thesis using Some True assms by (simp add: commit_budget_grant_tx_def)
      next
        case sc: (Some scope)
        have fits: "fits_budget (bs_limit scope) (bs_usage scope) (budget_usage_total s (bg_id h))"
          by (rule ccontr) (use Some True sc assms in \<open>simp add: commit_budget_grant_tx_def\<close>)
        then have "t = replace_grant (?g h) (replace_scope (?y h scope) s)"
          using Some True sc assms by (simp add: commit_budget_grant_tx_def Let_def)
        then show thesis using Some True sc fits by (intro that(2) [of h scope "?g h" "?y h scope"]) simp_all
      qed
    qed
  qed
qed

lemma commit_keeps:
  assumes "budget_ok s" and "scope_ok d c l s" and "d \<in> set dims" and "l \<le> 2 ^ 61"
    and "commit_budget_grant_tx i s = Inr (x, t)"
  shows "budget_ok t \<and> scope_ok d c l t"
  using assms(5)
proof (cases rule: commit_cases)
  case (2 h scope g y)
  note h = get_grant_Some [OF 2(1)] and sc = get_scope_Some [OF 2(3)]
  have y: "bs_id y = bg_scopeId h" "bs_limit y = bs_limit scope" "bs_kind y = bs_kind scope" "bs_ownerId y = bs_ownerId scope"
    "bs_windowKind y = bs_windowKind scope" using 2(9) sc by simp_all
  have ok1: "budget_ok (replace_scope y s)" using replace_scope_ok [OF assms(1), of y scope] 2(3) y by simp
  have g1: "get_grant (replace_scope y s) (bg_id g) = Some h" using 2(1,5) h by (simp add: get_grant_def)
  have ok: "budget_ok t" unfolding 2(10) using replace_grant_ok [OF ok1 g1 2(6,7)] .
  have "units d (bs_usage y) + reserved d c (sv_grants t) \<le> l \<and> modest (units d (bs_usage y)) \<and> d (bs_limit y) = Some l"
    if c: "c = bg_scopeId h"
  proof -
    have s: "d (bs_limit scope) = Some l" "modest (units d (bs_usage scope))"
      "units d (bs_usage scope) + reserved d c (sv_grants s) \<le> l" using assms(2) 2(3) c by (auto simp: scope_ok_def)
    note u = used_modest [OF assms(1,3,2), of h, OF _ c [symmetric]]
    have hs: "h \<in> set (sv_grants s)" using h by simp
    have u2: "units d (budget_usage_total s (bg_id h)) = used d (bg_id h) (sv_usages s)"
      using modest_nonneg(2) [OF u(1) [OF hs]] by (rule usage_units [OF assms(1,3)])
    have "units d (bs_usage scope) \<le> l" using s(3) reserved_nonneg [OF assms(1,3), of c] by simp
    have rep: "reserved d c (sv_grants t) = reserved d c (sv_grants s) - units d (bg_requested h)"
      using reserved_replace [of "sv_grants s" h g d c] assms(1) hs 2(2,5,8) c
      by (simp add: 2(10) replace_grant_def budget_ok_def held_def)
    have fin: "reserved d c (sv_grants t) \<ge> 0" using reserved_nonneg [OF ok assms(3)] .
    have tot: "units d (bs_usage scope) + used d (bg_id h) (sv_usages s) \<le> l"
      using s(3) rep fin u(2) [OF hs] by simp
    then have "modest (units d (bs_usage scope) + used d (bg_id h) (sv_usages s))"
      using s(2) u(1) [OF hs] assms(4) by (intro modest_sum) simp_all
    moreover have "units d (bs_usage y) = units d (bs_usage scope) + used d (bg_id h) (sv_usages s)"
      using units_add [OF assms(3), of "bs_usage scope" "budget_usage_total s (bg_id h)"] calculation s(2) u(1) [OF hs] u2
      by (simp add: 2(9) modest_i64) (simp add: modest_def i64_MAX_def)
    ultimately show ?thesis using s(1,3) rep u(2) [OF hs] y(2) by simp
  qed
  moreover have "units d (bs_usage sc) + reserved d c (sv_grants t) \<le> l \<and> modest (units d (bs_usage sc)) \<and> d (bs_limit sc) = Some l"
    if "c \<noteq> bg_scopeId h" "get_scope s c = Some sc" for sc
  proof -
    have "reserved d c (sv_grants t) = reserved d c (sv_grants s)"
      using reserved_replace [of "sv_grants s" h g d c] assms(1) h 2(5,8) that(1)
      by (simp add: 2(10) replace_grant_def budget_ok_def held_def)
    then show ?thesis using assms(2) that(2) by (auto simp: scope_ok_def)
  qed
  moreover have "get_scope t k = (if k = bg_scopeId h then Some y else get_scope s k)" for k
    using get_scope_replace [OF 2(3) y(1)] by (simp add: 2(10))
  moreover have "used d (bg_id k) (sv_usages t) \<le> units d (bg_requested k)" if "k \<in> set (sv_grants t)" "bg_scopeId k = c" for k
  proof -
    have "k = g \<or> k \<in> set (sv_grants s)" using that(1) by (auto simp: 2(10) replace_grant_def)
    then show ?thesis using that(2) assms(2) h 2(5-7) by (auto simp: scope_ok_def 2(10))
  qed
  ultimately have "scope_ok d c l t" unfolding scope_ok_def by (metis option.inject)
  with ok show ?thesis by simp
qed (use assms in simp)

lemma record_keeps:
  assumes "budget_ok s" and "scope_ok d c l s" and "d \<in> set dims" and "modest_amount (ru_usage r)"
    and "record_budget_usage r s = Inr (x, t)"
  shows "budget_ok t \<and> scope_ok d c l t"
proof -
  define e where "e = \<lparr>ru_grantId = ru_grantId r, ru_usage = ru_usage r, ru_source = ru_source r, ru_sourceId = ru_sourceId r,
    ru_idempotencyKey = ru_idempotencyKey r, ue_id = ''bue_'' @ sv_uuid s 0, ue_createdAt = sv_now s\<rparr>"
  then have e: "ru_grantId e = ru_grantId r" "ru_usage e = ru_usage r" by simp_all
  have "t = s \<or> (\<exists>h. get_grant s (ru_grantId r) = Some h \<and>
      fits_reserved_grant (bg_requested h) (budget_usage_total s (bg_id h)) (ru_usage r) \<and>
      t = draw_uuids 1 (s\<lparr>sv_usages := sv_usages s @ [e]\<rparr>))"
    using assms(5) by (auto simp: record_budget_usage_def Let_def res_bind_eq_Inr guard_def invariant_guard_def require_some_def e_def
        split: option.splits if_splits)
  then show ?thesis
  proof (elim disjE exE conjE)
    fix h
    assume h: "get_grant s (ru_grantId r) = Some h"
      and fits: "fits_reserved_grant (bg_requested h) (budget_usage_total s (bg_id h)) (ru_usage r)"
      and t: "t = draw_uuids 1 (s\<lparr>sv_usages := sv_usages s @ [e]\<rparr>)"
    note hs = get_grant_Some [OF h]
    have "ru_grantId r \<in> bg_id ` set (sv_grants s)" using hs by force
    then have "budget_ok t" using assms(1,4) e hs by (auto simp: t budget_ok_def draw_uuids_frame)
    moreover have "used d (bg_id k) (sv_usages s) + used d (bg_id k) [e] \<le> units d (bg_requested k)"
      if k: "k \<in> set (sv_grants s)" "bg_scopeId k = c" for k
    proof (cases "bg_id k = bg_id h")
      case True
      moreover have "inj_on bg_id (set (sv_grants s))" using assms(1) by (simp add: budget_ok_def distinct_map)
      ultimately have [simp]: "k = h" using hs k(1) by (metis inj_onD)
      note u = used_modest [OF assms(1,3,2) k]
      have "units d (budget_usage_total s (bg_id h)) = used d (bg_id h) (sv_usages s)"
        using modest_nonneg(2) [OF u(1)] by (intro usage_units [OF assms(1,3)]) simp
      moreover have "i64_add (units d (budget_usage_total s (bg_id h))) (units d (ru_usage r)) \<le> units d (bg_requested h)"
        using fits_grant_dim [OF fits assms(3)] by (simp add: fits_reserved_dimension_def units_def)
      ultimately show ?thesis using modest_add [OF u(1) modest_dim [OF assms(4,3)]] e hs by simp
    next
      case False
      then show ?thesis using assms(2) k e hs by (auto simp: scope_ok_def)
    qed
    then have "scope_ok d c l t" using assms(2) by (auto simp: t scope_ok_def draw_uuids_def get_scope_def)
    ultimately show ?thesis by simp
  qed (use assms in simp)
qed

subsection \<open>Reservations\<close>

lemma find_map_key: "(\<And>x. key (f x) = key x) \<Longrightarrow> List.find (\<lambda>x. key x = k) (map f xs) = map_option f (List.find (\<lambda>x. key x = k) xs)"
  by (induction xs) auto

lemma find_snoc: "List.find P (xs @ [x]) = (case List.find P xs of None \<Rightarrow> if P x then Some x else None | Some y \<Rightarrow> Some y)"
  by (induction xs) auto

lemma find_None_image: "List.find (\<lambda>x. key x = k) xs = None \<longleftrightarrow> k \<notin> key ` set xs"
  by (auto simp: find_None_iff image_iff)

lemma unknown_scope_unreserved: "budget_ok s \<Longrightarrow> get_scope s c = None \<Longrightarrow> reserved d c (sv_grants s) = 0"
proof -
  assume "budget_ok s" "get_scope s c = None"
  then have "\<forall>g \<in> set (sv_grants s). bg_scopeId g \<noteq> c" by (auto simp: budget_ok_def get_scope_def find_None_image)
  then show ?thesis unfolding reserved_def by (metis (no_types, lifting) filter_False held_def list.simps(8) total_simps(1))
qed

definition relimit :: "ReserveBudgetRequest \<Rightarrow> BudgetWindowKind \<Rightarrow> number \<Rightarrow> BudgetScopeRecord \<Rightarrow> BudgetScopeRecord" where
  "relimit r window now c =
     (if bs_kind c = bf_kind (rb_scope r) \<and> bs_ownerId c = bf_ownerId (rb_scope r) \<and> bs_windowKind c = window
      then c\<lparr>bs_limit := rb_limit r, bs_updatedAt := now\<rparr> else c)"

lemma relimit_frames [simp]:
  "bs_id (relimit r w n c) = bs_id c" "bs_kind (relimit r w n c) = bs_kind c" "bs_ownerId (relimit r w n c) = bs_ownerId c"
  "bs_windowKind (relimit r w n c) = bs_windowKind c" "bs_usage (relimit r w n c) = bs_usage c"
  by (simp_all add: relimit_def)

lemma upsert_cases:
  assumes "upsert_budget_scope r i w s = Inr t"
  shows "t = s\<lparr>sv_scopes := map (relimit r w (sv_now s)) (sv_scopes s)\<rparr> \<or>
    (\<exists>y. get_scope s i = None \<and> t = s\<lparr>sv_scopes := sv_scopes s @ [y]\<rparr> \<and> bs_id y = i \<and> bs_kind y = bf_kind (rb_scope r) \<and>
       bs_ownerId y = bf_ownerId (rb_scope r) \<and> bs_windowKind y = w \<and> bs_limit y = rb_limit r \<and> bs_usage y = no_amount)"
  using assms by (auto simp: upsert_budget_scope_def relimit_def [abs_def] Let_def res_bind_eq_Inr guard_def split: if_splits)

lemma upsert_budget_ok:
  assumes "budget_ok s" and i: "i = budget_scope_id s (bf_kind (rb_scope r)) (bf_ownerId (rb_scope r)) w"
    and "upsert_budget_scope r i w s = Inr t"
  shows "budget_ok t"
  using upsert_cases [OF assms(3)]
proof (elim disjE exE conjE)
  assume t: "t = s\<lparr>sv_scopes := map (relimit r w (sv_now s)) (sv_scopes s)\<rparr>"
  have "map bs_id (sv_scopes t) = map bs_id (sv_scopes s)" "bs_id ` set (sv_scopes t) = bs_id ` set (sv_scopes s)"
    by (simp_all add: t image_image)
  moreover have "list_all (scope_named t) (sv_scopes t)"
    using assms(1) by (auto simp: t budget_ok_def budget_scope_id_def scope_named_def list_all_iff)
  moreover have "sv_grants t = sv_grants s" "sv_usages t = sv_usages s" by (simp_all add: t)
  ultimately show ?thesis using assms(1) by (simp add: budget_ok_def)
next
  fix y
  assume new: "get_scope s i = None" and t: "t = s\<lparr>sv_scopes := sv_scopes s @ [y]\<rparr>" and y: "bs_id y = i"
    "bs_kind y = bf_kind (rb_scope r)" "bs_ownerId y = bf_ownerId (rb_scope r)" "bs_windowKind y = w"
  have "i \<notin> bs_id ` set (sv_scopes s)" using new by (simp add: get_scope_def find_None_image)
  then have "distinct (map bs_id (sv_scopes t))" using assms(1) y(1) by (simp add: t budget_ok_def)
  moreover have "list_all (scope_named t) (sv_scopes t)"
    using assms(1) y i by (auto simp: t budget_ok_def budget_scope_id_def scope_named_def list_all_iff)
  moreover have "bs_id ` set (sv_scopes s) \<subseteq> bs_id ` set (sv_scopes t)" "sv_grants t = sv_grants s" "sv_usages t = sv_usages s"
    by (auto simp: t)
  ultimately show ?thesis using assms(1) by (auto simp: budget_ok_def)
qed

lemma upsert_scope_ok:
  assumes "budget_ok s" and "scope_ok d c l s" and "d \<in> set dims" and "0 \<le> l"
    and i: "i = budget_scope_id s (bf_kind (rb_scope r)) (bf_ownerId (rb_scope r)) w"
    and limit: "i = c \<Longrightarrow> d (rb_limit r) = Some l" and "upsert_budget_scope r i w s = Inr t"
  shows "scope_ok d c l t"
  using upsert_cases [OF assms(7)]
proof (elim disjE exE conjE)
  assume t: "t = s\<lparr>sv_scopes := map (relimit r w (sv_now s)) (sv_scopes s)\<rparr>"
  have get: "get_scope t c = map_option (relimit r w (sv_now s)) (get_scope s c)"
    by (simp add: t get_scope_def find_map_key)
  have "d (bs_limit (relimit r w (sv_now s) y)) = Some l" if "get_scope s c = Some y" for y
  proof -
    have "bs_id y = budget_scope_id s (bs_kind y) (bs_ownerId y) (bs_windowKind y)" "bs_id y = c"
      using get_scope_Some [OF that] assms(1) by (auto simp: budget_ok_def scope_named_def list_all_iff)
    then show ?thesis using assms(2) that limit i by (auto simp: relimit_def scope_ok_def)
  qed
  then show ?thesis using assms(2) get by (auto simp: scope_ok_def t)
next
  fix y
  assume t: "t = s\<lparr>sv_scopes := sv_scopes s @ [y]\<rparr>" and y: "bs_id y = i" "bs_limit y = rb_limit r" "bs_usage y = no_amount"
  have get: "get_scope t c = (case get_scope s c of None \<Rightarrow> if i = c then Some y else None | Some z \<Rightarrow> Some z)"
    using y(1) by (simp add: t get_scope_def find_snoc)
  show ?thesis
  proof (cases "get_scope s c")
    case None
    then have "reserved d c (sv_grants t) = 0" using unknown_scope_unreserved [OF assms(1)] by (simp add: t)
    then show ?thesis using None get assms(2,3,4) y limit by (auto simp: scope_ok_def t modest_def split: if_splits)
  next
    case (Some z)
    then show ?thesis using get assms(2) by (simp add: scope_ok_def t)
  qed
qed

lemma reserve_cases:
  assumes "reserve_budget r s = (x, u)"
  shows "u = s \<or> (\<exists>w i t. w = opt_else (bf_windowKind (rb_scope r)) BW_session \<and>
      i = budget_scope_id s (bf_kind (rb_scope r)) (bf_ownerId (rb_scope r)) w \<and> upsert_budget_scope r i w s = Inr t \<and>
      (u = t \<or> (\<exists>y g. get_scope t i = Some y \<and> bg_scopeId g = i \<and> bg_requested g = rb_requested r \<and> get_grant t (bg_id g) = None \<and>
          fits_budget (bs_limit y) (add_amounts (bs_usage y) (reserved_budget t i)) (rb_requested r) \<and>
          u = draw_uuids 1 (t\<lparr>sv_grants := sv_grants t @ [g]\<rparr>))))"
proof -
  let ?w = "opt_else (bf_windowKind (rb_scope r)) BW_session"
  let ?i = "budget_scope_id s (bf_kind (rb_scope r)) (bf_ownerId (rb_scope r)) ?w"
  show ?thesis
  proof (cases "upsert_budget_scope r ?i ?w s")
    case (Inr t)
    have "u = s \<or> u = t \<or> (\<exists>y. get_scope t ?i = Some y \<and> get_grant t (bg_id (new_grant r ?i t)) = None \<and>
       fits_budget (bs_limit y) (add_amounts (bs_usage y) (reserved_budget t ?i)) (rb_requested r) \<and>
       u = draw_uuids 1 (t\<lparr>sv_grants := sv_grants t @ [new_grant r ?i t]\<rparr>))"
      using assms Inr get_scope_Some [of t ?i]
      by (simp add: reserve_budget_def Let_def new_grant_def split: option.splits if_splits sum.splits)
    moreover have "bg_scopeId (new_grant r ?i t) = ?i" "bg_requested (new_grant r ?i t) = rb_requested r"
      by (simp_all add: new_grant_def)
    ultimately show ?thesis using Inr by blast
  qed (use assms in \<open>auto simp: reserve_budget_def Let_def split: sum.splits\<close>)
qed

lemma reserve_keeps:
  assumes "budget_ok s" and "scope_ok d c l s" and "d \<in> set dims" and "0 \<le> l" and "l \<le> 2 ^ 61"
    and "modest_amount (rb_requested r)"
    and limit: "budget_scope_id s (bf_kind (rb_scope r)) (bf_ownerId (rb_scope r))
      (opt_else (bf_windowKind (rb_scope r)) BW_session) = c \<Longrightarrow> d (rb_limit r) = Some l"
    and "reserve_budget r s = (x, u)"
  shows "budget_ok u \<and> scope_ok d c l u"
  using reserve_cases [OF assms(8)]
proof (elim disjE exE conjE)
  fix w i t
  assume w: "w = opt_else (bf_windowKind (rb_scope r)) BW_session"
    and i: "i = budget_scope_id s (bf_kind (rb_scope r)) (bf_ownerId (rb_scope r)) w" and up: "upsert_budget_scope r i w s = Inr t"
  note kept = upsert_budget_ok [OF assms(1) i up] upsert_scope_ok [OF assms(1-4) i limit [folded w, folded i] up]
  { assume "u = t" then show ?thesis using kept by simp }
  fix y g
  assume y: "get_scope t i = Some y" and g: "bg_scopeId g = i" "bg_requested g = rb_requested r" "get_grant t (bg_id g) = None"
    and fits: "fits_budget (bs_limit y) (add_amounts (bs_usage y) (reserved_budget t i)) (rb_requested r)"
    and u: "u = draw_uuids 1 (t\<lparr>sv_grants := sv_grants t @ [g]\<rparr>)"
  have fresh: "bg_id g \<notin> bg_id ` set (sv_grants t)" using g(3) by (simp add: get_grant_def find_None_image)
  have "i \<in> bs_id ` set (sv_scopes t)" using get_scope_Some [OF y] by auto
  then have ok: "budget_ok u" using kept(1) fresh g assms(6) unfolding budget_ok_def
    by (auto simp: u draw_uuids_frame)
  have unused: "used d (bg_id g) (sv_usages t) = 0" using kept(1) fresh by (intro used_none) (metis budget_ok_def)
  have req: "modest (units d (rb_requested r))" using assms(6,3) by (rule modest_dim)
  have "units d (bs_usage z) + reserved d c (sv_grants t @ [g]) \<le> l" if z: "get_scope t c = Some z" for z
  proof (cases "c = i")
    case True
    have zs: "z = y" "d (bs_limit y) = Some l" "modest (units d (bs_usage y))"
      "units d (bs_usage y) + reserved d c (sv_grants t) \<le> l" using kept(2) y z True by (auto simp: scope_ok_def)
    have "reserved d c (sv_grants t) \<le> 2 ^ 61" using zs(3,4) assms(5) by (simp add: modest_def)
    then have res: "units d (reserved_budget t i) = reserved d c (sv_grants t)"
      using reserved_units [OF kept(1) assms(3)] True by simp
    have nonneg: "0 \<le> reserved d c (sv_grants t)" using reserved_nonneg [OF kept(1) assms(3)] .
    have whole: "modest (units d (bs_usage y) + reserved d c (sv_grants t))"
      using zs(3,4) assms(5) reserved_modest [OF kept(1) assms(3)] nonneg by (intro modest_sum) (simp_all add: modest_def)
    have "units d (add_amounts (bs_usage y) (reserved_budget t i)) = units d (bs_usage y) + reserved d c (sv_grants t)"
      using whole zs(3) nonneg reserved_modest [OF kept(1) assms(3)] res zs(4) assms(5)
      by (subst units_add [OF assms(3)]) (simp_all add: modest_i64, simp_all add: modest_def i64_MAX_def in_i64_def i64_MIN_def)
    moreover have "i64_add (units d (add_amounts (bs_usage y) (reserved_budget t i))) (units d (rb_requested r)) \<le> l"
      using fits_budget_dim [OF fits assms(3)] zs(2) by (simp add: fits_dimension_def units_def)
    ultimately have "units d (bs_usage y) + reserved d c (sv_grants t) + units d (rb_requested r) \<le> l"
      using modest_add [OF whole req] by simp
    then show ?thesis using zs(1) g modest_nonneg(1) [OF req] by simp
  next
    case False
    then show ?thesis using kept(2) z g(1) by (auto simp: scope_ok_def held_def)
  qed
  then have "scope_ok d c l u" using kept(2) unused g modest_nonneg(1) [OF req] unfolding scope_ok_def
    by (auto simp: u draw_uuids_def get_scope_def)
  with ok show ?thesis by simp
qed (use assms in simp)

section \<open>Steps\<close>

text \<open>
  The service, as far as budgets are concerned. Reservations for the scope \<open>c\<close> agree on the limit
  \<open>L\<close>; amounts that are asked for or used are whole numbers up to \<open>2 ^ 61\<close>.
\<close>

inductive budget_step :: "string \<Rightarrow> BudgetAmount \<Rightarrow> service \<Rightarrow> service \<Rightarrow> bool" for c :: string and L :: BudgetAmount where
  budget_reserve: "reserve_budget r s = (x, t) \<Longrightarrow> modest_amount (rb_requested r) \<Longrightarrow>
    (budget_scope_id s (bf_kind (rb_scope r)) (bf_ownerId (rb_scope r)) (opt_else (bf_windowKind (rb_scope r)) BW_session) = c
      \<longrightarrow> rb_limit r = L) \<Longrightarrow> budget_step c L s t"
| budget_usage: "record_budget_usage r1 s = Inr (x1, t) \<Longrightarrow> modest_amount (ru_usage r1) \<Longrightarrow> budget_step c L s t"
| budget_commit: "commit_budget r2 s = Inr (x2, t) \<Longrightarrow> budget_step c L s t"
| budget_release: "release_budget i s = Inr (x3, t) \<Longrightarrow> budget_step c L s t"
| budget_complete: "complete_job r4 s = Inr (x4, t) \<Longrightarrow> budget_step c L s t"
| budget_fail: "fail_job r5 s = Inr (x5, t) \<Longrightarrow> budget_step c L s t"
| budget_cancel: "cancel_job r6 s = Inr (x6, t) \<Longrightarrow> budget_step c L s t"
| budget_enqueue: "enqueue_job r7 s = Inr (x7, t) \<Longrightarrow> budget_step c L s t"
| budget_claim: "claim_job r8 s = Inr (x8, t) \<Longrightarrow> budget_step c L s t"
| budget_heartbeat: "heartbeat_job r9 s = Inr (x9, t) \<Longrightarrow> budget_step c L s t"
| budget_materialize: "materialize_ready_delegation_graph_node r10 s = Inr (x10, t) \<Longrightarrow> budget_step c L s t"
| budget_clock: "budget_step c L s (s\<lparr>sv_now := n\<rparr>)"

lemma same_budgets_refl [simp]: "same_budgets s s"
  by (simp add: same_budgets_def)

lemma same_budgets_trans: "same_budgets s t \<Longrightarrow> same_budgets t u \<Longrightarrow> same_budgets s u"
  by (simp add: same_budgets_def)

lemma same_budgets_updates [simp]:
  "same_budgets s (update_job i f s)" "same_budgets s (reset_expired_leases s)" "same_budgets s (draw_uuids n s)"
  "same_budgets s (s\<lparr>sv_now := m\<rparr>)" "same_budgets s (s\<lparr>sv_jobs := js\<rparr>)" "same_budgets s (s\<lparr>sv_graphs := g\<rparr>)"
  by (simp_all add: same_budgets_def update_job_def reset_expired_leases_def draw_uuids_def)

lemma enqueue_same: "enqueue_job r s = Inr (x, t) \<Longrightarrow> same_budgets s t"
  by (auto simp: enqueue_job_def res_bind_eq_Inr same_budgets_def draw_uuids_def)

lemma heartbeat_same: "heartbeat_job r s = Inr (x, t) \<Longrightarrow> same_budgets s t"
  by (auto simp: heartbeat_job_def res_bind_eq_Inr Let_def split: option.splits if_splits)

lemma claim_same: "claim_job r s = Inr (x, t) \<Longrightarrow> same_budgets s t"
  by (auto simp: claim_job_def res_bind_eq_Inr Let_def same_budgets_def update_job_def reset_expired_leases_def draw_uuids_def
      split: list.splits)

lemma commit_job_keeps:
  assumes "budget_ok s" and "scope_ok d c l s" and "d \<in> set dims" and "l \<le> 2 ^ 61" and "commit_job_grant job s = Inr t"
  shows "budget_ok t \<and> scope_ok d c l t"
proof -
  have "t = s \<or> (\<exists>g x. commit_budget_grant_tx g s = Inr (x, t))"
    using assms(5) by (auto simp: commit_job_grant_def res_bind_eq_Inr split: option.splits)
  then show ?thesis using commit_keeps [OF assms(1-4)] assms(1,2) by blast
qed

text \<open>A settled job changes its row and commits its grant.\<close>

definition settled_to :: "service \<Rightarrow> service \<Rightarrow> bool" where
  "settled_to s t \<longleftrightarrow> same_budgets s t \<or> (\<exists>u job. same_budgets s u \<and> commit_job_grant job u = Inr t)"

lemma settled_keeps:
  assumes "budget_ok s" and "scope_ok d c l s" and "d \<in> set dims" and "l \<le> 2 ^ 61" and "settled_to s t"
  shows "budget_ok t \<and> scope_ok d c l t"
  using assms(5) commit_job_keeps [OF _ _ assms(3,4)] assms(1,2) same_budgets_ok unfolding settled_to_def by metis

lemma complete_settles: "complete_job r s = Inr (x, t) \<Longrightarrow> settled_to s t"
  using same_budgets_updates(1)
  by (auto simp: complete_job_def res_bind_eq_Inr settled_to_def split: option.splits if_splits)

lemma cancel_settles: "cancel_job r s = Inr (x, t) \<Longrightarrow> settled_to s t"
  using same_budgets_updates(1)
  by (auto simp: cancel_job_def res_bind_eq_Inr settled_to_def split: option.splits if_splits)

lemma fail_settles: "fail_job r s = Inr (x, t) \<Longrightarrow> settled_to s t"
  using same_budgets_updates(1)
  by (auto simp: fail_job_def res_bind_eq_Inr settled_to_def split: option.splits if_splits)

lemma materialize_same: "materialize_ready_delegation_graph_node r s = Inr (x, t) \<Longrightarrow> same_budgets s t"
proof -
  assume call: "materialize_ready_delegation_graph_node r s = Inr (x, t)"
  show ?thesis
  proof (cases "find_materializable_node r s")
    case None
    then have "t = s" using call by (auto simp: materialize_ready_delegation_graph_node_def result_simps)
    then show ?thesis by simp
  next
    case (Some n)
    then show ?thesis using call
      by (auto simp: materialize_ready_delegation_graph_node_def result_simps Let_def draw_uuids_def replace_node_def same_budgets_def)
  qed
qed

lemma budget_step_keeps:
  assumes "budget_step c L s t" and "budget_ok s \<and> scope_ok d c l s" and "d \<in> set dims" and "d L = Some l" and "0 \<le> l"
    and "l \<le> 2 ^ 61"
  shows "budget_ok t \<and> scope_ok d c l t"
  using assms(1)
proof cases
  case (budget_reserve r x)
  then show ?thesis using assms(2-6) by (intro reserve_keeps [of s d c l r x t]) auto
next
  case (budget_usage r x)
  then show ?thesis using assms(2,3) record_keeps by blast
next
  case (budget_commit r x)
  then show ?thesis using assms(2,3,6) commit_keeps unfolding commit_budget_def by blast
next
  case (budget_release i x)
  then show ?thesis using assms(2,3) release_keeps by blast
next
  case (budget_complete r x)
  then show ?thesis using assms(2,3,6) settled_keeps complete_settles by blast
next
  case (budget_fail r x)
  then show ?thesis using assms(2,3,6) settled_keeps fail_settles by blast
next
  case (budget_cancel r x)
  then show ?thesis using assms(2,3,6) settled_keeps cancel_settles by blast
next
  case (budget_enqueue r x)
  then show ?thesis using assms(2) same_budgets_ok enqueue_same by blast
next
  case (budget_claim r x)
  then show ?thesis using assms(2) same_budgets_ok claim_same by blast
next
  case (budget_heartbeat r x)
  then show ?thesis using assms(2) same_budgets_ok heartbeat_same by blast
next
  case (budget_materialize r x)
  then show ?thesis using assms(2) same_budgets_ok materialize_same by blast
next
  case (budget_clock n)
  then show ?thesis using assms(2) same_budgets_ok same_budgets_updates(4) by blast
qed

lemma budget_steps_keep:
  assumes "(budget_step c L)\<^sup>*\<^sup>* s t" and "budget_ok s \<and> scope_ok d c l s" and "d \<in> set dims" and "d L = Some l" and "0 \<le> l"
    and "l \<le> 2 ^ 61"
  shows "budget_ok t \<and> scope_ok d c l t"
  using assms(1)
  by (induction rule: rtranclp_induct) (use assms(2) in simp, use budget_step_keeps assms(3-6) in blast)


definition demo_reserve :: "string \<Rightarrow> number \<Rightarrow> number \<Rightarrow> ReserveBudgetRequest" where
  "demo_reserve key limit amount =
     \<lparr>rb_scope = \<lparr>bf_kind = BK_session, bf_ownerId = ''o'', bf_windowKind = None\<rparr>,
      rb_limit = no_amount\<lparr>ba_tokens := Some limit\<rparr>, rb_requested = no_amount\<lparr>ba_tokens := Some amount\<rparr>,
      rb_principalId = ''p'', rb_reason = ''r'', rb_idempotencyKey = key, rb_expiresAt = None\<rparr>"

definition demo_usage :: "string \<Rightarrow> number \<Rightarrow> RecordBudgetUsageRequest" where
  "demo_usage g n = \<lparr>ru_grantId = g, ru_usage = no_amount\<lparr>ba_tokens := Some n\<rparr>, ru_source = ''m'', ru_sourceId = ''i'',
     ru_idempotencyKey = ''k''\<rparr>"

definition demo_reserved :: service where
  "demo_reserved = snd (reserve_budget (demo_reserve ''a'' 100 60) empty_service)"

definition demo_used :: service where
  "demo_used = after_op (record_budget_usage (demo_usage ''bgt_'' 50)) demo_reserved"

definition demo_committed :: service where
  "demo_committed = after_op (commit_budget \<lparr>cb_grantId = ''bgt_''\<rparr>) demo_used"

definition demo_scope :: string where
  "demo_scope = budget_scope_id empty_service BK_session ''o'' BW_session"

lemma demo_budget:
  "map_option (\<lambda>c. ba_tokens (bs_usage c)) (get_scope demo_committed demo_scope) = Some (Some 50)"
  "reserved ba_tokens demo_scope (sv_grants demo_committed) = 0"
  "fst (reserve_budget (demo_reserve ''a'' 100 60) empty_service) \<noteq> Inl SE_no_rows"
  by code_simp+

lemma demo_modest: "modest_amount (rb_requested (demo_reserve k l 60))" "modest_amount (ru_usage (demo_usage g 50))"
  by (simp_all add: modest_amount_def modest_def dims_def units_def demo_reserve_def demo_usage_def no_amount_def)

lemma budget_step_after:
  "budget_step c L s (after_op (commit_budget r) s)"
  "modest_amount (ru_usage r1) \<Longrightarrow> budget_step c L s (after_op (record_budget_usage r1) s)"
  "budget_step c L s (after_op (claim_job r2) s)"
  "budget_step c L s (after_op (enqueue_job r3) s)"
  using budget_clock [of c L s "sv_now s"]
  by (auto simp: after_op_def split: sum.split intro: budget_step.intros)


section \<open>A lowered limit\<close>

lemma commit_denied:
  assumes "get_grant s g = Some grant" and "bg_state grant = BG_reserved" and "get_scope s (bg_scopeId grant) = Some scope"
    and "\<not> fits_budget (bs_limit scope) (bs_usage scope) (budget_usage_total s g)"
  shows "commit_budget_grant_tx g s = Inl (SE_budget_denied (bg_scopeId grant) ''committed usage exceeds scope limit'')"
  using assms get_grant_Some [OF assms(1)] get_scope_Some [OF assms(3)] by (simp add: commit_budget_grant_tx_def)

lemma budget_reads_update [simp]:
  "get_grant (update_job i f s) = get_grant s" "get_scope (update_job i f s) = get_scope s"
  "budget_usage_total (update_job i f s) = budget_usage_total s"
  by (simp_all add: fun_eq_iff get_grant_def get_scope_def budget_usage_total_def update_job_def)

text \<open>What a reservation leaves of the rows of an earlier grant: only the limit of the scope is new.\<close>

lemma reserve_relimits:
  assumes "reserve_budget r s = (x, u)" and "x \<noteq> Inl SE_unique_grant"
    and "validate_budget_amount (rb_limit r) = Inr ()" "validate_budget_amount (rb_requested r) = Inr ()"
    and scope: "get_scope s c = Some scope" "bs_kind scope = bf_kind (rb_scope r)" "bs_ownerId scope = bf_ownerId (rb_scope r)"
      "bs_windowKind scope = opt_else (bf_windowKind (rb_scope r)) BW_session" "scope_named s scope"
    and grant: "get_grant s g = Some grant"
  shows "sv_jobs u = sv_jobs s" "get_grant u g = Some grant" "budget_usage_total u g = budget_usage_total s g"
    "get_scope u c = Some (scope\<lparr>bs_limit := rb_limit r, bs_updatedAt := sv_now s\<rparr>)"
proof -
  let ?w = "opt_else (bf_windowKind (rb_scope r)) BW_session"
  let ?t = "s\<lparr>sv_scopes := map (relimit r ?w (sv_now s)) (sv_scopes s)\<rparr>"
  let ?i = "budget_scope_id s (bf_kind (rb_scope r)) (bf_ownerId (rb_scope r)) ?w"
  have i: "c = ?i" using get_scope_Some [OF scope(1)] scope(2-5) by (simp add: scope_named_def)
  have "list_ex (\<lambda>c. bs_kind c = bf_kind (rb_scope r) \<and> bs_ownerId c = bf_ownerId (rb_scope r) \<and> bs_windowKind c = ?w) (sv_scopes s)"
    using get_scope_Some [OF scope(1)] scope(2-4) by (auto simp: list_ex_iff)
  then have up: "upsert_budget_scope r ?i ?w s = Inr ?t"
    by (simp add: upsert_budget_scope_def relimit_def [abs_def] Let_def)
  have get: "get_scope ?t c = Some (scope\<lparr>bs_limit := rb_limit r, bs_updatedAt := sv_now s\<rparr>)"
    using scope by (simp add: get_scope_def find_map_key relimit_def)
  then have u: "u = ?t \<or> (\<exists>n. u = draw_uuids 1 (?t\<lparr>sv_grants := sv_grants s @ [n]\<rparr>))"
    using assms(1-4) up i by (auto simp: reserve_budget_def Let_def split: option.splits if_splits)
  show "sv_jobs u = sv_jobs s" "budget_usage_total u g = budget_usage_total s g"
    using u by (auto simp: draw_uuids_def budget_usage_total_def)
  have "get_scope u = get_scope ?t" using u by (auto simp: get_scope_def)
  then show "get_scope u c = Some (scope\<lparr>bs_limit := rb_limit r, bs_updatedAt := sv_now s\<rparr>)" using get by simp
  show "get_grant u g = Some grant" using u grant by (auto simp: get_grant_def find_snoc)
qed


definition demo_holder :: service where
  "demo_holder = after_op (claim_job (demo_claim ''w'')) (after_op (enqueue_job
     (demo_job ''a''\<lparr>ej_budgetGrantId := Some ''bgt_''\<rparr>)) demo_used)"

definition demo_lowered :: service where
  "demo_lowered = snd (reserve_budget (demo_reserve ''b'' 40 1) demo_holder)"

lemma demo_facts:
  "case get_job_row demo_holder ''a'' of None \<Rightarrow> False
   | Some job \<Rightarrow> owns_lease ''w'' ''joblease_uuu'' job \<and> settled_elsewhere (jb_kind job) = None \<and>
       jb_budgetGrantId job = Some ''bgt_'' \<and> \<not> can_retry job"
  "case get_grant demo_holder ''bgt_'' of None \<Rightarrow> False | Some g \<Rightarrow> bg_state g = BG_reserved \<and> bg_scopeId g = demo_scope"
  "case get_scope demo_holder demo_scope of None \<Rightarrow> False
   | Some c \<Rightarrow> bs_kind c = BK_session \<and> bs_ownerId c = ''o'' \<and> bs_windowKind c = BW_session \<and> scope_named demo_holder c \<and>
       \<not> fits_budget (rb_limit (demo_reserve ''b'' 40 1)) (bs_usage c) (budget_usage_total demo_holder ''bgt_'')"
  "case fst (reserve_budget (demo_reserve ''b'' 40 1) demo_holder) of Inr g \<Rightarrow> False
   | Inl e \<Rightarrow> e = SE_budget_denied demo_scope ''requested budget exceeds remaining limit''"
  by code_simp+


end
