(* ===== verification/Scheduler_Rpc.thy ===== *)
theory Scheduler_Rpc
  imports Delegation_Rpc Scheduler_Codec Budget_Safety
begin

text \<open>
  The service end of the jobs and budgets RPC, \<open>handle_scheduler_request\<close> of
  crates/system-service/src/rpc.rs, in front of the delegation part, and the proof that the client
  over it is the service. One kind of value does not survive the way back: the scope of an
  objective.
\<close>

section \<open>Reading requests\<close>

definition u32_ok :: "number \<Rightarrow> bool" where
  "u32_ok n = (snd (quotient_of n) = 1 \<and> 0 \<le> n \<and> n < 2 ^ 32)"

definition opt_u32_ok :: "number option \<Rightarrow> bool" where
  "opt_u32_ok v = (case v of None \<Rightarrow> True | Some n \<Rightarrow> u32_ok n)"

fun as_u32 :: "json \<Rightarrow> number option" where
  "as_u32 (JNum n) = (if u32_ok n then Some n else None)"
| "as_u32 _ = None"

fun as_list :: "(json \<Rightarrow> 'a option) \<Rightarrow> json \<Rightarrow> 'a list option" where
  "as_list f (JArr vs) = those (map f vs)"
| "as_list f _ = None"

definition scopeKinds :: "(string \<times> BudgetScopeKind) list" where
  "scopeKinds = map (\<lambda>x. (scopeKindText x, x))
     [BK_session, BK_turn, BK_objective, BK_team_round, BK_plugin, BK_principal, BK_provider_model]"

definition read_amount :: "json \<Rightarrow> BudgetAmount option" where
  "read_amount v = do {
     m \<leftarrow> entries_of v;
     tokens \<leftarrow> optional as_i64 m ''tokens'';
     cost \<leftarrow> optional as_i64 m ''cost_micros'';
     wall \<leftarrow> optional as_i64 m ''wall_time_ms'';
     calls \<leftarrow> optional as_i64 m ''tool_calls'';
     Some \<lparr>ba_tokens = tokens, ba_costMicros = cost, ba_wallTimeMs = wall, ba_toolCalls = calls\<rparr>}"

definition read_scope_ref :: "json \<Rightarrow> BudgetScopeRef option" where
  "read_scope_ref v = do {
     m \<leftarrow> entries_of v;
     kind \<leftarrow> required (as_member scopeKinds) m ''kind'';
     owner \<leftarrow> required as_string m ''owner_id'';
     window \<leftarrow> optional (as_member windowKinds) m ''window_kind'';
     Some \<lparr>bf_kind = kind, bf_ownerId = owner, bf_windowKind = window\<rparr>}"

definition read_reserve :: "entries \<Rightarrow> ReserveBudgetRequest option" where
  "read_reserve m = do {
     scope \<leftarrow> required read_scope_ref m ''scope'';
     limit \<leftarrow> required read_amount m ''limit'';
     requested \<leftarrow> required read_amount m ''requested'';
     principal \<leftarrow> required as_string m ''principal_id'';
     reason \<leftarrow> required as_string m ''reason'';
     key \<leftarrow> required as_string m ''idempotency_key'';
     expires \<leftarrow> optional as_i64 m ''expires_at'';
     Some \<lparr>rb_scope = scope, rb_limit = limit, rb_requested = requested, rb_principalId = principal, rb_reason = reason,
           rb_idempotencyKey = key, rb_expiresAt = expires\<rparr>}"

definition read_commit :: "entries \<Rightarrow> CommitBudgetRequest option" where
  "read_commit m = map_option (\<lambda>i. \<lparr>cb_grantId = i\<rparr>) (required as_string m ''grant_id'')"

definition read_usage :: "entries \<Rightarrow> RecordBudgetUsageRequest option" where
  "read_usage m = do {
     grant \<leftarrow> required as_string m ''grant_id'';
     usage \<leftarrow> required read_amount m ''usage'';
     source \<leftarrow> required as_string m ''source'';
     source_id \<leftarrow> required as_string m ''source_id'';
     key \<leftarrow> required as_string m ''idempotency_key'';
     Some \<lparr>ru_grantId = grant, ru_usage = usage, ru_source = source, ru_sourceId = source_id, ru_idempotencyKey = key\<rparr>}"

definition read_enqueue :: "entries \<Rightarrow> EnqueueJobRequest option" where
  "read_enqueue m = do {
     i \<leftarrow> optional as_string m ''id'';
     kind \<leftarrow> required (as_member jobKinds) m ''kind'';
     queue \<leftarrow> optional as_string m ''queue'';
     principal \<leftarrow> required as_string m ''principal_id'';
     payload \<leftarrow> required Some m ''payload'';
     scheduled \<leftarrow> optional as_i64 m ''scheduled_at'';
     not_before \<leftarrow> optional as_i64 m ''not_before'';
     priority \<leftarrow> optional as_i64 m ''priority'';
     concurrency \<leftarrow> optional as_string m ''concurrency_key'';
     attempts \<leftarrow> optional as_i64 m ''max_attempts'';
     policy \<leftarrow> optional read_policy m ''retry_policy'';
     key \<leftarrow> optional as_string m ''idempotency_key'';
     grant \<leftarrow> optional as_string m ''budget_grant_id'';
     Some \<lparr>ej_id = i, ej_kind = kind, ej_queue = queue, ej_principalId = principal, ej_payload = payload,
           ej_scheduledAt = scheduled, ej_notBefore = not_before, ej_priority = priority, ej_concurrencyKey = concurrency,
           ej_maxAttempts = attempts, ej_retryPolicy = policy, ej_idempotencyKey = key, ej_budgetGrantId = grant\<rparr>}"

definition read_claim :: "entries \<Rightarrow> ClaimJobRequest option" where
  "read_claim m = do {
     worker \<leftarrow> required as_string m ''worker_id'';
     lease \<leftarrow> required as_i64 m ''lease_ms'';
     kinds \<leftarrow> optional (as_list (as_member jobKinds)) m ''kinds'';
     queues \<leftarrow> optional (as_list as_string) m ''queues'';
     Some \<lparr>cj_workerId = worker, cj_leaseMs = lease, cj_kinds = kinds, cj_queues = queues\<rparr>}"

definition read_heartbeat :: "entries \<Rightarrow> HeartbeatJobRequest option" where
  "read_heartbeat m = do {
     job \<leftarrow> required as_string m ''job_id'';
     worker \<leftarrow> required as_string m ''worker_id'';
     token \<leftarrow> required as_string m ''lease_token'';
     lease \<leftarrow> required as_i64 m ''lease_ms'';
     Some \<lparr>hj_jobId = job, hj_workerId = worker, hj_leaseToken = token, hj_leaseMs = lease\<rparr>}"

definition read_complete :: "entries \<Rightarrow> CompleteJobRequest option" where
  "read_complete m = do {
     job \<leftarrow> required as_string m ''job_id'';
     worker \<leftarrow> required as_string m ''worker_id'';
     token \<leftarrow> required as_string m ''lease_token'';
     result \<leftarrow> optional Some m ''result'';
     Some \<lparr>kj_jobId = job, kj_workerId = worker, kj_leaseToken = token, kj_result = result\<rparr>}"

definition read_fail :: "entries \<Rightarrow> FailJobRequest option" where
  "read_fail m = do {
     job \<leftarrow> required as_string m ''job_id'';
     worker \<leftarrow> required as_string m ''worker_id'';
     token \<leftarrow> required as_string m ''lease_token'';
     error \<leftarrow> required Some m ''error'';
     Some \<lparr>fj_jobId = job, fj_workerId = worker, fj_leaseToken = token, fj_error = error\<rparr>}"

definition read_cancel :: "entries \<Rightarrow> CancelJobRequest option" where
  "read_cancel m = do {
     job \<leftarrow> required as_string m ''job_id'';
     reason \<leftarrow> required as_string m ''reason'';
     Some \<lparr>xj_jobId = job, xj_reason = reason\<rparr>}"

definition read_list_jobs :: "entries \<Rightarrow> ListJobsRequest option" where
  "read_list_jobs m = do {
     state \<leftarrow> optional (as_member jobStates) m ''state'';
     kind \<leftarrow> optional (as_member jobKinds) m ''kind'';
     limit \<leftarrow> optional as_u32 m ''limit'';
     Some \<lparr>lj_state = state, lj_kind = kind, lj_limit = limit\<rparr>}"

section \<open>Writing records\<close>

definition amount_json :: "BudgetAmount \<Rightarrow> json" where
  "amount_json a =
     JObj [(''tokens'', nullOr JNum (ba_tokens a)), (''cost_micros'', nullOr JNum (ba_costMicros a)),
       (''wall_time_ms'', nullOr JNum (ba_wallTimeMs a)), (''tool_calls'', nullOr JNum (ba_toolCalls a))]"

definition scope_json :: "BudgetScopeRecord \<Rightarrow> json" where
  "scope_json c = JObj
     [(''id'', JStr (bs_id c)), (''kind'', JStr (scopeKindText (bs_kind c))), (''owner_id'', JStr (bs_ownerId c)),
      (''limit'', amount_json (bs_limit c)), (''usage'', amount_json (bs_usage c)),
      (''window_kind'', JStr (windowKindText (bs_windowKind c))), (''state'', JStr (scopeStateText (bs_state c))),
      (''created_at'', JNum (bs_createdAt c)), (''updated_at'', JNum (bs_updatedAt c))]"

definition grant_json :: "BudgetGrantRecord \<Rightarrow> json" where
  "grant_json g = JObj
     [(''id'', JStr (bg_id g)), (''scope_id'', JStr (bg_scopeId g)), (''principal_id'', JStr (bg_principalId g)),
      (''reason'', JStr (bg_reason g)), (''requested'', amount_json (bg_requested g)),
      (''committed'', nullOr amount_json (bg_committed g)), (''state'', JStr (grantStateText (bg_state g))),
      (''idempotency_key'', JStr (bg_idempotencyKey g)), (''expires_at'', nullOr JNum (bg_expiresAt g)),
      (''created_at'', JNum (bg_createdAt g)), (''updated_at'', JNum (bg_updatedAt g))]"

definition receipt_json :: "RecordBudgetUsageReceipt \<Rightarrow> json" where
  "receipt_json x = JObj
     [(''entry'', JObj [(''id'', JStr (ue_id (rr_entry x))), (''grant_id'', JStr (ru_grantId (rr_entry x))),
         (''usage'', amount_json (ru_usage (rr_entry x))), (''source'', JStr (ru_source (rr_entry x))),
         (''source_id'', JStr (ru_sourceId (rr_entry x))), (''idempotency_key'', JStr (ru_idempotencyKey (rr_entry x))),
         (''created_at'', JNum (ue_createdAt (rr_entry x)))]),
      (''created'', JBool (rr_created x))]"

section \<open>Dispatch\<close>

definition reply_eff :: "('a \<Rightarrow> json) \<Rightarrow> (service, service_error, 'a) eff \<Rightarrow> service \<Rightarrow> response \<times> service" where
  "reply_eff write op s =
     (case op s of
        (Inl e, t) \<Rightarrow> (RpcFailure (service_error_code e) (service_error_text e), t)
      | (Inr x, t) \<Rightarrow> (RpcSuccess (write x), t))"

definition handle_scheduler_command :: "entries \<Rightarrow> string \<Rightarrow> service \<Rightarrow> response \<times> service" where
  "handle_scheduler_command m c =
     (if c = ''reserve-budget'' then
        (case Option.bind (Option.bind (map_of m ''request'') entries_of) read_reserve of None \<Rightarrow> refused
         | Some r \<Rightarrow> reply_eff grant_json (reserve_budget r))
      else if c = ''commit-budget'' then handle m read_commit (nullOr grant_json) commit_budget
      else if c = ''record-budget-usage'' then handle m read_usage receipt_json record_budget_usage
      else if c = ''release-budget'' then
        (case required as_string m ''grant_id'' of None \<Rightarrow> refused
         | Some i \<Rightarrow> reply (nullOr grant_json) (release_budget i))
      else if c = ''get-budget-scope'' then
        (case required as_string m ''scope_id'' of None \<Rightarrow> refused
         | Some i \<Rightarrow> reply (nullOr scope_json) (get_budget_scope i))
      else if c = ''list-budget-grants'' then
        (case required as_string m ''scope_id'' of None \<Rightarrow> refused
         | Some i \<Rightarrow> reply (\<lambda>gs. JArr (map grant_json gs)) (list_budget_grants i))
      else if c = ''enqueue-job'' then handle m read_enqueue job_json enqueue_job
      else if c = ''claim-job'' then handle m read_claim (nullOr job_json) claim_job
      else if c = ''heartbeat-job'' then handle m read_heartbeat (nullOr job_json) heartbeat_job
      else if c = ''complete-job'' then handle m read_complete (nullOr job_json) complete_job
      else if c = ''fail-job'' then handle m read_fail (nullOr job_json) fail_job
      else if c = ''cancel-job'' then handle m read_cancel (nullOr job_json) cancel_job
      else if c = ''list-jobs'' then handle m read_list_jobs (\<lambda>js. JArr (map job_json js)) list_jobs
      else handle_command m c)"

definition handle_system_request :: "json \<Rightarrow> service \<Rightarrow> response \<times> service" where
  "handle_system_request v =
     (case entries_of v of None \<Rightarrow> refused
      | Some m \<Rightarrow> (case required as_string m ''command'' of None \<Rightarrow> refused | Some c \<Rightarrow> handle_scheduler_command m c))"

definition system_transport :: "service transport" where
  "system_transport =
     \<lparr>rt_call = (\<lambda>v s. case handle_system_request v s of (response, t) \<Rightarrow> (Inr response, t)),
      rt_sleep = (\<lambda>d s. (Inr (), s))\<rparr>"

section \<open>The service as a scheduler storage\<close>

definition amount_i64_ok :: "BudgetAmount \<Rightarrow> bool" where
  "amount_i64_ok a \<longleftrightarrow> opt_i64_ok (ba_tokens a) \<and> opt_i64_ok (ba_costMicros a) \<and> opt_i64_ok (ba_wallTimeMs a) \<and>
     opt_i64_ok (ba_toolCalls a)"

definition reserve_i64_ok :: "ReserveBudgetRequest \<Rightarrow> bool" where
  "reserve_i64_ok r \<longleftrightarrow> amount_i64_ok (rb_limit r) \<and> amount_i64_ok (rb_requested r) \<and> opt_i64_ok (rb_expiresAt r)"

definition enqueue_i64_ok :: "EnqueueJobRequest \<Rightarrow> bool" where
  "enqueue_i64_ok r \<longleftrightarrow> opt_i64_ok (ej_scheduledAt r) \<and> opt_i64_ok (ej_notBefore r) \<and> opt_i64_ok (ej_priority r) \<and>
     opt_i64_ok (ej_maxAttempts r) \<and> policy_i64_ok (ej_retryPolicy r)"

definition via_eff :: "('a \<Rightarrow> 'b) \<Rightarrow> (service, service_error, 'a) eff \<Rightarrow> (service, thrown, 'b) eff" where
  "via_eff f op s = (case op s of (Inl e, t) \<Rightarrow> (Inl (client_error e), t) | (Inr x, t) \<Rightarrow> (Inr (f x), t))"

text \<open>
  A scope as the client reads it: the scope of an objective is an error. That is a property of
  the client; the service below returns every scope it has.
\<close>

definition readable_scope :: "BudgetScopeRecord option \<Rightarrow> thrown + BudgetScopeRecord option" where
  "readable_scope c =
     (case c of
        Some x \<Rightarrow> if bs_kind x = BK_objective then Inl (plainError ''invalid budget scope kind: objective'') else Inr (Some x)
      | None \<Rightarrow> Inr None)"

text \<open>
  The specification of the client: the operations of the service behind its interface. A number
  that does not fit the service's integers is refused by the service's reader; results and errors
  that are \<open>null\<close> are dropped.
\<close>

definition service_scheduler :: "service scheduler_storage" where
  "service_scheduler =
     \<lparr>ss_enqueueJob = (\<lambda>r. checked (enqueue_i64_ok r) (via wire_job (enqueue_job r))),
      ss_claimJob = (\<lambda>r. checked (i64_ok (cj_leaseMs r)) (via (map_option wire_job) (claim_job r))),
      ss_heartbeatJob = (\<lambda>r. checked (i64_ok (hj_leaseMs r)) (via (map_option wire_job) (heartbeat_job r))),
      ss_completeJob = (\<lambda>r. via (map_option wire_job) (complete_job (r\<lparr>kj_result := drop_null (kj_result r)\<rparr>))),
      ss_failJob = (\<lambda>r. via (map_option wire_job) (fail_job r)),
      ss_cancelJob = (\<lambda>r. via (map_option wire_job) (cancel_job r)),
      ss_listJobs = (\<lambda>r. checked (opt_u32_ok (lj_limit r)) (via (map wire_job) (list_jobs r))),
      ss_reserveBudget = (\<lambda>r. checked (reserve_i64_ok r) (via_eff (\<lambda>g. g) (reserve_budget r))),
      ss_commitBudget = (\<lambda>r. via (\<lambda>g. g) (commit_budget r)),
      ss_recordBudgetUsage = (\<lambda>r. checked (amount_i64_ok (ru_usage r)) (via (\<lambda>x. x) (record_budget_usage r))),
      ss_releaseBudget = (\<lambda>i. via (\<lambda>g. g) (release_budget i)),
      ss_getBudgetScope = (\<lambda>i. via (\<lambda>c. c) (get_budget_scope i)),
      ss_listBudgetGrants = (\<lambda>i. via (\<lambda>gs. gs) (list_budget_grants i))\<rparr>"

section \<open>What is written is read back\<close>

lemma budget_members [codec_simps]:
  "map_of scopeKinds (scopeKindText x1) = Some x1"
  "map_of windowKinds (windowKindText x2) = Some x2"
  "map_of scopeStates (scopeStateText x3) = Some x3"
  "map_of grantStates (grantStateText x4) = Some x4"
proof -
  show "map_of scopeKinds (scopeKindText x1) = Some x1" by (cases x1) (simp_all add: scopeKinds_def)
  show "map_of windowKinds (windowKindText x2) = Some x2" by (cases x2) (simp_all add: windowKinds_def)
  show "map_of scopeStates (scopeStateText x3) = Some x3" by (cases x3) (simp_all add: scopeStates_def)
  show "map_of grantStates (grantStateText x4) = Some x4" by (cases x4) (simp_all add: grantStates_def)
qed

lemma those_map [simp]: "(\<And>x. f (g x) = Some x) \<Longrightarrow> those (map f (map g xs)) = Some xs"
  by (induction xs) auto

lemma optional_list [codec_simps]:
  "map_of m k = Some (nullOr (\<lambda>xs. JArr (map g xs)) v) \<Longrightarrow> (\<And>x. f (g x) = Some x) \<Longrightarrow> optional (as_list f) m k = Some v"
  by (cases v) (simp_all add: optional_def nullish_def del: map_map)

lemma optional_u32 [codec_simps]:
  "map_of m k = Some (nullOr JNum v) \<Longrightarrow> optional as_u32 m k = (if opt_u32_ok v then Some v else None)"
  by (cases v) (simp_all add: optional_def opt_u32_ok_def)

lemma required_i64 [codec_simps]: "map_of m k = Some (JNum n) \<Longrightarrow> required as_i64 m k = (if i64_ok n then Some n else None)"
  by (simp add: required_def)

lemma required_of [codec_simps]: "map_of m k = Some v \<Longrightarrow> required f m k = f v"
  by (simp add: required_def)

lemma as_member_ok [codec_simps]: "map_of members s = Some x \<Longrightarrow> as_member members (JStr s) = Some x"
  by (simp add: as_member_def)

lemma read_amount_json [codec_simps]:
  "read_amount (budgetAmountToJson a) = (if amount_i64_ok a then Some a else None)"
  by (simp add: read_amount_def budgetAmountToJson_def codec_simps amount_i64_ok_def)

lemma read_scope_ref_json [codec_simps]:
  "read_scope_ref (JObj [(''kind'', JStr (scopeKindText (bf_kind c))), (''owner_id'', JStr (bf_ownerId c)),
     (''window_kind'', nullOr (\<lambda>x. JStr (windowKindText x)) (bf_windowKind c))]) = Some c"
  by (simp add: read_scope_ref_def codec_simps)

lemma expect_amount_json [codec_simps]: "expectBudgetAmount (Some (amount_json a)) name = Inr a"
  by (simp add: expectBudgetAmount_def amount_json_def codec_simps)

lemma readable_members:
  "map_of readableScopeKinds (scopeKindText k) = (if k = BK_objective then None else Some k)"
  by (cases k) (simp_all add: readableScopeKinds_def)

lemma expect_scope_kind [codec_simps]:
  "expectBudgetScopeKind (Some (JStr (scopeKindText k))) =
     (if k = BK_objective then Inl (plainError ''invalid budget scope kind: objective'') else Inr k)"
  by (simp add: expectBudgetScopeKind_def expectMember_def readable_members)

lemma read_scope_json:
  "fromRpcBudgetScopeRecord (scope_json c) =
     (if bs_kind c = BK_objective then Inl (plainError ''invalid budget scope kind: objective'') else Inr c)"
  by (simp add: fromRpcBudgetScopeRecord_def scope_json_def expectBudgetWindowKind_def expectBudgetScopeState_def codec_simps)

lemma nullish_amount [simp]: "\<not> nullish (Some (amount_json a))" "nullish (Some (nullOr amount_json v)) \<longleftrightarrow> v = None"
  by (simp_all add: nullish_def amount_json_def nullOr_def split: option.split)

lemma nullish_number [simp]: "nullish (Some (nullOr JNum v)) \<longleftrightarrow> v = None"
  by (cases v) (simp_all add: nullish_def)

lemma read_grant_json: "fromRpcBudgetGrantRecord (grant_json g) = Inr g"
  by (cases "bg_committed g"; cases "bg_expiresAt g")
    (simp_all add: fromRpcBudgetGrantRecord_def grant_json_def expectBudgetGrantState_def codec_simps)

lemma read_receipt_json: "fromRpcRecordBudgetUsageReceipt (receipt_json x) = Inr x"
  by (simp add: fromRpcRecordBudgetUsageReceipt_def receipt_json_def codec_simps)

section \<open>The client over the service\<close>

lemma reply_eff_steady: "\<not> isTransientSqliteResponse (fst (reply_eff write op s))"
  using service_error_steady by (simp add: reply_eff_def isTransientSqliteResponse_def split: sum.split prod.split)

lemma handle_command_steady: "\<not> isTransientSqliteResponse (fst (handle_command m c s))"
  by (simp add: handle_command_def handle_steady refused_steady reply_steady split: option.split)

lemma handle_system_steady: "\<not> isTransientSqliteResponse (fst (handle_system_request v s))"
  by (simp add: handle_system_request_def handle_scheduler_command_def handle_command_steady handle_steady refused_steady
      reply_steady reply_eff_steady split: option.split)

lemma rpc_call_system:
  "rpc_call system_transport v s = (parseResponseEnvelope (fst (handle_system_request v s)), snd (handle_system_request v s))"
  unfolding rpc_call_def
  by (rule callFrom_steady) (simp_all add: system_transport_def handle_system_steady split: prod.split)

lemma system_answer: "eff_bind (rpc_call system_transport v) k s = answer (handle_system_request v s) k"
  by (simp add: eff_bind_def rpc_call_system answer_def)

lemma system_command:
  "handle_system_request (command c r) = handle_scheduler_command [(''command'', JStr c), (''request'', r)] c"
  by (simp add: handle_system_request_def command_def codec_simps)

lemma answer_reply_eff:
  assumes "\<And>x t. k (write x) t = (Inr (f x), t)"
  shows "answer (reply_eff write op s) k = via_eff f op s"
  by (simp add: answer_def reply_eff_def via_eff_def client_error_def parseResponseEnvelope_def eff_bind_def assms
      split: sum.split prod.split)

lemma scheduler_reads:
  "readOne fromRpcSchedulerJobRecord (job_json j) t = (Inr (wire_job j), t)"
  "readOne fromRpcBudgetGrantRecord (grant_json g) t = (Inr g, t)"
  "readOne fromRpcRecordBudgetUsageReceipt (receipt_json x) t = (Inr x, t)"
  "readNullable fromRpcBudgetGrantRecord (nullOr grant_json og) t = (Inr og, t)"
  "readNullable fromRpcBudgetScopeRecord (nullOr scope_json oc) t = (readable_scope oc, t)"
  "readArray name fromRpcSchedulerJobRecord (JArr (map job_json js)) t = (Inr (map wire_job js), t)"
  "readArray name fromRpcBudgetGrantRecord (JArr (map grant_json gs)) t = (Inr gs, t)"
proof -
  show "readNullable fromRpcBudgetGrantRecord (nullOr grant_json og) t = (Inr og, t)"
    by (cases og; simp add: readNullable_def read_grant_json; simp add: grant_json_def)
  have "scope_json c \<noteq> JNull" for c by (simp add: scope_json_def)
  then show "readNullable fromRpcBudgetScopeRecord (nullOr scope_json oc) t = (readable_scope oc, t)"
    by (cases oc) (simp_all add: readNullable_def read_scope_json readable_scope_def)
  show "readOne fromRpcSchedulerJobRecord (job_json j) t = (Inr (wire_job j), t)"
    "readOne fromRpcBudgetGrantRecord (grant_json g) t = (Inr g, t)"
    "readOne fromRpcRecordBudgetUsageReceipt (receipt_json x) t = (Inr x, t)"
    by (simp_all add: readOne_def read_job_json read_grant_json read_receipt_json)
  show "readArray name fromRpcSchedulerJobRecord (JArr (map job_json js)) t = (Inr (map wire_job js), t)"
    "readArray name fromRpcBudgetGrantRecord (JArr (map grant_json gs)) t = (Inr gs, t)"
    by (simp_all add: readArray_def map_result_wire [where h = wire_job] map_result_wire [where h = "\<lambda>g. g"]
        read_job_json read_grant_json)
qed

lemma scheduler_answers:
  "answer (reply job_json op1 s) (readOne fromRpcSchedulerJobRecord) = via wire_job op1 s"
  "answer (reply_eff grant_json op2 s) (readOne fromRpcBudgetGrantRecord) = via_eff (\<lambda>g. g) op2 s"
  "answer (reply receipt_json op3 s) (readOne fromRpcRecordBudgetUsageReceipt) = via (\<lambda>x. x) op3 s"
  "answer (reply (nullOr grant_json) op4 s) (readNullable fromRpcBudgetGrantRecord) = via (\<lambda>g. g) op4 s"
  "answer (reply (\<lambda>js. JArr (map job_json js)) op5 s) (readArray name fromRpcSchedulerJobRecord) = via (map wire_job) op5 s"
  "answer (reply (\<lambda>gs. JArr (map grant_json gs)) op6 s) (readArray name fromRpcBudgetGrantRecord) = via (\<lambda>gs. gs) op6 s"
  "answer (reply (nullOr scope_json) (get_budget_scope i) s) (readNullable fromRpcBudgetScopeRecord) =
     (readable_scope (get_scope s i), s)"
  by (rule answer_reply answer_reply_eff, simp add: scheduler_reads)+
    (simp add: answer_def reply_def get_budget_scope_def parseResponseEnvelope_def eff_bind_def scheduler_reads split: sum.split)

lemmas scheduler_writers =
  toRpcReserveBudgetRequest_def toRpcCommitBudgetRequest_def toRpcRecordBudgetUsageRequest_def toRpcEnqueueJobRequest_def
  toRpcClaimJobRequest_def toRpcHeartbeatJobRequest_def toRpcCompleteJobRequest_def toRpcFailJobRequest_def
  toRpcCancelJobRequest_def toRpcListJobsRequest_def

lemmas scheduler_readers =
  read_reserve_def read_commit_def read_usage_def read_enqueue_def read_claim_def read_heartbeat_def read_complete_def
  read_fail_def read_cancel_def read_list_jobs_def

lemmas scheduler_served =
  system_answer system_command handle_scheduler_command_def handle_def codec_simps answers scheduler_answers answer_refused
  service_scheduler_def scheduler_writers scheduler_readers checked_def

lemma enqueueJob_served: "enqueueJob system_transport r s = ss_enqueueJob service_scheduler r s"
  by (cases r) (simp add: enqueueJob_def scheduler_served enqueue_i64_ok_def)

lemma claimJob_served: "claimJob system_transport r s = ss_claimJob service_scheduler r s"
  by (cases r) (simp add: claimJob_def scheduler_served)

lemma heartbeatJob_served: "heartbeatJob system_transport r s = ss_heartbeatJob service_scheduler r s"
  by (cases r) (simp add: heartbeatJob_def scheduler_served)

lemma completeJob_served: "completeJob system_transport r s = ss_completeJob service_scheduler r s"
  by (cases r) (simp add: completeJob_def scheduler_served)

lemma failJob_served: "failJob system_transport r s = ss_failJob service_scheduler r s"
  by (cases r) (simp add: failJob_def scheduler_served)

lemma cancelJob_served: "cancelJob system_transport r s = ss_cancelJob service_scheduler r s"
  by (cases r) (simp add: cancelJob_def scheduler_served)

lemma listJobs_served: "listJobs system_transport r s = ss_listJobs service_scheduler r s"
  by (cases r) (simp add: listJobs_def scheduler_served)

lemma reserveBudget_served: "reserveBudget system_transport r s = ss_reserveBudget service_scheduler r s"
  by (cases r) (simp add: reserveBudget_def scheduler_served reserve_i64_ok_def)

lemma commitBudget_served: "commitBudget system_transport r s = ss_commitBudget service_scheduler r s"
  by (cases r) (simp add: commitBudget_def scheduler_served)

lemma recordBudgetUsage_served: "recordBudgetUsage system_transport r s = ss_recordBudgetUsage service_scheduler r s"
  by (cases r) (simp add: recordBudgetUsage_def scheduler_served)

lemma releaseBudget_served: "releaseBudget system_transport i s = ss_releaseBudget service_scheduler i s"
  by (simp add: releaseBudget_def scheduler_served handle_system_request_def)

lemma getBudgetScope_served: "getBudgetScope system_transport i s = (readable_scope (get_scope s i), s)"
  by (simp add: getBudgetScope_def scheduler_served handle_system_request_def)

lemma listBudgetGrants_served: "listBudgetGrants system_transport i s = ss_listBudgetGrants service_scheduler i s"
  by (simp add: listBudgetGrants_def scheduler_served handle_system_request_def)

lemma scheduler_client_is_service:
  "rpc_scheduler system_transport = service_scheduler\<lparr>ss_getBudgetScope := \<lambda>i s. (readable_scope (get_scope s i), s)\<rparr>"
  unfolding rpc_scheduler_def
  by (simp add: service_scheduler_def fun_eq_iff enqueueJob_served claimJob_served heartbeatJob_served completeJob_served
      failJob_served cancelJob_served listJobs_served reserveBudget_served commitBudget_served recordBudgetUsage_served
      releaseBudget_served getBudgetScope_served listBudgetGrants_served)

section \<open>Properties\<close>


lemma upsert_row:
  assumes "upsert_budget_scope r i w s = Inr t"
  shows "\<exists>y \<in> set (sv_scopes t). bs_kind y = bf_kind (rb_scope r) \<and> bs_ownerId y = bf_ownerId (rb_scope r) \<and> bs_windowKind y = w"
proof (cases "list_ex (\<lambda>c. bs_kind c = bf_kind (rb_scope r) \<and> bs_ownerId c = bf_ownerId (rb_scope r) \<and> bs_windowKind c = w) (sv_scopes s)")
  case True
  then obtain c where c: "c \<in> set (sv_scopes s)" "bs_kind c = bf_kind (rb_scope r)" "bs_ownerId c = bf_ownerId (rb_scope r)"
    "bs_windowKind c = w" by (auto simp: list_ex_iff)
  have "sv_scopes t = map (relimit r w (sv_now s)) (sv_scopes s)"
    using assms True by (auto simp: upsert_budget_scope_def Let_def relimit_def [abs_def])
  then show ?thesis using c by (intro bexI [of _ "relimit r w (sv_now s) c"]) simp_all
next
  case False
  then show ?thesis using assms by (auto simp: upsert_budget_scope_def Let_def guard_def res_bind_eq_Inr split: if_splits)
qed

lemma get_scope_named:
  assumes "budget_ok t" and "y \<in> set (sv_scopes t)"
  shows "get_scope t (budget_scope_id t (bs_kind y) (bs_ownerId y) (bs_windowKind y)) = Some y"
proof -
  have i: "budget_scope_id t (bs_kind y) (bs_ownerId y) (bs_windowKind y) = bs_id y"
    using assms by (simp add: budget_ok_def list_all_iff scope_named_def)
  obtain z where z: "get_scope t (bs_id y) = Some z"
    using assms(2) by (cases "get_scope t (bs_id y)") (auto simp: get_scope_def find_None_image)
  moreover have "inj_on bs_id (set (sv_scopes t))" using assms(1) by (simp add: budget_ok_def distinct_map)
  ultimately have "z = y" using get_scope_Some [OF z] assms(2) by (auto dest: inj_onD)
  then show ?thesis using z i by simp
qed

lemma reserve_granted:
  assumes "reserve_budget r s = (Inr g, u)" and w: "w = opt_else (bf_windowKind (rb_scope r)) BW_session"
    and i: "i = budget_scope_id s (bf_kind (rb_scope r)) (bf_ownerId (rb_scope r)) w"
  shows "bg_scopeId g = i \<and> (\<exists>t. upsert_budget_scope r i w s = Inr t \<and> sv_scopes u = sv_scopes t)"
proof (cases "upsert_budget_scope r i w s")
  case (Inr t)
  have "bg_scopeId h = i" if "find_budget_grant t i k = Some h" for h k
    using that unfolding find_budget_grant_def by (auto dest: found_in simp: find_Some_iff)
  then show ?thesis using assms(1) Inr get_scope_Some [of t i]
    by (auto simp: reserve_budget_def Let_def i w new_grant_def split: option.splits if_splits sum.splits)
qed (use assms in \<open>auto simp: reserve_budget_def Let_def split: sum.splits\<close>)

text \<open>
  The scope of an objective cannot be read. A client may reserve a budget for an objective, and
  the service stores its scope; but the client's reader knows every kind of scope except this one,
  so asking for the scope of the grant always throws.
\<close>

theorem objective_scope_unreadable:
  assumes "budget_ok s" and "bf_kind (rb_scope r) = BK_objective"
    and "reserveBudget system_transport r s = (Inr g, t)"
  shows "(\<exists>scope. get_budget_scope (bg_scopeId g) t = Inr (Some scope, t) \<and> bs_kind scope = BK_objective \<and>
      bs_ownerId scope = bf_ownerId (rb_scope r)) \<and>
    getBudgetScope system_transport (bg_scopeId g) t = (Inl (plainError ''invalid budget scope kind: objective''), t)"
proof -
  let ?w = "opt_else (bf_windowKind (rb_scope r)) BW_session"
  let ?i = "budget_scope_id s (bf_kind (rb_scope r)) (bf_ownerId (rb_scope r)) ?w"
  have run: "reserve_budget r s = (Inr g, t)"
    using assms(3) unfolding reserveBudget_served
    by (auto simp: service_scheduler_def checked_def via_eff_def split: if_splits prod.splits sum.splits)
  from reserve_granted [OF run refl refl] obtain u where u: "upsert_budget_scope r ?i ?w s = Inr u" "sv_scopes t = sv_scopes u"
    and g: "bg_scopeId g = ?i" by blast
  from upsert_row [OF u(1)] obtain y where y: "y \<in> set (sv_scopes u)" "bs_kind y = bf_kind (rb_scope r)"
    "bs_ownerId y = bf_ownerId (rb_scope r)" "bs_windowKind y = ?w" by blast
  have hash: "budget_scope_id u = budget_scope_id s"
    using upsert_cases [OF u(1)] by (auto simp: budget_scope_id_def fun_eq_iff)
  have "budget_ok u" using upsert_budget_ok [OF assms(1) refl u(1)] .
  from get_scope_named [OF this y(1)] have "get_scope u ?i = Some y" using y(2-4) hash by simp
  then have "get_scope t ?i = Some y" using u(2) by (simp add: get_scope_def)
  then show ?thesis using g y(2,3) assms(2)
    by (simp add: get_budget_scope_def getBudgetScope_served service_scheduler_def readable_scope_def)
qed

definition demo_objective :: ReserveBudgetRequest where
  "demo_objective = (demo_reserve ''a'' 100 60)\<lparr>rb_scope := \<lparr>bf_kind = BK_objective, bf_ownerId = ''o'', bf_windowKind = None\<rparr>\<rparr>"

theorem objective_scope_unreadable_witness:
  "\<exists>g t. reserveBudget system_transport demo_objective empty_service = (Inr g, t) \<and>
     getBudgetScope system_transport (bg_scopeId g) t = (Inl (plainError ''invalid budget scope kind: objective''), t)"
proof -
  have "case fst (ss_reserveBudget service_scheduler demo_objective empty_service) of Inl e \<Rightarrow> False | Inr g \<Rightarrow> True"
    by code_simp
  then obtain g t where run: "reserveBudget system_transport demo_objective empty_service = (Inr g, t)"
    unfolding reserveBudget_served by (cases "ss_reserveBudget service_scheduler demo_objective empty_service") (auto split: sum.splits)
  have "budget_ok empty_service" by (simp add: budget_ok_def empty_service_def)
  moreover have "bf_kind (rb_scope demo_objective) = BK_objective" by (simp add: demo_objective_def)
  ultimately show ?thesis using objective_scope_unreadable [OF _ _ run] run by blast
qed

end
