(* ===== verification/Abort_Registry.thy ===== *)
theory Abort_Registry
  imports Delegation_Types Rpc_Codec
begin

text \<open>
  The registry of running executions, packages/runtime/src/jobs/active-abort.ts, and the error
  payloads of worker-error.ts. An entry of the registry is an object with its own abort
  controller, which a registration keeps a reference to; the entries live in a heap, and a
  reference is an index into it. An abort controller is the reason of its first abort.
\<close>

section \<open>Reasons\<close>

datatype ActiveAbortKind = AK_cancel | AK_interrupt | AK_lease_lost | AK_timeout | AK_host_shutdown

record ActiveAbortReason =
  ar_kind :: ActiveAbortKind
  ar_message :: string

fun abortKindText :: "ActiveAbortKind \<Rightarrow> string" where
  "abortKindText AK_cancel = ''cancel''"
| "abortKindText AK_interrupt = ''interrupt''"
| "abortKindText AK_lease_lost = ''lease_lost''"
| "abortKindText AK_timeout = ''timeout''"
| "abortKindText AK_host_shutdown = ''host_shutdown''"

definition activeAbortKinds :: "(string \<times> ActiveAbortKind) list" where
  "activeAbortKinds = map (\<lambda>k. (abortKindText k, k)) [AK_cancel, AK_interrupt, AK_lease_lost, AK_timeout, AK_host_shutdown]"

fun isActiveAbortKind :: "js_value option \<Rightarrow> ActiveAbortKind option" where
  "isActiveAbortKind (Some (JsString s)) = map_of activeAbortKinds s"
| "isActiveAbortKind _ = None"

text \<open>A signal is \<open>None\<close> when there is none, else whether it is aborted and its reason.\<close>

definition readActiveAbortReason :: "(bool \<times> js_value) option \<Rightarrow> ActiveAbortReason option" where
  "readActiveAbortReason signal =
     (case signal of
        Some (True, JsObject plain m) \<Rightarrow>
          (case (map_of m ''message'', isActiveAbortKind (map_of m ''kind'')) of
             (Some (JsString message), Some kind) \<Rightarrow> Some \<lparr>ar_kind = kind, ar_message = message\<rparr>
           | _ \<Rightarrow> None)
      | _ \<Rightarrow> None)"

definition reason_value :: "ActiveAbortReason \<Rightarrow> js_value" where
  "reason_value r = JsObject True [(''kind'', JsString (abortKindText (ar_kind r))), (''message'', JsString (ar_message r))]"

section \<open>The registry\<close>

record ActiveExecutionEntry =
  en_jobId :: string
  en_attemptId :: "string option"
  en_reason :: "ActiveAbortReason option"
  en_registered :: bool

record registry =
  rg_heap :: "ActiveExecutionEntry list"
  rg_entries :: "(string \<times> nat) list"
  rg_attempts :: "(string \<times> nat) list"

definition empty_registry :: registry where
  "empty_registry = \<lparr>rg_heap = [], rg_entries = [], rg_attempts = []\<rparr>"

text \<open>\<open>Map.set\<close> and \<open>Map.delete\<close> on association lists without duplicates.\<close>

definition map_set :: "string \<Rightarrow> nat \<Rightarrow> (string \<times> nat) list \<Rightarrow> (string \<times> nat) list" where
  "map_set k v m = (if map_of m k = None then m @ [(k, v)] else map (\<lambda>(l, w). if l = k then (l, v) else (l, w)) m)"

definition map_delete :: "string \<Rightarrow> (string \<times> nat) list \<Rightarrow> (string \<times> nat) list" where
  "map_delete k m = filter (\<lambda>(l, w). l \<noteq> k) m"

definition update_entry :: "nat \<Rightarrow> (ActiveExecutionEntry \<Rightarrow> ActiveExecutionEntry) \<Rightarrow> registry \<Rightarrow> registry" where
  "update_entry e f g = g\<lparr>rg_heap := (rg_heap g)[e := f (rg_heap g ! e)]\<rparr>"

definition aborted_entry :: "nat \<Rightarrow> registry \<Rightarrow> bool" where
  "aborted_entry e g = (en_reason (rg_heap g ! e) \<noteq> None)"

text \<open>\<open>controller.abort(reason)\<close>: only the first abort counts.\<close>

definition controller_abort :: "nat \<Rightarrow> ActiveAbortReason \<Rightarrow> registry \<Rightarrow> registry" where
  "controller_abort e reason g =
     update_entry e (\<lambda>n. if en_reason n = None then n\<lparr>en_reason := Some reason\<rparr> else n) g"

definition registry_register :: "string \<Rightarrow> string option \<Rightarrow> registry \<Rightarrow> thrown + nat \<times> registry" where
  "registry_register jobId attemptId g =
     (if map_of (rg_entries g) jobId \<noteq> None then Inl (plainError (''active execution already registered: '' @ jobId))
      else let e = length (rg_heap g);
               h = g\<lparr>rg_heap := rg_heap g @ [\<lparr>en_jobId = jobId, en_attemptId = attemptId, en_reason = None, en_registered = True\<rparr>],
                     rg_entries := map_set jobId e (rg_entries g)\<rparr>
           in Inr (e, case attemptId of None \<Rightarrow> h | Some a \<Rightarrow> h\<lparr>rg_attempts := map_set a e (rg_attempts h)\<rparr>))"

definition bindAttempt :: "nat \<Rightarrow> string \<Rightarrow> registry \<Rightarrow> thrown + registry" where
  "bindAttempt e attemptId g =
     (let n = rg_heap g ! e in
      if \<not> en_registered n then Inl (plainError (''active execution registration is closed: '' @ en_jobId n))
      else if en_attemptId n \<noteq> None \<and> en_attemptId n \<noteq> Some attemptId
      then Inl (plainError (''active execution attempt is already bound: '' @ en_jobId n))
      else Inr ((update_entry e (\<lambda>n. n\<lparr>en_attemptId := Some attemptId\<rparr>) g)\<lparr>rg_attempts := map_set attemptId e (rg_attempts g)\<rparr>))"

definition registration_abort :: "nat \<Rightarrow> ActiveAbortReason \<Rightarrow> registry \<Rightarrow> bool \<times> registry" where
  "registration_abort e reason g =
     (if \<not> en_registered (rg_heap g ! e) \<or> aborted_entry e g then (False, g) else (True, controller_abort e reason g))"

definition unregister :: "nat \<Rightarrow> registry \<Rightarrow> registry" where
  "unregister e g =
     (let n = rg_heap g ! e in
      if \<not> en_registered n then g
      else
        let h = update_entry e (\<lambda>n. n\<lparr>en_registered := False\<rparr>) g;
            i = (case en_attemptId n of None \<Rightarrow> h
                 | Some a \<Rightarrow> if map_of (rg_attempts h) a = Some e then h\<lparr>rg_attempts := map_delete a (rg_attempts h)\<rparr> else h)
        in if map_of (rg_entries i) (en_jobId n) = Some e then i\<lparr>rg_entries := map_delete (en_jobId n) (rg_entries i)\<rparr> else i)"

definition registry_abort :: "string \<Rightarrow> string option \<Rightarrow> ActiveAbortReason \<Rightarrow> registry \<Rightarrow> bool \<times> registry" where
  "registry_abort jobId attemptId reason g =
     (case map_of (rg_entries g) jobId of
        None \<Rightarrow> (False, g)
      | Some e \<Rightarrow>
          if attemptId \<noteq> None \<and> en_attemptId (rg_heap g ! e) \<noteq> attemptId then (False, g)
          else if aborted_entry e g then (False, g)
          else (True, controller_abort e reason g))"

definition abortAttempt :: "string \<Rightarrow> ActiveAbortReason \<Rightarrow> registry \<Rightarrow> bool \<times> registry" where
  "abortAttempt attemptId reason g =
     (case map_of (rg_attempts g) attemptId of
        None \<Rightarrow> (False, g)
      | Some e \<Rightarrow> if aborted_entry e g then (False, g) else (True, controller_abort e reason g))"

fun abort_entries :: "ActiveAbortReason \<Rightarrow> (string \<times> nat) list \<Rightarrow> nat \<times> registry \<Rightarrow> nat \<times> registry" where
  "abort_entries reason [] (count, g) = (count, g)"
| "abort_entries reason ((j, e) # es) (count, g) =
     abort_entries reason es (if aborted_entry e g then (count, g) else (count + 1, controller_abort e reason g))"

definition abortAll :: "ActiveAbortReason \<Rightarrow> registry \<Rightarrow> nat \<times> registry" where
  "abortAll reason g = abort_entries reason (rg_entries g) (0, g)"

definition registry_size :: "registry \<Rightarrow> nat" where
  "registry_size g = length (rg_entries g)"

section \<open>Aborts only add reasons\<close>

text \<open>From one state of the registry to a later one: entries stay, and so do the reasons of aborts.\<close>

definition reg_grows :: "registry \<Rightarrow> registry \<Rightarrow> bool" where
  "reg_grows g h \<longleftrightarrow> length (rg_heap g) \<le> length (rg_heap h) \<and>
     (\<forall>e < length (rg_heap g). \<forall>r. en_reason (rg_heap g ! e) = Some r \<longrightarrow> en_reason (rg_heap h ! e) = Some r)"

lemma reg_grows_refl [simp]: "reg_grows g g"
  by (simp add: reg_grows_def)

lemma reg_grows_trans: "reg_grows g h \<Longrightarrow> reg_grows h i \<Longrightarrow> reg_grows g i"
  by (auto simp: reg_grows_def)

lemma update_entry_grows:
  "(\<And>n r. en_reason n = Some r \<Longrightarrow> en_reason (f n) = Some r) \<Longrightarrow> reg_grows g (update_entry e f g)"
proof -
  assume keep: "\<And>n r. en_reason n = Some r \<Longrightarrow> en_reason (f n) = Some r"
  have "en_reason (rg_heap (update_entry e f g) ! i) = Some r"
    if "i < length (rg_heap g)" "en_reason (rg_heap g ! i) = Some r" for i r
    using that keep [OF that(2)] by (cases "i = e") (simp_all add: update_entry_def)
  then show ?thesis by (simp add: reg_grows_def) (simp add: update_entry_def)
qed

lemma heap_grows: "rg_heap h = rg_heap g \<Longrightarrow> reg_grows g h"
  by (simp add: reg_grows_def)

lemma controller_abort_grows [simp]: "reg_grows g (controller_abort e r g)"
  unfolding controller_abort_def by (rule update_entry_grows) simp

lemma controller_abort_aborted: "e < length (rg_heap g) \<Longrightarrow> aborted_entry e (controller_abort e r g)"
  by (simp add: aborted_entry_def controller_abort_def update_entry_def)

lemma aborted_grows: "reg_grows g h \<Longrightarrow> e < length (rg_heap g) \<Longrightarrow> aborted_entry e g \<Longrightarrow> aborted_entry e h"
  by (force simp: reg_grows_def aborted_entry_def)

lemma register_grows: "registry_register j a g = Inr (e, h) \<Longrightarrow> reg_grows g h \<and> e < length (rg_heap h)"
  by (auto simp: registry_register_def reg_grows_def Let_def nth_append split: if_splits option.splits)

lemma unregister_grows [simp]: "reg_grows g (unregister e g)"
proof -
  have "rg_heap (unregister e g) = rg_heap g \<or> rg_heap (unregister e g) = rg_heap (update_entry e (\<lambda>n. n\<lparr>en_registered := False\<rparr>) g)"
    by (simp add: unregister_def Let_def split: option.split)
  moreover have "reg_grows g (update_entry e (\<lambda>n. n\<lparr>en_registered := False\<rparr>) g)" by (rule update_entry_grows) simp
  ultimately show ?thesis by (auto simp: reg_grows_def)
qed

lemma bindAttempt_grows: "bindAttempt e a g = Inr h \<Longrightarrow> reg_grows g h"
proof -
  assume "bindAttempt e a g = Inr h"
  then have "rg_heap h = rg_heap (update_entry e (\<lambda>n. n\<lparr>en_attemptId := Some a\<rparr>) g)"
    by (auto simp: bindAttempt_def Let_def split: if_splits)
  moreover have "reg_grows g (update_entry e (\<lambda>n. n\<lparr>en_attemptId := Some a\<rparr>) g)" by (rule update_entry_grows) simp
  ultimately show ?thesis by (simp add: reg_grows_def)
qed

lemma abort_grows:
  "reg_grows g (snd (registration_abort e r g))" "reg_grows g (snd (registry_abort j a r g))"
  "reg_grows g (snd (abortAttempt i r g))"
  by (simp_all add: registration_abort_def registry_abort_def abortAttempt_def split: option.split)

lemma abort_entries_grows: "reg_grows g h \<Longrightarrow> reg_grows g (snd (abort_entries r es (n, h)))"
proof (induction es arbitrary: n h)
  case (Cons p es)
  obtain j e where "p = (j, e)" by (cases p)
  moreover have "reg_grows g (controller_abort e r h)" using Cons.prems controller_abort_grows by (rule reg_grows_trans)
  ultimately show ?case using Cons by simp
qed simp

lemma abortAll_grows: "reg_grows g (snd (abortAll r g))"
  unfolding abortAll_def by (rule abort_entries_grows) simp

lemma read_reason: "readActiveAbortReason (Some (True, reason_value r)) = Some r"
  by (cases "ar_kind r") (simp_all add: readActiveAbortReason_def reason_value_def activeAbortKinds_def)

section \<open>Error payloads\<close>

definition WORKER_TIMEOUT_ERROR_NAME :: string where
  "WORKER_TIMEOUT_ERROR_NAME = ''WanexWorkerTimeoutError''"

text \<open>
  An error with its property \<open>result\<close>. A value that is no error has none.
\<close>

type_synonym job_error = "thrown \<times> js_value"

definition without_result :: "thrown \<Rightarrow> job_error" where
  "without_result e = (e, JsOther ''undefined'')"

fun normalizeError :: "job_error \<Rightarrow> job_error" where
  "normalizeError (NonError s, v) = without_result (plainError s)"
| "normalizeError e = e"

fun isJsonValue :: "js_value \<Rightarrow> bool" where
  "isJsonValue (JsArray vs) = list_all isJsonValue vs"
| "isJsonValue (JsObject plain kvs) = list_all (\<lambda>kv. isJsonValue (snd kv)) kvs"
| "isJsonValue (JsOther t) = False"
| "isJsonValue v = True"

text \<open>The value as it is sent: \<open>JSON.stringify\<close> writes \<open>null\<close> for NaN and the infinities.\<close>

fun sent_json :: "js_value \<Rightarrow> json" where
  "sent_json JsNull = JNull"
| "sent_json (JsBool b) = JBool b"
| "sent_json (JsString s) = JStr s"
| "sent_json (JsNumber n) = JNum n"
| "sent_json JsNonFinite = JNull"
| "sent_json (JsArray vs) = JArr (map sent_json vs)"
| "sent_json (JsObject plain kvs) = JObj (map (\<lambda>kv. (fst kv, sent_json (snd kv))) kvs)"
| "sent_json (JsOther t) = JNull"

definition errorResult :: "job_error \<Rightarrow> json option" where
  "errorResult e = (if isJsonValue (snd e) then Some (sent_json (snd e)) else None)"

definition workerFailurePayload :: "job_error \<Rightarrow> json" where
  "workerFailurePayload e = JObj
     ([(''type'', JStr (if error_name (fst e) = WORKER_TIMEOUT_ERROR_NAME then ''timeout'' else ''worker.error'')),
       (''message'', JStr (error_message (fst e))), (''name'', JStr (error_name (fst e)))] @
      (case errorResult e of None \<Rightarrow> [] | Some r \<Rightarrow> [(''result'', r)]))"

end
