(* ===== verification/Worker.thy ===== *)
theory Worker
  imports Scheduler_Rpc Abort_Registry
begin

text \<open>
  One run of a worker, \<open>runOnce\<close> of packages/runtime/src/jobs/worker.ts with heartbeat.ts,
  timeout.ts and acknowledged.ts. The run is a step relation: it claims a job, calls the handler,
  sends heartbeats in the background, and settles the job. Calls to the service are asynchronous:
  a call is sent, the service executes it at some later time, and its answer arrives at a still
  later time, while other clients use the service, the handler runs and timers fire. The handler
  may do anything its context allows, at any time, and may return anything.
\<close>

section \<open>Options\<close>

record WanexWorkerOptions =
  wo_workerId :: string
  wo_queue :: "string option"
  wo_leaseMs :: number
  wo_heartbeatIntervalMs :: "number option"
  wo_timeoutMs :: "number option"
  wo_kinds :: "SchedulerJobKind list option"

record WanexWorker =
  wc_workerId :: string
  wc_queue :: string
  wc_leaseMs :: number
  wc_heartbeatIntervalMs :: number
  wc_timeoutMs :: "number option"
  wc_kinds :: "SchedulerJobKind list option"
  wc_handlers :: "SchedulerJobKind list"

definition make_worker :: "WanexWorkerOptions \<Rightarrow> thrown + WanexWorker" where
  "make_worker o1 =
     (if wo_leaseMs o1 \<le> 0 then Inl (plainError ''worker leaseMs must be positive'')
      else if (case wo_heartbeatIntervalMs o1 of None \<Rightarrow> False | Some n \<Rightarrow> n \<le> 0)
      then Inl (plainError ''worker heartbeatIntervalMs must be positive'')
      else if (case wo_timeoutMs o1 of None \<Rightarrow> False | Some n \<Rightarrow> n \<le> 0)
      then Inl (plainError ''worker timeoutMs must be positive'')
      else Inr \<lparr>wc_workerId = wo_workerId o1, wc_queue = opt_else (wo_queue o1) DEFAULT_SCHEDULER_QUEUE,
                wc_leaseMs = wo_leaseMs o1,
                wc_heartbeatIntervalMs = opt_else (wo_heartbeatIntervalMs o1) (max 1000 (of_int \<lfloor>wo_leaseMs o1 / 3\<rfloor>)),
                wc_timeoutMs = wo_timeoutMs o1, wc_kinds = wo_kinds o1, wc_handlers = []\<rparr>)"

definition worker_register :: "SchedulerJobKind \<Rightarrow> WanexWorker \<Rightarrow> thrown + WanexWorker" where
  "worker_register kind c =
     (if kind \<in> set (wc_handlers c) then Inl (plainError (''worker handler already registered: '' @ jobKindText kind))
      else Inr (c\<lparr>wc_handlers := wc_handlers c @ [kind]\<rparr>))"

definition worker_queue :: "WanexWorker \<Rightarrow> string" where
  "worker_queue c = wc_queue c"

section \<open>The heartbeat loop\<close>

text \<open>A call to the service: on its way, or answered.\<close>

datatype 'a call = Sent | Answered "thrown + 'a"

record heartbeat_loop =
  hb_running :: bool
  hb_timer :: bool
  hb_active :: "SchedulerJobRecord option call option"

definition idle_heartbeat :: heartbeat_loop where
  "idle_heartbeat = \<lparr>hb_running = False, hb_timer = False, hb_active = None\<rparr>"

definition hb_schedule :: "heartbeat_loop \<Rightarrow> heartbeat_loop" where
  "hb_schedule h = (if \<not> hb_running h then h else h\<lparr>hb_timer := True\<rparr>)"

definition hb_start :: "heartbeat_loop \<Rightarrow> heartbeat_loop" where
  "hb_start h = (if hb_running h then h else hb_schedule (h\<lparr>hb_running := True\<rparr>))"

text \<open>\<open>stop\<close> up to its \<open>await this.active\<close>, which is over once \<open>hb_active\<close> is \<open>None\<close>.\<close>

definition hb_stop :: "heartbeat_loop \<Rightarrow> heartbeat_loop" where
  "hb_stop h = h\<lparr>hb_running := False, hb_timer := False\<rparr>"

text \<open>The timer of the loop fires, with the call that the beat makes.\<close>

definition hb_fire :: "SchedulerJobRecord option call \<Rightarrow> heartbeat_loop \<Rightarrow> heartbeat_loop" where
  "hb_fire c h =
     (let h = h\<lparr>hb_timer := False\<rparr> in if \<not> hb_running h then h else h\<lparr>hb_active := Some c\<rparr>)"

definition hb_finally :: "heartbeat_loop \<Rightarrow> heartbeat_loop" where
  "hb_finally h = hb_schedule (h\<lparr>hb_active := None\<rparr>)"

section \<open>A run\<close>

text \<open>What a handler returns: a value or nothing, or a job it has settled itself; or what it throws.\<close>

datatype handler_outcome =
    HO_value "json option"
  | HO_acknowledged SchedulerJobRecord "thrown option"
  | HO_throws job_error

fun isWorkerAcknowledgedResult :: "handler_outcome \<Rightarrow> bool" where
  "isWorkerAcknowledgedResult (HO_acknowledged job error) = True"
| "isWorkerAcknowledgedResult (HO_value (Some (JObj m))) =
     (map_of m ''acknowledged'' = Some (JBool True) \<and> map_of m ''job'' \<noteq> None)"
| "isWorkerAcknowledgedResult _ = False"

datatype WorkerRunOnceResult =
    WR_idle
  | WR_completed SchedulerJobRecord
  | WR_failed "SchedulerJobRecord option" thrown

datatype phase =
    Claiming "SchedulerJobRecord option call"
  | Handling
  | TimedOut
  | Stopping handler_outcome
  | Completing "SchedulerJobRecord option call"
  | Failing thrown "SchedulerJobRecord option call"
  | Done "thrown + WorkerRunOnceResult"

datatype settlement = Completes CompleteJobRequest | Fails FailJobRequest

text \<open>
  \<open>wk_beats\<close> are the heartbeats the handler asked for; \<open>wk_settlements\<close> the settling calls sent so
  far, and \<open>wk_lost\<close> and \<open>wk_acknowledged\<close> record that a heartbeat found the lease lost and that
  the handler settled the job itself.
\<close>

record run =
  wk_service :: service
  wk_registry :: registry
  wk_entry :: "nat option"
  wk_job :: "SchedulerJobRecord option"
  wk_phase :: phase
  wk_hb :: heartbeat_loop
  wk_beats :: "SchedulerJobRecord option call list"
  wk_settlements :: "settlement list"
  wk_lost :: bool
  wk_acknowledged :: bool

definition session :: "service scheduler_storage" where
  "session = scheduler_commands (rpc_scheduler system_transport)"

definition claim_request :: "WanexWorker \<Rightarrow> ClaimJobRequest" where
  "claim_request c =
     \<lparr>cj_workerId = wc_workerId c, cj_leaseMs = wc_leaseMs c, cj_kinds = wc_kinds c, cj_queues = Some [wc_queue c]\<rparr>"

definition run_start :: "service \<Rightarrow> registry \<Rightarrow> run" where
  "run_start s g =
     \<lparr>wk_service = s, wk_registry = g, wk_entry = None, wk_job = None, wk_phase = Claiming Sent, wk_hb = idle_heartbeat,
      wk_beats = [], wk_settlements = [], wk_lost = False, wk_acknowledged = False\<rparr>"

definition requireLeaseToken :: "SchedulerJobRecord \<Rightarrow> thrown + string" where
  "requireLeaseToken job =
     (case jb_leaseToken job of None \<Rightarrow> Inl (plainError (''claimed job is missing lease token: '' @ jb_id job)) | Some t \<Rightarrow> Inr t)"

text \<open>\<open>finally\<close>: the heartbeat is stopped already, and the registration ends.\<close>

definition run_finally :: "thrown + WorkerRunOnceResult \<Rightarrow> run \<Rightarrow> run" where
  "run_finally result w = w\<lparr>wk_phase := Done result,
     wk_registry := (case wk_entry w of None \<Rightarrow> wk_registry w | Some e \<Rightarrow> unregister e (wk_registry w))\<rparr>"

definition run_fail :: "WanexWorker \<Rightarrow> SchedulerJobRecord \<Rightarrow> job_error \<Rightarrow> run \<Rightarrow> run" where
  "run_fail c job e w =
     (case requireLeaseToken job of
        Inl missing \<Rightarrow> run_finally (Inl missing) w
      | Inr token \<Rightarrow> w\<lparr>wk_phase := Failing (fst e) Sent,
          wk_settlements := wk_settlements w @ [Fails \<lparr>fj_jobId = jb_id job, fj_workerId = wc_workerId c, fj_leaseToken = token,
            fj_error = workerFailurePayload e\<rparr>]\<rparr>)"

definition run_complete :: "WanexWorker \<Rightarrow> SchedulerJobRecord \<Rightarrow> json option \<Rightarrow> run \<Rightarrow> run" where
  "run_complete c job result w =
     (case requireLeaseToken job of
        Inl missing \<Rightarrow> run_fail c job (without_result missing) w
      | Inr token \<Rightarrow> w\<lparr>wk_phase := Completing Sent,
          wk_settlements := wk_settlements w @ [Completes \<lparr>kj_jobId = jb_id job, kj_workerId = wc_workerId c,
            kj_leaseToken = token, kj_result = result\<rparr>]\<rparr>)"

text \<open>The claim is answered.\<close>

definition run_claimed :: "WanexWorker \<Rightarrow> thrown + SchedulerJobRecord option \<Rightarrow> run \<Rightarrow> run" where
  "run_claimed c ans w =
     (case ans of
        Inl e \<Rightarrow> run_finally (Inl e) w
      | Inr None \<Rightarrow> run_finally (Inr WR_idle) w
      | Inr (Some job) \<Rightarrow>
          if jb_kind job \<notin> set (wc_handlers c)
          then run_fail c job (without_result (plainError (''no worker handler registered for job kind: '' @ jobKindText (jb_kind job))))
            (w\<lparr>wk_job := Some job\<rparr>)
          else (case registry_register (jb_id job) None (wk_registry w) of
                  Inl e \<Rightarrow> run_finally (Inl e) (w\<lparr>wk_job := Some job\<rparr>)
                | Inr (e, g) \<Rightarrow> w\<lparr>wk_job := Some job, wk_registry := g, wk_entry := Some e, wk_phase := Handling,
                    wk_hb := hb_start (wk_hb w)\<rparr>))"

definition lost_message :: "SchedulerJobRecord \<Rightarrow> string" where
  "lost_message job = ''worker lost lease for job: '' @ jb_id job"

definition beat_failed_reason :: "SchedulerJobRecord \<Rightarrow> thrown \<Rightarrow> ActiveAbortReason" where
  "beat_failed_reason job e = \<lparr>ar_kind = AK_lease_lost,
     ar_message = ''worker heartbeat failed for job '' @ jb_id job @ '': '' @ error_message (fst (normalizeError (without_result e)))\<rparr>"

text \<open>
  The answer of a heartbeat: a lost lease or an error aborts the handler, and \<open>onError\<close> then
  finds it aborted. A beat of the loop and one of the handler end in the same way.
\<close>

definition beat_answered :: "SchedulerJobRecord \<Rightarrow> nat \<Rightarrow> thrown + SchedulerJobRecord option \<Rightarrow> run \<Rightarrow> run" where
  "beat_answered job e ans w =
     (case ans of
        Inr (Some updated) \<Rightarrow> w
      | Inr None \<Rightarrow> w\<lparr>wk_lost := True, wk_registry := controller_abort e \<lparr>ar_kind = AK_lease_lost, ar_message = lost_message job\<rparr>
          (wk_registry w)\<rparr>
      | Inl error \<Rightarrow> (if aborted_entry e (wk_registry w) then w
          else w\<lparr>wk_registry := controller_abort e (beat_failed_reason job error) (wk_registry w)\<rparr>))"

text \<open>The beat function up to its call: without a token it throws at once.\<close>

definition beat_call :: "SchedulerJobRecord \<Rightarrow> SchedulerJobRecord option call" where
  "beat_call job = (case requireLeaseToken job of Inl e \<Rightarrow> Answered (Inl e) | Inr t \<Rightarrow> Sent)"

definition beat_request :: "WanexWorker \<Rightarrow> SchedulerJobRecord \<Rightarrow> HeartbeatJobRequest" where
  "beat_request c job =
     \<lparr>hj_jobId = jb_id job, hj_workerId = wc_workerId c, hj_leaseToken = opt_else (jb_leaseToken job) [],
      hj_leaseMs = wc_leaseMs c\<rparr>"

text \<open>
  \<open>withTimeout\<close>: the work ends, or the time is over. Then the handler is aborted, the run waits
  for it all the same and drops what it returns. \<open>ms\<close> is the timeout in decimal.
\<close>

definition timeout_error :: "WanexWorker \<Rightarrow> SchedulerJobRecord \<Rightarrow> string \<Rightarrow> thrown" where
  "timeout_error c job ms = ErrorObj WORKER_TIMEOUT_ERROR_NAME (''worker job '' @ jb_id job @ '' timed out after '' @ ms @ ''ms'')"

definition run_timeout :: "SchedulerJobRecord \<Rightarrow> nat \<Rightarrow> run \<Rightarrow> run" where
  "run_timeout job e w = w\<lparr>wk_phase := TimedOut, wk_registry := controller_abort e
     \<lparr>ar_kind = AK_timeout, ar_message = ''worker timed out for job: '' @ jb_id job\<rparr> (wk_registry w)\<rparr>"

definition run_returned :: "handler_outcome \<Rightarrow> run \<Rightarrow> run" where
  "run_returned outcome w = w\<lparr>wk_phase := Stopping outcome, wk_hb := hb_stop (wk_hb w)\<rparr>"

text \<open>The heartbeat has stopped: the job is settled, unless the handler did that.\<close>

definition run_stopped :: "WanexWorker \<Rightarrow> SchedulerJobRecord \<Rightarrow> handler_outcome \<Rightarrow> run \<Rightarrow> run" where
  "run_stopped c job outcome w =
     (case outcome of
        HO_acknowledged settled error \<Rightarrow>
          run_finally (Inr (case error of None \<Rightarrow> WR_completed settled | Some e \<Rightarrow> WR_failed (Some settled) e))
            (w\<lparr>wk_acknowledged := True\<rparr>)
      | HO_value result \<Rightarrow> run_complete c job result w
      | HO_throws error \<Rightarrow> run_fail c job (normalizeError error) w)"

definition run_completed :: "WanexWorker \<Rightarrow> SchedulerJobRecord \<Rightarrow> thrown + SchedulerJobRecord option \<Rightarrow> run \<Rightarrow> run" where
  "run_completed c job ans w =
     (case ans of
        Inl e \<Rightarrow> run_fail c job (normalizeError (without_result e)) w
      | Inr None \<Rightarrow> run_finally (Inr (WR_failed None (plainError (''worker could not complete job: '' @ jb_id job)))) w
      | Inr (Some completed) \<Rightarrow> run_finally (Inr (WR_completed completed)) w)"

definition run_failed :: "thrown \<Rightarrow> thrown + SchedulerJobRecord option \<Rightarrow> run \<Rightarrow> run" where
  "run_failed error ans w =
     run_finally (case ans of Inl e \<Rightarrow> Inl e | Inr failed \<Rightarrow> Inr (WR_failed failed error)) w"

section \<open>Steps\<close>

text \<open>The service executes a call: a heartbeat, or the call of a phase.\<close>

definition settlement_call :: "settlement \<Rightarrow> (service, thrown, SchedulerJobRecord option) eff" where
  "settlement_call x = (case x of Completes r \<Rightarrow> ss_completeJob session r | Fails r \<Rightarrow> ss_failJob session r)"

definition answered :: "run \<Rightarrow> (thrown + 'a) \<times> service \<Rightarrow> ('a call \<Rightarrow> run \<Rightarrow> run) \<Rightarrow> run" where
  "answered w r put = put (Answered (fst r)) (w\<lparr>wk_service := snd r\<rparr>)"

inductive worker_step :: "WanexWorker \<Rightarrow> run \<Rightarrow> run \<Rightarrow> bool" for c :: WanexWorker where
  others: "service_step (wk_service w) s \<Longrightarrow> worker_step c w (w\<lparr>wk_service := s\<rparr>)"
| aborts: "g \<in> {snd (registry_abort j a r (wk_registry w)), snd (abortAttempt i r (wk_registry w)), snd (abortAll r (wk_registry w))} \<Longrightarrow>
    worker_step c w (w\<lparr>wk_registry := g\<rparr>)"
| binds: "wk_entry w = Some e \<Longrightarrow> bindAttempt e a (wk_registry w) = Inr g \<Longrightarrow> worker_step c w (w\<lparr>wk_registry := g\<rparr>)"
| claim_executes: "wk_phase w = Claiming Sent \<Longrightarrow>
    worker_step c w (answered w (ss_claimJob session (claim_request c) (wk_service w)) (\<lambda>x. wk_phase_update (\<lambda>_. Claiming x)))"
| claim_arrives: "wk_phase w = Claiming (Answered x) \<Longrightarrow> worker_step c w (run_claimed c x w)"
| returns: "wk_phase w = Handling \<Longrightarrow> isWorkerAcknowledgedResult x \<longrightarrow> (\<exists>job e. x = HO_acknowledged job e) \<Longrightarrow>
    worker_step c w (run_returned x w)"
| times_out: "wk_phase w = Handling \<Longrightarrow> wc_timeoutMs c \<noteq> None \<Longrightarrow> wk_job w = Some job \<Longrightarrow> wk_entry w = Some e \<Longrightarrow>
    worker_step c w (run_timeout job e w)"
| drained: "wk_phase w = TimedOut \<Longrightarrow> wk_job w = Some job \<Longrightarrow>
    worker_step c w (run_returned (HO_throws (without_result (timeout_error c job ms))) w)"
| stopped: "wk_phase w = Stopping x \<Longrightarrow> hb_active (wk_hb w) = None \<Longrightarrow> wk_job w = Some job \<Longrightarrow>
    worker_step c w (run_stopped c job x w)"
| complete_executes: "wk_phase w = Completing Sent \<Longrightarrow> wk_settlements w = xs @ [x] \<Longrightarrow>
    worker_step c w (answered w (settlement_call x (wk_service w)) (\<lambda>y. wk_phase_update (\<lambda>_. Completing y)))"
| complete_arrives: "wk_phase w = Completing (Answered x) \<Longrightarrow> wk_job w = Some job \<Longrightarrow> worker_step c w (run_completed c job x w)"
| fail_executes: "wk_phase w = Failing e Sent \<Longrightarrow> wk_settlements w = xs @ [x] \<Longrightarrow>
    worker_step c w (answered w (settlement_call x (wk_service w)) (\<lambda>y. wk_phase_update (\<lambda>_. Failing e y)))"
| fail_arrives: "wk_phase w = Failing e (Answered x) \<Longrightarrow> worker_step c w (run_failed e x w)"
| fires: "hb_timer (wk_hb w) \<Longrightarrow> wk_job w = Some job \<Longrightarrow>
    worker_step c w (w\<lparr>wk_hb := hb_fire (beat_call job) (wk_hb w)\<rparr>)"
| beat_executes: "hb_active (wk_hb w) = Some Sent \<Longrightarrow> wk_job w = Some job \<Longrightarrow>
    worker_step c w (answered w (ss_heartbeatJob session (beat_request c job) (wk_service w))
      (\<lambda>x. wk_hb_update (hb_active_update (\<lambda>_. Some x))))"
| beat_arrives: "hb_active (wk_hb w) = Some (Answered x) \<Longrightarrow> wk_job w = Some job \<Longrightarrow> wk_entry w = Some e \<Longrightarrow>
    worker_step c w ((beat_answered job e x w)\<lparr>wk_hb := hb_finally (wk_hb w)\<rparr>)"
| asks_beat: "wk_entry w = Some e \<Longrightarrow> wk_job w = Some job \<Longrightarrow>
    worker_step c w (w\<lparr>wk_beats := wk_beats w @ [beat_call job]\<rparr>)"
| asked_executes: "wk_beats w = xs @ Sent # ys \<Longrightarrow> wk_job w = Some job \<Longrightarrow>
    worker_step c w (answered w (ss_heartbeatJob session (beat_request c job) (wk_service w))
      (\<lambda>x. wk_beats_update (\<lambda>_. xs @ x # ys)))"
| asked_arrives: "wk_beats w = xs @ Answered x # ys \<Longrightarrow> wk_job w = Some job \<Longrightarrow> wk_entry w = Some e \<Longrightarrow>
    worker_step c w ((beat_answered job e x w)\<lparr>wk_beats := xs @ ys\<rparr>)"

end
