(* ===== verification/Worker_Safety.thy ===== *)
theory Worker_Safety
  imports Worker
begin

text \<open>
  What one run of a worker promises: it settles its job at most once, under the lease it was given
  and with no heartbeat of the loop under way; a handler whose lease is lost is told so; and a
  completion it reports is in the table of the service, for good.
\<close>

section \<open>The run by itself\<close>

fun settlement_for :: "WanexWorker \<Rightarrow> SchedulerJobRecord \<Rightarrow> settlement \<Rightarrow> bool" where
  "settlement_for c job (Completes r) \<longleftrightarrow>
     kj_jobId r = jb_id job \<and> kj_workerId r = wc_workerId c \<and> jb_leaseToken job = Some (kj_leaseToken r)"
| "settlement_for c job (Fails r) \<longleftrightarrow>
     fj_jobId r = jb_id job \<and> fj_workerId r = wc_workerId c \<and> jb_leaseToken job = Some (fj_leaseToken r)"

text \<open>At most one completion and at most one failure, in this order.\<close>

fun settles_once :: "settlement list \<Rightarrow> bool" where
  "settles_once [] = True"
| "settles_once [x] = True"
| "settles_once [Completes r, Fails f] = True"
| "settles_once _ = False"

definition halted :: "heartbeat_loop \<Rightarrow> bool" where
  "halted h \<longleftrightarrow> \<not> hb_running h \<and> \<not> hb_timer h"

definition quiet :: "heartbeat_loop \<Rightarrow> bool" where
  "quiet h \<longleftrightarrow> halted h \<and> hb_active h = None"

fun phase_ok :: "phase \<Rightarrow> run \<Rightarrow> bool" where
  "phase_ok (Claiming x) w \<longleftrightarrow> wk_settlements w = [] \<and> wk_hb w = idle_heartbeat \<and> wk_job w = None \<and> wk_entry w = None"
| "phase_ok Handling w \<longleftrightarrow> wk_settlements w = []"
| "phase_ok TimedOut w \<longleftrightarrow> wk_settlements w = []"
| "phase_ok (Stopping x) w \<longleftrightarrow> wk_settlements w = [] \<and> halted (wk_hb w)"
| "phase_ok (Completing x) w \<longleftrightarrow> (\<exists>r. wk_settlements w = [Completes r]) \<and> quiet (wk_hb w)"
| "phase_ok (Failing e x) w \<longleftrightarrow> ((\<exists>f. wk_settlements w = [Fails f]) \<or> (\<exists>r f. wk_settlements w = [Completes r, Fails f])) \<and> quiet (wk_hb w)"
| "phase_ok (Done r) w \<longleftrightarrow> settles_once (wk_settlements w) \<and> quiet (wk_hb w)"

definition run_ok :: "WanexWorker \<Rightarrow> run \<Rightarrow> bool" where
  "run_ok c w \<longleftrightarrow> phase_ok (wk_phase w) w \<and>
     (\<forall>x \<in> set (wk_settlements w). \<exists>job. wk_job w = Some job \<and> settlement_for c job x)"

lemmas run_defs = run_finally_def run_fail_def run_complete_def run_claimed_def run_returned_def run_stopped_def
  run_completed_def run_failed_def run_timeout_def requireLeaseToken_def

lemmas hb_defs = hb_schedule_def hb_start_def hb_stop_def hb_fire_def hb_finally_def halted_def quiet_def idle_heartbeat_def

lemma phase_ok_frame:
  "wk_settlements v = wk_settlements w \<Longrightarrow> wk_hb v = wk_hb w \<Longrightarrow> wk_job v = wk_job w \<Longrightarrow> wk_entry v = wk_entry w \<Longrightarrow>
   phase_ok p v = phase_ok p w"
  by (cases p) simp_all

lemma run_ok_frame:
  assumes "wk_settlements v = wk_settlements w" "wk_hb v = wk_hb w" "wk_job v = wk_job w" "wk_entry v = wk_entry w"
    "wk_phase v = wk_phase w"
  shows "run_ok c v = run_ok c w"
  using assms phase_ok_frame [OF assms(1-4)] by (simp add: run_ok_def)

lemma quiet_fire: "quiet h \<Longrightarrow> hb_timer h \<Longrightarrow> P" "halted h \<Longrightarrow> hb_timer h \<Longrightarrow> P"
  by (simp_all add: quiet_def halted_def)

text \<open>A change of the heartbeat loop that leaves a stopped loop stopped.\<close>

lemma run_ok_heartbeat:
  assumes "run_ok c w" and "\<And>y. wk_phase w \<noteq> Claiming y"
    and "halted (wk_hb w) \<Longrightarrow> halted h" and "quiet (wk_hb w) \<Longrightarrow> quiet h"
  shows "run_ok c (w\<lparr>wk_hb := h\<rparr>)"
  using assms by (cases "wk_phase w") (auto simp: run_ok_def)

lemma run_fail_ok:
  assumes "wk_settlements w = [] \<or> (\<exists>r. wk_settlements w = [Completes r])" and "quiet (wk_hb w)" and "wk_job w = Some job"
    and "\<forall>x \<in> set (wk_settlements w). settlement_for c job x"
  shows "run_ok c (run_fail c job e w)"
  using assms by (auto simp: run_fail_def run_finally_def run_ok_def requireLeaseToken_def split: option.splits)

lemma run_complete_ok:
  assumes "wk_settlements w = []" and "quiet (wk_hb w)" and "wk_job w = Some job"
  shows "run_ok c (run_complete c job v w)"
proof (cases "jb_leaseToken job")
  case None
  then show ?thesis using run_fail_ok [of w job c] assms by (simp add: run_complete_def requireLeaseToken_def)
next
  case (Some t)
  then show ?thesis using assms by (simp add: run_complete_def requireLeaseToken_def run_ok_def)
qed

lemma run_finally_ok:
  assumes "settles_once (wk_settlements w)" and "quiet (wk_hb w)"
    and "\<forall>x \<in> set (wk_settlements w). \<exists>job. wk_job w = Some job \<and> settlement_for c job x"
  shows "run_ok c (run_finally r w)"
  using assms by (simp add: run_ok_def run_finally_def)

lemma run_claimed_ok:
  assumes "wk_settlements w = []" and "wk_hb w = idle_heartbeat"
  shows "run_ok c (run_claimed c x w)"
proof -
  have q: "quiet idle_heartbeat" by (simp add: hb_defs)
  show ?thesis
  proof (cases x)
    case (Inr j)
    then show ?thesis
    proof (cases j)
      case (Some job)
      have "run_ok c (run_fail c job e (w\<lparr>wk_job := Some job\<rparr>))" for e using assms q by (intro run_fail_ok) simp_all
      moreover have "run_ok c (run_finally r (w\<lparr>wk_job := Some job\<rparr>))" for r using assms q by (intro run_finally_ok) simp_all
      ultimately show ?thesis using Inr Some assms by (auto simp: run_claimed_def run_ok_def split: sum.split)
    qed (use assms q run_finally_ok in \<open>simp add: run_claimed_def\<close>)
  qed (use assms q run_finally_ok in \<open>simp add: run_claimed_def\<close>)
qed

lemma run_stopped_ok:
  assumes "wk_settlements w = []" and "quiet (wk_hb w)" and "wk_job w = Some job"
  shows "run_ok c (run_stopped c job x w)"
proof (cases x)
  case (HO_value v)
  then show ?thesis using run_complete_ok [OF assms] by (simp add: run_stopped_def)
next
  case (HO_acknowledged j e)
  then show ?thesis using assms run_finally_ok [of "w\<lparr>wk_acknowledged := True\<rparr>" c] by (simp add: run_stopped_def)
next
  case (HO_throws e)
  then show ?thesis using run_fail_ok [of w job c] assms by (simp add: run_stopped_def)
qed

lemma run_completed_ok:
  assumes "run_ok c w" and "wk_phase w = Completing y" and "wk_job w = Some job"
  shows "run_ok c (run_completed c job x w)"
proof -
  have w: "\<exists>r. wk_settlements w = [Completes r]" "quiet (wk_hb w)" "\<forall>x \<in> set (wk_settlements w). settlement_for c job x"
    using assms by (auto simp: run_ok_def)
  then have "run_ok c (run_finally r w)" for r using assms(3) by (intro run_finally_ok) auto
  then show ?thesis using run_fail_ok [of w job c] w assms(3) by (auto simp: run_completed_def split: sum.split option.split)
qed

lemma run_failed_ok:
  assumes "run_ok c w" and "wk_phase w = Failing e y"
  shows "run_ok c (run_failed e x w)"
  unfolding run_failed_def using assms by (intro run_finally_ok) (auto simp: run_ok_def)

lemma beat_frame [simp]:
  "wk_settlements (beat_answered job e x w) = wk_settlements w" "wk_hb (beat_answered job e x w) = wk_hb w"
  "wk_job (beat_answered job e x w) = wk_job w" "wk_entry (beat_answered job e x w) = wk_entry w"
  "wk_phase (beat_answered job e x w) = wk_phase w" "wk_service (beat_answered job e x w) = wk_service w"
  "wk_acknowledged (beat_answered job e x w) = wk_acknowledged w"
  by (simp_all add: beat_answered_def split: sum.split option.split)

lemma run_ok_step: "worker_step c w v \<Longrightarrow> run_ok c w \<Longrightarrow> run_ok c v"
proof (induction rule: worker_step.induct)
  case (claim_arrives w x)
  then show ?case by (intro run_claimed_ok) (simp_all add: run_ok_def)
next
  case (returns w x)
  then show ?case by (auto simp: run_ok_def run_returned_def hb_defs)
next
  case (drained w job ms)
  then show ?case by (auto simp: run_ok_def run_returned_def hb_defs)
next
  case (stopped w x job)
  then show ?case by (intro run_stopped_ok) (auto simp: run_ok_def quiet_def)
next
  case (complete_arrives w x job)
  then show ?case by (intro run_completed_ok) simp_all
next
  case (fail_arrives w e x)
  then show ?case by (intro run_failed_ok) simp_all
next
  case (fires w job)
  then show ?case by (intro run_ok_heartbeat) (auto simp: run_ok_def elim: quiet_fire)
next
  case (beat_executes w job)
  have "run_ok c (w\<lparr>wk_hb := hb_active_update (\<lambda>_. Some x) (wk_hb w)\<rparr>)" for x
    using beat_executes by (intro run_ok_heartbeat) (auto simp: run_ok_def halted_def quiet_def)
  moreover have "run_ok c (answered w r (\<lambda>x. wk_hb_update (hb_active_update (\<lambda>_. Some x)))) =
      run_ok c (w\<lparr>wk_hb := hb_active_update (\<lambda>_. Some (Answered (fst r))) (wk_hb w)\<rparr>)" for r
    by (rule run_ok_frame) (simp_all add: answered_def)
  ultimately show ?case by simp
next
  case (beat_arrives w x job e)
  have "run_ok c (w\<lparr>wk_hb := hb_finally (wk_hb w)\<rparr>)"
    using beat_arrives by (intro run_ok_heartbeat) (auto simp: run_ok_def hb_defs)
  moreover have "run_ok c ((beat_answered job e x w)\<lparr>wk_hb := hb_finally (wk_hb w)\<rparr>) =
      run_ok c (w\<lparr>wk_hb := hb_finally (wk_hb w)\<rparr>)" by (rule run_ok_frame) simp_all
  ultimately show ?case by simp
next
  case (others w s)
  then show ?case by (subst run_ok_frame [of _ w]) simp_all
next
  case (aborts g j a r w i)
  show ?case by (subst run_ok_frame [of _ w]) (simp_all add: aborts(2))
next
  case (binds w e a g)
  then show ?case by (subst run_ok_frame [of _ w]) simp_all
next
  case (asks_beat w e job)
  then show ?case by (subst run_ok_frame [of _ w]) simp_all
next
  case (asked_executes w xs ys job)
  then show ?case by (subst run_ok_frame [of _ w]) (simp_all add: answered_def)
next
  case (asked_arrives w xs x ys job e)
  then show ?case by (subst run_ok_frame [of _ w]) simp_all
qed (auto simp: run_ok_def answered_def run_timeout_def)

section \<open>The abort signal\<close>

definition signal_ok :: "run \<Rightarrow> bool" where
  "signal_ok w \<longleftrightarrow> (wk_entry w = None \<longrightarrow> \<not> wk_lost w) \<and>
     (\<forall>e. wk_entry w = Some e \<longrightarrow> e < length (rg_heap (wk_registry w)) \<and> (wk_lost w \<longrightarrow> aborted_entry e (wk_registry w)))"

lemma signal_ok_grows:
  assumes "signal_ok w" and "reg_grows (wk_registry w) (wk_registry v)" and "wk_entry v = wk_entry w" and "wk_lost v = wk_lost w"
  shows "signal_ok v"
proof (cases "wk_entry w")
  case (Some e)
  then have "e < length (rg_heap (wk_registry v))" using assms(1,2) by (auto simp: signal_ok_def reg_grows_def)
  then show ?thesis using Some assms aborted_grows [OF assms(2), of e] by (auto simp: signal_ok_def)
qed (use assms in \<open>simp add: signal_ok_def\<close>)

lemma finally_grows [simp]: "reg_grows (wk_registry w) (wk_registry (run_finally r w))"
  by (simp add: run_finally_def split: option.split)

lemma finally_acknowledged_grows [simp]:
  "reg_grows (wk_registry w) (wk_registry (run_finally r (w\<lparr>wk_acknowledged := b\<rparr>)))"
  by (simp add: run_finally_def split: option.split)

lemma run_frames [simp]:
  "wk_entry (run_finally r w) = wk_entry w" "wk_lost (run_finally r w) = wk_lost w" "wk_service (run_finally r w) = wk_service w"
  "wk_job (run_finally r w) = wk_job w" "wk_acknowledged (run_finally r w) = wk_acknowledged w"
  "wk_entry (run_fail c job e w) = wk_entry w" "wk_lost (run_fail c job e w) = wk_lost w"
  "wk_service (run_fail c job e w) = wk_service w" "wk_job (run_fail c job e w) = wk_job w"
  "wk_entry (run_complete c job x w) = wk_entry w" "wk_lost (run_complete c job x w) = wk_lost w"
  "wk_service (run_complete c job x w) = wk_service w" "wk_job (run_complete c job x w) = wk_job w"
  by (simp_all add: run_finally_def run_fail_def run_complete_def split: sum.split)

lemma settle_grows [simp]:
  "reg_grows (wk_registry w) (wk_registry (run_fail c job e w))" "reg_grows (wk_registry w) (wk_registry (run_complete c job x w))"
  by (simp_all add: run_fail_def run_complete_def split: sum.split)

lemma beat_answered_signal:
  assumes "signal_ok w" and "wk_entry w = Some e"
  shows "signal_ok (beat_answered job e x w)"
proof -
  have e: "e < length (rg_heap (wk_registry w))" using assms by (simp add: signal_ok_def)
  then have "e < length (rg_heap (controller_abort e r (wk_registry w)))" for r
    using controller_abort_grows [of "wk_registry w" e r] by (simp add: reg_grows_def)
  then show ?thesis using assms e
    by (auto simp: beat_answered_def signal_ok_def controller_abort_aborted split: sum.split option.split)
qed

lemma signal_ok_frame:
  "wk_registry v = wk_registry w \<Longrightarrow> wk_entry v = wk_entry w \<Longrightarrow> wk_lost v = wk_lost w \<Longrightarrow> signal_ok v = signal_ok w"
  by (cases "wk_entry w") (simp_all add: signal_ok_def)

lemma run_claimed_signal:
  assumes "signal_ok w" and "wk_entry w = None"
  shows "signal_ok (run_claimed c x w)"
proof -
  have no: "signal_ok v" if "wk_entry v = None" "wk_lost v = wk_lost w" for v
    using that assms by (simp add: signal_ok_def)
  have "signal_ok (w\<lparr>wk_job := j, wk_registry := g, wk_entry := Some e, wk_phase := Handling, wk_hb := h\<rparr>)"
    if "registry_register i a (wk_registry w) = Inr (e, g)" for i a e g j h
    using register_grows [OF that] assms by (simp add: signal_ok_def)
  then show ?thesis
    using assms(2) by (auto simp: run_claimed_def intro!: no split: sum.split option.split)
qed

lemma signal_ok_step: "worker_step c w v \<Longrightarrow> run_ok c w \<Longrightarrow> signal_ok w \<Longrightarrow> signal_ok v"
proof (induction rule: worker_step.induct)
  case (aborts g j a r w i)
  then have "g = snd (registry_abort j a r (wk_registry w)) \<or> g = snd (abortAttempt i r (wk_registry w)) \<or>
      g = snd (abortAll r (wk_registry w))" by simp
  then have "reg_grows (wk_registry w) g" by (elim disjE) (simp_all add: abort_grows abortAll_grows)
  then show ?case by (intro signal_ok_grows [OF aborts(3)]) simp_all
next
  case (binds w e a g)
  show ?case by (intro signal_ok_grows [OF binds(4)]) (simp_all add: bindAttempt_grows [OF binds(2)])
next
  case (claim_arrives w x)
  then show ?case by (intro run_claimed_signal) (simp_all add: run_ok_def)
next
  case (stopped w x job)
  show ?case by (rule signal_ok_grows [OF stopped(5)]) (simp_all add: run_stopped_def split: handler_outcome.split option.split)
next
  case (complete_arrives w x job)
  show ?case by (rule signal_ok_grows [OF complete_arrives(4)]) (simp_all add: run_completed_def split: sum.split option.split)
next
  case (fail_arrives w e x)
  show ?case by (rule signal_ok_grows [OF fail_arrives(3)]) (simp_all add: run_failed_def)
next
  case (times_out w job e)
  show ?case by (rule signal_ok_grows [OF times_out(6)]) (simp_all add: run_timeout_def)
next
  case (beat_arrives w x job e)
  then have "signal_ok (beat_answered job e x w)" by (intro beat_answered_signal)
  then show ?case by (subst signal_ok_frame [of _ "beat_answered job e x w"]) simp_all
next
  case (asked_arrives w xs x ys job e)
  then have "signal_ok (beat_answered job e x w)" by (intro beat_answered_signal)
  then show ?case by (subst signal_ok_frame [of _ "beat_answered job e x w"]) simp_all
qed (simp_all add: signal_ok_def answered_def run_returned_def)

section \<open>The service\<close>

lemma via_steps: "(\<And>x t. op s = Inr (x, t) \<Longrightarrow> job_step s t) \<Longrightarrow> service_steps s (snd (via f op s))"
  by (auto simp: via_def split: sum.split intro: service_step.queue)

lemma checked_steps: "service_steps s (snd (m s)) \<Longrightarrow> service_steps s (snd (checked b m s))"
  by (simp add: checked_def)

lemma session_is:
  "ss_completeJob session r = via (map_option wire_job) (complete_job (r\<lparr>kj_result := drop_null (kj_result r)\<rparr>))"
  "ss_failJob session r1 = via (map_option wire_job) (fail_job r1)"
  "ss_claimJob session r2 s = (if cj_leaseMs r2 \<le> 0 then (Inl (plainError ''job leaseMs must be positive''), s)
     else checked (i64_ok (cj_leaseMs r2)) (via (map_option wire_job) (claim_job r2)) s)"
  "ss_heartbeatJob session r3 s = (if hj_leaseMs r3 \<le> 0 then (Inl (plainError ''job leaseMs must be positive''), s)
     else checked (i64_ok (hj_leaseMs r3)) (via (map_option wire_job) (heartbeat_job r3)) s)"
  by (simp_all add: session_def scheduler_client_is_service scheduler_commands_def service_scheduler_def assertPositiveLease_def
      eff_bind_def)

lemma session_steps:
  "service_steps s (snd (ss_completeJob session r s))" "service_steps s (snd (ss_failJob session r1 s))"
  "service_steps s (snd (ss_claimJob session r2 s))" "service_steps s (snd (ss_heartbeatJob session r3 s))"
  unfolding session_is
  by (simp_all, (intro via_steps checked_steps impI, auto intro: job_step.intros)+)

lemma settlement_steps: "service_steps s (snd (settlement_call x s))"
  by (simp add: settlement_call_def session_steps split: settlement.split)

lemma complete_row:
  assumes "complete_job r s = Inr (Some j, t)"
  shows "\<exists>k. get_job_row t (kj_jobId r) = Some k \<and> jb_state k = JS_succeeded \<and> j = k"
proof (cases "get_job_row s (kj_jobId r)")
  case (Some e)
  show ?thesis
  proof (cases "jb_state e = JS_succeeded")
    case True
    then show ?thesis using assms Some by (auto simp: complete_job_def split: option.splits)
  next
    case False
    let ?u = "update_job (kj_jobId r) (succeed (kj_result r) (sv_now s)) s"
    have "commit_job_grant e ?u = Inr t" "get_job_row t (kj_jobId r) = Some j"
      using assms Some False by (auto simp: complete_job_def res_bind_eq_Inr split: option.splits if_splits)
    moreover have "get_job_row ?u (kj_jobId r) = Some (succeed (kj_result r) (sv_now s) e)"
      using Some by (rule get_job_row_update) (simp add: succeed_def)
    moreover have "get_job_row t = get_job_row ?u" using commit_job_grant_frame [OF calculation(1)] by (simp add: get_job_row_def fun_eq_iff)
    ultimately show ?thesis by (auto simp: succeed_def clear_lease_def)
  qed
qed (use assms in \<open>simp add: complete_job_def\<close>)

text \<open>The row of a job in the service, as a client sees it, is a success.\<close>

definition succeeded_row :: "service \<Rightarrow> string \<Rightarrow> SchedulerJobRecord \<Rightarrow> bool" where
  "succeeded_row s i j \<longleftrightarrow> (\<exists>k. get_job_row s i = Some k \<and> jb_state k = JS_succeeded \<and> j = wire_job k)"

lemma succeeded_kept:
  assumes "service_steps s t" and "queue_ok s" and "succeeded_row s i j"
  shows "succeeded_row t i j"
proof -
  obtain k where k: "get_job_row s i = Some k" "jb_state k = JS_succeeded" "j = wire_job k"
    using assms(3) by (auto simp: succeeded_row_def)
  note ks = get_job_row_Some [OF k(1)]
  have "queue_ok t" by (rule steps_ok [OF assms(1,2)])
  moreover obtain m where "m \<in> set (sv_jobs t)" "m = k"
    using settled_row_kept [OF assms(1,2), of k] ks k(2) by (auto simp: is_terminal_def settled_row_def resumable_def)
  ultimately have "get_job_row t i = Some k" using ks by (auto simp: get_job_row_iff queue_ok_def)
  then show ?thesis using k by (auto simp: succeeded_row_def)
qed

definition report_ok :: "run \<Rightarrow> bool" where
  "report_ok w \<longleftrightarrow> queue_ok (wk_service w) \<and>
     (\<forall>j. wk_phase w = Completing (Answered (Inr (Some j))) \<or> (wk_phase w = Done (Inr (WR_completed j)) \<and> \<not> wk_acknowledged w) \<longrightarrow>
        (\<exists>job. wk_job w = Some job \<and> succeeded_row (wk_service w) (jb_id job) j))"

lemma report_ok_steps:
  assumes "report_ok w" and "service_steps (wk_service w) (wk_service v)" and "wk_job v = wk_job w"
    and "wk_phase v = wk_phase w" and "wk_acknowledged v = wk_acknowledged w"
  shows "report_ok v"
  using assms(1,3-5) succeeded_kept [OF assms(2)] steps_ok [OF assms(2)] by (auto simp: report_ok_def)

definition reports_nothing :: "phase \<Rightarrow> bool" where
  "reports_nothing p \<longleftrightarrow> (\<forall>j. p \<noteq> Completing (Answered (Inr (Some j))) \<and> p \<noteq> Done (Inr (WR_completed j)))"

lemma report_ok_quiet:
  "report_ok w \<Longrightarrow> wk_service v = wk_service w \<Longrightarrow> reports_nothing (wk_phase v) \<or> (wk_acknowledged v \<and> (\<exists>r. wk_phase v = Done r)) \<Longrightarrow>
   report_ok v"
  by (auto simp: report_ok_def reports_nothing_def)

lemma run_finally_quiet: "(\<And>j. r \<noteq> Inr (WR_completed j)) \<Longrightarrow> reports_nothing (wk_phase (run_finally r w))"
  by (simp add: run_finally_def reports_nothing_def)

lemma run_fail_quiet: "reports_nothing (wk_phase (run_fail c job e w))"
proof (cases "requireLeaseToken job")
  case (Inl m)
  then show ?thesis using run_finally_quiet [of "Inl m" w] by (simp add: run_fail_def)
qed (simp add: run_fail_def reports_nothing_def)

lemma run_complete_quiet: "reports_nothing (wk_phase (run_complete c job x w))"
proof (cases "requireLeaseToken job")
  case (Inl m)
  then show ?thesis using run_fail_quiet by (simp add: run_complete_def)
qed (simp add: run_complete_def reports_nothing_def)

lemma run_claimed_quiet: "reports_nothing (wk_phase (run_claimed c x w))"
proof (cases "\<exists>job. x = Inr (Some job) \<and> jb_kind job \<notin> set (wc_handlers c)")
  case True
  then show ?thesis by (elim exE conjE) (simp add: run_claimed_def run_fail_quiet)
next
  case False
  have "reports_nothing (wk_phase (run_finally (Inl e) v))" "reports_nothing (wk_phase (run_finally (Inr WR_idle) v))" for e v
    by (simp_all add: run_finally_quiet)
  moreover have "reports_nothing Handling" by (simp add: reports_nothing_def)
  ultimately show ?thesis using False by (auto simp: run_claimed_def split: sum.split option.split)
qed

lemma report_ok_step: "worker_step c w v \<Longrightarrow> run_ok c w \<Longrightarrow> report_ok w \<Longrightarrow> report_ok v"
proof (induction rule: worker_step.induct)
  case (others w s)
  show ?case by (rule report_ok_steps [OF others(3)]) (use others(1) in simp_all)
next
  case (claim_executes w)
  then have "queue_ok (snd (ss_claimJob session (claim_request c) (wk_service w)))"
    using steps_ok [OF session_steps(3)] by (simp add: report_ok_def)
  then show ?case by (simp add: report_ok_def answered_def)
next
  case (claim_arrives w x)
  have "wk_service (run_claimed c x w) = wk_service w" by (simp add: run_claimed_def split: sum.split option.split)
  then show ?case using run_claimed_quiet by (intro report_ok_quiet [OF claim_arrives(3)]) simp_all
next
  case (stopped w x job)
  show ?case
  proof (cases x)
    case (HO_value r)
    then show ?thesis using run_complete_quiet by (intro report_ok_quiet [OF stopped(5)]) (simp_all add: run_stopped_def)
  next
    case (HO_acknowledged k e)
    then show ?thesis by (intro report_ok_quiet [OF stopped(5)]) (simp_all add: run_stopped_def run_finally_def)
  next
    case (HO_throws e)
    then show ?thesis using run_fail_quiet by (intro report_ok_quiet [OF stopped(5)]) (simp_all add: run_stopped_def)
  qed
next
  case (complete_executes w xs x)
  have ok: "queue_ok (snd (settlement_call x (wk_service w)))"
    using steps_ok [OF settlement_steps] complete_executes by (simp add: report_ok_def)
  obtain r job where r: "x = Completes r" "wk_job w = Some job" "kj_jobId r = jb_id job"
    using complete_executes by (auto simp: run_ok_def append_eq_Cons_conv)
  have "succeeded_row (snd (settlement_call x (wk_service w))) (jb_id job) j"
    if out: "fst (settlement_call x (wk_service w)) = Inr (Some j)" for j
  proof -
    let ?r = "r\<lparr>kj_result := drop_null (kj_result r)\<rparr>"
    have call: "settlement_call x = via (map_option wire_job) (complete_job ?r)"
      by (simp add: settlement_call_def r(1) session_is fun_eq_iff)
    show ?thesis
    proof (cases "complete_job ?r (wk_service w)")
      case (Inr y)
      then obtain k where "complete_job ?r (wk_service w) = Inr (Some k, snd y)" "j = wire_job k"
        using out by (cases y) (auto simp: call via_def)
      then show ?thesis using complete_row [of ?r "wk_service w" k "snd y"] r(3) by (auto simp: succeeded_row_def call via_def)
    qed (use out in \<open>simp add: call via_def\<close>)
  qed
  then show ?case using ok r(2) by (simp add: report_ok_def answered_def)
next
  case (complete_arrives w x job)
  show ?case
  proof (cases "\<exists>j. x = Inr (Some j)")
    case True
    then obtain j where "x = Inr (Some j)" by blast
    then show ?thesis using complete_arrives(1,2,4) by (simp add: report_ok_def run_completed_def) (simp add: run_finally_def)
  next
    case False
    have "wk_service (run_completed c job x w) = wk_service w" "reports_nothing (wk_phase (run_completed c job x w))"
      using False run_fail_quiet run_finally_quiet by (auto simp: run_completed_def split: sum.split option.split)
    then show ?thesis by (intro report_ok_quiet [OF complete_arrives(4)]) simp_all
  qed
next
  case (fail_executes w e xs x)
  then have "queue_ok (snd (settlement_call x (wk_service w)))" using steps_ok [OF settlement_steps] by (simp add: report_ok_def)
  then show ?case by (simp add: report_ok_def answered_def)
next
  case (fail_arrives w e x)
  show ?case by (rule report_ok_quiet [OF fail_arrives(3)]) (simp_all add: run_failed_def run_finally_quiet split: sum.split)
next
  case (beat_executes w job)
  show ?case by (rule report_ok_steps [OF beat_executes(4)]) (simp_all add: answered_def session_steps)
next
  case (asked_executes w xs ys job)
  show ?case by (rule report_ok_steps [OF asked_executes(4)]) (simp_all add: answered_def session_steps)
qed (simp_all add: report_ok_def run_returned_def run_timeout_def)

lemma run_start_ok: "run_ok c (run_start s g)" "signal_ok (run_start s g)" "queue_ok s \<Longrightarrow> report_ok (run_start s g)"
  by (simp_all add: run_start_def run_ok_def signal_ok_def report_ok_def)

lemma worker_steps_ok:
  assumes "(worker_step c)\<^sup>*\<^sup>* (run_start s g) w" and "queue_ok s"
  shows "run_ok c w \<and> signal_ok w \<and> report_ok w"
  using assms(1)
proof (induction rule: rtranclp_induct)
  case base
  then show ?case using run_start_ok assms(2) by blast
next
  case (step v w)
  then show ?case using run_ok_step signal_ok_step report_ok_step by blast
qed


section \<open>An example\<close>

text \<open>
  A worker claims the only job of the queue; its heartbeat fires once while the handler works; then
  the handler returns and the job is completed.
\<close>

lemma session_code [code]:
  "session = scheduler_commands (service_scheduler\<lparr>ss_getBudgetScope := \<lambda>i s. (readable_scope (get_scope s i), s)\<rparr>)"
  by (simp add: session_def scheduler_client_is_service)

definition demo_worker :: WanexWorker where
  "demo_worker = \<lparr>wc_workerId = ''w'', wc_queue = ''default'', wc_leaseMs = 3000, wc_heartbeatIntervalMs = 1000,
     wc_timeoutMs = None, wc_kinds = None, wc_handlers = [JK_plugin_action]\<rparr>"

definition demo_ready :: service where
  "demo_ready = after_op (enqueue_job (demo_job ''a'')) empty_service"

text \<open>The steps as functions, so that each state is computed once.\<close>

definition do_claim :: "run \<Rightarrow> run" where
  "do_claim w = answered w (ss_claimJob session (claim_request demo_worker) (wk_service w)) (\<lambda>x. wk_phase_update (\<lambda>_. Claiming x))"

definition do_claimed :: "run \<Rightarrow> run" where
  "do_claimed w = (case wk_phase w of Claiming (Answered x) \<Rightarrow> run_claimed demo_worker x w | _ \<Rightarrow> w)"

definition do_fire :: "run \<Rightarrow> run" where
  "do_fire w = w\<lparr>wk_hb := hb_fire (beat_call (the (wk_job w))) (wk_hb w)\<rparr>"

definition do_beat :: "run \<Rightarrow> run" where
  "do_beat w = answered w (ss_heartbeatJob session (beat_request demo_worker (the (wk_job w))) (wk_service w))
     (\<lambda>x. wk_hb_update (hb_active_update (\<lambda>_. Some x)))"

definition do_answer :: "run \<Rightarrow> run" where
  "do_answer w = (case hb_active (wk_hb w) of
     Some (Answered x) \<Rightarrow> (beat_answered (the (wk_job w)) (the (wk_entry w)) x w)\<lparr>wk_hb := hb_finally (wk_hb w)\<rparr> | _ \<Rightarrow> w)"

definition do_stop :: "run \<Rightarrow> run" where
  "do_stop w = run_stopped demo_worker (the (wk_job w)) (HO_value None) w"

definition do_complete :: "run \<Rightarrow> run" where
  "do_complete w = answered w (settlement_call (last (wk_settlements w)) (wk_service w)) (\<lambda>y. wk_phase_update (\<lambda>_. Completing y))"

definition do_completed :: "run \<Rightarrow> run" where
  "do_completed w = (case wk_phase w of Completing (Answered x) \<Rightarrow> run_completed demo_worker (the (wk_job w)) x w | _ \<Rightarrow> w)"

definition demo_handling :: run where
  "demo_handling = do_claimed (do_claim (run_start demo_ready empty_registry))"

definition demo_stopping :: run where
  "demo_stopping = do_answer (run_returned (HO_value None) (do_beat (do_fire demo_handling)))"

definition demo_completed :: run where
  "demo_completed = do_completed (do_complete (do_stop demo_stopping))"

lemma demo_facts_run:
  "wk_phase demo_handling = Handling \<and> hb_timer (wk_hb demo_handling) \<and> wk_job demo_handling \<noteq> None \<and>
     wk_entry demo_handling = Some 0 \<and> hb_active (wk_hb (do_fire demo_handling)) = Some Sent"
  "wk_phase demo_stopping = Stopping (HO_value None) \<and> hb_active (wk_hb demo_stopping) = None \<and> wk_job demo_stopping \<noteq> None"
  "wk_phase (do_stop demo_stopping) = Completing Sent \<and> wk_settlements (do_stop demo_stopping) \<noteq> [] \<and>
     wk_job (do_stop demo_stopping) \<noteq> None"
  "(case wk_phase demo_completed of Done (Inr (WR_completed j)) \<Rightarrow> jb_id j = ''a'' | _ \<Rightarrow> False) \<and> \<not> wk_acknowledged demo_completed"
  by code_simp+

lemma demo_worker_run: "(worker_step demo_worker)\<^sup>*\<^sup>* (run_start demo_ready empty_registry) demo_completed"
proof -
  let ?s = "run_start demo_ready empty_registry" and ?f = "do_fire demo_handling"
  obtain job where job: "wk_job demo_handling = Some job" using demo_facts_run(1) by auto
  have "worker_step demo_worker ?s (do_claim ?s)" unfolding do_claim_def by (rule claim_executes) (simp add: run_start_def)
  moreover have "worker_step demo_worker (do_claim ?s) demo_handling"
  proof -
    obtain x where x: "wk_phase (do_claim ?s) = Claiming (Answered x)" by (simp add: do_claim_def answered_def)
    then have "demo_handling = run_claimed demo_worker x (do_claim ?s)" by (simp add: demo_handling_def do_claimed_def)
    then show ?thesis using claim_arrives [OF x, of demo_worker] by simp
  qed
  moreover have "worker_step demo_worker demo_handling ?f"
    unfolding do_fire_def by (rule fires) (use demo_facts_run(1) job in simp_all)
  moreover have fire: "wk_job ?f = Some job" "wk_phase ?f = Handling" "wk_entry ?f = Some 0"
    using job demo_facts_run(1) by (simp_all add: do_fire_def)
  have "worker_step demo_worker ?f (do_beat ?f)"
    unfolding do_beat_def by (rule beat_executes) (use demo_facts_run(1) fire in simp_all)
  moreover have beat: "wk_job (do_beat ?f) = Some job" "wk_phase (do_beat ?f) = Handling" "wk_entry (do_beat ?f) = Some 0"
    using fire by (simp_all add: do_beat_def answered_def)
  have "worker_step demo_worker (do_beat ?f) (run_returned (HO_value None) (do_beat ?f))" by (rule returns) (simp_all add: beat)
  moreover have "worker_step demo_worker (run_returned (HO_value None) (do_beat ?f)) demo_stopping"
  proof -
    let ?w = "run_returned (HO_value None) (do_beat ?f)"
    obtain x where x: "hb_active (wk_hb ?w) = Some (Answered x)"
      by (simp add: run_returned_def hb_stop_def do_beat_def answered_def)
    have "wk_job ?w = Some job" "wk_entry ?w = Some 0" using beat by (simp_all add: run_returned_def)
    then show ?thesis using beat_arrives [OF x, of job 0 demo_worker] x by (simp add: demo_stopping_def do_answer_def)
  qed
  moreover have "worker_step demo_worker demo_stopping (do_stop demo_stopping)"
    unfolding do_stop_def by (rule stopped) (use demo_facts_run(2) in auto)
  moreover have "worker_step demo_worker (do_stop demo_stopping) (do_complete (do_stop demo_stopping))"
    unfolding do_complete_def
    by (rule complete_executes [where xs = "butlast (wk_settlements (do_stop demo_stopping))"]) (use demo_facts_run(3) in simp_all)
  moreover have "worker_step demo_worker (do_complete (do_stop demo_stopping)) demo_completed"
  proof -
    obtain x where x: "wk_phase (do_complete (do_stop demo_stopping)) = Completing (Answered x)"
      by (simp add: do_complete_def answered_def)
    moreover obtain j where "wk_job (do_complete (do_stop demo_stopping)) = Some j"
      using demo_facts_run(3) by (auto simp: do_complete_def answered_def)
    ultimately show ?thesis using complete_arrives [OF x, of j demo_worker] by (simp add: demo_completed_def do_completed_def)
  qed
  ultimately show ?thesis by (meson converse_rtranclp_into_rtranclp rtranclp.rtrancl_refl)
qed


end
