(* ===== verification/Worker_Loop.thy ===== *)
theory Worker_Loop
  imports Delegation_Types Workspace_Types
begin

text \<open>
  The loop that runs a worker again and again, packages/runtime/src/jobs/worker-loop.ts, and the
  loops of a job runtime, job-runtime.ts. A loop is the state of its controller: the timer, the
  promise of the run in progress, the flags. The steps are what the event loop of JavaScript
  does: the timer fires, a run settles and its callbacks run, the promise is cleaned up, somebody
  wakes or stops the loop. A timer fires only when no cleanup is due, since promise callbacks go
  before timers. The callbacks \<open>onResult\<close> and \<open>onError\<close> may wake and stop the loop, and may throw.
\<close>

section \<open>The controller\<close>

datatype run_phase = Running | Settled

text \<open>\<open>lp_active\<close> names the promise in \<open>this.active\<close>; \<open>lp_count\<close> is the number of runs started.\<close>

record loop =
  lp_timer :: "number option"
  lp_active :: "nat option"
  lp_attached :: bool
  lp_wakeRequested :: bool
  lp_stopped :: bool
  lp_runs :: "(nat \<times> run_phase) list"
  lp_count :: nat
  lp_idleMs :: number
  lp_errorMs :: number
  lp_dead :: bool

definition new_loop :: "number \<Rightarrow> number \<Rightarrow> loop" where
  "new_loop idle err = \<lparr>lp_timer = None, lp_active = None, lp_attached = False, lp_wakeRequested = False, lp_stopped = False,
     lp_runs = [], lp_count = 0, lp_idleMs = idle, lp_errorMs = err, lp_dead = False\<rparr>"

definition loop_schedule :: "number \<Rightarrow> loop \<Rightarrow> loop" where
  "loop_schedule delayMs l = (if lp_stopped l then l else l\<lparr>lp_timer := Some delayMs\<rparr>)"

definition loop_attach :: "loop \<Rightarrow> loop" where
  "loop_attach l = l\<lparr>lp_attached := True\<rparr>"

definition loop_wake :: "loop \<Rightarrow> loop" where
  "loop_wake l =
     (if lp_stopped l \<or> \<not> lp_attached l then l
      else if lp_active l \<noteq> None then l\<lparr>lp_wakeRequested := True\<rparr>
      else loop_schedule 0 (l\<lparr>lp_wakeRequested := False\<rparr>))"

definition consumeWakeRequest :: "loop \<Rightarrow> bool \<times> loop" where
  "consumeWakeRequest l = (lp_wakeRequested l, l\<lparr>lp_wakeRequested := False\<rparr>)"

definition loop_stop :: "loop \<Rightarrow> loop" where
  "loop_stop l = (if lp_stopped l then l else l\<lparr>lp_stopped := True, lp_timer := None\<rparr>)"

text \<open>\<open>run\<close>, with the work it is given.\<close>

definition loop_run :: "loop \<Rightarrow> loop" where
  "loop_run l = l\<lparr>lp_runs := lp_runs l @ [(lp_count l, Running)], lp_count := lp_count l + 1,
     lp_active := if lp_stopped l then lp_active l else Some (lp_count l)\<rparr>"

definition loop_tick :: "loop \<Rightarrow> loop" where
  "loop_tick l = (if lp_stopped l then l else loop_run l)"

definition loop_fire :: "loop \<Rightarrow> loop" where
  "loop_fire l = loop_tick (l\<lparr>lp_timer := None\<rparr>)"

definition normalizeInterval :: "number option \<Rightarrow> number \<Rightarrow> string \<Rightarrow> thrown + number" where
  "normalizeInterval v fallback label =
     (let resolved = (case v of None \<Rightarrow> fallback | Some n \<Rightarrow> n) in
      if resolved < 0 then Inl (plainError (label @ '' must be a non-negative finite number'')) else Inr resolved)"

definition startWorkerLoop :: "bool \<Rightarrow> number option \<Rightarrow> number option \<Rightarrow> thrown + loop" where
  "startWorkerLoop aborted idleIntervalMs errorIntervalMs =
     (if aborted then Inr (loop_stop (new_loop 0 0))
      else res_bind (normalizeInterval idleIntervalMs 250 ''worker idle interval'') (\<lambda>idle.
           res_bind (normalizeInterval errorIntervalMs 1000 ''worker error interval'') (\<lambda>err.
           Inr (loop_schedule 0 (loop_attach (new_loop idle err))))))"

section \<open>Settling a run\<close>

text \<open>What a callback does to the loop before it returns or throws.\<close>

datatype loop_call = Wakes | Stops

fun perform :: "loop_call \<Rightarrow> loop \<Rightarrow> loop" where
  "perform Wakes l = loop_wake l"
| "perform Stops l = loop_stop l"

definition perform_all :: "loop_call list \<Rightarrow> loop \<Rightarrow> loop" where
  "perform_all cs l = fold perform cs l"

definition schedule_next :: "number \<Rightarrow> loop \<Rightarrow> loop" where
  "schedule_next delayMs l =
     (case consumeWakeRequest l of (requested, k) \<Rightarrow> loop_schedule (if requested then 0 else delayMs) k)"

text \<open>A callback: what it does, and whether it throws.\<close>

type_synonym callback = "loop_call list \<times> bool"

definition on_error :: "callback \<Rightarrow> loop \<Rightarrow> loop" where
  "on_error cb l =
     (let k = perform_all (fst cb) l in if snd cb then k\<lparr>lp_dead := True\<rparr> else schedule_next (lp_errorMs k) k)"

definition on_result :: "bool \<Rightarrow> callback \<Rightarrow> callback \<Rightarrow> loop \<Rightarrow> loop" where
  "on_result idle cb err l =
     (let k = perform_all (fst cb) l
      in if snd cb then on_error err k else schedule_next (if idle then lp_idleMs k else 0) k)"

definition set_phase :: "nat \<Rightarrow> run_phase \<Rightarrow> loop \<Rightarrow> loop" where
  "set_phase n p l = l\<lparr>lp_runs := map (\<lambda>(m, q). if m = n then (m, p) else (m, q)) (lp_runs l)\<rparr>"

definition loop_finally :: "nat \<Rightarrow> loop \<Rightarrow> loop" where
  "loop_finally n l = l\<lparr>lp_active := if lp_active l = Some n then None else lp_active l,
     lp_runs := filter (\<lambda>(m, q). m \<noteq> n) (lp_runs l)\<rparr>"

inductive loop_step :: "loop \<Rightarrow> loop \<Rightarrow> bool" where
  loop_calls: "loop_step l (perform c l)"
| loop_fires: "lp_timer l \<noteq> None \<Longrightarrow> \<forall>n. (n, Settled) \<notin> set (lp_runs l) \<Longrightarrow> loop_step l (loop_fire l)"
| loop_result: "(n, Running) \<in> set (lp_runs l) \<Longrightarrow> loop_step l (set_phase n Settled (on_result idle cb err l))"
| loop_error: "(n, Running) \<in> set (lp_runs l) \<Longrightarrow> loop_step l (set_phase n Settled (on_error err l))"
| loop_cleans: "(n, Settled) \<in> set (lp_runs l) \<Longrightarrow> loop_step l (loop_finally n l)"

abbreviation loop_steps :: "loop \<Rightarrow> loop \<Rightarrow> bool" where
  "loop_steps \<equiv> loop_step\<^sup>*\<^sup>*"

section \<open>The loops of a job runtime\<close>

text \<open>\<open>this.loops\<close> of \<open>WanexJobRuntime\<close>: the tracked loops by number, over all loops ever started.\<close>

record job_runtime =
  jr_all :: "loop list"
  jr_loops :: "nat list"

definition runtime_start :: "loop \<Rightarrow> job_runtime \<Rightarrow> job_runtime" where
  "runtime_start l r =
     \<lparr>jr_all = jr_all r @ [l], jr_loops = filter (\<lambda>i. \<not> lp_stopped (jr_all r ! i)) (jr_loops r) @ [length (jr_all r)]\<rparr>"

definition runtime_stop_begin :: "job_runtime \<Rightarrow> job_runtime" where
  "runtime_stop_begin r = r\<lparr>jr_all := map (\<lambda>i. if i \<in> set (jr_loops r) then loop_stop (jr_all r ! i) else jr_all r ! i) [0..<length (jr_all r)]\<rparr>"

text \<open>\<open>waitForIdle\<close> of every tracked loop is over.\<close>

definition runtime_stop_ends :: "job_runtime \<Rightarrow> bool" where
  "runtime_stop_ends r = list_all (\<lambda>i. lp_active (jr_all r ! i) = None) (jr_loops r)"

section \<open>The loop is in order\<close>

text \<open>
  At most one run is in progress and it is the active one; while it runs no timer is set; a stopped
  loop has no timer; and unless it was stopped or \<open>onError\<close> threw, something is due.
\<close>

definition loop_ok :: "loop \<Rightarrow> bool" where
  "loop_ok l \<longleftrightarrow>
     (lp_runs l = [] \<and> lp_active l = None \<or> (\<exists>n p. lp_runs l = [(n, p)] \<and> lp_active l = Some n \<and> (p = Running \<longrightarrow> lp_timer l = None))) \<and>
     (lp_stopped l \<longrightarrow> lp_timer l = None) \<and>
     (\<not> lp_stopped l \<longrightarrow> lp_attached l \<and> (lp_dead l \<or> lp_timer l \<noteq> None \<or> (\<exists>n. lp_runs l = [(n, Running)])))"

text \<open>A call from outside or from a callback, while a run is active or while none is.\<close>

definition calls_keep :: "loop \<Rightarrow> loop \<Rightarrow> bool" where
  "calls_keep l k \<longleftrightarrow> lp_runs k = lp_runs l \<and> lp_active k = lp_active l \<and> lp_attached k = lp_attached l \<and> lp_count k = lp_count l \<and>
     lp_dead k = lp_dead l \<and> (lp_stopped l \<longrightarrow> k = l) \<and> (lp_stopped k \<longrightarrow> lp_timer k = None \<or> k = l) \<and>
     (lp_active l \<noteq> None \<longrightarrow> lp_timer k = lp_timer l \<or> lp_timer k = None \<and> lp_stopped k) \<and>
     (\<not> lp_stopped k \<longrightarrow> lp_timer l \<noteq> None \<longrightarrow> lp_timer k \<noteq> None)"

lemma perform_keeps: "calls_keep l (perform c l)"
  by (cases c) (auto simp: calls_keep_def loop_wake_def loop_stop_def loop_schedule_def)

lemma calls_keep_trans: "calls_keep l k \<Longrightarrow> calls_keep k m \<Longrightarrow> calls_keep l m"
  unfolding calls_keep_def by (cases "lp_stopped k") auto

lemma perform_all_keeps: "calls_keep l (perform_all cs l)"
proof (induction cs arbitrary: l)
  case (Cons c cs)
  have "perform_all (c # cs) l = perform_all cs (perform c l)" by (simp add: perform_all_def)
  then show ?case using calls_keep_trans [OF perform_keeps Cons.IH] by metis
qed (simp add: perform_all_def calls_keep_def)

lemma perform_ok: "loop_ok l \<Longrightarrow> loop_ok (perform c l)"
  by (cases c) (auto simp: loop_ok_def loop_wake_def loop_stop_def loop_schedule_def)

text \<open>After its callbacks a settled run has set the timer, or the loop is stopped or dead.\<close>

definition after_callbacks :: "loop \<Rightarrow> loop \<Rightarrow> bool" where
  "after_callbacks l k \<longleftrightarrow> lp_runs k = lp_runs l \<and> lp_active k = lp_active l \<and> lp_attached k = lp_attached l \<and> lp_count k = lp_count l \<and>
     (lp_stopped l \<longrightarrow> lp_stopped k) \<and> (lp_stopped k \<longrightarrow> lp_timer k = None) \<and>
     (\<not> lp_stopped k \<longrightarrow> lp_dead k \<or> lp_timer k \<noteq> None)"

lemma schedule_next_after: "calls_keep l k \<Longrightarrow> (lp_stopped l \<longrightarrow> lp_timer l = None) \<Longrightarrow> lp_timer l = None \<Longrightarrow> after_callbacks l (schedule_next d k)"
  by (auto simp: calls_keep_def after_callbacks_def schedule_next_def consumeWakeRequest_def loop_schedule_def)

lemma on_error_after:
  assumes "calls_keep l k" and "lp_timer l = None"
  shows "after_callbacks l (on_error cb k)"
proof -
  let ?m = "perform_all (fst cb) k"
  have m: "calls_keep l ?m" using calls_keep_trans [OF assms(1) perform_all_keeps] .
  show ?thesis
  proof (cases "snd cb")
    case True
    then show ?thesis using m assms(2) by (auto simp: on_error_def calls_keep_def after_callbacks_def Let_def)
  next
    case False
    then show ?thesis using schedule_next_after [OF m] assms(2) by (simp add: on_error_def Let_def)
  qed
qed

lemma on_result_after:
  assumes "lp_timer l = None"
  shows "after_callbacks l (on_result idle cb err l)"
proof -
  have k: "calls_keep l (perform_all (fst cb) l)" by (rule perform_all_keeps)
  show ?thesis using on_error_after [OF k assms] schedule_next_after [OF k] assms by (simp add: on_result_def Let_def)
qed

lemma settled_ok:
  assumes "loop_ok l" and "(n, Running) \<in> set (lp_runs l)" and "after_callbacks l k"
  shows "loop_ok (set_phase n Settled k)"
proof -
  have "lp_runs l = [(n, Running)]" "lp_active l = Some n" using assms(1,2) by (auto simp: loop_ok_def)
  then show ?thesis using assms(1,3) by (auto simp: loop_ok_def after_callbacks_def set_phase_def)
qed

lemma loop_step_ok: "loop_step l k \<Longrightarrow> loop_ok l \<Longrightarrow> loop_ok k"
proof (induction rule: loop_step.induct)
  case (loop_calls l c)
  then show ?case by (rule perform_ok)
next
  case (loop_fires l)
  then have "lp_runs l = []" by (cases "lp_runs l") (auto simp: loop_ok_def, metis run_phase.exhaust)
  then show ?case using loop_fires by (auto simp: loop_ok_def loop_fire_def loop_tick_def loop_run_def)
next
  case (loop_result n l idle cb err)
  then have "lp_timer l = None" by (auto simp: loop_ok_def)
  then show ?case using settled_ok on_result_after loop_result by blast
next
  case (loop_error n l err)
  then have "lp_timer l = None" by (auto simp: loop_ok_def)
  moreover have "calls_keep l l" by (simp add: calls_keep_def)
  ultimately show ?case using settled_ok on_error_after loop_error by blast
next
  case (loop_cleans n l)
  then show ?case by (auto simp: loop_ok_def loop_finally_def)
qed

lemma loop_steps_ok: "loop_steps l k \<Longrightarrow> loop_ok l \<Longrightarrow> loop_ok k"
  by (induction rule: rtranclp_induct) (auto intro: loop_step_ok)

lemma start_ok: "startWorkerLoop aborted idle err = Inr l \<Longrightarrow> loop_ok l"
  by (auto simp: startWorkerLoop_def res_bind_eq_Inr new_loop_def loop_schedule_def loop_attach_def loop_stop_def loop_ok_def
      split: if_splits)

text \<open>A stopped loop stays stopped and starts nothing.\<close>

lemma stopped_step: "loop_step l k \<Longrightarrow> loop_ok l \<Longrightarrow> lp_stopped l \<Longrightarrow> lp_stopped k \<and> lp_count k = lp_count l"
proof (induction rule: loop_step.induct)
  case (loop_calls l c)
  then show ?case using perform_keeps [of l c] by (simp add: calls_keep_def)
next
  case (loop_result n l idle cb err)
  then have "lp_timer l = None" by (auto simp: loop_ok_def)
  then show ?case using on_result_after [of l idle cb err] loop_result(3) by (simp add: after_callbacks_def set_phase_def)
next
  case (loop_error n l err)
  then have "lp_timer l = None" by (auto simp: loop_ok_def)
  moreover have "calls_keep l l" by (simp add: calls_keep_def)
  ultimately show ?case using on_error_after [of l l err] loop_error(3) by (simp add: after_callbacks_def set_phase_def)
qed (auto simp: loop_ok_def loop_finally_def)

lemma stopped_steps: "loop_steps l k \<Longrightarrow> loop_ok l \<Longrightarrow> lp_stopped l \<Longrightarrow> lp_stopped k \<and> lp_count k = lp_count l"
proof (induction rule: rtranclp_induct)
  case (step k m)
  then show ?case using stopped_step [OF step(2)] loop_steps_ok [OF step(1)] by simp
qed simp


definition demo_loop :: loop where
  "demo_loop = loop_wake (loop_fire (loop_schedule 0 (loop_attach (new_loop 250 1000))))"


section \<open>Two gaps\<close>

text \<open>
  A wake that comes between the callbacks of a run that found nothing and its cleanup only sets
  the flag: the next run waits for the idle interval all the same.
\<close>

lemma late_wake_waits:
  assumes "startWorkerLoop False (Some ms) err = Inr l"
  shows "\<exists>k. loop_steps l k \<and> lp_wakeRequested k \<and> lp_timer k = Some ms \<and> lp_runs k = []"
proof -
  let ?r = "loop_fire l" and ?cb = "([], False) :: callback"
  let ?s = "set_phase 0 Settled (on_result True ?cb ?cb ?r)"
  let ?k = "loop_finally 0 (loop_wake ?s)"
  have l: "lp_timer l = Some 0" "lp_runs l = []" "lp_active l = None" "lp_attached l" "\<not> lp_stopped l" "lp_idleMs l = ms" "lp_count l = 0"
    "\<not> lp_wakeRequested l"
    using assms by (auto simp: startWorkerLoop_def normalizeInterval_def Let_def res_bind_eq_Inr loop_schedule_def loop_attach_def
        new_loop_def split: if_splits)
  have r: "lp_runs ?r = [(0, Running)]" using l by (simp add: loop_fire_def loop_tick_def loop_run_def)
  have s: "lp_runs ?s = [(0, Settled)]" "lp_timer ?s = Some ms" "lp_active ?s = Some 0" "\<not> lp_stopped ?s" "lp_attached ?s"
    using l by (simp_all add: loop_fire_def loop_tick_def loop_run_def set_phase_def on_result_def perform_all_def schedule_next_def
        consumeWakeRequest_def loop_schedule_def)
  have "loop_step l ?r" using l by (intro loop_fires) simp_all
  moreover have "loop_step ?r ?s" using r by (intro loop_result) simp
  moreover have "loop_step ?s (loop_wake ?s)" using loop_calls [of ?s Wakes] by simp
  moreover have "loop_step (loop_wake ?s) ?k" using s by (intro loop_cleans) (simp add: loop_wake_def)
  ultimately have "loop_steps l ?k" by (meson converse_rtranclp_into_rtranclp rtranclp.rtrancl_refl)
  moreover have "lp_wakeRequested ?k \<and> lp_timer ?k = Some ms \<and> lp_runs ?k = []"
    using s by (simp add: loop_finally_def loop_wake_def)
  ultimately show ?thesis by blast
qed

text \<open>
  A runtime forgets a stopped loop when it starts another one, also when a run of the stopped
  loop is still in progress. Stopping the runtime then does not wait for that run.
\<close>

lemma stop_forgets_stopped_loop:
  assumes "loop_ok l" and "loop_ok m" and "lp_active m = None"
  shows "let r = runtime_start m (runtime_start (loop_stop l) \<lparr>jr_all = [], jr_loops = []\<rparr>)
    in runtime_stop_ends (runtime_stop_begin r) \<and> lp_active (jr_all (runtime_stop_begin r) ! 0) = lp_active l"
  using assms by (simp add: runtime_start_def runtime_stop_begin_def runtime_stop_ends_def loop_stop_def Let_def)

end
