(* ===== verification/Decimal_Text.thy ===== *)
theory Decimal_Text
  imports Prelude
begin

text \<open>
  Texts as the standard library makes them: the decimal text of a natural number, as a template
  literal or \<open>String(n)\<close> writes it, and \<open>trim\<close>.
\<close>

text \<open>The white space of \<open>trim\<close>, among the characters of the model.\<close>

definition js_space :: "char \<Rightarrow> bool" where
  "js_space c = ((of_char c :: nat) \<in> {9, 10, 11, 12, 13, 32, 160})"

definition trim :: "string \<Rightarrow> string" where
  "trim s = rev (dropWhile js_space (rev (dropWhile js_space s)))"

fun decimal :: "nat \<Rightarrow> string" where
  "decimal n = (if n < 10 then [char_of (48 + n)] else decimal (n div 10) @ [char_of (48 + n mod 10)])"

declare decimal.simps [simp del]

lemma digit_inject: "m < (10 :: nat) \<Longrightarrow> n < 10 \<Longrightarrow> (char_of (48 + m) :: char) = char_of (48 + n) \<Longrightarrow> m = n"
  by (auto dest: arg_cong [of _ _ "of_char :: char \<Rightarrow> nat"])

lemma decimal_nonempty: "decimal n \<noteq> []"
  by (subst decimal.simps) simp

lemma decimal_inject: "decimal m = decimal n \<Longrightarrow> m = n"
proof (induction m arbitrary: n rule: decimal.induct)
  case (1 m)
  show ?case
  proof (cases "m < 10")
    case True
    then have d: "decimal n = [char_of (48 + m)]" using 1(2) by (simp add: decimal.simps [of m])
    then have "n < 10" using decimal_nonempty [of "n div 10"] by (auto simp: decimal.simps [of n] split: if_splits)
    then show ?thesis using d True digit_inject [of m n] by (simp add: decimal.simps [of n])
  next
    case False
    then have d: "decimal n = decimal (m div 10) @ [char_of (48 + m mod 10)]" using 1(2) by (simp add: decimal.simps [of m])
    then have n: "\<not> n < 10" using decimal_nonempty [of "m div 10"] by (auto simp: decimal.simps [of n] split: if_splits)
    then have "decimal (m div 10) = decimal (n div 10)" "(char_of (48 + m mod 10) :: char) = char_of (48 + n mod 10)"
      using d by (simp_all add: decimal.simps [of n])
    then have "m div 10 = n div 10" "m mod 10 = n mod 10" using 1(1) [OF False] digit_inject by auto
    then show ?thesis by (metis div_mult_mod_eq)
  qed
qed

lemma decimal_eq_iff [simp]: "decimal m = decimal n \<longleftrightarrow> m = n"
  using decimal_inject by blast

end
