(* ===== verification/Command_Schema.thy ===== *)
theory Command_Schema
  imports Decimal_Text
begin

text \<open>
  The input schemas of extension commands: the parser of
  packages/extension/src/command-input-schema-parser.ts, -internal.ts, -scalar.ts, -default.ts,
  -value.ts, -constants.ts and -types.ts. It reads a value of type \<open>unknown\<close>, which may be any graph
  of objects, so the input is a value over a heap of objects, with cycles, prototypes, accessors,
  holes and symbol keys; proxies are left out. The text of a number is an argument. The recursion
  on nested schemas is bounded by the depth that is left.
\<close>

section \<open>Values of type unknown\<close>

datatype jsnum = Num rat | NegZero | NonFinite

fun num_value :: "jsnum \<Rightarrow> rat" where
  "num_value (Num n) = n"
| "num_value _ = 0"

definition is_finite :: "jsnum \<Rightarrow> bool" where
  "is_finite n = (n \<noteq> NonFinite)"

definition is_integer :: "jsnum \<Rightarrow> bool" where
  "is_integer n = (n \<noteq> NonFinite \<and> snd (quotient_of (num_value n)) = 1)"

datatype uval =
    U_undefined
  | U_null
  | U_bool bool
  | U_str string
  | U_num jsnum
  | U_other
  | U_obj nat

datatype ukey = K_str string | K_symbol

datatype uprop = P_data uval | P_hidden uval | P_accessor

text \<open>
  A record has its own properties in the order of \<open>Reflect.ownKeys\<close>; an array its elements, where a
  hole is \<open>None\<close>, and its other own keys. The flag says that the prototype is the plain one.
\<close>

datatype uobject =
    O_record bool "(ukey \<times> uprop) list"
  | O_array bool "uprop option list" "ukey list"

type_synonym heap = "nat \<Rightarrow> uobject"

section \<open>Errors and limits\<close>

datatype AppCommandInputSchemaErrorCode = EC_invalid | EC_unsupported | EC_limit_exceeded

record AppCommandInputSchemaError =
  se_code :: AppCommandInputSchemaErrorCode
  se_path :: string
  se_message :: string

datatype limit =
    maxSerializedBytes | maxSchemaDepth | maxSchemaNodes | maxProperties | maxPropertyNameLength | maxTitleLength
  | maxDescriptionLength | maxEnumValuesPerNode | maxEnumValuesTotal | maxRequiredNames | maxStringLengthBound
  | maxCollectionBound | maxValueDepth | maxValueNodes

type_synonym limits = "limit \<Rightarrow> nat"

fun DEFAULT_APP_COMMAND_INPUT_SCHEMA_LIMITS :: limits where
  "DEFAULT_APP_COMMAND_INPUT_SCHEMA_LIMITS maxSerializedBytes = 64 * 1024"
| "DEFAULT_APP_COMMAND_INPUT_SCHEMA_LIMITS maxSchemaDepth = 8"
| "DEFAULT_APP_COMMAND_INPUT_SCHEMA_LIMITS maxSchemaNodes = 256"
| "DEFAULT_APP_COMMAND_INPUT_SCHEMA_LIMITS maxProperties = 128"
| "DEFAULT_APP_COMMAND_INPUT_SCHEMA_LIMITS maxPropertyNameLength = 128"
| "DEFAULT_APP_COMMAND_INPUT_SCHEMA_LIMITS maxTitleLength = 256"
| "DEFAULT_APP_COMMAND_INPUT_SCHEMA_LIMITS maxDescriptionLength = 4096"
| "DEFAULT_APP_COMMAND_INPUT_SCHEMA_LIMITS maxEnumValuesPerNode = 100"
| "DEFAULT_APP_COMMAND_INPUT_SCHEMA_LIMITS maxEnumValuesTotal = 256"
| "DEFAULT_APP_COMMAND_INPUT_SCHEMA_LIMITS maxRequiredNames = 128"
| "DEFAULT_APP_COMMAND_INPUT_SCHEMA_LIMITS maxStringLengthBound = 65536"
| "DEFAULT_APP_COMMAND_INPUT_SCHEMA_LIMITS maxCollectionBound = 256"
| "DEFAULT_APP_COMMAND_INPUT_SCHEMA_LIMITS maxValueDepth = 8"
| "DEFAULT_APP_COMMAND_INPUT_SCHEMA_LIMITS maxValueNodes = 1024"

fun limitText :: "limit \<Rightarrow> string" where
  "limitText maxSerializedBytes = ''maxSerializedBytes''"
| "limitText maxSchemaDepth = ''maxSchemaDepth''"
| "limitText maxSchemaNodes = ''maxSchemaNodes''"
| "limitText maxProperties = ''maxProperties''"
| "limitText maxPropertyNameLength = ''maxPropertyNameLength''"
| "limitText maxTitleLength = ''maxTitleLength''"
| "limitText maxDescriptionLength = ''maxDescriptionLength''"
| "limitText maxEnumValuesPerNode = ''maxEnumValuesPerNode''"
| "limitText maxEnumValuesTotal = ''maxEnumValuesTotal''"
| "limitText maxRequiredNames = ''maxRequiredNames''"
| "limitText maxStringLengthBound = ''maxStringLengthBound''"
| "limitText maxCollectionBound = ''maxCollectionBound''"
| "limitText maxValueDepth = ''maxValueDepth''"
| "limitText maxValueNodes = ''maxValueNodes''"

definition sfail :: "AppCommandInputSchemaErrorCode \<Rightarrow> string \<Rightarrow> string \<Rightarrow> AppCommandInputSchemaError + 'a" where
  "sfail code path message = Inl \<lparr>se_code = code, se_path = path, se_message = message\<rparr>"

definition resolveSchemaLimits :: "(limit \<times> uval) list option \<Rightarrow> AppCommandInputSchemaError + limits" where
  "resolveSchemaLimits overrides =
     (case overrides of
        None \<Rightarrow> Inr DEFAULT_APP_COMMAND_INPUT_SCHEMA_LIMITS
      | Some os \<Rightarrow> for_each (\<lambda>resolved (key, v).
          let bound = DEFAULT_APP_COMMAND_INPUT_SCHEMA_LIMITS key;
              bad = sfail EC_invalid ''/'' (''schema limit '' @ limitText key @ '' must be a positive integer no greater than '' @ decimal bound)
          in case v of
               U_num n \<Rightarrow> if \<not> is_integer n \<or> num_value n \<le> 0 \<or> num_value n > of_nat bound then bad
                 else Inr (resolved(key := nat \<lfloor>num_value n\<rfloor>))
             | _ \<Rightarrow> bad) DEFAULT_APP_COMMAND_INPUT_SCHEMA_LIMITS os)"

section \<open>Paths\<close>

definition boundedPathSegment :: "string \<Rightarrow> string" where
  "boundedPathSegment input =
     (let sanitized = map (\<lambda>c. if (of_char c :: nat) < 32 \<or> (of_char c :: nat) = 127 then CHR ''?'' else c) input
      in if length sanitized \<le> 128 then sanitized else take 125 sanitized @ ''...'')"

definition joinSchemaPath :: "string \<Rightarrow> string \<Rightarrow> string" where
  "joinSchemaPath path key =
     (let escaped = concat (map (\<lambda>c. if c = CHR ''~'' then ''~0'' else if c = CHR ''/'' then ''~1'' else [c]) (boundedPathSegment key))
      in if path = ''/'' then ''/'' @ escaped else path @ ''/'' @ escaped)"

section \<open>Reading objects\<close>

definition readPlainDataRecord :: "heap \<Rightarrow> uval \<Rightarrow> string \<Rightarrow> AppCommandInputSchemaError + (string \<times> uval) list" where
  "readPlainDataRecord h input path =
     (case input of
        U_obj a \<Rightarrow>
          (case h a of
             O_record plain props \<Rightarrow>
               if \<not> plain then sfail EC_invalid path ''schema node must use a plain object prototype''
               else map_result (\<lambda>(k, p).
                 case k of
                   K_symbol \<Rightarrow> sfail EC_invalid path ''schema objects must not contain symbol properties''
                 | K_str key \<Rightarrow> (case p of P_data v \<Rightarrow> Inr (key, v)
                     | _ \<Rightarrow> sfail EC_invalid (joinSchemaPath path key) ''accessor properties are not allowed'')) props
           | O_array plain elems extras \<Rightarrow> sfail EC_invalid path ''schema node must be a plain object'')
      | _ \<Rightarrow> sfail EC_invalid path ''schema node must be a plain object'')"

definition readPlainDataArray :: "heap \<Rightarrow> uval \<Rightarrow> string \<Rightarrow> AppCommandInputSchemaError + uval list" where
  "readPlainDataArray h input path =
     (case input of
        U_obj a \<Rightarrow>
          (case h a of
             O_array True elems extras \<Rightarrow>
               res_bind (map_result (\<lambda>(i, e). case e of
                   Some (P_data v) \<Rightarrow> Inr (Some v)
                 | None \<Rightarrow> Inr None
                 | _ \<Rightarrow> sfail EC_invalid (joinSchemaPath path (decimal i)) ''array accessors are not allowed'')
                 (zip [0..<length elems] elems)) (\<lambda>values.
               res_bind (map_result (\<lambda>k. case k of
                   K_symbol \<Rightarrow> sfail EC_invalid path ''schema arrays must not contain symbol properties''
                 | K_str key \<Rightarrow> sfail EC_invalid (joinSchemaPath path key) ''schema arrays must not contain non-index properties'')
                 extras) (\<lambda>_ :: unit list.
               if None \<in> set values then sfail EC_invalid path ''sparse arrays are not allowed''
               else Inr (map the values)))
           | _ \<Rightarrow> sfail EC_invalid path ''schema arrays must be plain arrays'')
      | _ \<Rightarrow> sfail EC_invalid path ''schema arrays must be plain arrays'')"

type_synonym fields = "(string \<times> uval) list"

text \<open>\<open>record[key]\<close> on a fresh record, for the keys of the parser, none of which is inherited.\<close>

definition field :: "fields \<Rightarrow> string \<Rightarrow> uval" where
  "field m k = (case map_of m k of None \<Rightarrow> U_undefined | Some v \<Rightarrow> v)"

definition rejectUndefinedValues :: "fields \<Rightarrow> string \<Rightarrow> AppCommandInputSchemaError + unit" where
  "rejectUndefinedValues m path =
     for_each (\<lambda>_ (k, v). if field m k = U_undefined then sfail EC_invalid (joinSchemaPath path k)
       ''schema values must be JSON-compatible and must not be undefined'' else Inr ()) () m"

definition rejectUnknownKeys :: "fields \<Rightarrow> string list \<Rightarrow> string \<Rightarrow> AppCommandInputSchemaError + unit" where
  "rejectUnknownKeys m allowed path =
     for_each (\<lambda>_ (k, v). if k \<notin> set allowed then sfail EC_unsupported (joinSchemaPath path k) ''unsupported schema keyword''
       else Inr ()) () m"

definition readOptionalString :: "fields \<Rightarrow> string \<Rightarrow> string \<Rightarrow> nat \<Rightarrow> AppCommandInputSchemaError + string option" where
  "readOptionalString m key path maxLength =
     (case field m key of
        U_undefined \<Rightarrow> Inr None
      | U_str s \<Rightarrow> if length s > maxLength
          then sfail EC_limit_exceeded (joinSchemaPath path key) (key @ '' exceeds the '' @ decimal maxLength @ '' character limit'')
          else Inr (Some s)
      | _ \<Rightarrow> sfail EC_invalid (joinSchemaPath path key) (key @ '' must be a string''))"

definition readOptionalBoolean :: "fields \<Rightarrow> string \<Rightarrow> string \<Rightarrow> AppCommandInputSchemaError + bool option" where
  "readOptionalBoolean m key path =
     (case field m key of
        U_undefined \<Rightarrow> Inr None
      | U_bool b \<Rightarrow> Inr (Some b)
      | _ \<Rightarrow> sfail EC_invalid (joinSchemaPath path key) (key @ '' must be a boolean''))"

definition readOptionalFiniteNumber :: "fields \<Rightarrow> string \<Rightarrow> string \<Rightarrow> AppCommandInputSchemaError + jsnum option" where
  "readOptionalFiniteNumber m key path =
     (case field m key of
        U_undefined \<Rightarrow> Inr None
      | U_num n \<Rightarrow> if is_finite n then Inr (Some n) else sfail EC_invalid (joinSchemaPath path key) (key @ '' must be a finite number'')
      | _ \<Rightarrow> sfail EC_invalid (joinSchemaPath path key) (key @ '' must be a finite number''))"

definition readOptionalBoundedInteger :: "fields \<Rightarrow> string \<Rightarrow> string \<Rightarrow> nat \<Rightarrow> AppCommandInputSchemaError + jsnum option" where
  "readOptionalBoundedInteger m key path bound =
     (case field m key of
        U_undefined \<Rightarrow> Inr None
      | U_num n \<Rightarrow>
          if \<not> is_integer n \<or> num_value n < 0
          then sfail EC_invalid (joinSchemaPath path key) (key @ '' must be a non-negative integer'')
          else if num_value n > of_nat bound
          then sfail EC_limit_exceeded (joinSchemaPath path key) (key @ '' exceeds the supported bound '' @ decimal bound)
          else Inr (Some n)
      | _ \<Rightarrow> sfail EC_invalid (joinSchemaPath path key) (key @ '' must be a non-negative integer''))"

definition assertRange :: "jsnum option \<Rightarrow> jsnum option \<Rightarrow> string \<Rightarrow> string \<Rightarrow> string \<Rightarrow> AppCommandInputSchemaError + unit" where
  "assertRange low high path lowKey highKey =
     (case (low, high) of
        (Some l, Some u) \<Rightarrow> if num_value l > num_value u then sfail EC_invalid path (lowKey @ '' must not exceed '' @ highKey) else Inr ()
      | _ \<Rightarrow> Inr ())"

section \<open>The parsed schema\<close>

datatype jvalue =
    V_null
  | V_str string
  | V_num jsnum
  | V_bool bool
  | V_arr "jvalue list"
  | V_obj "(string \<times> jvalue) list"

record annotations =
  an_title :: "string option"
  an_description :: "string option"

text \<open>
  \<open>S_object\<close>: whether \<open>$schema\<close> was given, annotations, properties, required, additionalProperties,
  minProperties, maxProperties, default. \<open>S_string\<close>: annotations, enum, minLength, maxLength,
  default. \<open>S_number\<close>: whether it is an integer, annotations, enum, minimum, maximum,
  exclusiveMinimum, exclusiveMaximum, default. \<open>S_boolean\<close>: annotations, enum, default. \<open>S_array\<close>:
  annotations, items, minItems, maxItems, uniqueItems, default.
\<close>

datatype schema =
    S_object bool annotations "(string \<times> schema) list option" "string list option" "bool option" "jsnum option" "jsnum option"
      "jvalue option"
  | S_string annotations "jvalue list option" "jsnum option" "jsnum option" "jvalue option"
  | S_number bool annotations "jvalue list option" "jsnum option" "jsnum option" "jsnum option" "jsnum option" "jvalue option"
  | S_boolean annotations "jvalue list option" "jvalue option"
  | S_array annotations schema "jsnum option" "jsnum option" "bool option" "jvalue option"

section \<open>The state of the parser\<close>

record pstate =
  ps_ancestors :: "nat list"
  ps_nodes :: nat
  ps_props :: nat
  ps_enums :: nat
  ps_values :: nat

type_synonym 'a parser = "(pstate, AppCommandInputSchemaError, 'a) eff"

definition pfail :: "AppCommandInputSchemaErrorCode \<Rightarrow> string \<Rightarrow> string \<Rightarrow> 'a parser" where
  "pfail code path message = eff_result (sfail code path message)"

text \<open>Counting, with the check of the limit that follows.\<close>

definition count_node :: "limits \<Rightarrow> string \<Rightarrow> unit parser" where
  "count_node L path s =
     (let t = s\<lparr>ps_nodes := ps_nodes s + 1\<rparr> in
      if ps_nodes t > L maxSchemaNodes
      then pfail EC_limit_exceeded path (''schema exceeds '' @ decimal (L maxSchemaNodes) @ '' nodes'') t else (Inr (), t))"

definition count_props :: "limits \<Rightarrow> nat \<Rightarrow> string \<Rightarrow> unit parser" where
  "count_props L n path s =
     (let t = s\<lparr>ps_props := ps_props s + n\<rparr> in
      if ps_props t > L maxProperties
      then pfail EC_limit_exceeded path (''schema exceeds '' @ decimal (L maxProperties) @ '' object properties'') t else (Inr (), t))"

definition count_enums :: "limits \<Rightarrow> nat \<Rightarrow> string \<Rightarrow> unit parser" where
  "count_enums L n path s =
     (let t = s\<lparr>ps_enums := ps_enums s + n\<rparr> in
      if ps_enums t > L maxEnumValuesTotal
      then pfail EC_limit_exceeded path (''schema exceeds '' @ decimal (L maxEnumValuesTotal) @ '' enum values'') t else (Inr (), t))"

definition count_value :: "limits \<Rightarrow> string \<Rightarrow> unit parser" where
  "count_value L path s =
     (let t = s\<lparr>ps_values := ps_values s + 1\<rparr> in
      if ps_values t > L maxValueNodes
      then pfail EC_limit_exceeded path (''schema defaults exceed '' @ decimal (L maxValueNodes) @ '' JSON values'') t else (Inr (), t))"

section \<open>Defaults\<close>

text \<open>
  \<open>cloneCommandInputJsonValue\<close>. The number is the depth that is left, so at zero the depth of the
  value is over the limit.
\<close>

definition clone_leaf :: "uval \<Rightarrow> string \<Rightarrow> AppCommandInputSchemaError + jvalue" where
  "clone_leaf input path =
     (case input of
        U_null \<Rightarrow> Inr V_null
      | U_str s \<Rightarrow> Inr (V_str s)
      | U_bool b \<Rightarrow> Inr (V_bool b)
      | U_num n \<Rightarrow> if is_finite n then Inr (V_num n) else sfail EC_invalid path ''schema default numbers must be finite''
      | _ \<Rightarrow> sfail EC_invalid path ''schema defaults must be JSON-compatible values'')"

definition clone_array ::
  "limits \<Rightarrow> heap \<Rightarrow> (nat list \<Rightarrow> uval \<Rightarrow> string \<Rightarrow> jvalue parser) \<Rightarrow> nat list \<Rightarrow> nat \<Rightarrow> string \<Rightarrow> jvalue parser" where
  "clone_array L h clone ancestors a path =
     eff_bind (eff_result (readPlainDataArray h (U_obj a) path)) (\<lambda>array.
     if a \<in> set ancestors then pfail EC_invalid path ''schema defaults must not contain cycles''
     else if length array > L maxCollectionBound
     then pfail EC_limit_exceeded path (''schema default array exceeds '' @ decimal (L maxCollectionBound) @ '' items'')
     else eff_bind (eff_map (\<lambda>(i, v). clone (a # ancestors) v (joinSchemaPath path (decimal i))) (zip [0..<length array] array))
       (\<lambda>values. eff_return (V_arr values)))"

definition clone_record ::
  "limits \<Rightarrow> heap \<Rightarrow> (nat list \<Rightarrow> uval \<Rightarrow> string \<Rightarrow> jvalue parser) \<Rightarrow> nat list \<Rightarrow> nat \<Rightarrow> string \<Rightarrow> jvalue parser" where
  "clone_record L h clone ancestors a path =
     (if a \<in> set ancestors then pfail EC_invalid path ''schema defaults must not contain cycles''
      else eff_bind (eff_result (readPlainDataRecord h (U_obj a) path)) (\<lambda>m.
        let keys = sort (map fst m) in
        if length keys > L maxCollectionBound
        then pfail EC_limit_exceeded path (''schema default object exceeds '' @ decimal (L maxCollectionBound) @ '' properties'')
        else eff_bind (eff_map (\<lambda>k.
            if length k > L maxPropertyNameLength
            then pfail EC_limit_exceeded (joinSchemaPath path k)
              (''default property name exceeds '' @ decimal (L maxPropertyNameLength) @ '' characters'')
            else eff_bind (clone (a # ancestors) (field m k) (joinSchemaPath path k)) (\<lambda>v. eff_return (k, v))) keys)
          (\<lambda>kvs. eff_return (V_obj kvs))))"

primrec cloneCommandInputJsonValue :: "limits \<Rightarrow> heap \<Rightarrow> nat \<Rightarrow> nat list \<Rightarrow> uval \<Rightarrow> string \<Rightarrow> jvalue parser" where
  "cloneCommandInputJsonValue L h 0 = (\<lambda>ancestors input path.
     eff_bind (count_value L path) (\<lambda>_.
     pfail EC_limit_exceeded path (''schema default nesting exceeds depth '' @ decimal (L maxValueDepth))))"
| "cloneCommandInputJsonValue L h (Suc r) = (\<lambda>ancestors input path.
     eff_bind (count_value L path) (\<lambda>_.
     case input of
       U_obj a \<Rightarrow>
         (case h a of
            O_array plain elems extras \<Rightarrow> clone_array L h (cloneCommandInputJsonValue L h r) ancestors a path
          | O_record plain props \<Rightarrow> clone_record L h (cloneCommandInputJsonValue L h r) ancestors a path)
     | _ \<Rightarrow> eff_result (clone_leaf input path)))"

datatype schema_type = T_object | T_string | T_number | T_integer | T_boolean | T_array

fun typeText :: "schema_type \<Rightarrow> string" where
  "typeText T_object = ''object''"
| "typeText T_string = ''string''"
| "typeText T_number = ''number''"
| "typeText T_integer = ''integer''"
| "typeText T_boolean = ''boolean''"
| "typeText T_array = ''array''"

definition APP_COMMAND_INPUT_SCHEMA_TYPES :: "schema_type list" where
  "APP_COMMAND_INPUT_SCHEMA_TYPES = [T_object, T_string, T_number, T_integer, T_boolean, T_array]"

fun default_fits :: "schema_type \<Rightarrow> jvalue \<Rightarrow> bool" where
  "default_fits T_object (V_obj kvs) = True"
| "default_fits T_array (V_arr vs) = True"
| "default_fits T_string (V_str s) = True"
| "default_fits T_boolean (V_bool b) = True"
| "default_fits T_number (V_num n) = True"
| "default_fits T_integer (V_num n) = is_integer n"
| "default_fits _ _ = False"

definition parseSchemaDefault :: "limits \<Rightarrow> heap \<Rightarrow> fields \<Rightarrow> string \<Rightarrow> schema_type \<Rightarrow> jvalue option parser" where
  "parseSchemaDefault L h m path type =
     (if field m ''default'' = U_undefined then eff_return None
      else eff_bind (cloneCommandInputJsonValue L h (L maxValueDepth) [] (field m ''default'') (joinSchemaPath path ''default'')) (\<lambda>v.
        if default_fits type v then eff_return (Some v)
        else pfail EC_invalid (joinSchemaPath path ''default'') (''default must match schema type '' @ typeText type)))"

text \<open>\<open>Object.is\<close> tells \<open>0\<close> from \<open>-0\<close>, as \<open>=\<close> does here.\<close>

definition assertSchemaDefaultInEnum :: "jvalue option \<Rightarrow> jvalue list option \<Rightarrow> string \<Rightarrow> AppCommandInputSchemaError + unit" where
  "assertSchemaDefaultInEnum v enum path =
     (case (v, enum) of
        (Some x, Some xs) \<Rightarrow> if x \<in> set xs then Inr ()
          else sfail EC_invalid (joinSchemaPath path ''default'') ''default must be one of the declared enum values''
      | _ \<Rightarrow> Inr ())"

section \<open>Scalars\<close>

fun matchesScalarType :: "schema_type \<Rightarrow> uval \<Rightarrow> jvalue option" where
  "matchesScalarType T_string (U_str s) = Some (V_str s)"
| "matchesScalarType T_boolean (U_bool b) = Some (V_bool b)"
| "matchesScalarType T_number (U_num n) = (if is_finite n then Some (V_num n) else None)"
| "matchesScalarType T_integer (U_num n) = (if is_integer n then Some (V_num n) else None)"
| "matchesScalarType _ _ = None"

text \<open>\<open>scalarKey\<close>: \<open>JSON.stringify\<close> writes \<open>0\<close> for \<open>-0\<close>, and otherwise tells scalars of one type apart.\<close>

fun scalarKey :: "jvalue \<Rightarrow> jvalue" where
  "scalarKey (V_num NegZero) = V_num (Num 0)"
| "scalarKey v = v"

definition parseScalarEnum :: "limits \<Rightarrow> heap \<Rightarrow> uval \<Rightarrow> schema_type \<Rightarrow> string \<Rightarrow> jvalue list option parser" where
  "parseScalarEnum L h input type path =
     (if input = U_undefined then eff_return None
      else
        let enumPath = joinSchemaPath path ''enum'' in
        eff_bind (eff_result (readPlainDataArray h input enumPath)) (\<lambda>enumInput.
        if enumInput = [] then pfail EC_invalid enumPath ''enum must be a non-empty array''
        else if length enumInput > L maxEnumValuesPerNode
        then pfail EC_limit_exceeded enumPath (''enum exceeds '' @ decimal (L maxEnumValuesPerNode) @ '' values'')
        else eff_bind (count_enums L (length enumInput) enumPath) (\<lambda>_.
        eff_bind (eff_result (map_result (\<lambda>(i, v). case matchesScalarType type v of
            None \<Rightarrow> sfail EC_invalid (joinSchemaPath enumPath (decimal i)) (''enum value must match schema type '' @ typeText type)
          | Some x \<Rightarrow> Inr x) (zip [0..<length enumInput] enumInput))) (\<lambda>values.
        if \<not> distinct (map scalarKey values) then pfail EC_invalid enumPath ''enum values must be unique''
        else eff_return (Some values)))))"

definition COMMON_KEYS :: "string list" where
  "COMMON_KEYS = [''type'', ''title'', ''description'', ''default'', ''enum'']"

definition parseStringSchema :: "limits \<Rightarrow> heap \<Rightarrow> fields \<Rightarrow> string \<Rightarrow> annotations \<Rightarrow> schema parser" where
  "parseStringSchema L h m path an =
     eff_bind (eff_result (rejectUnknownKeys m (COMMON_KEYS @ [''minLength'', ''maxLength'']) path)) (\<lambda>_.
     eff_bind (parseScalarEnum L h (field m ''enum'') T_string path) (\<lambda>enum.
     eff_bind (eff_result (readOptionalBoundedInteger m ''minLength'' path (L maxStringLengthBound))) (\<lambda>minLength.
     eff_bind (eff_result (readOptionalBoundedInteger m ''maxLength'' path (L maxStringLengthBound))) (\<lambda>maxLength.
     eff_bind (eff_result (assertRange minLength maxLength path ''minLength'' ''maxLength'')) (\<lambda>_.
     eff_bind (parseSchemaDefault L h m path T_string) (\<lambda>v.
     eff_bind (eff_result (assertSchemaDefaultInEnum v enum path)) (\<lambda>_.
     eff_return (S_string an enum minLength maxLength v))))))))"

definition parseNumberSchema :: "limits \<Rightarrow> heap \<Rightarrow> fields \<Rightarrow> string \<Rightarrow> annotations \<Rightarrow> bool \<Rightarrow> schema parser" where
  "parseNumberSchema L h m path an integer =
     eff_bind (eff_result (rejectUnknownKeys m
       (COMMON_KEYS @ [''minimum'', ''maximum'', ''exclusiveMinimum'', ''exclusiveMaximum'']) path)) (\<lambda>_.
     eff_bind (parseScalarEnum L h (field m ''enum'') (if integer then T_integer else T_number) path) (\<lambda>enum.
     eff_bind (eff_result (readOptionalFiniteNumber m ''minimum'' path)) (\<lambda>low.
     eff_bind (eff_result (readOptionalFiniteNumber m ''maximum'' path)) (\<lambda>high.
     eff_bind (eff_result (readOptionalFiniteNumber m ''exclusiveMinimum'' path)) (\<lambda>exLow.
     eff_bind (eff_result (readOptionalFiniteNumber m ''exclusiveMaximum'' path)) (\<lambda>exHigh.
     eff_bind (eff_result (assertRange low high path ''minimum'' ''maximum'')) (\<lambda>_.
     eff_bind (eff_result (assertRange exLow exHigh path ''exclusiveMinimum'' ''exclusiveMaximum'')) (\<lambda>_.
     eff_bind (parseSchemaDefault L h m path (if integer then T_integer else T_number)) (\<lambda>v.
     eff_bind (eff_result (assertSchemaDefaultInEnum v enum path)) (\<lambda>_.
     eff_return (S_number integer an enum low high exLow exHigh v)))))))))))"

definition parseBooleanSchema :: "limits \<Rightarrow> heap \<Rightarrow> fields \<Rightarrow> string \<Rightarrow> annotations \<Rightarrow> schema parser" where
  "parseBooleanSchema L h m path an =
     eff_bind (eff_result (rejectUnknownKeys m COMMON_KEYS path)) (\<lambda>_.
     eff_bind (parseScalarEnum L h (field m ''enum'') T_boolean path) (\<lambda>enum.
     eff_bind (parseSchemaDefault L h m path T_boolean) (\<lambda>v.
     eff_bind (eff_result (assertSchemaDefaultInEnum v enum path)) (\<lambda>_.
     eff_return (S_boolean an enum v)))))"

section \<open>Arrays and objects\<close>

type_synonym parse_node = "uval \<Rightarrow> string \<Rightarrow> bool \<Rightarrow> schema parser"

definition parseArraySchema ::
  "limits \<Rightarrow> heap \<Rightarrow> parse_node \<Rightarrow> fields \<Rightarrow> string \<Rightarrow> annotations \<Rightarrow> schema parser" where
  "parseArraySchema L h parseNode m path an =
     eff_bind (eff_result (rejectUnknownKeys m (filter (\<lambda>k. k \<noteq> ''enum'') COMMON_KEYS @
       [''items'', ''minItems'', ''maxItems'', ''uniqueItems'']) path)) (\<lambda>_.
     if field m ''items'' = U_undefined then pfail EC_invalid (joinSchemaPath path ''items'') ''array schemas require items''
     else
     eff_bind (parseNode (field m ''items'') (joinSchemaPath path ''items'') False) (\<lambda>items.
     eff_bind (eff_result (readOptionalBoundedInteger m ''minItems'' path (L maxCollectionBound))) (\<lambda>minItems.
     eff_bind (eff_result (readOptionalBoundedInteger m ''maxItems'' path (L maxCollectionBound))) (\<lambda>maxItems.
     eff_bind (eff_result (assertRange minItems maxItems path ''minItems'' ''maxItems'')) (\<lambda>_.
     eff_bind (eff_result (readOptionalBoolean m ''uniqueItems'' path)) (\<lambda>uniqueItems.
     eff_bind (parseSchemaDefault L h m path T_array) (\<lambda>v.
     eff_return (S_array an items minItems maxItems uniqueItems v))))))))"

definition parseProperties :: "limits \<Rightarrow> heap \<Rightarrow> parse_node \<Rightarrow> uval \<Rightarrow> string \<Rightarrow> (string \<times> schema) list option parser" where
  "parseProperties L h parseNode input path =
     (if input = U_undefined then eff_return None
      else
        let propertiesPath = joinSchemaPath path ''properties'' in
        eff_bind (eff_result (readPlainDataRecord h input propertiesPath)) (\<lambda>m.
        let keys = sort (map fst m) in
        eff_bind (count_props L (length keys) propertiesPath) (\<lambda>_.
        eff_bind (eff_map (\<lambda>k.
            if length k > L maxPropertyNameLength
            then pfail EC_limit_exceeded (joinSchemaPath propertiesPath k)
              (''property name exceeds '' @ decimal (L maxPropertyNameLength) @ '' characters'')
            else eff_bind (parseNode (field m k) (joinSchemaPath propertiesPath k) False) (\<lambda>x. eff_return (k, x))) keys)
          (\<lambda>kvs. eff_return (Some kvs)))))"

text \<open>The names that every object inherits from \<open>Object.prototype\<close>.\<close>

definition inherited_names :: "string list" where
  "inherited_names = [''constructor'', ''__defineGetter__'', ''__defineSetter__'', ''hasOwnProperty'', ''__lookupGetter__'',
     ''__lookupSetter__'', ''isPrototypeOf'', ''propertyIsEnumerable'', ''toString'', ''valueOf'', ''__proto__'', ''toLocaleString'']"

text \<open>\<open>properties?.[name] === undefined\<close>: the lookup finds inherited names too.\<close>

definition property_missing :: "(string \<times> schema) list option \<Rightarrow> string \<Rightarrow> bool" where
  "property_missing properties name =
     (case properties of None \<Rightarrow> True | Some m \<Rightarrow> map_of m name = None \<and> name \<notin> set inherited_names)"

definition parseRequired ::
  "limits \<Rightarrow> heap \<Rightarrow> uval \<Rightarrow> (string \<times> schema) list option \<Rightarrow> string \<Rightarrow> AppCommandInputSchemaError + string list option" where
  "parseRequired L h input properties path =
     (if input = U_undefined then Inr None
      else
        let requiredPath = joinSchemaPath path ''required'' in
        res_bind (readPlainDataArray h input requiredPath) (\<lambda>values.
        if length values > L maxRequiredNames
        then sfail EC_limit_exceeded requiredPath (''required exceeds '' @ decimal (L maxRequiredNames) @ '' names'')
        else
          res_bind (map_result (\<lambda>(i, v). case v of
              U_str s \<Rightarrow> if length s > L maxPropertyNameLength
                then sfail EC_limit_exceeded (joinSchemaPath requiredPath (decimal i))
                  (''required name exceeds '' @ decimal (L maxPropertyNameLength) @ '' characters'')
                else Inr s
            | _ \<Rightarrow> sfail EC_invalid (joinSchemaPath requiredPath (decimal i)) ''required names must be strings'')
            (zip [0..<length values] values)) (\<lambda>names.
          if \<not> distinct names then sfail EC_invalid requiredPath ''required names must be unique''
          else if list_ex (property_missing properties) names
          then sfail EC_invalid requiredPath ''required names must exist in properties''
          else Inr (Some (sort names)))))"

definition parseAnnotations :: "limits \<Rightarrow> fields \<Rightarrow> string \<Rightarrow> AppCommandInputSchemaError + annotations" where
  "parseAnnotations L m path =
     res_bind (readOptionalString m ''title'' path (L maxTitleLength)) (\<lambda>title.
     res_bind (readOptionalString m ''description'' path (L maxDescriptionLength)) (\<lambda>description.
     Inr \<lparr>an_title = title, an_description = description\<rparr>))"

definition APP_COMMAND_INPUT_SCHEMA_DRAFT_2020_12 :: string where
  "APP_COMMAND_INPUT_SCHEMA_DRAFT_2020_12 = ''https://json-schema.org/draft/2020-12/schema''"

definition parseObjectSchema ::
  "limits \<Rightarrow> heap \<Rightarrow> parse_node \<Rightarrow> fields \<Rightarrow> string \<Rightarrow> bool \<Rightarrow> annotations \<Rightarrow> schema parser" where
  "parseObjectSchema L h parseNode m path isRoot an =
     eff_bind (eff_result (rejectUnknownKeys m (filter (\<lambda>k. k \<noteq> ''enum'') COMMON_KEYS @ (if isRoot then [''$schema''] else []) @
       [''properties'', ''required'', ''additionalProperties'', ''minProperties'', ''maxProperties'']) path)) (\<lambda>_.
     eff_bind (parseProperties L h parseNode (field m ''properties'') path) (\<lambda>properties.
     eff_bind (eff_result (parseRequired L h (field m ''required'') properties path)) (\<lambda>required.
     eff_bind (eff_result (readOptionalBoolean m ''additionalProperties'' path)) (\<lambda>additionalProperties.
     eff_bind (eff_result (readOptionalBoundedInteger m ''minProperties'' path (L maxCollectionBound))) (\<lambda>minProperties.
     eff_bind (eff_result (readOptionalBoundedInteger m ''maxProperties'' path (L maxCollectionBound))) (\<lambda>maxProperties1.
     eff_bind (eff_result (assertRange minProperties maxProperties1 path ''minProperties'' ''maxProperties'')) (\<lambda>_.
     eff_bind (parseSchemaDefault L h m path T_object) (\<lambda>v.
     if isRoot \<and> field m ''$schema'' \<noteq> U_undefined \<and> field m ''$schema'' \<noteq> U_str APP_COMMAND_INPUT_SCHEMA_DRAFT_2020_12
     then pfail EC_unsupported (joinSchemaPath path ''$schema'') ''only JSON Schema Draft 2020-12 is supported''
     else eff_return (S_object (isRoot \<and> field m ''$schema'' \<noteq> U_undefined) an properties required additionalProperties
       minProperties maxProperties1 v)))))))))"

section \<open>Nodes\<close>

definition read_type :: "uval \<Rightarrow> schema_type option" where
  "read_type v = (case v of U_str s \<Rightarrow> List.find (\<lambda>t. typeText t = s) APP_COMMAND_INPUT_SCHEMA_TYPES | _ \<Rightarrow> None)"

definition parse_typed :: "limits \<Rightarrow> heap \<Rightarrow> parse_node \<Rightarrow> fields \<Rightarrow> string \<Rightarrow> bool \<Rightarrow> schema parser" where
  "parse_typed L h parseNode m path isRoot =
     (case read_type (field m ''type'') of
        None \<Rightarrow> pfail EC_invalid (joinSchemaPath path ''type'')
          ''schema type must be object, string, number, integer, boolean, or array''
      | Some type \<Rightarrow>
          if isRoot \<and> type \<noteq> T_object then pfail EC_invalid (joinSchemaPath path ''type'') ''root schema type must be object''
          else eff_bind (eff_result (parseAnnotations L m path)) (\<lambda>an.
            case type of
              T_object \<Rightarrow> parseObjectSchema L h parseNode m path isRoot an
            | T_string \<Rightarrow> parseStringSchema L h m path an
            | T_number \<Rightarrow> parseNumberSchema L h m path an False
            | T_integer \<Rightarrow> parseNumberSchema L h m path an True
            | T_boolean \<Rightarrow> parseBooleanSchema L h m path an
            | T_array \<Rightarrow> parseArraySchema L h parseNode m path an))"

text \<open>The address of the object that was read; \<open>schemaAncestors\<close> holds the objects being parsed.\<close>

definition with_ancestor :: "uval \<Rightarrow> string \<Rightarrow> 'a parser \<Rightarrow> 'a parser" where
  "with_ancestor input path body =
     (case input of
        U_obj a \<Rightarrow> (\<lambda>s. if a \<in> set (ps_ancestors s) then pfail EC_invalid path ''command input schemas must not contain cycles'' s
          else eff_finally body (\<lambda>t. (Inr (), t\<lparr>ps_ancestors := removeAll a (ps_ancestors t)\<rparr>))
            (s\<lparr>ps_ancestors := a # ps_ancestors s\<rparr>))
      | _ \<Rightarrow> body)"

text \<open>\<open>parseSchemaNode\<close>, by the depth that is left.\<close>

primrec parseSchemaNode :: "limits \<Rightarrow> heap \<Rightarrow> nat \<Rightarrow> uval \<Rightarrow> string \<Rightarrow> bool \<Rightarrow> schema parser" where
  "parseSchemaNode L h 0 = (\<lambda>input path isRoot.
     eff_bind (count_node L path) (\<lambda>_.
     pfail EC_limit_exceeded path (''schema nesting exceeds depth '' @ decimal (L maxSchemaDepth))))"
| "parseSchemaNode L h (Suc r) = (\<lambda>input path isRoot.
     eff_bind (count_node L path) (\<lambda>_.
     eff_bind (eff_result (readPlainDataRecord h input path)) (\<lambda>m.
     eff_bind (eff_result (rejectUndefinedValues m path)) (\<lambda>_.
     with_ancestor input path (parse_typed L h (parseSchemaNode L h r) m path isRoot)))))"

section \<open>The size of a schema\<close>

text \<open>\<open>JSON.stringify\<close> of the schema, with the text of numbers as an argument, and its length in UTF-8.\<close>

definition hex_digit :: "nat \<Rightarrow> char" where
  "hex_digit n = (if n < 10 then char_of (48 + n) else char_of (87 + n))"

definition json_char :: "char \<Rightarrow> string" where
  "json_char c =
     (let n = of_char c :: nat in
      if n = 34 then [char_of (92::nat), char_of (34::nat)]
      else if n = 92 then [char_of (92::nat), char_of (92::nat)]
      else if n = 8 then [char_of (92::nat), CHR ''b'']
      else if n = 9 then [char_of (92::nat), CHR ''t'']
      else if n = 10 then [char_of (92::nat), CHR ''n'']
      else if n = 12 then [char_of (92::nat), CHR ''f'']
      else if n = 13 then [char_of (92::nat), CHR ''r'']
      else if n < 32 then [char_of (92::nat), CHR ''u'', CHR ''0'', CHR ''0'', hex_digit (n div 16), hex_digit (n mod 16)]
      else [c])"

definition json_string :: "string \<Rightarrow> string" where
  "json_string s = [char_of (34::nat)] @ concat (map json_char s) @ [char_of (34::nat)]"

fun joined :: "string list \<Rightarrow> string" where
  "joined [] = []"
| "joined [x] = x"
| "joined (x # xs) = x @ '','' @ joined xs"

fun stringify :: "(rat \<Rightarrow> string) \<Rightarrow> jvalue \<Rightarrow> string" where
  "stringify f V_null = ''null''"
| "stringify f (V_str s) = json_string s"
| "stringify f (V_num n) = (if n = NonFinite then ''null'' else f (num_value n))"
| "stringify f (V_bool b) = (if b then ''true'' else ''false'')"
| "stringify f (V_arr vs) = ''['' @ joined (map (stringify f) vs) @ '']''"
| "stringify f (V_obj kvs) = ''{'' @ joined (map (\<lambda>kv. json_string (fst kv) @ '':'' @ stringify f (snd kv)) kvs) @ ''}''"

text \<open>On UTF-16 code units.\<close>

fun utf8ByteLength :: "nat list \<Rightarrow> nat" where
  "utf8ByteLength [] = 0"
| "utf8ByteLength (c # cs) =
     (if c \<le> 127 then 1 + utf8ByteLength cs
      else if c \<le> 2047 then 2 + utf8ByteLength cs
      else if 55296 \<le> c \<and> c \<le> 56319 then
        (case cs of n # ns \<Rightarrow> if 56320 \<le> n \<and> n \<le> 57343 then 4 + utf8ByteLength ns else 3 + utf8ByteLength cs
         | [] \<Rightarrow> 3)
      else 3 + utf8ByteLength cs)"

definition opt_field :: "string \<Rightarrow> ('a \<Rightarrow> jvalue) \<Rightarrow> 'a option \<Rightarrow> (string \<times> jvalue) list" where
  "opt_field k f v = (case v of None \<Rightarrow> [] | Some x \<Rightarrow> [(k, f x)])"

definition annotation_fields :: "annotations \<Rightarrow> (string \<times> jvalue) list" where
  "annotation_fields an = opt_field ''title'' V_str (an_title an) @ opt_field ''description'' V_str (an_description an)"

fun schema_value :: "schema \<Rightarrow> jvalue" where
  "schema_value (S_object draft an properties required additional low high v) = V_obj
     ((if draft then [(''$schema'', V_str APP_COMMAND_INPUT_SCHEMA_DRAFT_2020_12)] else []) @
      [(''type'', V_str ''object'')] @ annotation_fields an @
      (case properties of None \<Rightarrow> [] | Some m \<Rightarrow> [(''properties'', V_obj (map (\<lambda>kx. (fst kx, schema_value (snd kx))) m))]) @
      opt_field ''required'' (\<lambda>xs. V_arr (map V_str xs)) required @ opt_field ''additionalProperties'' V_bool additional @
      opt_field ''minProperties'' V_num low @ opt_field ''maxProperties'' V_num high @ opt_field ''default'' (\<lambda>x. x) v)"
| "schema_value (S_string an enum low high v) = V_obj
     ([(''type'', V_str ''string'')] @ annotation_fields an @ opt_field ''enum'' V_arr enum @ opt_field ''minLength'' V_num low @
      opt_field ''maxLength'' V_num high @ opt_field ''default'' (\<lambda>x. x) v)"
| "schema_value (S_number integer an enum low high exLow exHigh v) = V_obj
     ([(''type'', V_str (if integer then ''integer'' else ''number''))] @ annotation_fields an @ opt_field ''enum'' V_arr enum @
      opt_field ''minimum'' V_num low @ opt_field ''maximum'' V_num high @ opt_field ''exclusiveMinimum'' V_num exLow @
      opt_field ''exclusiveMaximum'' V_num exHigh @ opt_field ''default'' (\<lambda>x. x) v)"
| "schema_value (S_boolean an enum v) = V_obj
     ([(''type'', V_str ''boolean'')] @ annotation_fields an @ opt_field ''enum'' V_arr enum @ opt_field ''default'' (\<lambda>x. x) v)"
| "schema_value (S_array an items low high uniq v) = V_obj
     ([(''type'', V_str ''array'')] @ annotation_fields an @ [(''items'', schema_value items)] @ opt_field ''minItems'' V_num low @
      opt_field ''maxItems'' V_num high @ opt_field ''uniqueItems'' V_bool uniq @ opt_field ''default'' (\<lambda>x. x) v)"

definition schema_bytes :: "(rat \<Rightarrow> string) \<Rightarrow> schema \<Rightarrow> nat" where
  "schema_bytes f x = utf8ByteLength (map of_char (stringify f (schema_value x)))"

section \<open>The parser\<close>

definition start_state :: pstate where
  "start_state = \<lparr>ps_ancestors = [], ps_nodes = 0, ps_props = 0, ps_enums = 0, ps_values = 0\<rparr>"

fun is_object_schema :: "schema \<Rightarrow> bool" where
  "is_object_schema (S_object d an p r a l u v) = True"
| "is_object_schema _ = False"

definition parseAppCommandInputSchema ::
  "(rat \<Rightarrow> string) \<Rightarrow> heap \<Rightarrow> uval \<Rightarrow> (limit \<times> uval) list option \<Rightarrow> AppCommandInputSchemaError + schema" where
  "parseAppCommandInputSchema f h input overrides =
     res_bind (resolveSchemaLimits overrides) (\<lambda>L.
     res_bind (fst (parseSchemaNode L h (L maxSchemaDepth) input ''/'' True start_state)) (\<lambda>x.
     if \<not> is_object_schema x then sfail EC_invalid ''/type'' ''command input schema root type must be object''
     else if schema_bytes f x > L maxSerializedBytes
     then sfail EC_limit_exceeded ''/'' (''normalized schema exceeds '' @ decimal (L maxSerializedBytes) @ '' bytes'')
     else Inr x))"

end
