(* ===== verification/Command_Schema_Safety.thy ===== *)
theory Command_Schema_Safety
  imports Command_Schema
begin

text \<open>
  What the schema parser promises. It always returns, whatever graph of objects it is given, also a
  cyclic one; and a schema it accepts is well formed and within every limit. One promise is weaker
  than it looks: a required name need not be a declared property, if every object inherits it.
\<close>

section \<open>Measures\<close>

fun vnodes :: "jvalue \<Rightarrow> nat" where
  "vnodes (V_arr vs) = 1 + sum_list (map vnodes vs)"
| "vnodes (V_obj kvs) = 1 + sum_list (map (\<lambda>kv. vnodes (snd kv)) kvs)"
| "vnodes _ = 1"

fun value_ok :: "limits \<Rightarrow> nat \<Rightarrow> jvalue \<Rightarrow> bool" where
  "value_ok L 0 v = False"
| "value_ok L (Suc r) (V_arr vs) = (length vs \<le> L maxCollectionBound \<and> list_all (value_ok L r) vs)"
| "value_ok L (Suc r) (V_obj kvs) = (length kvs \<le> L maxCollectionBound \<and> sorted (map fst kvs) \<and>
     list_all (\<lambda>kv. length (fst kv) \<le> L maxPropertyNameLength \<and> value_ok L r (snd kv)) kvs)"
| "value_ok L (Suc r) (V_num n) = is_finite n"
| "value_ok L (Suc r) v = True"

fun nodes :: "schema \<Rightarrow> nat" where
  "nodes (S_object d an ps r a l u v) = 1 + (case ps of None \<Rightarrow> 0 | Some m \<Rightarrow> sum_list (map (\<lambda>kx. nodes (snd kx)) m))"
| "nodes (S_array an x l u q v) = 1 + nodes x"
| "nodes _ = 1"

fun props :: "schema \<Rightarrow> nat" where
  "props (S_object d an ps r a l u v) = (case ps of None \<Rightarrow> 0 | Some m \<Rightarrow> length m + sum_list (map (\<lambda>kx. props (snd kx)) m))"
| "props (S_array an x l u q v) = props x"
| "props _ = 0"

definition enum_size :: "jvalue list option \<Rightarrow> nat" where
  "enum_size e = (case e of None \<Rightarrow> 0 | Some xs \<Rightarrow> length xs)"

fun enums :: "schema \<Rightarrow> nat" where
  "enums (S_object d an ps r a l u v) = (case ps of None \<Rightarrow> 0 | Some m \<Rightarrow> sum_list (map (\<lambda>kx. enums (snd kx)) m))"
| "enums (S_array an x l u q v) = enums x"
| "enums (S_string an e l u v) = enum_size e"
| "enums (S_number i an e l u x y v) = enum_size e"
| "enums (S_boolean an e v) = enum_size e"

definition default_size :: "jvalue option \<Rightarrow> nat" where
  "default_size v = (case v of None \<Rightarrow> 0 | Some x \<Rightarrow> vnodes x)"

fun defaults :: "schema \<Rightarrow> nat" where
  "defaults (S_object d an ps r a l u v) =
     (case ps of None \<Rightarrow> 0 | Some m \<Rightarrow> sum_list (map (\<lambda>kx. defaults (snd kx)) m)) + default_size v"
| "defaults (S_array an x l u q v) = defaults x + default_size v"
| "defaults (S_string an e l u v) = default_size v"
| "defaults (S_number i an e l u x y v) = default_size v"
| "defaults (S_boolean an e v) = default_size v"

section \<open>Well-formed schemas\<close>

definition text_ok :: "nat \<Rightarrow> string option \<Rightarrow> bool" where
  "text_ok n s = (case s of None \<Rightarrow> True | Some x \<Rightarrow> length x \<le> n)"

definition ann_ok :: "limits \<Rightarrow> annotations \<Rightarrow> bool" where
  "ann_ok L an \<longleftrightarrow> text_ok (L maxTitleLength) (an_title an) \<and> text_ok (L maxDescriptionLength) (an_description an)"

definition bound_ok :: "nat \<Rightarrow> jsnum option \<Rightarrow> bool" where
  "bound_ok n v = (case v of None \<Rightarrow> True | Some x \<Rightarrow> is_integer x \<and> 0 \<le> num_value x \<and> num_value x \<le> of_nat n)"

definition range_ok :: "jsnum option \<Rightarrow> jsnum option \<Rightarrow> bool" where
  "range_ok l u = (case (l, u) of (Some x, Some y) \<Rightarrow> num_value x \<le> num_value y | _ \<Rightarrow> True)"

definition enum_ok :: "limits \<Rightarrow> schema_type \<Rightarrow> jvalue list option \<Rightarrow> bool" where
  "enum_ok L t e = (case e of None \<Rightarrow> True
     | Some xs \<Rightarrow> xs \<noteq> [] \<and> length xs \<le> L maxEnumValuesPerNode \<and> distinct (map scalarKey xs) \<and> list_all (default_fits t) xs)"

definition default_ok :: "limits \<Rightarrow> schema_type \<Rightarrow> jvalue option \<Rightarrow> bool" where
  "default_ok L t v = (case v of None \<Rightarrow> True | Some x \<Rightarrow> default_fits t x \<and> value_ok L (L maxValueDepth) x)"

definition in_enum :: "jvalue option \<Rightarrow> jvalue list option \<Rightarrow> bool" where
  "in_enum v e = (case (v, e) of (Some x, Some xs) \<Rightarrow> x \<in> set xs | _ \<Rightarrow> True)"

definition required_ok :: "limits \<Rightarrow> (string \<times> schema) list option \<Rightarrow> string list option \<Rightarrow> bool" where
  "required_ok L ps r = (case r of None \<Rightarrow> True
     | Some names \<Rightarrow> sorted names \<and> distinct names \<and> length names \<le> L maxRequiredNames \<and>
         list_all (\<lambda>n. length n \<le> L maxPropertyNameLength \<and>
           (case ps of None \<Rightarrow> False | Some m \<Rightarrow> n \<in> fst ` set m \<or> n \<in> set inherited_names)) names)"

text \<open>The number is the depth that is left.\<close>

fun schema_ok :: "limits \<Rightarrow> nat \<Rightarrow> schema \<Rightarrow> bool" where
  "schema_ok L 0 x = False"
| "schema_ok L (Suc r) (S_object d an ps req a l u v) =
     (ann_ok L an \<and> (case ps of None \<Rightarrow> True | Some m \<Rightarrow> sorted (map fst m) \<and>
        list_all (\<lambda>kx. length (fst kx) \<le> L maxPropertyNameLength \<and> schema_ok L r (snd kx)) m) \<and>
      required_ok L ps req \<and> bound_ok (L maxCollectionBound) l \<and> bound_ok (L maxCollectionBound) u \<and> range_ok l u \<and>
      default_ok L T_object v)"
| "schema_ok L (Suc r) (S_array an x l u q v) =
     (ann_ok L an \<and> schema_ok L r x \<and> bound_ok (L maxCollectionBound) l \<and> bound_ok (L maxCollectionBound) u \<and> range_ok l u \<and>
      default_ok L T_array v)"
| "schema_ok L (Suc r) (S_string an e l u v) =
     (ann_ok L an \<and> enum_ok L T_string e \<and> bound_ok (L maxStringLengthBound) l \<and> bound_ok (L maxStringLengthBound) u \<and>
      range_ok l u \<and> default_ok L T_string v \<and> in_enum v e)"
| "schema_ok L (Suc r) (S_number i an e l u x y v) =
     (ann_ok L an \<and> enum_ok L (if i then T_integer else T_number) e \<and> range_ok l u \<and> range_ok x y \<and>
      default_ok L (if i then T_integer else T_number) v \<and> in_enum v e)"
| "schema_ok L (Suc r) (S_boolean an e v) = (ann_ok L an \<and> enum_ok L T_boolean e \<and> default_ok L T_boolean v \<and> in_enum v e)"

section \<open>Counting\<close>

definition in_limits :: "limits \<Rightarrow> pstate \<Rightarrow> bool" where
  "in_limits L s \<longleftrightarrow> ps_nodes s \<le> L maxSchemaNodes \<and> ps_props s \<le> L maxProperties \<and> ps_enums s \<le> L maxEnumValuesTotal \<and>
     ps_values s \<le> L maxValueNodes"

definition counts :: "limits \<Rightarrow> pstate \<Rightarrow> pstate \<Rightarrow> nat \<Rightarrow> nat \<Rightarrow> nat \<Rightarrow> nat \<Rightarrow> bool" where
  "counts L s t n p e v \<longleftrightarrow> ps_nodes t = ps_nodes s + n \<and> ps_props t = ps_props s + p \<and> ps_enums t = ps_enums s + e \<and>
     ps_values t = ps_values s + v \<and> (in_limits L s \<longrightarrow> in_limits L t)"

lemma counts_refl [simp]: "counts L s s 0 0 0 0"
  by (simp add: counts_def)

lemma counts_trans:
  "counts L s t n p e v \<Longrightarrow> counts L t u n' p' e' v' \<Longrightarrow> counts L s u (n + n') (p + p') (e + e') (v + v')"
  by (auto simp: counts_def)

lemma eff_result_Inr [simp]: "eff_result r s = (Inr x, t) \<longleftrightarrow> r = Inr x \<and> t = s"
  by (auto simp: eff_result_def)

lemma pfail_never [simp]: "pfail c p m s = (Inr x, t) \<longleftrightarrow> False" "sfail c p m = Inr y \<longleftrightarrow> False"
  by (simp_all add: pfail_def sfail_def)

lemma eff_return_Inr [simp]: "eff_return x s = (Inr y, t) \<longleftrightarrow> y = x \<and> t = s"
  by (auto simp: eff_return_def)

lemma counted:
  "count_node L p s = (Inr u, t) \<Longrightarrow> counts L s t 1 0 0 0"
  "count_props L k p s = (Inr u, t) \<Longrightarrow> counts L s t 0 k 0 0"
  "count_enums L k p s = (Inr u, t) \<Longrightarrow> counts L s t 0 0 k 0"
  "count_value L p s = (Inr u, t) \<Longrightarrow> counts L s t 0 0 0 1"
  by (auto simp: count_node_def count_props_def count_enums_def count_value_def counts_def in_limits_def Let_def split: if_splits)

text \<open>A loop whose body counts.\<close>

lemma eff_map_counts:
  assumes "\<And>x s y t. x \<in> set xs \<Longrightarrow> body x s = (Inr y, t) \<Longrightarrow> counts L s t (fn y) (fp y) (fe y) (fv y) \<and> Q x y"
  shows "eff_map body xs s = (Inr ys, t) \<Longrightarrow>
    counts L s t (sum_list (map fn ys)) (sum_list (map fp ys)) (sum_list (map fe ys)) (sum_list (map fv ys)) \<and> list_all2 Q xs ys"
  using assms
proof (induction xs arbitrary: s ys t)
  case (Cons x xs)
  from Cons.prems(1) obtain y u zs where y: "body x s = (Inr y, u)" "eff_map body xs u = (Inr zs, t)" "ys = y # zs"
    by (auto simp: eff_bind_Inr)
  have a: "counts L s u (fn y) (fp y) (fe y) (fv y)" "Q x y" using Cons.prems(2) [OF _ y(1)] by auto
  have b: "counts L u t (sum_list (map fn zs)) (sum_list (map fp zs)) (sum_list (map fe zs)) (sum_list (map fv zs))"
    "list_all2 Q xs zs" using Cons.IH [OF y(2)] Cons.prems(2) by auto
  show ?case using counts_trans [OF a(1) b(1)] a(2) b(2) y(3) by simp
qed simp

lemma list_all2_fst: "list_all2 (\<lambda>k y. fst y = k \<and> P y) ks ys \<Longrightarrow> map fst ys = ks \<and> list_all P ys"
  by (induction rule: list_all2_induct) auto

lemma list_all2_indexed: "list_all2 (\<lambda>_. P) (zip [0..<length xs] xs) ys \<Longrightarrow> length ys = length xs \<and> list_all P ys"
  by (auto simp: list_all2_conv_all_nth list_all_length)

section \<open>Defaults\<close>

lemma clone_array_ok:
  assumes run: "clone_array L h clone as a path u = (Inr x, t)"
    and clone: "\<And>as v p s y t. clone as v p s = (Inr y, t) \<Longrightarrow> counts L s t 0 0 0 (vnodes y) \<and> value_ok L r y"
  shows "counts L u t 0 0 0 (vnodes x - 1) \<and> 1 \<le> vnodes x \<and> value_ok L (Suc r) x"
proof -
  from run obtain xs where xs: "length xs \<le> L maxCollectionBound"
    and step: "eff_bind (eff_map (\<lambda>(i, v). clone (a # as) v (joinSchemaPath path (decimal i))) (zip [0..<length xs] xs))
       (\<lambda>values. eff_return (V_arr values)) u = (Inr x, t)"
    by (auto simp: clone_array_def eff_bind_Inr [of "eff_result r" for r] not_less split: if_splits)
  from step obtain vs where vs: "x = V_arr vs"
    "eff_map (\<lambda>(i, v). clone (a # as) v (joinSchemaPath path (decimal i))) (zip [0..<length xs] xs) u = (Inr vs, t)"
    by (simp add: eff_bind_Inr) blast
  have "counts L u t (sum_list (map (\<lambda>_. 0) vs)) (sum_list (map (\<lambda>_. 0) vs)) (sum_list (map (\<lambda>_. 0) vs)) (sum_list (map vnodes vs)) \<and>
      list_all2 (\<lambda>_ y. value_ok L r y) (zip [0..<length xs] xs) vs"
    using vs(2) by (rule eff_map_counts [rotated]) (use clone in auto)
  then have "counts L u t 0 0 0 (sum_list (map vnodes vs))" "length vs = length xs" "list_all (value_ok L r) vs"
    using list_all2_indexed [of "value_ok L r" xs vs] by simp_all
  then show ?thesis using xs vs(1) by simp
qed

lemma clone_record_ok:
  assumes run: "clone_record L h clone as a path u = (Inr x, t)"
    and clone: "\<And>as v p s y t. clone as v p s = (Inr y, t) \<Longrightarrow> counts L s t 0 0 0 (vnodes y) \<and> value_ok L r y"
  shows "counts L u t 0 0 0 (vnodes x - 1) \<and> 1 \<le> vnodes x \<and> value_ok L (Suc r) x"
proof -
  let ?body = "\<lambda>m k. if length k > L maxPropertyNameLength
          then pfail EC_limit_exceeded (joinSchemaPath path k)
            (''default property name exceeds '' @ decimal (L maxPropertyNameLength) @ '' characters'')
          else eff_bind (clone (a # as) (field m k) (joinSchemaPath path k)) (\<lambda>v. eff_return (k, v))"
  from run obtain m where m: "length m \<le> L maxCollectionBound"
    and step: "eff_bind (eff_map (?body m) (sort (map fst m))) (\<lambda>kvs. eff_return (V_obj kvs)) u = (Inr x, t)"
    by (auto simp: clone_record_def eff_bind_Inr [of "eff_result r" for r] Let_def not_less split: if_splits)
  from step obtain kvs where kvs: "x = V_obj kvs" "eff_map (?body m) (sort (map fst m)) u = (Inr kvs, t)"
    by (simp add: eff_bind_Inr) blast
  let ?ok = "\<lambda>y. length (fst y) \<le> L maxPropertyNameLength \<and> value_ok L r (snd y)"
  have "counts L u t (sum_list (map (\<lambda>_. 0) kvs)) (sum_list (map (\<lambda>_. 0) kvs)) (sum_list (map (\<lambda>_. 0) kvs))
        (sum_list (map (\<lambda>kv. vnodes (snd kv)) kvs)) \<and>
      list_all2 (\<lambda>k y. fst y = k \<and> ?ok y) (sort (map fst m)) kvs"
    using kvs(2) by (rule eff_map_counts [rotated]) (use clone in \<open>auto simp: eff_bind_Inr split: if_splits\<close>)
  then have c: "counts L u t 0 0 0 (sum_list (map (\<lambda>kv. vnodes (snd kv)) kvs))" and names: "map fst kvs = sort (map fst m)"
    and ok: "list_all ?ok kvs"
    using list_all2_fst [of ?ok "sort (map fst m)" kvs] by simp_all
  have "length kvs = length m" using arg_cong [OF names, of length] by simp
  then show ?thesis using c names ok m kvs(1) by simp
qed

lemma clone_ok:
  "cloneCommandInputJsonValue L h r as input path s = (Inr x, t) \<Longrightarrow> counts L s t 0 0 0 (vnodes x) \<and> value_ok L r x"
proof (induction r arbitrary: as input path s x t)
  case 0
  then show ?case by (auto simp: eff_bind_Inr)
next
  case (Suc r)
  let ?clone = "cloneCommandInputJsonValue L h r"
  from Suc.prems obtain u where u: "count_value L path s = (Inr (), u)" and rest: "(case input of
       U_obj a \<Rightarrow> (case h a of O_array plain elems extras \<Rightarrow> clone_array L h ?clone as a path
          | O_record plain own \<Rightarrow> clone_record L h ?clone as a path)
     | _ \<Rightarrow> eff_result (clone_leaf input path)) u = (Inr x, t)"
    by (auto simp: eff_bind_Inr)
  have "counts L u t 0 0 0 (vnodes x - 1) \<and> 1 \<le> vnodes x \<and> value_ok L (Suc r) x"
  proof (cases input)
    case (U_obj a)
    then show ?thesis
      using rest clone_array_ok [OF _ Suc.IH] clone_record_ok [OF _ Suc.IH] by (cases "h a") simp_all
  qed (use rest in \<open>auto simp: clone_leaf_def split: if_splits\<close>)
  then show ?case using counts_trans [OF counted(4) [OF u]] by fastforce
qed

lemma default_parsed:
  assumes "parseSchemaDefault L h m path ty s = (Inr v, t)"
  shows "counts L s t 0 0 0 (default_size v) \<and> default_ok L ty v"
  using assms clone_ok by (auto simp: parseSchemaDefault_def eff_bind_Inr default_size_def default_ok_def split: if_splits)

section \<open>Fields\<close>

lemma bounded_integer: "readOptionalBoundedInteger m k path n = Inr v \<Longrightarrow> bound_ok n v"
  by (auto simp: readOptionalBoundedInteger_def bound_ok_def not_less split: uval.splits if_splits)

lemma range_checked: "assertRange l u path a b = Inr () \<Longrightarrow> range_ok l u"
  by (auto simp: assertRange_def range_ok_def not_less split: option.splits if_splits)

lemma annotations_parsed: "parseAnnotations L m path = Inr an \<Longrightarrow> ann_ok L an"
  by (auto simp: parseAnnotations_def readOptionalString_def ann_ok_def text_ok_def res_bind_eq_Inr not_less
    split: uval.splits if_splits)

lemma default_in_enum: "assertSchemaDefaultInEnum v e path = Inr () \<Longrightarrow> in_enum v e"
  by (auto simp: assertSchemaDefaultInEnum_def in_enum_def split: option.splits if_splits)

lemma scalar_fits: "matchesScalarType t v = Some x \<Longrightarrow> default_fits t x"
  by (induction t v rule: matchesScalarType.induct) (auto split: if_splits)

lemma enum_parsed:
  assumes "parseScalarEnum L h input ty path s = (Inr e, t)"
  shows "counts L s t 0 0 (enum_size e) 0 \<and> enum_ok L ty e"
proof (cases "input = U_undefined")
  case True
  then show ?thesis using assms by (auto simp: parseScalarEnum_def enum_size_def enum_ok_def)
next
  case False
  then obtain xs u p ys where xs: "xs \<noteq> []" "length xs \<le> L maxEnumValuesPerNode" "count_enums L (length xs) p s = (Inr (), t)"
    and e: "e = Some ys" "distinct (map scalarKey ys)"
    and ys: "map_result (\<lambda>(i, v). case matchesScalarType ty v of
            None \<Rightarrow> sfail EC_invalid (joinSchemaPath p (decimal i)) (''enum value must match schema type '' @ typeText ty)
          | Some x \<Rightarrow> Inr x) (zip [0..<length xs] xs) = Inr ys"
    using assms by (auto simp: parseScalarEnum_def eff_bind_Inr Let_def not_less split: if_splits)
  have "list_all2 (\<lambda>_ x. default_fits ty x) (zip [0..<length xs] xs) ys"
    using ys [unfolded map_result_eq_Inr] by (rule list_all2_mono) (auto dest: scalar_fits split: option.splits)
  then have "length ys = length xs" "list_all (default_fits ty) ys" using list_all2_indexed by blast+
  then show ?thesis using counted(3) [OF xs(3)] xs(1,2) e by (auto simp: enum_size_def enum_ok_def)
qed

lemma required_parsed:
  assumes "parseRequired L h input ps path = Inr r"
  shows "required_ok L ps r"
proof (cases "input = U_undefined")
  case True
  then show ?thesis using assms by (auto simp: parseRequired_def required_ok_def)
next
  case False
  then obtain vs p names where vs: "length vs \<le> L maxRequiredNames" "distinct names" "\<not> list_ex (property_missing ps) names"
      "r = Some (sort names)"
    and names: "map_result (\<lambda>(i, v). case v of
              U_str s \<Rightarrow> if length s > L maxPropertyNameLength
                then sfail EC_limit_exceeded (joinSchemaPath p (decimal i))
                  (''required name exceeds '' @ decimal (L maxPropertyNameLength) @ '' characters'')
                else Inr s
            | _ \<Rightarrow> sfail EC_invalid (joinSchemaPath p (decimal i)) ''required names must be strings'')
            (zip [0..<length vs] vs) = Inr names"
    using assms by (auto simp: parseRequired_def res_bind_eq_Inr Let_def not_less split: if_splits)
  have "list_all2 (\<lambda>_ n. length n \<le> L maxPropertyNameLength) (zip [0..<length vs] vs) names"
    using names [unfolded map_result_eq_Inr] by (rule list_all2_mono) (auto split: uval.splits if_splits)
  then have "length names = length vs" "list_all (\<lambda>n. length n \<le> L maxPropertyNameLength) names"
    using list_all2_indexed by blast+
  then show ?thesis using vs
    by (auto simp: required_ok_def list_all_iff list_ex_iff property_missing_def map_of_eq_None_iff split: option.splits)
qed

section \<open>Schemas\<close>

lemmas parsed_fields = bounded_integer range_checked annotations_parsed default_in_enum required_parsed

text \<open>What a schema of any kind takes from the limits.\<close>

definition takes :: "limits \<Rightarrow> nat \<Rightarrow> pstate \<Rightarrow> schema \<Rightarrow> pstate \<Rightarrow> bool" where
  "takes L r s x t \<longleftrightarrow> counts L s t (nodes x - 1) (props x) (enums x) (defaults x) \<and> 1 \<le> nodes x \<and> schema_ok L (Suc r) x"

lemma scalar_takes:
  assumes "parseScalarEnum L h i ty p s = (Inr e, t)" "parseSchemaDefault L h m q ty' t = (Inr v, u)"
  shows "counts L s u 0 0 (enum_size e) (default_size v)" "enum_ok L ty e" "default_ok L ty' v"
  using counts_trans [of L s t 0 0 "enum_size e" 0 u 0 0 0 "default_size v"] enum_parsed [OF assms(1)] default_parsed [OF assms(2)]
  by simp_all

lemma string_takes:
  assumes "parseStringSchema L h m path an s = (Inr x, t)" "ann_ok L an"
  shows "takes L r s x t"
proof -
  from assms(1) obtain e l u v w where *: "parseScalarEnum L h (field m ''enum'') T_string path s = (Inr e, w)"
      "parseSchemaDefault L h m path T_string w = (Inr v, t)"
    and x: "x = S_string an e l u v"
    and "readOptionalBoundedInteger m ''minLength'' path (L maxStringLengthBound) = Inr l"
      "readOptionalBoundedInteger m ''maxLength'' path (L maxStringLengthBound) = Inr u"
      "assertRange l u path ''minLength'' ''maxLength'' = Inr ()" "assertSchemaDefaultInEnum v e path = Inr ()"
    by (auto simp: parseStringSchema_def eff_bind_Inr)
  then have "bound_ok (L maxStringLengthBound) l" "bound_ok (L maxStringLengthBound) u" "range_ok l u" "in_enum v e"
    by (blast dest: parsed_fields)+
  then show ?thesis using scalar_takes [OF *] assms(2) by (simp add: takes_def x)
qed

lemma number_takes:
  assumes "parseNumberSchema L h m path an i s = (Inr x, t)" "ann_ok L an"
  shows "takes L r s x t"
proof -
  let ?T = "if i then T_integer else T_number"
  from assms(1) obtain e l u a b v w where *: "parseScalarEnum L h (field m ''enum'') ?T path s = (Inr e, w)"
      "parseSchemaDefault L h m path ?T w = (Inr v, t)"
    and x: "x = S_number i an e l u a b v"
    and "assertRange l u path ''minimum'' ''maximum'' = Inr ()"
      "assertRange a b path ''exclusiveMinimum'' ''exclusiveMaximum'' = Inr ()" "assertSchemaDefaultInEnum v e path = Inr ()"
    unfolding parseNumberSchema_def by (simp add: eff_bind_Inr) blast
  then have "range_ok l u" "range_ok a b" "in_enum v e" by (blast dest: parsed_fields)+
  then show ?thesis using scalar_takes [OF *] assms(2) by (simp add: takes_def x)
qed

lemma boolean_takes:
  assumes "parseBooleanSchema L h m path an s = (Inr x, t)" "ann_ok L an"
  shows "takes L r s x t"
proof -
  from assms(1) obtain e v w where *: "parseScalarEnum L h (field m ''enum'') T_boolean path s = (Inr e, w)"
      "parseSchemaDefault L h m path T_boolean w = (Inr v, t)"
    and x: "x = S_boolean an e v" and "assertSchemaDefaultInEnum v e path = Inr ()"
    by (auto simp: parseBooleanSchema_def eff_bind_Inr)
  then have "in_enum v e" by (blast dest: parsed_fields)
  then show ?thesis using scalar_takes [OF *] assms(2) by (simp add: takes_def x)
qed

definition properties_ok :: "limits \<Rightarrow> nat \<Rightarrow> (string \<times> schema) list option \<Rightarrow> bool" where
  "properties_ok L r ps = (case ps of None \<Rightarrow> True | Some m \<Rightarrow> sorted (map fst m) \<and>
     list_all (\<lambda>kx. length (fst kx) \<le> L maxPropertyNameLength \<and> schema_ok L r (snd kx)) m)"

definition properties_sum :: "(schema \<Rightarrow> nat) \<Rightarrow> (string \<times> schema) list option \<Rightarrow> nat" where
  "properties_sum f ps = (case ps of None \<Rightarrow> 0 | Some m \<Rightarrow> sum_list (map (\<lambda>kx. f (snd kx)) m))"

text \<open>The contract of the parser of the nested nodes.\<close>

locale nested_parser =
  fixes L :: limits and r :: nat and parse :: parse_node
  assumes parsed: "parse i p b s = (Inr x, t) \<Longrightarrow>
    counts L s t (nodes x) (props x) (enums x) (defaults x) \<and> schema_ok L r x"
begin

lemma array_takes:
  assumes "parseArraySchema L h parse m path an s = (Inr x, t)" "ann_ok L an"
  shows "takes L r s x t"
proof -
  from assms(1) obtain y l u q v w where *: "parse (field m ''items'') (joinSchemaPath path ''items'') False s = (Inr y, w)"
      "parseSchemaDefault L h m path T_array w = (Inr v, t)"
    and x: "x = S_array an y l u q v"
    and "readOptionalBoundedInteger m ''minItems'' path (L maxCollectionBound) = Inr l"
      "readOptionalBoundedInteger m ''maxItems'' path (L maxCollectionBound) = Inr u"
      "assertRange l u path ''minItems'' ''maxItems'' = Inr ()"
    by (auto simp: parseArraySchema_def eff_bind_Inr split: if_splits)
  then have "bound_ok (L maxCollectionBound) l" "bound_ok (L maxCollectionBound) u" "range_ok l u"
    by (blast dest: parsed_fields)+
  moreover have y: "counts L s w (nodes y) (props y) (enums y) (defaults y)" "schema_ok L r y"
    using parsed [OF *(1)] by blast+
  moreover note d = default_parsed [OF *(2)]
  moreover have "counts L s t (nodes y) (props y) (enums y) (defaults y + default_size v)"
    using counts_trans [OF y(1) conjunct1 [OF d]] by simp
  moreover have "1 \<le> nodes y" by (cases y) auto
  ultimately show ?thesis using assms(2) by (simp add: takes_def x)
qed

lemma properties_parsed:
  assumes "parseProperties L h parse input path s = (Inr ps, t)"
  shows "counts L s t (properties_sum nodes ps) ((case ps of None \<Rightarrow> 0 | Some m \<Rightarrow> length m) + properties_sum props ps)
      (properties_sum enums ps) (properties_sum defaults ps) \<and> properties_ok L r ps"
proof (cases "input = U_undefined")
  case True
  then show ?thesis using assms(1) by (auto simp: parseProperties_def properties_sum_def properties_ok_def)
next
  case False
  let ?body = "\<lambda>m p k. if length k > L maxPropertyNameLength
            then pfail EC_limit_exceeded (joinSchemaPath p k)
              (''property name exceeds '' @ decimal (L maxPropertyNameLength) @ '' characters'')
            else eff_bind (parse (field m k) (joinSchemaPath p k) False) (\<lambda>x. eff_return (k, x))"
  from False assms(1) obtain m p u kvs where u: "count_props L (length (sort (map fst m))) p s = (Inr (), u)"
    and kvs: "ps = Some kvs" "eff_map (?body m p) (sort (map fst m)) u = (Inr kvs, t)"
    by (simp add: parseProperties_def eff_bind_Inr Let_def) blast
  let ?ok = "\<lambda>y. length (fst y) \<le> L maxPropertyNameLength \<and> schema_ok L r (snd y)"
  let ?sum = "\<lambda>f. sum_list (map (\<lambda>kx. f (snd kx)) kvs)"
  have "counts L u t (?sum nodes) (?sum props) (?sum enums) (?sum defaults) \<and>
      list_all2 (\<lambda>k y. fst y = k \<and> ?ok y) (sort (map fst m)) kvs"
    using kvs(2) by (rule eff_map_counts [rotated])
      (auto simp: eff_bind_Inr not_less dest: parsed split: if_splits)
  then have c: "counts L u t (?sum nodes) (?sum props) (?sum enums) (?sum defaults)" and names: "map fst kvs = sort (map fst m)"
    and ok: "list_all ?ok kvs"
    using list_all2_fst [of ?ok "sort (map fst m)" kvs] by simp_all
  have "length kvs = length (sort (map fst m))" using arg_cong [OF names, of length] by simp
  then show ?thesis using counts_trans [OF counted(2) [OF u] c] names ok
    by (simp add: kvs(1) properties_sum_def properties_ok_def)
qed

lemma object_takes:
  assumes "parseObjectSchema L h parse m path b an s = (Inr x, t)" "ann_ok L an"
  shows "takes L r s x t"
proof -
  from assms(1) obtain ps req a l u v w where *: "parseProperties L h parse (field m ''properties'') path s = (Inr ps, w)"
      "parseSchemaDefault L h m path T_object w = (Inr v, t)"
    and x: "x = S_object (b \<and> field m ''$schema'' \<noteq> U_undefined) an ps req a l u v"
    and "parseRequired L h (field m ''required'') ps path = Inr req"
      "readOptionalBoundedInteger m ''minProperties'' path (L maxCollectionBound) = Inr l"
      "readOptionalBoundedInteger m ''maxProperties'' path (L maxCollectionBound) = Inr u"
      "assertRange l u path ''minProperties'' ''maxProperties'' = Inr ()"
    by (auto simp: parseObjectSchema_def eff_bind_Inr split: if_splits)
  then have "required_ok L ps req" "bound_ok (L maxCollectionBound) l" "bound_ok (L maxCollectionBound) u" "range_ok l u"
    by (blast dest: parsed_fields)+
  moreover note p = properties_parsed [OF *(1)] and d = default_parsed [OF *(2)]
  moreover note counts_trans [OF conjunct1 [OF p] conjunct1 [OF d]]
  ultimately show ?thesis using assms(2)
    by (cases ps) (simp_all add: takes_def x properties_ok_def properties_sum_def)
qed

lemma typed_takes:
  assumes "parse_typed L h parse m path b s = (Inr x, t)"
  shows "takes L r s x t"
proof (cases "read_type (field m ''type'')")
  case None
  then show ?thesis using assms(1) by (simp add: parse_typed_def)
next
  case (Some ty)
  with assms(1) obtain an where an: "parseAnnotations L m path = Inr an" and run: "(case ty of
              T_object \<Rightarrow> parseObjectSchema L h parse m path b an
            | T_string \<Rightarrow> parseStringSchema L h m path an
            | T_number \<Rightarrow> parseNumberSchema L h m path an False
            | T_integer \<Rightarrow> parseNumberSchema L h m path an True
            | T_boolean \<Rightarrow> parseBooleanSchema L h m path an
            | T_array \<Rightarrow> parseArraySchema L h parse m path an) s = (Inr x, t)"
    by (auto simp: parse_typed_def eff_bind_Inr [of "eff_result r" for r] split: if_splits)
  note ok = annotations_parsed [OF an]
  show ?thesis
    using run ok object_takes string_takes number_takes boolean_takes array_takes by (cases ty) simp_all
qed

end

lemma with_ancestor_counts:
  assumes "with_ancestor i path body s = (Inr x, t)"
    and "\<And>s t. body s = (Inr x, t) \<Longrightarrow> takes L r s x t"
  shows "takes L r s x t"
proof (cases i)
  case (U_obj a)
  with assms(1) obtain u where u: "body (s\<lparr>ps_ancestors := a # ps_ancestors s\<rparr>) = (Inr x, u)"
      "t = u\<lparr>ps_ancestors := removeAll a (ps_ancestors u)\<rparr>"
    by (auto simp: with_ancestor_def eff_finally_def split: if_splits prod.splits)
  then show ?thesis using assms(2) [OF u(1)] by (simp add: takes_def counts_def in_limits_def) linarith
qed (use assms in \<open>simp_all add: with_ancestor_def\<close>)

lemma node_parsed: "nested_parser L r (parseSchemaNode L h r)"
proof (induction r)
  case 0
  then show ?case by unfold_locales (auto simp: eff_bind_Inr)
next
  case (Suc r)
  show ?case
  proof
    fix i p b s x t
    assume "parseSchemaNode L h (Suc r) i p b s = (Inr x, t)"
    then obtain u m where u: "count_node L p s = (Inr (), u)"
      and body: "with_ancestor i p (parse_typed L h (parseSchemaNode L h r) m p b) u = (Inr x, t)"
      by (auto simp: eff_bind_Inr)
    have "takes L r u x t" using body by (rule with_ancestor_counts) (rule nested_parser.typed_takes [OF Suc])
    then show "counts L s t (nodes x) (props x) (enums x) (defaults x) \<and> schema_ok L (Suc r) x"
      using counts_trans [OF counted(1) [OF u], of t "nodes x - 1" "props x" "enums x" "defaults x"] by (simp add: takes_def)
  qed
qed

interpretation node: nested_parser L r "parseSchemaNode L h r" for L h r
  by (rule node_parsed)

section \<open>The parser\<close>

lemma limit_lowered:
  assumes "resolveSchemaLimits overrides = Inr L"
  shows "L k \<le> DEFAULT_APP_COMMAND_INPUT_SCHEMA_LIMITS k"
proof (cases overrides)
  case None
  then show ?thesis using assms by (simp add: resolveSchemaLimits_def)
next
  case (Some os)
  define body where "body = (\<lambda>resolved (key, v).
          let bound = DEFAULT_APP_COMMAND_INPUT_SCHEMA_LIMITS key;
              bad = sfail EC_invalid ''/'' (''schema limit '' @ limitText key @ '' must be a positive integer no greater than '' @ decimal bound)
          in case v of
               U_num n \<Rightarrow> if \<not> is_integer n \<or> num_value n \<le> 0 \<or> num_value n > of_nat bound then bad
                 else Inr (resolved(key := nat \<lfloor>num_value n\<rfloor>))
             | _ \<Rightarrow> bad)"
  have step: "\<forall>k. M' k \<le> DEFAULT_APP_COMMAND_INPUT_SCHEMA_LIMITS k"
    if "body M o1 = Inr M'" "\<forall>k. M k \<le> DEFAULT_APP_COMMAND_INPUT_SCHEMA_LIMITS k" for M M' o1
    using that by (cases o1) (auto simp: body_def Let_def not_less nat_le_iff floor_le_iff split: uval.splits if_splits)
  have "for_each body M os = Inr L \<Longrightarrow> \<forall>k. M k \<le> DEFAULT_APP_COMMAND_INPUT_SCHEMA_LIMITS k \<Longrightarrow>
      \<forall>k. L k \<le> DEFAULT_APP_COMMAND_INPUT_SCHEMA_LIMITS k" for M
    by (induction os arbitrary: M) (auto simp: res_bind_eq_Inr dest: step)
  then show ?thesis using assms Some by (simp add: resolveSchemaLimits_def body_def)
qed

text \<open>
  C6. Whatever graph of objects the parser of command input schemas is given, a schema that
  it returns is an object schema and well formed to the depth that the limits allow: the
  annotations, names, bounds, enums, ranges and defaults all fit their types and limits, every
  default of an enumerated scalar is one of its values, and the required names are sorted, distinct
  and declared or inherited from \<open>Object.prototype\<close>. Its nodes, properties, enum values and values of
  defaults, each counted over the whole schema, and its serialized bytes are within the limits,
  which a caller can only lower.
\<close>

theorem accepted_schema_ok:
  assumes "parseAppCommandInputSchema f h input overrides = Inr x"
  shows "\<exists>L. resolveSchemaLimits overrides = Inr L \<and> (\<forall>k. L k \<le> DEFAULT_APP_COMMAND_INPUT_SCHEMA_LIMITS k) \<and>
    is_object_schema x \<and> schema_ok L (L maxSchemaDepth) x \<and> nodes x \<le> L maxSchemaNodes \<and> props x \<le> L maxProperties \<and>
    enums x \<le> L maxEnumValuesTotal \<and> defaults x \<le> L maxValueNodes \<and> schema_bytes f x \<le> L maxSerializedBytes"
proof -
  from assms obtain L where L: "resolveSchemaLimits overrides = Inr L"
    and node: "fst (parseSchemaNode L h (L maxSchemaDepth) input ''/'' True start_state) = Inr x"
    and x: "is_object_schema x" "schema_bytes f x \<le> L maxSerializedBytes"
    by (auto simp: parseAppCommandInputSchema_def res_bind_eq_Inr not_less split: if_splits)
  from node obtain t where "parseSchemaNode L h (L maxSchemaDepth) input ''/'' True start_state = (Inr x, t)"
    by (metis prod.collapse)
  then have "counts L start_state t (nodes x) (props x) (enums x) (defaults x)" "schema_ok L (L maxSchemaDepth) x"
    using node.parsed by blast+
  then show ?thesis using L x limit_lowered [OF L] by (auto simp: counts_def in_limits_def start_state_def)
qed

text \<open>A required name that no property declares: a schema with \<open>properties: {}\<close> and \<open>required: ["toString"]\<close>.\<close>

definition demo_heap :: heap where
  "demo_heap = (\<lambda>_. O_record True [])(
     0 := O_record True [(K_str ''type'', P_data (U_str ''object'')), (K_str ''properties'', P_data (U_obj 1)),
       (K_str ''required'', P_data (U_obj 2))],
     2 := O_array True [Some (P_data (U_str ''toString''))] [])"

definition demo_schema :: schema where
  "demo_schema = S_object False \<lparr>an_title = None, an_description = None\<rparr> (Some []) (Some [''toString'']) None None None None"

definition demo_fields :: fields where
  "demo_fields = [(''type'', U_str ''object''), (''properties'', U_obj 1), (''required'', U_obj 2)]"

lemma demo_field: "field demo_fields k = (if k = ''type'' then U_str ''object'' else if k = ''properties'' then U_obj 1
    else if k = ''required'' then U_obj 2 else U_undefined)"
  by (simp add: field_def demo_fields_def)

lemma demo_read: "readPlainDataRecord demo_heap (U_obj 0) path = Inr demo_fields"
  "readPlainDataRecord demo_heap (U_obj (Suc 0)) path = Inr []"
  "readPlainDataArray demo_heap (U_obj 2) path = Inr [U_str ''toString'']"
  by (simp_all add: readPlainDataRecord_def readPlainDataArray_def demo_heap_def demo_fields_def res_bind_def)

lemma demo_checks: "rejectUndefinedValues demo_fields path = Inr ()"
  "rejectUnknownKeys demo_fields (filter (\<lambda>k. k \<noteq> ''enum'') COMMON_KEYS @
       [''$schema'', ''properties'', ''required'', ''additionalProperties'', ''minProperties'', ''maxProperties'']) path = Inr ()"
  "parseAnnotations L demo_fields path = Inr \<lparr>an_title = None, an_description = None\<rparr>"
  "parseSchemaDefault L h demo_fields path ty s = (Inr None, s)"
  "read_type (U_str ''object'') = Some T_object"
  by (simp_all add: rejectUndefinedValues_def rejectUnknownKeys_def parseAnnotations_def parseSchemaDefault_def readOptionalString_def
    demo_field COMMON_KEYS_def res_bind_def eff_return_def read_type_def APP_COMMAND_INPUT_SCHEMA_TYPES_def)
    (simp_all add: demo_fields_def res_bind_def)

lemma demo_properties: "parseProperties L demo_heap p (U_obj (Suc 0)) path s = (Inr (Some []), s)"
  if "ps_props s \<le> L maxProperties"
  using that by (simp add: parseProperties_def demo_read eff_bind_def eff_result_def count_props_def eff_return_def Let_def)

lemma demo_required: "parseRequired L demo_heap (U_obj 2) (Some []) path = Inr (Some [''toString''])"
  if "1 \<le> L maxRequiredNames" "8 \<le> L maxPropertyNameLength"
  using that by (simp add: parseRequired_def demo_read res_bind_def property_missing_def inherited_names_def)

lemma demo_optional: "readOptionalBoolean demo_fields ''additionalProperties'' path = Inr None"
  "readOptionalBoundedInteger demo_fields ''minProperties'' path n = Inr None"
  "readOptionalBoundedInteger demo_fields ''maxProperties'' path n = Inr None"
  "assertRange None None path a b = Inr ()"
  by (simp_all add: readOptionalBoolean_def readOptionalBoundedInteger_def demo_field assertRange_def)

lemma demo_typed: "parse_typed DEFAULT_APP_COMMAND_INPUT_SCHEMA_LIMITS demo_heap p demo_fields path True s = (Inr demo_schema, s)"
  if "ps_props s = 0"
  using that
  by (simp only: parse_typed_def demo_field demo_checks option.case simp_thms if_True if_False schema_type.distinct
      parseObjectSchema_def eff_bind_def eff_result_def prod.case sum.case schema_type.case)
    (simp add: demo_properties demo_required demo_optional demo_checks eff_return_def demo_schema_def)

lemma demo_bytes: "schema_bytes (\<lambda>_. ''0'') demo_schema \<le> 65536"
  by (simp add: schema_bytes_def demo_schema_def annotation_fields_def opt_field_def json_string_def json_char_def)

lemma demo_node: "fst (parseSchemaNode DEFAULT_APP_COMMAND_INPUT_SCHEMA_LIMITS demo_heap (Suc r) (U_obj 0) ''/'' True start_state) =
    Inr demo_schema"
  by (simp add: eff_bind_def eff_result_def count_node_def start_state_def demo_read demo_checks with_ancestor_def eff_finally_def
    demo_typed)

lemma inherited_name_accepted: "parseAppCommandInputSchema (\<lambda>_. ''0'') demo_heap (U_obj 0) None = Inr demo_schema"
proof -
  have node: "fst (parseSchemaNode DEFAULT_APP_COMMAND_INPUT_SCHEMA_LIMITS demo_heap 8 (U_obj 0) ''/'' True start_state) =
      Inr demo_schema" proof -
    have "(8::nat) = Suc 7" by simp
    then show ?thesis using demo_node [of 7] by metis
  qed
  have root: "is_object_schema demo_schema" by (simp add: demo_schema_def)
  show ?thesis using demo_bytes
    by (simp add: parseAppCommandInputSchema_def resolveSchemaLimits_def res_bind_def node root)
qed

theorem accepted_schema_ok_witness:
  "\<exists>L. resolveSchemaLimits None = Inr L \<and> (\<forall>k. L k \<le> DEFAULT_APP_COMMAND_INPUT_SCHEMA_LIMITS k) \<and>
    is_object_schema demo_schema \<and> schema_ok L (L maxSchemaDepth) demo_schema \<and> nodes demo_schema \<le> L maxSchemaNodes \<and>
    props demo_schema \<le> L maxProperties \<and> enums demo_schema \<le> L maxEnumValuesTotal \<and> defaults demo_schema \<le> L maxValueNodes \<and>
    schema_bytes (\<lambda>_. ''0'') demo_schema \<le> L maxSerializedBytes"
  by (rule accepted_schema_ok [OF inherited_name_accepted])

end
