(* ===== verification/Command_Schema_Termination.thy ===== *)
theory Command_Schema_Termination
  imports Command_Schema_Safety
begin

text \<open>
  The schema parser stops: on any graph of objects, cyclic or not, and on every path, errors included, the
  work it does is bounded by its limits.
\<close>

section \<open>Termination\<close>

text \<open>
  A computation that looks at no more than the limits allow, also when it fails: the node or
  value that is one too many ends it.
\<close>

named_theorems frugal_intros \<open>computations that stop at the limits\<close>

definition nearly_in_limits :: "limits \<Rightarrow> pstate \<Rightarrow> bool" where
  "nearly_in_limits L s \<longleftrightarrow> ps_nodes s \<le> L maxSchemaNodes + 1 \<and> ps_values s \<le> L maxValueNodes + 1"

definition frugal :: "limits \<Rightarrow> 'a parser \<Rightarrow> bool" where
  "frugal L m \<longleftrightarrow> (\<forall>s r t. in_limits L s \<longrightarrow> m s = (r, t) \<longrightarrow>
     (case r of Inl e \<Rightarrow> nearly_in_limits L t | Inr x \<Rightarrow> in_limits L t))"

lemma in_limits_nearly: "in_limits L s \<Longrightarrow> nearly_in_limits L s"
  by (simp add: in_limits_def nearly_in_limits_def)

lemma frugal_result [frugal_intros]: "frugal L (eff_result r)" "frugal L (pfail c p m)" "frugal L (eff_return x)"
  by (auto simp: frugal_def eff_result_def pfail_def sfail_def eff_return_def in_limits_nearly split: sum.splits)

lemma frugal_count [frugal_intros]: "frugal L (count_node L p)" "frugal L (count_props L n p)" "frugal L (count_enums L n p)"
  "frugal L (count_value L p)"
  by (auto simp: frugal_def count_node_def count_props_def count_enums_def count_value_def pfail_def sfail_def eff_result_def
    in_limits_def nearly_in_limits_def Let_def split: if_splits)

lemma frugal_bind [frugal_intros]: "frugal L m \<Longrightarrow> (\<And>x. frugal L (k x)) \<Longrightarrow> frugal L (eff_bind m k)"
proof -
  assume m: "frugal L m" and k: "\<And>x. frugal L (k x)"
  show ?thesis unfolding frugal_def
  proof (intro allI impI)
    fix s r u
    assume s: "in_limits L s" and run: "eff_bind m k s = (r, u)"
    from run show "case r of Inl e \<Rightarrow> nearly_in_limits L u | Inr x \<Rightarrow> in_limits L u"
    proof (cases rule: eff_bind_cases)
      case (throw e)
      then show ?thesis using m s unfolding frugal_def by fastforce
    next
      case (go_on x t)
      then have "in_limits L t" using m s unfolding frugal_def by fastforce
      then show ?thesis using go_on(2) k [of x] unfolding frugal_def by blast
    qed
  qed
qed

lemma frugal_map [frugal_intros]: "(\<And>x. frugal L (body x)) \<Longrightarrow> frugal L (eff_map body xs)"
  by (induction xs) (simp_all add: frugal_intros)

lemma frugal_if [frugal_intros]: "(b \<Longrightarrow> frugal L m) \<Longrightarrow> (\<not> b \<Longrightarrow> frugal L n) \<Longrightarrow> frugal L (if b then m else n)"
  by simp

lemma frugal_let [frugal_intros]: "frugal L (k v) \<Longrightarrow> frugal L (let x = v in k x)"
  by (simp add: Let_def)

lemma frugal_pair [frugal_intros]: "(\<And>a b. frugal L (k a b)) \<Longrightarrow> frugal L (case p of (a, b) \<Rightarrow> k a b)"
  by (cases p) simp

lemma clone_frugal: "frugal L (cloneCommandInputJsonValue L h r as input path)"
proof (induction r arbitrary: as input path)
  case (Suc r)
  then show ?case
    by (auto simp: clone_array_def clone_record_def intro!: frugal_intros split: uval.splits uobject.splits)
qed (auto intro!: frugal_intros)

lemma default_frugal [frugal_intros]: "frugal L (parseSchemaDefault L h m path ty)"
  unfolding parseSchemaDefault_def by (intro frugal_intros clone_frugal)

lemma scalar_frugal [frugal_intros]: "frugal L (parseScalarEnum L h input ty path)" "frugal L (parseStringSchema L h m path an)"
  "frugal L (parseNumberSchema L h m path an i)" "frugal L (parseBooleanSchema L h m path an)"
proof -
  show enum: "frugal L (parseScalarEnum L h input ty path)" for L h input ty path
    unfolding parseScalarEnum_def by (intro frugal_intros)
  show "frugal L (parseStringSchema L h m path an)" "frugal L (parseNumberSchema L h m path an i)"
    "frugal L (parseBooleanSchema L h m path an)"
    unfolding parseStringSchema_def parseNumberSchema_def parseBooleanSchema_def by (intro frugal_intros enum)+
qed

lemma typed_frugal:
  assumes "\<And>i p b. frugal L (parse i p b)"
  shows "frugal L (parse_typed L h parse m path b)"
proof -
  have "frugal L (parseObjectSchema L h parse m path b an)" for b an
    unfolding parseObjectSchema_def parseProperties_def by (intro frugal_intros assms)
  moreover have "frugal L (parseArraySchema L h parse m path an)" for an
    unfolding parseArraySchema_def by (intro frugal_intros assms)
  ultimately show ?thesis unfolding parse_typed_def by (auto intro!: frugal_intros split: option.splits schema_type.splits)
qed

lemma with_ancestor_frugal: "frugal L body \<Longrightarrow> frugal L (with_ancestor i path body)"
proof (cases i)
  case (U_obj a)
  assume body: "frugal L body"
  have limits: "in_limits L (s\<lparr>ps_ancestors := x\<rparr>) = in_limits L s" "nearly_in_limits L (s\<lparr>ps_ancestors := x\<rparr>) = nearly_in_limits L s" for s x
    by (simp_all add: in_limits_def nearly_in_limits_def)
  show ?thesis unfolding frugal_def
  proof (intro allI impI)
    fix s r t
    assume s: "in_limits L s" and run: "with_ancestor i path body s = (r, t)"
    show "case r of Inl e \<Rightarrow> nearly_in_limits L t | Inr x \<Rightarrow> in_limits L t"
    proof (cases "a \<in> set (ps_ancestors s)")
      case True
      then show ?thesis using run s U_obj by (auto simp: with_ancestor_def pfail_def sfail_def eff_result_def in_limits_nearly)
    next
      case False
      obtain q u where q: "body (s\<lparr>ps_ancestors := a # ps_ancestors s\<rparr>) = (q, u)" by fastforce
      then have "case q of Inl e \<Rightarrow> nearly_in_limits L u | Inr x \<Rightarrow> in_limits L u"
        using body s limits unfolding frugal_def by blast
      then show ?thesis using run False U_obj q limits by (auto simp: with_ancestor_def eff_finally_def split: sum.splits)
    qed
  qed
qed (simp_all add: with_ancestor_def)

lemma node_frugal: "frugal L (parseSchemaNode L h r input path isRoot)"
proof (induction r arbitrary: input path isRoot)
  case (Suc r)
  then show ?case by (auto intro!: frugal_intros with_ancestor_frugal typed_frugal)
qed (auto intro!: frugal_intros)

text \<open>
  C37. The parser of command input schemas always returns: whatever graph of objects it is given,
  also a cyclic one or one that shares its parts and so unfolds to an exponentially larger tree,
  it has looked at no more than one schema node and one value of a default beyond the limits when
  it returns or throws.
\<close>

theorem schema_parser_bounded:
  "\<exists>r t. parseSchemaNode L h (L maxSchemaDepth) input ''/'' True start_state = (r, t) \<and>
    (case r of
       Inl e \<Rightarrow> ps_nodes t \<le> L maxSchemaNodes + 1 \<and> ps_values t \<le> L maxValueNodes + 1
     | Inr x \<Rightarrow> ps_nodes t \<le> L maxSchemaNodes \<and> ps_values t \<le> L maxValueNodes)"
proof -
  obtain r t where run: "parseSchemaNode L h (L maxSchemaDepth) input ''/'' True start_state = (r, t)" by fastforce
  have "in_limits L start_state" by (simp add: in_limits_def start_state_def)
  then have "case r of Inl e \<Rightarrow> nearly_in_limits L t | Inr x \<Rightarrow> in_limits L t"
    using node_frugal run unfolding frugal_def by blast
  then show ?thesis using run by (auto simp: in_limits_def nearly_in_limits_def split: sum.splits)
qed

end
