(* ===== verification/Extension_Resolver.thy ===== *)
theory Extension_Resolver
  imports Command_Schema
begin

text \<open>
  The resolution of extension contributions: packages/extension/src/resolver-snapshot.ts with
  resolver-validation.ts, resolver-order.ts, resolver-conflicts.ts, resolver-merge.ts,
  resolver-domain.ts, resolver-constants.ts and the types-*.ts they use. Contributions of many
  sources are sorted, validated and put into one bucket for each domain and id, where the conflict
  policy of a later contribution decides what becomes of the earlier ones.

  The value of a contribution is a record of fields of type \<open>unknown\<close>, or something else that is
  neither null nor undefined. The objects of the list are different objects; \<open>contribution !== winner\<close>
  compares their positions. \<open>localeCompare\<close> is an argument. Priorities and orders are integers.
\<close>

section \<open>Data\<close>

datatype AppExtensionSourceKind =
    SK_builtin | SK_policy | SK_global_file | SK_project_file | SK_config | SK_plugin | SK_marketplace | SK_connector
  | SK_runtime_override

datatype AppExtensionSourceScope = SS_builtin | SS_enterprise | SS_global | SS_project | SS_workspace | SS_user | SS_runtime

datatype AppExtensionTrustLevel = TL_trusted | TL_user_enabled | TL_untrusted | TL_blocked

datatype AppExtensionConflictPolicy = CP_replace | CP_append | CP_merge | CP_error

datatype AppExtensionDiagnosticSeverity = DS_info | DS_warning | DS_error

datatype AppExtensionDiagnosticCode =
    DC_invalid_id | DC_invalid_domain | DC_blocked_source | DC_privileged_untrusted | DC_command_palette_visibility_invalid
  | DC_command_input_schema_invalid | DC_command_input_schema_unsupported | DC_command_input_schema_limit_exceeded
  | DC_duplicate_replaced | DC_duplicate_error | DC_appended | DC_merged

record AppExtensionSource =
  so_kind :: AppExtensionSourceKind
  so_scope :: AppExtensionSourceScope
  so_id :: string
  so_label :: "string option"
  so_path :: "string option"
  so_packageName :: "string option"
  so_version :: "string option"

record AppExtensionProvenance =
  pr_source :: AppExtensionSource
  pr_trust :: AppExtensionTrustLevel
  pr_originId :: "string option"
  pr_originLabel :: "string option"
  pr_loadedAt :: "int option"

record AppExtensionDiagnostic =
  di_code :: AppExtensionDiagnosticCode
  di_severity :: AppExtensionDiagnosticSeverity
  di_message :: string
  di_contributionId :: "string option"
  di_domain :: "string option"
  di_sourceId :: "string option"
  di_replacedBy :: "string option"
  di_metadata :: "(string \<times> uval) list option"

text \<open>The value of a contribution as it comes, with fields of type \<open>unknown\<close>, or with a parsed schema.\<close>

datatype 'v cvalue = C_record "(string \<times> 'v) list" | C_other uval

datatype vfield = F_raw uval | F_schema schema

record 'v AppExtensionContribution =
  co_id :: string
  co_domain :: string
  co_value :: "'v cvalue"
  co_provenance :: AppExtensionProvenance
  co_priority :: "int option"
  co_order :: "int option"
  co_conflictPolicy :: "AppExtensionConflictPolicy option"
  co_privileged :: "bool option"
  co_metadata :: "(string \<times> uval) list option"
  co_diagnostics :: "AppExtensionDiagnostic list option"

record AppExtensionResolutionOptions =
  ro_sourceOrder :: "AppExtensionSourceKind list option"
  ro_allowUntrustedPrivileged :: "bool option"

type_synonym contribution = "uval AppExtensionContribution"

type_synonym resolved = "vfield AppExtensionContribution"

definition APP_EXTENSION_DOMAINS :: "string list" where
  "APP_EXTENSION_DOMAINS = [''instruction'', ''skill'', ''command'', ''agent'', ''tool'', ''provider_catalog'', ''lifecycle_hook'']"

definition DEFAULT_APP_EXTENSION_SOURCE_ORDER :: "AppExtensionSourceKind list" where
  "DEFAULT_APP_EXTENSION_SOURCE_ORDER =
     [SK_builtin, SK_policy, SK_global_file, SK_project_file, SK_config, SK_plugin, SK_marketplace, SK_connector, SK_runtime_override]"

section \<open>Order\<close>

definition buildSourceRank :: "AppExtensionSourceKind list \<Rightarrow> AppExtensionSourceKind \<Rightarrow> nat option" where
  "buildSourceRank sourceOrder = map_of (rev (zip sourceOrder [0..<length sourceOrder]))"

definition MAX_SAFE_INTEGER :: int where
  "MAX_SAFE_INTEGER = 9007199254740991"

definition rankSource :: "(AppExtensionSourceKind \<Rightarrow> nat option) \<Rightarrow> 'v AppExtensionContribution \<Rightarrow> int" where
  "rankSource sourceRank c =
     (case sourceRank (so_kind (pr_source (co_provenance c))) of None \<Rightarrow> MAX_SAFE_INTEGER | Some n \<Rightarrow> int n)"

text \<open>\<open>a || b\<close> on numbers.\<close>

definition or_else :: "int \<Rightarrow> int \<Rightarrow> int" where
  "or_else a b = (if a \<noteq> 0 then a else b)"

definition opt_int :: "int option \<Rightarrow> int" where
  "opt_int v = (case v of None \<Rightarrow> 0 | Some n \<Rightarrow> n)"

definition compareContributions ::
  "(string \<Rightarrow> string \<Rightarrow> int) \<Rightarrow> (AppExtensionSourceKind \<Rightarrow> nat option) \<Rightarrow> 'v AppExtensionContribution \<Rightarrow>
   'v AppExtensionContribution \<Rightarrow> int" where
  "compareContributions localeCompare sourceRank l r =
     or_else (rankSource sourceRank l - rankSource sourceRank r)
    (or_else (opt_int (co_priority l) - opt_int (co_priority r))
    (or_else (opt_int (co_order l) - opt_int (co_order r))
    (or_else (localeCompare (co_domain l) (co_domain r))
    (or_else (localeCompare (co_id l) (co_id r))
       (localeCompare (so_id (pr_source (co_provenance l))) (so_id (pr_source (co_provenance r))))))))"

definition stableSortContributions ::
  "(string \<Rightarrow> string \<Rightarrow> int) \<Rightarrow> (AppExtensionSourceKind \<Rightarrow> nat option) \<Rightarrow> 'v AppExtensionContribution list \<Rightarrow>
   'v AppExtensionContribution list" where
  "stableSortContributions localeCompare sourceRank cs =
     map snd (sort_by (\<lambda>l r. or_else (compareContributions localeCompare sourceRank (snd l) (snd r)) (int (fst l) - int (fst r)))
       (zip [0..<length cs] cs))"

definition contributionKey :: "'v AppExtensionContribution \<Rightarrow> string" where
  "contributionKey c = co_domain c @ '':'' @ co_id c"

section \<open>Validation\<close>

definition isAppExtensionContributionDomain :: "string \<Rightarrow> bool" where
  "isAppExtensionContributionDomain d = (d \<in> set APP_EXTENSION_DOMAINS)"

definition error_about :: "'v AppExtensionContribution \<Rightarrow> AppExtensionDiagnosticCode \<Rightarrow> string \<Rightarrow> AppExtensionDiagnostic" where
  "error_about c code message =
     \<lparr>di_code = code, di_severity = DS_error, di_message = message, di_contributionId = Some (co_id c), di_domain = Some (co_domain c),
      di_sourceId = Some (so_id (pr_source (co_provenance c))), di_replacedBy = None, di_metadata = None\<rparr>"

fun diagnosticCode :: "AppCommandInputSchemaErrorCode \<Rightarrow> AppExtensionDiagnosticCode" where
  "diagnosticCode EC_invalid = DC_command_input_schema_invalid"
| "diagnosticCode EC_unsupported = DC_command_input_schema_unsupported"
| "diagnosticCode EC_limit_exceeded = DC_command_input_schema_limit_exceeded"

fun errorCodeText :: "AppCommandInputSchemaErrorCode \<Rightarrow> string" where
  "errorCodeText EC_invalid = ''invalid''"
| "errorCodeText EC_unsupported = ''unsupported''"
| "errorCodeText EC_limit_exceeded = ''limit_exceeded''"

text \<open>\<open>value.field\<close>, which for a value that is no record has none of the fields asked for.\<close>

definition value_field :: "'v \<Rightarrow> 'v cvalue \<Rightarrow> string \<Rightarrow> 'v" where
  "value_field undef v k = (case v of C_record m \<Rightarrow> (case map_of m k of None \<Rightarrow> undef | Some x \<Rightarrow> x) | C_other u \<Rightarrow> undef)"

text \<open>\<open>{...fields, [k]: x}\<close>\<close>

definition set_field :: "string \<Rightarrow> 'v \<Rightarrow> (string \<times> 'v) list \<Rightarrow> (string \<times> 'v) list" where
  "set_field k x m = (if k \<in> fst ` set m then map (\<lambda>kv. if fst kv = k then (k, x) else kv) m else m @ [(k, x)])"

definition raw_value :: "uval cvalue \<Rightarrow> vfield cvalue" where
  "raw_value v = (case v of C_record m \<Rightarrow> C_record (map (\<lambda>kv. (fst kv, F_raw (snd kv))) m) | C_other u \<Rightarrow> C_other u)"

definition with_value :: "vfield cvalue \<Rightarrow> contribution \<Rightarrow> resolved" where
  "with_value v c =
     \<lparr>co_id = co_id c, co_domain = co_domain c, co_value = v, co_provenance = co_provenance c, co_priority = co_priority c,
      co_order = co_order c, co_conflictPolicy = co_conflictPolicy c, co_privileged = co_privileged c, co_metadata = co_metadata c,
      co_diagnostics = co_diagnostics c\<rparr>"

definition schema_error :: "contribution \<Rightarrow> AppCommandInputSchemaError \<Rightarrow> AppExtensionDiagnostic" where
  "schema_error c e =
     (error_about c (diagnosticCode (se_code e)) (se_message e))\<lparr>di_metadata :=
        Some [(''schemaPath'', U_str (se_path e)), (''schemaError'', U_str (errorCodeText (se_code e)))]\<rparr>"

definition trusted_level :: "AppExtensionTrustLevel \<Rightarrow> bool" where
  "trusted_level t = (t = TL_trusted \<or> t = TL_user_enabled)"

definition basic_errors :: "AppExtensionResolutionOptions \<Rightarrow> contribution \<Rightarrow> AppExtensionDiagnostic list" where
  "basic_errors options c =
     (if trim (co_id c) = [] then [error_about c DC_invalid_id ''contribution id must not be empty''] else []) @
     (if \<not> isAppExtensionContributionDomain (co_domain c)
      then [error_about c DC_invalid_domain (''unsupported contribution domain '' @ co_domain c)] else []) @
     (if pr_trust (co_provenance c) = TL_blocked
      then [error_about c DC_blocked_source (''blocked contribution source '' @ so_id (pr_source (co_provenance c)))] else []) @
     (if co_privileged c = Some True \<and> ro_allowUntrustedPrivileged options \<noteq> Some True \<and> \<not> trusted_level (pr_trust (co_provenance c))
      then [error_about c DC_privileged_untrusted
        (''privileged contribution '' @ co_id c @ '' requires trusted or user-enabled provenance'')] else []) @
     (if co_domain c = ''command'' \<and>
         value_field U_undefined (co_value c) ''paletteVisibility'' \<notin> {U_str ''visible'', U_str ''hidden''}
      then [error_about c DC_command_palette_visibility_invalid ''command paletteVisibility must be visible or hidden''] else [])"

definition validateContribution ::
  "(rat \<Rightarrow> string) \<Rightarrow> heap \<Rightarrow> AppExtensionResolutionOptions \<Rightarrow> contribution \<Rightarrow> resolved \<times> AppExtensionDiagnostic list" where
  "validateContribution f h options c =
     (let plain = with_value (raw_value (co_value c)) c; input = value_field U_undefined (co_value c) ''inputSchema'' in
      if co_domain c = ''command'' \<and> input \<noteq> U_undefined
      then (case parseAppCommandInputSchema f h input None of
              Inl e \<Rightarrow> (plain, basic_errors options c @ [schema_error c e])
            | Inr x \<Rightarrow> (with_value (case raw_value (co_value c) of C_record m \<Rightarrow> C_record (set_field ''inputSchema'' (F_schema x) m)
                        | v \<Rightarrow> v) c, basic_errors options c))
      else (plain, basic_errors options c))"

section \<open>Conflicts\<close>

text \<open>\<open>{...a, ...b}\<close>\<close>

definition spread :: "(string \<times> 'v) list \<Rightarrow> (string \<times> 'v) list \<Rightarrow> (string \<times> 'v) list" where
  "spread a b =
     map (\<lambda>kv. (fst kv, case map_of b (fst kv) of None \<Rightarrow> snd kv | Some y \<Rightarrow> y)) a @ filter (\<lambda>kv. fst kv \<notin> fst ` set a) b"

definition opt_list :: "'a list option \<Rightarrow> 'a list" where
  "opt_list v = (case v of None \<Rightarrow> [] | Some xs \<Rightarrow> xs)"

definition own_or :: "'a option \<Rightarrow> 'a option \<Rightarrow> 'a option" where
  "own_or nxt cur = (case nxt of None \<Rightarrow> cur | Some x \<Rightarrow> Some x)"

definition mergeContribution :: "'v AppExtensionContribution \<Rightarrow> 'v AppExtensionContribution \<Rightarrow> 'v AppExtensionContribution" where
  "mergeContribution cur nxt =
     \<lparr>co_id = co_id nxt, co_domain = co_domain nxt,
      co_value = (case (co_value cur, co_value nxt) of (C_record a, C_record b) \<Rightarrow> C_record (spread a b) | _ \<Rightarrow> co_value nxt),
      co_provenance = co_provenance nxt, co_priority = own_or (co_priority nxt) (co_priority cur),
      co_order = own_or (co_order nxt) (co_order cur), co_conflictPolicy = own_or (co_conflictPolicy nxt) (co_conflictPolicy cur),
      co_privileged = own_or (co_privileged nxt) (co_privileged cur),
      co_metadata = Some (spread (opt_list (co_metadata cur)) (opt_list (co_metadata nxt))),
      co_diagnostics = Some (opt_list (co_diagnostics cur) @ opt_list (co_diagnostics nxt))\<rparr>"

text \<open>The position of an object in the list tells it from the others; a merged one is new.\<close>

record ContributionBucket =
  bk_winner :: "(nat option \<times> resolved) option"
  bk_values :: "(nat \<times> resolved) list"

definition notice ::
  "AppExtensionDiagnosticCode \<Rightarrow> AppExtensionDiagnosticSeverity \<Rightarrow> string \<Rightarrow> resolved \<Rightarrow> AppExtensionDiagnostic" where
  "notice code severity message c = (error_about c code (message @ co_id c @ '' for '' @ co_domain c))\<lparr>di_severity := severity\<rparr>"

definition addContributionToBucket ::
  "ContributionBucket \<Rightarrow> nat \<Rightarrow> resolved \<Rightarrow> ContributionBucket \<times> AppExtensionDiagnostic list" where
  "addContributionToBucket bucket i c =
     (let b = bucket\<lparr>bk_values := bk_values bucket @ [(i, c)]\<rparr> in
      case bk_winner b of
        None \<Rightarrow> (b\<lparr>bk_winner := Some (Some i, c)\<rparr>, [])
      | Some (w, cur) \<Rightarrow>
          (let policy = (case co_conflictPolicy c of None \<Rightarrow> CP_replace | Some p \<Rightarrow> p) in
           if policy = CP_error \<or> co_conflictPolicy cur = Some CP_error
           then (b, [notice DC_duplicate_error DS_error ''duplicate contribution id '' c])
           else if policy = CP_append then (b, [notice DC_appended DS_info ''appended duplicate contribution id '' c])
           else if policy = CP_merge
           then (b\<lparr>bk_winner := Some (None, mergeContribution cur c)\<rparr>, [notice DC_merged DS_info ''merged duplicate contribution id '' c])
           else (b\<lparr>bk_winner := Some (Some i, c)\<rparr>,
             [(notice DC_duplicate_replaced DS_warning ''replaced duplicate contribution id '' cur)
                \<lparr>di_replacedBy := Some (so_id (pr_source (co_provenance c)))\<rparr>])))"

definition appends :: "resolved \<Rightarrow> bool" where
  "appends c = (co_conflictPolicy c = Some CP_append)"

definition bucket_contributions :: "ContributionBucket \<Rightarrow> resolved list" where
  "bucket_contributions b =
     (case bk_winner b of
        None \<Rightarrow> filter appends (map snd (bk_values b))
      | Some (w, c) \<Rightarrow> c # map snd (filter (\<lambda>v. Some (fst v) \<noteq> w \<and> appends (snd v)) (bk_values b)))"

definition contributionsFromBuckets :: "ContributionBucket list \<Rightarrow> resolved list" where
  "contributionsFromBuckets buckets = concat (map bucket_contributions buckets)"

section \<open>Resolution\<close>

record 'v AppExtensionResolvedDomain =
  rd_all :: "'v AppExtensionContribution list"
  rd_byId :: "string \<Rightarrow> 'v AppExtensionContribution option"

definition domainView :: "'v AppExtensionContribution list \<Rightarrow> string \<Rightarrow> 'v AppExtensionResolvedDomain" where
  "domainView cs domain =
     (let xs = filter (\<lambda>c. co_domain c = domain) cs in \<lparr>rd_all = xs, rd_byId = map_of (rev (map (\<lambda>c. (co_id c, c)) xs))\<rparr>)"

record AppExtensionResolvedSnapshot =
  rs_contributions :: "resolved list"
  rs_byDomain :: "(string \<times> vfield AppExtensionResolvedDomain) list"
  rs_diagnostics :: "AppExtensionDiagnostic list"

type_synonym buckets = "(string \<times> ContributionBucket) list"

definition no_bucket :: ContributionBucket where
  "no_bucket = \<lparr>bk_winner = None, bk_values = []\<rparr>"

definition has_error :: "AppExtensionDiagnostic list \<Rightarrow> bool" where
  "has_error ds = list_ex (\<lambda>d. di_severity d = DS_error) ds"

definition resolve_one ::
  "(rat \<Rightarrow> string) \<Rightarrow> heap \<Rightarrow> AppExtensionResolutionOptions \<Rightarrow> buckets \<times> AppExtensionDiagnostic list \<Rightarrow> nat \<times> contribution \<Rightarrow>
   buckets \<times> AppExtensionDiagnostic list" where
  "resolve_one f h options st ic =
     (let (bs, ds) = st; (c, found) = validateContribution f h options (snd ic) in
      if has_error found then (bs, ds @ found)
      else
        let key = contributionKey c;
            (b, notes) = addContributionToBucket (case map_of bs key of None \<Rightarrow> no_bucket | Some b \<Rightarrow> b) (fst ic) c
        in (set_field key b bs, ds @ found @ notes))"

definition resolve_all ::
  "(rat \<Rightarrow> string) \<Rightarrow> heap \<Rightarrow> AppExtensionResolutionOptions \<Rightarrow> contribution list \<Rightarrow> buckets \<times> AppExtensionDiagnostic list" where
  "resolve_all f h options cs = foldl (resolve_one f h options) ([], []) (zip [0..<length cs] cs)"

definition resolveAppExtensionContributions ::
  "(rat \<Rightarrow> string) \<Rightarrow> heap \<Rightarrow> (string \<Rightarrow> string \<Rightarrow> int) \<Rightarrow> contribution list \<Rightarrow> AppExtensionResolutionOptions \<Rightarrow>
   AppExtensionResolvedSnapshot" where
  "resolveAppExtensionContributions f h localeCompare cs options =
     (let sourceRank = buildSourceRank (case ro_sourceOrder options of None \<Rightarrow> DEFAULT_APP_EXTENSION_SOURCE_ORDER | Some o1 \<Rightarrow> o1);
          (bs, ds) = resolve_all f h options (stableSortContributions localeCompare sourceRank cs);
          found = sort_by (compareContributions localeCompare sourceRank) (contributionsFromBuckets (map snd bs))
      in \<lparr>rs_contributions = found, rs_byDomain = map (\<lambda>d. (d, domainView found d)) APP_EXTENSION_DOMAINS,
          rs_diagnostics = ds @ concat (map (\<lambda>c. opt_list (co_diagnostics c)) found)\<rparr>)"

end
