(* ===== verification/Extension_Safety.thy ===== *)
theory Extension_Safety
  imports Extension_Resolver
begin

text \<open>
  What the resolution of extension contributions promises: whatever was contributed, what comes out
  passed the validation, and one contribution of each domain and id wins. One promise is weaker
  than it looks: merging keeps the privilege of a trusted contribution and takes the value and
  the provenance of an untrusted one.
\<close>

section \<open>Fields\<close>

definition replace_field :: "string \<Rightarrow> 'v \<Rightarrow> (string \<times> 'v) list \<Rightarrow> (string \<times> 'v) list" where
  "replace_field k x m = map (\<lambda>kv. if fst kv = k then (k, x) else kv) m"

lemma set_field_alt: "set_field k x m = (if k \<in> fst ` set m then replace_field k x m else m @ [(k, x)])"
  by (simp add: set_field_def replace_field_def)

lemma fst_replace_field: "map fst (replace_field k x m) = map fst m"
  by (simp add: replace_field_def)

lemma map_of_replace_field: "map_of (replace_field k x m) j = (if j = k \<and> k \<in> fst ` set m then Some x else map_of m j)"
proof (induction m)
  case (Cons kv m)
  then show ?case by (cases kv) (auto simp: replace_field_def split: if_splits)
qed (simp add: replace_field_def)

lemma map_of_set_field [simp]: "map_of (set_field k x m) j = (if j = k then Some x else map_of m j)"
proof (cases "k \<in> fst ` set m")
  case False
  then have "map_of m k = None" by (simp add: map_of_eq_None_iff)
  with False show ?thesis by (simp add: set_field_alt map_add_def split: option.splits)
qed (simp add: set_field_alt map_of_replace_field)

lemma fst_set_field: "fst ` set (set_field k x m) = insert k (fst ` set m)"
  using arg_cong [OF fst_replace_field [of k x m], of set] by (simp add: set_field_alt insert_absorb)

lemma distinct_set_field: "distinct (map fst m) \<Longrightarrow> distinct (map fst (set_field k x m))"
  by (simp add: set_field_alt fst_replace_field)

lemma map_of_overridden:
  "map_of (map (\<lambda>kv. (fst kv, case map_of b (fst kv) of None \<Rightarrow> snd kv | Some y \<Rightarrow> y)) a) j =
    (if j \<in> fst ` set a then (case map_of b j of None \<Rightarrow> map_of a j | Some y \<Rightarrow> Some y) else None)"
proof (induction a)
  case (Cons kv a)
  then show ?case by (cases kv) (simp split: option.splits)
qed simp

lemma map_of_new: "map_of (filter (\<lambda>kv. fst kv \<notin> A) b) j = (if j \<in> A then None else map_of b j)"
proof (induction b)
  case (Cons kv b)
  then show ?case by (cases kv) (auto split: if_splits)
qed simp

lemma map_of_spread: "map_of (spread a b) j = (case map_of b j of None \<Rightarrow> map_of a j | Some y \<Rightarrow> Some y)"
proof (cases "j \<in> fst ` set a")
  case True
  then obtain x where "map_of a j = Some x" by (metis map_of_eq_None_iff not_None_eq)
  then show ?thesis using True by (simp add: spread_def map_add_def map_of_overridden map_of_new split: option.splits)
next
  case False
  then have "map_of a j = None" by (simp add: map_of_eq_None_iff)
  then show ?thesis using False by (simp add: spread_def map_add_def map_of_overridden map_of_new split: option.splits)
qed

section \<open>Validation\<close>

lemma error_about_severity [simp]: "di_severity (error_about c code m) = DS_error"
  by (simp add: error_about_def)

lemma validated_fields:
  assumes "validateContribution f h options c = (r, ds)"
  shows "co_id r = co_id c" "co_domain r = co_domain c" "co_provenance r = co_provenance c" "co_privileged r = co_privileged c"
    "co_conflictPolicy r = co_conflictPolicy c" "contributionKey r = contributionKey c"
  using assms by (auto simp: validateContribution_def with_value_def contributionKey_def Let_def split: if_splits sum.splits)

lemma validated_basic:
  assumes "validateContribution f h options c = (r, ds)" "\<not> has_error ds"
  shows "basic_errors options c = []"
proof -
  have "list_all (\<lambda>d. di_severity d = DS_error) (basic_errors options c)" by (simp add: basic_errors_def)
  moreover have "\<not> has_error (basic_errors options c)"
    using assms by (auto simp: validateContribution_def has_error_def Let_def split: if_splits sum.splits)
  ultimately show ?thesis by (cases "basic_errors options c") (simp_all add: has_error_def)
qed

text \<open>What a command must be like.\<close>

definition visibility_ok :: "resolved \<Rightarrow> bool" where
  "visibility_ok c = (value_field (F_raw U_undefined) (co_value c) ''paletteVisibility'' \<in> {F_raw (U_str ''visible''), F_raw (U_str ''hidden'')})"

definition schema_parsed :: "(rat \<Rightarrow> string) \<Rightarrow> heap \<Rightarrow> vfield \<Rightarrow> bool" where
  "schema_parsed f h v \<longleftrightarrow> v = F_raw U_undefined \<or> (\<exists>u x. v = F_schema x \<and> parseAppCommandInputSchema f h u None = Inr x)"

definition command_ok :: "(rat \<Rightarrow> string) \<Rightarrow> heap \<Rightarrow> resolved \<Rightarrow> bool" where
  "command_ok f h c \<longleftrightarrow> (co_domain c = ''command'' \<longrightarrow>
     visibility_ok c \<and> schema_parsed f h (value_field (F_raw U_undefined) (co_value c) ''inputSchema''))"

lemma map_of_raw: "map_of (map (\<lambda>kv. (fst kv, F_raw (snd kv))) m) k = map_option F_raw (map_of m k)"
  by (induction m) auto

lemma raw_value_field: "value_field (F_raw U_undefined) (raw_value v) k = F_raw (value_field U_undefined v k)"
  by (cases v) (auto simp: raw_value_def value_field_def map_of_raw split: option.splits)

lemma validated_command:
  assumes v: "validateContribution f h options c = (r, ds)" and e: "\<not> has_error ds"
  shows "command_ok f h r"
proof (cases "co_domain c = ''command''")
  case True
  have vis: "value_field U_undefined (co_value c) ''paletteVisibility'' \<in> {U_str ''visible'', U_str ''hidden''}"
    using validated_basic [OF v e] True by (simp add: basic_errors_def split: if_splits)
  then obtain m where m: "co_value c = C_record m" by (cases "co_value c") (auto simp: value_field_def)
  let ?input = "value_field U_undefined (co_value c) ''inputSchema''"
  show ?thesis
  proof (cases "?input = U_undefined")
    case True
    then have "r = with_value (raw_value (co_value c)) c" using v by (simp add: validateContribution_def)
    then show ?thesis using vis True by (auto simp: command_ok_def visibility_ok_def schema_parsed_def with_value_def raw_value_field)
  next
    case False
    with e v True obtain x where x: "parseAppCommandInputSchema f h ?input None = Inr x"
      by (auto simp: validateContribution_def has_error_def schema_error_def Let_def split: sum.splits)
    let ?m = "map (\<lambda>kv. (fst kv, F_raw (snd kv))) m"
    have r: "co_value r = C_record (set_field ''inputSchema'' (F_schema x) ?m)"
      using v x False True m by (auto simp: validateContribution_def with_value_def raw_value_def)
    have "value_field (F_raw U_undefined) (C_record ?m) ''paletteVisibility'' = F_raw (value_field U_undefined (co_value c) ''paletteVisibility'')"
      using raw_value_field [of "co_value c" "''paletteVisibility''"] m by (simp add: raw_value_def)
    then show ?thesis using r vis x
      by (auto simp: command_ok_def visibility_ok_def schema_parsed_def value_field_def)
  qed
qed (use validated_fields(2) [OF v] in \<open>simp add: command_ok_def\<close>)

section \<open>Buckets\<close>

definition bucket_ok :: "(resolved \<Rightarrow> bool) \<Rightarrow> string \<Rightarrow> ContributionBucket \<Rightarrow> bool" where
  "bucket_ok good k b \<longleftrightarrow> (\<exists>w c. bk_winner b = Some (w, c) \<and> good c \<and> contributionKey c = k) \<and>
     (\<forall>v \<in> set (bk_values b). good (snd v) \<and> contributionKey (snd v) = k)"

definition buckets_ok :: "(resolved \<Rightarrow> bool) \<Rightarrow> buckets \<Rightarrow> bool" where
  "buckets_ok good bs \<longleftrightarrow> distinct (map fst bs) \<and> (\<forall>kb \<in> set bs. bucket_ok good (fst kb) (snd kb))"

lemma key_merged: "contributionKey (mergeContribution a b) = contributionKey b"
  by (simp add: contributionKey_def mergeContribution_def)

lemma in_set_field: "kv \<in> set (set_field k x m) \<Longrightarrow> kv = (k, x) \<or> kv \<in> set m"
  by (auto simp: set_field_def split: if_splits)

text \<open>A property of contributions that the validation establishes and merging keeps.\<close>

locale kept_by_resolution =
  fixes f :: "rat \<Rightarrow> string" and h :: heap and options :: AppExtensionResolutionOptions and cs :: "contribution list"
    and good :: "resolved \<Rightarrow> bool"
  assumes validated: "c \<in> set cs \<Longrightarrow> validateContribution f h options c = (r, ds) \<Longrightarrow> \<not> has_error ds \<Longrightarrow> good r"
    and merged: "good a \<Longrightarrow> good b \<Longrightarrow> contributionKey a = contributionKey b \<Longrightarrow> co_conflictPolicy b = Some CP_merge \<Longrightarrow>
      good (mergeContribution a b)"
begin

lemma added:
  assumes "b = no_bucket \<or> bucket_ok good (contributionKey c) b" "good c"
  shows "bucket_ok good (contributionKey c) (fst (addContributionToBucket b i c))"
proof (cases "bk_winner b")
  case None
  then have "b = no_bucket" using assms(1) by (auto simp: bucket_ok_def)
  then show ?thesis using assms(2) by (simp add: addContributionToBucket_def bucket_ok_def no_bucket_def)
next
  case (Some wc)
  then obtain w a where a: "bk_winner b = Some (w, a)" by (cases wc) auto
  with assms(1) have ok: "bucket_ok good (contributionKey c) b" by (auto simp: no_bucket_def)
  with a have "good a" "contributionKey a = contributionKey c" by (auto simp: bucket_ok_def)
  then have "co_conflictPolicy c = Some CP_merge \<Longrightarrow> good (mergeContribution a c)" using merged assms(2) by blast
  then show ?thesis using ok a assms(2)
    by (auto simp: addContributionToBucket_def bucket_ok_def key_merged Let_def split: option.splits)
qed

lemma one_resolved:
  assumes "buckets_ok good bs" "c \<in> set cs"
  shows "buckets_ok good (fst (resolve_one f h options (bs, ds) (i, c)))"
proof -
  obtain r found where r: "validateContribution f h options c = (r, found)" by fastforce
  show ?thesis
  proof (cases "has_error found")
    case True
    then show ?thesis using assms(1) r by (simp add: resolve_one_def)
  next
    case False
    let ?old = "case map_of bs (contributionKey r) of None \<Rightarrow> no_bucket | Some b \<Rightarrow> b"
    have old: "?old = no_bucket \<or> bucket_ok good (contributionKey r) ?old"
      using assms(1) by (auto simp: buckets_ok_def dest!: map_of_SomeD split: option.splits)
    have "bucket_ok good (contributionKey r) (fst (addContributionToBucket ?old i r))"
      using added [OF old validated [OF assms(2) r False]] .
    then show ?thesis using assms(1) r False
      by (auto simp: resolve_one_def buckets_ok_def distinct_set_field Let_def split: prod.splits dest!: in_set_field)
  qed
qed

lemma all_resolved:
  assumes "buckets_ok good (fst st)" "snd ` set ics \<subseteq> set cs"
  shows "buckets_ok good (fst (foldl (resolve_one f h options) st ics))"
  using assms
proof (induction ics arbitrary: st)
  case (Cons ic ics)
  have "buckets_ok good (fst (resolve_one f h options (fst st, snd st) (fst ic, snd ic)))"
    using Cons.prems by (intro one_resolved) auto
  then show ?case using Cons.IH Cons.prems(2) by simp
qed simp

lemma buckets_resolved: "set xs = set cs \<Longrightarrow> buckets_ok good (fst (resolve_all f h options xs))"
proof -
  assume xs: "set xs = set cs"
  have "snd ` set (zip [0..<length xs] xs) \<subseteq> set cs" using xs by (metis image_subsetI prod.collapse set_zip_rightD)
  then show ?thesis unfolding resolve_all_def by (intro all_resolved) (simp_all add: buckets_ok_def)
qed

end

lemma set_stableSort [simp]: "set (stableSortContributions lc rank cs) = set cs"
  by (auto simp: stableSortContributions_def set_zip in_set_conv_nth image_iff)

lemma bucket_member:
  assumes "bucket_ok good k b" "c \<in> set (bucket_contributions b)"
  shows "good c \<and> contributionKey c = k"
  using assms by (auto simp: bucket_ok_def bucket_contributions_def split: option.splits)

definition resolved_buckets ::
  "(rat \<Rightarrow> string) \<Rightarrow> heap \<Rightarrow> (string \<Rightarrow> string \<Rightarrow> int) \<Rightarrow> contribution list \<Rightarrow> AppExtensionResolutionOptions \<Rightarrow> buckets" where
  "resolved_buckets f h lc cs options = fst (resolve_all f h options (stableSortContributions lc
     (buildSourceRank (case ro_sourceOrder options of None \<Rightarrow> DEFAULT_APP_EXTENSION_SOURCE_ORDER | Some o1 \<Rightarrow> o1)) cs))"

lemma resolved_contributions:
  "\<exists>compare. rs_contributions (resolveAppExtensionContributions f h lc cs options) =
     sort_by compare (contributionsFromBuckets (map snd (resolved_buckets f h lc cs options)))"
  by (auto simp: resolveAppExtensionContributions_def resolved_buckets_def Let_def split: prod.splits)

context kept_by_resolution
begin

lemma contributions_good:
  "c \<in> set (rs_contributions (resolveAppExtensionContributions f h lc cs options)) \<Longrightarrow> good c"
proof -
  assume c: "c \<in> set (rs_contributions (resolveAppExtensionContributions f h lc cs options))"
  have ok: "buckets_ok good (resolved_buckets f h lc cs options)"
    unfolding resolved_buckets_def by (rule buckets_resolved) simp
  from c resolved_contributions [of f h lc cs options] obtain kb where "kb \<in> set (resolved_buckets f h lc cs options)"
    "c \<in> set (bucket_contributions (snd kb))" by (auto simp: contributionsFromBuckets_def)
  then show "good c" using ok bucket_member unfolding buckets_ok_def by blast
qed

end

section \<open>What is kept\<close>

definition source_ok :: "resolved \<Rightarrow> bool" where
  "source_ok c \<longleftrightarrow> trim (co_id c) \<noteq> [] \<and> co_domain c \<in> set APP_EXTENSION_DOMAINS \<and> pr_trust (co_provenance c) \<noteq> TL_blocked"

definition may_be_privileged :: "AppExtensionResolutionOptions \<Rightarrow> 'v AppExtensionContribution \<Rightarrow> bool" where
  "may_be_privileged options c \<longleftrightarrow> ro_allowUntrustedPrivileged options = Some True \<or> trusted_level (pr_trust (co_provenance c))"

text \<open>The privilege of a contribution was granted to one that may have it; but merging may have passed it on.\<close>

definition privilege_ok :: "AppExtensionResolutionOptions \<Rightarrow> contribution list \<Rightarrow> resolved \<Rightarrow> bool" where
  "privilege_ok options cs c \<longleftrightarrow> (co_privileged c = Some True \<longrightarrow>
     (\<exists>d \<in> set cs. contributionKey d = contributionKey c \<and> co_privileged d = Some True \<and> may_be_privileged options d) \<and>
     (may_be_privileged options c \<or> co_conflictPolicy c = Some CP_merge))"

lemma key_domain:
  assumes "contributionKey a = contributionKey b" "co_domain a \<in> set APP_EXTENSION_DOMAINS" "co_domain b \<in> set APP_EXTENSION_DOMAINS"
  shows "co_domain a = co_domain b \<and> co_id a = co_id b"
proof -
  have "CHR '':'' \<notin> set d" if "d \<in> set APP_EXTENSION_DOMAINS" for d using that by (auto simp: APP_EXTENSION_DOMAINS_def)
  then have a: "CHR '':'' \<notin> set (co_domain a)" "CHR '':'' \<notin> set (co_domain b)" using assms(2,3) by blast+
  have eq: "co_domain a @ '':'' @ co_id a = co_domain b @ '':'' @ co_id b" using assms(1) by (simp add: contributionKey_def)
  have "takeWhile (\<lambda>c. c \<noteq> CHR '':'') (co_domain a @ '':'' @ co_id a) = co_domain a"
    "takeWhile (\<lambda>c. c \<noteq> CHR '':'') (co_domain b @ '':'' @ co_id b) = co_domain b"
    using a by (simp_all add: takeWhile_tail) (auto simp: takeWhile_eq_all_conv)
  with eq show ?thesis by simp
qed

lemma merge_command:
  assumes a: "command_ok f h a" and b: "command_ok f h b" and d: "co_domain a = co_domain b"
  shows "command_ok f h (mergeContribution a b)"
proof (cases "co_domain b = ''command''")
  case True
  let ?u = "F_raw U_undefined"
  have vis: "visibility_ok a" "visibility_ok b" and sch: "schema_parsed f h (value_field ?u (co_value a) ''inputSchema'')"
    "schema_parsed f h (value_field ?u (co_value b) ''inputSchema'')"
    using a b d True by (auto simp: command_ok_def)
  from vis obtain m n where mn: "co_value a = C_record m" "co_value b = C_record n"
    by (auto simp: visibility_ok_def value_field_def split: cvalue.splits)
  have v: "co_value (mergeContribution a b) = C_record (spread m n)" using mn by (simp add: mergeContribution_def)
  have "value_field ?u (C_record (spread m n)) k \<in> {value_field ?u (co_value a) k, value_field ?u (co_value b) k}" for k
    by (auto simp: value_field_def mn map_of_spread split: option.splits)
  then have "value_field ?u (co_value (mergeContribution a b)) k \<in> {value_field ?u (co_value a) k, value_field ?u (co_value b) k}" for k
    using v by simp
  then show ?thesis using vis sch unfolding command_ok_def visibility_ok_def by (metis insertE singletonD)
qed (simp add: command_ok_def mergeContribution_def)

interpretation sources: kept_by_resolution f h options cs source_ok for f h options cs
proof
  fix c r ds
  assume v: "validateContribution f h options c = (r, ds)" and e: "\<not> has_error ds"
  show "source_ok r" using validated_basic [OF v e] validated_fields [OF v]
    by (simp add: source_ok_def basic_errors_def isAppExtensionContributionDomain_def split: if_splits)
qed (simp add: source_ok_def mergeContribution_def)

definition command_source_ok :: "(rat \<Rightarrow> string) \<Rightarrow> heap \<Rightarrow> resolved \<Rightarrow> bool" where
  "command_source_ok f h c \<longleftrightarrow> source_ok c \<and> command_ok f h c"

interpretation commands: kept_by_resolution f h options cs "command_source_ok f h" for f h options cs
proof
  fix a b
  assume *: "command_source_ok f h a" "command_source_ok f h b" "contributionKey a = contributionKey b"
    "co_conflictPolicy b = Some CP_merge"
  then have "co_domain a = co_domain b" using key_domain [of a b] by (simp add: command_source_ok_def source_ok_def)
  then show "command_source_ok f h (mergeContribution a b)"
    using * merge_command sources.merged by (simp add: command_source_ok_def)
qed (use validated_command sources.validated in \<open>auto simp: command_source_ok_def\<close>)

interpretation privileges: kept_by_resolution f h options cs "privilege_ok options cs" for f h options cs
proof
  fix c r ds
  assume c: "c \<in> set cs" and v: "validateContribution f h options c = (r, ds)" and e: "\<not> has_error ds"
  have "co_privileged c = Some True \<Longrightarrow> may_be_privileged options c"
    using validated_basic [OF v e] by (auto simp: basic_errors_def may_be_privileged_def split: if_splits)
  then show "privilege_ok options cs r" using c validated_fields [OF v] by (auto simp: privilege_ok_def may_be_privileged_def)
next
  fix a b
  assume "privilege_ok options cs a" "privilege_ok options cs b" "contributionKey a = contributionKey b"
    "co_conflictPolicy b = Some CP_merge"
  moreover have "co_conflictPolicy (mergeContribution a b) = Some CP_merge"
    "co_privileged (mergeContribution a b) = Some True \<Longrightarrow> co_privileged a = Some True \<or> co_privileged b = Some True"
    using calculation(4) by (auto simp: mergeContribution_def own_or_def split: option.splits)
  ultimately show "privilege_ok options cs (mergeContribution a b)"
    unfolding privilege_ok_def key_merged by metis
qed

section \<open>One winner\<close>

lemma count_insert_by: "length (filter P (insert_by compare x ys)) = length (filter P (x # ys))"
  by (induction ys) auto

lemma count_sort_by: "length (filter P (sort_by compare xs)) = length (filter P xs)"
  by (induction xs) (simp_all add: sort_by_def count_insert_by)

lemma filter_length_mono: "(\<And>x. P x \<Longrightarrow> Q x) \<Longrightarrow> length (filter P xs) \<le> length (filter Q xs)"
  by (induction xs) auto

lemma bucket_keys_apart:
  assumes "distinct (map fst bs)" "\<forall>kb \<in> set bs. bucket_ok (\<lambda>_. True) (fst kb) (snd kb)"
  shows "length (filter (\<lambda>c. contributionKey c = k \<and> \<not> appends c) (contributionsFromBuckets (map snd bs))) \<le> 1"
  using assms
proof (induction bs)
  case (Cons kb bs)
  let ?P = "\<lambda>c. contributionKey c = k \<and> \<not> appends c"
  have here: "\<forall>c \<in> set (bucket_contributions (snd kb)). contributionKey c = fst kb"
    using Cons.prems(2) bucket_member [of "\<lambda>_. True"] by auto
  have one: "length (filter ?P (bucket_contributions (snd kb))) \<le> 1"
    by (auto simp: bucket_contributions_def filter_empty_conv split: option.splits)
  have IH: "length (filter ?P (contributionsFromBuckets (map snd bs))) \<le> 1" using Cons by simp
  show ?case
  proof (cases "fst kb = k")
    case True
    have "contributionKey c \<noteq> k" if "c \<in> set (contributionsFromBuckets (map snd bs))" for c
    proof -
      from that obtain kc where kc: "kc \<in> set bs" "c \<in> set (bucket_contributions (snd kc))"
        by (auto simp: contributionsFromBuckets_def)
      then have "contributionKey c = fst kc" using Cons.prems(2) bucket_member [of "\<lambda>_. True"] by auto
      then show ?thesis using True imageI [OF kc(1), of fst] Cons.prems(1) by (metis distinct.simps(2) list.simps(9) set_map)
    qed
    then have "filter ?P (contributionsFromBuckets (map snd bs)) = []" by (auto simp: filter_empty_conv)
    then show ?thesis using one by (simp add: contributionsFromBuckets_def)
  next
    case False
    then have "filter ?P (bucket_contributions (snd kb)) = []" using here by (auto simp: filter_empty_conv)
    then show ?thesis using IH by (simp add: contributionsFromBuckets_def)
  qed
qed (simp add: contributionsFromBuckets_def)

interpretation anything: kept_by_resolution f h options cs "\<lambda>_. True" for f h options cs
  by unfold_locales auto

lemma resolve_one_keys:
  "fst ` set (fst (resolve_one f h options st ic)) = fst ` set (fst st) \<union>
     (if has_error (snd (validateContribution f h options (snd ic))) then {} else {contributionKey (snd ic)})"
proof -
  obtain r ds where r: "validateContribution f h options (snd ic) = (r, ds)" by fastforce
  then show ?thesis
    by (auto simp: resolve_one_def fst_set_field validated_fields(6) [OF r] Let_def split: prod.splits)
qed

lemma resolve_all_keys:
  "fst ` set (fst (foldl (resolve_one f h options) st ics)) = fst ` set (fst st) \<union>
     {contributionKey (snd ic) |ic. ic \<in> set ics \<and> \<not> has_error (snd (validateContribution f h options (snd ic)))}"
proof (induction ics arbitrary: st)
  case (Cons ic ics)
  then show ?case by (cases ic) (auto simp: resolve_one_keys split: if_splits)
qed simp

lemma valid_key_has_winner:
  assumes "c \<in> set cs" "\<not> has_error (snd (validateContribution f h options c))"
  shows "\<exists>r \<in> set (rs_contributions (resolveAppExtensionContributions f h lc cs options)). contributionKey r = contributionKey c"
proof -
  let ?bs = "resolved_buckets f h lc cs options"
  have "c \<in> set (stableSortContributions lc rank cs)" for rank using assms(1) by simp
  then have "\<exists>i. (i, c) \<in> set (zip [0..<length (stableSortContributions lc rank cs)] (stableSortContributions lc rank cs))" for rank
    by (metis in_set_conv_nth in_set_zip length_upt minus_nat.diff_0 fst_conv snd_conv)
  then have "contributionKey c \<in> fst ` set ?bs"
    using assms(2) unfolding resolved_buckets_def resolve_all_def by (fastforce simp: resolve_all_keys)
  then obtain b where b: "(contributionKey c, b) \<in> set ?bs" by force
  have "buckets_ok (\<lambda>_. True) ?bs" unfolding resolved_buckets_def by (rule anything.buckets_resolved [of _ cs]) simp
  with b obtain w r where "bk_winner b = Some (w, r)" "contributionKey r = contributionKey c"
    by (fastforce simp: buckets_ok_def bucket_ok_def)
  then have "r \<in> set (contributionsFromBuckets (map snd ?bs)) \<and> contributionKey r = contributionKey c"
    using b by (force simp: contributionsFromBuckets_def bucket_contributions_def)
  then show ?thesis using resolved_contributions [of f h lc cs options] by auto
qed


text \<open>A trusted, privileged tool, and an untrusted plugin that merges its own handler into it.\<close>

definition demo_contribution ::
  "AppExtensionSourceKind \<Rightarrow> AppExtensionTrustLevel \<Rightarrow> AppExtensionConflictPolicy option \<Rightarrow> bool option \<Rightarrow> string \<Rightarrow> contribution" where
  "demo_contribution kind trust policy privileged handler =
     \<lparr>co_id = ''t'', co_domain = ''tool'', co_value = C_record [(''handlerRef'', U_str handler)],
      co_provenance = \<lparr>pr_source = \<lparr>so_kind = kind, so_scope = SS_global, so_id = handler, so_label = None, so_path = None,
        so_packageName = None, so_version = None\<rparr>, pr_trust = trust, pr_originId = None, pr_originLabel = None, pr_loadedAt = None\<rparr>,
      co_priority = None, co_order = None, co_conflictPolicy = policy, co_privileged = privileged, co_metadata = None,
      co_diagnostics = None\<rparr>"

definition demo_options :: AppExtensionResolutionOptions where
  "demo_options = \<lparr>ro_sourceOrder = None, ro_allowUntrustedPrivileged = None\<rparr>"

definition demo_resolved :: "contribution list \<Rightarrow> AppExtensionResolvedSnapshot" where
  "demo_resolved cs = resolveAppExtensionContributions (\<lambda>_. ''0'') (\<lambda>_. O_record True []) (\<lambda>_ _. 0) cs demo_options"

definition demo_merge :: "contribution list" where
  "demo_merge = [demo_contribution SK_plugin TL_untrusted (Some CP_merge) None ''p'',
     demo_contribution SK_builtin TL_trusted None (Some True) ''b'']"

lemma merge_lends_privilege:
  "map (\<lambda>c. (co_privileged c, pr_trust (co_provenance c), co_value c)) (rs_contributions (demo_resolved demo_merge)) =
     [(Some True, TL_untrusted, C_record [(''handlerRef'', F_raw (U_str ''p''))])]"
  by code_simp

text \<open>An error policy does not keep an appended duplicate out.\<close>

lemma append_escapes_error:
  "map (\<lambda>c. (co_conflictPolicy c, co_value c)) (rs_contributions (demo_resolved
     [demo_contribution SK_builtin TL_trusted (Some CP_error) None ''b'', demo_contribution SK_plugin TL_untrusted (Some CP_append) None ''p''])) =
   [(Some CP_error, C_record [(''handlerRef'', F_raw (U_str ''b''))]), (Some CP_append, C_record [(''handlerRef'', F_raw (U_str ''p''))])]"
  by code_simp


end
