(* ===== verification/Provider_Turn.thy ===== *)
theory Provider_Turn
  imports Decimal_Text
begin

text \<open>
  One turn of a model provider: packages/runtime/src/provider/consume.ts with image-output.ts, the
  errors of errors.ts and the events of types.ts. The events of a provider arrive one by one and
  are assembled to the parts of a message. The stream is the list of its events and how it ends;
  the callback \<open>checkpoint\<close> may throw at any event, and what \<open>observe\<close> throws is dropped, so it is
  only recorded. \<open>JSON.parse\<close> is an argument. Bytes and the indexes of tool calls are natural numbers. After a failed
  \<open>accept\<close> the assembler is only asked for the mark \<open>outputObserved\<close>, so what else it has changed by
  then is left out.
\<close>

section \<open>Events and errors\<close>

datatype ProviderErrorCategory =
    PC_authentication | PC_authorization | PC_rate_limit | PC_invalid_request | PC_not_found | PC_conflict | PC_server | PC_network
  | PC_timeout | PC_aborted | PC_protocol | PC_unknown

datatype ProviderPhase = PP_request | PP_stream

record ProviderError =
  pe_category :: ProviderErrorCategory
  pe_message :: string
  pe_retryable :: bool
  pe_providerId :: string
  pe_modelId :: string
  pe_phase :: ProviderPhase
  pe_statusCode :: "rat option"
  pe_providerCode :: "string option"
  pe_retryAfterMs :: "rat option"
  pe_metadata :: "json option"

record ProviderStreamError =
  se_detail :: ProviderError
  se_outputObserved :: bool

datatype ReasoningVisibility = RV_assistant | RV_internal | RV_provider_replay_only

datatype ProviderStateKind = SK_reasoning | SK_thinking | SK_tool_replay | SK_response_id | SK_opaque

datatype ReplayPolicy = RY_required | RY_optional | RY_forbidden

record ProviderState =
  st_providerId :: string
  st_modelId :: string
  st_stateKind :: ProviderStateKind
  st_replayPolicy :: ReplayPolicy
  st_payload :: json

record ProviderUsage =
  us_inputTokens :: "rat option"
  us_outputTokens :: "rat option"
  us_reasoningTokens :: "rat option"
  us_cacheReadTokens :: "rat option"
  us_cacheWriteTokens :: "rat option"
  us_metadata :: "json option"

datatype FinishReason = FR_stop | FR_length | FR_tool_calls | FR_content_filter | FR_other

type_synonym finish_event = "FinishReason \<times> string option"

datatype ProviderEvent =
    E_text string string
  | E_image string string "nat list"
  | E_reasoning string string "ReasoningVisibility option"
  | E_tool_start nat string
  | E_tool_delta string "string option" "string option"
  | E_tool_end string
  | E_state ProviderState "string option"
  | E_usage ProviderUsage
  | E_finish finish_event
  | E_error ProviderError

datatype part =
    P_text string string
  | P_reasoning string string ReasoningVisibility "ProviderState option"
  | P_tool string string string json
  | P_image string string "nat list"

record ProviderResponseCandidate =
  rc_parts :: "part list"
  rc_providerState :: "ProviderState list"
  rc_usage :: "ProviderUsage option"
  rc_finish :: finish_event

definition protocolProviderError :: "string \<Rightarrow> string \<Rightarrow> string \<Rightarrow> ProviderError" where
  "protocolProviderError providerId modelId message =
     \<lparr>pe_category = PC_protocol, pe_message = message, pe_retryable = False, pe_providerId = providerId, pe_modelId = modelId,
      pe_phase = PP_stream, pe_statusCode = None, pe_providerCode = None, pe_retryAfterMs = None, pe_metadata = None\<rparr>"

section \<open>Images\<close>

definition IMAGE_COUNT :: nat where "IMAGE_COUNT = 16"

definition IMAGE_BYTES :: nat where "IMAGE_BYTES = 25 * 1024 * 1024"

definition IMAGE_TOTAL_BYTES :: nat where "IMAGE_TOTAL_BYTES = 50 * 1024 * 1024"

text \<open>\<open>b[index] === value\<close> for the values at and after an index; beyond the end it is false.\<close>

definition bytes_at :: "nat \<Rightarrow> nat list \<Rightarrow> nat list \<Rightarrow> bool" where
  "bytes_at i values b = (take (length values) (drop i b) = values)"

definition image_signature :: "string \<Rightarrow> nat list \<Rightarrow> bool" where
  "image_signature mime b =
     (if mime = ''image/png'' then bytes_at 0 [137, 80, 78, 71, 13, 10, 26, 10] b
      else if mime = ''image/jpeg'' then bytes_at 0 [255, 216, 255] b
      else mime = ''image/webp'' \<and> 12 \<le> length b \<and> bytes_at 0 [82, 73, 70, 70] b \<and> bytes_at 8 [87, 69, 66, 80] b)"

definition validateImageOutput :: "string \<Rightarrow> string \<Rightarrow> nat list \<Rightarrow> string option" where
  "validateImageOutput partId mime b =
     (if partId = [] \<or> length partId > 128 then Some ''image output part identity must contain 1 to 128 characters''
      else if b = [] \<or> length b > IMAGE_BYTES then Some ''image output exceeds the allowed byte size''
      else if \<not> image_signature mime b then Some ''image output MIME does not match an allowed image signature''
      else None)"

section \<open>The assembler\<close>

record ToolAssembly =
  ta_index :: nat
  ta_id :: string
  ta_name :: string
  ta_inputJson :: string
  ta_ended :: bool

datatype part_kind = PK_image | PK_text | PK_reasoning | PK_tool

record assembler =
  as_providerId :: string
  as_modelId :: string
  as_partOrder :: "string list"
  as_text :: "string \<Rightarrow> string option"
  as_reasoning :: "string \<Rightarrow> (string \<times> ReasoningVisibility) option"
  as_tools :: "(string \<times> ToolAssembly) list"
  as_toolIndexes :: "nat list"
  as_images :: "(string \<times> (string \<times> nat list)) list"
  as_partKinds :: "string \<Rightarrow> part_kind option"
  as_imageBytes :: nat
  as_states :: "ProviderState list"
  as_stateByPart :: "string \<Rightarrow> ProviderState option"
  as_usage :: "ProviderUsage option"
  as_finish :: "finish_event option"
  as_error :: "ProviderError option"
  as_outputObserved :: bool
  as_allowImages :: bool
  as_allowText :: bool

definition new_assembler :: "string \<Rightarrow> string \<Rightarrow> bool \<Rightarrow> bool \<Rightarrow> assembler" where
  "new_assembler providerId modelId allowImages allowText =
     \<lparr>as_providerId = providerId, as_modelId = modelId, as_partOrder = [], as_text = Map.empty, as_reasoning = Map.empty, as_tools = [],
      as_toolIndexes = [], as_images = [], as_partKinds = Map.empty, as_imageBytes = 0, as_states = [], as_stateByPart = Map.empty,
      as_usage = None, as_finish = None, as_error = None, as_outputObserved = False, as_allowImages = allowImages,
      as_allowText = allowText\<rparr>"

fun is_output :: "ProviderEvent \<Rightarrow> bool" where
  "is_output (E_text p d) = True"
| "is_output (E_reasoning p d v) = True"
| "is_output (E_tool_start i t) = True"
| "is_output (E_image p m b) = True"
| "is_output _ = False"

definition observeOutput :: "ProviderEvent \<Rightarrow> assembler \<Rightarrow> assembler" where
  "observeOutput ev a = (if is_output ev then a\<lparr>as_outputObserved := True\<rparr> else a)"

definition asm_fail :: "assembler \<Rightarrow> string \<Rightarrow> ProviderStreamError + 'a" where
  "asm_fail a message =
     Inl \<lparr>se_detail = protocolProviderError (as_providerId a) (as_modelId a) message, se_outputObserved = as_outputObserved a\<rparr>"

definition addPart :: "string \<Rightarrow> part_kind \<Rightarrow> assembler \<Rightarrow> ProviderStreamError + assembler" where
  "addPart partId kind a =
     (if partId = [] then asm_fail a ''provider emitted an empty part identity''
      else case as_partKinds a partId of
        Some prior \<Rightarrow>
          if prior \<noteq> kind then asm_fail a ''provider reused a part identity across output kinds''
          else if as_images a \<noteq> [] \<and> (as_partOrder a = [] \<or> last (as_partOrder a) \<noteq> partId)
          then asm_fail a ''provider resumed a closed part across image output''
          else Inr a
      | None \<Rightarrow> Inr (a\<lparr>as_partKinds := (as_partKinds a)(partId \<mapsto> kind), as_partOrder := as_partOrder a @ [partId]\<rparr>))"

definition requireNonEmpty :: "assembler \<Rightarrow> string \<Rightarrow> string \<Rightarrow> ProviderStreamError + unit" where
  "requireNonEmpty a v label = (if v = [] then asm_fail a (''provider emitted an empty '' @ label) else Inr ())"

definition requireOpenTool :: "assembler \<Rightarrow> string \<Rightarrow> ProviderStreamError + ToolAssembly" where
  "requireOpenTool a i =
     (case map_of (as_tools a) i of
        None \<Rightarrow> asm_fail a (''provider emitted tool-call data before start: '' @ i)
      | Some t \<Rightarrow> if ta_ended t then asm_fail a (''provider emitted tool-call data after end: '' @ i) else Inr t)"

definition set_tool :: "ToolAssembly \<Rightarrow> assembler \<Rightarrow> assembler" where
  "set_tool t a = a\<lparr>as_tools := map (\<lambda>kt. if fst kt = ta_id t then (ta_id t, t) else kt) (as_tools a)\<rparr>"

definition usage_fields :: "ProviderUsage \<Rightarrow> (string \<times> rat option) list" where
  "usage_fields u =
     [(''inputTokens'', us_inputTokens u), (''outputTokens'', us_outputTokens u), (''reasoningTokens'', us_reasoningTokens u),
      (''cacheReadTokens'', us_cacheReadTokens u), (''cacheWriteTokens'', us_cacheWriteTokens u)]"

definition safe_count :: "rat \<Rightarrow> bool" where
  "safe_count n = (snd (quotient_of n) = 1 \<and> 0 \<le> n \<and> n \<le> 9007199254740991)"

definition validateUsage :: "assembler \<Rightarrow> ProviderUsage \<Rightarrow> ProviderStreamError + unit" where
  "validateUsage a u =
     for_each (\<lambda>_ (name, v).
       case v of
         None \<Rightarrow> Inr ()
       | Some n \<Rightarrow>
           if \<not> safe_count n then asm_fail a (''provider usage '' @ name @ '' must be a non-negative integer'')
           else (case as_usage a of
                   Some prior \<Rightarrow> (case map_of (usage_fields prior) name of
                       Some (Some p) \<Rightarrow> if n < p then asm_fail a (''provider cumulative usage '' @ name @ '' must not decrease'') else Inr ()
                     | _ \<Rightarrow> Inr ())
                 | None \<Rightarrow> Inr ())) () (usage_fields u)"

definition tool_part_id :: "nat \<Rightarrow> string" where
  "tool_part_id i = ''tool_call_'' @ decimal i"

definition opt_text :: "string option \<Rightarrow> string" where
  "opt_text v = (case v of None \<Rightarrow> [] | Some s \<Rightarrow> s)"

fun accept :: "ProviderEvent \<Rightarrow> assembler \<Rightarrow> ProviderStreamError + assembler" where
  "accept (E_image p mime b) a =
     (if \<not> as_allowImages a then asm_fail a ''this provider request does not accept image output''
      else case validateImageOutput p mime b of
        Some m \<Rightarrow> asm_fail a m
      | None \<Rightarrow>
          if p \<in> fst ` set (as_images a) then asm_fail a ''provider emitted a duplicate image part''
          else if length (as_images a) \<ge> IMAGE_COUNT \<or> as_imageBytes a + length b > IMAGE_TOTAL_BYTES
          then asm_fail a ''provider image output exceeds the response limit''
          else res_bind (addPart p PK_image (a\<lparr>as_imageBytes := as_imageBytes a + length b\<rparr>)) (\<lambda>a.
            Inr (a\<lparr>as_images := as_images a @ [(p, (mime, b))]\<rparr>)))"
| "accept (E_text p d) a =
     (if \<not> as_allowText a then asm_fail a ''this provider request does not accept text output''
      else res_bind (requireNonEmpty a d ''text delta'') (\<lambda>_.
        res_bind (addPart p PK_text a) (\<lambda>a.
        Inr (a\<lparr>as_text := (as_text a)(p \<mapsto> opt_text (as_text a p) @ d), as_outputObserved := True\<rparr>))))"
| "accept (E_reasoning p d v) a =
     res_bind (requireNonEmpty a d ''reasoning delta'') (\<lambda>_.
     res_bind (addPart p PK_reasoning a) (\<lambda>a.
     let prior = as_reasoning a p in
     Inr (a\<lparr>as_reasoning := (as_reasoning a)(p \<mapsto>
         ((case prior of None \<Rightarrow> [] | Some (t, _) \<Rightarrow> t) @ d,
          case v of Some w \<Rightarrow> w | None \<Rightarrow> (case prior of Some (_, w) \<Rightarrow> w | None \<Rightarrow> RV_internal))), as_outputObserved := True\<rparr>)))"
| "accept (E_tool_start i t) a =
     (if t \<in> fst ` set (as_tools a) \<or> i \<in> set (as_toolIndexes a) then asm_fail a ''provider emitted a duplicate tool-call start''
      else res_bind (addPart (tool_part_id i) PK_tool (a\<lparr>as_toolIndexes := as_toolIndexes a @ [i],
          as_tools := as_tools a @ [(t, \<lparr>ta_index = i, ta_id = t, ta_name = [], ta_inputJson = [], ta_ended = False\<rparr>)]\<rparr>)) (\<lambda>a.
        Inr (a\<lparr>as_outputObserved := True\<rparr>)))"
| "accept (E_tool_delta t name json) a =
     res_bind (requireOpenTool a t) (\<lambda>tool.
     if name = None \<and> json = None then asm_fail a ''tool-call delta contains no data''
     else Inr (set_tool (tool\<lparr>ta_name := ta_name tool @ opt_text name, ta_inputJson := ta_inputJson tool @ opt_text json\<rparr>) a))"
| "accept (E_tool_end t) a = res_bind (requireOpenTool a t) (\<lambda>tool. Inr (set_tool (tool\<lparr>ta_ended := True\<rparr>) a))"
| "accept (E_state st p) a =
     (case p of
        None \<Rightarrow> Inr (a\<lparr>as_states := as_states a @ [st]\<rparr>)
      | Some p \<Rightarrow>
          if as_stateByPart a p \<noteq> None then asm_fail a (''provider emitted duplicate state for part '' @ p)
          else Inr (a\<lparr>as_states := as_states a @ [st], as_stateByPart := (as_stateByPart a)(p \<mapsto> st)\<rparr>))"
| "accept (E_usage u) a = res_bind (validateUsage a u) (\<lambda>_. Inr (a\<lparr>as_usage := Some u\<rparr>))"
| "accept (E_finish r) a = Inr (a\<lparr>as_finish := Some r\<rparr>)"
| "accept (E_error e) a = Inr (a\<lparr>as_error := Some e\<rparr>)"

section \<open>Completion\<close>

fun is_json_object :: "json \<Rightarrow> bool" where
  "is_json_object (JObj m) = True"
| "is_json_object _ = False"

definition parseToolInput :: "(string \<Rightarrow> json option) \<Rightarrow> assembler \<Rightarrow> ToolAssembly \<Rightarrow> ProviderStreamError + json" where
  "parseToolInput parse a t =
     (if ta_inputJson t = [] then Inr (JObj [])
      else case parse (ta_inputJson t) of
        None \<Rightarrow> asm_fail a (''provider tool call '' @ ta_id t @ '' contains invalid JSON input'')
      | Some v \<Rightarrow> if is_json_object v then Inr v
          else asm_fail a (''provider tool call '' @ ta_id t @ '' input must be a JSON object''))"

definition complete_tool :: "(string \<Rightarrow> json option) \<Rightarrow> assembler \<Rightarrow> string \<Rightarrow> ProviderStreamError + part" where
  "complete_tool parse a p =
     (case List.find (\<lambda>t. tool_part_id (ta_index t) = p) (map snd (as_tools a)) of
        None \<Rightarrow> asm_fail a ''provider stream finished with an incomplete tool call''
      | Some t \<Rightarrow>
          if \<not> ta_ended t then asm_fail a ''provider stream finished with an incomplete tool call''
          else if ta_name t = [] then asm_fail a ''provider tool call has no name''
          else res_bind (parseToolInput parse a t) (\<lambda>input. Inr (P_tool (tool_part_id (ta_index t)) (ta_id t) (ta_name t) input)))"

definition complete_part :: "(string \<Rightarrow> json option) \<Rightarrow> assembler \<Rightarrow> string \<Rightarrow> ProviderStreamError + part" where
  "complete_part parse a p =
     (case map_of (as_images a) p of
        Some (mime, b) \<Rightarrow> Inr (P_image p mime b)
      | None \<Rightarrow>
          if as_partKinds a p = Some PK_tool then complete_tool parse a p
          else (case as_text a p of
                  Some t \<Rightarrow> Inr (P_text p t)
                | None \<Rightarrow> (case as_reasoning a p of
                    None \<Rightarrow> asm_fail a (''provider part '' @ p @ '' has no assembled content'')
                  | Some (t, v) \<Rightarrow> Inr (P_reasoning p t v (as_stateByPart a p)))))"

fun is_tool_part :: "part \<Rightarrow> bool" where
  "is_tool_part (P_tool i t n x) = True"
| "is_tool_part _ = False"

fun finishReasonText :: "FinishReason \<Rightarrow> string" where
  "finishReasonText FR_stop = ''stop''"
| "finishReasonText FR_length = ''length''"
| "finishReasonText FR_tool_calls = ''tool_calls''"
| "finishReasonText FR_content_filter = ''content_filter''"
| "finishReasonText FR_other = ''other''"

definition complete :: "(string \<Rightarrow> json option) \<Rightarrow> assembler \<Rightarrow> ProviderStreamError + ProviderResponseCandidate" where
  "complete parse a =
     (case as_error a of
        Some e \<Rightarrow> Inl \<lparr>se_detail = e, se_outputObserved = as_outputObserved a\<rparr>
      | None \<Rightarrow>
          (case as_finish a of
             None \<Rightarrow> asm_fail a ''provider stream ended without a terminal event''
           | Some f \<Rightarrow>
               if as_images a \<noteq> [] \<and> fst f \<noteq> FR_stop \<and> fst f \<noteq> FR_tool_calls
               then asm_fail a ''incomplete image response cannot be published''
               else res_bind (map_result (complete_part parse a) (as_partOrder a)) (\<lambda>parts.
                 if (fst f = FR_tool_calls) \<noteq> list_ex is_tool_part parts
                 then asm_fail a (if fst f = FR_tool_calls then ''provider finished with tool_calls but emitted no tool call''
                   else ''provider emitted a tool call but finished with '' @ finishReasonText (fst f))
                 else Inr \<lparr>rc_parts = parts, rc_providerState = as_states a, rc_usage = as_usage a, rc_finish = f\<rparr>)))"

section \<open>Consumption\<close>

datatype modality = M_text | M_image | M_other string

text \<open>What the stream or a callback throws: an error of this kind, or another one with its message.\<close>

datatype stream_thrown = T_provider ProviderStreamError | T_other string

record ConsumeOptions =
  op_providerId :: string
  op_modelId :: string
  op_modelModalities :: "modality list"
  op_adapterModalities :: "modality list"
  op_outputModalities :: "modality list option"
  op_events :: "ProviderEvent list"
  op_throws :: "stream_thrown option"
  op_checkpoint :: "nat \<Rightarrow> stream_thrown option"

datatype ProviderObservedEvent = O_event ProviderEvent | O_image string string nat

record consumer =
  cn_assembler :: assembler
  cn_terminal :: bool
  cn_pulled :: "ProviderEvent list"
  cn_observed :: "ProviderObservedEvent list"

fun observation :: "ProviderEvent \<Rightarrow> ProviderObservedEvent list" where
  "observation (E_image p mime b) = [O_image p mime (length b)]"
| "observation (E_state s p) = []"
| "observation ev = [O_event ev]"

fun is_terminal_event :: "ProviderEvent \<Rightarrow> bool" where
  "is_terminal_event (E_finish r) = True"
| "is_terminal_event (E_error e) = True"
| "is_terminal_event _ = False"

definition lift_error :: "ProviderStreamError + 'a \<Rightarrow> stream_thrown + 'a" where
  "lift_error r = (case r of Inl e \<Rightarrow> Inl (T_provider e) | Inr x \<Rightarrow> Inr x)"

text \<open>The body of the loop, for the event with its number.\<close>

definition consume_event :: "(nat \<Rightarrow> stream_thrown option) \<Rightarrow> nat \<times> ProviderEvent \<Rightarrow> (consumer, stream_thrown, unit) eff" where
  "consume_event checkpoint ie s =
     (let ev = snd ie;
          s = s\<lparr>cn_assembler := observeOutput ev (cn_assembler s), cn_pulled := cn_pulled s @ [ev]\<rparr>
      in if cn_terminal s
         then (lift_error (asm_fail (cn_assembler s) ''provider emitted an event after its terminal event''), s)
         else case checkpoint (fst ie) of
           Some e \<Rightarrow> (Inl e, s)
         | None \<Rightarrow>
             (case accept ev (cn_assembler s) of
                Inl e \<Rightarrow> (Inl (T_provider e), s)
              | Inr a \<Rightarrow> (Inr (), s\<lparr>cn_assembler := a, cn_observed := cn_observed s @ observation ev,
                  cn_terminal := is_terminal_event ev\<rparr>)))"

definition consume_stream :: "ConsumeOptions \<Rightarrow> (consumer, stream_thrown, unit) eff" where
  "consume_stream o1 =
     eff_bind (eff_for_each (consume_event (op_checkpoint o1)) (zip [0..<length (op_events o1)] (op_events o1)))
       (\<lambda>_. case op_throws o1 of None \<Rightarrow> eff_return () | Some e \<Rightarrow> eff_throw e)"

definition output_modalities :: "ConsumeOptions \<Rightarrow> modality list" where
  "output_modalities o1 = (case op_outputModalities o1 of None \<Rightarrow> [M_text] | Some ms \<Rightarrow> ms)"

definition modalities_bad :: "ConsumeOptions \<Rightarrow> bool" where
  "modalities_bad o1 =
     (let output = output_modalities o1 in
      output = [] \<or> \<not> distinct output \<or> \<not> set output \<subseteq> set (op_modelModalities o1) \<or> \<not> set output \<subseteq> set (op_adapterModalities o1) \<or>
      \<not> set output \<subseteq> {M_text, M_image})"

definition rethrow :: "ConsumeOptions \<Rightarrow> stream_thrown \<Rightarrow> assembler \<Rightarrow> ProviderStreamError" where
  "rethrow o1 e a =
     (case e of
        T_provider x \<Rightarrow> if \<not> as_outputObserved a \<or> se_outputObserved x then x else x\<lparr>se_outputObserved := True\<rparr>
      | T_other m \<Rightarrow> \<lparr>se_detail = protocolProviderError (op_providerId o1) (op_modelId o1)
            (if M_image \<in> set (output_modalities o1) then ''provider image stream failed before a complete response''
             else ''provider stream threw instead of emitting an error event: '' @ m),
          se_outputObserved = as_outputObserved a\<rparr>)"

definition start_consumer :: "ConsumeOptions \<Rightarrow> consumer" where
  "start_consumer o1 =
     \<lparr>cn_assembler = new_assembler (op_providerId o1) (op_modelId o1) (M_image \<in> set (output_modalities o1))
        (M_text \<in> set (output_modalities o1)), cn_terminal = False, cn_pulled = [], cn_observed = []\<rparr>"

definition consumeProviderStream ::
  "(string \<Rightarrow> json option) \<Rightarrow> ConsumeOptions \<Rightarrow> (ProviderStreamError + ProviderResponseCandidate) \<times> consumer" where
  "consumeProviderStream parse o1 =
     (let s = start_consumer o1 in
      if modalities_bad o1
      then (asm_fail (cn_assembler s) ''requested output modalities are not supported by the selected model and adapter'', s)
      else case consume_stream o1 s of
        (Inl e, t) \<Rightarrow> (Inl (rethrow o1 e (cn_assembler t)), t)
      | (Inr _, t) \<Rightarrow> (complete parse (cn_assembler t), t))"

fun is_image_part :: "part \<Rightarrow> bool" where
  "is_image_part (P_image p m b) = True"
| "is_image_part _ = False"

text \<open>The error of \<open>consumeTextProviderStream\<close> for an image is a plain one.\<close>

definition consumeTextProviderStream ::
  "(string \<Rightarrow> json option) \<Rightarrow> ConsumeOptions \<Rightarrow> (stream_thrown + ProviderResponseCandidate) \<times> consumer" where
  "consumeTextProviderStream parse o1 =
     (if \<not> set (output_modalities o1) \<subseteq> {M_text}
      then (Inl (T_provider \<lparr>se_detail = protocolProviderError (op_providerId o1) (op_modelId o1)
          ''text-only consumer cannot request image output'', se_outputObserved = False\<rparr>), start_consumer o1)
      else case consumeProviderStream parse (o1\<lparr>op_outputModalities := Some [M_text]\<rparr>) of
        (Inl e, t) \<Rightarrow> (Inl (T_provider e), t)
      | (Inr r, t) \<Rightarrow> if list_ex is_image_part (rc_parts r)
          then (Inl (T_other ''text-only provider response contains an image candidate''), t) else (Inr r, t))"

end
