(* ===== verification/Provider_Safety.thy ===== *)
theory Provider_Safety
  imports Provider_Turn
begin

text \<open>
  What the consumption of a provider stream promises. A response has every piece of output that
  the provider sent, once, in order and under its own part; and an error that is thrown after
  output was seen says so, since the runtime does not repeat such a request.
\<close>

section \<open>The message that the events describe\<close>

fun part_of :: "ProviderEvent \<Rightarrow> (string \<times> part_kind) option" where
  "part_of (E_text p d) = Some (p, PK_text)"
| "part_of (E_image p m b) = Some (p, PK_image)"
| "part_of (E_reasoning p d v) = Some (p, PK_reasoning)"
| "part_of (E_tool_start i t) = Some (tool_part_id i, PK_tool)"
| "part_of _ = None"

definition part_ids :: "ProviderEvent list \<Rightarrow> string list" where
  "part_ids evs = map fst (List.map_filter part_of evs)"

text \<open>Each element once, where it comes first.\<close>

definition first_seen :: "'a list \<Rightarrow> 'a list" where
  "first_seen xs = rev (remdups (rev xs))"

lemma first_seen_snoc [simp]: "first_seen (xs @ [x]) = first_seen xs @ (if x \<in> set xs then [] else [x])"
  by (simp add: first_seen_def)

lemma first_seen_Nil [simp]: "first_seen [] = []"
  by (simp add: first_seen_def)

lemma set_first_seen [simp]: "set (first_seen xs) = set xs"
  by (simp add: first_seen_def)

text \<open>The pieces that \<open>f\<close> takes from the events.\<close>

definition pieces :: "(ProviderEvent \<Rightarrow> string option) \<Rightarrow> ProviderEvent list \<Rightarrow> string" where
  "pieces f evs = concat (List.map_filter f evs)"

lemma pieces_Nil [simp]: "pieces f [] = []"
  by (simp add: pieces_def)

lemma map_filter_snoc [simp]: "List.map_filter f (xs @ [x]) = List.map_filter f xs @ (case f x of None \<Rightarrow> [] | Some y \<Rightarrow> [y])"
  by (induction xs) (auto simp: List.map_filter_def)

lemma pieces_snoc [simp]: "pieces f (evs @ [ev]) = pieces f evs @ (case f ev of None \<Rightarrow> [] | Some s \<Rightarrow> s)"
  by (auto simp: pieces_def split: option.splits)

fun text_piece :: "string \<Rightarrow> ProviderEvent \<Rightarrow> string option" where
  "text_piece p (E_text q d) = (if q = p then Some d else None)"
| "text_piece p _ = None"

fun reasoning_piece :: "string \<Rightarrow> ProviderEvent \<Rightarrow> string option" where
  "reasoning_piece p (E_reasoning q d v) = (if q = p then Some d else None)"
| "reasoning_piece p _ = None"

fun name_piece :: "string \<Rightarrow> ProviderEvent \<Rightarrow> string option" where
  "name_piece t (E_tool_delta u n j) = (if u = t then n else None)"
| "name_piece t _ = None"

fun input_piece :: "string \<Rightarrow> ProviderEvent \<Rightarrow> string option" where
  "input_piece t (E_tool_delta u n j) = (if u = t then j else None)"
| "input_piece t _ = None"

text \<open>The last visibility that was given.\<close>

fun visibility_step :: "string \<Rightarrow> ReasoningVisibility \<Rightarrow> ProviderEvent \<Rightarrow> ReasoningVisibility" where
  "visibility_step p w (E_reasoning q d (Some v)) = (if q = p then v else w)"
| "visibility_step p w _ = w"

definition visibility_of :: "ProviderEvent list \<Rightarrow> string \<Rightarrow> ReasoningVisibility" where
  "visibility_of evs p = foldl (visibility_step p) RV_internal evs"

fun state_step :: "string \<Rightarrow> ProviderState option \<Rightarrow> ProviderEvent \<Rightarrow> ProviderState option" where
  "state_step p w (E_state s (Some q)) = (if q = p then Some s else w)"
| "state_step p w _ = w"

definition state_of :: "ProviderEvent list \<Rightarrow> string \<Rightarrow> ProviderState option" where
  "state_of evs p = foldl (state_step p) None evs"

fun any_state :: "ProviderEvent \<Rightarrow> ProviderState option" where
  "any_state (E_state s p) = Some s"
| "any_state _ = None"

fun usage_step :: "ProviderUsage option \<Rightarrow> ProviderEvent \<Rightarrow> ProviderUsage option" where
  "usage_step w (E_usage u) = Some u"
| "usage_step w _ = w"

fun part_id :: "part \<Rightarrow> string" where
  "part_id (P_text p t) = p"
| "part_id (P_reasoning p t v s) = p"
| "part_id (P_tool p i n x) = p"
| "part_id (P_image p m b) = p"

fun kind_of :: "part \<Rightarrow> part_kind" where
  "kind_of (P_text p t) = PK_text"
| "kind_of (P_reasoning p t v s) = PK_reasoning"
| "kind_of (P_tool p i n x) = PK_tool"
| "kind_of (P_image p m b) = PK_image"

fun part_ok :: "(string \<Rightarrow> json option) \<Rightarrow> ProviderEvent list \<Rightarrow> part \<Rightarrow> bool" where
  "part_ok parse evs (P_text p t) \<longleftrightarrow> t = pieces (text_piece p) evs"
| "part_ok parse evs (P_reasoning p t v s) \<longleftrightarrow> t = pieces (reasoning_piece p) evs \<and> v = visibility_of evs p \<and> s = state_of evs p"
| "part_ok parse evs (P_tool p t n x) \<longleftrightarrow> (\<exists>i. p = tool_part_id i \<and> E_tool_start i t \<in> set evs) \<and> E_tool_end t \<in> set evs \<and>
     n = pieces (name_piece t) evs \<and> n \<noteq> [] \<and>
     (if pieces (input_piece t) evs = [] then x = JObj [] else parse (pieces (input_piece t) evs) = Some x \<and> is_json_object x)"
| "part_ok parse evs (P_image p m b) \<longleftrightarrow> E_image p m b \<in> set evs \<and> validateImageOutput p m b = None"

text \<open>The response that the events before the last one describe.\<close>

definition response_of :: "(string \<Rightarrow> json option) \<Rightarrow> ProviderEvent list \<Rightarrow> ProviderResponseCandidate \<Rightarrow> bool" where
  "response_of parse evs r \<longleftrightarrow> map part_id (rc_parts r) = first_seen (part_ids evs) \<and>
     list_all (part_ok parse evs) (rc_parts r) \<and>
     list_all (\<lambda>ev. case part_of ev of None \<Rightarrow> True | Some (p, k) \<Rightarrow> (p, k) \<in> (\<lambda>x. (part_id x, kind_of x)) ` set (rc_parts r)) evs \<and>
     rc_providerState r = List.map_filter any_state evs \<and> rc_usage r = foldl usage_step None evs \<and>
     (fst (rc_finish r) = FR_tool_calls \<longleftrightarrow> list_ex is_tool_part (rc_parts r))"

section \<open>The assembler follows the events\<close>

lemma asm_fail_never [simp]: "asm_fail a m = Inr x \<longleftrightarrow> False"
  by (simp add: asm_fail_def)

lemma addPart_Inr:
  "addPart p k a = Inr b \<longleftrightarrow> p \<noteq> [] \<and>
     (as_partKinds a p = Some k \<and> (as_images a = [] \<or> as_partOrder a \<noteq> [] \<and> last (as_partOrder a) = p) \<and> b = a \<or>
      as_partKinds a p = None \<and> b = a\<lparr>as_partKinds := (as_partKinds a)(p \<mapsto> k), as_partOrder := as_partOrder a @ [p]\<rparr>)"
  by (auto simp: addPart_def split: option.splits if_splits)

lemma requireNonEmpty_Inr [simp]: "requireNonEmpty a v l = Inr u \<longleftrightarrow> v \<noteq> []"
  by (simp add: requireNonEmpty_def)

lemma requireOpenTool_Inr: "requireOpenTool a t = Inr tool \<longleftrightarrow> map_of (as_tools a) t = Some tool \<and> \<not> ta_ended tool"
  by (auto simp: requireOpenTool_def split: option.splits)

lemmas accept_simps = addPart_Inr requireOpenTool_Inr res_bind_eq_Inr Let_def

definition order_inv :: "ProviderEvent list \<Rightarrow> assembler \<Rightarrow> bool" where
  "order_inv evs a \<longleftrightarrow> as_partOrder a = first_seen (part_ids evs) \<and> (\<forall>p. p \<in> set (part_ids evs) \<longleftrightarrow> as_partKinds a p \<noteq> None) \<and>
     (\<forall>ev \<in> set evs. \<forall>p k. part_of ev = Some (p, k) \<longrightarrow> as_partKinds a p = Some k)"

lemma part_ids_snoc [simp]: "part_ids (evs @ [ev]) = part_ids evs @ (case part_of ev of None \<Rightarrow> [] | Some (p, k) \<Rightarrow> [p])"
  by (auto simp: part_ids_def split: option.splits)

lemma order_step:
  assumes "accept ev a = Inr b" "part_of ev = Some (p, k)"
  shows "as_partKinds a p = Some k \<and> as_partKinds b = as_partKinds a \<and> as_partOrder b = as_partOrder a \<or>
    as_partKinds a p = None \<and> as_partKinds b = (as_partKinds a)(p \<mapsto> k) \<and> as_partOrder b = as_partOrder a @ [p]"
  using assms by (cases ev) (auto simp: accept_simps split: if_splits option.splits)

lemma order_frame:
  assumes "accept ev a = Inr b" "part_of ev = None"
  shows "as_partKinds b = as_partKinds a \<and> as_partOrder b = as_partOrder a"
  using assms by (cases ev) (auto simp: accept_simps set_tool_def split: if_splits option.splits)

lemma order_kept: "accept ev a = Inr b \<Longrightarrow> order_inv evs a \<Longrightarrow> order_inv (evs @ [ev]) b"
proof (cases "part_of ev")
  case (Some pk)
  obtain p k where pk: "pk = (p, k)" by fastforce
  assume acc: "accept ev a = Inr b" and inv: "order_inv evs a"
  from order_step [OF acc] Some pk show ?thesis using inv by (auto simp: order_inv_def)
next
  case None
  assume "accept ev a = Inr b" "order_inv evs a"
  with order_frame [OF _ None] show ?thesis using None by (auto simp: order_inv_def)
qed

lemma pieces_none: "(\<And>ev. ev \<in> set evs \<Longrightarrow> f ev = None) \<Longrightarrow> pieces f evs = []"
  by (induction evs rule: rev_induct) auto

lemma fresh_part:
  assumes "order_inv evs a" "as_partKinds a p \<noteq> Some k" "ev \<in> set evs"
  shows "part_of ev \<noteq> Some (p, k)"
  using assms by (auto simp: order_inv_def)

definition text_inv :: "ProviderEvent list \<Rightarrow> assembler \<Rightarrow> bool" where
  "text_inv evs a \<longleftrightarrow> (\<forall>p. as_text a p = (if as_partKinds a p = Some PK_text then Some (pieces (text_piece p) evs) else None))"

lemma text_fresh: "order_inv evs a \<Longrightarrow> as_partKinds a p \<noteq> Some PK_text \<Longrightarrow> pieces (text_piece p) evs = []"
proof (rule pieces_none)
  fix ev
  assume "order_inv evs a" "as_partKinds a p \<noteq> Some PK_text" "ev \<in> set evs"
  then show "text_piece p ev = None" using fresh_part [of evs a p PK_text ev] by (cases ev) auto
qed

lemma text_kept:
  assumes acc: "accept ev a = Inr b" and inv: "order_inv evs a" "text_inv evs a"
  shows "text_inv (evs @ [ev]) b"
proof (cases "\<exists>q d. ev = E_text q d")
  case True
  then obtain q d where ev: "ev = E_text q d" by blast
  have fresh: "as_partKinds a q = None \<Longrightarrow> pieces (text_piece q) evs = []" using text_fresh [OF inv(1), of q] by simp
  note at = inv(2) [unfolded text_inv_def, rule_format]
  show ?thesis unfolding text_inv_def
  proof
    fix p
    show "as_text b p = (if as_partKinds b p = Some PK_text then Some (pieces (text_piece p) (evs @ [ev])) else None)"
      using acc fresh by (auto simp: ev accept_simps opt_text_def at split: if_splits)
  qed
next
  case False
  then have "text_piece p ev = None" for p by (cases ev) auto
  moreover have "as_text b = as_text a \<and> (\<forall>p. as_partKinds b p = Some PK_text \<longleftrightarrow> as_partKinds a p = Some PK_text)"
    using acc False by (cases ev) (auto simp: accept_simps set_tool_def split: if_splits option.splits)
  ultimately show ?thesis using inv(2) by (simp add: text_inv_def)
qed

definition reasoning_inv :: "ProviderEvent list \<Rightarrow> assembler \<Rightarrow> bool" where
  "reasoning_inv evs a \<longleftrightarrow> (\<forall>p. as_reasoning a p =
     (if as_partKinds a p = Some PK_reasoning then Some (pieces (reasoning_piece p) evs, visibility_of evs p) else None))"

lemma reasoning_fresh:
  assumes "order_inv evs a" "as_partKinds a p \<noteq> Some PK_reasoning"
  shows "pieces (reasoning_piece p) evs = [] \<and> visibility_of evs p = RV_internal"
proof -
  have none: "part_of ev \<noteq> Some (p, PK_reasoning)" if "ev \<in> set evs" for ev using fresh_part [OF assms that] .
  have "reasoning_piece p ev = None \<and> visibility_step p w ev = w" if "ev \<in> set evs" for ev w
    using none [OF that] by (cases "(p, w, ev)" rule: visibility_step.cases) (cases ev, auto)+
  then have "pieces (reasoning_piece p) evs = []" "foldl (visibility_step p) w evs = w" for w
    by (auto intro: pieces_none) (induction evs arbitrary: w, auto)
  then show ?thesis by (simp add: visibility_of_def)
qed

lemma reasoning_kept:
  assumes acc: "accept ev a = Inr b" and inv: "order_inv evs a" "reasoning_inv evs a"
  shows "reasoning_inv (evs @ [ev]) b"
proof (cases "\<exists>q d v. ev = E_reasoning q d v")
  case True
  then obtain q d v where ev: "ev = E_reasoning q d v" by blast
  have step: "visibility_of (evs @ [ev]) p = (if p = q then (case v of None \<Rightarrow> visibility_of evs p | Some w \<Rightarrow> w) else visibility_of evs p)" for p
    by (cases v) (auto simp: visibility_of_def ev)
  have fresh: "as_partKinds a q = None \<Longrightarrow> pieces (reasoning_piece q) evs = [] \<and> visibility_of evs q = RV_internal"
    using reasoning_fresh [OF inv(1), of q] by simp
  note at = inv(2) [unfolded reasoning_inv_def, rule_format]
  show ?thesis unfolding reasoning_inv_def
  proof
    fix p
    show "as_reasoning b p = (if as_partKinds b p = Some PK_reasoning
        then Some (pieces (reasoning_piece p) (evs @ [ev]), visibility_of (evs @ [ev]) p) else None)"
      unfolding step using acc fresh by (cases v) (auto simp: ev accept_simps at split: if_splits)
  qed
next
  case False
  then have "reasoning_piece p ev = None" "visibility_of (evs @ [ev]) p = visibility_of evs p" for p
    by (cases ev; simp add: visibility_of_def)+
  moreover have "as_reasoning b = as_reasoning a \<and> (\<forall>p. as_partKinds b p = Some PK_reasoning \<longleftrightarrow> as_partKinds a p = Some PK_reasoning)"
    using acc False by (cases ev) (auto simp: accept_simps set_tool_def split: if_splits option.splits)
  ultimately show ?thesis using inv(2) by (simp add: reasoning_inv_def)
qed

definition image_inv :: "ProviderEvent list \<Rightarrow> assembler \<Rightarrow> bool" where
  "image_inv evs a \<longleftrightarrow> (\<forall>p m b. (p, (m, b)) \<in> set (as_images a) \<longrightarrow> E_image p m b \<in> set evs \<and> validateImageOutput p m b = None) \<and>
     (\<forall>p. as_partKinds a p = Some PK_image \<longleftrightarrow> p \<in> fst ` set (as_images a))"

lemma image_kept:
  assumes acc: "accept ev a = Inr b" and inv: "image_inv evs a"
  shows "image_inv (evs @ [ev]) b"
proof (cases "\<exists>q m d. ev = E_image q m d")
  case True
  then obtain q m d where ev: "ev = E_image q m d" by blast
  have "validateImageOutput q m d = None" "as_images b = as_images a @ [(q, (m, d))]"
    "\<forall>p. as_partKinds b p = (if p = q then Some PK_image else as_partKinds a p)"
    using acc by (auto simp: ev accept_simps split: if_splits option.splits)
  then show ?thesis using inv by (auto simp: image_inv_def ev)
next
  case False
  have "as_images b = as_images a \<and> (\<forall>p. as_partKinds b p = Some PK_image \<longleftrightarrow> as_partKinds a p = Some PK_image)"
    using acc False by (cases ev) (auto simp: accept_simps set_tool_def split: if_splits option.splits)
  then show ?thesis using inv unfolding image_inv_def by auto
qed

definition tool_ok :: "ProviderEvent list \<Rightarrow> string \<Rightarrow> ToolAssembly \<Rightarrow> bool" where
  "tool_ok evs t x \<longleftrightarrow> ta_id x = t \<and> E_tool_start (ta_index x) t \<in> set evs \<and> ta_name x = pieces (name_piece t) evs \<and>
     ta_inputJson x = pieces (input_piece t) evs \<and> (ta_ended x \<longrightarrow> E_tool_end t \<in> set evs)"

definition tool_inv :: "ProviderEvent list \<Rightarrow> assembler \<Rightarrow> bool" where
  "tool_inv evs a \<longleftrightarrow> (\<forall>t x. (t, x) \<in> set (as_tools a) \<longrightarrow> tool_ok evs t x) \<and>
     (\<forall>t. t \<notin> fst ` set (as_tools a) \<longrightarrow> pieces (name_piece t) evs = [] \<and> pieces (input_piece t) evs = [])"

lemma tool_ok_frame: "tool_ok evs t x \<Longrightarrow> name_piece t ev = None \<Longrightarrow> input_piece t ev = None \<Longrightarrow> tool_ok (evs @ [ev]) t x"
  by (auto simp: tool_ok_def)

lemma fst_set_tool: "fst ` set (as_tools (set_tool x a)) = fst ` set (as_tools a)"
proof -
  have "map fst (as_tools (set_tool x a)) = map fst (as_tools a)" by (simp add: set_tool_def)
  then show ?thesis by (metis list.set_map)
qed

lemma in_set_tool: "(t, y) \<in> set (as_tools (set_tool x a)) \<Longrightarrow> t = ta_id x \<and> y = x \<or> t \<noteq> ta_id x \<and> (t, y) \<in> set (as_tools a)"
  by (auto simp: set_tool_def split: if_splits)

lemma tool_kept:
  assumes acc: "accept ev a = Inr b" and inv: "tool_inv evs a"
  shows "tool_inv (evs @ [ev]) b"
proof -
  note rows = inv [unfolded tool_inv_def]
  consider (start) i t where "ev = E_tool_start i t" | (delta) t n j where "ev = E_tool_delta t n j" | (tool_end) t where "ev = E_tool_end t"
    | (other) "\<forall>t. name_piece t ev = None \<and> input_piece t ev = None" "as_tools b = as_tools a"
    using acc by (cases ev) (auto simp: accept_simps split: if_splits option.splits)
  then show ?thesis
  proof cases
    case start
    let ?x = "\<lparr>ta_index = i, ta_id = t, ta_name = [], ta_inputJson = [], ta_ended = False\<rparr>"
    have b: "t \<notin> fst ` set (as_tools a)" "as_tools b = as_tools a @ [(t, ?x)]"
      using acc by (auto simp: start accept_simps split: if_splits)
    then have "tool_ok (evs @ [ev]) t ?x" using rows by (simp add: tool_ok_def start)
    then show ?thesis using b rows tool_ok_frame by (auto simp: tool_inv_def start)
  next
    case delta
    then obtain x where x: "(t, x) \<in> set (as_tools a)" "\<not> ta_ended x"
      and b: "b = set_tool (x\<lparr>ta_name := ta_name x @ opt_text n, ta_inputJson := ta_inputJson x @ opt_text j\<rparr>) a"
      using acc by (auto simp: accept_simps dest: map_of_SomeD split: if_splits)
    let ?y = "x\<lparr>ta_name := ta_name x @ opt_text n, ta_inputJson := ta_inputJson x @ opt_text j\<rparr>"
    have xt: "tool_ok evs t x" using x(1) rows by blast
    then have "tool_ok (evs @ [ev]) t ?y" using x(2) by (auto simp: tool_ok_def delta opt_text_def split: option.splits)
    moreover have "tool_ok (evs @ [ev]) u y" if "(u, y) \<in> set (as_tools a)" "u \<noteq> t" for u y
      using that rows by (intro tool_ok_frame) (auto simp: delta)
    moreover have "ta_id ?y = t" using xt by (simp add: tool_ok_def)
    ultimately have "\<forall>u y. (u, y) \<in> set (as_tools b) \<longrightarrow> tool_ok (evs @ [ev]) u y"
      unfolding b using in_set_tool [of _ _ ?y a] by metis
    moreover have "u \<notin> fst ` set (as_tools b) \<Longrightarrow> u \<noteq> t" for u using x(1) by (force simp: b fst_set_tool)
    ultimately show ?thesis using rows by (auto simp: tool_inv_def b fst_set_tool delta)
  next
    case tool_end
    then obtain x where x: "(t, x) \<in> set (as_tools a)" and b: "b = set_tool (x\<lparr>ta_ended := True\<rparr>) a"
      using acc by (auto simp: accept_simps dest: map_of_SomeD split: if_splits)
    have xt: "tool_ok evs t x" using x rows by blast
    then have "tool_ok (evs @ [ev]) t (x\<lparr>ta_ended := True\<rparr>)" by (simp add: tool_ok_def tool_end)
    moreover have "tool_ok (evs @ [ev]) u y" if "(u, y) \<in> set (as_tools a)" for u y
      using that rows by (intro tool_ok_frame) (auto simp: tool_end)
    moreover have "ta_id (x\<lparr>ta_ended := True\<rparr>) = t" using xt by (simp add: tool_ok_def)
    ultimately have "\<forall>u y. (u, y) \<in> set (as_tools b) \<longrightarrow> tool_ok (evs @ [ev]) u y"
      unfolding b using in_set_tool [of _ _ "x\<lparr>ta_ended := True\<rparr>" a] by metis
    then show ?thesis using rows by (auto simp: tool_inv_def b fst_set_tool tool_end)
  next
    case other
    then show ?thesis using rows tool_ok_frame by (auto simp: tool_inv_def)
  qed
qed

definition rest_inv :: "ProviderEvent list \<Rightarrow> assembler \<Rightarrow> bool" where
  "rest_inv evs a \<longleftrightarrow> as_states a = List.map_filter any_state evs \<and> as_stateByPart a = state_of evs \<and>
     as_usage a = foldl usage_step None evs"

lemma rest_kept:
  assumes acc: "accept ev a = Inr b" and inv: "rest_inv evs a"
  shows "rest_inv (evs @ [ev]) b"
proof (cases "(\<exists>st p. ev = E_state st p) \<or> (\<exists>u. ev = E_usage u)")
  case True
  then show ?thesis
  proof (elim disjE exE)
    fix st p
    assume ev: "ev = E_state st p"
    then show ?thesis using acc inv by (cases p) (auto simp: rest_inv_def state_of_def fun_eq_iff split: if_splits)
  next
    fix u
    assume ev: "ev = E_usage u"
    then show ?thesis using acc inv by (auto simp: rest_inv_def state_of_def accept_simps fun_eq_iff)
  qed
next
  case False
  have "state_step p w ev = w" "usage_step v ev = v" "any_state ev = None" for p v and w using False by (cases ev; simp)+
  moreover have "as_states b = as_states a \<and> as_stateByPart b = as_stateByPart a \<and> as_usage b = as_usage a"
    using acc False by (cases ev) (auto simp: accept_simps set_tool_def split: if_splits option.splits)
  ultimately show ?thesis using inv by (simp add: rest_inv_def state_of_def fun_eq_iff)
qed

definition assembled :: "ProviderEvent list \<Rightarrow> assembler \<Rightarrow> bool" where
  "assembled evs a \<longleftrightarrow> order_inv evs a \<and> text_inv evs a \<and> reasoning_inv evs a \<and> image_inv evs a \<and> tool_inv evs a \<and> rest_inv evs a"

lemmas assembled_defs = assembled_def order_inv_def text_inv_def reasoning_inv_def image_inv_def tool_inv_def rest_inv_def

lemma assembled_kept:
  assumes "accept ev a = Inr b" "assembled evs a"
  shows "assembled (evs @ [ev]) b"
proof -
  have a: "order_inv evs a" "text_inv evs a" "reasoning_inv evs a" "image_inv evs a" "tool_inv evs a" "rest_inv evs a"
    using assms(2) by (simp_all add: assembled_def)
  show ?thesis unfolding assembled_def
    using order_kept [OF assms(1) a(1)] text_kept [OF assms(1) a(1,2)] reasoning_kept [OF assms(1) a(1,3)]
      image_kept [OF assms(1) a(4)] tool_kept [OF assms(1) a(5)] rest_kept [OF assms(1) a(6)] by simp
qed

lemma assembled_observe [simp]: "assembled evs (a\<lparr>as_outputObserved := x\<rparr>) = assembled evs a"
  by (simp add: assembled_defs)

section \<open>The parts of the response\<close>

lemma assembled_start [simp]: "assembled [] (new_assembler i m x y)"
  by (simp add: assembled_defs new_assembler_def part_ids_def List.map_filter_def state_of_def fun_eq_iff)

lemma complete_tool_ok:
  assumes "complete_tool parse a p = Inr r" "assembled evs a"
  shows "part_id r = p \<and> kind_of r = PK_tool \<and> part_ok parse evs r"
proof -
  from assms(1) obtain x y where f: "List.find (\<lambda>t. tool_part_id (ta_index t) = p) (map snd (as_tools a)) = Some x"
    and x: "ta_ended x" "ta_name x \<noteq> []" "parseToolInput parse a x = Inr y" "r = P_tool (tool_part_id (ta_index x)) (ta_id x) (ta_name x) y"
    by (auto simp: complete_tool_def res_bind_eq_Inr split: option.splits if_splits)
  from f have p: "tool_part_id (ta_index x) = p" and "x \<in> set (map snd (as_tools a))"
    by (auto simp: find_Some_iff)
  then obtain t where "(t, x) \<in> set (as_tools a)" by auto
  then have ok: "tool_ok evs t x" using assms(2) by (auto simp: assembled_def tool_inv_def)
  have "if ta_inputJson x = [] then y = JObj [] else parse (ta_inputJson x) = Some y \<and> is_json_object y"
    using x(3) by (auto simp: parseToolInput_def split: if_splits option.splits)
  then show ?thesis using ok x p by (auto simp: tool_ok_def)
qed

lemma complete_part_ok:
  assumes c: "complete_part parse a p = Inr r" and inv: "assembled evs a"
  shows "part_id r = p \<and> as_partKinds a p = Some (kind_of r) \<and> part_ok parse evs r"
proof (cases "map_of (as_images a) p")
  case (Some mb)
  obtain m b where mb: "mb = (m, b)" by fastforce
  have "(p, (m, b)) \<in> set (as_images a)" using Some mb by (auto dest: map_of_SomeD)
  moreover have "r = P_image p m b" using c Some mb by (simp add: complete_part_def)
  ultimately show ?thesis using inv by (force simp: assembled_def image_inv_def)
next
  case None
  note texts = inv [unfolded assembled_def text_inv_def, THEN conjunct2, THEN conjunct1, rule_format]
  have r: "as_reasoning a p = (if as_partKinds a p = Some PK_reasoning then Some (pieces (reasoning_piece p) evs, visibility_of evs p) else None)"
    and st: "as_stateByPart a = state_of evs"
    using inv by (simp_all add: assembled_def reasoning_inv_def rest_inv_def)
  show ?thesis
  proof (cases "as_partKinds a p = Some PK_tool")
    case True
    then have "complete_tool parse a p = Inr r" using c None by (simp add: complete_part_def)
    from complete_tool_ok [OF this inv] show ?thesis using True by simp
  next
    case False
    then show ?thesis using c None by (auto simp: complete_part_def texts r st split: if_splits)
  qed
qed

lemma complete_parts_ok:
  assumes "map_result (complete_part parse a) ps = Inr rs" "assembled evs a"
  shows "map part_id rs = ps \<and> list_all (part_ok parse evs) rs \<and> list_all (\<lambda>r. as_partKinds a (part_id r) = Some (kind_of r)) rs"
  using assms(1)
proof (induction ps arbitrary: rs)
  case (Cons p ps)
  then obtain r rs' where "complete_part parse a p = Inr r" "map_result (complete_part parse a) ps = Inr rs'" "rs = r # rs'"
    by (auto simp: res_bind_eq_Inr)
  with Cons.IH complete_part_ok [OF _ assms(2)] show ?case by simp
qed simp

section \<open>The loop\<close>

definition ended_by :: "ProviderEvent list \<Rightarrow> assembler \<Rightarrow> bool" where
  "ended_by evs a \<longleftrightarrow> (\<exists>pre ev. evs = pre @ [ev] \<and> \<not> list_ex is_terminal_event pre \<and>
     ((\<exists>f. ev = E_finish f \<and> as_finish a = Some f) \<or> (\<exists>e. ev = E_error e \<and> as_error a = Some e)))"

definition followed :: "consumer \<Rightarrow> bool" where
  "followed s \<longleftrightarrow> assembled (cn_pulled s) (cn_assembler s) \<and>
     (if cn_terminal s then ended_by (cn_pulled s) (cn_assembler s)
      else \<not> list_ex is_terminal_event (cn_pulled s) \<and> as_finish (cn_assembler s) = None \<and> as_error (cn_assembler s) = None)"

definition marked :: "consumer \<Rightarrow> bool" where
  "marked s \<longleftrightarrow> as_outputObserved (cn_assembler s) = list_ex is_output (cn_pulled s)"

lemma assembled_observeOutput [simp]: "assembled evs (observeOutput ev a) = assembled evs a"
  by (simp add: observeOutput_def)

lemma observeOutput_fields [simp]:
  "as_finish (observeOutput ev a) = as_finish a" "as_error (observeOutput ev a) = as_error a"
  "as_outputObserved (observeOutput ev a) = (as_outputObserved a \<or> is_output ev)"
  by (simp_all add: observeOutput_def)

lemma accept_end:
  assumes "accept ev a = Inr b"
  shows "as_finish b = (case ev of E_finish f \<Rightarrow> Some f | _ \<Rightarrow> as_finish a)"
    and "as_error b = (case ev of E_error e \<Rightarrow> Some e | _ \<Rightarrow> as_error a)"
    and "as_outputObserved b = (as_outputObserved a \<or> is_output ev \<and> \<not> (\<exists>p m d. ev = E_image p m d))"
  using assms by (cases ev; auto simp: accept_simps set_tool_def split: if_splits option.splits)+

lemma event_followed:
  assumes run: "consume_event ck ie s = (Inr (), t)" and inv: "followed s"
  shows "followed t \<and> cn_pulled t = cn_pulled s @ [snd ie]"
proof -
  let ?ev = "snd ie" and ?a = "observeOutput (snd ie) (cn_assembler s)"
  from run obtain b where acc: "accept ?ev ?a = Inr b" and going: "\<not> cn_terminal s"
    and t: "cn_pulled t = cn_pulled s @ [?ev]" "cn_assembler t = b" "cn_terminal t = is_terminal_event ?ev"
    by (auto simp: consume_event_def Let_def lift_error_def asm_fail_def split: if_splits option.splits sum.splits)
  have inv': "assembled (cn_pulled s) ?a" "\<not> list_ex is_terminal_event (cn_pulled s)" "as_finish ?a = None" "as_error ?a = None"
    using inv going by (auto simp: followed_def)
  have "assembled (cn_pulled t) b" using assembled_kept [OF acc inv'(1)] t by simp
  moreover have "if is_terminal_event ?ev then ended_by (cn_pulled t) b
      else \<not> list_ex is_terminal_event (cn_pulled t) \<and> as_finish b = None \<and> as_error b = None"
    using accept_end (1,2) [OF acc] inv' t by (cases ?ev) (auto simp: ended_by_def)
  ultimately show ?thesis using t by (auto simp: followed_def split: if_splits)
qed

lemma event_marked:
  assumes "consume_event ck ie s = (r, t)" "marked s"
  shows "marked t \<and> cn_pulled t = cn_pulled s @ [snd ie]"
proof (cases r)
  case (Inr u)
  from assms(1) Inr obtain b where acc: "accept (snd ie) (observeOutput (snd ie) (cn_assembler s)) = Inr b"
    and t: "cn_pulled t = cn_pulled s @ [snd ie]" "cn_assembler t = b"
    by (auto simp: consume_event_def Let_def lift_error_def asm_fail_def split: if_splits option.splits sum.splits)
  show ?thesis using accept_end (3) [OF acc] t assms(2) by (auto simp: marked_def)
next
  case (Inl e)
  then have "cn_pulled t = cn_pulled s @ [snd ie]" "cn_assembler t = observeOutput (snd ie) (cn_assembler s)"
    using assms(1) by (auto simp: consume_event_def Let_def lift_error_def asm_fail_def split: if_splits option.splits sum.splits)
  then show ?thesis using assms(2) by (simp add: marked_def)
qed

lemma loop_followed:
  "eff_for_each (consume_event ck) xs s = (Inr (), t) \<Longrightarrow> followed s \<Longrightarrow> followed t \<and> cn_pulled t = cn_pulled s @ map snd xs"
proof (induction xs arbitrary: s)
  case (Cons x xs)
  then obtain u where u: "consume_event ck x s = (Inr (), u)" "eff_for_each (consume_event ck) xs u = (Inr (), t)"
    by (auto simp: eff_bind_def split: prod.splits sum.splits)
  from event_followed [OF u(1) Cons.prems(2)] Cons.IH [OF u(2)] show ?case by simp
qed (simp add: eff_return_def)

lemma loop_marked:
  "eff_for_each (consume_event ck) xs s = (r, t) \<Longrightarrow> marked s \<Longrightarrow> marked t \<and> (\<exists>n. cn_pulled t = cn_pulled s @ take n (map snd xs))"
proof (induction xs arbitrary: s)
  case (Cons x xs)
  obtain q u where q: "consume_event ck x s = (q, u)" by fastforce
  note step = event_marked [OF q Cons.prems(2)]
  show ?case
  proof (cases q)
    case (Inl e)
    then have "t = u" using Cons.prems(1) q by (simp add: eff_bind_def)
    moreover have "[snd x] = take 1 (map snd (x # xs))" by simp
    ultimately show ?thesis using step by metis
  next
    case (Inr v)
    then have "eff_for_each (consume_event ck) xs u = (r, t)" using Cons.prems(1) q by (simp add: eff_bind_def)
    from Cons.IH [OF this] step obtain n where "marked t" "cn_pulled t = cn_pulled s @ [snd x] @ take n (map snd xs)" by auto
    moreover have "[snd x] @ take n (map snd xs) = take (Suc n) (map snd (x # xs))" by simp
    ultimately show ?thesis by metis
  qed
next
  case Nil
  then show ?case by (simp add: eff_return_def)
qed

lemma start_followed [simp]: "followed (start_consumer o1)" and start_marked [simp]: "marked (start_consumer o1)"
  and start_pulled [simp]: "cn_pulled (start_consumer o1) = []"
  by (simp_all add: followed_def marked_def start_consumer_def) (simp_all add: new_assembler_def)

section \<open>Errors carry the mark\<close>

lemma asm_fail_Inl [simp]: "asm_fail a m = Inl e \<Longrightarrow> se_outputObserved e = as_outputObserved a"
  by (auto simp: asm_fail_def)

lemma validateUsage_Inl:
  assumes "validateUsage a u = Inl e"
  shows "se_outputObserved e = as_outputObserved a"
proof -
  from for_each_Inl [OF assms [unfolded validateUsage_def]] obtain t x where
    "(case x of (name, v) \<Rightarrow> (case v of None \<Rightarrow> Inr ()
       | Some n \<Rightarrow> if \<not> safe_count n then asm_fail a (''provider usage '' @ name @ '' must be a non-negative integer'')
           else (case as_usage a of
                   Some prior \<Rightarrow> (case map_of (usage_fields prior) name of
                       Some (Some p) \<Rightarrow> if n < p then asm_fail a (''provider cumulative usage '' @ name @ '' must not decrease'') else Inr ()
                     | _ \<Rightarrow> Inr ())
                 | None \<Rightarrow> Inr ()))) = Inl e" by (auto split: prod.splits)
  then show ?thesis by (auto split: prod.splits option.splits if_splits)
qed

lemma addPart_Inl: "addPart p k a = Inl e \<Longrightarrow> se_outputObserved e = as_outputObserved a"
  by (auto simp: addPart_def split: if_splits option.splits)

lemma requireOpenTool_Inl: "requireOpenTool a t = Inl e \<Longrightarrow> se_outputObserved e = as_outputObserved a"
  by (auto simp: requireOpenTool_def split: if_splits option.splits)

lemma requireNonEmpty_Inl: "requireNonEmpty a v l = Inl e \<Longrightarrow> se_outputObserved e = as_outputObserved a"
  by (auto simp: requireNonEmpty_def split: if_splits)

lemmas fails = validateUsage_Inl addPart_Inl requireOpenTool_Inl requireNonEmpty_Inl asm_fail_Inl

lemma accept_Inl: "accept ev a = Inl e \<Longrightarrow> se_outputObserved e = as_outputObserved a"
  by (cases ev) (auto simp: res_bind_eq_Inl Let_def dest: fails split: if_splits option.splits)

lemma complete_part_Inl: "complete_part parse a p = Inl e \<Longrightarrow> se_outputObserved e = as_outputObserved a"
  by (auto simp: complete_part_def complete_tool_def parseToolInput_def res_bind_eq_Inl split: if_splits option.splits)

lemma map_result_Inl: "map_result f xs = Inl e \<Longrightarrow> \<exists>x \<in> set xs. f x = Inl e"
  by (induction xs) (auto simp: res_bind_eq_Inl)

lemma complete_Inl: "complete parse a = Inl e \<Longrightarrow> se_outputObserved e = as_outputObserved a"
  by (auto simp: complete_def res_bind_eq_Inl dest!: map_result_Inl complete_part_Inl split: if_splits option.splits)

text \<open>
  An error that the stream or a callback throws may have the mark itself. \<open>came_marked o1 x\<close>: the
  loop ended with the marked error \<open>x\<close>, which the handler after the loop is given. \<open>sent_marked o1
  pulled x\<close>: \<open>x\<close> is what the stream threw after its events, or the callback at the last event that
  was pulled.
\<close>

definition came_marked :: "ConsumeOptions \<Rightarrow> ProviderStreamError \<Rightarrow> bool" where
  "came_marked o1 x \<longleftrightarrow> se_outputObserved x \<and> \<not> modalities_bad o1 \<and>
     fst (consume_stream o1 (start_consumer o1)) = Inl (T_provider x)"

definition sent_marked :: "ConsumeOptions \<Rightarrow> ProviderEvent list \<Rightarrow> ProviderStreamError \<Rightarrow> bool" where
  "sent_marked o1 pulled x \<longleftrightarrow> (pulled = op_events o1 \<and> op_throws o1 = Some (T_provider x)) \<or>
     (pulled \<noteq> [] \<and> op_checkpoint o1 (length pulled - 1) = Some (T_provider x))"

definition true_mark :: "ConsumeOptions \<Rightarrow> stream_thrown \<Rightarrow> consumer \<Rightarrow> bool" where
  "true_mark o1 e t \<longleftrightarrow> (\<forall>x. e = T_provider x \<and> se_outputObserved x \<longrightarrow>
     as_outputObserved (cn_assembler t) \<or> sent_marked o1 (cn_pulled t) x)"

lemma event_true_mark:
  "consume_event (op_checkpoint o1) ie s = (Inl e, t) \<Longrightarrow> fst ie = length (cn_pulled s) \<Longrightarrow> true_mark o1 e t"
  by (auto simp: consume_event_def Let_def lift_error_def true_mark_def sent_marked_def asm_fail_def
      dest!: accept_Inl split: if_splits option.splits sum.splits)

lemma event_pulled: "consume_event ck ie s = (r, t) \<Longrightarrow> cn_pulled t = cn_pulled s @ [snd ie]"
  by (auto simp: consume_event_def Let_def split: if_splits option.splits sum.splits)

lemma loop_true_mark:
  "eff_for_each (consume_event (op_checkpoint o1)) (zip [n..<n + length evs] evs) s = (r, t) \<Longrightarrow> length (cn_pulled s) = n \<Longrightarrow>
   (case r of Inl e \<Rightarrow> true_mark o1 e t | Inr _ \<Rightarrow> cn_pulled t = cn_pulled s @ evs)"
proof (induction evs arbitrary: n s)
  case (Cons ev evs)
  obtain q u where q: "consume_event (op_checkpoint o1) (n, ev) s = (q, u)" by fastforce
  have upt: "[n..<n + length (ev # evs)] = n # [Suc n..<Suc n + length evs]" by (subst upt_rec) (simp del: upt_Suc)
  note run = Cons.prems(1) [unfolded upt zip_Cons_Cons eff_for_each.simps eff_bind_def q]
  show ?case
  proof (cases q)
    case (Inl x)
    then show ?thesis using run event_true_mark [OF q [unfolded Inl]] Cons.prems(2) by auto
  next
    case (Inr x)
    then show ?thesis using run Cons.IH [of "Suc n" u] event_pulled [OF q] Cons.prems(2) by (auto split: sum.splits)
  qed
qed (auto simp: eff_return_def)

lemma stream_true_mark:
  assumes "consume_stream o1 (start_consumer o1) = (Inl e, t)"
  shows "true_mark o1 e t"
proof (cases "eff_for_each (consume_event (op_checkpoint o1)) (zip [0..<length (op_events o1)] (op_events o1)) (start_consumer o1)")
  case (Pair r u)
  note loop = loop_true_mark [of o1 0 "op_events o1" "start_consumer o1" r u]
  show ?thesis
  proof (cases r)
    case (Inl x)
    then show ?thesis using assms Pair loop by (auto simp: consume_stream_def eff_bind_def)
  next
    case (Inr x)
    then show ?thesis using assms Pair loop
      by (auto simp: consume_stream_def eff_bind_def eff_return_def eff_throw_def true_mark_def sent_marked_def split: option.splits)
  qed
qed

lemma map_snd_numbered [simp]: "map snd (zip [0..<length xs] xs) = xs"
  by simp

lemma stream_marked:
  assumes "consume_stream o1 s = (r, t)" "marked s"
  shows "marked t \<and> (\<exists>n. cn_pulled t = cn_pulled s @ take n (op_events o1))"
proof (cases "eff_for_each (consume_event (op_checkpoint o1)) (zip [0..<length (op_events o1)] (op_events o1)) s")
  case (Pair q u)
  then have "t = u" using assms(1)
    by (auto simp: consume_stream_def eff_bind_def eff_return_def eff_throw_def split: option.splits sum.splits)
  then show ?thesis using loop_marked [OF Pair assms(2)] by simp
qed

lemma stream_followed:
  assumes "consume_stream o1 s = (Inr (), t)" "followed s"
  shows "followed t \<and> cn_pulled t = cn_pulled s @ op_events o1 \<and> op_throws o1 = None"
proof (cases "eff_for_each (consume_event (op_checkpoint o1)) (zip [0..<length (op_events o1)] (op_events o1)) s")
  case (Pair q u)
  then have "t = u" "q = Inr ()" "op_throws o1 = None" using assms(1)
    by (auto simp: consume_stream_def eff_bind_def eff_return_def eff_throw_def split: option.splits sum.splits)
  then show ?thesis using loop_followed [of _ _ s t] Pair assms(2) by simp
qed

lemma consume_cases:
  assumes "consumeProviderStream parse o1 = (r, t)"
  obtains (refused) e where "t = start_consumer o1" "r = Inl e" "\<not> se_outputObserved e" "modalities_bad o1"
  | (thrown) x where "\<not> modalities_bad o1" "consume_stream o1 (start_consumer o1) = (Inl x, t)" "r = Inl (rethrow o1 x (cn_assembler t))"
  | (ended) "consume_stream o1 (start_consumer o1) = (Inr (), t)" "r = complete parse (cn_assembler t)"
  using assms
  by (auto simp: consumeProviderStream_def Let_def asm_fail_def start_consumer_def new_assembler_def split: if_splits prod.splits sum.splits)

section \<open>The response\<close>

lemma pieces_end [simp]:
  "pieces (text_piece p) (evs @ [E_finish f]) = pieces (text_piece p) evs"
  "pieces (reasoning_piece p) (evs @ [E_finish f]) = pieces (reasoning_piece p) evs"
  "pieces (name_piece p) (evs @ [E_finish f]) = pieces (name_piece p) evs"
  "pieces (input_piece p) (evs @ [E_finish f]) = pieces (input_piece p) evs"
  "visibility_of (evs @ [E_finish f]) p = visibility_of evs p"
  "state_of (evs @ [E_finish f]) p = state_of evs p"
  "part_ids (evs @ [E_finish f]) = part_ids evs"
  by (simp_all add: visibility_of_def state_of_def)

lemma part_ok_end [simp]: "part_ok parse (evs @ [E_finish f]) = part_ok parse evs"
proof
  show "part_ok parse (evs @ [E_finish f]) r = part_ok parse evs r" for r by (cases r) simp_all
qed

lemma covered:
  assumes inv: "order_inv evs a" and ids: "map part_id rs = as_partOrder a"
    and kinds: "list_all (\<lambda>r. as_partKinds a (part_id r) = Some (kind_of r)) rs" and ev: "ev \<in> set evs" "part_of ev = Some (p, k)"
  shows "(p, k) \<in> (\<lambda>x. (part_id x, kind_of x)) ` set rs"
proof -
  have k: "as_partKinds a p = Some k" using inv ev by (auto simp: order_inv_def)
  then have "p \<in> set (as_partOrder a)" using inv by (auto simp: order_inv_def)
  then obtain r where r: "r \<in> set rs" "part_id r = p" using ids by (metis imageE list.set_map)
  then have "kind_of r = k" using kinds k by (auto simp: list_all_iff)
  with r show ?thesis by force
qed

lemma complete_response:
  assumes c: "complete parse a = Inr r" and inv: "assembled (evs @ [E_finish f]) a" and fin: "as_finish a = Some f"
  shows "rc_finish r = f \<and> response_of parse evs r"
proof -
  from c fin have parts: "map_result (complete_part parse a) (as_partOrder a) = Inr (rc_parts r)"
    and rest: "rc_finish r = f" "rc_providerState r = as_states a" "rc_usage r = as_usage a"
      "fst f = FR_tool_calls \<longleftrightarrow> list_ex is_tool_part (rc_parts r)"
    by (auto simp: complete_def res_bind_eq_Inr split: option.splits if_splits)
  note ok = complete_parts_ok [OF parts inv]
  have order: "order_inv (evs @ [E_finish f]) a" "rest_inv (evs @ [E_finish f]) a" using inv by (simp_all add: assembled_def)
  have "list_all (\<lambda>ev. case part_of ev of None \<Rightarrow> True | Some (p, k) \<Rightarrow> (p, k) \<in> (\<lambda>x. (part_id x, kind_of x)) ` set (rc_parts r)) evs"
    using covered [OF order(1) _ _ _, of "rc_parts r"] ok by (auto simp: list_all_iff split: option.splits)
  then show ?thesis using ok rest order by (simp add: response_of_def order_inv_def rest_inv_def)
qed

text \<open>
  C9. A response comes only from a stream that ends with a \<open>finish\<close> event, its only terminal event,
  and does not throw. Its parts are in the order in which their identities first came; the text of a
  part is the concatenation of its own deltas, a tool call was started and ended and has its name and
  its input from its own deltas, an image is one that was sent and passed the checks; every output
  event has its part; the provider states, the last usage and the reason are those of the stream, and
  there is a tool call exactly if the reason says so.
\<close>

theorem turn_assembled:
  assumes run: "consumeProviderStream parse o1 = (Inr r, t)"
  shows "\<exists>evs. op_events o1 = evs @ [E_finish (rc_finish r)] \<and> op_throws o1 = None \<and> \<not> list_ex is_terminal_event evs \<and>
    response_of parse evs r"
  using run
proof (cases rule: consume_cases)
  case ended
  from stream_followed [OF ended(1)] have f: "followed t" "cn_pulled t = op_events o1" "op_throws o1 = None" by simp_all
  have c: "complete parse (cn_assembler t) = Inr r" using ended(2) by simp
  then have "as_error (cn_assembler t) = None" "as_finish (cn_assembler t) \<noteq> None"
    by (auto simp: complete_def split: option.splits)
  then obtain evs fin where e: "op_events o1 = evs @ [E_finish fin]" "\<not> list_ex is_terminal_event evs" "as_finish (cn_assembler t) = Some fin"
    using f by (auto simp: followed_def ended_by_def split: if_splits)
  have "assembled (evs @ [E_finish fin]) (cn_assembler t)" using f e by (simp add: followed_def)
  from complete_response [OF c this e(3)] show ?thesis using e f(3) by auto
qed simp_all

definition demo_events :: "ProviderEvent list" where
  "demo_events = [E_reasoning ''r'' ''hm'' None, E_text ''a'' ''He'' , E_tool_start 0 ''t1'', E_text ''a'' ''llo'',
     E_tool_delta ''t1'' (Some ''read'') None, E_tool_delta ''t1'' None (Some ''{}''), E_tool_end ''t1'']"

definition demo_stream :: ConsumeOptions where
  "demo_stream = \<lparr>op_providerId = ''p'', op_modelId = ''m'', op_modelModalities = [M_text], op_adapterModalities = [M_text, M_image],
     op_outputModalities = None, op_events = demo_events @ [E_finish (FR_tool_calls, None)], op_throws = None, op_checkpoint = (\<lambda>_. None)\<rparr>"

definition demo_response :: ProviderResponseCandidate where
  "demo_response = \<lparr>rc_parts = [P_reasoning ''r'' ''hm'' RV_internal None, P_text ''a'' ''Hello'', P_tool ''tool_call_0'' ''t1'' ''read'' (JObj [])],
     rc_providerState = [], rc_usage = None, rc_finish = (FR_tool_calls, None)\<rparr>"

lemma demo_stream_run: "fst (consumeProviderStream (\<lambda>_. Some (JObj [])) demo_stream) = Inr demo_response"
  by code_simp

theorem turn_assembled_witness:
  "fst (consumeProviderStream (\<lambda>_. Some (JObj [])) demo_stream) = Inr demo_response \<and>
   response_of (\<lambda>_. Some (JObj [])) demo_events demo_response"
  using turn_assembled [of "\<lambda>_. Some (JObj [])" demo_stream demo_response "snd (consumeProviderStream (\<lambda>_. Some (JObj [])) demo_stream)"]
    demo_stream_run
  by (auto simp: prod_eq_iff demo_stream_def)

text \<open>
  C11. When the consumption of a provider stream fails, whatever failed, its error is marked as having
  output observed exactly if an output event was among the events pulled before it, or the error that
  ended the loop was marked already. Such an error is passed on as it is, and if no output event was
  pulled, then it is the one that the stream threw after all its events or the callback threw at the
  last event pulled.
\<close>

theorem output_marked:
  assumes run: "consumeProviderStream parse o1 = (Inl e, t)"
  shows "(\<exists>n. cn_pulled t = take n (op_events o1)) \<and>
    (se_outputObserved e \<longleftrightarrow> list_ex is_output (cn_pulled t) \<or> (\<exists>x. came_marked o1 x)) \<and>
    (\<forall>x. came_marked o1 x \<longrightarrow> e = x \<and> (list_ex is_output (cn_pulled t) \<or> sent_marked o1 (cn_pulled t) x))"
  using run
proof (cases rule: consume_cases)
  case (refused x)
  then show ?thesis by (auto simp: came_marked_def intro: exI [of _ 0])
next
  case (thrown x)
  note m = stream_marked [OF thrown(2) start_marked] and tm = stream_true_mark [OF thrown(2)]
  have came: "came_marked o1 y \<longleftrightarrow> x = T_provider y \<and> se_outputObserved y" for y
    using thrown(1,2) by (auto simp: came_marked_def)
  have "se_outputObserved e \<longleftrightarrow> as_outputObserved (cn_assembler t) \<or> (\<exists>y. x = T_provider y \<and> se_outputObserved y)"
    and same: "x = T_provider y \<Longrightarrow> se_outputObserved y \<Longrightarrow> e = y" for y
    using thrown(3) by (auto simp: rethrow_def split: stream_thrown.splits if_splits)
  then show ?thesis using m tm same unfolding came by (auto simp: marked_def true_mark_def)
next
  case ended
  then have "complete parse (cn_assembler t) = Inl e" "\<not> came_marked o1 x" for x by (simp_all add: came_marked_def)
  with complete_Inl stream_marked [OF ended(1) start_marked] show ?thesis by (auto simp: marked_def)
qed

definition demo_broken :: ConsumeOptions where
  "demo_broken = demo_stream\<lparr>op_events := [E_text ''a'' ''He''], op_throws := Some (T_other ''reset'')\<rparr>"

definition demo_marked :: ProviderStreamError where
  "demo_marked = \<lparr>se_detail = protocolProviderError ''p'' ''m'' ''lost'', se_outputObserved = True\<rparr>"

definition demo_resent :: ConsumeOptions where
  "demo_resent = demo_stream\<lparr>op_events := [], op_throws := Some (T_provider demo_marked)\<rparr>"

lemma demo_broken_run:
  "fst (consumeProviderStream (\<lambda>_. None) demo_broken) =
     Inl \<lparr>se_detail = protocolProviderError ''p'' ''m'' ''provider stream threw instead of emitting an error event: reset'', se_outputObserved = True\<rparr>"
  "cn_pulled (snd (consumeProviderStream (\<lambda>_. None) demo_broken)) = [E_text ''a'' ''He'']"
  by code_simp+

lemma demo_resent_thrown: "fst (consume_stream demo_resent (start_consumer demo_resent)) = Inl (T_provider demo_marked)" "\<not> modalities_bad demo_resent"
  by code_simp+

lemma demo_resent_fails: "case fst (consumeProviderStream (\<lambda>_. None) demo_resent) of Inl _ \<Rightarrow> True | Inr _ \<Rightarrow> False"
  by code_simp

theorem output_marked_witness:
  "(case consumeProviderStream (\<lambda>_. None) demo_broken of (Inl e, t) \<Rightarrow> list_ex is_output (cn_pulled t) \<and> se_outputObserved e | _ \<Rightarrow> False) \<and>
   (case consumeProviderStream (\<lambda>_. None) demo_resent of (Inl e, t) \<Rightarrow> e = demo_marked \<and> se_outputObserved e | _ \<Rightarrow> False)"
proof
  obtain r t where run: "consumeProviderStream (\<lambda>_. None) demo_broken = (r, t)" by fastforce
  then obtain e where "r = Inl e" "cn_pulled t = [E_text ''a'' ''He'']" using demo_broken_run by simp
  then show "case consumeProviderStream (\<lambda>_. None) demo_broken of (Inl e, t) \<Rightarrow> list_ex is_output (cn_pulled t) \<and> se_outputObserved e | _ \<Rightarrow> False"
    using output_marked [of "\<lambda>_. None" demo_broken e t] run by simp
next
  obtain r t where run: "consumeProviderStream (\<lambda>_. None) demo_resent = (r, t)" by fastforce
  then obtain e where e: "r = Inl e" using demo_resent_fails by (cases r) auto
  have "came_marked demo_resent demo_marked" using demo_resent_thrown by (simp add: came_marked_def demo_marked_def)
  then show "case consumeProviderStream (\<lambda>_. None) demo_resent of (Inl e, t) \<Rightarrow> e = demo_marked \<and> se_outputObserved e | _ \<Rightarrow> False"
    using output_marked [of "\<lambda>_. None" demo_resent e t] run e by (auto simp: demo_marked_def)
qed

end
