(* ===== verification/Event_Stream.thy ===== *)
theory Event_Stream
  imports Prelude
begin

text \<open>
  Server-sent events: the parser of the streams of model providers,
  packages/runtime/src/provider/sse.ts, and the one of the frames of a remote Agent Host,
  packages/runtime/src/host/remote-sse-parser.ts. The body is the list of its chunks; a generator
  is run to its end, and \<open>ss_out\<close> and \<open>rf_out\<close> are what it has yielded. \<open>TextDecoder\<close> is an argument,
  by the text it makes of a chunk and its next state; \<open>None\<close> is an exception. The characters of a
  text are below 256, so a text has one or two bytes per character.
\<close>

section \<open>Texts\<close>

definition newline :: char where "newline = CHR 0x0A"

definition carriage_return :: char where "carriage_return = CHR 0x0D"

text \<open>\<open>Buffer.byteLength\<close>: the characters from 128 on are those with the highest of the eight bits.\<close>

definition char_bytes :: "char \<Rightarrow> nat" where
  "char_bytes c = (if digit7 c then 2 else 1)"

definition byteLength :: "string \<Rightarrow> nat" where
  "byteLength s = sum_list (map char_bytes s)"

definition strip_cr :: "string \<Rightarrow> string" where
  "strip_cr line = (if line \<noteq> [] \<and> last line = carriage_return then butlast line else line)"

definition strip_space :: "string \<Rightarrow> string" where
  "strip_space v = (case v of [] \<Rightarrow> [] | c # cs \<Rightarrow> if c = CHR '' '' then cs else v)"

fun join_lines :: "string list \<Rightarrow> string" where
  "join_lines [] = []"
| "join_lines [x] = x"
| "join_lines (x # xs) = x @ newline # join_lines xs"

text \<open>The lines of a text: those that a newline ends, and what is after the last newline.\<close>

fun line_split :: "string \<Rightarrow> string list" where
  "line_split [] = [[]]"
| "line_split (c # cs) =
     (if c = newline then [] # line_split cs
      else case line_split cs of [] \<Rightarrow> [[c]] | l # ls \<Rightarrow> (c # l) # ls)"

record 'd decoder =
  dc_start :: 'd
  dc_decode :: "'d \<Rightarrow> nat list \<Rightarrow> (string \<times> 'd) option"
  dc_end :: "'d \<Rightarrow> string option"

datatype stream_error = Stream_error string | Decode_error

section \<open>The events of a provider\<close>

datatype chunk = Chunk_text string | Chunk_bytes "nat list"

fun chunk_bytes :: "chunk \<Rightarrow> nat" where
  "chunk_bytes (Chunk_text s) = byteLength s"
| "chunk_bytes (Chunk_bytes b) = length b"

record ProviderStreamLimits =
  sl_eventBytes :: int
  sl_responseBytes :: int

record 'd sse =
  ss_decoder :: 'd
  ss_buffer :: string
  ss_data :: "string list"
  ss_responseBytes :: nat
  ss_eventBytes :: nat
  ss_out :: "string list"

definition bad_limits :: "ProviderStreamLimits \<Rightarrow> bool" where
  "bad_limits L = (\<not> \<bar>sl_eventBytes L\<bar> \<le> 9007199254740991 \<or> sl_eventBytes L \<le> 0 \<or>
     \<not> \<bar>sl_responseBytes L\<bar> \<le> 9007199254740991 \<or> sl_responseBytes L < sl_eventBytes L)"

definition over_limit :: "(ProviderStreamLimits \<Rightarrow> int) \<Rightarrow> ProviderStreamLimits option \<Rightarrow> nat \<Rightarrow> bool" where
  "over_limit f limits n = (case limits of None \<Rightarrow> False | Some L \<Rightarrow> int n > f L)"

definition countEvent :: "ProviderStreamLimits option \<Rightarrow> nat \<Rightarrow> ('d sse, stream_error, unit) eff" where
  "countEvent limits n s =
     (let s = s\<lparr>ss_eventBytes := ss_eventBytes s + n\<rparr>
      in if over_limit sl_eventBytes limits (ss_eventBytes s)
         then (Inl (Stream_error ''provider SSE event exceeds its byte limit''), s)
         else (Inr (), s))"

definition data_of :: "string \<Rightarrow> string option" where
  "data_of line = (if take 5 line = ''data:'' then Some (strip_space (drop 5 line)) else None)"

definition push_data :: "string \<Rightarrow> string list \<Rightarrow> string list" where
  "push_data line ds = (case data_of line of None \<Rightarrow> ds | Some d \<Rightarrow> ds @ [d])"

definition sse_line :: "string \<Rightarrow> 'd sse \<Rightarrow> 'd sse" where
  "sse_line rawLine s =
     (let line = strip_cr rawLine in
      if line = []
      then s\<lparr>ss_out := ss_out s @ (if ss_data s \<noteq> [] then [join_lines (ss_data s)] else []), ss_data := [], ss_eventBytes := 0\<rparr>
      else s\<lparr>ss_data := push_data line (ss_data s)\<rparr>)"

text \<open>
  The slices of a decoded chunk that the loop takes, each up to and with a newline, the last one
  perhaps without; the empty chunk has one empty slice.
\<close>

definition fragments :: "string \<Rightarrow> string list" where
  "fragments decoded =
     (let lines = line_split decoded
      in map (\<lambda>line. line @ [newline]) (butlast lines) @ (if last lines = [] \<and> butlast lines \<noteq> [] then [] else [last lines]))"

definition sse_fragment :: "ProviderStreamLimits option \<Rightarrow> string \<Rightarrow> ('d sse, stream_error, unit) eff" where
  "sse_fragment limits fragment =
     eff_bind (countEvent limits (byteLength fragment)) (\<lambda>_ s.
       let buffer = ss_buffer s @ fragment
       in if fragment \<noteq> [] \<and> last fragment = newline
          then (Inr (), sse_line (butlast buffer) (s\<lparr>ss_buffer := []\<rparr>))
          else (Inr (), s\<lparr>ss_buffer := buffer\<rparr>))"

definition decode_chunk :: "'d decoder \<Rightarrow> 'd \<Rightarrow> chunk \<Rightarrow> (string \<times> 'd) option" where
  "decode_chunk dec d c = (case c of Chunk_text s \<Rightarrow> Some (s, d) | Chunk_bytes b \<Rightarrow> dc_decode dec d b)"

definition sse_chunk :: "'d decoder \<Rightarrow> ProviderStreamLimits option \<Rightarrow> chunk \<Rightarrow> ('d sse, stream_error, unit) eff" where
  "sse_chunk dec limits c s =
     (let s = s\<lparr>ss_responseBytes := ss_responseBytes s + chunk_bytes c\<rparr>
      in if over_limit sl_responseBytes limits (ss_responseBytes s)
         then (Inl (Stream_error ''provider SSE response exceeds its byte limit''), s)
         else case decode_chunk dec (ss_decoder s) c of
           None \<Rightarrow> (Inl Decode_error, s)
         | Some (decoded, d) \<Rightarrow> eff_for_each (sse_fragment limits) (fragments decoded) (s\<lparr>ss_decoder := d\<rparr>))"

definition sse_finish :: "'d decoder \<Rightarrow> ProviderStreamLimits option \<Rightarrow> ('d sse, stream_error, unit) eff" where
  "sse_finish dec limits s =
     (case dc_end dec (ss_decoder s) of
        None \<Rightarrow> (Inl Decode_error, s)
      | Some tail \<Rightarrow>
          eff_bind (countEvent limits (byteLength tail)) (\<lambda>_ s.
            let buffer = ss_buffer s @ tail;
                ds = (if buffer \<noteq> [] then push_data (strip_cr buffer) (ss_data s) else ss_data s)
            in (Inr (), s\<lparr>ss_buffer := buffer, ss_data := ds, ss_out := ss_out s @ (if ds \<noteq> [] then [join_lines ds] else [])\<rparr>)) s)"

definition sse_start :: "'d decoder \<Rightarrow> 'd sse" where
  "sse_start dec = \<lparr>ss_decoder = dc_start dec, ss_buffer = [], ss_data = [], ss_responseBytes = 0, ss_eventBytes = 0, ss_out = []\<rparr>"

text \<open>What the generator yields, and how it ends. The decoder is fatal if there are limits.\<close>

definition parseServerSentEvents ::
  "(bool \<Rightarrow> 'd decoder) \<Rightarrow> ProviderStreamLimits option \<Rightarrow> chunk list \<Rightarrow> string list \<times> stream_error option" where
  "parseServerSentEvents decoder limits body =
     (let dec = decoder (limits \<noteq> None) in
      if (case limits of None \<Rightarrow> False | Some L \<Rightarrow> bad_limits L) then ([], Some (Stream_error ''invalid provider stream byte limits''))
      else case eff_bind (eff_for_each (sse_chunk dec limits) body) (\<lambda>_. sse_finish dec limits) (sse_start dec) of
        (Inl e, s) \<Rightarrow> (ss_out s, Some e)
      | (Inr _, s) \<Rightarrow> (ss_out s, None))"

section \<open>The frames of a remote host\<close>

record RemoteSseFrame =
  fr_event :: "string option"
  fr_id :: "string option"
  fr_data :: string

record frame_fields =
  ff_event :: "string option"
  ff_id :: "string option"
  ff_lines :: "string list"

definition no_fields :: frame_fields where
  "no_fields = \<lparr>ff_event = None, ff_id = None, ff_lines = []\<rparr>"

record 'd remote =
  rf_decoder :: 'd
  rf_buffer :: string
  rf_frameBytes :: nat
  rf_fields :: frame_fields
  rf_out :: "RemoteSseFrame list"

definition read_field :: "string \<Rightarrow> frame_fields \<Rightarrow> frame_fields" where
  "read_field line f =
     (if line \<noteq> [] \<and> hd line = CHR '':'' then f
      else let name = takeWhile (\<lambda>c. c \<noteq> CHR '':'') line;
               v = strip_space (drop (Suc (length name)) line)
           in if name = ''event'' then f\<lparr>ff_event := Some v\<rparr>
              else if name = ''id'' then f\<lparr>ff_id := Some v\<rparr>
              else if name = ''data'' then f\<lparr>ff_lines := ff_lines f @ [v]\<rparr>
              else f)"

definition frame_of_fields :: "frame_fields \<Rightarrow> RemoteSseFrame list" where
  "frame_of_fields f =
     (if ff_lines f \<noteq> [] \<or> ff_event f \<noteq> None \<or> ff_id f \<noteq> None
      then [\<lparr>fr_event = ff_event f, fr_id = ff_id f, fr_data = join_lines (ff_lines f)\<rparr>] else [])"

definition countFrame :: "nat \<Rightarrow> nat \<Rightarrow> ('d remote, stream_error, unit) eff" where
  "countFrame maxFrameBytes n s =
     (let s = s\<lparr>rf_frameBytes := rf_frameBytes s + n\<rparr>
      in if rf_frameBytes s > maxFrameBytes then (Inl (Stream_error ''remote Agent Host SSE frame exceeds its limit''), s)
         else (Inr (), s))"

definition remote_line :: "nat \<Rightarrow> string \<Rightarrow> ('d remote, stream_error, unit) eff" where
  "remote_line maxFrameBytes rawLine =
     (let line = strip_cr rawLine in
      eff_bind (countFrame maxFrameBytes (byteLength line + 1)) (\<lambda>_ s.
        if line = []
        then (Inr (), s\<lparr>rf_out := rf_out s @ frame_of_fields (rf_fields s), rf_frameBytes := 0, rf_fields := no_fields\<rparr>)
        else (Inr (), s\<lparr>rf_fields := read_field line (rf_fields s)\<rparr>)))"

text \<open>One result of \<open>reader.read()\<close>: the loop takes the complete lines off the buffer.\<close>

definition remote_chunk :: "'d decoder \<Rightarrow> nat \<Rightarrow> nat list \<Rightarrow> ('d remote, stream_error, unit) eff" where
  "remote_chunk dec maxFrameBytes b s =
     (case dc_decode dec (rf_decoder s) b of
        None \<Rightarrow> (Inl Decode_error, s)
      | Some (decoded, d) \<Rightarrow>
          (let lines = line_split (rf_buffer s @ decoded) in
           eff_bind (eff_for_each (remote_line maxFrameBytes) (butlast lines)) (\<lambda>_ s.
             if byteLength (rf_buffer s) > maxFrameBytes
             then (Inl (Stream_error ''remote Agent Host SSE line exceeds its limit''), s)
             else (Inr (), s)) (s\<lparr>rf_decoder := d, rf_buffer := last lines\<rparr>)))"

definition remote_finish :: "'d decoder \<Rightarrow> nat \<Rightarrow> ('d remote, stream_error, unit) eff" where
  "remote_finish dec maxFrameBytes s =
     (case dc_end dec (rf_decoder s) of
        None \<Rightarrow> (Inl Decode_error, s)
      | Some tail \<Rightarrow>
          (let buffer = rf_buffer s @ tail; line = strip_cr buffer in
           if buffer = [] then (Inr (), s\<lparr>rf_out := rf_out s @ frame_of_fields (rf_fields s)\<rparr>)
           else eff_bind (countFrame maxFrameBytes (byteLength line + 1)) (\<lambda>_ s.
             let f = read_field line (rf_fields s) in (Inr (), s\<lparr>rf_fields := f, rf_out := rf_out s @ frame_of_fields f\<rparr>)) s))"

definition remote_start :: "'d decoder \<Rightarrow> 'd remote" where
  "remote_start dec = \<lparr>rf_decoder = dc_start dec, rf_buffer = [], rf_frameBytes = 0, rf_fields = no_fields, rf_out = []\<rparr>"

definition readRemoteSseFrames :: "'d decoder \<Rightarrow> nat \<Rightarrow> nat list list \<Rightarrow> RemoteSseFrame list \<times> stream_error option" where
  "readRemoteSseFrames dec maxFrameBytes body =
     (case eff_bind (eff_for_each (remote_chunk dec maxFrameBytes) body) (\<lambda>_. remote_finish dec maxFrameBytes) (remote_start dec) of
        (Inl e, s) \<Rightarrow> (rf_out s, Some e)
      | (Inr _, s) \<Rightarrow> (rf_out s, None))"

end
