(* ===== verification/Event_Stream_Safety.thy ===== *)
theory Event_Stream_Safety
  imports Event_Stream "HOL-Library.Sublist"
begin

text \<open>
  What the parsers of server-sent events promise. Both see the body in chunks whose boundaries fall
  anywhere; what they yield depends on the text alone, and a body is refused exactly if the text has
  an event, or a frame, above the limit.
\<close>

section \<open>Readers that refuse\<close>

text \<open>
  A reader takes one piece after the other. \<open>after\<close> says what the text so far amounts to, \<open>fine\<close>
  whether it is within the limits; the reader goes on while it is and throws when it is not, and has
  then given no more than there was.
\<close>

fun feed_all :: "('c \<Rightarrow> 'x \<Rightarrow> 'x option) \<Rightarrow> 'c list \<Rightarrow> 'x \<Rightarrow> 'x option" where
  "feed_all after [] x = Some x"
| "feed_all after (c # cs) x = (case after c x of None \<Rightarrow> None | Some y \<Rightarrow> feed_all after cs y)"

locale guarded_reader =
  fixes piece :: "'c \<Rightarrow> ('s, 'e, unit) eff"
    and after :: "'c \<Rightarrow> 'x \<Rightarrow> 'x option"
    and fine :: "'x \<Rightarrow> bool"
    and rel :: "'s \<Rightarrow> 'x \<Rightarrow> bool"
    and given :: "'s \<Rightarrow> 'o list"
    and out :: "'x \<Rightarrow> 'o list"
  assumes step_ok: "rel s x \<Longrightarrow> after c x = Some y \<Longrightarrow> fine y \<Longrightarrow> \<exists>t. piece c s = (Inr (), t) \<and> rel t y"
    and step_bad: "rel s x \<Longrightarrow> after c x = Some y \<Longrightarrow> \<not> fine y \<Longrightarrow> \<exists>e t. piece c s = (Inl e, t) \<and> prefix (given t) (out y)"
    and fine_back: "after c x = Some y \<Longrightarrow> fine y \<Longrightarrow> fine x"
    and out_grows: "after c x = Some y \<Longrightarrow> prefix (out x) (out y)"
begin

lemma all_fine_back: "feed_all after cs x = Some y \<Longrightarrow> fine y \<Longrightarrow> fine x"
  by (induction cs arbitrary: x) (auto split: option.splits dest: fine_back)

lemma all_out_grows: "feed_all after cs x = Some y \<Longrightarrow> prefix (out x) (out y)"
proof (induction cs arbitrary: x)
  case (Cons c cs)
  then obtain z where "after c x = Some z" "feed_all after cs z = Some y" by (auto split: option.splits)
  with Cons.IH out_grows show ?case by (meson prefix_order.trans)
qed simp

lemma run:
  "rel s x \<Longrightarrow> feed_all after cs x = Some y \<Longrightarrow> fine x \<Longrightarrow>
   if fine y then \<exists>t. eff_for_each piece cs s = (Inr (), t) \<and> rel t y
   else \<exists>e t. eff_for_each piece cs s = (Inl e, t) \<and> prefix (given t) (out y)"
proof (induction cs arbitrary: s x)
  case (Cons c cs)
  then obtain z where z: "after c x = Some z" "feed_all after cs z = Some y" by (auto split: option.splits)
  show ?case
  proof (cases "fine z")
    case True
    then obtain t where "piece c s = (Inr (), t)" "rel t z" using step_ok Cons.prems(1) z(1) by blast
    then show ?thesis using Cons.IH [OF \<open>rel t z\<close> z(2) True] by (simp add: eff_bind_def)
  next
    case False
    then obtain e t where t: "piece c s = (Inl e, t)" "prefix (given t) (out z)" using step_bad Cons.prems(1) z(1) by blast
    have "\<not> fine y" using False all_fine_back z(2) by blast
    moreover have "prefix (given t) (out y)" using t(2) all_out_grows [OF z(2)] by (rule prefix_order.trans)
    ultimately show ?thesis using t(1) by (simp add: eff_bind_def)
  qed
qed (simp add: eff_return_def)

end

section \<open>Texts\<close>

lemma byteLength_simps [simp]:
  "byteLength [] = 0" "byteLength (s @ t) = byteLength s + byteLength t" "byteLength (c # s) = char_bytes c + byteLength s"
  by (simp_all add: byteLength_def)

lemma char_bytes_newline [simp]: "char_bytes newline = 1"
  by (simp add: char_bytes_def newline_def)

lemma line_split_ne [simp]: "line_split s \<noteq> []"
  by (cases s) (simp_all split: list.splits)

lemma line_split_Cons: "line_split (c # cs) = (if c = newline then [] # line_split cs else (c # hd (line_split cs)) # tl (line_split cs))"
  using line_split_ne [of cs] by (auto split: list.splits simp del: line_split_ne)

declare line_split.simps(2) [simp del] line_split_Cons [simp]

lemma line_split_plain: "newline \<notin> set s \<Longrightarrow> line_split s = [s]"
  by (induction s) auto

lemma line_split_clean: "l \<in> set (line_split s) \<Longrightarrow> newline \<notin> set l"
proof (induction s arbitrary: l)
  case (Cons c cs)
  then show ?case by (cases "line_split cs") (auto split: if_splits)
qed simp

lemma last_clean [simp]: "newline \<notin> set (last (line_split s))"
  by (rule line_split_clean) (rule last_in_set [OF line_split_ne])

lemma line_split_append: "line_split (a @ u) = butlast (line_split a) @ line_split (last (line_split a) @ u)"
proof (induction a)
  case (Cons c cs)
  obtain l ls where l: "line_split cs = l # ls" by (cases "line_split cs") simp_all
  show ?case
  proof (cases "ls = []")
    case True
    then show ?thesis using Cons l by auto
  next
    case False
    then show ?thesis using Cons l by auto
  qed
qed simp

lemma line_split_front:
  assumes "newline \<notin> set b"
  shows "line_split (b @ t) = (b @ hd (line_split t)) # tl (line_split t)"
  using assms by (induction b) auto

lemma strip_cr_bytes: "byteLength l \<le> byteLength (strip_cr l) + 1"
proof (cases "l \<noteq> [] \<and> last l = carriage_return")
  case True
  then have l: "l = butlast l @ [carriage_return]" by (metis append_butlast_last_id)
  have "char_bytes carriage_return = 1" by (simp add: char_bytes_def carriage_return_def)
  then have "byteLength l = byteLength (butlast l) + 1" by (subst l) simp
  with True show ?thesis by (simp add: strip_cr_def)
next
  case False
  then have "strip_cr l = l" unfolding strip_cr_def by argo
  then show ?thesis by simp
qed

lemma over_limit_mono: "over_limit f limits m \<Longrightarrow> m \<le> n \<Longrightarrow> over_limit f limits n"
  by (auto simp: over_limit_def split: option.splits)

section \<open>The events of a text\<close>

record event_lines =
  el_out :: "string list"
  el_data :: "string list"
  el_span :: nat
  el_peak :: nat

definition no_events :: event_lines where
  "no_events = \<lparr>el_out = [], el_data = [], el_span = 0, el_peak = 0\<rparr>"

text \<open>A complete line, without its newline; the peak is the most that an event had so far.\<close>

definition event_line :: "event_lines \<Rightarrow> string \<Rightarrow> event_lines" where
  "event_line l raw =
     (let line = strip_cr raw; span = el_span l + byteLength raw + 1
      in if line = []
         then \<lparr>el_out = el_out l @ (if el_data l \<noteq> [] then [join_lines (el_data l)] else []), el_data = [], el_span = 0, el_peak = max (el_peak l) span\<rparr>
         else \<lparr>el_out = el_out l, el_data = push_data line (el_data l), el_span = span, el_peak = max (el_peak l) span\<rparr>)"

definition last_event :: "event_lines \<Rightarrow> string \<Rightarrow> string list" where
  "last_event l rest =
     (let ds = (if rest \<noteq> [] then push_data (strip_cr rest) (el_data l) else el_data l)
      in if ds \<noteq> [] then [join_lines ds] else [])"

definition text_lines :: "string \<Rightarrow> event_lines" where
  "text_lines txt = foldl event_line no_events (butlast (line_split txt))"

definition text_events :: "string \<Rightarrow> string \<Rightarrow> string list" where
  "text_events txt tail = el_out (text_lines txt) @ last_event (text_lines txt) (last (line_split txt) @ tail)"

definition events_fit :: "ProviderStreamLimits option \<Rightarrow> string \<Rightarrow> string \<Rightarrow> bool" where
  "events_fit limits txt tail \<longleftrightarrow> \<not> over_limit sl_eventBytes limits (el_peak (text_lines txt)) \<and>
     \<not> over_limit sl_eventBytes limits (el_span (text_lines txt) + byteLength (last (line_split txt) @ tail))"

text \<open>The text of the chunks.\<close>

fun decode_all :: "'d decoder \<Rightarrow> 'd \<Rightarrow> chunk list \<Rightarrow> (string \<times> 'd) option" where
  "decode_all dec d [] = Some ([], d)"
| "decode_all dec d (c # cs) =
     (case decode_chunk dec d c of
        None \<Rightarrow> None
      | Some (t, d') \<Rightarrow> (case decode_all dec d' cs of None \<Rightarrow> None | Some (u, d'') \<Rightarrow> Some (t @ u, d'')))"

section \<open>The parser of provider streams\<close>

record 'd progress =
  pg_lines :: event_lines
  pg_rest :: string
  pg_decoder :: 'd
  pg_bytes :: nat

definition event_fine :: "ProviderStreamLimits option \<Rightarrow> 'd progress \<Rightarrow> bool" where
  "event_fine limits x \<longleftrightarrow> \<not> over_limit sl_eventBytes limits (el_peak (pg_lines x)) \<and>
     \<not> over_limit sl_eventBytes limits (el_span (pg_lines x) + byteLength (pg_rest x)) \<and>
     \<not> over_limit sl_responseBytes limits (pg_bytes x)"

definition event_rel :: "ProviderStreamLimits option \<Rightarrow> 'd sse \<Rightarrow> 'd progress \<Rightarrow> bool" where
  "event_rel limits s x \<longleftrightarrow> s = \<lparr>ss_decoder = pg_decoder x, ss_buffer = pg_rest x, ss_data = el_data (pg_lines x), ss_responseBytes = pg_bytes x,
     ss_eventBytes = el_span (pg_lines x) + byteLength (pg_rest x), ss_out = el_out (pg_lines x)\<rparr> \<and> event_fine limits x \<and> newline \<notin> set (pg_rest x)"

definition event_out :: "'d progress \<Rightarrow> string list" where
  "event_out x = el_out (pg_lines x)"

definition after_fragment :: "string \<Rightarrow> 'd progress \<Rightarrow> 'd progress option" where
  "after_fragment f x =
     (if newline \<in> set (butlast f) then None
      else if f \<noteq> [] \<and> last f = newline then Some (x\<lparr>pg_lines := event_line (pg_lines x) (pg_rest x @ butlast f), pg_rest := []\<rparr>)
      else Some (x\<lparr>pg_rest := pg_rest x @ f\<rparr>))"

lemma event_line_simps [simp]:
  "el_peak (event_line l raw) = max (el_peak l) (el_span l + byteLength raw + 1)"
  "el_span (event_line l raw) \<le> el_span l + byteLength raw + 1"
  "prefix (el_out l) (el_out (event_line l raw))"
  by (simp_all add: event_line_def Let_def)

lemma max_over [simp]: "over_limit f limits (max m n) \<longleftrightarrow> over_limit f limits m \<or> over_limit f limits n"
  by (auto simp: over_limit_def split: option.splits)

abbreviation over_event :: "ProviderStreamLimits option \<Rightarrow> 'd progress \<Rightarrow> string \<Rightarrow> bool" where
  "over_event limits x f \<equiv> over_limit sl_eventBytes limits (el_span (pg_lines x) + byteLength (pg_rest x) + byteLength f)"

lemma fragment_fine:
  assumes x: "event_fine limits x" and step: "after_fragment f x = Some y"
  shows "event_fine limits y \<longleftrightarrow> \<not> over_event limits x f"
proof (cases "f \<noteq> [] \<and> last f = newline")
  case True
  let ?l = "event_line (pg_lines x) (pg_rest x @ butlast f)"
  have y: "y = x\<lparr>pg_lines := ?l, pg_rest := []\<rparr>"
    using True step by (auto simp: after_fragment_def split: if_splits)
  have f: "byteLength f = byteLength (butlast f) + 1"
    using True by (metis append_butlast_last_id byteLength_simps add_0_right char_bytes_newline)
  then have "el_span ?l \<le> el_span (pg_lines x) + byteLength (pg_rest x) + byteLength f"
    using event_line_simps(2) [of "pg_lines x" "pg_rest x @ butlast f"] by simp
  from over_limit_mono [OF _ this] show ?thesis using x f unfolding y event_fine_def by (auto simp: add.assoc)
next
  case False
  then have "y = x\<lparr>pg_rest := pg_rest x @ f\<rparr>" using step by (auto simp: after_fragment_def split: if_splits)
  then show ?thesis using x by (simp add: event_fine_def add.assoc)
qed

lemma fragment_run:
  assumes rel: "event_rel limits s x" and step: "after_fragment f x = Some y"
  shows "if over_event limits x f then \<exists>e t. sse_fragment limits f s = (Inl e, t) \<and> prefix (ss_out t) (event_out y)
    else \<exists>t. sse_fragment limits f s = (Inr (), t) \<and> event_rel limits t y"
proof -
  have s: "s = \<lparr>ss_decoder = pg_decoder x, ss_buffer = pg_rest x, ss_data = el_data (pg_lines x), ss_responseBytes = pg_bytes x,
      ss_eventBytes = el_span (pg_lines x) + byteLength (pg_rest x), ss_out = el_out (pg_lines x)\<rparr>"
    and x: "event_fine limits x" "newline \<notin> set (pg_rest x)"
    using rel by (simp_all add: event_rel_def)
  show ?thesis
  proof (cases "over_event limits x f")
    case True
    then show ?thesis using step
      by (auto simp: s sse_fragment_def eff_bind_def countEvent_def event_out_def after_fragment_def Let_def split: if_splits)
  next
    case False
    have fine: "event_fine limits y" using fragment_fine [OF x(1) step] False by simp
    have bytes: "f \<noteq> [] \<Longrightarrow> last f = newline \<Longrightarrow> byteLength f = byteLength (butlast f) + 1"
      by (metis append_butlast_last_id byteLength_simps add_0_right char_bytes_newline)
    have clean: "newline \<notin> set (butlast f) \<Longrightarrow> \<not> (f \<noteq> [] \<and> last f = newline) \<Longrightarrow> newline \<notin> set f"
      by (cases f rule: rev_cases) auto
    show ?thesis
    proof (cases "f \<noteq> [] \<and> last f = newline")
      case nl: True
      then show ?thesis using step False fine bytes
        by (auto simp: s sse_fragment_def eff_bind_def countEvent_def event_rel_def after_fragment_def sse_line_def event_line_def
            Let_def butlast_append split: if_splits)
    next
      case nl: False
      then show ?thesis using step False fine x(2) clean
        by (auto simp: s sse_fragment_def eff_bind_def countEvent_def event_rel_def after_fragment_def Let_def split: if_splits)
    qed
  qed
qed

lemma fragment_back:
  assumes step: "after_fragment f x = Some y" and fine: "event_fine limits y"
  shows "event_fine limits x"
proof -
  have "el_span (pg_lines x) + byteLength (pg_rest x) \<le> max (el_peak (pg_lines y)) (el_span (pg_lines y) + byteLength (pg_rest y))"
    "el_peak (pg_lines x) \<le> el_peak (pg_lines y)" "pg_bytes x = pg_bytes y"
    using step by (auto simp: after_fragment_def split: if_splits)
  then show ?thesis using fine over_limit_mono unfolding event_fine_def by (metis max_over)
qed

lemma fragment_grows: "after_fragment f x = Some y \<Longrightarrow> prefix (event_out x) (event_out y)"
  by (auto simp: after_fragment_def event_out_def split: if_splits)

lemma event_rel_fine: "event_rel limits s x \<Longrightarrow> event_fine limits x"
  by (simp add: event_rel_def)

interpretation fragment: guarded_reader "sse_fragment limits" after_fragment "event_fine limits" "event_rel limits" ss_out event_out
proof unfold_locales
  fix s :: "'a sse" and x y :: "'a progress" and f
  assume rel: "event_rel limits s x" and step: "after_fragment f x = Some y"
  note run = fragment_run [OF rel step] and fine = fragment_fine [OF event_rel_fine [OF rel] step]
  show "event_fine limits y \<Longrightarrow> \<exists>t. sse_fragment limits f s = (Inr (), t) \<and> event_rel limits t y"
    and "\<not> event_fine limits y \<Longrightarrow> \<exists>e t. sse_fragment limits f s = (Inl e, t) \<and> prefix (ss_out t) (event_out y)"
    using run fine by auto
qed (fact fragment_back fragment_grows)+

definition after_chunk :: "'d decoder \<Rightarrow> chunk \<Rightarrow> 'd progress \<Rightarrow> 'd progress option" where
  "after_chunk dec c x =
     (case decode_chunk dec (pg_decoder x) c of
        None \<Rightarrow> None
      | Some (t, d) \<Rightarrow> feed_all after_fragment (fragments t) (x\<lparr>pg_decoder := d, pg_bytes := pg_bytes x + chunk_bytes c\<rparr>))"

interpretation chunk: guarded_reader "sse_chunk dec limits" "after_chunk dec" "event_fine limits" "event_rel limits" ss_out event_out
proof unfold_locales
  fix s :: "'a sse" and x y :: "'a progress" and c
  assume step: "after_chunk dec c x = Some y"
  then obtain t d where dc: "decode_chunk dec (pg_decoder x) c = Some (t, d)"
    and y: "feed_all after_fragment (fragments t) (x\<lparr>pg_decoder := d, pg_bytes := pg_bytes x + chunk_bytes c\<rparr>) = Some y"
    by (auto simp: after_chunk_def split: option.splits)
  let ?x = "x\<lparr>pg_decoder := d, pg_bytes := pg_bytes x + chunk_bytes c\<rparr>"
  have grows: "prefix (event_out x) (event_out y)" using fragment.all_out_grows [OF y] by (simp add: event_out_def)
  then show "prefix (event_out x) (event_out y)" .
  have kept: "event_fine limits y \<Longrightarrow> event_fine limits ?x" using fragment.all_fine_back [OF y] .
  then show "event_fine limits y \<Longrightarrow> event_fine limits x"
    using over_limit_mono [of sl_responseBytes limits "pg_bytes x" "pg_bytes x + chunk_bytes c"] by (auto simp: event_fine_def)
  assume rel: "event_rel limits s x"
  have fine: "event_fine limits ?x \<longleftrightarrow> \<not> over_limit sl_responseBytes limits (pg_bytes x + chunk_bytes c)"
    using event_rel_fine [OF rel] by (auto simp: event_fine_def)
  have over: "event_fine limits ?x \<or> (\<exists>e t. sse_chunk dec limits c s = (Inl e, t) \<and> prefix (ss_out t) (event_out y))"
    using rel grows fine by (auto simp: sse_chunk_def Let_def event_rel_def event_out_def)
  have run: "event_fine limits ?x \<Longrightarrow> \<exists>u. event_rel limits u ?x \<and> sse_chunk dec limits c s = eff_for_each (sse_fragment limits) (fragments t) u"
    using rel fine dc by (auto simp: sse_chunk_def Let_def event_rel_def)
  show "event_fine limits y \<Longrightarrow> \<exists>t. sse_chunk dec limits c s = (Inr (), t) \<and> event_rel limits t y"
    using kept run fragment.run [OF _ y] by fastforce
  show "\<not> event_fine limits y \<Longrightarrow> \<exists>e t. sse_chunk dec limits c s = (Inl e, t) \<and> prefix (ss_out t) (event_out y)"
    using over run fragment.run [OF _ y] by fastforce
qed

text \<open>What the pieces amount to, in terms of the text.\<close>

definition after_text :: "string \<Rightarrow> 'd progress \<Rightarrow> 'd progress" where
  "after_text t x = x\<lparr>pg_lines := foldl event_line (pg_lines x) (butlast (line_split (pg_rest x @ t))), pg_rest := last (line_split (pg_rest x @ t))\<rparr>"

lemma feed_all_append: "feed_all f (as @ bs) x = (case feed_all f as x of None \<Rightarrow> None | Some y \<Rightarrow> feed_all f bs y)"
  by (induction as arbitrary: x) (auto split: option.splits)

lemma after_line:
  "newline \<notin> set l \<Longrightarrow>
   after_fragment (l @ [newline]) x = Some (x\<lparr>pg_lines := event_line (pg_lines x) (pg_rest x @ l), pg_rest := []\<rparr>)"
  by (simp add: after_fragment_def)

lemma feed_lines:
  assumes "\<forall>l \<in> set ls. newline \<notin> set l"
  shows "feed_all after_fragment (map (\<lambda>l. l @ [newline]) ls) x =
    Some (if ls = [] then x else x\<lparr>pg_lines := foldl event_line (pg_lines x) ((pg_rest x @ hd ls) # tl ls), pg_rest := []\<rparr>)"
  using assms
proof (induction ls arbitrary: x)
  case (Cons l ls)
  let ?y = "x\<lparr>pg_lines := event_line (pg_lines x) (pg_rest x @ l), pg_rest := []\<rparr>"
  have "feed_all after_fragment (map (\<lambda>l. l @ [newline]) (l # ls)) x = feed_all after_fragment (map (\<lambda>l. l @ [newline]) ls) ?y"
    using Cons.prems by (simp add: after_line)
  also have "\<dots> = Some (if ls = [] then ?y else ?y\<lparr>pg_lines := foldl event_line (pg_lines ?y) ((pg_rest ?y @ hd ls) # tl ls), pg_rest := []\<rparr>)"
    using Cons by simp
  also have "\<dots> = Some (x\<lparr>pg_lines := foldl event_line (pg_lines x) ((pg_rest x @ l) # ls), pg_rest := []\<rparr>)" by (cases ls) simp_all
  finally show ?case by simp
qed simp

lemma feed_fragments:
  assumes "newline \<notin> set (pg_rest x)"
  shows "feed_all after_fragment (fragments t) x = Some (after_text t x)"
proof -
  obtain ls r where ls: "line_split t = ls @ [r]" using append_butlast_last_id [OF line_split_ne] by metis
  have clean: "\<forall>l \<in> set ls. newline \<notin> set l" "newline \<notin> set r" using line_split_clean [of _ t] by (auto simp: ls)
  have "newline \<notin> set (butlast r)" "r \<noteq> [] \<longrightarrow> last r \<noteq> newline"
    using clean(2) last_in_set [of r] by (auto dest: in_set_butlastD simp del: last_in_set)
  then have r: "after_fragment r z = Some (z\<lparr>pg_rest := pg_rest z @ r\<rparr>)" for z :: "'a progress" by (auto simp: after_fragment_def)
  have frags: "fragments t = map (\<lambda>l. l @ [newline]) ls @ (if r = [] \<and> ls \<noteq> [] then [] else [r])" by (simp add: fragments_def ls)
  have split: "line_split (pg_rest x @ t) = (if ls = [] then [pg_rest x @ r] else (pg_rest x @ hd ls) # tl ls @ [r])"
    using line_split_front [OF assms, of t] by (cases ls) (simp_all add: ls)
  show ?thesis unfolding frags feed_all_append feed_lines [OF clean(1)] after_text_def split using r by (cases ls) (auto simp: butlast_append)
qed

lemma after_text_append: "after_text u (after_text t x) = after_text (t @ u) x"
  using line_split_append [of "pg_rest x @ t" u] by (simp add: after_text_def butlast_append)

lemma feed_chunks:
  assumes "newline \<notin> set (pg_rest x)" "decode_all dec (pg_decoder x) cs = Some (t, d)"
  shows "feed_all (after_chunk dec) cs x = Some ((after_text t x)\<lparr>pg_decoder := d, pg_bytes := pg_bytes x + sum_list (map chunk_bytes cs)\<rparr>)"
  using assms
proof (induction cs arbitrary: x t)
  case Nil
  then show ?case by (simp add: after_text_def line_split_plain)
next
  case (Cons c cs)
  then obtain a e u where c: "decode_chunk dec (pg_decoder x) c = Some (a, e)" "decode_all dec e cs = Some (u, d)" "t = a @ u"
    by (auto split: option.splits)
  let ?x = "x\<lparr>pg_decoder := e, pg_bytes := pg_bytes x + chunk_bytes c\<rparr>"
  have step: "after_chunk dec c x = Some (after_text a ?x)"
    using Cons.prems(1) feed_fragments [of ?x a] by (simp add: after_chunk_def c(1))
  have "feed_all (after_chunk dec) cs (after_text a ?x) = Some ((after_text u (after_text a ?x))\<lparr>pg_decoder := d,
      pg_bytes := pg_bytes x + chunk_bytes c + sum_list (map chunk_bytes cs)\<rparr>)"
    using Cons.IH [of "after_text a ?x" u] c(2) by (simp add: after_text_def)
  then show ?case using step c(3) by (simp add: after_text_append add.assoc) (simp add: after_text_def)
qed

definition start_progress :: "'d decoder \<Rightarrow> 'd progress" where
  "start_progress dec = \<lparr>pg_lines = no_events, pg_rest = [], pg_decoder = dc_start dec, pg_bytes = 0\<rparr>"

lemma start_rel:
  assumes "\<not> (case limits of None \<Rightarrow> False | Some L \<Rightarrow> bad_limits L)"
  shows "event_rel limits (sse_start dec) (start_progress dec)"
  using assms by (auto simp: event_rel_def sse_start_def start_progress_def no_events_def event_fine_def over_limit_def bad_limits_def split: option.splits)

lemma finish_run:
  assumes rel: "event_rel limits s x" and fin: "dc_end dec (pg_decoder x) = Some tail"
  shows "if over_event limits x tail then \<exists>e t. sse_finish dec limits s = (Inl e, t) \<and> ss_out t = event_out x
    else \<exists>t. sse_finish dec limits s = (Inr (), t) \<and> ss_out t = event_out x @ last_event (pg_lines x) (pg_rest x @ tail)"
  using assms by (auto simp: event_rel_def sse_finish_def eff_bind_def countEvent_def Let_def event_out_def last_event_def)

lemma parse_of_text:
  assumes dec: "dec = decoder (limits \<noteq> None)" and body: "decode_all dec (dc_start dec) body = Some (txt, d)" "dc_end dec d = Some tail"
    and limits: "\<not> (case limits of None \<Rightarrow> False | Some L \<Rightarrow> bad_limits L)"
  shows "case parseServerSentEvents decoder limits body of (out, err) \<Rightarrow>
    prefix out (text_events txt tail) \<and> (err = None \<longrightarrow> out = text_events txt tail) \<and>
    (err = None \<longleftrightarrow> events_fit limits txt tail \<and> \<not> over_limit sl_responseBytes limits (sum_list (map chunk_bytes body)))"
proof -
  let ?y = "(after_text txt (start_progress dec))\<lparr>pg_decoder := d, pg_bytes := sum_list (map chunk_bytes body)\<rparr>"
  have feed: "feed_all (after_chunk dec) body (start_progress dec) = Some ?y"
    using feed_chunks [of "start_progress dec" dec body "txt" d] body by (simp add: start_progress_def)
  note start = start_rel [OF limits, of dec]
  note run = chunk.run [OF start feed event_rel_fine [OF start]]
  have lines: "pg_lines ?y = text_lines txt" "pg_rest ?y = last (line_split txt)" "event_out ?y = el_out (text_lines txt)"
    by (simp_all add: after_text_def start_progress_def text_lines_def event_out_def)
  have fits: "events_fit limits txt tail \<and> \<not> over_limit sl_responseBytes limits (sum_list (map chunk_bytes body)) \<longleftrightarrow>
      event_fine limits ?y \<and> \<not> over_event limits ?y tail"
    using over_limit_mono [of sl_eventBytes limits "el_span (text_lines txt) + byteLength (last (line_split txt))"]
    by (auto simp: events_fit_def event_fine_def lines add.assoc)
  have out: "text_events txt tail = event_out ?y @ last_event (pg_lines ?y) (pg_rest ?y @ tail)"
    unfolding text_events_def lines ..
  have parse: "parseServerSentEvents decoder limits body =
      (case eff_bind (eff_for_each (sse_chunk dec limits) body) (\<lambda>_. sse_finish dec limits) (sse_start dec) of
         (Inl e, s) \<Rightarrow> (ss_out s, Some e) | (Inr _, s) \<Rightarrow> (ss_out s, None))"
    using limits unfolding parseServerSentEvents_def Let_def dec by (simp only: if_False)
  show ?thesis
  proof (cases "event_fine limits ?y")
    case True
    then obtain t where t: "eff_for_each (sse_chunk dec limits) body (sse_start dec) = (Inr (), t)" "event_rel limits t ?y" using run by auto
    have "dc_end dec (pg_decoder ?y) = Some tail" using body(2) by simp
    note fin = finish_run [OF t(2) this]
    show ?thesis unfolding fits out parse
      using fin True t(1) by (auto simp: eff_bind_def split: if_splits)
  next
    case False
    then obtain e t where t: "eff_for_each (sse_chunk dec limits) body (sse_start dec) = (Inl e, t)" "prefix (ss_out t) (event_out ?y)" using run by auto
    then show ?thesis unfolding fits out parse using False by (auto simp: eff_bind_def)
  qed
qed

text \<open>
  C12. The events that a provider sends are found whatever the chunks are that the body comes in: what
  the parser yields is a part, from the start, of the events of the text that the chunks spell, all of
  them if it ends without an error, and it does so exactly if the body and every event are within the
  limits. Without limits it never fails. The exception is a body that cannot be decoded, or limits
  that make no sense.
\<close>

theorem provider_events_of_text:
  assumes "dec = decoder (limits \<noteq> None)" "decode_all dec (dc_start dec) body = Some (txt, d)" "dc_end dec d = Some tail"
    "\<not> (case limits of None \<Rightarrow> False | Some L \<Rightarrow> bad_limits L)"
  shows "case parseServerSentEvents decoder limits body of (out, err) \<Rightarrow>
    prefix out (text_events txt tail) \<and> (err = None \<longrightarrow> out = text_events txt tail) \<and>
    (err = None \<longleftrightarrow> events_fit limits txt tail \<and> \<not> over_limit sl_responseBytes limits (sum_list (map chunk_bytes body)))"
  using parse_of_text [of dec decoder limits body "txt" d tail, OF assms] .

text \<open>A decoder for texts of one byte per character.\<close>

definition ascii_decoder :: "bool \<Rightarrow> unit decoder" where
  "ascii_decoder fatal = \<lparr>dc_start = (),
     dc_decode = (\<lambda>_ b. if fatal \<and> list_ex (\<lambda>n. n \<ge> 128) b then None else Some (map (\<lambda>n. if n < 128 then char_of n else CHR ''?'') b, ())),
     dc_end = (\<lambda>_. Some [])\<rparr>"

definition demo_limits :: ProviderStreamLimits where
  "demo_limits = \<lparr>sl_eventBytes = 20, sl_responseBytes = 60\<rparr>"

definition demo_body :: "chunk list" where
  "demo_body = [Chunk_text (''data: a'' @ [newline] @ ''da''), Chunk_bytes [116, 97, 58, 98, 13, 10, 10], Chunk_text ''data: c'']"

definition demo_text :: string where
  "demo_text = ''data: a'' @ [newline] @ ''data:b'' @ [carriage_return, newline, newline] @ ''data: c''"

lemma demo_body_text: "decode_all (ascii_decoder True) () demo_body = Some (demo_text, ())"
  by code_simp

lemma demo_body_events: "text_events demo_text [] = [''a'' @ [newline] @ ''b'', ''c'']"
  by code_simp

lemma demo_body_fits: "events_fit (Some demo_limits) demo_text []" "\<not> bad_limits demo_limits"
    "\<not> over_limit sl_responseBytes (Some demo_limits) (sum_list (map chunk_bytes demo_body))"
  by code_simp+

theorem provider_events_of_text_witness:
  "parseServerSentEvents ascii_decoder (Some demo_limits) demo_body = ([''a'' @ [newline] @ ''b'', ''c''], None)"
  using provider_events_of_text [of "ascii_decoder True" ascii_decoder "Some demo_limits" demo_body demo_text "()" "[]"] demo_body_text demo_body_events demo_body_fits
  by (auto simp: ascii_decoder_def [of True] split: prod.splits)

section \<open>Events that a server writes\<close>

definition event_frame :: "string \<Rightarrow> string" where
  "event_frame d = ''data: '' @ d @ [newline, newline]"

definition sendable :: "string \<Rightarrow> bool" where
  "sendable d \<longleftrightarrow> newline \<notin> set d \<and> (d \<noteq> [] \<longrightarrow> last d \<noteq> carriage_return)"

lemma line_split_frame:
  assumes "newline \<notin> set d"
  shows "line_split (event_frame d @ t) = (''data: '' @ d) # [] # line_split t"
proof -
  have "newline \<notin> set (''data: '' @ d)" using assms by (simp add: newline_def)
  from line_split_front [OF this, of "newline # newline # t"] show ?thesis by (simp add: event_frame_def)
qed

lemma event_line_frame:
  assumes "sendable d" "el_data l = []"
  shows "el_out (event_line (event_line l (''data: '' @ d)) []) = el_out l @ [d] \<and> el_data (event_line (event_line l (''data: '' @ d)) []) = []"
proof -
  have "last (''data: '' @ d) \<noteq> carriage_return" using assms(1) by (auto simp: sendable_def carriage_return_def)
  then have "strip_cr (''data: '' @ d) = ''data: '' @ d" by (simp add: strip_cr_def)
  moreover have "strip_cr [] = []" by (simp add: strip_cr_def)
  ultimately show ?thesis using assms(2) by (simp add: event_line_def Let_def push_data_def data_of_def strip_space_def)
qed

lemma frames_lines:
  assumes "list_all sendable ds" "el_data l = []"
  shows "el_out (foldl event_line l (butlast (line_split (concat (map event_frame ds))))) = el_out l @ ds \<and>
    el_data (foldl event_line l (butlast (line_split (concat (map event_frame ds))))) = [] \<and>
    last (line_split (concat (map event_frame ds))) = []"
  using assms
proof (induction ds arbitrary: l)
  case (Cons d ds)
  then have "newline \<notin> set d" by (simp add: sendable_def)
  from line_split_frame [OF this, of "concat (map event_frame ds)"]
  have split: "line_split (concat (map event_frame (d # ds))) = (''data: '' @ d) # [] # line_split (concat (map event_frame ds))" by simp
  have "sendable d" using Cons.prems by simp
  note one = event_line_frame [OF this Cons.prems(2)]
  show ?case unfolding split using Cons.IH [OF _ conjunct2 [OF one]] Cons.prems(1) one by simp
qed simp

lemma decode_texts: "decode_all dec d (map Chunk_text cs) = Some (concat cs, d)"
  by (induction cs) (simp_all add: decode_chunk_def)

text \<open>
  C36. What a server writes as one \<open>data\<close> line per event comes out again, event by event, however the
  text is cut into chunks.
\<close>

theorem provider_events_roundtrip:
  assumes "list_all sendable ds" "concat cs = concat (map event_frame ds)" "dc_end (decoder False) (dc_start (decoder False)) = Some []"
  shows "parseServerSentEvents decoder None (map Chunk_text cs) = (ds, None)"
proof -
  have "el_data no_events = []" "el_out no_events = []" by (simp_all add: no_events_def)
  with frames_lines [OF assms(1), of no_events] have "text_events (concat cs) [] = ds"
    by (simp add: text_events_def text_lines_def last_event_def assms(2) Let_def)
  moreover have "events_fit None (concat cs) []" by (simp add: events_fit_def over_limit_def)
  ultimately show ?thesis
    using parse_of_text [of "decoder False" decoder None "map Chunk_text cs" "concat cs" "dc_start (decoder False)" "[]"] assms(3)
    by (auto simp: decode_texts over_limit_def split: prod.splits)
qed

theorem provider_events_roundtrip_witness:
  "parseServerSentEvents ascii_decoder None (map Chunk_text [''da'', ''ta: {}'' @ [newline], newline # ''data: [DONE]'', [newline, newline]]) =
    ([''{}'', ''[DONE]''], None)"
  by (rule provider_events_roundtrip)
    (simp_all add: event_frame_def sendable_def newline_def carriage_return_def ascii_decoder_def)

end
