(* ===== verification/Remote_Frames.thy ===== *)
theory Remote_Frames
  imports Event_Stream_Safety
begin

text \<open>
  The frames of a remote Agent Host: what \<open>readRemoteSseFrames\<close> promises, by the interface of the
  readers of theory Event_Stream_Safety, once for the lines that a read completes and once for the
  reads.
\<close>

section \<open>The frames of a text\<close>

record frame_lines =
  fl_out :: "RemoteSseFrame list"
  fl_fields :: frame_fields
  fl_span :: nat
  fl_peak :: nat

definition no_frames :: frame_lines where
  "no_frames = \<lparr>fl_out = [], fl_fields = no_fields, fl_span = 0, fl_peak = 0\<rparr>"

definition frame_line :: "frame_lines \<Rightarrow> string \<Rightarrow> frame_lines" where
  "frame_line l raw =
     (let line = strip_cr raw; span = fl_span l + byteLength line + 1
      in if line = []
         then \<lparr>fl_out = fl_out l @ frame_of_fields (fl_fields l), fl_fields = no_fields, fl_span = 0, fl_peak = max (fl_peak l) span\<rparr>
         else \<lparr>fl_out = fl_out l, fl_fields = read_field line (fl_fields l), fl_span = span, fl_peak = max (fl_peak l) span\<rparr>)"

definition text_frame_lines :: "string \<Rightarrow> frame_lines" where
  "text_frame_lines txt = foldl frame_line no_frames (butlast (line_split txt))"

definition text_frames :: "string \<Rightarrow> string \<Rightarrow> RemoteSseFrame list" where
  "text_frames txt tail =
     (let l = text_frame_lines txt; rest = last (line_split txt) @ tail
      in fl_out l @ frame_of_fields (if rest = [] then fl_fields l else read_field (strip_cr rest) (fl_fields l)))"

definition frames_fit :: "nat \<Rightarrow> string \<Rightarrow> string \<Rightarrow> bool" where
  "frames_fit maxFrameBytes txt tail \<longleftrightarrow>
     (let l = text_frame_lines txt; rest = last (line_split txt) @ tail
      in fl_peak l \<le> maxFrameBytes \<and> (rest = [] \<or> fl_span l + byteLength (strip_cr rest) + 1 \<le> maxFrameBytes))"

section \<open>The lines of one read\<close>

record 'd frame_progress =
  fp_lines :: frame_lines
  fp_rest :: string
  fp_decoder :: 'd

definition frame_out :: "'d frame_progress \<Rightarrow> RemoteSseFrame list" where
  "frame_out x = fl_out (fp_lines x)"

definition lines_fine :: "nat \<Rightarrow> 'd frame_progress \<Rightarrow> bool" where
  "lines_fine n x \<longleftrightarrow> fl_peak (fp_lines x) \<le> n"

definition lines_rel :: "'d remote \<Rightarrow> 'd frame_progress \<Rightarrow> bool" where
  "lines_rel s x \<longleftrightarrow> s = \<lparr>rf_decoder = fp_decoder x, rf_buffer = fp_rest x, rf_frameBytes = fl_span (fp_lines x),
     rf_fields = fl_fields (fp_lines x), rf_out = fl_out (fp_lines x)\<rparr>"

definition after_raw :: "string \<Rightarrow> 'd frame_progress \<Rightarrow> 'd frame_progress option" where
  "after_raw raw x = Some (x\<lparr>fp_lines := frame_line (fp_lines x) raw\<rparr>)"

lemma frame_line_peak [simp]: "fl_peak (frame_line l raw) = max (fl_peak l) (fl_span l + byteLength (strip_cr raw) + 1)"
  by (simp add: frame_line_def Let_def)

lemma frame_line_grows [simp]: "prefix (fl_out l) (fl_out (frame_line l raw))"
  by (simp add: frame_line_def Let_def)

lemma remote_line_ok:
  assumes "lines_rel s x" "fl_span (fp_lines x) + byteLength (strip_cr raw) + 1 \<le> n"
  shows "\<exists>t. remote_line n raw s = (Inr (), t) \<and> lines_rel t (x\<lparr>fp_lines := frame_line (fp_lines x) raw\<rparr>)"
  using assms by (auto simp: remote_line_def Let_def eff_bind_def countFrame_def lines_rel_def frame_line_def)

lemma remote_line_bad:
  assumes "lines_rel s x" "\<not> fl_span (fp_lines x) + byteLength (strip_cr raw) + 1 \<le> n"
  shows "\<exists>e t. remote_line n raw s = (Inl e, t) \<and> rf_out t = frame_out x"
  using assms by (auto simp: remote_line_def Let_def eff_bind_def countFrame_def lines_rel_def frame_out_def)

text \<open>Lines that were within the limit are known to be, so the relation has it.\<close>

interpretation raw: guarded_reader "remote_line n" after_raw "lines_fine n" "\<lambda>s x. lines_rel s x \<and> lines_fine n x" rf_out frame_out
proof unfold_locales
  fix s :: "'a remote" and x y :: "'a frame_progress" and raw
  assume step: "after_raw raw x = Some y"
  then have y: "y = x\<lparr>fp_lines := frame_line (fp_lines x) raw\<rparr>" by (simp add: after_raw_def)
  show grows: "prefix (frame_out x) (frame_out y)" by (simp add: y frame_out_def)
  show "lines_fine n y \<Longrightarrow> lines_fine n x" by (simp add: y lines_fine_def)
  assume rel: "lines_rel s x \<and> lines_fine n x"
  have fine: "lines_fine n y \<longleftrightarrow> fl_span (fp_lines x) + byteLength (strip_cr raw) + 1 \<le> n" using rel by (auto simp: y lines_fine_def)
  show "lines_fine n y \<Longrightarrow> \<exists>t. remote_line n raw s = (Inr (), t) \<and> lines_rel t y \<and> lines_fine n y"
    using remote_line_ok rel fine y by blast
  show "\<not> lines_fine n y \<Longrightarrow> \<exists>e t. remote_line n raw s = (Inl e, t) \<and> prefix (rf_out t) (frame_out y)"
    using remote_line_bad [of s x raw n] rel fine grows by auto
qed

lemma feed_raw: "feed_all after_raw ls x = Some (x\<lparr>fp_lines := foldl frame_line (fp_lines x) ls\<rparr>)"
  by (induction ls arbitrary: x) (simp_all add: after_raw_def)

section \<open>The reads\<close>

definition frame_fine :: "nat \<Rightarrow> 'd frame_progress \<Rightarrow> bool" where
  "frame_fine n x \<longleftrightarrow> lines_fine n x \<and> byteLength (fp_rest x) \<le> n"

definition frame_rel :: "nat \<Rightarrow> 'd remote \<Rightarrow> 'd frame_progress \<Rightarrow> bool" where
  "frame_rel n s x \<longleftrightarrow> lines_rel s x \<and> frame_fine n x \<and> newline \<notin> set (fp_rest x)"

definition frame_text :: "string \<Rightarrow> 'd frame_progress \<Rightarrow> 'd frame_progress" where
  "frame_text t x = x\<lparr>fp_lines := foldl frame_line (fp_lines x) (butlast (line_split (fp_rest x @ t))), fp_rest := last (line_split (fp_rest x @ t))\<rparr>"

definition after_read :: "'d decoder \<Rightarrow> nat list \<Rightarrow> 'd frame_progress \<Rightarrow> 'd frame_progress option" where
  "after_read dec b x =
     (case dc_decode dec (fp_decoder x) b of
        None \<Rightarrow> None
      | Some (t, d) \<Rightarrow> if newline \<in> set (fp_rest x) then None else Some (frame_text t (x\<lparr>fp_decoder := d\<rparr>)))"

lemma foldl_peak: "fl_peak l \<le> fl_peak (foldl frame_line l ls) \<and> prefix (fl_out l) (fl_out (foldl frame_line l ls))"
proof (induction ls arbitrary: l)
  case (Cons a ls)
  from Cons [of "frame_line l a"] show ?case using prefix_order.trans [OF frame_line_grows] by auto
qed simp

lemma frame_text_back:
  assumes "frame_fine n (frame_text t x)" "newline \<notin> set (fp_rest x)"
  shows "frame_fine n x"
proof -
  obtain ls r where ls: "line_split t = ls @ [r]" using append_butlast_last_id [OF line_split_ne] by metis
  have split: "line_split (fp_rest x @ t) = (if ls = [] then [fp_rest x @ r] else (fp_rest x @ hd ls) # tl ls @ [r])"
    using line_split_front [OF assms(2), of t] by (cases ls) (simp_all add: ls)
  show ?thesis
  proof (cases ls)
    case Nil
    then show ?thesis using assms(1) by (simp add: frame_fine_def lines_fine_def frame_text_def split)
  next
    case (Cons a as)
    have "byteLength (fp_rest x @ a) \<le> byteLength (strip_cr (fp_rest x @ a)) + 1" by (rule strip_cr_bytes)
    moreover have "fl_peak (frame_line (fp_lines x) (fp_rest x @ a)) \<le> n"
      using assms(1) foldl_peak [of "frame_line (fp_lines x) (fp_rest x @ a)" as] Cons
      by (simp add: frame_fine_def lines_fine_def frame_text_def split butlast_append)
    ultimately show ?thesis by (simp add: frame_fine_def lines_fine_def)
  qed
qed

interpretation read: guarded_reader "remote_chunk dec n" "after_read dec" "frame_fine n" "frame_rel n" rf_out frame_out
proof unfold_locales
  fix s :: "'a remote" and x y :: "'a frame_progress" and b
  assume step: "after_read dec b x = Some y"
  then obtain t d where dc: "dc_decode dec (fp_decoder x) b = Some (t, d)" and clean: "newline \<notin> set (fp_rest x)"
    and y: "y = frame_text t (x\<lparr>fp_decoder := d\<rparr>)"
    by (auto simp: after_read_def split: option.splits if_splits)
  show "prefix (frame_out x) (frame_out y)" using foldl_peak by (simp add: y frame_text_def frame_out_def)
  show "frame_fine n y \<Longrightarrow> frame_fine n x"
    using frame_text_back [of n t "x\<lparr>fp_decoder := d\<rparr>"] clean by (simp add: y) (simp add: frame_fine_def lines_fine_def)
  assume rel: "frame_rel n s x"
  let ?ls = "line_split (fp_rest x @ t)"
  let ?x = "x\<lparr>fp_decoder := d, fp_rest := last ?ls\<rparr>" and ?s = "s\<lparr>rf_decoder := d, rf_buffer := last ?ls\<rparr>"
  have start: "lines_rel ?s ?x \<and> lines_fine n ?x" "lines_fine n ?x"
    using rel by (auto simp: frame_rel_def lines_rel_def frame_fine_def lines_fine_def)
  have feed: "feed_all after_raw (butlast ?ls) ?x = Some y" by (simp add: feed_raw y frame_text_def)
  note run = raw.run [OF start(1) feed start(2)]
  have buffer: "rf_buffer s = fp_rest x" using rel by (simp add: frame_rel_def lines_rel_def)
  have decoder: "rf_decoder s = fp_decoder x" using rel by (simp add: frame_rel_def lines_rel_def)
  have chunk: "remote_chunk dec n b s = eff_bind (eff_for_each (remote_line n) (butlast ?ls)) (\<lambda>_ s.
      if byteLength (rf_buffer s) > n then (Inl (Stream_error ''remote Agent Host SSE line exceeds its limit''), s) else (Inr (), s)) ?s"
    by (simp add: remote_chunk_def decoder buffer dc Let_def)
  have rest: "fp_rest y = last ?ls" by (simp add: y frame_text_def)
  show "frame_fine n y \<Longrightarrow> \<exists>t. remote_chunk dec n b s = (Inr (), t) \<and> frame_rel n t y"
    unfolding chunk using run rest by (auto simp: frame_fine_def frame_rel_def eff_bind_def lines_rel_def)
  show "\<not> frame_fine n y \<Longrightarrow> \<exists>e t. remote_chunk dec n b s = (Inl e, t) \<and> prefix (rf_out t) (frame_out y)"
  proof (cases "lines_fine n y")
    case True
    assume "\<not> frame_fine n y"
    with True run rest show ?thesis unfolding chunk by (auto simp: frame_fine_def eff_bind_def lines_rel_def frame_out_def)
  next
    case False
    with run show ?thesis unfolding chunk by (auto simp: eff_bind_def)
  qed
qed

lemma frame_text_append: "frame_text u (frame_text t x) = frame_text (t @ u) x"
  using line_split_append [of "fp_rest x @ t" u] by (simp add: frame_text_def butlast_append)

lemma feed_reads:
  assumes "newline \<notin> set (fp_rest x)" "decode_all dec (fp_decoder x) (map Chunk_bytes cs) = Some (t, d)"
  shows "feed_all (after_read dec) cs x = Some ((frame_text t x)\<lparr>fp_decoder := d\<rparr>)"
  using assms
proof (induction cs arbitrary: x t)
  case Nil
  then show ?case by (simp add: frame_text_def line_split_plain)
next
  case (Cons c cs)
  then obtain a e u where c: "dc_decode dec (fp_decoder x) c = Some (a, e)" "decode_all dec e (map Chunk_bytes cs) = Some (u, d)" "t = a @ u"
    by (auto simp: decode_chunk_def split: option.splits)
  let ?x = "x\<lparr>fp_decoder := e\<rparr>"
  have step: "after_read dec c x = Some (frame_text a ?x)" using Cons.prems(1) by (simp add: after_read_def c(1))
  have "feed_all (after_read dec) cs (frame_text a ?x) = Some ((frame_text u (frame_text a ?x))\<lparr>fp_decoder := d\<rparr>)"
    using Cons.IH [of "frame_text a ?x" u] c(2) by (simp add: frame_text_def)
  then show ?case using step c(3) by (simp add: frame_text_append) (simp add: frame_text_def)
qed

lemma remote_finish_run:
  assumes "frame_rel n s x" "dc_end dec (fp_decoder x) = Some tail"
  shows "if fp_rest x @ tail = [] \<or> fl_span (fp_lines x) + byteLength (strip_cr (fp_rest x @ tail)) + 1 \<le> n
    then \<exists>t. remote_finish dec n s = (Inr (), t) \<and> rf_out t = frame_out x @
      frame_of_fields (if fp_rest x @ tail = [] then fl_fields (fp_lines x) else read_field (strip_cr (fp_rest x @ tail)) (fl_fields (fp_lines x)))
    else \<exists>e t. remote_finish dec n s = (Inl e, t) \<and> rf_out t = frame_out x"
  using assms by (auto simp: frame_rel_def lines_rel_def remote_finish_def Let_def eff_bind_def countFrame_def frame_out_def)

lemma rest_fits:
  assumes "rest @ tail = [] \<or> m + byteLength (strip_cr (rest @ tail)) + 1 \<le> n"
  shows "byteLength rest \<le> n"
  using assms strip_cr_bytes [of "rest @ tail"] by auto

definition start_frames :: "'d decoder \<Rightarrow> 'd frame_progress" where
  "start_frames dec = \<lparr>fp_lines = no_frames, fp_rest = [], fp_decoder = dc_start dec\<rparr>"

lemma start_frame_rel: "frame_rel n (remote_start dec) (start_frames dec)"
  by (simp add: frame_rel_def lines_rel_def remote_start_def start_frames_def no_frames_def frame_fine_def lines_fine_def)

text \<open>
  C35. The frames of a remote host are found whatever the reads are that the body comes in: they are
  those of the text, up to the frame that is above the limit, and there is an error exactly if there is
  such a frame. The check of the bytes that wait in the buffer refuses nothing that the check of the
  frame would accept.
\<close>

theorem remote_frames_of_text:
  assumes body: "decode_all dec (dc_start dec) (map Chunk_bytes body) = Some (txt, d)" "dc_end dec d = Some tail"
  shows "case readRemoteSseFrames dec maxFrameBytes body of (out, err) \<Rightarrow>
    prefix out (text_frames txt tail) \<and> (err = None \<longrightarrow> out = text_frames txt tail) \<and> (err = None \<longleftrightarrow> frames_fit maxFrameBytes txt tail)"
proof -
  let ?n = maxFrameBytes and ?y = "(frame_text txt (start_frames dec))\<lparr>fp_decoder := d\<rparr>"
  have feed: "feed_all (after_read dec) body (start_frames dec) = Some ?y"
    using feed_reads [of "start_frames dec" dec body "txt" d] body by (simp add: start_frames_def)
  note start = start_frame_rel [of ?n dec]
  have "frame_fine ?n (start_frames dec)" using start by (simp add: frame_rel_def)
  note run = read.run [OF start feed this]
  have lines: "fp_lines ?y = text_frame_lines txt" "fp_rest ?y = last (line_split txt)"
    by (simp_all add: frame_text_def start_frames_def text_frame_lines_def)
  let ?fits = "fp_rest ?y @ tail = [] \<or> fl_span (fp_lines ?y) + byteLength (strip_cr (fp_rest ?y @ tail)) + 1 \<le> ?n"
  have fits: "frames_fit ?n txt tail \<longleftrightarrow> frame_fine ?n ?y \<and> ?fits"
    using rest_fits [of "last (line_split txt)" tail] unfolding frames_fit_def Let_def frame_fine_def lines_fine_def lines by blast
  have out: "text_frames txt tail = frame_out ?y @ frame_of_fields (if fp_rest ?y @ tail = [] then fl_fields (fp_lines ?y)
      else read_field (strip_cr (fp_rest ?y @ tail)) (fl_fields (fp_lines ?y)))"
    unfolding text_frames_def Let_def frame_out_def lines ..
  show ?thesis
  proof (cases "frame_fine ?n ?y")
    case True
    then obtain t where t: "eff_for_each (remote_chunk dec ?n) body (remote_start dec) = (Inr (), t)" "frame_rel ?n t ?y" using run by auto
    have "dc_end dec (fp_decoder ?y) = Some tail" using body(2) by simp
    note fin = remote_finish_run [OF t(2) this]
    show ?thesis unfolding fits out readRemoteSseFrames_def using fin True t(1) by (auto simp: eff_bind_def split: if_splits)
  next
    case False
    then obtain e t where "eff_for_each (remote_chunk dec ?n) body (remote_start dec) = (Inl e, t)" "prefix (rf_out t) (frame_out ?y)" using run by auto
    then show ?thesis unfolding fits out readRemoteSseFrames_def using False by (auto simp: eff_bind_def)
  qed
qed

definition demo_reads :: "nat list list" where
  "demo_reads = [[105, 100, 58, 55, 10, 100, 97], [116, 97, 58, 120, 13], [10, 10]]"

lemma demo_reads_text: "decode_all (ascii_decoder False) () (map Chunk_bytes demo_reads) =
    Some (''id:7'' @ [newline] @ ''data:x'' @ [carriage_return, newline, newline], ())"
  by code_simp

lemma demo_reads_frames:
  "text_frames (''id:7'' @ [newline] @ ''data:x'' @ [carriage_return, newline, newline]) [] = [\<lparr>fr_event = None, fr_id = Some ''7'', fr_data = ''x''\<rparr>]"
  "frames_fit 13 (''id:7'' @ [newline] @ ''data:x'' @ [carriage_return, newline, newline]) []"
  by code_simp+

theorem remote_frames_of_text_witness:
  "readRemoteSseFrames (ascii_decoder False) 13 demo_reads = ([\<lparr>fr_event = None, fr_id = Some ''7'', fr_data = ''x''\<rparr>], None)"
  using remote_frames_of_text [of "ascii_decoder False" demo_reads _ "()" "[]" 13] demo_reads_text demo_reads_frames
  by (auto simp: ascii_decoder_def [of False] split: prod.splits)

end
