(* ===== verification/Plugin_Permission.thy ===== *)
theory Plugin_Permission
  imports Prelude
begin

text \<open>
  The permissions of plugins: packages/plugin/src/types-permission.ts, permission-validation.ts,
  permission-match.ts, permission-grant.ts, permission-grant-projection.ts and permission-guard.ts. A
  guard decides on a call of a plugin action, from one policy or from a list of grants. An error is
  its message. The metadata of a grant is JSON, so that the check of it always succeeds.
\<close>

section \<open>Data\<close>

datatype PluginCapability =
    PC_resource_read | PC_resource_write | PC_workspace_change_propose | PC_delegation_graph_read | PC_delegation_graph_write
  | PC_team_conversation_read | PC_team_conversation_write | PC_channel_connect | PC_channel_receive | PC_channel_deliver
  | PC_config_read | PC_config_write | PC_network_fetch

fun capabilityText :: "PluginCapability \<Rightarrow> string" where
  "capabilityText PC_resource_read = ''resource.read''"
| "capabilityText PC_resource_write = ''resource.write''"
| "capabilityText PC_workspace_change_propose = ''workspace.change.propose''"
| "capabilityText PC_delegation_graph_read = ''delegation.graph.read''"
| "capabilityText PC_delegation_graph_write = ''delegation.graph.write''"
| "capabilityText PC_team_conversation_read = ''team.conversation.read''"
| "capabilityText PC_team_conversation_write = ''team.conversation.write''"
| "capabilityText PC_channel_connect = ''channel.connect''"
| "capabilityText PC_channel_receive = ''channel.receive''"
| "capabilityText PC_channel_deliver = ''channel.deliver''"
| "capabilityText PC_config_read = ''config.read''"
| "capabilityText PC_config_write = ''config.write''"
| "capabilityText PC_network_fetch = ''network.fetch''"

definition PLUGIN_CAPABILITIES :: "PluginCapability list" where
  "PLUGIN_CAPABILITIES =
     [PC_resource_read, PC_resource_write, PC_workspace_change_propose, PC_delegation_graph_read, PC_delegation_graph_write,
      PC_team_conversation_read, PC_team_conversation_write, PC_channel_connect, PC_channel_receive, PC_channel_deliver,
      PC_config_read, PC_config_write, PC_network_fetch]"

datatype PluginManifestState = PM_registered | PM_disabled

record PluginManifestRecord =
  pm_id :: string
  pm_pluginId :: string
  pm_version :: string
  pm_name :: "string option"
  pm_entry :: "json option"
  pm_capabilities :: "PluginCapability list"
  pm_state :: PluginManifestState
  pm_metadata :: "json option"
  pm_createdAt :: rat
  pm_updatedAt :: rat
  pm_disabledAt :: "rat option"

datatype PluginPermissionDecisionStatus = PD_allow | PD_deny

record PluginPermissionRequest =
  pr_resources :: "string list option"
  pr_networks :: "string list option"
  pr_fileSystemPaths :: "string list option"
  pr_maxExecutionMs :: "rat option"

record PluginPermissionPolicy =
  pp_pluginId :: string
  pp_version :: "string option"
  pp_decision :: PluginPermissionDecisionStatus
  pp_reason :: "string option"
  pp_capabilities :: "PluginCapability list option"
  pp_access :: PluginPermissionRequest

record PluginPermissionGrant = PluginPermissionPolicy +
  gr_metadata :: "json option"

datatype decision_status = DS_allowed | DS_denied

record PluginPermissionDecision =
  pd_status :: decision_status
  pd_policy :: PluginPermissionPolicy
  pd_reason :: "string option"

record PluginPermissionGuardOptions =
  go_policy :: PluginPermissionPolicy
  go_plugin :: PluginManifestRecord
  go_actionId :: string
  go_actionCapability :: PluginCapability
  go_payload :: json
  go_request :: "PluginPermissionRequest option"

type_synonym PluginPermissionGuard = "PluginPermissionGuardOptions \<Rightarrow> PluginPermissionDecision"

section \<open>Validation\<close>

definition validateStringList :: "string list option \<Rightarrow> string \<Rightarrow> string + unit" where
  "validateStringList v label =
     (case v of None \<Rightarrow> Inr () | Some xs \<Rightarrow> guard (list_all (\<lambda>x. x \<noteq> []) xs) (label @ '' entries must not be empty''))"

definition validatePluginPermissionRequest :: "PluginPermissionRequest \<Rightarrow> string + unit" where
  "validatePluginPermissionRequest r =
     res_bind (validateStringList (pr_resources r) ''plugin permission request resources'') (\<lambda>_.
     res_bind (validateStringList (pr_networks r) ''plugin permission request networks'') (\<lambda>_.
     res_bind (validateStringList (pr_fileSystemPaths r) ''plugin permission request fileSystemPaths'') (\<lambda>_.
     guard (case pr_maxExecutionMs r of None \<Rightarrow> True | Some n \<Rightarrow> 0 < n) ''plugin permission request maxExecutionMs must be positive'')))"

text \<open>That the decision is one of the two is given by its type.\<close>

definition validatePluginPermissionPolicy :: "PluginPermissionPolicy \<Rightarrow> string + unit" where
  "validatePluginPermissionPolicy p =
     res_bind (guard (pp_pluginId p \<noteq> []) ''plugin permission policy pluginId must not be empty'') (\<lambda>_.
     res_bind (guard (pp_reason p \<noteq> Some []) ''plugin permission policy reason must not be empty'') (\<lambda>_.
     res_bind (validateStringList (map_option (map capabilityText) (pp_capabilities p)) ''plugin permission policy capabilities'') (\<lambda>_.
     res_bind (validateStringList (pr_resources (pp_access p)) ''plugin permission policy resources'') (\<lambda>_.
     res_bind (validateStringList (pr_networks (pp_access p)) ''plugin permission policy networks'') (\<lambda>_.
     res_bind (validateStringList (pr_fileSystemPaths (pp_access p)) ''plugin permission policy fileSystemPaths'') (\<lambda>_.
     guard (case pr_maxExecutionMs (pp_access p) of None \<Rightarrow> True | Some n \<Rightarrow> 0 < n) ''plugin permission policy maxExecutionMs must be positive''))))))"

definition pluginPermissionPolicyFromGrantUnsafe :: "PluginPermissionGrant \<Rightarrow> PluginPermissionPolicy" where
  "pluginPermissionPolicyFromGrantUnsafe g = PluginPermissionPolicy.truncate g"

definition validatePluginPermissionGrant :: "PluginPermissionGrant \<Rightarrow> string + unit" where
  "validatePluginPermissionGrant g = validatePluginPermissionPolicy (pluginPermissionPolicyFromGrantUnsafe g)"

definition pluginPermissionPolicyFromGrant :: "PluginPermissionGrant \<Rightarrow> string + PluginPermissionPolicy" where
  "pluginPermissionPolicyFromGrant g =
     res_bind (validatePluginPermissionGrant g) (\<lambda>_. Inr (pluginPermissionPolicyFromGrantUnsafe g))"

section \<open>Matching\<close>

definition isCapabilityAllowed :: "PluginCapability list option \<Rightarrow> PluginCapability \<Rightarrow> bool" where
  "isCapabilityAllowed allowed capability = (case allowed of None \<Rightarrow> False | Some cs \<Rightarrow> capability \<in> set cs)"

definition isPolicyIdentityMatch :: "PluginPermissionPolicy \<Rightarrow> PluginManifestRecord \<Rightarrow> bool" where
  "isPolicyIdentityMatch policy manifest =
     (pp_pluginId policy = pm_pluginId manifest \<and> (pp_version policy = None \<or> pp_version policy = Some (pm_version manifest)))"

definition isListAllowed :: "string list option \<Rightarrow> string list option \<Rightarrow> bool" where
  "isListAllowed requested allowed =
     (if requested = None \<or> requested = Some [] then True
      else if allowed = None \<or> allowed = Some [] then False
      else if ''*'' \<in> set (the allowed) then True
      else set (the requested) \<subseteq> set (the allowed))"

definition isExecutionTimeAllowed :: "rat option \<Rightarrow> rat option \<Rightarrow> bool" where
  "isExecutionTimeAllowed requested allowed =
     (case requested of None \<Rightarrow> True | Some r \<Rightarrow> (case allowed of None \<Rightarrow> False | Some a \<Rightarrow> r \<le> a))"

definition isAccessRequestAllowed :: "PluginPermissionPolicy \<Rightarrow> PluginPermissionRequest option \<Rightarrow> bool" where
  "isAccessRequestAllowed policy request =
     (case request of
        None \<Rightarrow> True
      | Some r \<Rightarrow> isListAllowed (pr_resources r) (pr_resources (pp_access policy)) \<and>
          isListAllowed (pr_networks r) (pr_networks (pp_access policy)) \<and>
          isListAllowed (pr_fileSystemPaths r) (pr_fileSystemPaths (pp_access policy)) \<and>
          isExecutionTimeAllowed (pr_maxExecutionMs r) (pr_maxExecutionMs (pp_access policy)))"

section \<open>Guards\<close>

definition denied :: "PluginPermissionPolicy \<Rightarrow> string option \<Rightarrow> PluginPermissionDecision" where
  "denied policy reason = \<lparr>pd_status = DS_denied, pd_policy = policy, pd_reason = reason\<rparr>"

definition allowed :: "PluginPermissionPolicy \<Rightarrow> PluginPermissionDecision" where
  "allowed policy = \<lparr>pd_status = DS_allowed, pd_policy = policy, pd_reason = None\<rparr>"

definition authorize_policy :: "PluginPermissionPolicy \<Rightarrow> PluginPermissionGuard" where
  "authorize_policy policy opts =
     (let plugin = go_plugin opts in
      if pp_decision policy = PD_deny then denied policy (pp_reason policy)
      else if pm_pluginId plugin \<noteq> pp_pluginId policy then denied policy (Some (''plugin mismatch: '' @ pm_pluginId plugin))
      else if pp_version policy \<noteq> None \<and> pp_version policy \<noteq> Some (pm_version plugin)
      then denied policy (Some (''plugin version mismatch: '' @ pm_version plugin))
      else if \<not> isCapabilityAllowed (pp_capabilities policy) (go_actionCapability opts)
      then denied policy (Some (''plugin capability denied: '' @ capabilityText (go_actionCapability opts)))
      else if \<not> isAccessRequestAllowed policy (go_request opts)
      then denied policy (Some (''plugin permission denied: '' @ pm_pluginId plugin @ ''/'' @ go_actionId opts))
      else allowed policy)"

definition createPluginPermissionGuard :: "PluginPermissionPolicy \<Rightarrow> string + PluginPermissionGuard" where
  "createPluginPermissionGuard policy = res_bind (validatePluginPermissionPolicy policy) (\<lambda>_. Inr (authorize_policy policy))"

text \<open>The condition that both loops of the grant guard test after the decision.\<close>

definition policy_covers :: "PluginPermissionGuardOptions \<Rightarrow> PluginPermissionPolicy \<Rightarrow> bool" where
  "policy_covers opts policy =
     (isPolicyIdentityMatch policy (go_plugin opts) \<and> isCapabilityAllowed (pp_capabilities policy) (go_actionCapability opts) \<and>
      isAccessRequestAllowed policy (go_request opts))"

definition no_grant_policy :: "PluginManifestRecord \<Rightarrow> PluginPermissionPolicy" where
  "no_grant_policy plugin =
     \<lparr>pp_pluginId = pm_pluginId plugin, pp_version = Some (pm_version plugin), pp_decision = PD_deny,
      pp_reason = Some ''no matching plugin permission grant'', pp_capabilities = None,
      pp_access = \<lparr>pr_resources = None, pr_networks = None, pr_fileSystemPaths = None, pr_maxExecutionMs = None\<rparr>\<rparr>"

definition authorize_grants :: "PluginPermissionPolicy list \<Rightarrow> PluginPermissionGuard" where
  "authorize_grants policies opts =
     (case List.find (\<lambda>p. pp_decision p = PD_deny \<and> policy_covers opts p) policies of
        Some p \<Rightarrow> denied p (pp_reason p)
      | None \<Rightarrow>
          (case List.find (\<lambda>p. pp_decision p = PD_allow \<and> policy_covers opts p) policies of
             Some p \<Rightarrow> allowed p
           | None \<Rightarrow> denied (no_grant_policy (go_plugin opts)) (Some ''no matching plugin permission grant'')))"

definition createPluginPermissionGrantGuard :: "PluginPermissionGrant list \<Rightarrow> string + PluginPermissionGuard" where
  "createPluginPermissionGrantGuard grants =
     (if grants = [] then Inl ''plugin permission grants must not be empty''
      else res_bind (map_result pluginPermissionPolicyFromGrant grants) (\<lambda>policies. Inr (authorize_grants policies)))"

end
