(* ===== verification/Plugin_Action.thy ===== *)
theory Plugin_Action
  imports Plugin_Permission Delegation_Types Decimal_Text
begin

text \<open>
  The execution of plugin actions: the handler of \<open>plugin.action\<close> jobs
  (packages/plugin/src/action-job-handler.ts, with action-payload.ts, action-manifest.ts, the readers of
  internal-validation.ts, codec-trust.ts and the check of codec-install.ts) and the hosts in the process
  (action-host-in-process.ts, action-host-composite.ts). The store and the host are arguments that may
  change the world. What the handler passes on unread (the storage, the signal, the heartbeat) is left
  out of the request of the host. A name that every object inherits is not a field of a JSON record
  here; none of the names read is one.
\<close>

section \<open>Readers\<close>

fun record_of :: "json option \<Rightarrow> string \<Rightarrow> string + (string \<times> json) list" where
  "record_of (Some (JObj m)) label = Inr m"
| "record_of _ label = Inl (label @ '' must be an object'')"

fun text_of :: "json option \<Rightarrow> string \<Rightarrow> string + string" where
  "text_of (Some (JStr (c # cs))) label = Inr (c # cs)"
| "text_of _ label = Inl (label @ '' must be a non-empty string'')"

fun flag_of :: "json option \<Rightarrow> string \<Rightarrow> string + bool" where
  "flag_of (Some (JBool b)) label = Inr b"
| "flag_of _ label = Inl (label @ '' must be a boolean'')"

definition json_of :: "json option \<Rightarrow> string \<Rightarrow> string + json" where
  "json_of v label = (case v of None \<Rightarrow> Inl (label @ '' must be JSON-safe'') | Some x \<Rightarrow> Inr x)"

definition optional_of :: "(json option \<Rightarrow> string + 'a) \<Rightarrow> json option \<Rightarrow> string + 'a option" where
  "optional_of read v = (case v of None \<Rightarrow> Inr None | Some x \<Rightarrow> res_bind (read v) (\<lambda>y. Inr (Some y)))"

definition expectSha256 :: "json option \<Rightarrow> string \<Rightarrow> string + string" where
  "expectSha256 v label =
     res_bind (text_of v label) (\<lambda>hash.
     if length hash = 64 \<and> list_all (\<lambda>c. c \<in> set ''abcdef0123456789'') hash then Inr hash
     else Inl (label @ '' must be a lowercase sha256 hex digest''))"

definition expectPluginCapability :: "json option \<Rightarrow> string \<Rightarrow> string + PluginCapability" where
  "expectPluginCapability v label =
     res_bind (text_of v label) (\<lambda>t.
     case List.find (\<lambda>c. capabilityText c = t) PLUGIN_CAPABILITIES of
       None \<Rightarrow> Inl (''invalid plugin capability: '' @ t)
     | Some c \<Rightarrow> Inr c)"

section \<open>The trust record of an installed package\<close>

datatype PluginPackageSourceKind = PS_local | PS_registry | PS_archive | PS_git | PS_builtin

datatype PluginPackageTrustDecisionStatus = PT_allow | PT_deny | PT_review_required

fun sourceKindText :: "PluginPackageSourceKind \<Rightarrow> string" where
  "sourceKindText PS_local = ''local''"
| "sourceKindText PS_registry = ''registry''"
| "sourceKindText PS_archive = ''archive''"
| "sourceKindText PS_git = ''git''"
| "sourceKindText PS_builtin = ''builtin''"

fun trustDecisionText :: "PluginPackageTrustDecisionStatus \<Rightarrow> string" where
  "trustDecisionText PT_allow = ''allow''"
| "trustDecisionText PT_deny = ''deny''"
| "trustDecisionText PT_review_required = ''review-required''"

record PluginPackageTrustSource =
  ts_kind :: PluginPackageSourceKind
  ts_uri :: "string option"
  ts_publisher :: "string option"
  ts_revision :: "string option"

record PluginPackageTrustSignature =
  sg_kind :: string
  sg_signer :: "string option"
  sg_verified :: bool

record PluginPackageTrustRecord =
  tr_pluginId :: string
  tr_version :: string
  tr_source :: PluginPackageTrustSource
  tr_sha256 :: "string option option"
  tr_signature :: "PluginPackageTrustSignature option"
  tr_rootDir :: string
  tr_decision :: PluginPackageTrustDecisionStatus
  tr_reason :: "string option"
  tr_metadata :: "json option"

definition WANEX_PLUGIN_PACKAGE_TRUST_KIND :: string where
  "WANEX_PLUGIN_PACKAGE_TRUST_KIND = ''wanex.plugin.package.trust.v1''"

definition expectPluginPackageTrustSource :: "json option \<Rightarrow> string + PluginPackageTrustSource" where
  "expectPluginPackageTrustSource v =
     res_bind (record_of v ''plugin package trust source'') (\<lambda>m.
     res_bind (text_of (map_of m ''kind'') ''plugin package trust source kind'') (\<lambda>kind.
     case List.find (\<lambda>k. sourceKindText k = kind) [PS_local, PS_registry, PS_archive, PS_git, PS_builtin] of
       None \<Rightarrow> Inl (''plugin package trust source kind is not supported: '' @ kind)
     | Some k \<Rightarrow>
         res_bind (optional_of (\<lambda>x. text_of x ''plugin package trust source uri'') (map_of m ''uri'')) (\<lambda>uri.
         res_bind (optional_of (\<lambda>x. text_of x ''plugin package trust source publisher'') (map_of m ''publisher'')) (\<lambda>publisher.
         res_bind (optional_of (\<lambda>x. text_of x ''plugin package trust source revision'') (map_of m ''revision'')) (\<lambda>revision.
         Inr \<lparr>ts_kind = k, ts_uri = uri, ts_publisher = publisher, ts_revision = revision\<rparr>)))))"

definition expectPluginPackageTrustIntegrity :: "json option \<Rightarrow> string + string option" where
  "expectPluginPackageTrustIntegrity v =
     res_bind (record_of v ''plugin package trust integrity'') (\<lambda>m.
     optional_of (\<lambda>x. expectSha256 x ''plugin package trust sha256'') (map_of m ''sha256''))"

definition expectPluginPackageTrustSignature :: "json option \<Rightarrow> string + PluginPackageTrustSignature" where
  "expectPluginPackageTrustSignature v =
     res_bind (record_of v ''plugin package trust signature'') (\<lambda>m.
     res_bind (text_of (map_of m ''kind'') ''plugin package trust signature kind'') (\<lambda>kind.
     res_bind (optional_of (\<lambda>x. text_of x ''plugin package trust signature signer'') (map_of m ''signer'')) (\<lambda>signer.
     res_bind (flag_of (map_of m ''verified'') ''plugin package trust signature verified'') (\<lambda>verified.
     Inr \<lparr>sg_kind = kind, sg_signer = signer, sg_verified = verified\<rparr>))))"

definition expectPluginPackageTrustInstall :: "json option \<Rightarrow> string + string" where
  "expectPluginPackageTrustInstall v =
     res_bind (record_of v ''plugin package trust install'') (\<lambda>m. text_of (map_of m ''rootDir'') ''plugin package trust install rootDir'')"

definition expectPluginPackageTrustDecision :: "json option \<Rightarrow> string + PluginPackageTrustDecisionStatus \<times> string option" where
  "expectPluginPackageTrustDecision v =
     res_bind (record_of v ''plugin package trust decision'') (\<lambda>m.
     res_bind (text_of (map_of m ''status'') ''plugin package trust decision status'') (\<lambda>status.
     case List.find (\<lambda>d. trustDecisionText d = status) [PT_allow, PT_deny, PT_review_required] of
       None \<Rightarrow> Inl (''plugin package trust decision is not supported: '' @ status)
     | Some d \<Rightarrow>
         res_bind (optional_of (\<lambda>x. text_of x ''plugin package trust decision reason'') (map_of m ''reason'')) (\<lambda>reason. Inr (d, reason))))"

definition pluginPackageTrustRecordFromJson :: "json \<Rightarrow> string + PluginPackageTrustRecord" where
  "pluginPackageTrustRecordFromJson v =
     res_bind (record_of (Some v) ''plugin package trust record'') (\<lambda>m.
     res_bind (text_of (map_of m ''kind'') ''plugin package trust kind'') (\<lambda>kind.
     res_bind (guard (kind = WANEX_PLUGIN_PACKAGE_TRUST_KIND) ''plugin package trust kind is not supported'') (\<lambda>_.
     res_bind (text_of (map_of m ''pluginId'') ''plugin package trust pluginId'') (\<lambda>pluginId.
     res_bind (text_of (map_of m ''version'') ''plugin package trust version'') (\<lambda>version.
     res_bind (expectPluginPackageTrustSource (map_of m ''source'')) (\<lambda>source.
     res_bind (optional_of expectPluginPackageTrustIntegrity (map_of m ''integrity'')) (\<lambda>integrity.
     res_bind (optional_of expectPluginPackageTrustSignature (map_of m ''signature'')) (\<lambda>signature.
     res_bind (expectPluginPackageTrustInstall (map_of m ''install'')) (\<lambda>rootDir.
     res_bind (expectPluginPackageTrustDecision (map_of m ''decision'')) (\<lambda>decision.
     Inr \<lparr>tr_pluginId = pluginId, tr_version = version, tr_source = source, tr_sha256 = integrity, tr_signature = signature,
          tr_rootDir = rootDir, tr_decision = fst decision, tr_reason = snd decision, tr_metadata = map_of m ''metadata''\<rparr>))))))))))"

datatype PluginInstallState = PI_installed | PI_disabled | PI_removed

fun installStateText :: "PluginInstallState \<Rightarrow> string" where
  "installStateText PI_installed = ''installed''"
| "installStateText PI_disabled = ''disabled''"
| "installStateText PI_removed = ''removed''"

record PluginInstallRecord =
  pi_id :: string
  pi_pluginId :: string
  pi_version :: string
  pi_state :: PluginInstallState
  pi_layout :: json
  pi_trust :: json
  pi_installRootDir :: string
  pi_metadata :: "json option"
  pi_installedAt :: rat
  pi_updatedAt :: rat
  pi_disabledAt :: "rat option"
  pi_removedAt :: "rat option"

definition assertPluginPackageTrusted :: "PluginManifestRecord \<Rightarrow> PluginPackageTrustRecord \<Rightarrow> string + unit" where
  "assertPluginPackageTrusted manifest trust =
     res_bind (guard (tr_pluginId trust = pm_pluginId manifest) ''plugin package trust pluginId does not match manifest'') (\<lambda>_.
     res_bind (guard (tr_version trust = pm_version manifest) ''plugin package trust version does not match manifest'') (\<lambda>_.
     res_bind (guard (tr_decision trust = PT_allow) (''plugin package trust decision is not allow: '' @ trustDecisionText (tr_decision trust))) (\<lambda>_.
     guard (case tr_signature trust of None \<Rightarrow> True | Some s \<Rightarrow> sg_verified s) ''plugin package signature is not verified'')))"

definition assertPluginInstallExecutable :: "PluginManifestRecord \<Rightarrow> PluginInstallRecord \<Rightarrow> PluginPackageTrustRecord \<Rightarrow> string + unit" where
  "assertPluginInstallExecutable manifest install trust =
     res_bind (guard (pi_pluginId install = pm_pluginId manifest) ''plugin install pluginId does not match manifest'') (\<lambda>_.
     res_bind (guard (pi_version install = pm_version manifest) ''plugin install version does not match manifest'') (\<lambda>_.
     res_bind (guard (pi_state install = PI_installed) (''plugin install is not installed: '' @ installStateText (pi_state install))) (\<lambda>_.
     assertPluginPackageTrusted manifest trust)))"

section \<open>The handler\<close>

record PluginActionJobPayload =
  jp_pluginId :: string
  jp_version :: string
  jp_actionId :: string
  jp_payload :: json
  jp_requiredCapability :: "PluginCapability option"

definition pluginActionJobPayloadFromJson :: "json \<Rightarrow> string + PluginActionJobPayload" where
  "pluginActionJobPayloadFromJson v =
     res_bind (record_of (Some v) ''plugin.action payload'') (\<lambda>m.
     res_bind (text_of (map_of m ''pluginId'') ''plugin.action.pluginId'') (\<lambda>pluginId.
     res_bind (text_of (map_of m ''version'') ''plugin.action.version'') (\<lambda>version.
     res_bind (text_of (map_of m ''actionId'') ''plugin.action.actionId'') (\<lambda>actionId.
     res_bind (json_of (map_of m ''payload'') ''plugin.action.payload'') (\<lambda>payload.
     res_bind (optional_of (\<lambda>x. expectPluginCapability x ''plugin.action.requiredCapability'') (map_of m ''requiredCapability'')) (\<lambda>required.
     Inr \<lparr>jp_pluginId = pluginId, jp_version = version, jp_actionId = actionId, jp_payload = payload, jp_requiredCapability = required\<rparr>))))))"

record PluginActionDescriptor =
  ad_capability :: PluginCapability
  ad_version :: string
  ad_permissions :: "PluginPermissionRequest option"

record ResolvePluginActionRequest =
  ra_pluginId :: string
  ra_actionId :: string
  ra_version :: string

record ExecutePluginActionRequest =
  ea_job :: SchedulerJobRecord
  ea_manifest :: PluginManifestRecord
  ea_actionId :: string
  ea_capability :: PluginCapability
  ea_payload :: json

record 's PluginActionHost =
  ho_resolve :: "ResolvePluginActionRequest \<Rightarrow> ('s, string, PluginActionDescriptor option) eff"
  ho_execute :: "ExecutePluginActionRequest \<Rightarrow> ('s, string, json option) eff"

record PluginActionExecutionAdmission =
  am_manifest :: PluginManifestRecord
  am_install :: PluginInstallRecord

type_synonym 's admission_store = "string \<Rightarrow> string \<Rightarrow> PluginCapability \<Rightarrow> ('s, string, PluginActionExecutionAdmission) eff"

definition requireExecutablePluginManifest ::
  "'s admission_store \<Rightarrow> string \<Rightarrow> string \<Rightarrow> PluginCapability \<Rightarrow> ('s, string, PluginManifestRecord) eff" where
  "requireExecutablePluginManifest store pluginId version capability =
     eff_bind (store pluginId version capability) (\<lambda>admission.
     eff_bind (eff_result (pluginPackageTrustRecordFromJson (pi_trust (am_install admission)))) (\<lambda>trust.
     eff_bind (eff_result (assertPluginInstallExecutable (am_manifest admission) (am_install admission) trust)) (\<lambda>_.
     eff_return (am_manifest admission))))"

definition defaultPluginPermissionPolicy :: "PluginManifestRecord \<Rightarrow> PluginPermissionPolicy" where
  "defaultPluginPermissionPolicy manifest =
     \<lparr>pp_pluginId = pm_pluginId manifest, pp_version = Some (pm_version manifest), pp_decision = PD_allow, pp_reason = None,
      pp_capabilities = Some (pm_capabilities manifest),
      pp_access = \<lparr>pr_resources = Some [], pr_networks = Some [], pr_fileSystemPaths = Some [], pr_maxExecutionMs = Some 30000\<rparr>\<rparr>"

record 's PluginActionJobHandlerOptions =
  ho_host :: "'s PluginActionHost"
  ho_storage :: "'s admission_store"
  ho_permissionGuard :: "PluginPermissionGuard option"

text \<open>Everything before the call of the host.\<close>

definition admit_action :: "'s PluginActionJobHandlerOptions \<Rightarrow> bool \<Rightarrow> SchedulerJobRecord \<Rightarrow> ('s, string, ExecutePluginActionRequest) eff" where
  "admit_action opts aborted job =
     eff_bind (eff_guard (\<not> aborted) (''plugin.action job aborted before start: '' @ jb_id job)) (\<lambda>_.
     eff_bind (eff_result (pluginActionJobPayloadFromJson (jb_payload job))) (\<lambda>p.
     let name = jp_pluginId p @ ''/'' @ jp_actionId p in
     eff_bind (ho_resolve (ho_host opts) \<lparr>ra_pluginId = jp_pluginId p, ra_actionId = jp_actionId p, ra_version = jp_version p\<rparr>) (\<lambda>resolved.
     case resolved of
       None \<Rightarrow> eff_throw (''plugin action handler not registered: '' @ name)
     | Some d \<Rightarrow>
         eff_bind (eff_guard (ad_version d = jp_version p) (''plugin action handler version mismatch: '' @ name)) (\<lambda>_.
         eff_bind (eff_guard (case jp_requiredCapability p of None \<Rightarrow> True | Some c \<Rightarrow> c = ad_capability d)
             (''plugin action required capability mismatch: '' @ (case jp_requiredCapability p of None \<Rightarrow> [] | Some c \<Rightarrow> capabilityText c) @
              '' != '' @ capabilityText (ad_capability d))) (\<lambda>_.
         eff_bind (requireExecutablePluginManifest (ho_storage opts) (jp_pluginId p) (jp_version p) (ad_capability d)) (\<lambda>manifest.
         eff_bind (eff_result (case ad_permissions d of None \<Rightarrow> Inr () | Some r \<Rightarrow> validatePluginPermissionRequest r)) (\<lambda>_.
         let policy = defaultPluginPermissionPolicy manifest in
         eff_bind (eff_result (case ho_permissionGuard opts of Some g \<Rightarrow> Inr g | None \<Rightarrow> createPluginPermissionGuard policy)) (\<lambda>authorize.
         eff_bind (eff_guard (pd_status (authorize \<lparr>go_policy = policy, go_plugin = manifest, go_actionId = jp_actionId p,
               go_actionCapability = ad_capability d, go_payload = jp_payload p, go_request = ad_permissions d\<rparr>) \<noteq> DS_denied)
             (''plugin permission denied: '' @ pm_pluginId manifest @ ''/'' @ jp_actionId p)) (\<lambda>_.
         eff_return \<lparr>ea_job = job, ea_manifest = manifest, ea_actionId = jp_actionId p, ea_capability = ad_capability d,
           ea_payload = jp_payload p\<rparr>)))))))))"

definition plugin_action_handler :: "'s PluginActionJobHandlerOptions \<Rightarrow> bool \<Rightarrow> SchedulerJobRecord \<Rightarrow> ('s, string, json) eff" where
  "plugin_action_handler opts aborted job =
     eff_bind (admit_action opts aborted job) (\<lambda>request.
     eff_bind (ho_execute (ho_host opts) request) (\<lambda>result.
     eff_return (case result of None \<Rightarrow> JNull | Some v \<Rightarrow> v)))"

text \<open>The guard that \<open>createPluginActionWorker\<close> gives its handler.\<close>

definition worker_guard :: "PluginPermissionGuard option \<Rightarrow> PluginPermissionGrant list option \<Rightarrow> string + PluginPermissionGuard option" where
  "worker_guard permissionGuard grants =
     (if permissionGuard = None \<and> grants = None then Inr None
      else case permissionGuard of
        Some g \<Rightarrow> Inr (Some g)
      | None \<Rightarrow> res_bind (createPluginPermissionGrantGuard (case grants of None \<Rightarrow> [] | Some gs \<Rightarrow> gs)) (\<lambda>g. Inr (Some g)))"

section \<open>Hosts\<close>

record 's PluginActionHandlerDefinition =
  hd_capability :: PluginCapability
  hd_version :: string
  hd_permissions :: "PluginPermissionRequest option"
  hd_handler :: "ExecutePluginActionRequest \<Rightarrow> ('s, string, json option) eff"

type_synonym 's PluginActionCatalog = "string \<Rightarrow> string \<Rightarrow> 's PluginActionHandlerDefinition option"

definition pluginActionDescriptorFromDefinition :: "'s PluginActionHandlerDefinition \<Rightarrow> PluginActionDescriptor" where
  "pluginActionDescriptorFromDefinition d = \<lparr>ad_capability = hd_capability d, ad_version = hd_version d, ad_permissions = hd_permissions d\<rparr>"

definition createInProcessPluginActionHost :: "'s PluginActionCatalog \<Rightarrow> 's PluginActionHost" where
  "createInProcessPluginActionHost catalog =
     \<lparr>ho_resolve = (\<lambda>r. eff_return
        (case catalog (ra_pluginId r) (ra_actionId r) of
           None \<Rightarrow> None
         | Some d \<Rightarrow> if hd_version d \<noteq> ra_version r then None else Some (pluginActionDescriptorFromDefinition d))),
      ho_execute = (\<lambda>r.
        case catalog (pm_pluginId (ea_manifest r)) (ea_actionId r) of
          None \<Rightarrow> eff_throw (''plugin action handler not registered: '' @ pm_pluginId (ea_manifest r) @ ''/'' @ ea_actionId r)
        | Some d \<Rightarrow>
            if hd_version d \<noteq> pm_version (ea_manifest r)
            then eff_throw (''plugin action host version mismatch: '' @ hd_version d @ '' != '' @ pm_version (ea_manifest r))
            else if hd_capability d \<noteq> ea_capability r
            then eff_throw (''plugin action host capability mismatch: '' @ capabilityText (hd_capability d) @ '' != '' @ capabilityText (ea_capability r))
            else hd_handler d r)\<rparr>"

definition pluginVersionKey :: "string \<Rightarrow> string \<Rightarrow> string" where
  "pluginVersionKey pluginId version = pluginId @ [CHR 0x00] @ version"

fun composite_entries ::
  "(string \<times> string \<times> 's PluginActionHost) list \<Rightarrow> (string \<times> 's PluginActionHost) list \<Rightarrow> string + (string \<times> 's PluginActionHost) list" where
  "composite_entries [] m = Inr m"
| "composite_entries ((p, v, h) # es) m =
     (let pluginId = trim p; version = trim v; key = pluginVersionKey pluginId version
      in if pluginId = [] then Inl ''composite plugin action host pluginId must not be empty''
         else if version = [] then Inl ''composite plugin action host version must not be empty''
         else if key \<in> fst ` set m then Inl (''duplicate composite plugin action host: '' @ pluginId @ ''@'' @ version)
         else composite_entries es (m @ [(key, h)]))"

definition createCompositePluginActionHost ::
  "(string \<times> string \<times> 's PluginActionHost) list \<Rightarrow> string + 's PluginActionHost" where
  "createCompositePluginActionHost entries =
     (if entries = [] then Inl ''composite plugin action host requires at least one entry''
      else res_bind (composite_entries entries []) (\<lambda>m. Inr
        \<lparr>ho_resolve = (\<lambda>r. case map_of m (pluginVersionKey (ra_pluginId r) (ra_version r)) of
            None \<Rightarrow> eff_return None | Some h \<Rightarrow> ho_resolve h r),
         ho_execute = (\<lambda>r. case map_of m (pluginVersionKey (pm_pluginId (ea_manifest r)) (pm_version (ea_manifest r))) of
            None \<Rightarrow> eff_throw (''plugin action host not registered: '' @ pm_pluginId (ea_manifest r) @ ''@'' @ pm_version (ea_manifest r))
          | Some h \<Rightarrow> ho_execute h r)\<rparr>))"

end
