(* ===== verification/Plugin_Safety.thy ===== *)
theory Plugin_Safety
  imports Plugin_Action
begin

text \<open>
  What the execution of plugin actions promises. An action is executed only for an installed and
  trusted package and with the consent of the guard; the guards consent only to what a policy
  permits. A grant that denies is weaker than it looks: a request that asks for more than the grant
  names escapes it.
\<close>

section \<open>What a policy permits\<close>

definition list_permitted :: "string list option \<Rightarrow> string list option \<Rightarrow> bool" where
  "list_permitted requested permitted \<longleftrightarrow>
     (\<forall>x. (\<exists>xs. requested = Some xs \<and> x \<in> set xs) \<longrightarrow> (\<exists>ys. permitted = Some ys \<and> (x \<in> set ys \<or> ''*'' \<in> set ys)))"

definition time_permitted :: "rat option \<Rightarrow> rat option \<Rightarrow> bool" where
  "time_permitted requested permitted \<longleftrightarrow> (\<forall>r. requested = Some r \<longrightarrow> (\<exists>a. permitted = Some a \<and> r \<le> a))"

definition access_permitted :: "PluginPermissionPolicy \<Rightarrow> PluginPermissionRequest option \<Rightarrow> bool" where
  "access_permitted p request \<longleftrightarrow> (\<forall>r. request = Some r \<longrightarrow>
     list_permitted (pr_resources r) (pr_resources (pp_access p)) \<and> list_permitted (pr_networks r) (pr_networks (pp_access p)) \<and>
     list_permitted (pr_fileSystemPaths r) (pr_fileSystemPaths (pp_access p)) \<and>
     time_permitted (pr_maxExecutionMs r) (pr_maxExecutionMs (pp_access p)))"

text \<open>The policy is for this plugin, this version and this capability, and covers all of the request.\<close>

definition permits :: "PluginPermissionPolicy \<Rightarrow> PluginPermissionGuardOptions \<Rightarrow> bool" where
  "permits p opts \<longleftrightarrow> pp_pluginId p = pm_pluginId (go_plugin opts) \<and> (\<forall>v. pp_version p = Some v \<longrightarrow> v = pm_version (go_plugin opts)) \<and>
     (\<exists>cs. pp_capabilities p = Some cs \<and> go_actionCapability opts \<in> set cs) \<and> access_permitted p (go_request opts)"

lemma list_permitted_iff: "isListAllowed requested permitted \<longleftrightarrow> list_permitted requested permitted"
proof (cases requested)
  case (Some xs)
  then show ?thesis by (cases permitted; cases xs) (auto simp: isListAllowed_def list_permitted_def)
qed (simp add: isListAllowed_def list_permitted_def)

lemma time_permitted_iff: "isExecutionTimeAllowed requested permitted \<longleftrightarrow> time_permitted requested permitted"
  by (auto simp: isExecutionTimeAllowed_def time_permitted_def split: option.splits)

lemma access_permitted_iff: "isAccessRequestAllowed p request \<longleftrightarrow> access_permitted p request"
  by (auto simp: isAccessRequestAllowed_def access_permitted_def list_permitted_iff time_permitted_iff split: option.splits)

lemma covers_permits: "policy_covers opts p \<longleftrightarrow> permits p opts"
  by (cases "pp_version p") (auto simp: policy_covers_def permits_def isPolicyIdentityMatch_def isCapabilityAllowed_def access_permitted_iff split: option.splits)

section \<open>Guards\<close>

text \<open>What the handler relies on: a guard that does not deny has a reason to allow.\<close>

locale sound_guard =
  fixes authorize :: PluginPermissionGuard
    and agreed :: "PluginPermissionGuardOptions \<Rightarrow> bool"
  assumes not_denied: "pd_status (authorize opts) \<noteq> DS_denied \<Longrightarrow> agreed opts"

definition policy_agrees :: "PluginPermissionPolicy \<Rightarrow> PluginPermissionGuardOptions \<Rightarrow> bool" where
  "policy_agrees p opts \<longleftrightarrow> pp_decision p = PD_allow \<and> permits p opts"

definition grants_agree :: "PluginPermissionPolicy list \<Rightarrow> PluginPermissionGuardOptions \<Rightarrow> bool" where
  "grants_agree ps opts \<longleftrightarrow> (\<exists>p \<in> set ps. pp_decision p = PD_allow \<and> permits p opts) \<and>
     (\<forall>p \<in> set ps. pp_decision p = PD_deny \<longrightarrow> \<not> permits p opts)"

lemma policy_guard_exact: "pd_status (authorize_policy p opts) \<noteq> DS_denied \<longleftrightarrow> policy_agrees p opts"
proof -
  have "pp_decision p = PD_deny \<longleftrightarrow> pp_decision p \<noteq> PD_allow" by (cases "pp_decision p") simp_all
  then show ?thesis
    by (auto simp: authorize_policy_def policy_agrees_def permits_def Let_def denied_def allowed_def isCapabilityAllowed_def access_permitted_iff
        split: option.splits)
qed

lemma grant_guard_exact: "pd_status (authorize_grants ps opts) \<noteq> DS_denied \<longleftrightarrow> grants_agree ps opts"
  by (auto simp: authorize_grants_def grants_agree_def covers_permits denied_def allowed_def find_None_iff split: option.splits)
    (auto simp: find_Some_iff dest: nth_mem)

interpretation policy: sound_guard "authorize_policy p" "policy_agrees p"
  by unfold_locales (simp add: policy_guard_exact)

interpretation grants: sound_guard "authorize_grants ps" "grants_agree ps"
  by unfold_locales (simp add: grant_guard_exact)

section \<open>The handler\<close>

text \<open>A package that may be executed.\<close>

definition package_trusted :: "PluginManifestRecord \<Rightarrow> PluginInstallRecord \<Rightarrow> bool" where
  "package_trusted manifest install \<longleftrightarrow> pi_pluginId install = pm_pluginId manifest \<and> pi_version install = pm_version manifest \<and>
     pi_state install = PI_installed \<and>
     (\<exists>trust. pluginPackageTrustRecordFromJson (pi_trust install) = Inr trust \<and> tr_pluginId trust = pm_pluginId manifest \<and>
        tr_version trust = pm_version manifest \<and> tr_decision trust = PT_allow \<and>
        (\<forall>s. tr_signature trust = Some s \<longrightarrow> sg_verified s))"

text \<open>What has to hold before an action is executed, from the state \<open>s\<close> on.\<close>

definition action_cleared ::
  "'s PluginActionJobHandlerOptions \<Rightarrow> bool \<Rightarrow> SchedulerJobRecord \<Rightarrow> 's \<Rightarrow> ExecutePluginActionRequest \<Rightarrow> PluginPermissionGuardOptions \<Rightarrow> bool" where
  "action_cleared opts aborted job s r g \<longleftrightarrow> \<not> aborted \<and>
     (\<exists>p d admission u t. pluginActionJobPayloadFromJson (jb_payload job) = Inr p \<and>
        ho_resolve (ho_host opts) \<lparr>ra_pluginId = jp_pluginId p, ra_actionId = jp_actionId p, ra_version = jp_version p\<rparr> s = (Inr (Some d), u) \<and>
        ad_version d = jp_version p \<and>
        (\<forall>c. jp_requiredCapability p = Some c \<longrightarrow> c = ad_capability d) \<and>
        ho_storage opts (jp_pluginId p) (jp_version p) (ad_capability d) u = (Inr admission, t) \<and>
        package_trusted (am_manifest admission) (am_install admission) \<and>
        r = \<lparr>ea_job = job, ea_manifest = am_manifest admission, ea_actionId = jp_actionId p, ea_capability = ad_capability d, ea_payload = jp_payload p\<rparr> \<and>
        g = \<lparr>go_policy = defaultPluginPermissionPolicy (am_manifest admission), go_plugin = am_manifest admission, go_actionId = jp_actionId p,
          go_actionCapability = ad_capability d, go_payload = jp_payload p, go_request = ad_permissions d\<rparr>)"

lemma executable_manifest:
  assumes "requireExecutablePluginManifest store i v c s = (Inr m, t)"
  shows "\<exists>admission. store i v c s = (Inr admission, t) \<and> m = am_manifest admission \<and> package_trusted m (am_install admission)"
  using assms
  by (auto simp: requireExecutablePluginManifest_def eff_bind_def eff_result_def eff_return_def assertPluginInstallExecutable_def
      assertPluginPackageTrusted_def package_trusted_def res_bind_eq_Inr guard_eq_Inr split: prod.splits sum.splits option.splits)

lemma admitted:
  assumes run: "admit_action opts aborted job s = (Inr r, t)"
  shows "\<exists>g authorize. action_cleared opts aborted job s r g \<and> go_policy g = defaultPluginPermissionPolicy (ea_manifest r) \<and>
    (case ho_permissionGuard opts of Some a \<Rightarrow> authorize = a | None \<Rightarrow> authorize = authorize_policy (go_policy g)) \<and>
    pd_status (authorize g) \<noteq> DS_denied"
proof -
  from run obtain p where ok: "\<not> aborted" and p: "pluginActionJobPayloadFromJson (jb_payload job) = Inr p"
    by (cases "pluginActionJobPayloadFromJson (jb_payload job)") (auto simp: admit_action_def eff_bind_def eff_defs split: if_splits)
  from run ok p obtain d s2 where res: "ho_resolve (ho_host opts) \<lparr>ra_pluginId = jp_pluginId p, ra_actionId = jp_actionId p, ra_version = jp_version p\<rparr> s = (Inr (Some d), s2)"
    and d: "ad_version d = jp_version p" "case jp_requiredCapability p of None \<Rightarrow> True | Some c \<Rightarrow> c = ad_capability d"
    and rest: "eff_bind (requireExecutablePluginManifest (ho_storage opts) (jp_pluginId p) (jp_version p) (ad_capability d)) (\<lambda>manifest.
         eff_bind (eff_result (case ad_permissions d of None \<Rightarrow> Inr () | Some r \<Rightarrow> validatePluginPermissionRequest r)) (\<lambda>_.
         let policy = defaultPluginPermissionPolicy manifest in
         eff_bind (eff_result (case ho_permissionGuard opts of Some g \<Rightarrow> Inr g | None \<Rightarrow> createPluginPermissionGuard policy)) (\<lambda>authorize.
         eff_bind (eff_guard (pd_status (authorize \<lparr>go_policy = policy, go_plugin = manifest, go_actionId = jp_actionId p,
               go_actionCapability = ad_capability d, go_payload = jp_payload p, go_request = ad_permissions d\<rparr>) \<noteq> DS_denied)
             (''plugin permission denied: '' @ pm_pluginId manifest @ ''/'' @ jp_actionId p)) (\<lambda>_.
         eff_return \<lparr>ea_job = job, ea_manifest = manifest, ea_actionId = jp_actionId p, ea_capability = ad_capability d,
           ea_payload = jp_payload p\<rparr>)))) s2 = (Inr r, t)"
    by (auto simp: admit_action_def Let_def eff_bind_def eff_guard_def eff_result_def eff_return_def eff_throw_def
        split: prod.splits sum.splits option.splits if_splits)
  from rest obtain m s3 where m: "requireExecutablePluginManifest (ho_storage opts) (jp_pluginId p) (jp_version p) (ad_capability d) s2 = (Inr m, s3)"
    by (cases "requireExecutablePluginManifest (ho_storage opts) (jp_pluginId p) (jp_version p) (ad_capability d) s2")
      (auto simp: eff_bind_def split: sum.splits)
  let ?g = "\<lparr>go_policy = defaultPluginPermissionPolicy m, go_plugin = m, go_actionId = jp_actionId p,
      go_actionCapability = ad_capability d, go_payload = jp_payload p, go_request = ad_permissions d\<rparr>"
  from rest m obtain authorize where a: "(case ho_permissionGuard opts of Some g \<Rightarrow> Inr g | None \<Rightarrow> createPluginPermissionGuard (defaultPluginPermissionPolicy m)) = Inr authorize"
    "pd_status (authorize ?g) \<noteq> DS_denied"
    and r: "r = \<lparr>ea_job = job, ea_manifest = m, ea_actionId = jp_actionId p, ea_capability = ad_capability d, ea_payload = jp_payload p\<rparr>"
    by (auto simp: eff_bind_def eff_defs Let_def split: sum.splits if_splits)
  have "case ho_permissionGuard opts of Some a \<Rightarrow> authorize = a | None \<Rightarrow> authorize = authorize_policy (go_policy ?g)"
    using a(1) by (auto simp: createPluginPermissionGuard_def res_bind_eq_Inr split: option.splits)
  moreover have "action_cleared opts aborted job s r ?g"
    using ok p res d executable_manifest [OF m] r unfolding action_cleared_def by (auto split: option.splits)
  ultimately show ?thesis using a(2) r by fastforce
qed

context sound_guard
begin

lemma admitted_agreed:
  assumes "admit_action opts aborted job s = (Inr r, t)" "ho_permissionGuard opts = Some authorize"
  shows "\<exists>g. action_cleared opts aborted job s r g \<and> agreed g"
  using admitted [OF assms(1)] assms(2) not_denied by auto

end

lemma admitted_by_default:
  assumes "admit_action opts aborted job s = (Inr r, t)" "ho_permissionGuard opts = None"
  shows "\<exists>g. action_cleared opts aborted job s r g \<and> policy_agrees (defaultPluginPermissionPolicy (ea_manifest r)) g"
  using admitted [OF assms(1)] assms(2) policy.not_denied by fastforce

lemma grant_guard_created:
  assumes "createPluginPermissionGrantGuard grants = Inr authorize"
  shows "authorize = authorize_grants (map pluginPermissionPolicyFromGrantUnsafe grants)"
proof -
  have one: "pluginPermissionPolicyFromGrant g = Inr p \<Longrightarrow> p = pluginPermissionPolicyFromGrantUnsafe g" for g p
    by (auto simp: pluginPermissionPolicyFromGrant_def res_bind_eq_Inr)
  have "map_result pluginPermissionPolicyFromGrant gs = Inr ps \<Longrightarrow> ps = map pluginPermissionPolicyFromGrantUnsafe gs" for gs ps
    by (induction gs arbitrary: ps) (auto simp: res_bind_eq_Inr one)
  then show ?thesis using assms by (auto simp: createPluginPermissionGrantGuard_def res_bind_eq_Inr split: if_splits)
qed

text \<open>
  C10. A plugin action is executed only if the job was not aborted, the host knows the action in the
  version of the job and with the capability that the job requires, the package is installed and
  trusted, with a verified signature if it has one, and the permissions agree: by default no resource,
  network or path and at most thirty seconds; with grants, one that allows the whole request and none
  that denies the whole request. Otherwise the job fails before the host is asked to execute anything.
\<close>

theorem plugin_action_authorized:
  assumes "worker_guard None grants = Inr (ho_permissionGuard opts)"
  shows "(\<exists>e t. admit_action opts aborted job s = (Inl e, t) \<and> plugin_action_handler opts aborted job s = (Inl e, t)) \<or>
    (\<exists>r t g. action_cleared opts aborted job s r g \<and>
      (case grants of None \<Rightarrow> policy_agrees (defaultPluginPermissionPolicy (ea_manifest r)) g
       | Some gs \<Rightarrow> grants_agree (map pluginPermissionPolicyFromGrantUnsafe gs) g) \<and>
      plugin_action_handler opts aborted job s =
        eff_bind (ho_execute (ho_host opts) r) (\<lambda>result. eff_return (case result of None \<Rightarrow> JNull | Some v \<Rightarrow> v)) t)"
proof (cases "admit_action opts aborted job s")
  case (Pair a t)
  show ?thesis
  proof (cases a)
    case (Inl e)
    then show ?thesis using Pair by (simp add: plugin_action_handler_def eff_bind_def)
  next
    case (Inr r)
    with Pair have run: "admit_action opts aborted job s = (Inr r, t)" by simp
    have "\<exists>g. action_cleared opts aborted job s r g \<and>
      (case grants of None \<Rightarrow> policy_agrees (defaultPluginPermissionPolicy (ea_manifest r)) g
       | Some gs \<Rightarrow> grants_agree (map pluginPermissionPolicyFromGrantUnsafe gs) g)"
    proof (cases grants)
      case None
      then show ?thesis using admitted_by_default [OF run] assms by (simp add: worker_guard_def)
    next
      case (Some gs)
      then have "ho_permissionGuard opts = Some (authorize_grants (map pluginPermissionPolicyFromGrantUnsafe gs))"
        using assms grant_guard_created by (auto simp: worker_guard_def res_bind_eq_Inr)
      from grants.admitted_agreed [OF run this] show ?thesis using Some by simp
    qed
    then show ?thesis using run by (auto simp: plugin_action_handler_def eff_bind_def [of "admit_action opts aborted job"])
  qed
qed

section \<open>Grants that deny\<close>

definition asks_for :: "string list \<Rightarrow> PluginPermissionRequest" where
  "asks_for xs = \<lparr>pr_resources = Some xs, pr_networks = None, pr_fileSystemPaths = None, pr_maxExecutionMs = None\<rparr>"

definition concerns :: "PluginPermissionGuardOptions \<Rightarrow> PluginPermissionGrant \<Rightarrow> bool" where
  "concerns opts g \<longleftrightarrow> pp_pluginId g = pm_pluginId (go_plugin opts) \<and> (pp_version g = None \<or> pp_version g = Some (pm_version (go_plugin opts))) \<and>
     (\<exists>cs. pp_capabilities g = Some cs \<and> go_actionCapability opts \<in> set cs)"

lemma permits_asked:
  "permits (pluginPermissionPolicyFromGrantUnsafe g) (opts\<lparr>go_request := Some (asks_for xs)\<rparr>) \<longleftrightarrow>
     concerns opts g \<and> list_permitted (Some xs) (pr_resources (pp_access g))"
  by (cases "pp_version g")
    (auto simp: permits_def concerns_def access_permitted_def asks_for_def time_permitted_def list_permitted_def [of None]
      pluginPermissionPolicyFromGrantUnsafe_def PluginPermissionPolicy.truncate_def)

lemma unsafe_fields [simp]: "pp_decision (pluginPermissionPolicyFromGrantUnsafe g) = pp_decision g"
  by (simp add: pluginPermissionPolicyFromGrantUnsafe_def PluginPermissionPolicy.truncate_def)

lemma status_cases: "st = DS_allowed \<longleftrightarrow> st \<noteq> DS_denied"
  by (cases st) simp_all

text \<open>
  C34. A grant that denies a resource does not keep a plugin from it. With a grant that allows every
  resource and one that denies the resource \<open>y\<close>, a request for \<open>y\<close> is denied; but a request for
  \<open>y\<close> together with any \<open>x\<close> that no denying grant names is allowed, since a grant denies only
  requests that it covers as a whole.
\<close>

theorem denial_evaded_by_asking_more:
  assumes "createPluginPermissionGrantGuard grants = Inr authorize"
    and "a \<in> set grants" "pp_decision a = PD_allow" "concerns opts a" "pr_resources (pp_access a) = Some as" "''*'' \<in> set as"
    and "d \<in> set grants" "pp_decision d = PD_deny" "concerns opts d" "pr_resources (pp_access d) = Some ds" "y \<in> set ds"
    and "\<forall>g \<in> set grants. pp_decision g = PD_deny \<longrightarrow> (\<forall>xs. pr_resources (pp_access g) = Some xs \<longrightarrow> x \<notin> set xs \<and> ''*'' \<notin> set xs)"
  shows "pd_status (authorize (opts\<lparr>go_request := Some (asks_for [y])\<rparr>)) = DS_denied \<and>
    pd_status (authorize (opts\<lparr>go_request := Some (asks_for [y, x])\<rparr>)) = DS_allowed"
proof -
  let ?ps = "map pluginPermissionPolicyFromGrantUnsafe grants"
  note auth = grant_guard_created [OF assms(1)]
  have "list_permitted (Some [y]) (Some ds)" using assms(11) by (simp add: list_permitted_def)
  then have "permits (pluginPermissionPolicyFromGrantUnsafe d) (opts\<lparr>go_request := Some (asks_for [y])\<rparr>)"
    using assms(9,10) by (simp add: permits_asked)
  then have "\<not> grants_agree ?ps (opts\<lparr>go_request := Some (asks_for [y])\<rparr>)" using assms(7,8) by (force simp: grants_agree_def)
  moreover have "list_permitted (Some [y, x]) (Some as)" using assms(6) by (simp add: list_permitted_def)
  then have "permits (pluginPermissionPolicyFromGrantUnsafe a) (opts\<lparr>go_request := Some (asks_for [y, x])\<rparr>)"
    using assms(4,5) by (simp add: permits_asked)
  moreover have "\<not> list_permitted (Some [y, x]) (pr_resources (pp_access g))" if "g \<in> set grants" "pp_decision g = PD_deny" for g
  proof
    assume "list_permitted (Some [y, x]) (pr_resources (pp_access g))"
    then obtain zs where "pr_resources (pp_access g) = Some zs" "x \<in> set zs \<or> ''*'' \<in> set zs"
      unfolding list_permitted_def by (metis list.set_intros(1,2))
    then show False using assms(12) that by blast
  qed
  ultimately have "grants_agree ?ps (opts\<lparr>go_request := Some (asks_for [y, x])\<rparr>)" "\<not> grants_agree ?ps (opts\<lparr>go_request := Some (asks_for [y])\<rparr>)"
    using assms(2,3) by (auto simp: grants_agree_def permits_asked intro!: bexI [of _ a])
  then show ?thesis unfolding auth using grant_guard_exact status_cases by blast
qed

definition demo_grant :: "PluginPermissionDecisionStatus \<Rightarrow> string list \<Rightarrow> PluginPermissionGrant" where
  "demo_grant decision xs = \<lparr>pp_pluginId = ''mail'', pp_version = None, pp_decision = decision, pp_reason = None,
     pp_capabilities = Some [PC_resource_read], pp_access = asks_for xs, gr_metadata = None\<rparr>"

definition demo_manifest :: PluginManifestRecord where
  "demo_manifest = \<lparr>pm_id = ''m1'', pm_pluginId = ''mail'', pm_version = ''1.0.0'', pm_name = None, pm_entry = None,
     pm_capabilities = [PC_resource_read], pm_state = PM_registered, pm_metadata = None, pm_createdAt = 1, pm_updatedAt = 1, pm_disabledAt = None\<rparr>"

definition demo_options :: PluginPermissionGuardOptions where
  "demo_options = \<lparr>go_policy = defaultPluginPermissionPolicy demo_manifest, go_plugin = demo_manifest, go_actionId = ''read'',
     go_actionCapability = PC_resource_read, go_payload = JNull, go_request = None\<rparr>"

definition demo_grants :: "PluginPermissionGrant list" where
  "demo_grants = [demo_grant PD_allow [''*''], demo_grant PD_deny [''inbox'']]"

lemma demo_guard: "\<exists>authorize. createPluginPermissionGrantGuard demo_grants = Inr authorize"
  by (simp add: createPluginPermissionGrantGuard_def demo_grants_def demo_grant_def pluginPermissionPolicyFromGrant_def
      validatePluginPermissionGrant_def validatePluginPermissionPolicy_def pluginPermissionPolicyFromGrantUnsafe_def
      PluginPermissionPolicy.truncate_def validateStringList_def asks_for_def)

theorem denial_evaded_by_asking_more_witness:
  "\<exists>authorize. createPluginPermissionGrantGuard demo_grants = Inr authorize \<and>
    pd_status (authorize (demo_options\<lparr>go_request := Some (asks_for [''inbox''])\<rparr>)) = DS_denied \<and>
    pd_status (authorize (demo_options\<lparr>go_request := Some (asks_for [''inbox'', ''outbox''])\<rparr>)) = DS_allowed"
proof -
  from demo_guard obtain authorize where guard: "createPluginPermissionGrantGuard demo_grants = Inr authorize" by blast
  have "concerns demo_options (demo_grant c xs)" for c xs
    by (simp add: concerns_def demo_options_def demo_manifest_def demo_grant_def)
  with denial_evaded_by_asking_more [OF guard, of "demo_grant PD_allow [''*'']" demo_options "[''*'']" "demo_grant PD_deny [''inbox'']" "[''inbox'']" "''inbox''" "''outbox''"]
  show ?thesis using guard by (simp add: demo_grants_def) (simp add: demo_grant_def asks_for_def)
qed

text \<open>A job for an action of a trusted package, whose handler answers with its payload.\<close>

definition demo_trust :: json where
  "demo_trust = JObj [(''kind'', JStr WANEX_PLUGIN_PACKAGE_TRUST_KIND), (''pluginId'', JStr ''mail''), (''version'', JStr ''1.0.0''),
     (''source'', JObj [(''kind'', JStr ''local'')]), (''install'', JObj [(''rootDir'', JStr ''/p'')]), (''decision'', JObj [(''status'', JStr ''allow'')])]"

definition demo_install :: PluginInstallRecord where
  "demo_install = \<lparr>pi_id = ''i1'', pi_pluginId = ''mail'', pi_version = ''1.0.0'', pi_state = PI_installed, pi_layout = JNull, pi_trust = demo_trust,
     pi_installRootDir = ''/p'', pi_metadata = None, pi_installedAt = 1, pi_updatedAt = 1, pi_disabledAt = None, pi_removedAt = None\<rparr>"

definition demo_catalog :: "unit PluginActionCatalog" where
  "demo_catalog p a = (if p = ''mail'' \<and> a = ''read''
     then Some \<lparr>hd_capability = PC_resource_read, hd_version = ''1.0.0'', hd_permissions = Some (asks_for [''outbox'']),
       hd_handler = (\<lambda>r. eff_return (Some (ea_payload r)))\<rparr> else None)"

definition demo_handler :: "PluginPermissionGuard \<Rightarrow> unit PluginActionJobHandlerOptions" where
  "demo_handler authorize = \<lparr>ho_host = createInProcessPluginActionHost demo_catalog,
     ho_storage = (\<lambda>_ _ _. eff_return \<lparr>am_manifest = demo_manifest, am_install = demo_install\<rparr>), ho_permissionGuard = Some authorize\<rparr>"

definition demo_job :: SchedulerJobRecord where
  "demo_job = \<lparr>jb_id = ''j1'', jb_kind = JK_plugin_action, jb_queue = ''q'', jb_state = JS_running, jb_principalId = ''p'',
     jb_payload = JObj [(''pluginId'', JStr ''mail''), (''version'', JStr ''1.0.0''), (''actionId'', JStr ''read''), (''payload'', JStr ''hi'')],
     jb_scheduledAt = 1, jb_notBefore = None, jb_priority = 0, jb_concurrencyKey = None, jb_attempt = 1, jb_maxAttempts = 1,
     jb_retryPolicy = \<lparr>rp_strategy = RS_none, rp_initialDelayMs = None, rp_maxDelayMs = None\<rparr>, jb_idempotencyKey = None, jb_budgetGrantId = None,
     jb_leaseOwner = None, jb_leaseToken = None, jb_leaseExpiresAt = None, jb_result = None, jb_lastError = None, jb_createdAt = 1,
     jb_updatedAt = 1, jb_finishedAt = None\<rparr>"

abbreviation demo_authorize :: PluginPermissionGuard where
  "demo_authorize \<equiv> authorize_grants (map pluginPermissionPolicyFromGrantUnsafe demo_grants)"

lemma demo_worker_guard: "worker_guard None (Some demo_grants) = Inr (Some demo_authorize)"
  using demo_guard grant_guard_created [of demo_grants] by (auto simp: worker_guard_def)

lemma demo_action_run: "plugin_action_handler (demo_handler demo_authorize) False demo_job () = (Inr (JStr ''hi''), ())"
  by code_simp

theorem plugin_action_authorized_witness:
  "worker_guard None (Some demo_grants) = Inr (ho_permissionGuard (demo_handler demo_authorize)) \<and>
   plugin_action_handler (demo_handler demo_authorize) False demo_job () = (Inr (JStr ''hi''), ()) \<and>
   (\<exists>r g. action_cleared (demo_handler demo_authorize) False demo_job () r g \<and>
     grants_agree (map pluginPermissionPolicyFromGrantUnsafe demo_grants) g)"
proof -
  have guard: "worker_guard None (Some demo_grants) = Inr (ho_permissionGuard (demo_handler demo_authorize))"
    using demo_worker_guard by (simp add: demo_handler_def)
  from plugin_action_authorized [OF this, of False demo_job "()"] show ?thesis
    using guard demo_action_run by auto
qed

end
