(* ===== verification/Spec2Isabelle.thy ===== *)
theory Spec2Isabelle
  imports Changesets Path_Policy Batch_Order Transaction_Process Workspace_Safety Proposal_Apply
    Delegation_Status Worker_Safety Worker_Loop Command_Schema_Termination Extension_Safety Provider_Safety Remote_Frames
    Plugin_Safety
begin

text \<open>
  Verification of wanex, a runtime kernel for agents: TypeScript packages (src/packages) over a
  system service in Rust (src/crates/system-service) that keeps all durable state in SQLite.

  \<^bold>\<open>The program.\<close> Work is a job of the scheduler of the system service. A worker
  (packages/runtime/src/jobs) claims a job under a lease, runs its handler with a timeout and
  heartbeats, and settles it; budgets limit what jobs may use. A delegation graph
  (packages/team/src/delegation) turns nodes with dependencies into jobs. The turn of a model reads
  a stream of server-sent events and assembles a response from them (packages/runtime/src/provider).
  Changes to files go through changesets, proposals and transactions (packages/workspace), which a
  helper process carries out and a durable store makes recoverable. All of them call the service
  over the storage RPC (packages/storage). Extensions contribute commands and other values, which a
  resolver validates and merges (packages/extension); plugins act under permissions (packages/plugin).

  \<^bold>\<open>How it is modelled.\<close> Pure functions are HOL functions; a function that throws returns
  \<open>error + value\<close>; an asynchronous function is a computation \<open>eff\<close> over the state of its world (theory
  Prelude), where changes made before an exception stay. Concurrent parts (a worker, a worker loop,
  the runs of a workspace) are step relations. Numbers of the wire are rationals, the columns of the
  service integers of 64 bits where overflow matters (Budget_Types, Scheduler_Store). Characters are
  those of HOL, code units below 256.

  \<^bold>\<open>Workspace.\<close> Changesets (changesets/*.ts): validation, planning and undo; the plan reaches its
  target, the undo restores it, conflicts are found exactly. Path_Policy (path-policy.ts): accepted
  paths stay in the workspace, and what is outside of it does not matter. Batch_Order and Proposal_Apply (review/apply/*.ts): ordering of a batch
  by Kahn's algorithm, sound, complete and terminating by a measure on the nodes not yet released, and
  its application in order. Workspace_Types, Transaction_Store (the tables in
  crates/system-service/src/workspace/transaction), Transaction_World (files, helper and faults),
  Transaction (transaction/runtime.ts, recovery.ts, receipt.ts), Transaction_Process
  (process-executor.ts, the frames of the helper) and Workspace_Runtime (runtime.ts, history.ts) are
  the model; Effect_Triples, Transaction_Services, Transaction_Invariant, Transaction_Claims,
  Transaction_Safety and Workspace_Safety prove, by an invariant over every service call and rule
  induction over the runs, that whatever fails or crashes a transaction is atomic and its record
  never claims more than the files show. Faults are calls that fail before or after they had their
  effect, processes that stop at any call, and helpers that die while they write a temporary file
  and leave only a part of it; renames are atomic, and nobody else writes to the files meanwhile.

  \<^bold>\<open>Delegation.\<close> Delegation_Types, Delegation_Graph (team/src/delegation/graph/*.ts),
  Delegation_Store (delegation.rs, the enqueueing of scheduler.rs). Delegation_Spec states the interface
  of the store as a locale and an abstract graph; Delegation_Safety interprets it and shows that the
  step refines the abstract graph and nodes run only after their dependencies, as long as nobody
  sets the state of a node by hand or adds a dependency to a node that has begun. Delegation_Status
  (status.ts) compares the status with the store and explains blocked graphs.

  \<^bold>\<open>Storage RPC.\<close> Rpc_Codec (JSON readers, envelopes, the retry loop of a call, at most
  four attempts), Delegation_Codec and Scheduler_Codec (request writers, record readers, store methods);
  Delegation_Rpc and Scheduler_Rpc add the dispatcher of rpc.rs and show that the client over it is
  the service, but for the scope of an objective, which the client cannot read. Where the generated
  readers of the service demand a field that may be null, the model also takes a request without
  it; the client writes all of them.

  \<^bold>\<open>Scheduler.\<close> Budget_Types, Budget_Store (budget.rs), Scheduler_Store (scheduler.rs);
  Scheduler_Safety: exclusive concurrency keys, settled jobs stay, lost leases settle nothing,
  back-off. Its \<open>job_step\<close> are the calls of the queue, of budgets and of materialization, with the
  tables of sessions and teams empty; \<open>service_step\<close> adds what all the rest of the service may do to
  the rows of jobs. Budget_Safety: limits are respected. Abort_Registry (active-abort.ts, worker-error.ts),
  Worker (worker.ts, heartbeat.ts, timeout.ts), Worker_Safety: a run settles its job under its own
  lease, once, or by a failure after a completion that threw. Worker_Loop (worker-loop.ts, job-runtime.ts): one run at a time.

  \<^bold>\<open>Extensions.\<close> Command_Schema (command-input-schema-*.ts) on a heap of objects that may be
  cyclic; Command_Schema_Safety: accepted schemas are well formed; Command_Schema_Termination: the
  work is bounded. Extension_Resolver (resolver-*.ts) and Extension_Safety: what the resolver
  returns, and what merging does to privileges.

  \<^bold>\<open>Plugins.\<close> Plugin_Permission (packages/plugin/src/permission-*.ts), Plugin_Action
  (action-job-handler.ts, action-manifest.ts, codec-trust.ts and the hosts in the process) and
  Plugin_Safety: an action is executed only for a trusted package and with the consent of its guard;
  grants that deny can be evaded. The result of a host is a JSON value by its type, so the check
  of the handler that refuses other values has nothing to refuse.

  \<^bold>\<open>Provider turns.\<close> Event_Stream (provider/sse.ts, host/remote-sse-parser.ts),
  Event_Stream_Safety and Remote_Frames: what is parsed depends on the text and not on the chunks.
  Provider_Turn (consume.ts, image-output.ts) and Provider_Safety: the response is the one that the
  events describe, and the error that ends a turn is the one thrown, marked exactly if output had
  been pulled or it came marked. Decimal_Text holds the text of numbers and \<open>trim\<close>.

  \<^bold>\<open>Interfaces.\<close> The locales are \<open>delegation_store\<close>, the kept properties of the resolver, the nested
  parser of schemas, the guards of plugins and the guarded readers of streams, each interpreted on the definitions of the
  model in the theory that provides them.

  \<^bold>\<open>Bounds.\<close> Almost every recursion is structural or has its measure. The schema parser recurses on
  the depth that its limit leaves, which the code checks as well, so the bound loses nothing. The
  retry loop of a call recurses on the attempts that are left of the four. The command loop of the
  helper ends because every turn consumes output. Worlds with faults take a list of faults, which may
  be empty; lists of events and chunks are finite, as are runs that have ended.

  \<^bold>\<open>Arguments.\<close> SHA-256, \<open>JSON.parse\<close>, the text of a number, \<open>localeCompare\<close>, \<open>TextDecoder\<close>, clocks and
  identifiers are arguments, with what is relied on as hypotheses where a theorem needs it.

  \<^bold>\<open>Not modelled.\<close> SQL and the event log of the service; sessions, turns, plans, objectives, team
  conversations, tools, contexts and memory of the runtime, which are larger than what is modelled and
  rest on it; provider adapters, whose counterpart is a remote service; git, processes, sandboxes,
  sockets and HTTP; plugin packages and subprocesses, connectors, MCP; the applications and their user interfaces; tests,
  scripts and generated code. Real time is only that of leases and timers as events; memory is
  unbounded.
\<close>

end
